(* ===== verification/Nodara_Prelude.thy ===== *)
theory Nodara_Prelude
  imports Main "HOL-Library.Char_ord" "HOL-Library.List_Lexorder" "HOL-Library.Word"
begin

text \<open>
  Shared material of the development: the text model (Rust strings over the first 256
  Unicode scalar values), the string operations of the Rust standard library that the
  code calls, results as sums, sorted key-value maps (\<open>BTreeMap\<close>) with their interface,
  and saturating machine arithmetic.

  Text. A Rust \<open>String\<close> is a sequence of Unicode scalar values; a \<open>char\<close> of HOL stands
  for one scalar value in the range 0 to 255. The character classes below are the
  Unicode classes restricted to that range. The byte-wise scans of the code look for
  ASCII characters only, so scanning scalars instead of UTF-8 bytes finds the same
  places.
\<close>

section \<open>Hint collections\<close>

named_theorems om_simps \<open>lookup and key facts of the sorted maps\<close>
named_theorems text_simps \<open>facts about trimming, splitting and searching text\<close>

section \<open>Results\<close>

type_synonym ('e, 'a) result = "'e + 'a"

definition bind_result :: "('e, 'a) result \<Rightarrow> ('a \<Rightarrow> ('e, 'b) result) \<Rightarrow> ('e, 'b) result" where
  "bind_result r f = (case r of Inl e \<Rightarrow> Inl e | Inr a \<Rightarrow> f a)"

lemma bind_result_simps [simp]:
  "bind_result (Inl e) f = Inl e"
  "bind_result (Inr a) f = f a"
  by (simp_all add: bind_result_def)

lemma bind_result_Inr [simp]:
  "bind_result r f = Inr b \<longleftrightarrow> (\<exists>a. r = Inr a \<and> f a = Inr b)"
  by (cases r) auto

definition is_ok :: "('e, 'a) result \<Rightarrow> bool" where
  "is_ok r = (case r of Inl _ \<Rightarrow> False | Inr _ \<Rightarrow> True)"

lemma is_ok_simps [simp]: "\<not> is_ok (Inl e)" "is_ok (Inr a)"
  by (simp_all add: is_ok_def)

section \<open>Character classes\<close>

text \<open>\<open>char::is_whitespace\<close>: Unicode White_Space below 256.\<close>

definition is_space :: "char \<Rightarrow> bool" where
  "is_space c = (let n = (of_char c :: nat) in (9 \<le> n \<and> n \<le> 13) \<or> n = 32 \<or> n = 133 \<or> n = 160)"

definition is_digit :: "char \<Rightarrow> bool" where
  "is_digit c = (let n = (of_char c :: nat) in 48 \<le> n \<and> n \<le> 57)"

definition digit_value :: "char \<Rightarrow> nat" where
  "digit_value c = of_char c - 48"

definition is_upper_ascii :: "char \<Rightarrow> bool" where
  "is_upper_ascii c = (let n = (of_char c :: nat) in 65 \<le> n \<and> n \<le> 90)"

text \<open>\<open>char::is_alphabetic\<close>: ASCII letters, the ordinal indicators, the micro sign and the
  Latin-1 letters (which skip the multiplication and division signs).\<close>

definition is_alphabetic :: "char \<Rightarrow> bool" where
  "is_alphabetic c = (let n = (of_char c :: nat) in
     (65 \<le> n \<and> n \<le> 90) \<or> (97 \<le> n \<and> n \<le> 122) \<or> n = 170 \<or> n = 181 \<or> n = 186 \<or>
     (192 \<le> n \<and> n \<le> 255 \<and> n \<noteq> 215 \<and> n \<noteq> 247))"

text \<open>\<open>char::is_alphanumeric\<close> adds the numeric characters: digits, superscript one to three
  and the vulgar fractions.\<close>

definition is_alphanumeric :: "char \<Rightarrow> bool" where
  "is_alphanumeric c = (let n = (of_char c :: nat) in
     is_alphabetic c \<or> is_digit c \<or> n = 178 \<or> n = 179 \<or> n = 185 \<or> (188 \<le> n \<and> n \<le> 190))"

definition to_ascii_lower_char :: "char \<Rightarrow> char" where
  "to_ascii_lower_char c = (if is_upper_ascii c then char_of ((of_char c :: nat) + 32) else c)"

definition to_ascii_lowercase :: "string \<Rightarrow> string" where
  "to_ascii_lowercase s = map to_ascii_lower_char s"

definition eq_ignore_ascii_case :: "string \<Rightarrow> string \<Rightarrow> bool" where
  "eq_ignore_ascii_case s t = (to_ascii_lowercase s = to_ascii_lowercase t)"

section \<open>String operations of the standard library\<close>

definition trim_start :: "string \<Rightarrow> string" where
  "trim_start s = dropWhile is_space s"

definition trim_end :: "string \<Rightarrow> string" where
  "trim_end s = rev (dropWhile is_space (rev s))"

definition trim :: "string \<Rightarrow> string" where
  "trim s = trim_end (trim_start s)"

text \<open>\<open>str::split\<close> by a character predicate: never empty, the separators are dropped.\<close>

fun split_by :: "(char \<Rightarrow> bool) \<Rightarrow> string \<Rightarrow> string list" where
  "split_by p [] = [[]]"
| "split_by p (c # cs) =
     (if p c then [] # split_by p cs
      else (case split_by p cs of [] \<Rightarrow> [[c]] | w # ws \<Rightarrow> (c # w) # ws))"

definition split_dots :: "string \<Rightarrow> string list" where
  "split_dots s = split_by (\<lambda>c. c = CHR ''.'') s"

definition starts_with :: "string \<Rightarrow> string \<Rightarrow> bool" where
  "starts_with p s = (take (length p) s = p)"

definition strip_prefix :: "string \<Rightarrow> string \<Rightarrow> string option" where
  "strip_prefix p s = (if starts_with p s then Some (drop (length p) s) else None)"

definition strip_suffix :: "string \<Rightarrow> string \<Rightarrow> string option" where
  "strip_suffix p s =
     (if length p \<le> length s \<and> drop (length s - length p) s = p
      then Some (take (length s - length p) s) else None)"

text \<open>\<open>text.find(pat)\<close> for a non-empty pattern, as the text before the first occurrence and
  the text after it.\<close>

fun cut_at :: "string \<Rightarrow> string \<Rightarrow> (string \<times> string) option" where
  "cut_at p [] = None"
| "cut_at p (c # cs) =
     (if starts_with p (c # cs) then Some ([], drop (length p) (c # cs))
      else map_option (\<lambda>(a, b). (c # a, b)) (cut_at p cs))"

definition contains_str :: "string \<Rightarrow> string \<Rightarrow> bool" where
  "contains_str p s = (cut_at p s \<noteq> None)"

text \<open>\<open>[String]::join\<close>.\<close>

fun join_with :: "string \<Rightarrow> string list \<Rightarrow> string" where
  "join_with sep [] = []"
| "join_with sep [w] = w"
| "join_with sep (w # ws) = w @ sep @ join_with sep ws"

text \<open>Decimal rendering of an unsigned and of a signed integer (\<open>{}\<close> of \<open>format!\<close>).\<close>

fun show_nat :: "nat \<Rightarrow> string" where
  "show_nat n = (if n < 10 then [char_of (n + 48)] else show_nat (n div 10) @ [char_of (n mod 10 + 48)])"

declare show_nat.simps [simp del]

definition show_int :: "int \<Rightarrow> string" where
  "show_int i = (if i < 0 then CHR ''-'' # show_nat (nat (- i)) else show_nat (nat i))"

lemma split_by_nonempty [simp, text_simps]: "split_by p s \<noteq> []"
  by (induction s) (auto split: list.splits)

lemma split_by_no_sep [text_simps]: "\<forall>c\<in>set s. \<not> p c \<Longrightarrow> split_by p s = [s]"
  by (induction s) auto

lemma cut_at_SomeD: "cut_at p s = Some (a, b) \<Longrightarrow> s = a @ p @ b"
proof (induction s arbitrary: a)
  case Nil
  then show ?case by simp
next
  case (Cons c s)
  show ?case
  proof (cases "starts_with p (c # s)")
    case True
    then have "take (length p) (c # s) = p" by (simp add: starts_with_def)
    with True Cons.prems show ?thesis
      by (metis append_Nil append_take_drop_id cut_at.simps(2) option.inject prod.inject)
  next
    case False
    with Cons.prems Cons.IH show ?thesis by auto
  qed
qed

lemma cut_at_length: "cut_at p s = Some (a, b) \<Longrightarrow> length b + length p \<le> length s"
  by (drule cut_at_SomeD) simp

lemma dropWhile_idem_append:
  "dropWhile p (dropWhile p xs) = dropWhile p xs"
  by (induction xs) auto

lemma dropWhile_hd_id: "xs = [] \<or> \<not> p (hd xs) \<Longrightarrow> dropWhile p xs = xs"
  by (cases xs) auto

lemma dropWhile_none: "\<forall>x\<in>set xs. \<not> p x \<Longrightarrow> dropWhile p xs = xs"
  by (cases xs) auto

lemma trim_no_space [text_simps]: "\<forall>c\<in>set s. \<not> is_space c \<Longrightarrow> trim s = s"
  by (simp add: trim_def trim_start_def trim_end_def dropWhile_none)

section \<open>Sorted maps\<close>

text \<open>
  \<open>BTreeMap<String, V>\<close> and \<open>serde_json::Map\<close> (built without \<open>preserve_order\<close>) iterate in key
  order. The model is the sorted association list, so that iteration order is the order of
  the list. Rust compares strings by their bytes; on scalar values the order is the
  lexicographic order of code points, the order of \<open>List_Lexorder\<close> over \<open>Char_ord\<close>.
\<close>

type_synonym 'v omap = "(string \<times> 'v) list"

definition om_empty :: "'v omap" where
  "om_empty = []"

fun om_insert :: "string \<Rightarrow> 'v \<Rightarrow> 'v omap \<Rightarrow> 'v omap" where
  "om_insert k v [] = [(k, v)]"
| "om_insert k v ((k', v') # m) =
     (if k = k' then (k, v) # m
      else if k < k' then (k, v) # (k', v') # m
      else (k', v') # om_insert k v m)"

definition om_get :: "'v omap \<Rightarrow> string \<Rightarrow> 'v option" where
  "om_get m k = map_of m k"

definition om_keys :: "'v omap \<Rightarrow> string list" where
  "om_keys m = map fst m"

definition om_has :: "'v omap \<Rightarrow> string \<Rightarrow> bool" where
  "om_has m k = (om_get m k \<noteq> None)"

definition om_remove :: "string \<Rightarrow> 'v omap \<Rightarrow> 'v omap" where
  "om_remove k m = filter (\<lambda>(k', v). k' \<noteq> k) m"

text \<open>\<open>extend\<close>: insert every entry of the second map, later entries winning.\<close>

definition om_extend :: "'v omap \<Rightarrow> 'v omap \<Rightarrow> 'v omap" where
  "om_extend m m' = fold (\<lambda>(k, v). om_insert k v) m' m"

definition om_of_list :: "(string \<times> 'v) list \<Rightarrow> 'v omap" where
  "om_of_list kvs = om_extend om_empty kvs"

definition om_ok :: "'v omap \<Rightarrow> bool" where
  "om_ok m = sorted_wrt (<) (map fst m)"

lemma om_get_Nil [simp, om_simps]: "om_get [] k = None"
  by (simp add: om_get_def)

lemma om_get_Cons [simp, om_simps]:
  "om_get ((k', v) # m) k = (if k = k' then Some v else om_get m k)"
  by (simp add: om_get_def)

lemma om_get_insert [simp, om_simps]:
  "om_get (om_insert k v m) k' = (if k' = k then Some v else om_get m k')"
  by (induction k v m rule: om_insert.induct) auto

lemma om_keys_insert [simp, om_simps]: "set (map fst (om_insert k v m)) = insert k (set (map fst m))"
  by (induction k v m rule: om_insert.induct) auto

lemma om_ok_insert [simp, intro]: "om_ok m \<Longrightarrow> om_ok (om_insert k v m)"
proof (induction k v m rule: om_insert.induct)
  case (2 k v k' v' m)
  have keys: "fst ` set (om_insert k v m) = insert k (fst ` set m)"
    using om_keys_insert [of k v m] by simp
  show ?case
    using 2 keys by (auto simp: om_ok_def)
qed (simp add: om_ok_def)

lemma om_ok_empty [simp]: "om_ok om_empty" "om_ok []"
  by (simp_all add: om_ok_def om_empty_def)

lemma om_get_extend [om_simps]:
  "om_get (om_extend m m') k =
     (case om_get (rev m') k of None \<Rightarrow> om_get m k | Some v \<Rightarrow> Some v)"
proof (induction m' rule: rev_induct)
  case Nil
  then show ?case by (simp add: om_extend_def)
next
  case (snoc x xs)
  then show ?case by (cases x) (simp add: om_extend_def)
qed

lemma om_ok_extend [simp, intro]: "om_ok m \<Longrightarrow> om_ok (om_extend m m')"
proof (induction m' arbitrary: m)
  case Nil
  then show ?case by (simp add: om_extend_def)
next
  case (Cons x xs)
  then show ?case by (cases x) (auto simp: om_extend_def)
qed

lemma om_ok_distinct: "om_ok m \<Longrightarrow> distinct (map fst m)"
  by (auto simp: om_ok_def strict_sorted_iff)

lemma om_get_map_values [om_simps]:
  "om_get (map (\<lambda>(k, v). (k, f k v)) m) k = map_option (f k) (om_get m k)"
  by (induction m) auto

text \<open>Two sorted maps with the same lookups are the same list.\<close>

lemma om_eqI:
  assumes "om_ok m" "om_ok m'" "\<And>k. om_get m k = om_get m' k"
  shows "m = m'"
  using assms
proof (induction m arbitrary: m')
  case Nil
  then show ?case by (cases m') (force, metis om_get_Cons om_get_Nil option.distinct(1) surj_pair)
next
  case (Cons x m)
  obtain k v where x: "x = (k, v)" by (cases x)
  from Cons.prems(3) [of k] x have "m' \<noteq> []" by auto
  then obtain k' v' n where m': "m' = (k', v') # n" by (metis list.exhaust surj_pair)
  have less: "\<And>j w. om_get m j = Some w \<Longrightarrow> k < j" "\<And>j w. om_get n j = Some w \<Longrightarrow> k' < j"
    using Cons.prems(1,2) x m' by (force simp: om_ok_def om_get_def dest: map_of_SomeD)+
  have "k = k'"
  proof (rule ccontr)
    assume "k \<noteq> k'"
    with Cons.prems(3) [of k] Cons.prems(3) [of k'] x m'
    have "om_get n k = Some v" "om_get m k' = Some v'" by auto
    then have "k' < k" "k < k'" using less by auto
    then show False by simp
  qed
  moreover have "v = v'" using Cons.prems(3) [of k] x m' \<open>k = k'\<close> by simp
  moreover have "om_get m j = om_get n j" for j
  proof (cases "j = k")
    case True
    then show ?thesis using less \<open>k = k'\<close>
      by (metis not_None_eq order_less_irrefl)
  next
    case False
    then show ?thesis using Cons.prems(3) [of j] x m' \<open>k = k'\<close> by simp
  qed
  moreover have "om_ok m" "om_ok n" using Cons.prems x m' by (auto simp: om_ok_def)
  ultimately show ?case using Cons.IH [of n] x m' by simp
qed

text \<open>The interface the components rely on, and its interpretation on the sorted lists.\<close>

locale keyed_map =
  fixes empty :: "'m"
    and insert :: "string \<Rightarrow> 'v \<Rightarrow> 'm \<Rightarrow> 'm"
    and get :: "'m \<Rightarrow> string \<Rightarrow> 'v option"
    and ok :: "'m \<Rightarrow> bool"
  assumes ok_empty: "ok empty"
    and ok_insert: "ok m \<Longrightarrow> ok (insert k v m)"
    and get_empty: "get empty k = None"
    and get_insert: "ok m \<Longrightarrow> get (insert k v m) k' = (if k' = k then Some v else get m k')"
    and ext: "ok m \<Longrightarrow> ok m' \<Longrightarrow> (\<And>k. get m k = get m' k) \<Longrightarrow> m = m'"
begin

lemma insert_overwrites: "ok m \<Longrightarrow> insert k v (insert k w m) = insert k v m"
  by (rule ext) (auto simp: ok_insert get_insert)

lemma insert_commutes: "ok m \<Longrightarrow> k \<noteq> k' \<Longrightarrow> insert k v (insert k' w m) = insert k' w (insert k v m)"
  by (rule ext) (auto simp: ok_insert get_insert)

lemma insert_same: "ok m \<Longrightarrow> get m k = Some v \<Longrightarrow> insert k v m = m"
  by (rule ext) (auto simp: ok_insert get_insert)

lemma ok_fold: "ok m \<Longrightarrow> ok (fold (\<lambda>(k, v). insert k v) kvs m)"
proof (induction kvs arbitrary: m)
  case (Cons x kvs)
  then show ?case by (cases x) (simp add: ok_insert)
qed simp

lemma get_fold_other:
  "ok m \<Longrightarrow> k \<notin> fst ` set kvs \<Longrightarrow> get (fold (\<lambda>(k, v). insert k v) kvs m) k = get m k"
proof (induction kvs arbitrary: m)
  case (Cons x kvs)
  then show ?case by (cases x) (simp add: ok_insert get_insert)
qed simp

end

interpretation om: keyed_map om_empty om_insert om_get om_ok
  by unfold_locales (auto simp: om_empty_def intro: om_eqI)

section \<open>Machine arithmetic\<close>

type_synonym u32 = "32 word"
type_synonym u64 = "64 word"

text \<open>\<open>saturating_add\<close>, \<open>saturating_sub\<close> and \<open>saturating_mul\<close> of unsigned words.\<close>

definition sat_add :: "'a::len word \<Rightarrow> 'a word \<Rightarrow> 'a word" where
  "sat_add a b = (if unat a + unat b < 2 ^ LENGTH('a) then a + b else - 1)"

definition sat_sub :: "'a::len word \<Rightarrow> 'a word \<Rightarrow> 'a word" where
  "sat_sub a b = (if b \<le> a then a - b else 0)"

definition sat_mul :: "'a::len word \<Rightarrow> 'a word \<Rightarrow> 'a word" where
  "sat_mul a b = (if unat a * unat b < 2 ^ LENGTH('a) then a * b else - 1)"

lemma unat_max_word: "unat (- 1 :: 'a::len word) = 2 ^ LENGTH('a) - 1"
  by (simp add: unsigned_minus_1_eq_mask mask_eq_exp_minus_1)

lemma unat_sat_add: "unat (sat_add a b) = min (unat a + unat b) (2 ^ LENGTH('a) - 1)"
  for a b :: "'a::len word"
  by (auto simp: sat_add_def unat_max_word unat_word_ariths min_def)

lemma unat_sat_mul: "unat (sat_mul a b) = min (unat a * unat b) (2 ^ LENGTH('a) - 1)"
  for a b :: "'a::len word"
proof (cases "unat a * unat b < 2 ^ LENGTH('a)")
  case True
  then show ?thesis by (simp add: sat_mul_def unat_word_ariths)
next
  case False
  then have "min (unat a * unat b) (2 ^ LENGTH('a) - 1) = 2 ^ LENGTH('a) - 1" by linarith
  with False show ?thesis by (simp only: sat_mul_def unat_max_word if_False)
qed

lemma unat_sat_sub: "unat (sat_sub a b) = unat a - unat b"
  for a b :: "'a::len word"
  by (auto simp: sat_sub_def unat_sub word_le_nat_alt)

text \<open>Loops that take slices of at most 25 milliseconds from a 64-bit counter end.\<close>

lemma slice_decreases: "r \<noteq> 0 \<Longrightarrow> unat (r - min r 25) < unat r" for r :: u64
proof -
  assume r: "r \<noteq> 0"
  then have "0 < unat r" "0 < unat (min r 25)" by (simp_all add: min_def unat_gt_0)
  moreover have "unat (r - min r 25) = unat r - unat (min r 25)" by (simp add: unat_sub min_def)
  ultimately show ?thesis by simp
qed

end
