(* ===== verification/Nodara_F64.thy ===== *)
theory Nodara_F64
  imports Complex_Main Nodara_Prelude
begin

text \<open>
  The IEEE 754 double precision numbers that Rust calls \<open>f64\<close>, as the code uses them:
  arithmetic with round-to-nearest-even, comparison, the remainder operator, decimal
  parsing and the saturating conversion to \<open>i64\<close>. A finite non-zero number is its exact
  rational value; zero and infinity carry their sign (\<open>True\<close> is negative). \<open>powf\<close> is not
  defined here: the Rust documentation leaves its precision to the platform, so the
  expression evaluator takes it as a parameter.
\<close>

section \<open>Values and rounding\<close>

datatype f64 = NaN | Inf bool | Zero bool | Fin rat

definition pow2 :: "int \<Rightarrow> rat" where
  "pow2 e = (if 0 \<le> e then 2 ^ nat e else 1 / 2 ^ nat (- e))"

fun bitlen :: "nat \<Rightarrow> nat" where
  "bitlen n = (if n = 0 then 0 else Suc (bitlen (n div 2)))"

declare bitlen.simps [simp del]

text \<open>The exponent of a positive rational: \<open>pow2 (ilog2 q) \<le> q < pow2 (ilog2 q + 1)\<close>.\<close>

definition ilog2 :: "rat \<Rightarrow> int" where
  "ilog2 q =
     (let (n, d) = quotient_of q;
          e = int (bitlen (nat n)) - int (bitlen (nat d))
      in if pow2 e \<le> q then e else e - 1)"

definition round_half_even :: "rat \<Rightarrow> int" where
  "round_half_even q =
     (let f = \<lfloor>q\<rfloor>; r = q - of_int f
      in if r < 1 / 2 then f else if 1 / 2 < r then f + 1 else if even f then f else f + 1)"

text \<open>Round a non-zero rational to the nearest double: 53 significant bits, exponents from
  -1022 (with gradual underflow below) to 1023, ties to even, overflow to infinity.\<close>

definition round64 :: "rat \<Rightarrow> f64" where
  "round64 q =
     (let a = \<bar>q\<bar>;
          e = max (ilog2 a) (- 1022);
          u = pow2 (e - 52);
          m = round_half_even (a / u);
          v = of_int m * u
      in if m = 0 then Zero (q < 0)
         else if 2 ^ 1024 \<le> v then Inf (q < 0)
         else Fin (if q < 0 then - v else v))"

text \<open>A rational that may be zero, with the sign to give a zero result.\<close>

definition round_or_zero :: "bool \<Rightarrow> rat \<Rightarrow> f64" where
  "round_or_zero neg q = (if q = 0 then Zero neg else round64 q)"

definition f64_of_int :: "int \<Rightarrow> f64" where
  "f64_of_int i = round_or_zero False (of_int i)"

abbreviation f64_zero :: f64 where "f64_zero \<equiv> Zero False"
abbreviation f64_one :: f64 where "f64_one \<equiv> Fin 1"

text \<open>\<open>f64::EPSILON\<close>.\<close>

definition f64_epsilon :: f64 where
  "f64_epsilon = Fin (1 / 2 ^ 52)"

section \<open>Arithmetic\<close>

fun sign_of :: "f64 \<Rightarrow> bool" where
  "sign_of NaN = False"
| "sign_of (Inf s) = s"
| "sign_of (Zero s) = s"
| "sign_of (Fin q) = (q < 0)"

fun fneg :: "f64 \<Rightarrow> f64" where
  "fneg NaN = NaN"
| "fneg (Inf s) = Inf (\<not> s)"
| "fneg (Zero s) = Zero (\<not> s)"
| "fneg (Fin q) = Fin (- q)"

fun fabs :: "f64 \<Rightarrow> f64" where
  "fabs NaN = NaN"
| "fabs (Inf s) = Inf False"
| "fabs (Zero s) = Zero False"
| "fabs (Fin q) = Fin \<bar>q\<bar>"

fun fadd :: "f64 \<Rightarrow> f64 \<Rightarrow> f64" where
  "fadd NaN y = NaN"
| "fadd x NaN = NaN"
| "fadd (Inf s) (Inf t) = (if s = t then Inf s else NaN)"
| "fadd (Inf s) y = Inf s"
| "fadd x (Inf t) = Inf t"
| "fadd (Zero s) (Zero t) = Zero (s \<and> t)"
| "fadd (Zero s) (Fin q) = Fin q"
| "fadd (Fin p) (Zero t) = Fin p"
| "fadd (Fin p) (Fin q) = round_or_zero False (p + q)"

definition fsub :: "f64 \<Rightarrow> f64 \<Rightarrow> f64" where
  "fsub x y = fadd x (fneg y)"

fun fmul :: "f64 \<Rightarrow> f64 \<Rightarrow> f64" where
  "fmul NaN y = NaN"
| "fmul x NaN = NaN"
| "fmul (Inf s) (Zero t) = NaN"
| "fmul (Zero s) (Inf t) = NaN"
| "fmul (Inf s) y = Inf (s \<noteq> sign_of y)"
| "fmul x (Inf t) = Inf (sign_of x \<noteq> t)"
| "fmul (Zero s) y = Zero (s \<noteq> sign_of y)"
| "fmul x (Zero t) = Zero (sign_of x \<noteq> t)"
| "fmul (Fin p) (Fin q) = round64 (p * q)"

fun fdiv :: "f64 \<Rightarrow> f64 \<Rightarrow> f64" where
  "fdiv NaN y = NaN"
| "fdiv x NaN = NaN"
| "fdiv (Inf s) (Inf t) = NaN"
| "fdiv (Inf s) y = Inf (s \<noteq> sign_of y)"
| "fdiv x (Inf t) = Zero (sign_of x \<noteq> t)"
| "fdiv (Zero s) (Zero t) = NaN"
| "fdiv (Zero s) y = Zero (s \<noteq> sign_of y)"
| "fdiv x (Zero t) = Inf (sign_of x \<noteq> t)"
| "fdiv (Fin p) (Fin q) = round64 (p / q)"

definition trunc_rat :: "rat \<Rightarrow> int" where
  "trunc_rat q = (if 0 \<le> q then \<lfloor>q\<rfloor> else \<lceil>q\<rceil>)"

text \<open>The remainder operator is \<open>fmod\<close>: exact, with the sign of the dividend.\<close>

fun frem :: "f64 \<Rightarrow> f64 \<Rightarrow> f64" where
  "frem NaN y = NaN"
| "frem x NaN = NaN"
| "frem (Inf s) y = NaN"
| "frem x (Zero t) = NaN"
| "frem x (Inf t) = x"
| "frem (Zero s) y = Zero s"
| "frem (Fin p) (Fin q) =
     (let r = p - q * of_int (trunc_rat (p / q)) in if r = 0 then Zero (p < 0) else Fin r)"

section \<open>Comparison and classification\<close>

definition is_nan :: "f64 \<Rightarrow> bool" where
  "is_nan x = (x = NaN)"

fun is_finite :: "f64 \<Rightarrow> bool" where
  "is_finite NaN = False"
| "is_finite (Inf s) = False"
| "is_finite x = True"

text \<open>Position in the order of the extended reals; both zeros are at 0.\<close>

fun frank :: "f64 \<Rightarrow> int \<times> rat" where
  "frank NaN = (0, 0)"
| "frank (Inf s) = (if s then - 1 else 1, 0)"
| "frank (Zero s) = (0, 0)"
| "frank (Fin q) = (0, q)"

definition flt :: "f64 \<Rightarrow> f64 \<Rightarrow> bool" where
  "flt x y = (x \<noteq> NaN \<and> y \<noteq> NaN \<and>
     (fst (frank x) < fst (frank y) \<or> fst (frank x) = fst (frank y) \<and> snd (frank x) < snd (frank y)))"

definition feq :: "f64 \<Rightarrow> f64 \<Rightarrow> bool" where
  "feq x y = (x \<noteq> NaN \<and> y \<noteq> NaN \<and> frank x = frank y)"

definition fle :: "f64 \<Rightarrow> f64 \<Rightarrow> bool" where
  "fle x y = (flt x y \<or> feq x y)"

text \<open>\<open>x != 0.0\<close> of the source is \<open>\<not> feq x f64_zero\<close>: true for a NaN.\<close>

section \<open>Conversions\<close>

text \<open>\<open>x.fract() == 0.0\<close> for a finite number.\<close>

fun has_no_fract :: "f64 \<Rightarrow> bool" where
  "has_no_fract NaN = False"
| "has_no_fract (Inf s) = False"
| "has_no_fract (Zero s) = True"
| "has_no_fract (Fin q) = (of_int (trunc_rat q) = q)"

text \<open>\<open>x as i64\<close> saturates and sends NaN to 0.\<close>

fun f64_as_i64 :: "f64 \<Rightarrow> int" where
  "f64_as_i64 NaN = 0"
| "f64_as_i64 (Inf s) = (if s then - (2 ^ 63) else 2 ^ 63 - 1)"
| "f64_as_i64 (Zero s) = 0"
| "f64_as_i64 (Fin q) = max (- (2 ^ 63)) (min (2 ^ 63 - 1) (trunc_rat q))"

text \<open>\<open>f64::round\<close>: to the nearest integer, ties away from zero.\<close>

fun fround :: "f64 \<Rightarrow> f64" where
  "fround NaN = NaN"
| "fround (Inf s) = Inf s"
| "fround (Zero s) = Zero s"
| "fround (Fin q) =
     (let m = (if 0 \<le> q then \<lfloor>q + 1 / 2\<rfloor> else - \<lfloor>- q + 1 / 2\<rfloor>)
      in if m = 0 then Zero (q < 0) else Fin (of_int m))"

text \<open>\<open>f64::max\<close>: the other argument when one is NaN.\<close>

definition fmax :: "f64 \<Rightarrow> f64 \<Rightarrow> f64" where
  "fmax x y = (if x = NaN then y else if y = NaN then x else if flt x y then y else x)"

text \<open>\<open>str::parse::<f64>\<close>. The grammar of the standard library: an optional sign, then
  \<open>inf\<close>, \<open>infinity\<close>, \<open>nan\<close> in any case, or digits with at most one point and at least one
  digit, and an optional exponent.\<close>

definition digits_value :: "string \<Rightarrow> nat" where
  "digits_value ds = fold (\<lambda>c acc. acc * 10 + digit_value c) ds 0"

definition parse_exponent :: "string \<Rightarrow> int option" where
  "parse_exponent s =
     (case s of [] \<Rightarrow> None
      | c # cs \<Rightarrow>
          let (neg, ds) = (if c = CHR ''-'' then (True, cs) else if c = CHR ''+'' then (False, cs) else (False, s))
          in if ds \<noteq> [] \<and> list_all is_digit ds
             then Some (if neg then - int (digits_value ds) else int (digits_value ds)) else None)"

definition pow10 :: "int \<Rightarrow> rat" where
  "pow10 e = (if 0 \<le> e then 10 ^ nat e else 1 / 10 ^ nat (- e))"

definition parse_unsigned :: "string \<Rightarrow> rat option" where
  "parse_unsigned s =
     (let ip = takeWhile is_digit s; rest = dropWhile is_digit s;
          (fp, rest') = (case rest of
              [] \<Rightarrow> ([], [])
            | c # cs \<Rightarrow> if c = CHR ''.'' then (takeWhile is_digit cs, dropWhile is_digit cs) else ([], rest));
          m = digits_value (ip @ fp)
      in if ip = [] \<and> fp = [] then None
         else (case rest' of
             [] \<Rightarrow> Some (of_nat m * pow10 (- int (length fp)))
           | c # cs \<Rightarrow>
               if c = CHR ''e'' \<or> c = CHR ''E''
               then map_option (\<lambda>e. of_nat m * pow10 (e - int (length fp))) (parse_exponent cs)
               else None))"

definition parse_f64 :: "string \<Rightarrow> f64 option" where
  "parse_f64 s =
     (let (neg, body) = (case s of [] \<Rightarrow> (False, []) | c # cs \<Rightarrow>
            if c = CHR ''-'' then (True, cs) else if c = CHR ''+'' then (False, cs) else (False, s));
          low = to_ascii_lowercase body
      in if low = ''inf'' \<or> low = ''infinity'' then Some (Inf neg)
         else if low = ''nan'' then Some NaN
         else map_option (\<lambda>q. round_or_zero neg (if neg then - q else q)) (parse_unsigned body))"

section \<open>Exactness on small integers\<close>

lemma pow2_powi: "pow2 e = 2 powi e"
  by (simp add: pow2_def power_int_def inverse_eq_divide power_one_over)

lemma pow2_pos [simp]: "0 < pow2 e"
  by (simp add: pow2_def)

lemma pow2_nonzero [simp]: "pow2 e \<noteq> 0"
  using pow2_pos [of e] by (metis less_irrefl)

lemma pow2_add: "pow2 (a + b) = pow2 a * pow2 b"
  by (simp add: pow2_powi power_int_add)

lemma pow2_mono: "a \<le> b \<Longrightarrow> pow2 a \<le> pow2 b"
  by (simp add: pow2_powi power_int_increasing)

lemma pow2_less: "pow2 a < pow2 b \<Longrightarrow> a < b"
  using pow2_mono [of b a] by force

lemma pow2_of_nat: "pow2 (int n) = 2 ^ n"
  by (simp add: pow2_def)

lemma bitlen_bounds: "0 < n \<Longrightarrow> 2 ^ (bitlen n - 1) \<le> n \<and> n < 2 ^ bitlen n \<and> 0 < bitlen n"
proof (induction n rule: bitlen.induct)
  case (1 n)
  show ?case
  proof (cases "n div 2 = 0")
    case True
    with 1 have "n = 1" by linarith
    then show ?thesis by (simp add: bitlen.simps [of "Suc 0"] bitlen.simps [of 0])
  next
    case False
    with 1 have IH: "2 ^ (bitlen (n div 2) - 1) \<le> n div 2" "n div 2 < 2 ^ bitlen (n div 2)"
      "0 < bitlen (n div 2)" by auto
    then obtain k where k: "bitlen (n div 2) = Suc k" by (cases "bitlen (n div 2)") auto
    with IH show ?thesis using 1 by (simp add: bitlen.simps [of n]) linarith
  qed
qed

lemma rat_bits:
  assumes "2 ^ (a - 1) \<le> k" "k < 2 ^ a" "0 < a"
  shows "pow2 (int a - 1) \<le> of_nat k \<and> of_nat k < pow2 (int a)"
proof -
  have "pow2 (int a - 1) = of_nat (2 ^ (a - 1))"
    using assms(3) by (simp add: pow2_def nat_diff_distrib)
  moreover have "pow2 (int a) = of_nat (2 ^ a)" by (simp add: pow2_def)
  ultimately show ?thesis using assms(1,2) by (simp only: of_nat_le_iff of_nat_less_iff)
qed

lemma ilog2_bounds:
  assumes "0 < q"
  shows "pow2 (ilog2 q) \<le> q \<and> q < pow2 (ilog2 q + 1)"
proof -
  obtain n d where nd: "quotient_of q = (n, d)" by fastforce
  have d: "0 < d" using quotient_of_denom_pos [OF nd] .
  have q: "q = of_int n / of_int d" using quotient_of_div [OF nd] .
  with assms d have n: "0 < n" by (simp add: zero_less_divide_iff)
  define a b where "a = bitlen (nat n)" and "b = bitlen (nat d)"
  have A: "2 ^ (a - 1) \<le> nat n" "nat n < 2 ^ a" "0 < a"
    using bitlen_bounds [of "nat n"] n by (auto simp: a_def)
  have B: "2 ^ (b - 1) \<le> nat d" "nat d < 2 ^ b" "0 < b"
    using bitlen_bounds [of "nat d"] d by (auto simp: b_def)
  have n1: "pow2 (int a - 1) \<le> of_int n" "of_int n < pow2 (int a)"
    using rat_bits [OF A] n by simp_all
  have d1: "pow2 (int b - 1) \<le> of_int d" "of_int d < pow2 (int b)"
    using rat_bits [OF B] d by simp_all
  have dpos: "(0::rat) < of_int d" using d by simp
  have "pow2 (int a - int b - 1) * of_int d \<le> pow2 (int a - int b - 1) * pow2 (int b)"
    using d1 by (intro mult_left_mono) (auto simp: less_imp_le)
  also have "\<dots> = pow2 (int a - 1)" by (simp flip: pow2_add)
  also have "\<dots> \<le> of_int n" by (rule n1)
  finally have lo: "pow2 (int a - int b - 1) \<le> q" using dpos by (simp add: q pos_le_divide_eq)
  have "of_int n < pow2 (int a)" by (rule n1)
  also have "\<dots> = pow2 (int a - int b + 1) * pow2 (int b - 1)" by (simp flip: pow2_add)
  also have "\<dots> \<le> pow2 (int a - int b + 1) * of_int d"
    using d1 by (intro mult_left_mono) (auto simp: less_imp_le)
  finally have hi: "q < pow2 (int a - int b + 1)" using dpos by (simp add: q pos_divide_less_eq)
  show ?thesis
    using lo hi by (auto simp: ilog2_def nd Let_def a_def [symmetric] b_def [symmetric])
qed

lemma ilog2_le: "0 < q \<Longrightarrow> q < pow2 k \<Longrightarrow> ilog2 q < k"
  using ilog2_bounds [of q] by (intro pow2_less) auto

lemma ilog2_ge: "0 < q \<Longrightarrow> pow2 k \<le> q \<Longrightarrow> k \<le> ilog2 q"
  using ilog2_bounds [of q] pow2_less [of k "ilog2 q + 1"] by auto

lemma round_half_even_int [simp]: "round_half_even (of_int i) = i"
  by (simp add: round_half_even_def)

text \<open>A rational on the grid of its exponent is its own double.\<close>

lemma round64_grid:
  assumes "q \<noteq> 0" "ilog2 \<bar>q\<bar> \<le> 1023" "\<bar>q\<bar> = of_int m * pow2 (max (ilog2 \<bar>q\<bar>) (- 1022) - 52)"
  shows "round64 q = Fin q"
proof -
  have "\<bar>q\<bar> < pow2 1024"
    using ilog2_bounds [of "\<bar>q\<bar>"] pow2_mono [of "ilog2 \<bar>q\<bar> + 1" 1024] assms by auto
  then have "\<not> 2 ^ 1024 \<le> \<bar>q\<bar>" by (simp add: pow2_def)
  moreover have "m \<noteq> 0" using assms by auto
  moreover have "round_half_even (\<bar>q\<bar> / pow2 (max (ilog2 \<bar>q\<bar>) (- 1022) - 52)) = m"
    by (subst assms(3)) simp
  ultimately show ?thesis
    unfolding round64_def Let_def using assms(1) by (simp only: flip: assms(3)) simp
qed

lemma round64_of_int:
  assumes "i \<noteq> 0" "\<bar>i\<bar> \<le> 2 ^ 53"
  shows "round64 (of_int i) = Fin (of_int i)"
proof -
  let ?q = "of_int i :: rat" and ?e = "ilog2 \<bar>of_int i :: rat\<bar>"
  have pos: "0 < \<bar>?q\<bar>" using assms by simp
  have ge1: "1 \<le> \<bar>?q\<bar>" using assms by (simp flip: of_int_abs)
  have e0: "0 \<le> ?e" using ilog2_ge [OF pos, of 0] ge1 by (simp add: pow2_def)
  have le: "\<bar>?q\<bar> \<le> 2 ^ 53"
    using assms(2) by (simp flip: of_int_abs)
  also have "(2::rat) ^ 53 < pow2 54" by (simp add: pow2_def)
  finally have e53: "?e \<le> 53" using ilog2_le [OF pos, of 54] by simp
  have "\<exists>m. \<bar>?q\<bar> = of_int m * pow2 (?e - 52)"
  proof (cases "?e = 53")
    case True
    then have "pow2 53 \<le> \<bar>?q\<bar>" using ilog2_bounds [OF pos] by simp
    with le have "\<bar>?q\<bar> = of_int (2 ^ 52) * pow2 1" by (simp add: pow2_def)
    with True show ?thesis by (intro exI [of _ "2 ^ 52"]) simp
  next
    case False
    with e53 have "pow2 (?e - 52) * pow2 (52 - ?e) = 1" "0 \<le> 52 - ?e"
      by (simp_all flip: pow2_add add: pow2_def)
    then have "\<bar>?q\<bar> = of_int (\<bar>i\<bar> * 2 ^ nat (52 - ?e)) * pow2 (?e - 52)"
      by (simp add: pow2_def [of "52 - ?e"] mult.assoc) (simp add: mult.commute)
    then show ?thesis by blast
  qed
  then obtain m where "\<bar>?q\<bar> = of_int m * pow2 (?e - 52)" by blast
  moreover have "max ?e (- 1022) = ?e" using e0 by simp
  ultimately show ?thesis using assms(1) e53 by (intro round64_grid [of _ m]) auto
qed

text \<open>Integers up to \<open>2 ^ 53\<close> are exact, and addition, subtraction and multiplication that
  stay in that range are integer arithmetic.\<close>

definition small_int :: "int \<Rightarrow> bool" where
  "small_int i = (\<bar>i\<bar> \<le> 2 ^ 53)"

lemma f64_of_int_small: "small_int i \<Longrightarrow> f64_of_int i = (if i = 0 then Zero False else Fin (of_int i))"
  by (simp add: f64_of_int_def round_or_zero_def small_int_def round64_of_int)

lemma fadd_of_int:
  assumes "small_int i" "small_int j" "small_int (i + j)"
  shows "fadd (f64_of_int i) (f64_of_int j) = f64_of_int (i + j)"
proof -
  have "(of_int i + of_int j = (0::rat)) \<longleftrightarrow> i + j = 0"
    by (metis of_int_0_eq_iff of_int_add)
  then show ?thesis
    using assms round64_of_int [of "i + j"]
    by (auto simp: f64_of_int_small round_or_zero_def small_int_def)
qed

lemma fmul_of_int:
  assumes "small_int i" "small_int j" "small_int (i * j)" "0 \<le> i" "0 \<le> j"
  shows "fmul (f64_of_int i) (f64_of_int j) = f64_of_int (i * j)"
  using assms round64_of_int [of "i * j"] by (auto simp: f64_of_int_small small_int_def)

lemma frank_of_int: "small_int i \<Longrightarrow> frank (f64_of_int i) = (0, of_int i)"
  by (simp add: f64_of_int_small)

lemma f64_of_int_not_NaN [simp]: "f64_of_int i \<noteq> NaN"
  by (simp add: f64_of_int_def round_or_zero_def round64_def Let_def)

lemma flt_of_int: "small_int i \<Longrightarrow> small_int j \<Longrightarrow> flt (f64_of_int i) (f64_of_int j) \<longleftrightarrow> i < j"
  by (simp add: flt_def frank_of_int)

lemma feq_of_int: "small_int i \<Longrightarrow> small_int j \<Longrightarrow> feq (f64_of_int i) (f64_of_int j) \<longleftrightarrow> i = j"
  by (simp add: feq_def frank_of_int)

lemma f64_as_i64_of_int: "small_int i \<Longrightarrow> f64_as_i64 (f64_of_int i) = i"
  by (auto simp: f64_of_int_small trunc_rat_def small_int_def)

lemma flt_irrefl [simp]: "\<not> flt x x"
  by (simp add: flt_def)

lemma flt_trans: "flt x y \<Longrightarrow> flt y z \<Longrightarrow> flt x z"
  by (auto simp: flt_def)

lemma flt_total: "x \<noteq> NaN \<Longrightarrow> y \<noteq> NaN \<Longrightarrow> flt x y \<or> feq x y \<or> flt y x"
  by (auto simp: flt_def feq_def prod_eq_iff)

lemma feq_refl: "feq x x \<longleftrightarrow> x \<noteq> NaN"
  by (simp add: feq_def)

end
