(* ===== verification/Nodara_Json.thy ===== *)
theory Nodara_Json
  imports Nodara_F64
begin

text \<open>
  JSON values as \<open>serde_json::Value\<close> presents them: the constructors of its public enum,
  numbers as a non-negative \<open>u64\<close>, a negative \<open>i64\<close> or a finite \<open>f64\<close>, and objects in key
  order. Only the accessors the code calls are defined. The text rendering of a value
  (\<open>Value::to_string\<close>), of a float and of a decoding error belong to library code outside
  the repository, and \<open>powf\<close> has no specified precision; they are the fields of \<open>externs\<close>, a
  parameter of every definition that uses one.
\<close>

section \<open>Values\<close>

datatype jnum = PosInt u64 | NegInt u64 | Float f64

datatype json =
    JNull
  | JBool bool
  | JNum jnum
  | JStr string
  | JArr "json list"
  | JObj "(string \<times> json) list"

type_synonym jobject = "json omap"

record externs =
  ext_powf :: "f64 \<Rightarrow> f64 \<Rightarrow> f64"
  ext_json_text :: "json \<Rightarrow> string"
  ext_f64_text :: "f64 \<Rightarrow> string"
  ext_serde_error :: "json \<Rightarrow> string"

section \<open>Numbers\<close>

definition i64_max :: int where "i64_max = 2 ^ 63 - 1"
definition i64_min :: int where "i64_min = - (2 ^ 63)"

text \<open>\<open>Number::from\<close> for an \<open>i64\<close> and for a \<open>u64\<close>; a negative integer is kept in two's
  complement.\<close>

definition num_of_i64 :: "int \<Rightarrow> jnum" where
  "num_of_i64 i = (if i < 0 then NegInt (word_of_int i) else PosInt (word_of_int i))"

definition num_of_u64 :: "nat \<Rightarrow> jnum" where
  "num_of_u64 n = PosInt (of_nat n)"

fun num_as_i64 :: "jnum \<Rightarrow> int option" where
  "num_as_i64 (PosInt w) = (if uint w \<le> i64_max then Some (uint w) else None)"
| "num_as_i64 (NegInt w) = Some (sint w)"
| "num_as_i64 (Float f) = None"

fun num_as_u64 :: "jnum \<Rightarrow> nat option" where
  "num_as_u64 (PosInt w) = Some (unat w)"
| "num_as_u64 (NegInt w) = None"
| "num_as_u64 (Float f) = None"

fun num_as_f64 :: "jnum \<Rightarrow> f64" where
  "num_as_f64 (PosInt w) = f64_of_int (uint w)"
| "num_as_f64 (NegInt w) = f64_of_int (sint w)"
| "num_as_f64 (Float f) = f"

text \<open>\<open>Number::from_f64\<close>: refuses NaN and the infinities.\<close>

definition num_of_f64 :: "f64 \<Rightarrow> jnum option" where
  "num_of_f64 x = (if is_finite x then Some (Float x) else None)"

section \<open>Accessors\<close>

fun as_str :: "json \<Rightarrow> string option" where
  "as_str (JStr s) = Some s"
| "as_str _ = None"

fun as_bool :: "json \<Rightarrow> bool option" where
  "as_bool (JBool b) = Some b"
| "as_bool _ = None"

fun as_i64 :: "json \<Rightarrow> int option" where
  "as_i64 (JNum n) = num_as_i64 n"
| "as_i64 _ = None"

fun as_u64 :: "json \<Rightarrow> nat option" where
  "as_u64 (JNum n) = num_as_u64 n"
| "as_u64 _ = None"

fun as_f64 :: "json \<Rightarrow> f64 option" where
  "as_f64 (JNum n) = Some (num_as_f64 n)"
| "as_f64 _ = None"

fun as_array :: "json \<Rightarrow> json list option" where
  "as_array (JArr vs) = Some vs"
| "as_array _ = None"

fun as_object :: "json \<Rightarrow> jobject option" where
  "as_object (JObj m) = Some m"
| "as_object _ = None"

fun jget :: "json \<Rightarrow> string \<Rightarrow> json option" where
  "jget (JObj m) k = om_get m k"
| "jget _ k = None"

text \<open>Follow a path of object keys: \<open>for segment in segments { current = current.get(segment)? }\<close>.\<close>

fun json_path :: "json \<Rightarrow> string list \<Rightarrow> json option" where
  "json_path v [] = Some v"
| "json_path v (s # ss) = (case jget v s of None \<Rightarrow> None | Some w \<Rightarrow> json_path w ss)"

lemma json_path_append:
  "json_path v (ss @ ts) = (case json_path v ss of None \<Rightarrow> None | Some w \<Rightarrow> json_path w ts)"
  by (induction v ss rule: json_path.induct) (auto split: option.splits)

section \<open>Parsing integers\<close>

text \<open>\<open>str::parse\<close> for the integer types: an optional sign (a minus only when the type is
  signed), at least one digit, and a value in range.\<close>

definition parse_digits :: "string \<Rightarrow> nat option" where
  "parse_digits ds = (if ds \<noteq> [] \<and> list_all is_digit ds then Some (digits_value ds) else None)"

definition parse_u32 :: "string \<Rightarrow> nat option" where
  "parse_u32 s =
     (case parse_digits (case s of [] \<Rightarrow> [] | c # cs \<Rightarrow> if c = CHR ''+'' then cs else s) of
        None \<Rightarrow> None | Some n \<Rightarrow> if n < 2 ^ 32 then Some n else None)"

definition parse_i64 :: "string \<Rightarrow> int option" where
  "parse_i64 s =
     (case s of [] \<Rightarrow> None
      | c # cs \<Rightarrow>
          (case parse_digits (if c = CHR ''-'' \<or> c = CHR ''+'' then cs else s) of
             None \<Rightarrow> None
           | Some n \<Rightarrow>
               let i = (if c = CHR ''-'' then - int n else int n)
               in if i64_min \<le> i \<and> i \<le> i64_max then Some i else None))"

section \<open>Well-formed values\<close>

text \<open>What every \<open>Value\<close> satisfies: objects are sorted by key, floats are finite, negative
  integers are negative.\<close>

fun num_ok :: "jnum \<Rightarrow> bool" where
  "num_ok (PosInt w) = True"
| "num_ok (NegInt w) = (sint w < 0)"
| "num_ok (Float f) = is_finite f"

fun json_ok :: "json \<Rightarrow> bool" where
  "json_ok (JNum n) = num_ok n"
| "json_ok (JArr vs) = list_all json_ok vs"
| "json_ok (JObj m) = (om_ok m \<and> list_all (\<lambda>(k, v). json_ok v) m)"
| "json_ok _ = True"

lemma num_of_i64_as_i64:
  assumes "i64_min \<le> i" "i \<le> i64_max"
  shows "num_as_i64 (num_of_i64 i) = Some i"
proof (cases "i < 0")
  case True
  with assms show ?thesis
    by (simp add: num_of_i64_def i64_min_def sint_sbintrunc' signed_take_bit_int_eq_self)
next
  case False
  with assms have "uint (word_of_int i :: u64) = i"
    by (simp add: i64_max_def uint_word_of_int)
  with False assms show ?thesis by (simp add: num_of_i64_def)
qed

lemma num_of_i64_ok: "i64_min \<le> i \<Longrightarrow> i \<le> i64_max \<Longrightarrow> num_ok (num_of_i64 i)"
  using num_of_i64_as_i64 [of i] by (cases "i < 0") (auto simp: num_of_i64_def)

lemma num_of_i64_as_f64:
  assumes "i64_min \<le> i" "i \<le> i64_max"
  shows "num_as_f64 (num_of_i64 i) = f64_of_int i"
  using num_of_i64_as_i64 [OF assms]
  by (cases "i < 0") (auto simp: num_of_i64_def split: if_splits)

lemma parse_i64_range: "parse_i64 s = Some i \<Longrightarrow> i64_min \<le> i \<and> i \<le> i64_max"
  by (auto simp: parse_i64_def Let_def split: list.splits option.splits if_splits)

end
