(* ===== verification/Nodara_Workflow.thy ===== *)
theory Nodara_Workflow
  imports Nodara_Json
begin

text \<open>
  The document model of \<open>nodara-schema\<close>: workflows, nodes, edges and variables
  (\<open>workflow.rs\<close>), the version axes (\<open>version.rs\<close>) and node descriptors
  (\<open>descriptor.rs\<close>). Field names carry a prefix per struct: \<open>n_\<close> for nodes, \<open>e_\<close> for
  edges, \<open>w_\<close> for workflows, \<open>d_\<close> for descriptors, \<open>p_\<close> for ports.
\<close>

section \<open>Versions\<close>

definition schema_version :: string where
  "schema_version = ''2.1''"

definition protocol_version :: string where
  "protocol_version = ''1''"

definition api_version :: string where
  "api_version = ''v1''"

definition major_of :: "string \<Rightarrow> nat" where
  "major_of version =
     (case parse_u32 (hd (split_by (\<lambda>c. c = CHR ''.'' \<or> c = CHR ''-'')
             (dropWhile (\<lambda>c. c = CHR ''v'') (trim version)))) of
        None \<Rightarrow> 0 | Some n \<Rightarrow> n)"

definition is_compatible_schema_version :: "string \<Rightarrow> bool" where
  "is_compatible_schema_version version = (major_of version = major_of schema_version)"

section \<open>Workflow documents\<close>

datatype retry_backoff = Fixed | Exponential

datatype edge_branch = Always | Success | Failure

datatype edge_kind = Control | Data

record metadata =
  m_name :: string
  m_description :: "string option"
  m_tags :: "string list"
  m_author :: "string option"
  m_version :: "string option"
  m_created_at :: "string option"
  m_updated_at :: "string option"
  m_extensions :: jobject

record variable =
  v_value :: json
  v_description :: "string option"
  v_secret :: bool

record node =
  n_id :: string
  n_type :: string
  n_label :: "string option"
  n_config :: json
  n_position :: "(f64 \<times> f64) option"
  n_enabled :: bool
  n_condition :: "string option"
  n_breakpoint :: bool
  n_delay_before_ms :: u64
  n_delay_after_ms :: u64
  n_continue_on_error :: bool
  n_timeout_ms :: "u64 option"
  n_retry :: u32
  n_retry_delay_ms :: u64
  n_retry_backoff :: retry_backoff
  n_retry_max_delay_ms :: "u64 option"
  n_result_var :: "string option"
  n_result_port :: "string option"
  n_metadata :: jobject

record edge =
  e_id :: string
  e_source :: string
  e_target :: string
  e_kind :: edge_kind
  e_source_port :: "string option"
  e_target_port :: "string option"
  e_branch :: edge_branch
  e_condition :: "string option"
  e_label :: "string option"

record workflow =
  w_schema_url :: "string option"
  w_schema_version :: string
  w_id :: string
  w_metadata :: metadata
  w_nodes :: "node list"
  w_edges :: "edge list"
  w_variables :: "variable omap"

definition default_metadata :: metadata where
  "default_metadata =
     \<lparr>m_name = [], m_description = None, m_tags = [], m_author = None, m_version = None,
      m_created_at = None, m_updated_at = None, m_extensions = om_empty\<rparr>"

definition default_variable :: variable where
  "default_variable = \<lparr>v_value = JNull, v_description = None, v_secret = False\<rparr>"

definition new_node :: "string \<Rightarrow> string \<Rightarrow> node" where
  "new_node nid ty =
     \<lparr>n_id = nid, n_type = ty, n_label = None, n_config = JObj om_empty, n_position = None,
      n_enabled = True, n_condition = None, n_breakpoint = False, n_delay_before_ms = 0,
      n_delay_after_ms = 0, n_continue_on_error = False, n_timeout_ms = None, n_retry = 0,
      n_retry_delay_ms = 0, n_retry_backoff = Fixed, n_retry_max_delay_ms = None,
      n_result_var = None, n_result_port = None, n_metadata = om_empty\<rparr>"

definition labelled_node :: "string \<Rightarrow> string \<Rightarrow> string \<Rightarrow> node" where
  "labelled_node nid ty label = (new_node nid ty)\<lparr>n_label := Some label\<rparr>"

definition with_config :: "node \<Rightarrow> json \<Rightarrow> node" where
  "with_config n config = n\<lparr>n_config := config\<rparr>"

definition new_edge :: "string \<Rightarrow> string \<Rightarrow> string \<Rightarrow> edge" where
  "new_edge eid source target =
     \<lparr>e_id = eid, e_source = source, e_target = target, e_kind = Control, e_source_port = None,
      e_target_port = None, e_branch = Always, e_condition = None, e_label = None\<rparr>"

definition new_workflow :: "string \<Rightarrow> workflow" where
  "new_workflow wid =
     \<lparr>w_schema_url = None, w_schema_version = schema_version, w_id = wid,
      w_metadata = default_metadata\<lparr>m_name := wid\<rparr>, w_nodes = [], w_edges = [],
      w_variables = om_empty\<rparr>"

definition add_node :: "workflow \<Rightarrow> node \<Rightarrow> workflow" where
  "add_node w n = w\<lparr>w_nodes := w_nodes w @ [n]\<rparr>"

definition add_edge :: "workflow \<Rightarrow> edge \<Rightarrow> workflow" where
  "add_edge w e = w\<lparr>w_edges := w_edges w @ [e]\<rparr>"

definition workflow_node :: "workflow \<Rightarrow> string \<Rightarrow> node option" where
  "workflow_node w nid = find (\<lambda>n. n_id n = nid) (w_nodes w)"

definition contains_node :: "workflow \<Rightarrow> string \<Rightarrow> bool" where
  "contains_node w nid = list_ex (\<lambda>n. n_id n = nid) (w_nodes w)"

text \<open>\<open>node_mut\<close>: a change to the first node with the id; \<open>None\<close> when there is none.\<close>

definition update_node :: "workflow \<Rightarrow> string \<Rightarrow> (node \<Rightarrow> node) \<Rightarrow> workflow option" where
  "update_node w nid f =
     (if contains_node w nid
      then (let (before, rest) = (takeWhile (\<lambda>n. n_id n \<noteq> nid) (w_nodes w),
                                  dropWhile (\<lambda>n. n_id n \<noteq> nid) (w_nodes w))
            in Some (w\<lparr>w_nodes := before @ f (hd rest) # tl rest\<rparr>))
      else None)"

section \<open>Node descriptors\<close>

datatype port_kind = InputPort | OutputPort

datatype value_type =
    AnyType | StringType | NumberType | BooleanType | ObjectType | ArrayType
  | ImageType | WindowType | PathType

definition is_compatible_with :: "value_type \<Rightarrow> value_type \<Rightarrow> bool" where
  "is_compatible_with t target =
     (t = target \<or> t = AnyType \<or> target = AnyType \<or>
      (t = StringType \<and> target = PathType) \<or> (t = PathType \<and> target = StringType))"

record port_descriptor =
  p_name :: string
  p_display_name :: string
  p_kind :: port_kind
  p_value_type :: value_type
  p_required :: bool
  p_description :: "string option"
  p_default :: "json option"

record node_descriptor =
  d_node_type :: string
  d_display_name :: string
  d_category :: string
  d_description :: string
  d_version :: string
  d_inputs :: "port_descriptor list"
  d_outputs :: "port_descriptor list"
  d_config_schema :: json
  d_capabilities :: "string list"
  d_permissions :: "string list"
  d_dangerous :: bool
  d_allows_additional_config :: bool
  d_plugin_id :: "string option"

definition new_port :: "string \<Rightarrow> string \<Rightarrow> port_kind \<Rightarrow> value_type \<Rightarrow> port_descriptor" where
  "new_port name display kind ty =
     \<lparr>p_name = name, p_display_name = display, p_kind = kind, p_value_type = ty,
      p_required = False, p_description = None, p_default = None\<rparr>"

definition port_required :: "port_descriptor \<Rightarrow> bool \<Rightarrow> port_descriptor" where
  "port_required p r = p\<lparr>p_required := r\<rparr>"

definition new_descriptor :: "string \<Rightarrow> string \<Rightarrow> string \<Rightarrow> node_descriptor" where
  "new_descriptor ty display category =
     \<lparr>d_node_type = ty, d_display_name = display, d_category = category, d_description = [],
      d_version = [], d_inputs = [], d_outputs = [],
      d_config_schema = JObj (om_of_list
        [(''type'', JStr ''object''), (''properties'', JObj []), (''additionalProperties'', JBool True)]),
      d_capabilities = [], d_permissions = [], d_dangerous = False,
      d_allows_additional_config = True, d_plugin_id = None\<rparr>"

definition descriptor_with_description :: "node_descriptor \<Rightarrow> string \<Rightarrow> node_descriptor" where
  "descriptor_with_description d description = d\<lparr>d_description := description\<rparr>"

definition descriptor_with_config_schema :: "node_descriptor \<Rightarrow> json \<Rightarrow> node_descriptor" where
  "descriptor_with_config_schema d schema = d\<lparr>d_config_schema := schema\<rparr>"

definition descriptor_with_permissions :: "node_descriptor \<Rightarrow> string list \<Rightarrow> node_descriptor" where
  "descriptor_with_permissions d permissions = d\<lparr>d_permissions := permissions\<rparr>"

section \<open>Facts\<close>

lemma contains_node_iff: "contains_node w nid \<longleftrightarrow> nid \<in> n_id ` set (w_nodes w)"
  by (auto simp: contains_node_def list_ex_iff)

lemma workflow_node_None: "workflow_node w nid = None \<longleftrightarrow> \<not> contains_node w nid"
  by (auto simp: workflow_node_def find_None_iff contains_node_iff)

lemma workflow_node_SomeD: "workflow_node w nid = Some n \<Longrightarrow> n \<in> set (w_nodes w) \<and> n_id n = nid"
  by (auto simp: workflow_node_def find_Some_iff)

lemma update_node_ids:
  assumes "\<And>n. n_id (f n) = n_id n" "update_node w nid f = Some w'"
  shows "map n_id (w_nodes w') = map n_id (w_nodes w)"
proof -
  let ?p = "\<lambda>n. n_id n \<noteq> nid"
  from assms(2) have has: "contains_node w nid"
    and w': "w_nodes w' = takeWhile ?p (w_nodes w) @ f (hd (dropWhile ?p (w_nodes w))) # tl (dropWhile ?p (w_nodes w))"
    by (auto simp: update_node_def Let_def split: if_splits)
  from has have "dropWhile ?p (w_nodes w) \<noteq> []" by (auto simp: contains_node_iff dropWhile_eq_Nil_conv)
  then have "w_nodes w = takeWhile ?p (w_nodes w) @ hd (dropWhile ?p (w_nodes w)) # tl (dropWhile ?p (w_nodes w))"
    by simp
  then have "map n_id (w_nodes w) = map n_id (takeWhile ?p (w_nodes w)) @
      n_id (hd (dropWhile ?p (w_nodes w))) # map n_id (tl (dropWhile ?p (w_nodes w)))"
    by (metis list.simps(9) map_append)
  then show ?thesis by (simp add: w' assms(1))
qed

lemma is_compatible_with_sym: "is_compatible_with t u = is_compatible_with u t"
  by (auto simp: is_compatible_with_def)

end
