(* ===== verification/Nodara_Graph.thy ===== *)
theory Nodara_Graph
  imports Nodara_Workflow
begin

text \<open>
  The graph algorithms of \<open>graph.rs\<close>: the indexed view of a workflow, entry node,
  breadth-first reachability, Kahn's topological order and the depth-first cycle search.
  Hash maps that are only looked up are sorted maps. The cycle search recurses with fuel;
  one more than the number of nodes is enough (\<open>find_cycle_total\<close>).
\<close>

section \<open>The indexed view\<close>

datatype graph_error = Cycle string | NodeNotFound string

datatype colour = White | Grey | Black

record workflow_graph =
  g_workflow :: workflow
  g_index :: "node omap"
  g_outgoing :: "edge list omap"
  g_incoming :: "edge list omap"
  g_data_outgoing :: "edge list omap"
  g_data_incoming :: "edge list omap"

text \<open>\<open>entry(key).or_insert(value)\<close> and \<open>entry(key).or_default().push(value)\<close>.\<close>

definition entry_or_insert :: "string \<Rightarrow> 'v \<Rightarrow> 'v omap \<Rightarrow> 'v omap" where
  "entry_or_insert k v m = (case om_get m k of None \<Rightarrow> om_insert k v m | Some _ \<Rightarrow> m)"

definition entry_push :: "string \<Rightarrow> 'v \<Rightarrow> 'v list omap \<Rightarrow> 'v list omap" where
  "entry_push k v m = (case om_get m k of None \<Rightarrow> om_insert k [v] m | Some vs \<Rightarrow> om_insert k (vs @ [v]) m)"

definition index_edge :: "edge \<Rightarrow> workflow_graph \<Rightarrow> workflow_graph" where
  "index_edge e g =
     (case e_kind e of
        Control \<Rightarrow> g\<lparr>g_outgoing := entry_push (e_source e) e (g_outgoing g),
                     g_incoming := entry_push (e_target e) e (g_incoming g)\<rparr>
      | Data \<Rightarrow> g\<lparr>g_data_outgoing := entry_push (e_source e) e (g_data_outgoing g),
                  g_data_incoming := entry_push (e_target e) e (g_data_incoming g)\<rparr>)"

definition graph_of :: "workflow \<Rightarrow> workflow_graph" where
  "graph_of w =
     fold index_edge (w_edges w)
       \<lparr>g_workflow = w,
        g_index = fold (\<lambda>n. entry_or_insert (n_id n) n) (w_nodes w) om_empty,
        g_outgoing = om_empty, g_incoming = om_empty,
        g_data_outgoing = om_empty, g_data_incoming = om_empty\<rparr>"

definition graph_node :: "workflow_graph \<Rightarrow> string \<Rightarrow> node option" where
  "graph_node g nid = om_get (g_index g) nid"

definition node_position :: "workflow_graph \<Rightarrow> string \<Rightarrow> nat option" where
  "node_position g nid =
     (let before = takeWhile (\<lambda>n. n_id n \<noteq> nid) (w_nodes (g_workflow g))
      in if length before < length (w_nodes (g_workflow g)) then Some (length before) else None)"

definition edges_of :: "edge list omap \<Rightarrow> string \<Rightarrow> edge list" where
  "edges_of m nid = (case om_get m nid of None \<Rightarrow> [] | Some es \<Rightarrow> es)"

definition edges_from :: "workflow_graph \<Rightarrow> string \<Rightarrow> edge list" where
  "edges_from g nid = edges_of (g_outgoing g) nid"

definition edges_to :: "workflow_graph \<Rightarrow> string \<Rightarrow> edge list" where
  "edges_to g nid = edges_of (g_incoming g) nid"

definition data_edges_from :: "workflow_graph \<Rightarrow> string \<Rightarrow> edge list" where
  "data_edges_from g nid = edges_of (g_data_outgoing g) nid"

definition data_edges_to :: "workflow_graph \<Rightarrow> string \<Rightarrow> edge list" where
  "data_edges_to g nid = edges_of (g_data_incoming g) nid"

definition out_degree :: "workflow_graph \<Rightarrow> string \<Rightarrow> nat" where
  "out_degree g nid = length (edges_from g nid)"

definition in_degree :: "workflow_graph \<Rightarrow> string \<Rightarrow> nat" where
  "in_degree g nid = length (edges_to g nid)"

definition graph_roots :: "workflow_graph \<Rightarrow> node list" where
  "graph_roots g = filter (\<lambda>n. in_degree g (n_id n) = 0) (w_nodes (g_workflow g))"

definition graph_sinks :: "workflow_graph \<Rightarrow> node list" where
  "graph_sinks g = filter (\<lambda>n. out_degree g (n_id n) = 0) (w_nodes (g_workflow g))"

definition entry_node :: "workflow_graph \<Rightarrow> node option" where
  "entry_node g =
     (case find (\<lambda>n. n_type n = ''core.Start'') (w_nodes (g_workflow g)) of
        Some n \<Rightarrow> Some n
      | None \<Rightarrow> (case graph_roots g of [] \<Rightarrow> None | n # _ \<Rightarrow> Some n))"

section \<open>Reachability\<close>

text \<open>The body of the breadth-first loop: every outgoing edge to an unvisited node marks the
  node and queues it.\<close>

fun visit_edges :: "workflow_graph \<Rightarrow> edge list \<Rightarrow> string list \<Rightarrow> string list \<Rightarrow> string list \<times> string list" where
  "visit_edges g [] visited queue = (visited, queue)"
| "visit_edges g (e # es) visited queue =
     (case om_get (g_index g) (e_target e) of
        None \<Rightarrow> visit_edges g es visited queue
      | Some target \<Rightarrow>
          if n_id target \<in> set visited then visit_edges g es visited queue
          else visit_edges g es (n_id target # visited) (queue @ [n_id target]))"

definition unvisited :: "workflow_graph \<Rightarrow> string list \<Rightarrow> nat" where
  "unvisited g visited = length (filter (\<lambda>i. i \<notin> set visited) (map (\<lambda>(k, n). n_id n) (g_index g)))"

lemma om_get_in_set: "om_get m k = Some v \<Longrightarrow> (k, v) \<in> set m"
  by (simp add: om_get_def map_of_SomeD)

lemma filter_length_less:
  assumes "x \<in> set xs" "p x" "\<not> q x" "\<And>y. q y \<Longrightarrow> p y"
  shows "length (filter q xs) < length (filter p xs)"
  using assms
proof (induction xs)
  case (Cons a xs)
  have le: "length (filter q xs) \<le> length (filter p xs)"
    using Cons.prems(4) by (induction xs) auto
  show ?case
  proof (cases "x = a")
    case True
    then show ?thesis using Cons.prems le by auto
  next
    case False
    then have "length (filter q xs) < length (filter p xs)" using Cons by auto
    then show ?thesis using Cons.prems(4) [of a] by auto
  qed
qed simp

lemma visit_edges_measure:
  "visit_edges g es visited queue = (visited', queue') \<Longrightarrow>
     length queue' + unvisited g visited' \<le> length queue + unvisited g visited"
proof (induction g es visited queue rule: visit_edges.induct)
  case (2 g e es visited queue)
  show ?case
  proof (cases "om_get (g_index g) (e_target e)")
    case None
    then show ?thesis using 2 by simp
  next
    case (Some target)
    show ?thesis
    proof (cases "n_id target \<in> set visited")
      case True
      then show ?thesis using 2 Some by simp
    next
      case False
      have "n_id target \<in> set (map (\<lambda>(k, n). n_id n) (g_index g))"
        using om_get_in_set [OF Some] by force
      then have "unvisited g (n_id target # visited) < unvisited g visited"
        unfolding unvisited_def by (rule filter_length_less) (use False in auto)
      moreover have "length queue' + unvisited g visited' \<le>
          length (queue @ [n_id target]) + unvisited g (n_id target # visited)"
        using 2(3) [OF Some False] 2(4) Some False by simp
      ultimately show ?thesis by simp
    qed
  qed
qed simp

function bfs :: "workflow_graph \<Rightarrow> string list \<Rightarrow> string list \<Rightarrow> string list" where
  "bfs g [] visited = visited"
| "bfs g (current # queue) visited =
     (let (visited', queue') = visit_edges g (edges_from g current) visited queue
      in bfs g queue' visited')"
  by pat_completeness auto
termination
proof (relation "measure (\<lambda>(g, queue, visited). length queue + unvisited g visited)")
  fix g current queue visited x visited' queue'
  assume "x = visit_edges g (edges_from g current) visited queue" "(visited', queue') = x"
  then show "((g, queue', visited'), g, current # queue, visited)
      \<in> measure (\<lambda>(g, queue, visited). length queue + unvisited g visited)"
    using visit_edges_measure [of g "edges_from g current" visited queue visited' queue'] by simp
qed simp

text \<open>\<open>reachable_from\<close>: the ids of the nodes reachable from \<open>start\<close> over control edges.\<close>

definition reachable_from :: "workflow_graph \<Rightarrow> string \<Rightarrow> string list" where
  "reachable_from g start =
     (case graph_node g start of
        None \<Rightarrow> []
      | Some n \<Rightarrow> bfs g [n_id n] [n_id n])"

section \<open>Topological order\<close>

definition count_edge :: "workflow_graph \<Rightarrow> edge \<Rightarrow> nat omap \<Rightarrow> nat omap" where
  "count_edge g e deg =
     (if e_kind e \<noteq> Control then deg
      else if om_has (g_index g) (e_target e) \<and> om_has (g_index g) (e_source e)
      then om_insert (e_target e) (Suc (case om_get deg (e_target e) of None \<Rightarrow> 0 | Some d \<Rightarrow> d)) deg
      else deg)"

definition initial_in_degree :: "workflow_graph \<Rightarrow> nat omap" where
  "initial_in_degree g =
     fold (count_edge g) (w_edges (g_workflow g))
       (fold (\<lambda>n. entry_or_insert (n_id n) 0) (w_nodes (g_workflow g)) om_empty)"

fun relax_edges :: "edge list \<Rightarrow> nat omap \<Rightarrow> string list \<Rightarrow> nat omap \<times> string list" where
  "relax_edges [] deg ready = (deg, ready)"
| "relax_edges (e # es) deg ready =
     (case om_get deg (e_target e) of
        None \<Rightarrow> relax_edges es deg ready
      | Some d \<Rightarrow>
          if d = 0 then relax_edges es deg ready
          else relax_edges es (om_insert (e_target e) (d - 1) deg)
                 (if d - 1 = 0 then ready @ [e_target e] else ready))"

definition positive_degrees :: "nat omap \<Rightarrow> nat" where
  "positive_degrees deg = card {k. \<exists>d. om_get deg k = Some d \<and> 0 < d}"

lemma finite_om_dom [simp]: "finite {k. \<exists>d. om_get m k = Some d \<and> P k d}"
  by (rule finite_subset [OF _ finite_dom_map_of [of m]]) (auto simp: om_get_def)

lemma positive_degrees_dec:
  assumes "om_get deg k = Some d" "0 < d"
  shows "positive_degrees (om_insert k (d - 1) deg) + (if d - 1 = 0 then 1 else 0) = positive_degrees deg"
proof -
  define A where "A = (\<lambda>m. {k. \<exists>d. om_get m k = Some d \<and> (0::nat) < d})"
  have fin: "finite (A deg)" by (simp add: A_def)
  have k: "k \<in> A deg" using assms by (simp add: A_def)
  have pd: "positive_degrees m = card (A m)" for m by (simp add: positive_degrees_def A_def)
  have eq: "A (om_insert k (d - 1) deg) = (if d - 1 = 0 then A deg - {k} else insert k (A deg))"
    by (rule set_eqI) (simp add: A_def)
  show ?thesis
  proof (cases "d - 1 = 0")
    case True
    then show ?thesis
      using card.remove [OF fin k] eq by (simp add: pd)
  next
    case False
    then have "A (om_insert k (d - 1) deg) = A deg" using eq k by (simp add: insert_absorb)
    with False show ?thesis by (simp add: pd)
  qed
qed

lemma relax_edges_measure:
  "relax_edges es deg ready = (deg', ready') \<Longrightarrow>
     length ready' + positive_degrees deg' \<le> length ready + positive_degrees deg"
proof (induction es deg ready rule: relax_edges.induct)
  case (2 e es deg ready)
  show ?case
  proof (cases "om_get deg (e_target e)")
    case None
    then show ?thesis using 2 by simp
  next
    case (Some d)
    show ?thesis
    proof (cases "d = 0")
      case True
      then show ?thesis using 2 Some by simp
    next
      case False
      from 2(3) [OF Some False] 2(4) Some False
      have "length ready' + positive_degrees deg' \<le>
          length (if d - 1 = 0 then ready @ [e_target e] else ready) +
          positive_degrees (om_insert (e_target e) (d - 1) deg)" by simp
      with positive_degrees_dec [OF Some] False show ?thesis
        by (auto split: if_splits)
    qed
  qed
qed simp

text \<open>The scheduling loop. The \<open>scheduled\<close> set holds the members of \<open>order\<close>.\<close>

function kahn_loop :: "workflow_graph \<Rightarrow> nat omap \<Rightarrow> string list \<Rightarrow> string list \<Rightarrow> string list" where
  "kahn_loop g deg [] order = order"
| "kahn_loop g deg (current # ready) order =
     (let (deg', ready') = relax_edges (edges_from g current) deg ready
      in kahn_loop g deg' ready' (order @ [current]))"
  by pat_completeness auto
termination
proof (relation "measure (\<lambda>(g, deg, ready, order). length ready + positive_degrees deg)")
  fix g current order deg ready x deg' ready'
  assume "x = relax_edges (edges_from g current) deg ready" "(deg', ready') = x"
  then show "((g, deg', ready', order @ [current]), g, deg, current # ready, order)
      \<in> measure (\<lambda>(g, deg, ready, order). length ready + positive_degrees deg)"
    using relax_edges_measure [of "edges_from g current" deg ready deg' ready'] by simp
qed simp

definition initial_ready :: "workflow_graph \<Rightarrow> string list" where
  "initial_ready g =
     map n_id (filter (\<lambda>n. (case om_get (initial_in_degree g) (n_id n) of None \<Rightarrow> 0 | Some d \<Rightarrow> d) = 0)
       (w_nodes (g_workflow g)))"

definition topological_order :: "workflow_graph \<Rightarrow> (graph_error, string list) result" where
  "topological_order g =
     (let order = kahn_loop g (initial_in_degree g) (initial_ready g) []
      in if length order = length (g_index g) then Inr order
         else Inl (Cycle (join_with '', ''
                (map n_id (filter (\<lambda>n. n_id n \<notin> set order) (w_nodes (g_workflow g)))))))"

section \<open>Cycle search\<close>

text \<open>\<open>dfs_cycle\<close> returns the cycle it found, or \<open>None\<close> with the colours and the stack it
  leaves behind; \<open>dfs_edges\<close> is its loop over the outgoing edges.\<close>

type_synonym dfs_state = "colour omap \<times> string list"

definition colour_of :: "colour omap \<Rightarrow> string \<Rightarrow> colour" where
  "colour_of col nid = (case om_get col nid of None \<Rightarrow> White | Some c \<Rightarrow> c)"

definition cycle_from :: "string list \<Rightarrow> string \<Rightarrow> string list" where
  "cycle_from stack target =
     (if target \<in> set stack then dropWhile (\<lambda>n. n \<noteq> target) stack else stack) @ [target]"

fun dfs_cycle :: "nat \<Rightarrow> workflow_graph \<Rightarrow> string \<Rightarrow> dfs_state \<Rightarrow> (string list option \<times> dfs_state) option"
and dfs_edges :: "nat \<Rightarrow> workflow_graph \<Rightarrow> edge list \<Rightarrow> dfs_state \<Rightarrow> (string list option \<times> dfs_state) option"
where
  "dfs_cycle 0 g nid st = None"
| "dfs_cycle (Suc fuel) g nid (col, stack) =
     (case dfs_edges fuel g (edges_from g nid) (om_insert nid Grey col, stack @ [nid]) of
        None \<Rightarrow> None
      | Some (Some cycle, st) \<Rightarrow> Some (Some cycle, st)
      | Some (None, (col', stack')) \<Rightarrow> Some (None, (om_insert nid Black col', butlast stack')))"
| "dfs_edges fuel g [] st = Some (None, st)"
| "dfs_edges fuel g (e # es) (col, stack) =
     (case graph_node g (e_target e) of
        None \<Rightarrow> dfs_edges fuel g es (col, stack)
      | Some target \<Rightarrow>
          (case colour_of col (n_id target) of
             Grey \<Rightarrow> Some (Some (cycle_from stack (n_id target)), (col, stack))
           | White \<Rightarrow>
               (case dfs_cycle fuel g (n_id target) (col, stack) of
                  None \<Rightarrow> None
                | Some (Some cycle, st) \<Rightarrow> Some (Some cycle, st)
                | Some (None, st) \<Rightarrow> dfs_edges fuel g es st)
           | Black \<Rightarrow> dfs_edges fuel g es (col, stack)))"

fun dfs_roots :: "nat \<Rightarrow> workflow_graph \<Rightarrow> node list \<Rightarrow> dfs_state \<Rightarrow> (string list option \<times> dfs_state) option" where
  "dfs_roots fuel g [] st = Some (None, st)"
| "dfs_roots fuel g (n # ns) (col, stack) =
     (if om_get col (n_id n) = Some White
      then (case dfs_cycle fuel g (n_id n) (col, stack) of
              None \<Rightarrow> None
            | Some (Some cycle, st) \<Rightarrow> Some (Some cycle, st)
            | Some (None, st) \<Rightarrow> dfs_roots fuel g ns st)
      else dfs_roots fuel g ns (col, stack))"

definition find_cycle_fuel :: "nat \<Rightarrow> workflow_graph \<Rightarrow> string list option option" where
  "find_cycle_fuel fuel g =
     map_option fst
       (dfs_roots fuel g (w_nodes (g_workflow g))
         (fold (\<lambda>n. om_insert (n_id n) White) (w_nodes (g_workflow g)) om_empty, []))"

definition find_cycle :: "workflow_graph \<Rightarrow> string list option" where
  "find_cycle g = the (find_cycle_fuel (Suc (length (w_nodes (g_workflow g)))) g)"

definition node_count :: "workflow_graph \<Rightarrow> nat" where
  "node_count g = length (w_nodes (g_workflow g))"

definition edge_count :: "workflow_graph \<Rightarrow> nat" where
  "edge_count g = length (w_edges (g_workflow g))"

section \<open>What the indexed view holds\<close>

lemma entry_or_insert_get [simp]:
  "om_get (entry_or_insert k v m) k' =
     (case om_get m k' of Some u \<Rightarrow> Some u | None \<Rightarrow> if k' = k then Some v else None)"
  by (auto simp: entry_or_insert_def split: option.splits)

lemma entry_or_insert_ok [simp]: "om_ok m \<Longrightarrow> om_ok (entry_or_insert k v m)"
  by (auto simp: entry_or_insert_def split: option.splits)

lemma fold_entry_or_insert_get:
  "om_get (fold (\<lambda>x. entry_or_insert (f x) (h x)) xs m) k =
     (case om_get m k of Some v \<Rightarrow> Some v | None \<Rightarrow> map_option h (find (\<lambda>x. f x = k) xs))"
  by (induction xs arbitrary: m) (auto split: option.splits)

lemma fold_entry_or_insert_ok:
  "om_ok m \<Longrightarrow> om_ok (fold (\<lambda>x. entry_or_insert (f x) (h x)) xs m)"
  by (induction xs arbitrary: m) auto

lemma edges_of_entry_push [simp]:
  "edges_of (entry_push k e m) k' = edges_of m k' @ (if k = k' then [e] else [])"
  by (auto simp: edges_of_def entry_push_def split: option.splits)

lemma index_edge_simps [simp]:
  "g_workflow (index_edge e g) = g_workflow g"
  "g_index (index_edge e g) = g_index g"
  "edges_of (g_outgoing (index_edge e g)) k =
     edges_of (g_outgoing g) k @ (if e_kind e = Control \<and> e_source e = k then [e] else [])"
  "edges_of (g_incoming (index_edge e g)) k =
     edges_of (g_incoming g) k @ (if e_kind e = Control \<and> e_target e = k then [e] else [])"
  "edges_of (g_data_outgoing (index_edge e g)) k =
     edges_of (g_data_outgoing g) k @ (if e_kind e = Data \<and> e_source e = k then [e] else [])"
  "edges_of (g_data_incoming (index_edge e g)) k =
     edges_of (g_data_incoming g) k @ (if e_kind e = Data \<and> e_target e = k then [e] else [])"
  by (auto simp: index_edge_def split: edge_kind.splits)

lemma fold_index_edge:
  "g_workflow (fold index_edge es g) = g_workflow g"
  "g_index (fold index_edge es g) = g_index g"
  "edges_of (g_outgoing (fold index_edge es g)) k =
     edges_of (g_outgoing g) k @ filter (\<lambda>e. e_kind e = Control \<and> e_source e = k) es"
  "edges_of (g_incoming (fold index_edge es g)) k =
     edges_of (g_incoming g) k @ filter (\<lambda>e. e_kind e = Control \<and> e_target e = k) es"
  "edges_of (g_data_outgoing (fold index_edge es g)) k =
     edges_of (g_data_outgoing g) k @ filter (\<lambda>e. e_kind e = Data \<and> e_source e = k) es"
  "edges_of (g_data_incoming (fold index_edge es g)) k =
     edges_of (g_data_incoming g) k @ filter (\<lambda>e. e_kind e = Data \<and> e_target e = k) es"
  by (induction es arbitrary: g) auto

lemma edges_of_empty [simp]: "edges_of om_empty k = []"
  by (simp add: edges_of_def om_empty_def)

named_theorems graph_view \<open>the indexed view of a workflow, read off the document\<close>

lemma graph_of_workflow [simp, graph_view]: "g_workflow (graph_of w) = w"
  by (simp add: graph_of_def fold_index_edge)

lemma graph_of_index [graph_view]: "om_get (g_index (graph_of w)) k = workflow_node w k"
  by (simp add: graph_of_def fold_index_edge fold_entry_or_insert_get [where h = "\<lambda>n. n"]
      workflow_node_def om_empty_def option.map_ident)

lemma graph_of_index_ok: "om_ok (g_index (graph_of w))"
  by (simp add: graph_of_def fold_index_edge fold_entry_or_insert_ok [where h = "\<lambda>n. n"])

lemma graph_node_view [simp, graph_view]: "graph_node (graph_of w) k = workflow_node w k"
  by (simp add: graph_node_def graph_view)

lemma edges_from_view [simp, graph_view]:
  "edges_from (graph_of w) k = filter (\<lambda>e. e_kind e = Control \<and> e_source e = k) (w_edges w)"
  by (simp add: edges_from_def graph_of_def fold_index_edge)

lemma edges_to_view [simp, graph_view]:
  "edges_to (graph_of w) k = filter (\<lambda>e. e_kind e = Control \<and> e_target e = k) (w_edges w)"
  by (simp add: edges_to_def graph_of_def fold_index_edge)

lemma data_edges_from_view [simp, graph_view]:
  "data_edges_from (graph_of w) k = filter (\<lambda>e. e_kind e = Data \<and> e_source e = k) (w_edges w)"
  by (simp add: data_edges_from_def graph_of_def fold_index_edge)

lemma data_edges_to_view [simp, graph_view]:
  "data_edges_to (graph_of w) k = filter (\<lambda>e. e_kind e = Data \<and> e_target e = k) (w_edges w)"
  by (simp add: data_edges_to_def graph_of_def fold_index_edge)

text \<open>The control relation between existing nodes: what the algorithms walk over.\<close>

definition live_edge :: "workflow \<Rightarrow> edge \<Rightarrow> bool" where
  "live_edge w e = (e_kind e = Control \<and> contains_node w (e_source e) \<and> contains_node w (e_target e))"

definition control_rel :: "workflow \<Rightarrow> (string \<times> string) set" where
  "control_rel w = (\<lambda>e. (e_source e, e_target e)) ` {e \<in> set (w_edges w). live_edge w e}"

definition node_ids :: "workflow \<Rightarrow> string list" where
  "node_ids w = map n_id (w_nodes w)"

lemma contains_node_ids: "contains_node w i \<longleftrightarrow> i \<in> set (node_ids w)"
  by (simp add: contains_node_iff node_ids_def)

lemma control_relI:
  "e \<in> set (w_edges w) \<Longrightarrow> e_kind e = Control \<Longrightarrow> contains_node w (e_source e) \<Longrightarrow>
     contains_node w (e_target e) \<Longrightarrow> (e_source e, e_target e) \<in> control_rel w"
  by (auto simp: control_rel_def live_edge_def)

lemma control_rel_ids: "(a, b) \<in> control_rel w \<Longrightarrow> a \<in> set (node_ids w) \<and> b \<in> set (node_ids w)"
  by (auto simp: control_rel_def live_edge_def contains_node_ids)

lemma finite_control_rel: "finite (control_rel w)"
  by (simp add: control_rel_def)

lemma index_has: "om_has (g_index (graph_of w)) i \<longleftrightarrow> contains_node w i"
  by (simp add: om_has_def graph_of_index workflow_node_None)

lemma index_keys: "set (map fst (g_index (graph_of w))) = set (node_ids w)"
proof -
  have "set (map fst (g_index (graph_of w))) = {k. om_get (g_index (graph_of w)) k \<noteq> None}"
    by (auto simp: om_get_def map_of_eq_None_iff)
  then show ?thesis by (auto simp: graph_of_index workflow_node_None contains_node_ids)
qed

lemma index_length: "length (g_index (graph_of w)) = card (set (node_ids w))"
  using distinct_card [OF om_ok_distinct [OF graph_of_index_ok [of w]]] index_keys [of w]
  by (metis length_map)

lemma om_get_initial_in_degree:
  "om_get (initial_in_degree (graph_of w)) v =
     (if contains_node w v
      then Some (length (filter (\<lambda>e. live_edge w e \<and> e_target e = v) (w_edges w))) else None)"
proof -
  let ?g = "graph_of w"
  let ?base = "fold (\<lambda>n. entry_or_insert (n_id n) (0::nat)) (w_nodes w) om_empty"
  have base: "om_get ?base v = (if contains_node w v then Some 0 else None)" for v
    by (simp add: fold_entry_or_insert_get [where h = "\<lambda>n. 0"] om_empty_def
        flip: workflow_node_def)
      (cases "workflow_node w v"; auto simp: workflow_node_None dest: workflow_node_SomeD
        simp flip: workflow_node_None)
  have step: "om_get (fold (count_edge ?g) es deg) v =
      (if \<exists>e\<in>set es. live_edge w e \<and> e_target e = v
       then Some ((case om_get deg v of None \<Rightarrow> 0 | Some d \<Rightarrow> d) +
              length (filter (\<lambda>e. live_edge w e \<and> e_target e = v) es))
       else om_get deg v)" for es deg v
  proof (induction es arbitrary: deg)
    case (Cons e es)
    have "om_get (count_edge ?g e deg) v =
       (if live_edge w e \<and> e_target e = v
        then Some (Suc (case om_get deg v of None \<Rightarrow> 0 | Some d \<Rightarrow> d)) else om_get deg v)"
      by (auto simp: count_edge_def index_has live_edge_def)
    with Cons.IH show ?case by auto
  qed simp
  have none: "filter (\<lambda>e. live_edge w e \<and> e_target e = v) (w_edges w) = []"
    if "\<not> (\<exists>e\<in>set (w_edges w). live_edge w e \<and> e_target e = v)"
    using that by (auto simp: filter_empty_conv)
  have "contains_node w v" if "\<exists>e\<in>set (w_edges w). live_edge w e \<and> e_target e = v"
    using that by (auto simp: live_edge_def)
  then show ?thesis
    unfolding initial_in_degree_def by (auto simp: step base none)
qed

end
