(* ===== verification/Nodara_Topology.thy ===== *)
theory Nodara_Topology
  imports Nodara_Graph
begin

text \<open>
  Correctness of the graph algorithms against the control relation of the document:
  Kahn's order lists every node once with every edge going forward, and exists exactly for
  acyclic graphs; the cycle search returns real cycles, finds one exactly when there is
  one and always terminates within its fuel; breadth-first search computes reachability.
\<close>

section \<open>Kahn's algorithm\<close>

definition hits :: "edge list \<Rightarrow> string \<Rightarrow> nat" where
  "hits es v = length (filter (\<lambda>e. e_target e = v) es)"

lemma hits_simps [simp]:
  "hits [] v = 0"
  "hits (e # es) v = (if e_target e = v then 1 else 0) + hits es v"
  by (auto simp: hits_def)

lemma relax_edges_spec:
  assumes "relax_edges es deg ready = (deg', ready')"
    and "\<And>v d. om_get deg v = Some d \<Longrightarrow> hits es v \<le> d"
  shows "(\<forall>v. om_get deg' v = map_option (\<lambda>d. d - hits es v) (om_get deg v)) \<and>
     (\<exists>new. ready' = ready @ new \<and> distinct new \<and>
        set new = {v. 0 < hits es v \<and> om_get deg v = Some (hits es v)})"
  using assms
proof (induction es deg ready rule: relax_edges.induct)
  case (1 deg ready)
  then show ?case by (simp add: option.map_ident)
next
  case (2 e es deg ready)
  let ?t = "e_target e"
  show ?case
  proof (cases "om_get deg ?t")
    case None
    have pre: "hits es v \<le> d" if "om_get deg v = Some d" for v d
      using 2(5) [OF that] None that by auto
    have "relax_edges es deg ready = (deg', ready')" using 2(4) None by simp
    from 2(1) [OF None this pre] None show ?thesis
      by (auto split: if_splits)
  next
    case (Some d)
    have d: "hits es ?t < d" using 2(5) [OF Some] by simp
    let ?deg = "om_insert ?t (d - 1) deg"
    let ?ready = "if d - 1 = 0 then ready @ [?t] else ready"
    have run: "relax_edges es ?deg ?ready = (deg', ready')" using 2(4) Some d by simp
    have pre: "hits es v \<le> d'" if "om_get ?deg v = Some d'" for v d'
      using 2(5) [of v d'] that d by (auto split: if_splits)
    from 2(3) [OF Some _ run pre] d obtain new where
      deg': "\<And>v. om_get deg' v = map_option (\<lambda>d. d - hits es v) (om_get ?deg v)" and
      new: "ready' = ?ready @ new" "distinct new"
        "set new = {v. 0 < hits es v \<and> om_get ?deg v = Some (hits es v)}"
      by auto
    have "om_get deg' v = map_option (\<lambda>d. d - hits (e # es) v) (om_get deg v)" for v
      using deg' [of v] Some d by auto
    moreover have "\<exists>new. ready' = ready @ new \<and> distinct new \<and>
        set new = {v. 0 < hits (e # es) v \<and> om_get deg v = Some (hits (e # es) v)}"
    proof (cases "d - 1 = 0")
      case True
      with d have d1: "d = 1" "hits es ?t = 0" by auto
      show ?thesis
      proof (intro exI conjI)
        show "ready' = ready @ (?t # new)" using new True by simp
        show "distinct (?t # new)" using new d1 by simp
        show "set (?t # new) = {v. 0 < hits (e # es) v \<and> om_get deg v = Some (hits (e # es) v)}"
          using new(3) Some d1 by auto
      qed
    next
      case False
      show ?thesis
      proof (intro exI conjI)
        show "ready' = ready @ new" using new False by simp
        show "distinct new" by fact
        show "set new = {v. 0 < hits (e # es) v \<and> om_get deg v = Some (hits (e # es) v)}"
          using new(3) Some d False by auto
      qed
    qed
    ultimately show ?thesis by blast
  qed
qed

definition pending_degree :: "workflow \<Rightarrow> string list \<Rightarrow> string \<Rightarrow> nat" where
  "pending_degree w order v =
     length (filter (\<lambda>e. live_edge w e \<and> e_target e = v \<and> e_source e \<notin> set order) (w_edges w))"

definition kahn_inv :: "workflow \<Rightarrow> nat omap \<Rightarrow> string list \<Rightarrow> string list \<Rightarrow> bool" where
  "kahn_inv w deg ready order \<longleftrightarrow>
     (\<forall>v. om_get deg v = (if contains_node w v then Some (pending_degree w order v) else None)) \<and>
     distinct (order @ ready) \<and>
     set (order @ ready) = {v. om_get deg v = Some 0} \<and>
     (\<forall>i<length order. \<forall>e\<in>set (w_edges w).
        live_edge w e \<and> e_target e = order ! i \<longrightarrow> e_source e \<in> set (take i order))"

lemma filter_split_length:
  assumes "\<And>x. x \<in> set xs \<Longrightarrow> p x \<longleftrightarrow> q x \<or> r x" "\<And>x. x \<in> set xs \<Longrightarrow> \<not> (q x \<and> r x)"
  shows "length (filter p xs) = length (filter q xs) + length (filter r xs)"
  using assms
proof (induction xs)
  case (Cons a xs)
  have "length (filter p xs) = length (filter q xs) + length (filter r xs)"
    using Cons.prems by (intro Cons.IH) auto
  then show ?case using Cons.prems [of a] by auto
qed simp

lemma pending_degree_snoc:
  assumes "contains_node w v" "contains_node w c" "c \<notin> set order"
  shows "pending_degree w order v =
     pending_degree w (order @ [c]) v + hits (edges_from (graph_of w) c) v"
proof -
  have "hits (edges_from (graph_of w) c) v =
      length (filter (\<lambda>e. live_edge w e \<and> e_target e = v \<and> e_source e = c) (w_edges w))"
    using assms by (auto simp: hits_def live_edge_def intro!: arg_cong [where f = length] filter_cong)
  then show ?thesis
    unfolding pending_degree_def
    by (simp only:) (rule filter_split_length, use assms in auto)
qed

lemma kahn_step:
  assumes inv: "kahn_inv w deg (c # ready) order"
    and run: "relax_edges (edges_from (graph_of w) c) deg ready = (deg', ready')"
  shows "kahn_inv w deg' ready' (order @ [c])"
proof -
  let ?es = "edges_from (graph_of w) c"
  have deg: "om_get deg v = (if contains_node w v then Some (pending_degree w order v) else None)" for v
    using inv by (simp add: kahn_inv_def)
  have dist: "distinct (order @ c # ready)" and
    zero: "set (order @ c # ready) = {v. om_get deg v = Some 0}" and
    preds: "\<forall>i<length order. \<forall>e\<in>set (w_edges w).
        live_edge w e \<and> e_target e = order ! i \<longrightarrow> e_source e \<in> set (take i order)"
    using inv by (simp_all add: kahn_inv_def)
  have c0: "om_get deg c = Some 0" using zero by auto
  then have c: "contains_node w c" "pending_degree w order c = 0" "c \<notin> set order"
    using deg [of c] dist by (auto split: if_splits)
  have split: "pending_degree w order v = pending_degree w (order @ [c]) v + hits ?es v"
    if "contains_node w v" for v using pending_degree_snoc [OF that c(1,3)] .
  have pre: "hits ?es v \<le> d" if "om_get deg v = Some d" for v d
    using that deg [of v] split [of v] by (auto split: if_splits)
  from relax_edges_spec [OF run pre] obtain new where
    deg': "\<And>v. om_get deg' v = map_option (\<lambda>d. d - hits ?es v) (om_get deg v)" and
    new: "ready' = ready @ new" "distinct new"
      "set new = {v. 0 < hits ?es v \<and> om_get deg v = Some (hits ?es v)}"
    by blast
  have D: "om_get deg' v = (if contains_node w v then Some (pending_degree w (order @ [c]) v) else None)" for v
    using deg [of v] split [of v] by (simp add: deg')
  have "set new \<inter> set (order @ c # ready) = {}"
    using new(3) zero by auto
  then have "distinct ((order @ [c]) @ ready')" using dist new by auto
  moreover have "set ((order @ [c]) @ ready') = {v. om_get deg' v = Some 0}"
  proof -
    have "om_get deg' v = Some 0 \<longleftrightarrow> om_get deg v = Some 0 \<or> v \<in> set new" for v
      using pre [of v] by (auto simp: deg' new(3))
    then show ?thesis using zero new(1) by auto
  qed
  moreover have "e_source e \<in> set (take i (order @ [c]))"
    if "i < length (order @ [c])" "e \<in> set (w_edges w)" "live_edge w e" "e_target e = (order @ [c]) ! i" for i e
  proof (cases "i < length order")
    case True
    with that preds show ?thesis by (simp add: nth_append)
  next
    case False
    with that have "e_target e = c" "i = length order" by (auto simp: nth_append)
    with that c(2) show ?thesis by (auto simp: pending_degree_def filter_empty_conv)
  qed
  ultimately show ?thesis using D by (simp add: kahn_inv_def)
qed

lemma kahn_loop_inv:
  "kahn_inv w deg ready order \<Longrightarrow>
     \<exists>deg'. kahn_inv w deg' [] (kahn_loop (graph_of w) deg ready order)"
proof (induction "graph_of w" deg ready order rule: kahn_loop.induct)
  case (2 deg current ready order)
  obtain deg' ready' where r: "relax_edges (edges_from (graph_of w) current) deg ready = (deg', ready')"
    by fastforce
  from 2(1) [OF r [symmetric] refl kahn_step [OF 2(2) r]] r show ?case by simp
qed auto

lemma kahn_inv_initial:
  assumes "distinct (node_ids w)"
  shows "kahn_inv w (initial_in_degree (graph_of w)) (initial_ready (graph_of w)) []"
proof -
  have "distinct (initial_ready (graph_of w))"
    using assms by (auto simp: initial_ready_def node_ids_def distinct_map intro: inj_on_subset)
  moreover have "set (initial_ready (graph_of w)) = {v. om_get (initial_in_degree (graph_of w)) v = Some 0}"
    by (force simp: initial_ready_def om_get_initial_in_degree contains_node_iff split: option.splits if_splits)
  ultimately show ?thesis
    by (simp add: kahn_inv_def om_get_initial_in_degree pending_degree_def)
qed

definition kahn_order :: "workflow \<Rightarrow> string list" where
  "kahn_order w = kahn_loop (graph_of w) (initial_in_degree (graph_of w)) (initial_ready (graph_of w)) []"

lemma kahn_order_facts:
  assumes "distinct (node_ids w)"
  shows "distinct (kahn_order w)"
    and "set (kahn_order w) \<subseteq> set (node_ids w)"
    and "\<And>i e. i < length (kahn_order w) \<Longrightarrow> e \<in> set (w_edges w) \<Longrightarrow> live_edge w e \<Longrightarrow>
       e_target e = kahn_order w ! i \<Longrightarrow> e_source e \<in> set (take i (kahn_order w))"
    and "\<And>v. v \<in> set (node_ids w) \<Longrightarrow> v \<notin> set (kahn_order w) \<Longrightarrow>
       \<exists>u. (u, v) \<in> control_rel w \<and> u \<notin> set (kahn_order w)"
proof -
  obtain deg where inv: "kahn_inv w deg [] (kahn_order w)"
    using kahn_loop_inv [OF kahn_inv_initial [OF assms]] by (auto simp: kahn_order_def)
  then have deg: "om_get deg v = (if contains_node w v then Some (pending_degree w (kahn_order w) v) else None)"
    and zero: "set (kahn_order w) = {v. om_get deg v = Some 0}" for v
    by (simp_all add: kahn_inv_def)
  show "distinct (kahn_order w)" using inv by (simp add: kahn_inv_def)
  show "set (kahn_order w) \<subseteq> set (node_ids w)"
    using zero deg by (auto simp flip: contains_node_ids split: if_splits)
  show "e_source e \<in> set (take i (kahn_order w))"
    if "i < length (kahn_order w)" "e \<in> set (w_edges w)" "live_edge w e" "e_target e = kahn_order w ! i" for i e
    using inv that by (simp add: kahn_inv_def)
  show "\<exists>u. (u, v) \<in> control_rel w \<and> u \<notin> set (kahn_order w)"
    if "v \<in> set (node_ids w)" "v \<notin> set (kahn_order w)" for v
  proof -
    have "pending_degree w (kahn_order w) v \<noteq> 0"
      using that zero deg [of v] by (auto simp: contains_node_ids)
    then obtain e where "e \<in> set (w_edges w)" "live_edge w e" "e_target e = v" "e_source e \<notin> set (kahn_order w)"
      by (auto simp: pending_degree_def filter_empty_conv)
    then show ?thesis by (force simp: control_rel_def)
  qed
qed

lemma kahn_forward:
  assumes "distinct (node_ids w)" "(a, b) \<in> control_rel w" "j < length (kahn_order w)" "kahn_order w ! j = b"
  shows "\<exists>i<j. kahn_order w ! i = a"
proof -
  obtain e where e: "e \<in> set (w_edges w)" "live_edge w e" "e_source e = a" "e_target e = b"
    using assms(2) by (auto simp: control_rel_def)
  have "a \<in> set (take j (kahn_order w))"
    using kahn_order_facts(3) [OF assms(1,3) e(1,2)] e assms(4) by simp
  then show ?thesis using assms(3) by (auto simp: in_set_conv_nth)
qed

lemma topological_order_alt:
  assumes "distinct (node_ids w)"
  shows "topological_order (graph_of w) = Inr order \<longleftrightarrow>
     order = kahn_order w \<and> set (kahn_order w) = set (node_ids w)"
proof -
  have "length (kahn_order w) = card (set (kahn_order w))"
    using kahn_order_facts(1) [OF assms] by (simp add: distinct_card)
  then have "length (kahn_order w) = length (g_index (graph_of w)) \<longleftrightarrow> set (kahn_order w) = set (node_ids w)"
    using kahn_order_facts(2) [OF assms] by (metis card_subset_eq finite_set index_length)
  then show ?thesis
    by (auto simp: topological_order_def Let_def simp flip: kahn_order_def)
qed

text \<open>The scheduler's contract.\<close>

definition is_topological_order :: "workflow \<Rightarrow> string list \<Rightarrow> bool" where
  "is_topological_order w order \<longleftrightarrow>
     distinct order \<and> set order = set (node_ids w) \<and>
     (\<forall>i<length order. \<forall>j<length order. (order ! i, order ! j) \<in> control_rel w \<longrightarrow> i < j)"

lemma topological_order_sound:
  assumes "distinct (node_ids w)" "topological_order (graph_of w) = Inr order"
  shows "is_topological_order w order"
proof -
  have order: "order = kahn_order w" "set (kahn_order w) = set (node_ids w)"
    using topological_order_alt [OF assms(1)] assms(2) by auto
  have d: "distinct order" using kahn_order_facts(1) [OF assms(1)] order by simp
  have "i < j" if ij: "i < length order" "j < length order" "(order ! i, order ! j) \<in> control_rel w" for i j
  proof -
    obtain k where "k < j" "order ! k = order ! i"
      using kahn_forward [OF assms(1) ij(3)] ij order by auto
    with ij d show ?thesis using nth_eq_iff_index_eq [OF d, of k i] by simp
  qed
  with d order show ?thesis by (simp add: is_topological_order_def)
qed

lemma topological_order_acyclic:
  assumes "is_topological_order w order"
  shows "acyclic (control_rel w)"
proof -
  define pos where "pos v = (THE i. i < length order \<and> order ! i = v)" for v
  have pos: "pos (order ! i) = i" if "i < length order" for i
    unfolding pos_def using assms that
    by (intro the_equality) (auto simp: is_topological_order_def nth_eq_iff_index_eq)
  have "control_rel w \<subseteq> measure pos"
  proof (rule subrelI)
    fix a b assume ab: "(a, b) \<in> control_rel w"
    with assms have "a \<in> set order" "b \<in> set order"
      using control_rel_ids by (auto simp: is_topological_order_def)
    then obtain i j where "i < length order" "order ! i = a" "j < length order" "order ! j = b"
      by (auto simp: in_set_conv_nth)
    with assms ab show "(a, b) \<in> measure pos" using pos by (auto simp: is_topological_order_def)
  qed
  then show ?thesis by (meson wf_acyclic wf_measure wf_subset)
qed

lemma topological_order_complete:
  assumes "distinct (node_ids w)" "acyclic (control_rel w)"
  shows "\<exists>order. topological_order (graph_of w) = Inr order"
proof -
  have "wf (control_rel w)" using assms(2) finite_control_rel by (simp add: finite_acyclic_wf)
  have "set (kahn_order w) = set (node_ids w)"
  proof (rule ccontr)
    assume "set (kahn_order w) \<noteq> set (node_ids w)"
    then obtain x where "x \<in> set (node_ids w) - set (kahn_order w)"
      using kahn_order_facts(2) [OF assms(1)] by auto
    then obtain z where z: "z \<in> set (node_ids w) - set (kahn_order w)"
      and min: "\<And>y. (y, z) \<in> control_rel w \<Longrightarrow> y \<notin> set (node_ids w) - set (kahn_order w)"
      using \<open>wf (control_rel w)\<close> by (metis wf_eq_minimal)
    from z obtain u where "(u, z) \<in> control_rel w" "u \<notin> set (kahn_order w)"
      using kahn_order_facts(4) [OF assms(1)] by auto
    with min control_rel_ids show False by blast
  qed
  then show ?thesis using topological_order_alt [OF assms(1)] by blast
qed

section \<open>Cycle search\<close>

text \<open>What a reported cycle is: a closed walk over control edges with at least one edge.\<close>

definition is_closed_walk :: "workflow \<Rightarrow> string list \<Rightarrow> bool" where
  "is_closed_walk w c \<longleftrightarrow>
     2 \<le> length c \<and> hd c = last c \<and> successively (\<lambda>a b. (a, b) \<in> control_rel w) c"

lemma successively_rtrancl:
  "successively (\<lambda>a b. (a, b) \<in> r) c \<Longrightarrow> c \<noteq> [] \<Longrightarrow> (hd c, last c) \<in> r\<^sup>*"
proof (induction c)
  case (Cons a c)
  then show ?case by (cases c) (auto intro: converse_rtrancl_into_rtrancl)
qed simp

lemma closed_walk_cyclic: "is_closed_walk w c \<Longrightarrow> \<not> acyclic (control_rel w)"
proof -
  assume c: "is_closed_walk w c"
  then obtain a b c' where ab: "c = a # b # c'"
    by (cases c; cases "tl c") (auto simp: is_closed_walk_def)
  with c have "(a, b) \<in> control_rel w" "(b, last (b # c')) \<in> (control_rel w)\<^sup>*" "last (b # c') = a"
    using successively_rtrancl [of "control_rel w" "b # c'"] by (auto simp: is_closed_walk_def)
  then show ?thesis by (auto simp: acyclic_def intro: rtrancl_into_trancl2)
qed

text \<open>The nodes the search has left, newest first: every successor was left before.\<close>

fun finished :: "('a \<times> 'a) set \<Rightarrow> 'a list \<Rightarrow> bool" where
  "finished r [] = True"
| "finished r (v # vs) = (v \<notin> set vs \<and> (\<forall>u. (v, u) \<in> r \<longrightarrow> u \<in> set vs) \<and> finished r vs)"

lemma finished_closed: "finished r vs \<Longrightarrow> v \<in> set vs \<Longrightarrow> (v, u) \<in> r \<Longrightarrow> u \<in> set vs"
  by (induction vs) auto

lemma finished_acyclic: "finished r vs \<Longrightarrow> Field r \<subseteq> set vs \<Longrightarrow> acyclic r"
proof -
  have "finished r vs \<Longrightarrow> v \<in> set vs \<Longrightarrow> (v, u) \<in> r\<^sup>+ \<Longrightarrow> u \<noteq> v" for v u
  proof (induction vs)
    case (Cons x vs)
    have closed: "(a, b) \<in> r\<^sup>+ \<Longrightarrow> a \<in> set vs \<Longrightarrow> b \<in> set vs" for a b
      by (induction rule: trancl_induct) (use Cons.prems finished_closed [of r vs] in auto)
    show ?case
    proof (cases "v \<in> set vs")
      case True
      with Cons show ?thesis by auto
    next
      case False
      with Cons.prems have "v = x" by simp
      from Cons.prems(3) obtain y where "(v, y) \<in> r" "y = u \<or> (y, u) \<in> r\<^sup>+"
        by (meson tranclD rtranclD)
      with Cons.prems \<open>v = x\<close> closed have "u \<in> set vs" by auto
      with False show ?thesis by auto
    qed
  qed simp
  note irrefl = this
  assume fin: "finished r vs" and field: "Field r \<subseteq> set vs"
  show ?thesis
  proof (rule acyclicI, intro allI notI)
    fix x assume "(x, x) \<in> r\<^sup>+"
    moreover from this have "x \<in> Field r" by (metis FieldI1 tranclD)
    ultimately show False using irrefl [OF fin] field by blast
  qed
qed

definition dfs_inv :: "workflow \<Rightarrow> colour omap \<Rightarrow> string list \<Rightarrow> bool" where
  "dfs_inv w col stack \<longleftrightarrow>
     (\<forall>v. om_get col v \<noteq> None \<longleftrightarrow> v \<in> set (node_ids w)) \<and>
     successively (\<lambda>a b. (a, b) \<in> control_rel w) stack \<and>
     distinct stack \<and> set stack = {v. om_get col v = Some Grey} \<and>
     (\<exists>done. set done = {v. om_get col v = Some Black} \<and> finished (control_rel w) done)"

definition keeps_colours :: "colour omap \<Rightarrow> colour omap \<Rightarrow> bool" where
  "keeps_colours col col' \<longleftrightarrow>
     (\<forall>v. om_get col v \<noteq> Some White \<longrightarrow> om_get col' v = om_get col v)"

lemma keeps_colours_refl [simp]: "keeps_colours col col"
  by (simp add: keeps_colours_def)

lemma keeps_colours_trans [trans]: "keeps_colours a b \<Longrightarrow> keeps_colours b c \<Longrightarrow> keeps_colours a c"
  by (auto simp: keeps_colours_def)

lemma cycle_from_closed:
  assumes "successively (\<lambda>a b. (a, b) \<in> control_rel w) stack" "t \<in> set stack"
    "(last stack, t) \<in> control_rel w"
  shows "is_closed_walk w (cycle_from stack t)"
proof -
  let ?d = "dropWhile (\<lambda>n. n \<noteq> t) stack"
  have ne: "?d \<noteq> []" using assms(2) by (auto simp: dropWhile_eq_Nil_conv)
  have hd: "hd ?d = t" using hd_dropWhile [OF ne] by simp
  obtain pre where st: "stack = pre @ ?d" by (metis takeWhile_dropWhile_id)
  have last: "last ?d = last stack" using ne by (metis last_appendR st)
  have "successively (\<lambda>a b. (a, b) \<in> control_rel w) ?d"
    using assms(1) by (metis st successively_append_iff)
  then have "successively (\<lambda>a b. (a, b) \<in> control_rel w) (?d @ [t])"
    using ne last assms(3) by (simp add: successively_append_iff)
  with ne hd assms(2) show ?thesis
    by (auto simp: is_closed_walk_def cycle_from_def neq_Nil_conv Suc_le_eq)
qed

text \<open>One call and one loop of the search, from a state that satisfies the invariant.\<close>

definition cycle_call_ok :: "workflow \<Rightarrow> nat \<Rightarrow> bool" where
  "cycle_call_ok w fuel \<longleftrightarrow>
     (\<forall>nid col stack res col' stack'.
        dfs_cycle fuel (graph_of w) nid (col, stack) = Some (res, (col', stack')) \<longrightarrow>
        dfs_inv w col stack \<longrightarrow> om_get col nid = Some White \<longrightarrow>
        (stack \<noteq> [] \<longrightarrow> (last stack, nid) \<in> control_rel w) \<longrightarrow>
        (case res of
           Some c \<Rightarrow> is_closed_walk w c
         | None \<Rightarrow> stack' = stack \<and> dfs_inv w col' stack \<and> om_get col' nid = Some Black \<and>
             keeps_colours col col'))"

lemma dfs_inv_keys: "dfs_inv w col stack \<Longrightarrow> om_get col v \<noteq> None \<longleftrightarrow> contains_node w v"
  by (simp add: dfs_inv_def contains_node_ids)

lemma dfs_edges_ok:
  assumes "cycle_call_ok w fuel"
    and "dfs_edges fuel (graph_of w) es (col, stack) = Some (res, (col', stack'))"
    and "dfs_inv w col stack" "stack \<noteq> []"
    and "set es \<subseteq> set (edges_from (graph_of w) (last stack))"
  shows "case res of
      Some c \<Rightarrow> is_closed_walk w c
    | None \<Rightarrow> stack' = stack \<and> dfs_inv w col' stack \<and> keeps_colours col col' \<and>
        (\<forall>e\<in>set es. contains_node w (e_target e) \<longrightarrow> om_get col' (e_target e) = Some Black)"
  using assms(2,3,5)
proof (induction es arbitrary: col)
  case Nil
  then show ?case by auto
next
  case (Cons e es)
  have src: "contains_node w (last stack)"
    using Cons.prems(2) assms(4) last_in_set [OF assms(4)]
    by (auto simp: dfs_inv_def contains_node_ids)
  have e: "e \<in> set (w_edges w)" "e_kind e = Control" "e_source e = last stack"
    using Cons.prems(3) by auto
  have es: "set es \<subseteq> set (edges_from (graph_of w) (last stack))" using Cons.prems(3) by auto
  show ?case
  proof (cases "workflow_node w (e_target e)")
    case None
    with Cons.prems(1) have "dfs_edges fuel (graph_of w) es (col, stack) = Some (res, (col', stack'))" by simp
    from Cons.IH [OF this Cons.prems(2) es] None show ?thesis
      by (auto simp: workflow_node_None split: option.splits)
  next
    case (Some target)
    then have t: "n_id target = e_target e" "contains_node w (e_target e)"
      using workflow_node_SomeD [OF Some] workflow_node_None [of w "e_target e"] by auto
    have rel: "(last stack, e_target e) \<in> control_rel w"
      using control_relI [OF e(1,2)] src t e(3) by auto
    obtain c where c: "om_get col (e_target e) = Some c"
      using dfs_inv_keys [OF Cons.prems(2), of "e_target e"] t(2) by auto
    show ?thesis
    proof (cases c)
      case Grey
      then have "res = Some (cycle_from stack (e_target e))"
        using Cons.prems(1) Some t c by (auto simp: colour_of_def)
      moreover have "e_target e \<in> set stack" using Cons.prems(2) c Grey by (simp add: dfs_inv_def)
      ultimately show ?thesis
        using cycle_from_closed [OF _ _ rel] Cons.prems(2) by (simp add: dfs_inv_def)
    next
      case Black
      then have run: "dfs_edges fuel (graph_of w) es (col, stack) = Some (res, (col', stack'))"
        using Cons.prems(1) Some t c by (simp add: colour_of_def)
      from Cons.IH [OF run Cons.prems(2) es] show ?thesis
        using c Black by (auto simp: keeps_colours_def split: option.splits)
    next
      case White
      then obtain r st where call: "dfs_cycle fuel (graph_of w) (e_target e) (col, stack) = Some (r, st)"
        using Cons.prems(1) Some t c by (auto simp: colour_of_def split: option.splits)
      obtain col1 stack1 where st: "st = (col1, stack1)" by (cases st)
      have post: "case r of Some c \<Rightarrow> is_closed_walk w c
          | None \<Rightarrow> stack1 = stack \<and> dfs_inv w col1 stack \<and> om_get col1 (e_target e) = Some Black \<and>
              keeps_colours col col1"
        using assms(1) call st Cons.prems(2) c White rel unfolding cycle_call_ok_def by blast
      show ?thesis
      proof (cases r)
        case (Some cyc)
        then have "res = Some cyc"
          using Cons.prems(1) \<open>workflow_node w (e_target e) = Some target\<close> t c White call
          by (simp add: colour_of_def)
        with post Some show ?thesis by simp
      next
        case None
        with post have p: "stack1 = stack" "dfs_inv w col1 stack" "om_get col1 (e_target e) = Some Black"
          "keeps_colours col col1" by auto
        then have run: "dfs_edges fuel (graph_of w) es (col1, stack) = Some (res, (col', stack'))"
          using Cons.prems(1) Some t c White call None st by (simp add: colour_of_def)
        from Cons.IH [OF run p(2) es] p show ?thesis
          by (auto simp: keeps_colours_def split: option.splits)
      qed
    qed
  qed
qed

lemma dfs_inv_enter:
  assumes "dfs_inv w col stack" "om_get col nid = Some White"
    "stack \<noteq> [] \<longrightarrow> (last stack, nid) \<in> control_rel w"
  shows "dfs_inv w (om_insert nid Grey col) (stack @ [nid])"
proof -
  have nid: "nid \<in> set (node_ids w)" "nid \<notin> set stack"
    using assms(1,2) by (auto simp: dfs_inv_def simp flip: not_None_eq)
  have "successively (\<lambda>a b. (a, b) \<in> control_rel w) (stack @ [nid])"
    using assms by (auto simp: dfs_inv_def successively_append_iff)
  moreover have "{v. om_get (om_insert nid Grey col) v = Some Black} = {v. om_get col v = Some Black}"
    using assms(2) by auto
  ultimately show ?thesis
    using assms(1) nid by (auto simp: dfs_inv_def)
qed

lemma dfs_inv_leave:
  assumes "dfs_inv w col (stack @ [nid])"
    and "\<And>u. (nid, u) \<in> control_rel w \<Longrightarrow> om_get col u = Some Black"
  shows "dfs_inv w (om_insert nid Black col) stack"
proof -
  obtain "done" where d: "set done = {v. om_get col v = Some Black}" "finished (control_rel w) done"
    using assms(1) by (auto simp: dfs_inv_def)
  have grey: "om_get col nid = Some Grey" "nid \<in> set (node_ids w)"
    using assms(1) by (auto simp: dfs_inv_def)
  have "set (nid # done) = {v. om_get (om_insert nid Black col) v = Some Black}"
    using d(1) by auto
  moreover have "finished (control_rel w) (nid # done)"
    using d grey(1) assms(2) by auto
  ultimately show ?thesis
    using assms(1) grey(2) unfolding dfs_inv_def
    by (intro conjI exI [of _ "nid # done"]) (auto simp: successively_append_iff)
qed

lemma cycle_call_ok: "cycle_call_ok w fuel"
proof (induction fuel)
  case 0
  then show ?case by (simp add: cycle_call_ok_def)
next
  case (Suc fuel)
  show ?case
    unfolding cycle_call_ok_def
  proof (intro allI impI)
    fix nid col stack res col' stack'
    assume run: "dfs_cycle (Suc fuel) (graph_of w) nid (col, stack) = Some (res, (col', stack'))"
      and inv: "dfs_inv w col stack" and white: "om_get col nid = Some White"
      and path: "stack \<noteq> [] \<longrightarrow> (last stack, nid) \<in> control_rel w"
    let ?col = "om_insert nid Grey col"
    have inv1: "dfs_inv w ?col (stack @ [nid])" by (rule dfs_inv_enter [OF inv white path])
    obtain r col1 stack1 where
      edges: "dfs_edges fuel (graph_of w) (edges_from (graph_of w) nid) (?col, stack @ [nid]) =
        Some (r, (col1, stack1))"
      using run by (auto split: option.splits simp del: edges_from_view)
    have post: "case r of Some c \<Rightarrow> is_closed_walk w c
      | None \<Rightarrow> stack1 = stack @ [nid] \<and> dfs_inv w col1 (stack @ [nid]) \<and> keeps_colours ?col col1 \<and>
        (\<forall>e\<in>set (edges_from (graph_of w) nid). contains_node w (e_target e) \<longrightarrow>
           om_get col1 (e_target e) = Some Black)"
      using dfs_edges_ok [OF Suc edges inv1] by simp
    show "case res of Some c \<Rightarrow> is_closed_walk w c
      | None \<Rightarrow> stack' = stack \<and> dfs_inv w col' stack \<and> om_get col' nid = Some Black \<and>
          keeps_colours col col'"
    proof (cases r)
      case (Some c)
      with run edges post show ?thesis by (auto simp del: edges_from_view)
    next
      case None
      with run edges post have res: "res = None" "col' = om_insert nid Black col1" "stack' = stack"
        by (auto simp del: edges_from_view)
      have succ: "om_get col1 u = Some Black" if "(nid, u) \<in> control_rel w" for u
        using that post None by (auto simp: control_rel_def live_edge_def)
      have "dfs_inv w col' stack"
        using dfs_inv_leave [of w col1 stack nid] succ post None res by simp
      with post None res white show ?thesis
        by (auto simp: keeps_colours_def)
    qed
  qed
qed

lemma dfs_roots_ok:
  assumes "dfs_roots fuel (graph_of w) ns (col, []) = Some (res, (col', stack'))"
    and "dfs_inv w col []" "set ns \<subseteq> set (w_nodes w)"
  shows "case res of
      Some c \<Rightarrow> is_closed_walk w c
    | None \<Rightarrow> dfs_inv w col' [] \<and> keeps_colours col col' \<and>
        (\<forall>n\<in>set ns. om_get col' (n_id n) = Some Black)"
  using assms
proof (induction ns arbitrary: col)
  case Nil
  then show ?case by auto
next
  case (Cons n ns)
  have keys: "om_get col (n_id n) \<noteq> None"
    using dfs_inv_keys [OF Cons.prems(2)] Cons.prems(3) by (auto simp: contains_node_iff)
  have nogrey: "om_get col v \<noteq> Some Grey" for v using Cons.prems(2) by (simp add: dfs_inv_def)
  show ?case
  proof (cases "om_get col (n_id n) = Some White")
    case False
    with keys nogrey have black: "om_get col (n_id n) = Some Black"
      by (metis colour.exhaust option.exhaust)
    from False Cons.prems have "dfs_roots fuel (graph_of w) ns (col, []) = Some (res, (col', stack'))" by simp
    from Cons.IH [OF this Cons.prems(2)] Cons.prems(3) black show ?thesis
      by (auto simp: keeps_colours_def split: option.splits)
  next
    case True
    then obtain r col1 stack1 where
      call: "dfs_cycle fuel (graph_of w) (n_id n) (col, []) = Some (r, (col1, stack1))"
      using Cons.prems(1) by (auto split: option.splits)
    have post: "case r of Some c \<Rightarrow> is_closed_walk w c
        | None \<Rightarrow> stack1 = [] \<and> dfs_inv w col1 [] \<and> om_get col1 (n_id n) = Some Black \<and> keeps_colours col col1"
      using cycle_call_ok [of w fuel, unfolded cycle_call_ok_def] call Cons.prems(2) True by blast
    show ?thesis
    proof (cases r)
      case (Some c)
      with Cons.prems(1) True call post show ?thesis by auto
    next
      case None
      with post have p: "stack1 = []" "dfs_inv w col1 []" "om_get col1 (n_id n) = Some Black"
        "keeps_colours col col1" by auto
      have run: "dfs_roots fuel (graph_of w) ns (col1, []) = Some (res, (col', stack'))"
        using Cons.prems(1) True call None p by simp
      from Cons.IH [OF run p(2)] Cons.prems(3) p show ?thesis
        by (auto simp: keeps_colours_def split: option.splits)
    qed
  qed
qed

text \<open>Fuel: every nested call has one white node less.\<close>

definition whites :: "colour omap \<Rightarrow> nat" where
  "whites col = card {v. om_get col v = Some White}"

lemma finite_whites [simp]: "finite {v. om_get col v = Some c}"
  by (rule finite_subset [OF _ finite_dom_map_of [of col]]) (auto simp: om_get_def)

lemma whites_enter:
  assumes "om_get col nid = Some White" "c \<noteq> White"
  shows "whites (om_insert nid c col) < whites col"
proof -
  have "{v. om_get (om_insert nid c col) v = Some White} = {v. om_get col v = Some White} - {nid}"
    using assms(2) by auto
  then show ?thesis
    unfolding whites_def using assms(1) by (metis Diff_iff card_Diff1_less finite_whites mem_Collect_eq)
qed

lemma whites_insert_le: "c \<noteq> White \<Longrightarrow> whites (om_insert nid c col) \<le> whites col"
  unfolding whites_def by (rule card_mono) auto

definition keyed :: "workflow \<Rightarrow> colour omap \<Rightarrow> bool" where
  "keyed w col \<longleftrightarrow> (\<forall>v. contains_node w v \<longrightarrow> om_get col v \<noteq> None)"

definition cycle_call_stops :: "workflow \<Rightarrow> nat \<Rightarrow> bool" where
  "cycle_call_stops w fuel \<longleftrightarrow>
     (\<forall>nid col stack. om_get col nid = Some White \<longrightarrow> keyed w col \<longrightarrow> whites col \<le> fuel \<longrightarrow>
        (\<exists>res col' stack'. dfs_cycle fuel (graph_of w) nid (col, stack) = Some (res, (col', stack')) \<and>
           keyed w col' \<and> whites col' \<le> whites col))"

lemma dfs_edges_stops:
  assumes "cycle_call_stops w fuel" "keyed w col" "whites col \<le> fuel"
  shows "\<exists>res col' stack'. dfs_edges fuel (graph_of w) es (col, stack) = Some (res, (col', stack')) \<and>
     keyed w col' \<and> whites col' \<le> whites col"
  using assms(2,3)
proof (induction es arbitrary: col stack)
  case (Cons e es)
  show ?case
  proof (cases "workflow_node w (e_target e)")
    case None
    with Cons show ?thesis by simp
  next
    case (Some target)
    then have t: "n_id target = e_target e" "contains_node w (e_target e)"
      using workflow_node_SomeD [OF Some] workflow_node_None [of w "e_target e"] by auto
    then obtain c where c: "om_get col (e_target e) = Some c"
      using Cons.prems(1) by (auto simp: keyed_def)
    show ?thesis
    proof (cases c)
      case White
      then obtain r col1 stack1 where
        call: "dfs_cycle fuel (graph_of w) (e_target e) (col, stack) = Some (r, (col1, stack1))"
          "keyed w col1" "whites col1 \<le> whites col"
        using assms(1) c Cons.prems unfolding cycle_call_stops_def by blast
      moreover obtain r2 col2 stack2 where
        "dfs_edges fuel (graph_of w) es (col1, stack1) = Some (r2, (col2, stack2))"
          "keyed w col2" "whites col2 \<le> whites col1"
        using Cons.IH [OF call(2)] call(3) Cons.prems(2) by (meson le_trans)
      ultimately show ?thesis
        using Some t c White by (cases r) (auto simp: colour_of_def)
    qed (use Some t c Cons in \<open>auto simp: colour_of_def\<close>)
  qed
qed simp

lemma keyed_insert: "keyed w col \<Longrightarrow> keyed w (om_insert v c col)"
  by (simp add: keyed_def)

lemma cycle_call_stops: "cycle_call_stops w fuel"
proof (induction fuel)
  case 0
  have "whites col \<noteq> 0" if "om_get col nid = Some White" for nid col
    using that unfolding whites_def by (metis card_0_eq empty_iff finite_whites mem_Collect_eq)
  then show ?case by (auto simp: cycle_call_stops_def)
next
  case (Suc fuel)
  show ?case
    unfolding cycle_call_stops_def
  proof (intro allI impI)
    fix nid col stack
    assume white: "om_get col nid = Some White" and keyed: "keyed w col" and le: "whites col \<le> Suc fuel"
    have enter: "whites (om_insert nid Grey col) < whites col" by (rule whites_enter [OF white]) simp
    then have "whites (om_insert nid Grey col) \<le> fuel" using le by linarith
    then obtain r col1 stack1 where
      run: "dfs_edges fuel (graph_of w) (edges_from (graph_of w) nid) (om_insert nid Grey col, stack @ [nid]) =
         Some (r, (col1, stack1))" and
      k1: "keyed w col1" and w1: "whites col1 \<le> whites (om_insert nid Grey col)"
      using dfs_edges_stops [OF Suc keyed_insert [OF keyed]] by blast
    show "\<exists>res col' stack'. dfs_cycle (Suc fuel) (graph_of w) nid (col, stack) = Some (res, (col', stack')) \<and>
        keyed w col' \<and> whites col' \<le> whites col"
    proof (cases r)
      case None
      have "whites (om_insert nid Black col1) \<le> whites col"
        using whites_insert_le [of Black nid col1] w1 enter by simp
      with None show ?thesis
        by (simp only: dfs_cycle.simps run) (simp add: keyed_insert [OF k1])
    next
      case (Some c)
      with run k1 w1 enter show ?thesis by (simp only: dfs_cycle.simps run) simp
    qed
  qed
qed

lemma dfs_roots_stops:
  assumes "keyed w col" "whites col \<le> fuel"
  shows "\<exists>res st. dfs_roots fuel (graph_of w) ns (col, stack) = Some (res, st)"
  using assms
proof (induction ns arbitrary: col stack)
  case (Cons n ns)
  show ?case
  proof (cases "om_get col (n_id n) = Some White")
    case True
    then obtain r col1 stack1 where
      call: "dfs_cycle fuel (graph_of w) (n_id n) (col, stack) = Some (r, (col1, stack1))"
        "keyed w col1" "whites col1 \<le> whites col"
      using cycle_call_stops [of w fuel] Cons.prems unfolding cycle_call_stops_def by blast
    with Cons.IH [OF call(2)] Cons.prems(2) True show ?thesis by (cases r) auto
  qed (use Cons in simp)
qed simp

definition white_map :: "workflow \<Rightarrow> colour omap" where
  "white_map w = fold (\<lambda>n. om_insert (n_id n) White) (w_nodes w) om_empty"

lemma om_get_white_map: "om_get (white_map w) v = (if contains_node w v then Some White else None)"
proof -
  have "om_get (fold (\<lambda>n. om_insert (n_id n) White) ns m) v =
      (if v \<in> n_id ` set ns then Some White else om_get m v)" for ns :: "node list" and m
    by (induction ns arbitrary: m) auto
  then show ?thesis by (simp add: white_map_def contains_node_iff om_empty_def)
qed

lemma white_map_inv: "dfs_inv w (white_map w) []"
  by (auto simp: dfs_inv_def om_get_white_map contains_node_ids intro: exI [of _ "[]"])

lemma whites_white_map: "whites (white_map w) \<le> length (w_nodes w)"
proof -
  have "{v. om_get (white_map w) v = Some White} = set (node_ids w)"
    by (auto simp: om_get_white_map contains_node_ids)
  then show ?thesis
    using card_length [of "node_ids w"] by (simp add: whites_def node_ids_def)
qed

lemma find_cycle_fuel_enough:
  "length (w_nodes w) \<le> fuel \<Longrightarrow> \<exists>r. find_cycle_fuel fuel (graph_of w) = Some r"
  using dfs_roots_stops [of w "white_map w" fuel "w_nodes w" "[]"] whites_white_map [of w]
  by (auto simp: find_cycle_fuel_def keyed_def om_get_white_map simp flip: white_map_def)

lemma find_cycle_total:
  "find_cycle_fuel (Suc (length (w_nodes w))) (graph_of w) = Some (find_cycle (graph_of w))"
  using find_cycle_fuel_enough [of w "Suc (length (w_nodes w))"] by (auto simp: find_cycle_def)

lemma find_cycle_cases:
  "case find_cycle (graph_of w) of
     Some c \<Rightarrow> is_closed_walk w c
   | None \<Rightarrow> acyclic (control_rel w)"
proof -
  obtain res col stack where
    run: "dfs_roots (Suc (length (w_nodes w))) (graph_of w) (w_nodes w) (white_map w, []) =
        Some (res, (col, stack))" and res: "find_cycle (graph_of w) = res"
    using find_cycle_total [of w]
    by (auto simp: find_cycle_fuel_def simp flip: white_map_def)
  from dfs_roots_ok [OF run white_map_inv] have post: "case res of
      Some c \<Rightarrow> is_closed_walk w c
    | None \<Rightarrow> dfs_inv w col [] \<and> keeps_colours (white_map w) col \<and>
        (\<forall>n\<in>set (w_nodes w). om_get col (n_id n) = Some Black)" by simp
  show ?thesis
  proof (cases res)
    case None
    with post obtain "done" where "set done = {v. om_get col v = Some Black}" "finished (control_rel w) done"
      by (auto simp: dfs_inv_def)
    moreover from None post have "set (node_ids w) \<subseteq> {v. om_get col v = Some Black}"
      by (auto simp: node_ids_def)
    moreover have "Field (control_rel w) \<subseteq> set (node_ids w)"
      using control_rel_ids by (auto simp: Field_def)
    ultimately have "acyclic (control_rel w)"
      by (intro finished_acyclic [of "control_rel w" "done"]) auto
    with res None show ?thesis by simp
  next
    case (Some c)
    with post res show ?thesis by simp
  qed
qed

lemma find_cycle_iff: "find_cycle (graph_of w) = None \<longleftrightarrow> acyclic (control_rel w)"
  using find_cycle_cases [of w] closed_walk_cyclic by (auto split: option.splits)

section \<open>Reachability\<close>

lemma visit_edges_spec:
  assumes "visit_edges (graph_of w) es visited queue = (visited', queue')"
  shows "set visited' = set visited \<union> {e_target e |e. e \<in> set es \<and> contains_node w (e_target e)} \<and>
     set queue' = set queue \<union> (set visited' - set visited)"
  using assms
proof (induction es arbitrary: visited queue)
  case (Cons e es)
  show ?case
  proof (cases "workflow_node w (e_target e)")
    case None
    with Cons show ?thesis by (auto simp: graph_of_index workflow_node_None)
  next
    case (Some target)
    then have t: "n_id target = e_target e" "contains_node w (e_target e)"
      using workflow_node_SomeD [OF Some] workflow_node_None [of w "e_target e"] by auto
    show ?thesis
    proof (cases "e_target e \<in> set visited")
      case True
      then have "visit_edges (graph_of w) es visited queue = (visited', queue')"
        using Cons.prems Some t by (simp add: graph_of_index)
      from Cons.IH [OF this] True t show ?thesis by auto
    next
      case False
      then have "visit_edges (graph_of w) es (e_target e # visited) (queue @ [e_target e]) = (visited', queue')"
        using Cons.prems Some t by (simp add: graph_of_index)
      from Cons.IH [OF this] False t show ?thesis by auto
    qed
  qed
qed auto

lemma bfs_spec:
  assumes "set queue \<subseteq> set visited" "set visited \<subseteq> set (node_ids w)"
    and "\<And>v u. v \<in> set visited - set queue \<Longrightarrow> (v, u) \<in> control_rel w \<Longrightarrow> u \<in> set visited"
  shows "set visited \<subseteq> set (bfs (graph_of w) queue visited) \<and>
     set (bfs (graph_of w) queue visited) \<subseteq> (control_rel w)\<^sup>* `` set visited \<and>
     control_rel w `` set (bfs (graph_of w) queue visited) \<subseteq> set (bfs (graph_of w) queue visited)"
  using assms
proof (induction "graph_of w" queue visited rule: bfs.induct)
  case (1 visited)
  then show ?case by auto
next
  case (2 current queue visited)
  obtain visited' queue' where
    run: "visit_edges (graph_of w) (edges_from (graph_of w) current) visited queue = (visited', queue')"
    by fastforce
  have cur: "contains_node w current" using 2(2,3) by (auto simp: contains_node_ids)
  have spec: "set visited' = set visited \<union> {u. (current, u) \<in> control_rel w}"
    "set queue' = set queue \<union> (set visited' - set visited)"
    using visit_edges_spec [OF run] cur by (auto simp: control_rel_def live_edge_def)
  have A: "set queue' \<subseteq> set visited'" using spec 2(2) by auto
  have B: "set visited' \<subseteq> set (node_ids w)" using spec 2(3) control_rel_ids by auto
  have C: "u \<in> set visited'" if "v \<in> set visited' - set queue'" "(v, u) \<in> control_rel w" for v u
    using that spec 2(4) [of v u] by (cases "v = current") auto
  from 2(1) [OF run [symmetric] refl A B C]
  have IH: "set visited' \<subseteq> set (bfs (graph_of w) queue' visited')"
    "set (bfs (graph_of w) queue' visited') \<subseteq> (control_rel w)\<^sup>* `` set visited'"
    "control_rel w `` set (bfs (graph_of w) queue' visited') \<subseteq> set (bfs (graph_of w) queue' visited')"
    by auto
  have "(control_rel w)\<^sup>* `` set visited' \<subseteq> (control_rel w)\<^sup>* `` set visited"
    using spec(1) 2(2) by (auto intro: converse_rtrancl_into_rtrancl)
  with IH spec run show ?case by (auto simp del: edges_from_view)
qed

lemma reachable_from_iff:
  assumes "contains_node w start"
  shows "v \<in> set (reachable_from (graph_of w) start) \<longleftrightarrow> (start, v) \<in> (control_rel w)\<^sup>*"
proof -
  obtain n where n: "workflow_node w start = Some n" "n_id n = start"
    using assms workflow_node_None [of w start] workflow_node_SomeD [of w start] by fastforce
  define r where "r = set (bfs (graph_of w) [start] [start])"
  have spec: "start \<in> r" "r \<subseteq> (control_rel w)\<^sup>* `` {start}" "control_rel w `` r \<subseteq> r"
    using bfs_spec [of "[start]" "[start]" w] assms
    by (simp_all add: contains_node_ids flip: r_def del: bfs.simps)
  have "(start, v) \<in> (control_rel w)\<^sup>* \<Longrightarrow> v \<in> r" for v
    by (induction rule: rtrancl_induct) (use spec in auto)
  moreover have "set (reachable_from (graph_of w) start) = r"
    using n by (simp add: reachable_from_def r_def del: bfs.simps)
  ultimately show ?thesis using spec by auto
qed

text \<open>More recursion depth never changes an answer.\<close>

lemma dfs_more_fuel:
  "dfs_cycle fuel g nid st = Some r \<Longrightarrow> dfs_cycle (fuel + k) g nid st = Some r"
  "dfs_edges fuel g es st = Some r \<Longrightarrow> dfs_edges (fuel + k) g es st = Some r"
proof (induction fuel g nid st and fuel g es st arbitrary: r and r rule: dfs_cycle_dfs_edges.induct)
  case (4 fuel g e es col stack)
  show ?case
  proof (cases "graph_node g (e_target e)")
    case None
    then show ?thesis using 4 by simp
  next
    case (Some target)
    show ?thesis
    proof (cases "colour_of col (n_id target)")
      case White
      then obtain found st where c: "dfs_cycle fuel g (n_id target) (col, stack) = Some (found, st)"
        using 4(5) Some by (auto split: option.splits)
      with 4(2) [OF Some White] have c': "dfs_cycle (fuel + k) g (n_id target) (col, stack) = Some (found, st)"
        by blast
      show ?thesis
      proof (cases found)
        case None
        then show ?thesis using 4(3) [OF Some White c] 4(5) Some White c c' by (cases r) simp
      qed (use 4(5) Some White c c' in auto)
    qed (use 4 Some in simp_all)
  qed
qed (auto split: option.splits)

lemma dfs_roots_more_fuel: "dfs_roots fuel g ns st = Some r \<Longrightarrow> dfs_roots (fuel + k) g ns st = Some r"
proof (induction fuel g ns st arbitrary: r rule: dfs_roots.induct)
  case (2 fuel g n ns col stack)
  show ?case
  proof (cases "om_get col (n_id n) = Some White")
    case True
    then obtain found st where c: "dfs_cycle fuel g (n_id n) (col, stack) = Some (found, st)"
      using 2(3) by (auto split: option.splits)
    show ?thesis
    proof (cases found)
      case None
      then show ?thesis using 2(1) [OF True c] 2(3) True c dfs_more_fuel(1) [OF c, of k] by (cases r) simp
    qed (use 2(3) True c dfs_more_fuel(1) [OF c, of k] in auto)
  qed (use 2 in simp)
qed simp

lemma find_cycle_fuel_mono:
  "find_cycle_fuel fuel g = Some r \<Longrightarrow> find_cycle_fuel (fuel + k) g = Some r"
  by (auto simp: find_cycle_fuel_def dest: dfs_roots_more_fuel)

section \<open>Properties\<close>

text \<open>C1. On a workflow whose node ids are distinct, scheduling and cycle search decide the same
  question: \<open>topological_order\<close> succeeds exactly when \<open>find_cycle\<close> finds nothing, its result
  then lists every node once with every control edge going forward, and otherwise
  \<open>find_cycle\<close> returns a closed walk over control edges.\<close>

theorem scheduling_decides_cycles:
  assumes "distinct (node_ids w)"
  shows "case topological_order (graph_of w) of
      Inr order \<Rightarrow> is_topological_order w order \<and> find_cycle (graph_of w) = None
    | Inl _ \<Rightarrow> \<exists>c. find_cycle (graph_of w) = Some c \<and> is_closed_walk w c"
proof (cases "topological_order (graph_of w)")
  case (Inl err)
  then have "find_cycle (graph_of w) \<noteq> None"
    using topological_order_complete [OF assms] by (auto simp: find_cycle_iff)
  with Inl find_cycle_cases [of w] show ?thesis by auto
next
  case (Inr order)
  with topological_order_sound [OF assms] have "is_topological_order w order" by simp
  with Inr show ?thesis by (simp add: find_cycle_iff topological_order_acyclic)
qed

definition diamond :: workflow where
  "diamond = (new_workflow ''wf'')
     \<lparr>w_nodes := [new_node ''a'' ''core.Start'', new_node ''b'' ''core.Log'', new_node ''c'' ''core.Log'', new_node ''d'' ''core.End''],
      w_edges := [new_edge ''1'' ''a'' ''c'', new_edge ''2'' ''a'' ''b'', new_edge ''3'' ''b'' ''d'', new_edge ''4'' ''c'' ''d'']\<rparr>"

lemma diamond_order: "topological_order (graph_of diamond) = Inr [''a'', ''c'', ''b'', ''d'']"
  by code_simp

lemma scheduling_decides_cycles_witness:
  "topological_order (graph_of diamond) = Inr [''a'', ''c'', ''b'', ''d''] \<and> find_cycle (graph_of diamond) = None"
proof -
  have "distinct (node_ids diamond)" by code_simp
  from scheduling_decides_cycles [OF this] show ?thesis by (simp add: diamond_order)
qed

text \<open>Whatever the workflow, duplicated ids and edges to missing nodes included, \<open>find_cycle\<close>
  returns: \<open>None\<close> exactly for an acyclic control relation, and otherwise a closed walk of
  at least one control edge between existing nodes. The recursion depth never exceeds the
  number of nodes, so the answer does not depend on the fuel.\<close>

theorem find_cycle_correct:
  "(case find_cycle (graph_of w) of
      Some c \<Rightarrow> is_closed_walk w c
    | None \<Rightarrow> acyclic (control_rel w)) \<and>
   find_cycle_fuel (Suc (length (w_nodes w)) + k) (graph_of w) = Some (find_cycle (graph_of w))"
proof -
  have "find_cycle_fuel (Suc (length (w_nodes w)) + k) (graph_of w) = Some (find_cycle (graph_of w))"
    by (rule find_cycle_fuel_mono [OF find_cycle_total])
  with find_cycle_cases [of w] show ?thesis by simp
qed

text \<open>\<open>reachable_from\<close> computes reachability: the ids it returns are exactly those joined to
  \<open>start\<close> by a path of control edges between existing nodes, and none when \<open>start\<close> does
  not exist.\<close>

theorem reachable_from_correct:
  "set (reachable_from (graph_of w) start) = {v. contains_node w start \<and> (start, v) \<in> (control_rel w)\<^sup>*}"
proof (cases "contains_node w start")
  case True
  then show ?thesis by (auto simp: reachable_from_iff)
next
  case False
  then show ?thesis by (simp add: reachable_from_def flip: workflow_node_None)
qed

end
