(* ===== verification/Nodara_Expr.thy ===== *)
theory Nodara_Expr
  imports Nodara_Json
begin

text \<open>
  The expression evaluator of \<open>expr.rs\<close>: the lexer, the recursive-descent parser that
  evaluates as it parses, variable resolution and \<open>evaluate_expression\<close>. The parser state
  is the list of tokens still to read. The depth counter counts down from \<open>MAX_DEPTH\<close>, so
  that the recursion is structural; the loops of the binary levels carry fuel, one more
  than the number of tokens left, which \<open>evaluate_expression_total\<close> shows to be enough.
\<close>

section \<open>Tokens and errors\<close>

datatype op = Add | Sub | Mul | Div | Rem | Pow | Lt | Le | Gt | Ge | Eq | Ne | And | Or | Not

datatype token = Number f64 | Ident string | LParen | RParen | Op op

datatype expr_error =
    UnexpectedChar char
  | UnexpectedToken string
  | UnexpectedEnd
  | UnknownVariable string
  | DivisionByZero
  | TooComplex

fun expr_error_text :: "expr_error \<Rightarrow> string" where
  "expr_error_text (UnexpectedChar c) = ''unexpected character `'' @ [c] @ ''`''"
| "expr_error_text (UnexpectedToken t) = ''unexpected token `'' @ t @ ''`''"
| "expr_error_text UnexpectedEnd = ''unexpected end of expression''"
| "expr_error_text (UnknownVariable name) = ''unknown variable `'' @ name @ ''`''"
| "expr_error_text DivisionByZero = ''division by zero''"
| "expr_error_text TooComplex = ''expression is nested too deeply''"

fun op_debug :: "op \<Rightarrow> string" where
  "op_debug Add = ''Add''" | "op_debug Sub = ''Sub''" | "op_debug Mul = ''Mul''"
| "op_debug Div = ''Div''" | "op_debug Rem = ''Rem''" | "op_debug Pow = ''Pow''"
| "op_debug Lt = ''Lt''" | "op_debug Le = ''Le''" | "op_debug Gt = ''Gt''"
| "op_debug Ge = ''Ge''" | "op_debug Eq = ''Eq''" | "op_debug Ne = ''Ne''"
| "op_debug And = ''And''" | "op_debug Or = ''Or''" | "op_debug Not = ''Not''"

text \<open>\<open>{token:?}\<close>, the derived \<open>Debug\<close> rendering. An identifier needs no escapes.\<close>

fun token_debug :: "externs \<Rightarrow> token \<Rightarrow> string" where
  "token_debug x (Number n) = ''Number('' @ ext_f64_text x n @ '')''"
| "token_debug x (Ident s) = ''Ident('' @ [CHR 0x22] @ s @ [CHR 0x22] @ '')''"
| "token_debug x LParen = ''LParen''"
| "token_debug x RParen = ''RParen''"
| "token_debug x (Op p) = ''Op('' @ op_debug p @ '')''"

section \<open>Lexer\<close>

definition starts_number :: "char \<Rightarrow> string \<Rightarrow> bool" where
  "starts_number c cs = (is_digit c \<or> (c = CHR ''.'' \<and> (case cs of [] \<Rightarrow> False | d # _ \<Rightarrow> is_digit d)))"

definition number_char :: "char \<Rightarrow> bool" where
  "number_char c = (is_digit c \<or> c = CHR ''.'')"

definition starts_ident :: "char \<Rightarrow> bool" where
  "starts_ident c = (is_alphabetic c \<or> c = CHR ''_'')"

definition ident_char :: "char \<Rightarrow> bool" where
  "ident_char c = (is_alphanumeric c \<or> c = CHR ''_'' \<or> c = CHR ''.'')"

text \<open>The operator that starts here and its width in characters.\<close>

definition lex_op :: "char \<Rightarrow> char option \<Rightarrow> (op \<times> nat) option" where
  "lex_op c next =
     (if c = CHR ''|'' \<and> next = Some (CHR ''|'') then Some (Or, 2)
      else if c = CHR ''&'' \<and> next = Some (CHR ''&'') then Some (And, 2)
      else if c = CHR ''='' \<and> next = Some (CHR ''='') then Some (Eq, 2)
      else if c = CHR ''!'' \<and> next = Some (CHR ''='') then Some (Ne, 2)
      else if c = CHR ''<'' \<and> next = Some (CHR ''='') then Some (Le, 2)
      else if c = CHR ''>'' \<and> next = Some (CHR ''='') then Some (Ge, 2)
      else if c = CHR ''+'' then Some (Add, 1)
      else if c = CHR ''-'' then Some (Sub, 1)
      else if c = CHR ''*'' then Some (Mul, 1)
      else if c = CHR ''/'' then Some (Div, 1)
      else if c = CHR ''%'' then Some (Rem, 1)
      else if c = CHR ''^'' then Some (Pow, 1)
      else if c = CHR ''<'' then Some (Lt, 1)
      else if c = CHR ''>'' then Some (Gt, 1)
      else if c = CHR ''!'' then Some (Not, 1)
      else None)"

text \<open>Widths are positive: the loop of \<open>lex\<close> always moves on.\<close>

lemma lex_op_width: "lex_op c n = Some (p, width) \<Longrightarrow> width = 1 \<or> width = 2"
  by (auto simp: lex_op_def split: if_splits)

lemma dropWhile_length_le: "length (dropWhile p xs) \<le> length xs"
  by (induction xs) auto

fun lex_head :: "char \<Rightarrow> string \<Rightarrow> (expr_error, token option \<times> string) result" where
  "lex_head c cs =
     (if is_space c then Inr (None, cs)
      else if starts_number c cs then
        (let text = takeWhile number_char (c # cs)
         in case parse_f64 text of
              None \<Rightarrow> Inl (UnexpectedToken text)
            | Some n \<Rightarrow> Inr (Some (Number n), dropWhile number_char (c # cs)))
      else if starts_ident c then
        Inr (Some (Ident (takeWhile ident_char (c # cs))), dropWhile ident_char (c # cs))
      else if c = CHR ''('' then Inr (Some LParen, cs)
      else if c = CHR '')'' then Inr (Some RParen, cs)
      else (case lex_op c (case cs of [] \<Rightarrow> None | d # _ \<Rightarrow> Some d) of
              None \<Rightarrow> Inl (UnexpectedChar c)
            | Some (p, width) \<Rightarrow> Inr (Some (Op p), drop width (c # cs))))"

declare lex_head.simps [simp del]

lemma lex_head_shorter: "lex_head c cs = Inr (t, rest) \<Longrightarrow> length rest \<le> length cs"
proof -
  assume h: "lex_head c cs = Inr (t, rest)"
  have num: "starts_number c cs \<Longrightarrow> number_char c"
    by (auto simp: starts_number_def number_char_def)
  have id: "starts_ident c \<Longrightarrow> ident_char c"
    by (auto simp: starts_ident_def ident_char_def is_alphanumeric_def)
  show ?thesis
    using h num id dropWhile_length_le [of number_char cs] dropWhile_length_le [of ident_char cs]
    by (auto simp: lex_head.simps Let_def split: if_splits option.splits dest!: lex_op_width)
qed

function lex :: "string \<Rightarrow> (expr_error, token list) result" where
  "lex [] = Inr []"
| "lex (c # cs) =
     (case lex_head c cs of
        Inl e \<Rightarrow> Inl e
      | Inr (t, rest) \<Rightarrow>
          (case lex rest of
             Inl e \<Rightarrow> Inl e
           | Inr ts \<Rightarrow> Inr (case t of None \<Rightarrow> ts | Some tok \<Rightarrow> tok # ts)))"
  by pat_completeness auto
termination
  by (relation "measure length") (auto dest: lex_head_shorter simp: less_Suc_eq_le)

section \<open>Evaluation primitives\<close>

definition truthy :: "f64 \<Rightarrow> bool" where
  "truthy v = (\<not> feq v f64_zero \<and> \<not> is_nan v)"

definition bool_to_number :: "bool \<Rightarrow> f64" where
  "bool_to_number b = (if b then f64_one else f64_zero)"

text \<open>The constant \<open>std::f64::consts::PI\<close>.\<close>

definition f64_pi :: f64 where
  "f64_pi = Fin (884279719003555 / 281474976710656)"

definition resolve :: "jobject \<Rightarrow> string \<Rightarrow> (expr_error, f64) result" where
  "resolve vars name =
     (let segments = split_dots name
      in case om_get vars (hd segments) of
           None \<Rightarrow> Inl (UnknownVariable name)
         | Some v \<Rightarrow>
             (case json_path v (tl segments) of
                None \<Rightarrow> Inl (UnknownVariable name)
              | Some current \<Rightarrow>
                  (case as_f64 current of
                     Some n \<Rightarrow> Inr n
                   | None \<Rightarrow>
                       (case as_bool current of
                          Some b \<Rightarrow> Inr (bool_to_number b)
                        | None \<Rightarrow> Inl (UnknownVariable name)))))"

text \<open>The operators each binary level accepts, with what it computes.\<close>

type_synonym op_table = "op \<Rightarrow> (f64 \<Rightarrow> f64 \<Rightarrow> (expr_error, f64) result) option"

definition or_ops :: op_table where
  "or_ops p = (if p = Or then Some (\<lambda>l r. Inr (bool_to_number (truthy l \<or> truthy r))) else None)"

definition and_ops :: op_table where
  "and_ops p = (if p = And then Some (\<lambda>l r. Inr (bool_to_number (truthy l \<and> truthy r))) else None)"

definition equality_ops :: op_table where
  "equality_ops p =
     (if p = Eq then Some (\<lambda>l r. Inr (bool_to_number (flt (fabs (fsub l r)) f64_epsilon)))
      else if p = Ne then Some (\<lambda>l r. Inr (bool_to_number (fle f64_epsilon (fabs (fsub l r)))))
      else None)"

definition comparison_ops :: op_table where
  "comparison_ops p =
     (if p = Lt then Some (\<lambda>l r. Inr (bool_to_number (flt l r)))
      else if p = Le then Some (\<lambda>l r. Inr (bool_to_number (fle l r)))
      else if p = Gt then Some (\<lambda>l r. Inr (bool_to_number (flt r l)))
      else if p = Ge then Some (\<lambda>l r. Inr (bool_to_number (fle r l)))
      else None)"

definition term_ops :: op_table where
  "term_ops p =
     (if p = Add then Some (\<lambda>l r. Inr (fadd l r))
      else if p = Sub then Some (\<lambda>l r. Inr (fsub l r))
      else None)"

definition factor_ops :: op_table where
  "factor_ops p =
     (if p = Mul then Some (\<lambda>l r. Inr (fmul l r))
      else if p = Div then Some (\<lambda>l r. if feq r f64_zero then Inl DivisionByZero else Inr (fdiv l r))
      else if p = Rem then Some (\<lambda>l r. if feq r f64_zero then Inl DivisionByZero else Inr (frem l r))
      else None)"

section \<open>Parser\<close>

text \<open>A parse result: \<open>None\<close> when a loop ran out of fuel, otherwise an error or a value with
  the tokens that are left. \<open>and_then\<close> is the \<open>?\<close> operator.\<close>

type_synonym parsed = "(expr_error, f64 \<times> token list) result option"

definition and_then :: "parsed \<Rightarrow> (f64 \<Rightarrow> token list \<Rightarrow> parsed) \<Rightarrow> parsed" where
  "and_then p k =
     (case p of
        None \<Rightarrow> None
      | Some (Inl e) \<Rightarrow> Some (Inl e)
      | Some (Inr (v, ts)) \<Rightarrow> k v ts)"

definition eat_op :: "op \<Rightarrow> token list \<Rightarrow> token list option" where
  "eat_op p ts = (case ts of Op q # rest \<Rightarrow> if q = p then Some rest else None | _ \<Rightarrow> None)"

text \<open>An operator of the table at the head: what to apply, and the tokens after it.\<close>

definition table_op :: "op_table \<Rightarrow> token list \<Rightarrow> ((f64 \<Rightarrow> f64 \<Rightarrow> (expr_error, f64) result) \<times> token list) option" where
  "table_op tbl ts =
     (case ts of Op q # rest \<Rightarrow> map_option (\<lambda>f. (f, rest)) (tbl q) | _ \<Rightarrow> None)"

text \<open>The loop of every binary level: while an operator of the level follows, parse the
  operand of the next tighter level and combine.\<close>

fun binary_loop :: "nat \<Rightarrow> op_table \<Rightarrow> (token list \<Rightarrow> parsed) \<Rightarrow> f64 \<Rightarrow> token list \<Rightarrow> parsed" where
  "binary_loop 0 tbl operand left ts = None"
| "binary_loop (Suc fuel) tbl operand left ts =
     (case table_op tbl ts of
        None \<Rightarrow> Some (Inr (left, ts))
      | Some (f, rest) \<Rightarrow>
          and_then (operand rest) (\<lambda>right rest'.
            case f left right of
              Inl e \<Rightarrow> Some (Inl e)
            | Inr v \<Rightarrow> binary_loop fuel tbl operand v rest'))"

definition parse_level :: "op_table \<Rightarrow> (token list \<Rightarrow> parsed) \<Rightarrow> token list \<Rightarrow> parsed" where
  "parse_level tbl operand ts =
     and_then (operand ts) (\<lambda>left rest. binary_loop (Suc (length rest)) tbl operand left rest)"

definition parse_factor :: "(token list \<Rightarrow> parsed) \<Rightarrow> token list \<Rightarrow> parsed" where
  "parse_factor unary = parse_level factor_ops unary"

definition parse_term :: "(token list \<Rightarrow> parsed) \<Rightarrow> token list \<Rightarrow> parsed" where
  "parse_term unary = parse_level term_ops (parse_factor unary)"

definition parse_comparison :: "(token list \<Rightarrow> parsed) \<Rightarrow> token list \<Rightarrow> parsed" where
  "parse_comparison unary = parse_level comparison_ops (parse_term unary)"

definition parse_equality :: "(token list \<Rightarrow> parsed) \<Rightarrow> token list \<Rightarrow> parsed" where
  "parse_equality unary = parse_level equality_ops (parse_comparison unary)"

definition parse_and :: "(token list \<Rightarrow> parsed) \<Rightarrow> token list \<Rightarrow> parsed" where
  "parse_and unary = parse_level and_ops (parse_equality unary)"

definition parse_or :: "(token list \<Rightarrow> parsed) \<Rightarrow> token list \<Rightarrow> parsed" where
  "parse_or unary = parse_level or_ops (parse_and unary)"

definition parse_expression :: "(token list \<Rightarrow> parsed) \<Rightarrow> token list \<Rightarrow> parsed" where
  "parse_expression unary = parse_or unary"

definition parse_primary :: "externs \<Rightarrow> jobject \<Rightarrow> (token list \<Rightarrow> parsed) \<Rightarrow> token list \<Rightarrow> parsed" where
  "parse_primary x vars unary ts =
     (case ts of
        [] \<Rightarrow> Some (Inl UnexpectedEnd)
      | tok # rest \<Rightarrow>
          (case tok of
             Number n \<Rightarrow> Some (Inr (n, rest))
           | Ident name \<Rightarrow>
               if name = ''true'' then Some (Inr (f64_one, rest))
               else if name = ''false'' then Some (Inr (f64_zero, rest))
               else if name = ''pi'' then Some (Inr (f64_pi, rest))
               else (case resolve vars name of
                       Inl e \<Rightarrow> Some (Inl e)
                     | Inr v \<Rightarrow> Some (Inr (v, rest)))
           | LParen \<Rightarrow>
               and_then (parse_expression unary rest) (\<lambda>v rest'.
                 case rest' of
                   [] \<Rightarrow> Some (Inl UnexpectedEnd)
                 | t # rest'' \<Rightarrow>
                     if t = RParen then Some (Inr (v, rest''))
                     else Some (Inl (UnexpectedToken (token_debug x t))))
           | _ \<Rightarrow> Some (Inl (UnexpectedToken (token_debug x tok)))))"

definition parse_power :: "externs \<Rightarrow> jobject \<Rightarrow> (token list \<Rightarrow> parsed) \<Rightarrow> token list \<Rightarrow> parsed" where
  "parse_power x vars unary ts =
     and_then (parse_primary x vars unary ts) (\<lambda>base rest.
       case eat_op Pow rest of
         None \<Rightarrow> Some (Inr (base, rest))
       | Some rest' \<Rightarrow>
           and_then (unary rest') (\<lambda>exponent rest''. Some (Inr (ext_powf x base exponent, rest''))))"

text \<open>\<open>parse_unary\<close> with the recursion depth that is left.\<close>

fun parse_unary :: "externs \<Rightarrow> jobject \<Rightarrow> nat \<Rightarrow> token list \<Rightarrow> parsed" where
  "parse_unary x vars 0 ts = Some (Inl TooComplex)"
| "parse_unary x vars (Suc d) ts =
     (case eat_op Sub ts of
        Some rest \<Rightarrow> and_then (parse_unary x vars d rest) (\<lambda>v rest'. Some (Inr (fneg v, rest')))
      | None \<Rightarrow>
     (case eat_op Add ts of
        Some rest \<Rightarrow> parse_unary x vars d rest
      | None \<Rightarrow>
     (case eat_op Not ts of
        Some rest \<Rightarrow>
          and_then (parse_unary x vars d rest)
            (\<lambda>v rest'. Some (Inr (bool_to_number (\<not> truthy v), rest')))
      | None \<Rightarrow> parse_power x vars (parse_unary x vars d) ts)))"

definition max_depth :: nat where
  "max_depth = 128"

definition evaluate_tokens :: "externs \<Rightarrow> jobject \<Rightarrow> token list \<Rightarrow> (expr_error, f64) result option" where
  "evaluate_tokens x vars tokens =
     map_option
       (\<lambda>r. case r of
          Inl e \<Rightarrow> Inl e
        | Inr (v, rest) \<Rightarrow>
            (case rest of [] \<Rightarrow> Inr v | t # _ \<Rightarrow> Inl (UnexpectedToken (token_debug x t))))
       (parse_expression (parse_unary x vars max_depth) tokens)"

definition evaluate_expression :: "externs \<Rightarrow> string \<Rightarrow> jobject \<Rightarrow> (expr_error, f64) result" where
  "evaluate_expression x expr vars =
     (let trimmed = trim expr
      in if trimmed = [] then Inl UnexpectedEnd
         else (case lex trimmed of
                 Inl e \<Rightarrow> Inl e
               | Inr tokens \<Rightarrow> the (evaluate_tokens x vars tokens)))"

section \<open>The parser always returns\<close>

text \<open>A parser that consumes: it returns, and a success leaves fewer tokens.\<close>

definition consumes :: "(token list \<Rightarrow> parsed) \<Rightarrow> bool" where
  "consumes p = (\<forall>ts. \<exists>r. p ts = Some r \<and> (\<forall>v rest. r = Inr (v, rest) \<longrightarrow> length rest < length ts))"

lemma consumesD:
  assumes "consumes p"
  obtains (err) e where "p ts = Some (Inl e)"
  | (ok) v rest where "p ts = Some (Inr (v, rest))" "length rest < length ts"
proof -
  obtain r where r: "p ts = Some r" "\<forall>v rest. r = Inr (v, rest) \<longrightarrow> length rest < length ts"
    using assms unfolding consumes_def by blast
  show ?thesis
  proof (cases r)
    case (Inl e)
    with r err show ?thesis by simp
  next
    case (Inr b)
    then obtain v rest where "b = (v, rest)" by fastforce
    with r Inr ok show ?thesis by simp
  qed
qed

lemma and_then_simps [simp]:
  "and_then None k = None"
  "and_then (Some (Inl e)) k = Some (Inl e)"
  "and_then (Some (Inr (v, ts))) k = k v ts"
  by (simp_all add: and_then_def)

lemma table_op_SomeD: "table_op tbl ts = Some (f, rest) \<Longrightarrow> \<exists>q. ts = Op q # rest \<and> tbl q = Some f"
  by (auto simp: table_op_def split: list.splits token.splits)

lemma binary_loop_returns:
  assumes "consumes operand"
  shows "length ts < fuel \<Longrightarrow>
    \<exists>r. binary_loop fuel tbl operand left ts = Some r \<and>
        (\<forall>v rest. r = Inr (v, rest) \<longrightarrow> length rest \<le> length ts)"
proof (induction fuel arbitrary: left ts)
  case (Suc fuel)
  show ?case
  proof (cases "table_op tbl ts")
    case (Some fr)
    then obtain f rest where fr: "fr = (f, rest)" by fastforce
    then obtain q where ts: "ts = Op q # rest" using table_op_SomeD Some by blast
    from assms show ?thesis
    proof (cases rule: consumesD [where ts = rest])
      case (err e)
      with Some fr show ?thesis by simp
    next
      case (ok v rest')
      show ?thesis
      proof (cases "f left v")
        case (Inl e)
        with Some fr ok show ?thesis by simp
      next
        case (Inr w)
        moreover have "length rest' < fuel" using Suc.prems ts ok(2) by simp
        then obtain r where "binary_loop fuel tbl operand w rest' = Some r"
          "\<forall>v rest. r = Inr (v, rest) \<longrightarrow> length rest \<le> length rest'"
          using Suc.IH by blast
        ultimately show ?thesis using Some fr ok ts
          by (auto intro: le_trans less_imp_le simp: less_Suc_eq_le dest: le_trans)
      qed
    qed
  qed simp
qed simp

lemma parse_level_consumes:
  assumes "consumes operand"
  shows "consumes (parse_level tbl operand)"
  unfolding consumes_def
proof
  fix ts
  show "\<exists>r. parse_level tbl operand ts = Some r \<and> (\<forall>v rest. r = Inr (v, rest) \<longrightarrow> length rest < length ts)"
    using assms
  proof (cases rule: consumesD [where ts = ts])
    case (ok v rest)
    obtain r where "binary_loop (Suc (length rest)) tbl operand v rest = Some r"
        "\<forall>v rest'. r = Inr (v, rest') \<longrightarrow> length rest' \<le> length rest"
      using binary_loop_returns [OF assms] by blast
    with ok show ?thesis by (fastforce simp: parse_level_def)
  qed (simp add: parse_level_def)
qed

lemma parse_expression_consumes: "consumes unary \<Longrightarrow> consumes (parse_expression unary)"
  by (simp add: parse_expression_def parse_or_def parse_and_def parse_equality_def
      parse_comparison_def parse_term_def parse_factor_def parse_level_consumes)

lemma parse_primary_consumes:
  assumes "consumes unary"
  shows "consumes (parse_primary x vars unary)"
  unfolding consumes_def
proof
  fix ts
  show "\<exists>r. parse_primary x vars unary ts = Some r \<and> (\<forall>v rest. r = Inr (v, rest) \<longrightarrow> length rest < length ts)"
  proof (cases ts)
    case (Cons tok rest)
    show ?thesis
    proof (cases tok)
      case LParen
      from parse_expression_consumes [OF assms] show ?thesis
      proof (cases rule: consumesD [where ts = rest])
        case (ok v rest')
        with Cons LParen show ?thesis by (auto simp: parse_primary_def split: list.splits)
      qed (use Cons LParen in \<open>simp add: parse_primary_def\<close>)
    qed (use Cons in \<open>auto simp: parse_primary_def split: sum.splits\<close>)
  qed (simp add: parse_primary_def)
qed

lemma eat_op_SomeD: "eat_op p ts = Some rest \<Longrightarrow> ts = Op p # rest"
  by (auto simp: eat_op_def split: list.splits token.splits if_splits)

lemma parse_power_consumes:
  assumes "consumes unary"
  shows "consumes (parse_power x vars unary)"
  unfolding consumes_def
proof
  fix ts
  show "\<exists>r. parse_power x vars unary ts = Some r \<and> (\<forall>v rest. r = Inr (v, rest) \<longrightarrow> length rest < length ts)"
    using parse_primary_consumes [OF assms, of x vars]
  proof (cases rule: consumesD [where ts = ts])
    case (ok v rest)
    show ?thesis
    proof (cases "eat_op Pow rest")
      case (Some rest')
      from assms show ?thesis
        by (cases rule: consumesD [where ts = rest'])
          (use ok Some eat_op_SomeD [OF Some] in \<open>auto simp: parse_power_def\<close>)
    qed (use ok in \<open>simp add: parse_power_def\<close>)
  qed (simp add: parse_power_def)
qed

lemma parse_unary_consumes: "consumes (parse_unary x vars d)"
proof (induction d)
  case 0
  then show ?case by (simp add: consumes_def)
next
  case (Suc d)
  have step: "\<exists>r. parse_unary x vars (Suc d) ts = Some r \<and> (\<forall>v rest. r = Inr (v, rest) \<longrightarrow> length rest < length ts)"
    if eat: "eat_op p ts = Some rest" and p: "p \<in> {Sub, Add, Not}" for ts p rest
    using Suc by (cases rule: consumesD [where ts = rest])
      (use eat_op_SomeD [OF eat] p in \<open>auto simp: eat_op_def\<close>)
  show ?case
    unfolding consumes_def
  proof
    fix ts
    show "\<exists>r. parse_unary x vars (Suc d) ts = Some r \<and> (\<forall>v rest. r = Inr (v, rest) \<longrightarrow> length rest < length ts)"
    proof (cases "\<exists>p\<in>{Sub, Add, Not}. eat_op p ts \<noteq> None")
      case True
      then show ?thesis using step by blast
    next
      case False
      then show ?thesis
        using parse_power_consumes [OF Suc, of x vars] by (simp add: consumes_def)
    qed
  qed
qed

lemma evaluate_tokens_total: "\<exists>r. evaluate_tokens x vars tokens = Some r"
  using parse_expression_consumes [OF parse_unary_consumes [of x vars max_depth]]
  by (cases rule: consumesD [where ts = tokens]) (simp_all add: evaluate_tokens_def)

end
