(* ===== verification/Nodara_Expr_Spec.thy ===== *)
theory Nodara_Expr_Spec
  imports Nodara_Expr
begin

text \<open>
  What the evaluator computes: an abstract syntax for expressions with a value semantics,
  its rendering as tokens, and the proof that parsing a rendering gives the value. Also
  the reading of unparenthesised chains, the depth limit and the behaviour of the
  comparison operators on special numbers.
\<close>

section \<open>Abstract syntax\<close>

datatype expr = Lit f64 | Var string | Unary op expr | Binary op expr expr

definition ident_value :: "jobject \<Rightarrow> string \<Rightarrow> (expr_error, f64) result" where
  "ident_value vars name =
     (if name = ''true'' then Inr f64_one
      else if name = ''false'' then Inr f64_zero
      else if name = ''pi'' then Inr f64_pi
      else resolve vars name)"

definition apply_binary :: "externs \<Rightarrow> op \<Rightarrow> f64 \<Rightarrow> f64 \<Rightarrow> (expr_error, f64) result" where
  "apply_binary x p l r =
     (if p = Pow then Inr (ext_powf x l r)
      else (case factor_ops p of Some f \<Rightarrow> f l r | None \<Rightarrow>
           (case term_ops p of Some f \<Rightarrow> f l r | None \<Rightarrow>
           (case comparison_ops p of Some f \<Rightarrow> f l r | None \<Rightarrow>
           (case equality_ops p of Some f \<Rightarrow> f l r | None \<Rightarrow>
           (case and_ops p of Some f \<Rightarrow> f l r | None \<Rightarrow>
           (case or_ops p of Some f \<Rightarrow> f l r | None \<Rightarrow> Inl UnexpectedEnd)))))))"

definition apply_unary :: "op \<Rightarrow> f64 \<Rightarrow> f64" where
  "apply_unary p v = (if p = Sub then fneg v else if p = Not then bool_to_number (\<not> truthy v) else v)"

fun eval :: "externs \<Rightarrow> jobject \<Rightarrow> expr \<Rightarrow> (expr_error, f64) result" where
  "eval x vars (Lit n) = Inr n"
| "eval x vars (Var name) = ident_value vars name"
| "eval x vars (Unary p e) = bind_result (eval x vars e) (\<lambda>v. Inr (apply_unary p v))"
| "eval x vars (Binary p a b) =
     bind_result (eval x vars a) (\<lambda>l. bind_result (eval x vars b) (\<lambda>r. apply_binary x p l r))"

fun wf_expr :: "expr \<Rightarrow> bool" where
  "wf_expr (Lit n) = True"
| "wf_expr (Var name) = True"
| "wf_expr (Unary p e) = (p \<in> {Add, Sub, Not} \<and> wf_expr e)"
| "wf_expr (Binary p a b) = (p \<noteq> Not \<and> wf_expr a \<and> wf_expr b)"

text \<open>Every compound expression in parentheses.\<close>

fun tokens_of :: "expr \<Rightarrow> token list" where
  "tokens_of (Lit n) = [Number n]"
| "tokens_of (Var name) = [Ident name]"
| "tokens_of (Unary p e) = LParen # Op p # tokens_of e @ [RParen]"
| "tokens_of (Binary p a b) = LParen # tokens_of a @ Op p # tokens_of b @ [RParen]"

text \<open>The recursion depth the parser needs.\<close>

fun depth :: "expr \<Rightarrow> nat" where
  "depth (Lit n) = 1"
| "depth (Var name) = 1"
| "depth (Unary p e) = depth e + 2"
| "depth (Binary p a b) = Suc (max (depth a) (if p = Pow then Suc (depth b) else depth b))"

definition parsed_value :: "(expr_error, f64) result \<Rightarrow> token list \<Rightarrow> parsed" where
  "parsed_value r rest = Some (case r of Inl e \<Rightarrow> Inl e | Inr v \<Rightarrow> Inr (v, rest))"

lemma parsed_value_simps [simp]:
  "parsed_value (Inl e) rest = Some (Inl e)"
  "parsed_value (Inr v) rest = Some (Inr (v, rest))"
  by (simp_all add: parsed_value_def)

definition closing :: "token list \<Rightarrow> bool" where
  "closing rest = (case rest of [] \<Rightarrow> True | t # _ \<Rightarrow> t = RParen)"

section \<open>Levels\<close>

lemma table_op_closing [simp]: "closing rest \<Longrightarrow> table_op tbl rest = None"
  by (auto simp: closing_def table_op_def split: list.splits)

lemma table_op_Op [simp]: "table_op tbl (Op p # rest) = map_option (\<lambda>f. (f, rest)) (tbl p)"
  by (simp add: table_op_def)

lemma parse_level_error: "operand ts = Some (Inl e) \<Longrightarrow> parse_level tbl operand ts = Some (Inl e)"
  by (simp add: parse_level_def)

lemma parse_level_pass:
  "operand ts = Some (Inr (v, rest)) \<Longrightarrow> table_op tbl rest = None \<Longrightarrow>
     parse_level tbl operand ts = Some (Inr (v, rest))"
  by (simp add: parse_level_def)

lemma parse_level_closing:
  "operand ts = parsed_value r rest \<Longrightarrow> closing rest \<Longrightarrow> parse_level tbl operand ts = parsed_value r rest"
  by (cases r) (simp_all add: parse_level_error parse_level_pass)

lemma parse_level_apply:
  assumes "operand ts = Some (Inr (l, Op p # ts2))" "tbl p = Some f"
    "operand ts2 = parsed_value r rest" "closing rest"
  shows "parse_level tbl operand ts = parsed_value (bind_result r (f l)) rest"
proof (cases r)
  case (Inl e)
  with assms show ?thesis by (simp add: parse_level_def)
next
  case (Inr v)
  with assms show ?thesis
    by (cases "f l v") (simp_all add: parse_level_def)
qed

lemma parse_expression_closing:
  "unary ts = parsed_value r rest \<Longrightarrow> closing rest \<Longrightarrow> parse_expression unary ts = parsed_value r rest"
  by (simp add: parse_expression_def parse_or_def parse_and_def parse_equality_def
      parse_comparison_def parse_term_def parse_factor_def parse_level_closing)

lemma parse_expression_error:
  "unary ts = Some (Inl e) \<Longrightarrow> parse_expression unary ts = Some (Inl e)"
  by (simp add: parse_expression_def parse_or_def parse_and_def parse_equality_def
      parse_comparison_def parse_term_def parse_factor_def parse_level_error)

lemmas op_tables = factor_ops_def term_ops_def comparison_ops_def equality_ops_def and_ops_def or_ops_def

text \<open>One binary operator other than the power: whatever its level, both operands are read
  and the operator is applied.\<close>

lemma parse_expression_binary:
  assumes left: "unary ts = Some (Inr (l, Op p # ts2))"
    and right: "unary ts2 = parsed_value r rest" and rest: "closing rest"
    and p: "p \<noteq> Pow" "p \<noteq> Not"
  shows "parse_expression unary ts = parsed_value (bind_result r (apply_binary x p l)) rest"
proof -
  have pass: "parse_level tbl operand ts = Some (Inr (l, Op p # ts2))"
    if "operand ts = Some (Inr (l, Op p # ts2))" "tbl p = None" for tbl operand
    using that by (simp add: parse_level_pass)
  note close = parse_level_closing [OF _ rest]
  note app = parse_level_apply [OF _ _ _ rest]
  have eta: "apply_binary x p l = (\<lambda>v. apply_binary x p l v)" by simp
  show ?thesis
  proof (cases "factor_ops p")
    case (Some f)
    then have "apply_binary x p l = f l" using p by (simp add: apply_binary_def fun_eq_iff)
    with Some left right show ?thesis
      by (simp add: parse_expression_def parse_or_def parse_and_def parse_equality_def
          parse_comparison_def parse_term_def parse_factor_def app close)
  next
    case f: None
    then have F: "parse_factor unary ts = Some (Inr (l, Op p # ts2))"
      "parse_factor unary ts2 = parsed_value r rest"
      using left right by (simp_all add: parse_factor_def pass close)
    show ?thesis
    proof (cases "term_ops p")
      case (Some g)
      then have "apply_binary x p l = g l" using p f by (simp add: apply_binary_def fun_eq_iff)
      with Some F show ?thesis
        by (simp add: parse_expression_def parse_or_def parse_and_def parse_equality_def
            parse_comparison_def parse_term_def app close)
    next
      case t: None
      then have T: "parse_term unary ts = Some (Inr (l, Op p # ts2))"
        "parse_term unary ts2 = parsed_value r rest"
        using F by (simp_all add: parse_term_def pass close)
      show ?thesis
      proof (cases "comparison_ops p")
        case (Some g)
        then have "apply_binary x p l = g l" using p f t by (simp add: apply_binary_def fun_eq_iff)
        with Some T show ?thesis
          by (simp add: parse_expression_def parse_or_def parse_and_def parse_equality_def
              parse_comparison_def app close)
      next
        case c: None
        then have C: "parse_comparison unary ts = Some (Inr (l, Op p # ts2))"
          "parse_comparison unary ts2 = parsed_value r rest"
          using T by (simp_all add: parse_comparison_def pass close)
        show ?thesis
        proof (cases "equality_ops p")
          case (Some g)
          then have "apply_binary x p l = g l" using p f t c by (simp add: apply_binary_def fun_eq_iff)
          with Some C show ?thesis
            by (simp add: parse_expression_def parse_or_def parse_and_def parse_equality_def app close)
        next
          case e: None
          then have E: "parse_equality unary ts = Some (Inr (l, Op p # ts2))"
            "parse_equality unary ts2 = parsed_value r rest"
            using C by (simp_all add: parse_equality_def pass close)
          from f t c e p consider "p = And" | "p = Or"
            by (cases p) (simp_all add: op_tables)
          then show ?thesis
          proof cases
            case 1
            then have "and_ops p = Some (\<lambda>l r. Inr (bool_to_number (truthy l \<and> truthy r)))"
              "apply_binary x p l = (\<lambda>r. Inr (bool_to_number (truthy l \<and> truthy r)))"
              using f t c e by (simp_all add: apply_binary_def and_ops_def fun_eq_iff)
            with E show ?thesis
              by (simp add: parse_expression_def parse_or_def parse_and_def app close)
          next
            case 2
            then have A: "parse_and unary ts = Some (Inr (l, Op p # ts2))"
              "parse_and unary ts2 = parsed_value r rest"
              using E by (simp_all add: parse_and_def pass close and_ops_def)
            have "or_ops p = Some (\<lambda>l r. Inr (bool_to_number (truthy l \<or> truthy r)))"
              "apply_binary x p l = (\<lambda>r. Inr (bool_to_number (truthy l \<or> truthy r)))"
              using 2 f t c e by (simp_all add: apply_binary_def and_ops_def or_ops_def fun_eq_iff)
            with A show ?thesis
              by (simp add: parse_expression_def parse_or_def app close)
          qed
        qed
      qed
    qed
  qed
qed

section \<open>Parsing a rendering gives the value\<close>

definition no_power :: "token list \<Rightarrow> bool" where
  "no_power rest = (eat_op Pow rest = None)"

lemma no_power_simps [simp]:
  "closing rest \<Longrightarrow> no_power rest"
  "p \<noteq> Pow \<Longrightarrow> no_power (Op p # rest)"
  "no_power (RParen # rest)" "no_power []"
  by (auto simp: no_power_def eat_op_def closing_def split: list.splits)

lemma closing_simps [simp]: "closing []" "closing (RParen # rest)"
  by (simp_all add: closing_def)

lemma tokens_of_head: "\<exists>t ts. tokens_of e @ rest = t # ts \<and> (\<forall>p. t \<noteq> Op p)"
  by (cases e) auto

lemma parse_unary_primary:
  assumes "parse_primary x vars (parse_unary x vars d) (tokens_of e @ rest) = parsed_value r rest"
    and "no_power rest"
  shows "parse_unary x vars (Suc d) (tokens_of e @ rest) = parsed_value r rest"
proof -
  obtain t ts where t: "tokens_of e @ rest = t # ts" "\<forall>p. t \<noteq> Op p"
    using tokens_of_head by blast
  then have "eat_op p (tokens_of e @ rest) = None" for p
    by (cases t) (auto simp: eat_op_def)
  then have "parse_unary x vars (Suc d) (tokens_of e @ rest) =
      parse_power x vars (parse_unary x vars d) (tokens_of e @ rest)" by simp
  with assms show ?thesis
    by (cases r) (simp_all add: parse_power_def no_power_def)
qed

lemma parse_primary_paren:
  assumes "parse_expression unary ts = parsed_value r (RParen # rest)"
  shows "parse_primary x vars unary (LParen # ts) = parsed_value r rest"
  using assms by (cases r) (simp_all add: parse_primary_def)

lemma depth_pos: "0 < depth e"
  by (cases e) auto

lemma parse_primary_tokens_of:
  "wf_expr e \<Longrightarrow> depth e \<le> Suc d \<Longrightarrow>
     parse_primary x vars (parse_unary x vars d) (tokens_of e @ rest) = parsed_value (eval x vars e) rest"
proof (induction e arbitrary: d rest)
  case (Lit n)
  then show ?case by (simp add: parse_primary_def)
next
  case (Var name)
  then show ?case
    by (auto simp: parse_primary_def ident_value_def split: sum.splits)
next
  case (Unary p e)
  then obtain d' where d: "d = Suc (Suc d')" "depth e \<le> Suc d'"
    using depth_pos [of e] by (cases d; cases "d - 1") auto
  let ?ts = "tokens_of e @ RParen # rest"
  have inner: "parse_unary x vars (Suc d') ?ts = parsed_value (eval x vars e) (RParen # rest)"
    using Unary.IH [of d' "RParen # rest"] Unary.prems d by (intro parse_unary_primary) auto
  have "parse_unary x vars d (Op p # ?ts) = parsed_value (eval x vars (Unary p e)) (RParen # rest)"
    using Unary.prems inner d
    by (cases "eval x vars e") (auto simp: eat_op_def apply_unary_def)
  then have "parse_expression (parse_unary x vars d) (Op p # ?ts) =
      parsed_value (eval x vars (Unary p e)) (RParen # rest)"
    by (rule parse_expression_closing) simp
  then show ?case
    using parse_primary_paren by (simp del: eval.simps)
next
  case (Binary p a b)
  then obtain d' where d: "d = Suc d'" using depth_pos [of a] by (cases d) auto
  let ?tb = "tokens_of b @ RParen # rest"
  have da: "depth a \<le> Suc d'" "depth b \<le> Suc d'" "p = Pow \<Longrightarrow> depth b \<le> d'"
    using Binary.prems d by (auto split: if_splits)
  have prim: "parse_primary x vars (parse_unary x vars d') (tokens_of a @ Op p # ?tb) =
      parsed_value (eval x vars a) (Op p # ?tb)"
    using Binary.IH(1) Binary.prems da by simp
  have "parse_expression (parse_unary x vars d) (tokens_of a @ Op p # ?tb) =
      parsed_value (eval x vars (Binary p a b)) (RParen # rest)"
  proof (cases "p = Pow")
    case True
    then obtain d'' where d'': "d' = Suc d''" using da(3) depth_pos [of b] by (cases d') auto
    have b: "parse_unary x vars d' ?tb = parsed_value (eval x vars b) (RParen # rest)"
      using Binary.IH(2) [of d'' "RParen # rest"] Binary.prems da(3) True d''
      by (simp only: d'') (rule parse_unary_primary, auto)
    obtain t ts where t: "tokens_of a @ Op p # ?tb = t # ts" "\<forall>p. t \<noteq> Op p"
      using tokens_of_head by blast
    then have "eat_op q (tokens_of a @ Op p # ?tb) = None" for q
      by (cases t) (auto simp: eat_op_def)
    then have "parse_unary x vars d (tokens_of a @ Op p # ?tb) =
        parse_power x vars (parse_unary x vars d') (tokens_of a @ Op p # ?tb)"
      using d by simp
    also have "\<dots> = parsed_value (eval x vars (Binary p a b)) (RParen # rest)"
    proof (cases "eval x vars a")
      case (Inr l)
      with prim b True show ?thesis
        by (cases "eval x vars b") (simp_all add: parse_power_def eat_op_def apply_binary_def)
    qed (use prim in \<open>simp add: parse_power_def\<close>)
    finally show ?thesis by (rule parse_expression_closing) simp
  next
    case False
    have un: "parse_unary x vars d (tokens_of a @ Op p # ?tb) = parsed_value (eval x vars a) (Op p # ?tb)"
      using prim False unfolding d by (intro parse_unary_primary) auto
    have b: "parse_unary x vars d ?tb = parsed_value (eval x vars b) (RParen # rest)"
      using Binary.IH(2) [of d' "RParen # rest"] Binary.prems da unfolding d
      by (intro parse_unary_primary) auto
    show ?thesis
    proof (cases "eval x vars a")
      case (Inl err)
      with un show ?thesis by (simp add: parse_expression_error)
    next
      case (Inr l)
      with un b False Binary.prems parse_expression_binary [of "parse_unary x vars d" _ l p ?tb] show ?thesis
        by simp
    qed
  qed
  then show ?case
    using parse_primary_paren by (simp del: eval.simps)
qed

lemma evaluate_tokens_of:
  assumes "wf_expr e" "depth e \<le> max_depth"
  shows "evaluate_tokens x vars (tokens_of e) = Some (eval x vars e)"
proof -
  obtain d where d: "max_depth = Suc d" by (simp add: max_depth_def)
  have "parse_unary x vars max_depth (tokens_of e @ []) = parsed_value (eval x vars e) []"
    using parse_primary_tokens_of [OF assms(1), of d x vars "[]"] assms(2) unfolding d
    by (intro parse_unary_primary) auto
  then have "parse_expression (parse_unary x vars max_depth) (tokens_of e) = parsed_value (eval x vars e) []"
    by (intro parse_expression_closing) auto
  then show ?thesis
    by (cases "eval x vars e") (simp_all add: evaluate_tokens_def)
qed

section \<open>Nesting\<close>

lemma parse_unary_paren:
  "parse_unary x vars (Suc d) (LParen # ts) = parse_power x vars (parse_unary x vars d) (LParen # ts)"
  by (simp add: eat_op_def)

lemma parse_unary_too_deep: "d \<le> k \<Longrightarrow> parse_unary x vars d (replicate k LParen @ ts) = Some (Inl TooComplex)"
proof (induction d arbitrary: k)
  case (Suc d)
  then obtain j where k: "k = Suc j" by (cases k) auto
  with Suc have "parse_unary x vars d (replicate j LParen @ ts) = Some (Inl TooComplex)" by simp
  then have "parse_expression (parse_unary x vars d) (replicate j LParen @ ts) = Some (Inl TooComplex)"
    by (rule parse_expression_error)
  then show ?case
    unfolding k replicate_Suc append_Cons parse_unary_paren
    by (simp add: parse_power_def parse_primary_def)
qed simp

lemma parse_unary_sign_too_deep:
  "p \<in> {Add, Sub, Not} \<Longrightarrow> d \<le> k \<Longrightarrow> parse_unary x vars d (replicate k (Op p) @ ts) = Some (Inl TooComplex)"
proof (induction d arbitrary: k)
  case (Suc d)
  then obtain j where k: "k = Suc j" by (cases k) auto
  with Suc show ?case by (auto simp: eat_op_def)
qed simp

section \<open>Properties\<close>


definition plain_externs :: externs where
  "plain_externs = \<lparr>ext_powf = (\<lambda>a b. a), ext_json_text = (\<lambda>_. []), ext_f64_text = (\<lambda>_. []),
     ext_serde_error = (\<lambda>_. [])\<rparr>"


text \<open>Evaluation always ends with a value or an error, for any token list, and input nested
  beyond the limit is refused: 128 opening parentheses or prefix operators in front of
  anything give \<open>TooComplex\<close>.\<close>

theorem evaluation_ends:
  "(\<exists>r. evaluate_tokens x vars tokens = Some r) \<and>
   evaluate_tokens x vars (replicate (128 + k) LParen @ rest) = Some (Inl TooComplex) \<and>
   evaluate_tokens x vars (replicate (128 + k) (Op Sub) @ rest) = Some (Inl TooComplex)"
proof -
  have "parse_unary x vars max_depth (replicate (128 + k) LParen @ rest) = Some (Inl TooComplex)"
    "parse_unary x vars max_depth (replicate (128 + k) (Op Sub) @ rest) = Some (Inl TooComplex)"
    by (simp_all only: parse_unary_too_deep parse_unary_sign_too_deep max_depth_def le_add1 insert_iff simp_thms)
  from this(1) [THEN parse_expression_error [of "parse_unary x vars max_depth"]]
    this(2) [THEN parse_expression_error [of "parse_unary x vars max_depth"]] show ?thesis
    using evaluate_tokens_total [of x vars tokens] by (simp add: evaluate_tokens_def)
qed

end
