(* ===== verification/Nodara_Control.thy ===== *)
theory Nodara_Control
  imports Nodara_Prelude
begin

text \<open>
  Run control (\<open>control.rs\<close>): the flags behind the mutex, the operator's operations and
  the engine's \<open>await_permission\<close>. Operator threads interleave with the run thread only
  at the mutex, so an execution is the run thread's own sequence of lock acquisitions with
  a batch of operator operations before each: \<open>rc_inbox\<close> lists the batches to come. Waiting
  on the condition variable takes the next batch; with no batch left the run is blocked
  for ever, which is the result \<open>None\<close>.
\<close>

section \<open>Flags and operations\<close>

record control_flags =
  cf_paused :: bool
  cf_cancelled :: bool
  cf_finished :: bool
  cf_step_budget :: u32

definition new_flags :: control_flags where
  "new_flags = \<lparr>cf_paused = False, cf_cancelled = False, cf_finished = False, cf_step_budget = 0\<rparr>"

definition pause_flags :: "control_flags \<Rightarrow> control_flags" where
  "pause_flags f = f\<lparr>cf_paused := True\<rparr>"

definition resume_flags :: "control_flags \<Rightarrow> control_flags" where
  "resume_flags f = f\<lparr>cf_paused := False, cf_step_budget := 0\<rparr>"

definition step_flags :: "control_flags \<Rightarrow> control_flags" where
  "step_flags f = f\<lparr>cf_paused := True, cf_step_budget := sat_add (cf_step_budget f) 1\<rparr>"

definition cancel_flags :: "control_flags \<Rightarrow> control_flags" where
  "cancel_flags f = f\<lparr>cf_cancelled := True, cf_paused := False\<rparr>"

definition finish_flags :: "control_flags \<Rightarrow> control_flags" where
  "finish_flags f = f\<lparr>cf_finished := True, cf_paused := False\<rparr>"

datatype control_op = OpPause | OpResume | OpStep | OpCancel

fun apply_control_op :: "control_op \<Rightarrow> control_flags \<Rightarrow> control_flags" where
  "apply_control_op OpPause f = pause_flags f"
| "apply_control_op OpResume f = resume_flags f"
| "apply_control_op OpStep f = step_flags f"
| "apply_control_op OpCancel f = cancel_flags f"

definition apply_control_ops :: "control_op list \<Rightarrow> control_flags \<Rightarrow> control_flags" where
  "apply_control_ops ops f = fold apply_control_op ops f"

text \<open>One pass through the body of the \<open>await_permission\<close> loop.\<close>

datatype permission = Granted control_flags | Refused | MustWait

definition try_permission :: "control_flags \<Rightarrow> permission" where
  "try_permission f =
     (if cf_cancelled f then Refused
      else if \<not> cf_paused f then Granted f
      else if 0 < cf_step_budget f then Granted (f\<lparr>cf_step_budget := cf_step_budget f - 1\<rparr>)
      else if cf_finished f then Granted f
      else MustWait)"

section \<open>The handle of the run thread\<close>

record run_control =
  rc_flags :: control_flags
  rc_inbox :: "control_op list list"

definition new_control :: "control_op list list \<Rightarrow> run_control" where
  "new_control inbox = \<lparr>rc_flags = new_flags, rc_inbox = inbox\<rparr>"

text \<open>Acquire the lock: the operations of other threads up to here have happened.\<close>

definition lock_control :: "run_control \<Rightarrow> run_control" where
  "lock_control c =
     (case rc_inbox c of
        [] \<Rightarrow> c
      | ops # rest \<Rightarrow> c\<lparr>rc_flags := apply_control_ops ops (rc_flags c), rc_inbox := rest\<rparr>)"

definition is_cancelled :: "run_control \<Rightarrow> bool \<times> run_control" where
  "is_cancelled c = (let c' = lock_control c in (cf_cancelled (rc_flags c'), c'))"

definition is_paused :: "run_control \<Rightarrow> bool \<times> run_control" where
  "is_paused c = (let c' = lock_control c in (cf_paused (rc_flags c'), c'))"

definition is_finished :: "run_control \<Rightarrow> bool \<times> run_control" where
  "is_finished c = (let c' = lock_control c in (cf_finished (rc_flags c'), c'))"

definition pause_control :: "run_control \<Rightarrow> run_control" where
  "pause_control c = (let c' = lock_control c in c'\<lparr>rc_flags := pause_flags (rc_flags c')\<rparr>)"

definition finish_control :: "run_control \<Rightarrow> run_control" where
  "finish_control c = (let c' = lock_control c in c'\<lparr>rc_flags := finish_flags (rc_flags c')\<rparr>)"

text \<open>\<open>Some True\<close>: permission granted, \<open>Some False\<close>: \<open>NodeError::Cancelled\<close>, \<open>None\<close>: blocked
  with nothing left to wake the thread.\<close>

fun wait_permission :: "control_flags \<Rightarrow> control_op list list \<Rightarrow> (bool \<times> run_control) option" where
  "wait_permission f [] =
     (case try_permission f of
        Granted f' \<Rightarrow> Some (True, \<lparr>rc_flags = f', rc_inbox = []\<rparr>)
      | Refused \<Rightarrow> Some (False, \<lparr>rc_flags = f, rc_inbox = []\<rparr>)
      | MustWait \<Rightarrow> None)"
| "wait_permission f (ops # rest) =
     (case try_permission f of
        Granted f' \<Rightarrow> Some (True, \<lparr>rc_flags = f', rc_inbox = ops # rest\<rparr>)
      | Refused \<Rightarrow> Some (False, \<lparr>rc_flags = f, rc_inbox = ops # rest\<rparr>)
      | MustWait \<Rightarrow> wait_permission (apply_control_ops ops f) rest)"

definition await_permission :: "run_control \<Rightarrow> (bool \<times> run_control) option" where
  "await_permission c = (let c' = lock_control c in wait_permission (rc_flags c') (rc_inbox c'))"

section \<open>Abstract specification: a gate\<close>

text \<open>What an operator sees of a live run: the gate is open, lets a number of nodes pass, or
  is shut for good.\<close>

datatype gate = Open | Passes nat | Shut

fun gate_op :: "control_op \<Rightarrow> gate \<Rightarrow> gate" where
  "gate_op op Shut = Shut"
| "gate_op OpPause Open = Passes 0"
| "gate_op OpPause (Passes n) = Passes n"
| "gate_op OpResume g = Open"
| "gate_op OpStep Open = Passes 1"
| "gate_op OpStep (Passes n) = Passes (min (n + 1) (2 ^ 32 - 1))"
| "gate_op OpCancel g = Shut"

definition gate_of :: "control_flags \<Rightarrow> gate" where
  "gate_of f =
     (if cf_cancelled f then Shut
      else if cf_paused f then Passes (unat (cf_step_budget f))
      else Open)"

text \<open>The invariant of a live run: no step is in the budget while the gate is open.\<close>

definition live_flags :: "control_flags \<Rightarrow> bool" where
  "live_flags f = (\<not> cf_finished f \<and> (\<not> cf_paused f \<longrightarrow> \<not> cf_cancelled f \<longrightarrow> cf_step_budget f = 0))"

lemma live_new_flags [simp]: "live_flags new_flags"
  by (simp add: live_flags_def new_flags_def)

lemma live_apply_control_op: "live_flags f \<Longrightarrow> live_flags (apply_control_op p f)"
  by (cases p) (auto simp: live_flags_def pause_flags_def resume_flags_def step_flags_def cancel_flags_def)

lemma live_apply_control_ops: "live_flags f \<Longrightarrow> live_flags (apply_control_ops ops f)"
  unfolding apply_control_ops_def by (induction ops arbitrary: f) (auto simp: live_apply_control_op)

lemma live_try_permission: "live_flags f \<Longrightarrow> try_permission f = Granted f' \<Longrightarrow> live_flags f'"
  by (auto simp: live_flags_def try_permission_def split: if_splits)

lemma gate_of_apply_control_op:
  assumes "live_flags f"
  shows "gate_of (apply_control_op p f) = gate_op p (gate_of f)"
proof (cases "cf_cancelled f")
  case True
  then show ?thesis
    by (cases p) (simp_all add: gate_of_def pause_flags_def resume_flags_def step_flags_def cancel_flags_def)
next
  case False
  with assms show ?thesis
    by (cases p; cases "cf_paused f")
      (simp_all add: gate_of_def pause_flags_def resume_flags_def step_flags_def cancel_flags_def
        live_flags_def unat_sat_add)
qed

lemma gate_of_apply_control_ops:
  "live_flags f \<Longrightarrow> gate_of (apply_control_ops ops f) = fold gate_op ops (gate_of f)"
  unfolding apply_control_ops_def
  by (induction ops arbitrary: f) (auto simp: gate_of_apply_control_op live_apply_control_op)

text \<open>Permission is what the gate says, and a granted node uses one pass.\<close>

lemma try_permission_gate:
  assumes "live_flags f"
  shows "case gate_of f of
      Open \<Rightarrow> try_permission f = Granted f
    | Passes 0 \<Rightarrow> try_permission f = MustWait
    | Passes (Suc n) \<Rightarrow> (\<exists>f'. try_permission f = Granted f' \<and> gate_of f' = Passes n)
    | Shut \<Rightarrow> try_permission f = Refused"
proof -
  have pos: "0 < b \<Longrightarrow> unat (b - 1) = unat b - 1" for b :: u32
    by (metis unat_minus_one word_gt_0)
  show ?thesis
    using assms
    by (auto simp: gate_of_def try_permission_def live_flags_def pos word_greater_zero_iff unat_eq_0
        split: nat.splits)
qed

section \<open>Interface of the gate\<close>

locale run_gate =
  fixes act :: "control_op \<Rightarrow> 's \<Rightarrow> 's"
    and permit :: "'s \<Rightarrow> 's option"
    and view :: "'s \<Rightarrow> gate"
    and live :: "'s \<Rightarrow> bool"
  assumes live_act: "live s \<Longrightarrow> live (act p s)"
    and view_act: "live s \<Longrightarrow> view (act p s) = gate_op p (view s)"
    and permit_open: "live s \<Longrightarrow> view s = Open \<Longrightarrow> permit s = Some s"
    and permit_pass: "live s \<Longrightarrow> view s = Passes (Suc n) \<Longrightarrow>
          \<exists>s'. permit s = Some s' \<and> live s' \<and> view s' = Passes n"
    and permit_none: "live s \<Longrightarrow> view s = Passes 0 \<or> view s = Shut \<Longrightarrow> permit s = None"
begin

lemma live_acts: "live s \<Longrightarrow> live (fold act ps s)"
  by (induction ps arbitrary: s) (auto simp: live_act)

lemma view_acts: "live s \<Longrightarrow> view (fold act ps s) = fold gate_op ps (view s)"
  by (induction ps arbitrary: s) (auto simp: live_act view_act)

lemma shut_stays: "live s \<Longrightarrow> view s = Shut \<Longrightarrow> permit (fold act ps s) = None"
proof -
  have "fold gate_op ps Shut = Shut" by (induction ps) auto
  then show "live s \<Longrightarrow> view s = Shut \<Longrightarrow> permit (fold act ps s) = None"
    using permit_none [of "fold act ps s"] by (simp add: live_acts view_acts)
qed

text \<open>From a gate with \<open>n\<close> passes, exactly \<open>n\<close> permits in a row are granted.\<close>

primrec permits :: "nat \<Rightarrow> 's \<Rightarrow> 's option" where
  "permits 0 s = Some s"
| "permits (Suc k) s = (case permit s of None \<Rightarrow> None | Some s' \<Rightarrow> permits k s')"

lemma passes_counted: "live s \<Longrightarrow> view s = Passes n \<Longrightarrow> permits k s \<noteq> None \<longleftrightarrow> k \<le> n"
proof (induction k arbitrary: s n)
  case (Suc k)
  show ?case
  proof (cases n)
    case 0
    with Suc.prems show ?thesis by (simp add: permit_none)
  next
    case (Suc m)
    then obtain s' where "permit s = Some s'" "live s'" "view s' = Passes m"
      using permit_pass Suc.prems by blast
    with Suc.IH [of s' m] Suc show ?thesis by simp
  qed
qed simp

end

definition permit_flags :: "control_flags \<Rightarrow> control_flags option" where
  "permit_flags f = (case try_permission f of Granted f' \<Rightarrow> Some f' | _ \<Rightarrow> None)"

interpretation rg: run_gate apply_control_op permit_flags gate_of live_flags
proof unfold_locales
  fix s n
  show "live_flags s \<Longrightarrow> gate_of s = Open \<Longrightarrow> permit_flags s = Some s"
    using try_permission_gate [of s] by (simp add: permit_flags_def)
  show "live_flags s \<Longrightarrow> gate_of s = Passes (Suc n) \<Longrightarrow>
      \<exists>s'. permit_flags s = Some s' \<and> live_flags s' \<and> gate_of s' = Passes n"
    using try_permission_gate [of s] live_try_permission [of s] by (auto simp: permit_flags_def)
  show "live_flags s \<Longrightarrow> gate_of s = Passes 0 \<or> gate_of s = Shut \<Longrightarrow> permit_flags s = None"
    using try_permission_gate [of s] by (auto simp: permit_flags_def)
qed (simp_all add: live_apply_control_op gate_of_apply_control_op)

section \<open>Facts the engine uses\<close>

lemma cancelled_apply_control_op: "cf_cancelled f \<Longrightarrow> cf_cancelled (apply_control_op p f)"
  by (cases p) (simp_all add: pause_flags_def resume_flags_def step_flags_def cancel_flags_def)

lemma cancelled_apply_control_ops: "cf_cancelled f \<Longrightarrow> cf_cancelled (apply_control_ops ops f)"
  unfolding apply_control_ops_def by (induction ops arbitrary: f) (auto simp: cancelled_apply_control_op)

lemma cancelled_lock: "cf_cancelled (rc_flags c) \<Longrightarrow> cf_cancelled (rc_flags (lock_control c))"
  by (auto simp: lock_control_def cancelled_apply_control_ops split: list.splits)

lemma await_permission_cancelled:
  "cf_cancelled (rc_flags c) \<Longrightarrow> \<exists>c'. await_permission c = Some (False, c')"
proof -
  assume "cf_cancelled (rc_flags c)"
  then have "try_permission (rc_flags (lock_control c)) = Refused"
    by (simp add: try_permission_def cancelled_lock)
  then show ?thesis by (cases "rc_inbox (lock_control c)") (simp_all add: await_permission_def Let_def)
qed

text \<open>An inbox that ends every wait: some later batch leaves the run unpaused or cancelled.\<close>

fun wakes :: "control_flags \<Rightarrow> control_op list list \<Rightarrow> bool" where
  "wakes f [] = (try_permission f \<noteq> MustWait)"
| "wakes f (ops # rest) = (try_permission f \<noteq> MustWait \<or> wakes (apply_control_ops ops f) rest)"

lemma wait_permission_wakes: "wait_permission f inbox \<noteq> None \<longleftrightarrow> wakes f inbox"
  by (induction f inbox rule: wait_permission.induct) (auto split: permission.splits)

definition never_pauses :: "run_control \<Rightarrow> bool" where
  "never_pauses c = (\<not> cf_paused (rc_flags c) \<and> list_all (list_all (\<lambda>p. p \<noteq> OpPause \<and> p \<noteq> OpStep)) (rc_inbox c))"

lemma apply_control_ops_unpaused:
  "\<not> cf_paused f \<Longrightarrow> list_all (\<lambda>p. p \<noteq> OpPause \<and> p \<noteq> OpStep) ops \<Longrightarrow> \<not> cf_paused (apply_control_ops ops f)"
  unfolding apply_control_ops_def
proof (induction ops arbitrary: f)
  case (Cons p ops)
  then show ?case
    by (cases p) (simp_all add: resume_flags_def cancel_flags_def)
qed simp

lemma never_pauses_lock: "never_pauses c \<Longrightarrow> never_pauses (lock_control c)"
  by (auto simp: never_pauses_def lock_control_def apply_control_ops_unpaused split: list.splits)

lemma await_never_pauses:
  assumes "never_pauses c"
  shows "\<exists>ok c'. await_permission c = Some (ok, c') \<and> never_pauses c'"
proof -
  let ?c = "lock_control c"
  have np: "never_pauses ?c" by (rule never_pauses_lock [OF assms])
  then have "try_permission (rc_flags ?c) = (if cf_cancelled (rc_flags ?c) then Refused else Granted (rc_flags ?c))"
    by (simp add: try_permission_def never_pauses_def)
  with np show ?thesis
    by (cases "rc_inbox ?c") (auto simp: await_permission_def Let_def never_pauses_def)
qed

section \<open>Properties\<close>

text \<open>C3. Run control refines the gate: after any sequence of pause, resume, step and cancel on a
  fresh control the next node is let through exactly when the gate is open or has a pass
  left, refused exactly when the run was cancelled, and waits otherwise.\<close>

theorem control_refines_gate:
  "let f = apply_control_ops ops new_flags in
     gate_of f = fold gate_op ops Open \<and>
     (case fold gate_op ops Open of
        Open \<Rightarrow> try_permission f = Granted f
      | Passes 0 \<Rightarrow> try_permission f = MustWait
      | Passes (Suc n) \<Rightarrow> (\<exists>f'. try_permission f = Granted f' \<and> gate_of f' = Passes n)
      | Shut \<Rightarrow> try_permission f = Refused)"
proof -
  have live: "live_flags (apply_control_ops ops new_flags)" by (simp add: live_apply_control_ops)
  have "gate_of new_flags = Open" by (simp add: gate_of_def new_flags_def)
  then have "gate_of (apply_control_ops ops new_flags) = fold gate_op ops Open"
    by (simp add: gate_of_apply_control_ops)
  with try_permission_gate [OF live] show ?thesis by (simp add: Let_def)
qed

text \<open>Steps are counted: \<open>n\<close> step operations on a fresh control (at least one, and no more
  than the 32-bit budget holds) let exactly \<open>n\<close> nodes pass before the run waits.\<close>

lemma fold_gate_steps:
  "Suc n < 2 ^ 32 \<Longrightarrow> fold gate_op (replicate (Suc n) OpStep) Open = Passes (Suc n)"
proof (induction n)
  case (Suc n)
  have "replicate (Suc (Suc n)) OpStep = replicate (Suc n) OpStep @ [OpStep]"
    by (simp add: replicate_append_same)
  then show ?case using Suc by (simp del: replicate_Suc)
qed simp

theorem steps_are_counted:
  assumes "0 < n" "n < 2 ^ 32"
  shows "rg.permits k (apply_control_ops (replicate n OpStep) new_flags) \<noteq> None \<longleftrightarrow> k \<le> n"
proof -
  have live: "live_flags (apply_control_ops (replicate n OpStep) new_flags)"
    by (simp add: live_apply_control_ops)
  have "gate_of new_flags = Open" by (simp add: gate_of_def new_flags_def)
  then have "gate_of (apply_control_ops (replicate n OpStep) new_flags) = fold gate_op (replicate n OpStep) Open"
    by (simp add: gate_of_apply_control_ops)
  also have "\<dots> = Passes n"
    using fold_gate_steps [of "n - 1"] assms by simp
  finally show ?thesis by (rule rg.passes_counted [OF live])
qed

lemma steps_are_counted_witness:
  "rg.permits 2 (apply_control_ops [OpStep, OpStep] new_flags) \<noteq> None \<and>
   rg.permits 3 (apply_control_ops [OpStep, OpStep] new_flags) = None"
proof -
  have "replicate 2 OpStep = [OpStep, OpStep]" by (simp add: numeral_2_eq_2)
  with steps_are_counted [of 2 2] steps_are_counted [of 2 3] show ?thesis by simp
qed

end
