(* ===== verification/Nodara_Policy.thy ===== *)
theory Nodara_Policy
  imports Nodara_Json
begin

text \<open>
  Capability authorisation (\<open>policy.rs\<close>): decisions, requests, the policies the crate ships
  and the approval handlers without state. A policy is the function its \<open>decide\<close> method
  computes. The handlers with state (an operator who answers through the runtime) are
  modelled where they live; to the engine every handler is a step of the world.
\<close>

section \<open>Debug rendering of strings\<close>

text \<open>\<open>{:?}\<close> of a \<open>String\<close> and of a \<open>Vec<String>\<close>: the escapes of \<open>char::escape_debug\<close> for
  scalar values below 256.\<close>

definition hex_digit :: "nat \<Rightarrow> char" where
  "hex_digit n = (if n < 10 then char_of (48 + n) else char_of (87 + n))"

definition escape_debug :: "char \<Rightarrow> string" where
  "escape_debug c =
     (let n = (of_char c :: nat) in
      if n = 0 then [CHR 0x5C, CHR ''0'']
      else if n = 9 then [CHR 0x5C, CHR ''t'']
      else if n = 10 then [CHR 0x5C, CHR ''n'']
      else if n = 13 then [CHR 0x5C, CHR ''r'']
      else if n = 34 \<or> n = 92 then [CHR 0x5C, c]
      else if n < 32 \<or> (127 \<le> n \<and> n \<le> 160) \<or> n = 173
      then CHR 0x5C # ''u{'' @ (if n < 16 then [] else [hex_digit (n div 16)]) @ [hex_digit (n mod 16)] @ ''}''
      else [c])"

definition debug_string :: "string \<Rightarrow> string" where
  "debug_string s = [CHR 0x22] @ concat (map escape_debug s) @ [CHR 0x22]"

definition debug_strings :: "string list \<Rightarrow> string" where
  "debug_strings ss = ''['' @ join_with '', '' (map debug_string ss) @ '']''"

section \<open>Decisions and requests\<close>

datatype decision = Allow | Deny string | RequireApproval string

fun decision_name :: "decision \<Rightarrow> string" where
  "decision_name Allow = ''allow''"
| "decision_name (Deny reason) = ''deny''"
| "decision_name (RequireApproval reason) = ''require_approval''"

record capability_request =
  cr_run_id :: string
  cr_node_id :: string
  cr_node_type :: string
  cr_capability :: string
  cr_permissions :: "string list"
  cr_dangerous :: bool
  cr_input :: json

type_synonym capability_policy = "capability_request \<Rightarrow> decision"

section \<open>Policies\<close>

definition allow_all_policy :: capability_policy where
  "allow_all_policy request = Allow"

definition deny_all_policy :: capability_policy where
  "deny_all_policy request = Deny ''no capabilities are permitted in this context''"

definition default_policy :: capability_policy where
  "default_policy request =
     (if cr_dangerous request \<or> cr_permissions request \<noteq> []
      then RequireApproval
        (''`'' @ cr_node_type request @ ''` declares privileged capability '' @
         debug_strings (cr_permissions request))
      else Allow)"

record allowlist =
  al_allowed :: "string list"
  al_require_approval_for_dangerous :: bool

definition new_allowlist :: "string list \<Rightarrow> allowlist" where
  "new_allowlist allowed = \<lparr>al_allowed = allowed, al_require_approval_for_dangerous = True\<rparr>"

definition with_dangerous_approval :: "allowlist \<Rightarrow> bool \<Rightarrow> allowlist" where
  "with_dangerous_approval al required = al\<lparr>al_require_approval_for_dangerous := required\<rparr>"

definition allowlist_listed :: "allowlist \<Rightarrow> capability_request \<Rightarrow> bool" where
  "allowlist_listed al request =
     (cr_capability request \<in> set (al_allowed al) \<or>
      list_ex (\<lambda>p. p \<in> set (al_allowed al)) (cr_permissions request))"

definition allowlist_policy :: "allowlist \<Rightarrow> capability_policy" where
  "allowlist_policy al request =
     (if \<not> allowlist_listed al request
      then Deny (''capability `'' @ cr_capability request @ ''` is not on the allowlist'')
      else if cr_dangerous request \<and> al_require_approval_for_dangerous al
      then RequireApproval (''capability `'' @ cr_capability request @ ''` is dangerous'')
      else Allow)"

text \<open>The loop of \<open>PolicyChain::decide\<close>: \<open>approval\<close> keeps the first reason.\<close>

fun chain_loop :: "capability_policy list \<Rightarrow> string option \<Rightarrow> capability_policy" where
  "chain_loop [] approval request =
     (case approval of Some reason \<Rightarrow> RequireApproval reason | None \<Rightarrow> Allow)"
| "chain_loop (p # ps) approval request =
     (case p request of
        Deny reason \<Rightarrow> Deny reason
      | RequireApproval reason \<Rightarrow>
          chain_loop ps (case approval of None \<Rightarrow> Some reason | Some r \<Rightarrow> Some r) request
      | Allow \<Rightarrow> chain_loop ps approval request)"

definition policy_chain :: "capability_policy list \<Rightarrow> capability_policy" where
  "policy_chain policies request =
     (if policies = [] then Deny ''policy chain is empty'' else chain_loop policies None request)"

definition chain_with :: "capability_policy list \<Rightarrow> capability_policy \<Rightarrow> capability_policy list" where
  "chain_with policies p = policies @ [p]"

section \<open>Approval handlers without state\<close>

definition auto_approve :: "capability_request \<Rightarrow> bool" where
  "auto_approve request = True"

definition auto_deny :: "capability_request \<Rightarrow> bool" where
  "auto_deny request = False"

section \<open>Contract: strictness of decisions\<close>

text \<open>Decisions by strictness, and what a chain promises: it is as strict as its strictest
  member, and gives that member's reason.\<close>

fun strictness :: "decision \<Rightarrow> nat" where
  "strictness Allow = 0"
| "strictness (RequireApproval _) = 1"
| "strictness (Deny _) = 2"

definition strictest :: "capability_policy list \<Rightarrow> capability_request \<Rightarrow> nat" where
  "strictest ps request = fold (\<lambda>p n. max n (strictness (p request))) ps 0"

lemma fold_max_strictness:
  "fold (\<lambda>p n. max n (strictness (p request))) ps n = max n (strictest ps request)"
proof (induction ps arbitrary: n)
  case (Cons p ps)
  have "strictest (p # ps) request = max (strictness (p request)) (strictest ps request)"
    by (simp add: strictest_def) (simp add: Cons.IH flip: strictest_def)
  with Cons.IH show ?case by (simp add: max.assoc)
qed (simp add: strictest_def)

lemma strictest_simps [simp]:
  "strictest [] request = 0"
  "strictest (p # ps) request = max (strictness (p request)) (strictest ps request)"
  using fold_max_strictness [of request ps "strictness (p request)"] by (simp_all add: strictest_def)

lemma strictest_le: "p \<in> set ps \<Longrightarrow> strictness (p request) \<le> strictest ps request"
  by (induction ps) auto

lemma strictness_le: "strictness d \<le> 2"
  by (cases d) auto

lemma strictest_le_2: "strictest ps request \<le> 2"
  by (induction ps) (auto simp: strictness_le)

lemma chain_loop_strictness:
  "strictness (chain_loop ps approval request) =
     max (strictest ps request) (case approval of None \<Rightarrow> 0 | Some _ \<Rightarrow> 1)"
proof (induction ps arbitrary: approval)
  case (Cons p ps)
  show ?case
    by (cases "p request") (auto simp: Cons.IH max_def strictest_le_2 split: option.splits
        dest: le_antisym [OF strictest_le_2])
qed (auto split: option.splits)

lemma chain_loop_reason:
  "chain_loop ps approval request \<in>
     {Allow} \<union> {RequireApproval r |r. approval = Some r} \<union> (\<lambda>p. p request) ` set ps"
proof (induction ps arbitrary: approval)
  case (Cons p ps)
  show ?case
  proof (cases "p request")
    case (RequireApproval r)
    then show ?thesis
      using Cons.IH [of "case approval of None \<Rightarrow> Some r | Some r' \<Rightarrow> Some r'"]
      by (cases approval) force+
  qed (use Cons.IH [of approval] in force)+
qed (auto split: option.splits)

section \<open>Interface: a policy that gates dangerous requests\<close>

locale gating_policy =
  fixes decide :: capability_policy
  assumes gates: "cr_dangerous request \<Longrightarrow> decide request \<noteq> Allow"
begin

lemma strict: "cr_dangerous request \<Longrightarrow> 1 \<le> strictness (decide request)"
  using gates by (cases "decide request") auto

text \<open>A chain with a gating member gates, wherever the member stands.\<close>

lemma chain_gates:
  assumes "decide \<in> set ps" "cr_dangerous request"
  shows "policy_chain ps request \<noteq> Allow"
proof
  assume allow: "policy_chain ps request = Allow"
  from assms have "ps \<noteq> []" by auto
  with allow have "strictest ps request = 0"
    using chain_loop_strictness [of ps None request] by (simp add: policy_chain_def)
  with strictest_le [OF assms(1), of request] strict [OF assms(2)] show False by simp
qed

end

interpretation default_gate: gating_policy default_policy
  by unfold_locales (simp add: default_policy_def)

interpretation deny_gate: gating_policy deny_all_policy
  by unfold_locales (simp add: deny_all_policy_def)

interpretation allowlist_gate: gating_policy "allowlist_policy (new_allowlist allowed)"
  by unfold_locales (simp add: allowlist_policy_def new_allowlist_def)

section \<open>Properties\<close>

text \<open>A chain of policies is exactly as strict as its strictest member (deny before approval
  before allow) whatever the order of the members, an empty chain denies, and a refusal or
  a demand for approval carries the reason of a member that gave it.\<close>

theorem policy_chain_strictest:
  "strictness (policy_chain ps request) = (if ps = [] then 2 else strictest ps request) \<and>
   (policy_chain ps request = Allow \<or> ps = [] \<or> (\<exists>p\<in>set ps. policy_chain ps request = p request))"
proof -
  have "strictness (policy_chain ps request) = (if ps = [] then 2 else strictest ps request)"
    using chain_loop_strictness [of ps None request] by (simp add: policy_chain_def)
  moreover have "policy_chain ps request = Allow \<or> ps = [] \<or> (\<exists>p\<in>set ps. policy_chain ps request = p request)"
    using chain_loop_reason [of ps None request] by (auto simp: policy_chain_def)
  ultimately show ?thesis by blast
qed

end
