(* ===== verification/Nodara_Events.thy ===== *)
theory Nodara_Events
  imports Nodara_Workflow "HOL-Library.Sublist"
begin

text \<open>
  The event stream (\<open>event.rs\<close> of the schema, \<open>events.rs\<close> of the core): run states, log
  levels, event payloads, sequenced envelopes, the bus that numbers them and the sinks that
  receive them.

  The machine. Code that reads a clock, sleeps or draws an identifier acts on the world
  outside the program. The type variable \<open>'w\<close> stands for that world, and the record
  \<open>machine\<close> for the operations of the operating system and of the libraries on it: nothing
  is assumed about them. A bus keeps the envelopes it handed to its sink, oldest first;
  the state of a sink is a fold of its \<open>emit\<close> over them.
\<close>

section \<open>The machine\<close>

record 'w machine =
  mc_ext :: externs
  mc_now_ms :: "'w \<Rightarrow> u64 \<times> 'w"
  mc_instant_ns :: "'w \<Rightarrow> nat \<times> 'w"
  mc_sleep_ms :: "u64 \<Rightarrow> 'w \<Rightarrow> 'w"
  mc_uuid :: "'w \<Rightarrow> string \<times> 'w"

text \<open>\<open>Instant::elapsed().as_millis() as u64\<close>: a later reading minus an earlier one, saturating.\<close>

definition elapsed_ms :: "'w machine \<Rightarrow> nat \<Rightarrow> 'w \<Rightarrow> u64 \<times> 'w" where
  "elapsed_ms m started w = (let (now, w') = mc_instant_ns m w in (of_nat ((now - started) div 1000000), w'))"

section \<open>Payloads\<close>

datatype run_status = Pending | Running | Paused | Completed | Failed | Cancelled

definition is_terminal :: "run_status \<Rightarrow> bool" where
  "is_terminal s = (s = Completed \<or> s = Failed \<or> s = Cancelled)"

fun run_status_debug :: "run_status \<Rightarrow> string" where
  "run_status_debug Pending = ''Pending''"
| "run_status_debug Running = ''Running''"
| "run_status_debug Paused = ''Paused''"
| "run_status_debug Completed = ''Completed''"
| "run_status_debug Failed = ''Failed''"
| "run_status_debug Cancelled = ''Cancelled''"

datatype log_level = Debug | Info | Warn | Error

fun log_level_debug :: "log_level \<Rightarrow> string" where
  "log_level_debug Debug = ''Debug''"
| "log_level_debug Info = ''Info''"
| "log_level_debug Warn = ''Warn''"
| "log_level_debug Error = ''Error''"

record node_input_snapshot =
  is_config :: json
  is_resolved_config :: json
  is_inputs :: jobject
  is_variables_before :: jobject
  is_timeout_ms :: "u64 option"

datatype execution_event =
    RunStarted string
  | NodeStarted string string "node_input_snapshot option"
  | NodeProgress string "f64 option" "string option"
  | NodeFinished string jobject jobject u64
  | NodeFailed string string string bool jobject
  | EdgeActivated string string string edge_branch
  | DataTransferred string string string string string json
  | Log log_level string "string option"
  | RunPaused
  | RunResumed
  | RunCancelled "string option"
  | RunCompleted nat u64
  | RunFailed string string
  | CapabilityDecision string string "string option"

record event_envelope =
  ev_run_id :: string
  ev_seq :: u64
  ev_timestamp_ms :: u64
  ev_event :: execution_event

definition new_envelope :: "'w machine \<Rightarrow> string \<Rightarrow> u64 \<Rightarrow> execution_event \<Rightarrow> 'w \<Rightarrow> event_envelope \<times> 'w" where
  "new_envelope m run_id seq event w =
     (let (now, w') = mc_now_ms m w
      in (\<lparr>ev_run_id = run_id, ev_seq = seq, ev_timestamp_ms = now, ev_event = event\<rparr>, w'))"

section \<open>The bus\<close>

record event_bus =
  eb_run_id :: string
  eb_seq :: u64
  eb_history :: "event_envelope list"

definition new_bus :: "string \<Rightarrow> event_bus" where
  "new_bus run_id = \<lparr>eb_run_id = run_id, eb_seq = 0, eb_history = []\<rparr>"

definition bus_emit :: "'w machine \<Rightarrow> execution_event \<Rightarrow> event_bus \<Rightarrow> 'w \<Rightarrow> event_envelope \<times> event_bus \<times> 'w" where
  "bus_emit m event b w =
     (let (envelope, w') = new_envelope m (eb_run_id b) (eb_seq b) event w
      in (envelope, b\<lparr>eb_seq := eb_seq b + 1, eb_history := eb_history b @ [envelope]\<rparr>, w'))"

definition bus_emitted :: "event_bus \<Rightarrow> u64" where
  "bus_emitted b = eb_seq b"

text \<open>The invariant of a bus: envelopes are numbered in order from 0 (modulo \<open>2^64\<close>) and carry
  the run id.\<close>

definition bus_ok :: "event_bus \<Rightarrow> bool" where
  "bus_ok b \<longleftrightarrow>
     eb_seq b = of_nat (length (eb_history b)) \<and>
     (\<forall>i<length (eb_history b). ev_seq (eb_history b ! i) = of_nat i \<and> ev_run_id (eb_history b ! i) = eb_run_id b)"

lemma bus_ok_new [simp]: "bus_ok (new_bus run_id)"
  by (simp add: bus_ok_def new_bus_def)

lemma bus_emit_ok:
  assumes "bus_ok b" "bus_emit m event b w = (envelope, b', w')"
  shows "bus_ok b'"
proof -
  have b': "b' = b\<lparr>eb_seq := eb_seq b + 1, eb_history := eb_history b @ [envelope]\<rparr>"
    and e: "ev_seq envelope = eb_seq b" "ev_run_id envelope = eb_run_id b"
    using assms(2) by (auto simp: bus_emit_def new_envelope_def Let_def split: prod.splits)
  show ?thesis
    using assms(1) e unfolding b' by (auto simp: bus_ok_def nth_append less_Suc_eq add.commute)
qed

text \<open>The events of a bus, without their envelopes.\<close>

definition bus_events :: "event_bus \<Rightarrow> execution_event list" where
  "bus_events b = map ev_event (eb_history b)"

lemma bus_events_new [simp]: "bus_events (new_bus run_id) = []"
  by (simp add: bus_events_def new_bus_def)

lemma bus_emit_events:
  "bus_emit m event b w = (envelope, b', w') \<Longrightarrow>
     bus_events b' = bus_events b @ [event] \<and> eb_run_id b' = eb_run_id b"
  by (auto simp: bus_emit_def new_envelope_def Let_def bus_events_def split: prod.splits)

section \<open>Sinks\<close>

definition null_sink_emit :: "event_envelope \<Rightarrow> unit \<Rightarrow> unit" where
  "null_sink_emit envelope s = ()"

text \<open>A bounded channel: \<open>try_send\<close> fails on a full queue and after the receiver is gone, and
  the failure is ignored.\<close>

record channel_sink =
  ch_capacity :: nat
  ch_connected :: bool
  ch_queue :: "event_envelope list"

definition new_channel_sink :: "nat \<Rightarrow> channel_sink" where
  "new_channel_sink capacity = \<lparr>ch_capacity = capacity, ch_connected = True, ch_queue = []\<rparr>"

definition channel_sink_emit :: "event_envelope \<Rightarrow> channel_sink \<Rightarrow> channel_sink" where
  "channel_sink_emit envelope s =
     (if ch_connected s \<and> length (ch_queue s) < ch_capacity s
      then s\<lparr>ch_queue := ch_queue s @ [envelope]\<rparr> else s)"

definition new_collecting_sink :: "event_envelope list" where
  "new_collecting_sink = []"

definition collecting_sink_emit :: "event_envelope \<Rightarrow> event_envelope list \<Rightarrow> event_envelope list" where
  "collecting_sink_emit envelope s = s @ [envelope]"

definition collecting_snapshot :: "event_envelope list \<Rightarrow> event_envelope list" where
  "collecting_snapshot s = s"

definition collecting_len :: "event_envelope list \<Rightarrow> nat" where
  "collecting_len s = length s"

definition collecting_is_empty :: "event_envelope list \<Rightarrow> bool" where
  "collecting_is_empty s = (s = [])"

lemma subseq_set: "subseq xs ys \<Longrightarrow> set xs \<subseteq> set ys"
  by (induction rule: list_emb.induct) auto

lemma sorted_wrt_subseq: "subseq xs ys \<Longrightarrow> sorted_wrt P ys \<Longrightarrow> sorted_wrt P xs"
  by (induction rule: list_emb.induct) (auto dest: subseq_set)

text \<open>What the bus relies on: a sink may drop an envelope, but keeps the others, in order.\<close>

locale event_sink =
  fixes emit :: "event_envelope \<Rightarrow> 's \<Rightarrow> 's"
    and held :: "'s \<Rightarrow> event_envelope list"
  assumes emit_held: "held (emit e s) = held s \<or> held (emit e s) = held s @ [e]"
begin

lemma held_subseq: "\<exists>es'. subseq es' es \<and> held (fold emit es s) = held s @ es'"
proof (induction es arbitrary: s)
  case Nil
  then show ?case by simp
next
  case (Cons e es)
  from Cons.IH [of "emit e s"] obtain es' where
    es': "subseq es' es" "held (fold emit es (emit e s)) = held (emit e s) @ es'" by blast
  from emit_held [of e s] show ?case
  proof
    assume "held (emit e s) = held s"
    with es' show ?thesis by (intro exI [of _ es']) auto
  next
    assume "held (emit e s) = held s @ [e]"
    with es' show ?thesis by (intro exI [of _ "e # es'"]) auto
  qed
qed

text \<open>A sink that starts empty holds envelopes of the bus in strictly increasing order.\<close>

lemma held_sorted:
  assumes "held s = []" "bus_ok b" "length (eb_history b) < 2 ^ 64"
  shows "sorted_wrt (<) (map ev_seq (held (fold emit (eb_history b) s)))"
proof -
  obtain es' where es': "subseq es' (eb_history b)" "held (fold emit (eb_history b) s) = es'"
    using held_subseq [of "eb_history b" s] assms(1) by auto
  have seqs: "map ev_seq (eb_history b) = map of_nat [0..<length (eb_history b)]"
    using assms(2) by (intro nth_equalityI) (auto simp: bus_ok_def)
  have "sorted_wrt (<) (map (of_nat :: nat \<Rightarrow> u64) [0..<length (eb_history b)])"
    using assms(3) by (auto simp: sorted_wrt_iff_nth_less word_less_nat_alt unat_of_nat take_bit_nat_eq_self)
  moreover have "subseq (map ev_seq es') (map ev_seq (eb_history b))"
    using es'(1) by (rule subseq_map)
  ultimately show ?thesis
    unfolding es'(2) seqs by (meson sorted_wrt_subseq)
qed

end

interpretation null_sink: event_sink null_sink_emit "\<lambda>s. []"
  by unfold_locales simp

interpretation channel_sink: event_sink channel_sink_emit ch_queue
  by unfold_locales (simp add: channel_sink_emit_def)

interpretation collecting_sink: event_sink collecting_sink_emit "\<lambda>s. s"
  by unfold_locales (simp add: collecting_sink_emit_def)

lemma collecting_sink_all: "fold collecting_sink_emit es s = s @ es"
  by (induction es arbitrary: s) (simp_all add: collecting_sink_emit_def)

end
