(* ===== verification/Nodara_Audit.thy ===== *)
theory Nodara_Audit
  imports Nodara_Events
begin

text \<open>
  Audit records (\<open>audit.rs\<close>): the categories, the record and its builder, the log that drops
  records, the log in memory and the log in a file of JSON lines. The JSON encoding of a
  record is the library's: \<open>render\<close> and \<open>parse\<close> are parameters of the definitions that use
  the file, and the facts about the file name what they need of the two.
\<close>

section \<open>Records\<close>

datatype audit_category =
    AuditRunStarted | AuditRunFinished | AuditNodeStarted | AuditNodeFinished
  | AuditNodeFailed | AuditCapabilityEvaluated | AuditApproval | AuditLog

record audit_record =
  ar_seq :: u64
  ar_timestamp_ms :: u64
  ar_run_id :: string
  ar_category :: audit_category
  ar_node_id :: "string option"
  ar_node_type :: "string option"
  ar_capability :: "string option"
  ar_decision :: "string option"
  ar_message :: string
  ar_detail :: json

definition new_audit_record ::
    "'w machine \<Rightarrow> string \<Rightarrow> audit_category \<Rightarrow> string \<Rightarrow> 'w \<Rightarrow> audit_record \<times> 'w" where
  "new_audit_record m run_id category message w =
     (let (now, w') = mc_now_ms m w in
      (\<lparr>ar_seq = 0, ar_timestamp_ms = now, ar_run_id = run_id, ar_category = category,
        ar_node_id = None, ar_node_type = None, ar_capability = None, ar_decision = None,
        ar_message = message, ar_detail = JNull\<rparr>, w'))"

definition record_node :: "string \<Rightarrow> string \<Rightarrow> audit_record \<Rightarrow> audit_record" where
  "record_node node_id node_type r = r\<lparr>ar_node_id := Some node_id, ar_node_type := Some node_type\<rparr>"

definition record_capability :: "string \<Rightarrow> string \<Rightarrow> audit_record \<Rightarrow> audit_record" where
  "record_capability capability decision r =
     r\<lparr>ar_capability := Some capability, ar_decision := Some decision\<rparr>"

definition record_detail :: "json \<Rightarrow> audit_record \<Rightarrow> audit_record" where
  "record_detail detail r = r\<lparr>ar_detail := detail\<rparr>"

section \<open>Logs without a file\<close>

definition null_record :: "audit_record \<Rightarrow> unit \<Rightarrow> unit" where
  "null_record r s = ()"

definition null_records :: "unit \<Rightarrow> audit_record list" where
  "null_records s = []"

record memory_log =
  ml_records :: "audit_record list"
  ml_seq :: u64

definition new_memory_log :: memory_log where
  "new_memory_log = \<lparr>ml_records = [], ml_seq = 0\<rparr>"

definition memory_record :: "audit_record \<Rightarrow> memory_log \<Rightarrow> memory_log" where
  "memory_record r s =
     s\<lparr>ml_records := ml_records s @ [r\<lparr>ar_seq := ml_seq s\<rparr>], ml_seq := ml_seq s + 1\<rparr>"

definition memory_records :: "memory_log \<Rightarrow> audit_record list" where
  "memory_records s = ml_records s"

section \<open>The log in a file\<close>

text \<open>\<open>str::lines\<close>: pieces ended by a line feed, a carriage return before it dropped, and no
  empty piece at the end.\<close>

definition newline :: char where
  "newline = CHR 0x0A"

definition drop_cr :: "string \<Rightarrow> string" where
  "drop_cr s = (if s \<noteq> [] \<and> last s = CHR 0x0D then butlast s else s)"

function str_lines :: "string \<Rightarrow> string list" where
  "str_lines s =
     (if s = [] then []
      else let line = takeWhile (\<lambda>c. c \<noteq> newline) s; rest = dropWhile (\<lambda>c. c \<noteq> newline) s
           in case rest of
                [] \<Rightarrow> [line]
              | _ # rest' \<Rightarrow> drop_cr line # str_lines rest')"
  by pat_completeness auto
termination
proof (relation "measure length")
  fix s :: string and x xa x22 x21
  assume "xa = dropWhile (\<lambda>c. c \<noteq> newline) s" "xa = x21 # x22"
  then have "length (x21 # x22) \<le> length s"
    using length_dropWhile_le [of "\<lambda>c. c \<noteq> newline" s] by simp
  then show "(x22, s) \<in> measure length" by simp
qed simp

declare str_lines.simps [simp del]

record jsonl_log =
  jl_content :: string
  jl_seq :: u64

definition parse_records :: "(string \<Rightarrow> audit_record option) \<Rightarrow> string \<Rightarrow> audit_record list" where
  "parse_records parse content =
     List.map_filter parse (filter (\<lambda>line. trim line \<noteq> []) (str_lines content))"

text \<open>Iterator \<open>max().unwrap_or(0)\<close> over the sequence numbers that follow the records.\<close>

definition next_seq :: "audit_record list \<Rightarrow> u64" where
  "next_seq rs = fold (\<lambda>r n. max n (ar_seq r + 1)) rs 0"

definition jsonl_open :: "(string \<Rightarrow> audit_record option) \<Rightarrow> string \<Rightarrow> jsonl_log" where
  "jsonl_open parse content = \<lparr>jl_content = content, jl_seq = next_seq (parse_records parse content)\<rparr>"

text \<open>\<open>render\<close> is \<open>None\<close> when the record cannot be serialized, and \<open>written\<close> is
  \<open>Some n\<close> when the write fails after \<open>n\<close> characters; the sequence number
  is consumed either way.\<close>

definition jsonl_record ::
    "(audit_record \<Rightarrow> string option) \<Rightarrow> nat option \<Rightarrow> audit_record \<Rightarrow> jsonl_log \<Rightarrow> jsonl_log" where
  "jsonl_record render written r s =
     (let s' = s\<lparr>jl_seq := jl_seq s + 1\<rparr> in
      case render (r\<lparr>ar_seq := jl_seq s\<rparr>) of
        None \<Rightarrow> s'
      | Some line \<Rightarrow>
          s'\<lparr>jl_content := jl_content s @
            (case written of None \<Rightarrow> line @ [newline] | Some n \<Rightarrow> take n (line @ [newline]))\<rparr>)"

definition jsonl_records :: "(string \<Rightarrow> audit_record option) \<Rightarrow> jsonl_log \<Rightarrow> audit_record list" where
  "jsonl_records parse s = parse_records parse (jl_content s)"

section \<open>Interface: a log that retains records\<close>

locale retaining_log =
  fixes append :: "audit_record \<Rightarrow> 's \<Rightarrow> 's"
    and retained :: "'s \<Rightarrow> audit_record list"
    and next_number :: "'s \<Rightarrow> u64"
  assumes append_retained: "retained (append r s) = retained s @ [r\<lparr>ar_seq := next_number s\<rparr>]"
    and append_next: "next_number (append r s) = next_number s + 1"
begin

lemma next_number_fold: "next_number (fold append rs s) = next_number s + of_nat (length rs)"
  by (induction rs arbitrary: s) (simp_all add: append_next add.assoc)

text \<open>Nothing is lost or reordered, and only the sequence number of a record changes.\<close>

lemma retained_fold:
  "retained (fold append rs s) =
     retained s @ map (\<lambda>(i, r). r\<lparr>ar_seq := next_number s + of_nat i\<rparr>) (enumerate 0 rs)"
proof (induction rs rule: rev_induct)
  case (snoc r rs)
  then show ?case
    by (simp add: append_retained next_number_fold enumerate_append_eq)
qed simp

end

interpretation memory: retaining_log memory_record memory_records ml_seq
  by unfold_locales (simp_all add: memory_record_def memory_records_def)

section \<open>Reopening the file\<close>

lemma str_lines_line:
  assumes "newline \<notin> set line"
  shows "str_lines (line @ newline # rest) = drop_cr line # str_lines rest"
proof -
  have "\<And>c. c \<in> set line \<Longrightarrow> c \<noteq> newline" using assms by auto
  then have "takeWhile (\<lambda>c. c \<noteq> newline) (line @ newline # rest) = line"
    "dropWhile (\<lambda>c. c \<noteq> newline) (line @ newline # rest) = newline # rest"
    by (simp_all add: takeWhile_append2 dropWhile_append2)
  then show ?thesis by (subst str_lines.simps) simp
qed

text \<open>What the encoding of a record must satisfy: one line that is not blank and does not end
  in a carriage return, and that reads back as the record.\<close>

definition encodes :: "(audit_record \<Rightarrow> string option) \<Rightarrow> (string \<Rightarrow> audit_record option) \<Rightarrow> audit_record \<Rightarrow> bool" where
  "encodes render parse r =
     (case render r of
        None \<Rightarrow> False
      | Some line \<Rightarrow> newline \<notin> set line \<and> drop_cr line = line \<and> trim line \<noteq> [] \<and> parse line = Some r)"

lemma parse_records_snoc:
  assumes "encodes render parse r" "render r = Some line"
    and "content = [] \<or> last content = newline"
  shows "parse_records parse (content @ line @ [newline]) = parse_records parse content @ [r]"
  using assms(3)
proof (induction "length content" arbitrary: content rule: less_induct)
  case less
  show ?case
  proof (cases "content = []")
    case True
    with assms(1,2) show ?thesis
      by (simp add: parse_records_def encodes_def str_lines_line map_filter_simps str_lines.simps [of "[]"])
  next
    case False
    with less.prems have "newline \<in> set content" using last_in_set by force
    then obtain a b where ab: "content = a @ newline # b" "newline \<notin> set a"
      by (metis split_list_first)
    with less.prems False have "b = [] \<or> last b = newline" by (auto split: if_splits)
    with ab less.hyps [of b] have
      "parse_records parse (b @ line @ [newline]) = parse_records parse b @ [r]" by simp
    with ab show ?thesis
      by (auto simp: parse_records_def str_lines_line map_filter_simps split: option.splits)
  qed
qed

lemma next_seq_snoc: "next_seq (rs @ [r]) = max (next_seq rs) (ar_seq r + 1)"
  by (simp add: next_seq_def)

text \<open>The invariant of an open log file: it ends in a whole line, and its number is the one a
  reopening would find.\<close>

definition jsonl_ok :: "(string \<Rightarrow> audit_record option) \<Rightarrow> jsonl_log \<Rightarrow> bool" where
  "jsonl_ok parse s \<longleftrightarrow>
     (jl_content s = [] \<or> last (jl_content s) = newline) \<and> next_seq (jsonl_records parse s) = jl_seq s"

lemma jsonl_record_ok:
  assumes "jsonl_ok parse s" "encodes render parse (r\<lparr>ar_seq := jl_seq s\<rparr>)" "jl_seq s \<noteq> - 1"
  shows "jsonl_ok parse (jsonl_record render None r s)"
    and "jsonl_records parse (jsonl_record render None r s) = jsonl_records parse s @ [r\<lparr>ar_seq := jl_seq s\<rparr>]"
    and "jl_seq (jsonl_record render None r s) = jl_seq s + 1"
proof -
  obtain line where line: "render (r\<lparr>ar_seq := jl_seq s\<rparr>) = Some line"
    using assms(2) by (auto simp: encodes_def split: option.splits)
  have snoc: "parse_records parse (jl_content s @ line @ [newline]) =
      parse_records parse (jl_content s) @ [r\<lparr>ar_seq := jl_seq s\<rparr>]"
    using assms(1) by (intro parse_records_snoc [OF assms(2) line]) (simp add: jsonl_ok_def)
  show "jsonl_records parse (jsonl_record render None r s) = jsonl_records parse s @ [r\<lparr>ar_seq := jl_seq s\<rparr>]"
    using snoc by (simp add: jsonl_records_def jsonl_record_def line Let_def)
  show "jl_seq (jsonl_record render None r s) = jl_seq s + 1"
    by (simp add: jsonl_record_def line Let_def)
  have "unat (jl_seq s) + 1 < 2 ^ 64"
  proof (rule ccontr)
    assume "\<not> ?thesis"
    with unsigned_less [of "jl_seq s", where ?'a = nat] have "unat (jl_seq s) = unat (- 1 :: u64)"
      by (simp add: unat_max_word)
    with assms(3) show False by (simp add: word_unat_eq_iff)
  qed
  then have "jl_seq s \<le> jl_seq s + 1"
    by (simp add: word_le_nat_alt unat_word_ariths)
  then show "jsonl_ok parse (jsonl_record render None r s)"
    using assms(1) snoc
    by (simp add: jsonl_ok_def jsonl_records_def jsonl_record_def line Let_def next_seq_snoc max_def)
qed

lemma jsonl_records_all:
  assumes "jsonl_ok parse s" "unat (jl_seq s) + length rs < 2 ^ 64"
    and "\<forall>i<length rs. encodes render parse ((rs ! i)\<lparr>ar_seq := jl_seq s + of_nat i\<rparr>)"
  shows "jsonl_ok parse (fold (jsonl_record render None) rs s) \<and>
    jsonl_records parse (fold (jsonl_record render None) rs s) =
      jsonl_records parse s @ map (\<lambda>(i, r). r\<lparr>ar_seq := jl_seq s + of_nat i\<rparr>) (enumerate 0 rs) \<and>
    jl_seq (fold (jsonl_record render None) rs s) = jl_seq s + of_nat (length rs)"
  using assms(2,3)
proof (induction rs rule: rev_induct)
  case Nil
  with assms(1) show ?case by simp
next
  case (snoc r rs)
  let ?s = "fold (jsonl_record render None) rs s"
  have "\<forall>i<length rs. encodes render parse ((rs ! i)\<lparr>ar_seq := jl_seq s + of_nat i\<rparr>)"
    using snoc.prems(2) by (auto simp: nth_append split: if_splits elim!: allE)
  with snoc have IH: "jsonl_ok parse ?s"
    "jsonl_records parse ?s = jsonl_records parse s @ map (\<lambda>(i, r). r\<lparr>ar_seq := jl_seq s + of_nat i\<rparr>) (enumerate 0 rs)"
    "jl_seq ?s = jl_seq s + of_nat (length rs)" by simp_all
  have enc: "encodes render parse (r\<lparr>ar_seq := jl_seq ?s\<rparr>)"
    using snoc.prems(2) [rule_format, of "length rs"] by (simp add: IH(3))
  have "unat (jl_seq ?s) = unat (jl_seq s) + length rs"
    using snoc.prems(1) by (simp add: IH(3) unat_word_ariths unat_of_nat take_bit_nat_eq_self)
  then have "jl_seq ?s \<noteq> - 1"
    using snoc.prems(1) unat_max_word [where 'a = 64] by auto
  from jsonl_record_ok [OF IH(1) enc this] show ?case
    by (simp add: IH enumerate_append_eq add.assoc)
qed

section \<open>Properties\<close>

text \<open>Restarting a log file does not repeat a number: when the file holds whole lines and
  every record written is encoded as one non-blank line that reads back, appending any
  batch of records and opening the file again finds all of them, numbered consecutively
  after the old ones, and continues with the next number.\<close>

theorem jsonl_reopen_continues:
  assumes "content = [] \<or> last content = newline"
    and "unat (jl_seq (jsonl_open parse content)) + length rs < 2 ^ 64"
    and "\<forall>i<length rs. encodes render parse ((rs ! i)\<lparr>ar_seq := jl_seq (jsonl_open parse content) + of_nat i\<rparr>)"
  shows "let log = fold (jsonl_record render None) rs (jsonl_open parse content);
             again = jsonl_open parse (jl_content log)
         in jsonl_records parse again = parse_records parse content @
              map (\<lambda>(i, r). r\<lparr>ar_seq := jl_seq (jsonl_open parse content) + of_nat i\<rparr>) (enumerate 0 rs) \<and>
            jl_seq again = jl_seq (jsonl_open parse content) + of_nat (length rs)"
proof -
  have ok: "jsonl_ok parse (jsonl_open parse content)"
    using assms(1) by (simp add: jsonl_ok_def jsonl_open_def jsonl_records_def)
  define log where "log = fold (jsonl_record render None) rs (jsonl_open parse content)"
  from jsonl_records_all [OF ok assms(2,3)]
  have "next_seq (jsonl_records parse log) = jl_seq log"
    "jsonl_records parse log = jsonl_records parse (jsonl_open parse content) @
       map (\<lambda>(i, r). r\<lparr>ar_seq := jl_seq (jsonl_open parse content) + of_nat i\<rparr>) (enumerate 0 rs)"
    "jl_seq log = jl_seq (jsonl_open parse content) + of_nat (length rs)"
    unfolding log_def jsonl_ok_def by blast+
  moreover have "jsonl_records parse (jsonl_open parse (jl_content log)) = jsonl_records parse log"
    "jl_seq (jsonl_open parse (jl_content log)) = next_seq (jsonl_records parse log)"
    "jsonl_records parse (jsonl_open parse content) = parse_records parse content"
    by (simp_all add: jsonl_records_def jsonl_open_def)
  ultimately show ?thesis unfolding Let_def log_def by argo
qed

definition sample_record :: audit_record where
  "sample_record =
     \<lparr>ar_seq = 0, ar_timestamp_ms = 0, ar_run_id = ''r'', ar_category = AuditLog, ar_node_id = None,
      ar_node_type = None, ar_capability = None, ar_decision = None, ar_message = ''m'', ar_detail = JNull\<rparr>"

definition sample_render :: "audit_record \<Rightarrow> string option" where
  "sample_render r = Some (show_nat (unat (ar_seq r)))"

definition sample_parse :: "string \<Rightarrow> audit_record option" where
  "sample_parse line = map_option (\<lambda>n. sample_record\<lparr>ar_seq := of_nat n\<rparr>) (parse_digits line)"

lemma jsonl_reopen_continues_witness:
  "jl_seq (jsonl_open sample_parse
     (jl_content (fold (jsonl_record sample_render None) [sample_record] (jsonl_open sample_parse [CHR ''4'', newline])))) = 6"
proof -
  have lines: "str_lines [CHR ''4'', newline] = [''4'']"
    using str_lines_line [of "''4''" "[]"] by (simp add: newline_def drop_cr_def str_lines.simps [of "[]"])
  have "sample_parse ''4'' = Some (sample_record\<lparr>ar_seq := 4\<rparr>)" "trim ''4'' = ''4''" by code_simp+
  then have seq: "jl_seq (jsonl_open sample_parse [CHR ''4'', newline]) = 5"
    by (simp add: jsonl_open_def parse_records_def lines map_filter_simps next_seq_def)
  have enc: "encodes sample_render sample_parse (sample_record\<lparr>ar_seq := 5\<rparr>)" by code_simp
  have "[CHR ''4'', newline] = [] \<or> last [CHR ''4'', newline] = newline" by simp
  moreover have "unat (jl_seq (jsonl_open sample_parse [CHR ''4'', newline])) + length [sample_record] < 2 ^ 64"
    by (simp add: seq)
  moreover have "\<forall>i<length [sample_record]. encodes sample_render sample_parse
      (([sample_record] ! i)\<lparr>ar_seq := jl_seq (jsonl_open sample_parse [CHR ''4'', newline]) + of_nat i\<rparr>)"
    using enc by (simp add: seq)
  ultimately show ?thesis
    using jsonl_reopen_continues [of "[CHR ''4'', newline]" sample_parse "[sample_record]" sample_render]
    by (simp add: Let_def seq)
qed

end
