(* ===== verification/Nodara_Node.thy ===== *)
theory Nodara_Node
  imports Nodara_Workflow
begin

text \<open>
  What a node receives, produces and fails with: the node errors of \<open>error.rs\<close> and the input
  and output entries of \<open>executor.rs\<close>. The executor trait itself needs the execution context
  and is in \<open>Nodara_Context\<close>.
\<close>

section \<open>Errors\<close>

datatype node_error =
    InvalidConfig string
  | PermissionDenied string string
  | CancelledError
  | TimeoutError
  | ExecutionFailed string
  | IoError string
  | UnsupportedOperation string

fun node_error_text :: "node_error \<Rightarrow> string" where
  "node_error_text (InvalidConfig e) = ''invalid configuration: '' @ e"
| "node_error_text (PermissionDenied capability reason) =
     ''permission denied for capability `'' @ capability @ ''`: '' @ reason"
| "node_error_text CancelledError = ''node execution cancelled''"
| "node_error_text TimeoutError = ''node execution timed out''"
| "node_error_text (ExecutionFailed e) = ''execution failed: '' @ e"
| "node_error_text (IoError e) = ''io error: '' @ e"
| "node_error_text (UnsupportedOperation e) = ''unsupported operation: '' @ e"

fun node_error_code :: "node_error \<Rightarrow> string" where
  "node_error_code (InvalidConfig _) = ''E_INVALID_CONFIG''"
| "node_error_code (PermissionDenied _ _) = ''E_PERMISSION_DENIED''"
| "node_error_code CancelledError = ''E_CANCELLED''"
| "node_error_code TimeoutError = ''E_TIMEOUT''"
| "node_error_code (ExecutionFailed _) = ''E_EXECUTION''"
| "node_error_code (IoError _) = ''E_IO''"
| "node_error_code (UnsupportedOperation _) = ''E_UNSUPPORTED''"

fun retryable :: "node_error \<Rightarrow> bool" where
  "retryable TimeoutError = True"
| "retryable (IoError _) = True"
| "retryable _ = False"

definition denied :: "string \<Rightarrow> string \<Rightarrow> node_error" where
  "denied capability reason = PermissionDenied capability reason"

section \<open>Node input\<close>

record node_input =
  ni_node_id :: string
  ni_node_type :: string
  ni_config :: json
  ni_resolved_config :: json
  ni_inputs :: jobject
  ni_timeout_ms :: "u64 option"

definition node_input_port :: "node_input \<Rightarrow> string \<Rightarrow> json option" where
  "node_input_port i port = om_get (ni_inputs i) port"

definition config_str :: "node_input \<Rightarrow> string \<Rightarrow> string option" where
  "config_str i key = Option.bind (jget (ni_resolved_config i) key) as_str"

definition config_i64 :: "node_input \<Rightarrow> string \<Rightarrow> int option" where
  "config_i64 i key = Option.bind (jget (ni_resolved_config i) key) as_i64"

definition config_f64 :: "node_input \<Rightarrow> string \<Rightarrow> f64 option" where
  "config_f64 i key = Option.bind (jget (ni_resolved_config i) key) as_f64"

definition config_bool :: "node_input \<Rightarrow> string \<Rightarrow> bool option" where
  "config_bool i key = Option.bind (jget (ni_resolved_config i) key) as_bool"

definition with_input_fallback :: "node_input \<Rightarrow> string \<Rightarrow> string \<Rightarrow> node_input" where
  "with_input_fallback i port key =
     (if jget (ni_resolved_config i) key = None
      then (case om_get (ni_inputs i) port of
              None \<Rightarrow> i
            | Some value \<Rightarrow>
                (case ni_resolved_config i of
                   JObj config \<Rightarrow> i\<lparr>ni_resolved_config := JObj (om_insert key value config)\<rparr>
                 | _ \<Rightarrow> i))
      else i)"

definition with_input_object_fallback :: "node_input \<Rightarrow> string \<Rightarrow> node_input" where
  "with_input_object_fallback i port =
     (case om_get (ni_inputs i) port of
        Some (JObj entries) \<Rightarrow>
          (case ni_resolved_config i of
             JObj config \<Rightarrow>
               i\<lparr>ni_resolved_config :=
                 JObj (fold (\<lambda>(key, value) m. if om_has m key then m else om_insert key value m) entries config)\<rparr>
           | _ \<Rightarrow> i)
      | _ \<Rightarrow> i)"

definition require_str :: "node_input \<Rightarrow> string \<Rightarrow> (node_error, string) result" where
  "require_str i key =
     (case config_str i key of
        Some s \<Rightarrow> Inr s
      | None \<Rightarrow> Inl (InvalidConfig (''missing string field `'' @ key @ ''`'')))"

definition require_i64 :: "node_input \<Rightarrow> string \<Rightarrow> (node_error, int) result" where
  "require_i64 i key =
     (case config_i64 i key of
        Some n \<Rightarrow> Inr n
      | None \<Rightarrow> Inl (InvalidConfig (''missing integer field `'' @ key @ ''`'')))"

section \<open>Node output\<close>

record node_output =
  no_outputs :: jobject
  no_variables :: jobject

definition new_output :: node_output where
  "new_output = \<lparr>no_outputs = om_empty, no_variables = om_empty\<rparr>"

definition with_output :: "node_output \<Rightarrow> string \<Rightarrow> json \<Rightarrow> node_output" where
  "with_output out port value = out\<lparr>no_outputs := om_insert port value (no_outputs out)\<rparr>"

definition with_variable :: "node_output \<Rightarrow> string \<Rightarrow> json \<Rightarrow> node_output" where
  "with_variable out name value = out\<lparr>no_variables := om_insert name value (no_variables out)\<rparr>"

definition node_output_port :: "node_output \<Rightarrow> string \<Rightarrow> json option" where
  "node_output_port out port = om_get (no_outputs out) port"

section \<open>Explicit configuration wins\<close>

lemma fold_or_insert_get:
  "om_get (fold (\<lambda>(key, value) m. if om_has m key then m else om_insert key value m) entries config) k =
     (case om_get config k of Some v \<Rightarrow> Some v | None \<Rightarrow> om_get entries k)"
proof (induction entries arbitrary: config)
  case (Cons x entries)
  obtain j v where x: "x = (j, v)" by (cases x)
  show ?case
    unfolding x by (cases "om_has config j"; simp add: Cons.IH; auto simp: om_has_def split: option.splits)
qed (auto split: option.splits)

lemma jget_object_fallback:
  "jget (ni_resolved_config (with_input_object_fallback i port)) k =
     (case jget (ni_resolved_config i) k of
        Some v \<Rightarrow> Some v
      | None \<Rightarrow>
          (case (om_get (ni_inputs i) port, ni_resolved_config i) of
             (Some (JObj entries), JObj _) \<Rightarrow> om_get entries k
           | _ \<Rightarrow> None))"
  by (cases "ni_resolved_config i"; cases "om_get (ni_inputs i) port")
    (auto simp: with_input_object_fallback_def fold_or_insert_get split: option.splits json.splits)

lemma jget_input_fallback:
  "jget (ni_resolved_config (with_input_fallback i port key)) k =
     (case jget (ni_resolved_config i) k of
        Some v \<Rightarrow> Some v
      | None \<Rightarrow>
          (case ni_resolved_config i of
             JObj _ \<Rightarrow> if k = key then om_get (ni_inputs i) port else None
           | _ \<Rightarrow> None))"
  by (cases "ni_resolved_config i"; cases "om_get (ni_inputs i) port")
    (auto simp: with_input_fallback_def split: option.splits)

end
