(* ===== verification/Nodara_Template.thy ===== *)
theory Nodara_Template
  imports Nodara_Node
begin

text \<open>
  Templates (the second half of \<open>context.rs\<close>): the scan for \<open>{{name}}\<close> placeholders, the
  typed resolution of a node configuration against its schema, and the look-up of dotted
  variable names with secrets masked. The definitions take the run scope (variables and
  secret names) as arguments; \<open>Nodara_Context\<close> applies them to a context.
\<close>

section \<open>Look-up\<close>

record scope =
  sc_variables :: jobject
  sc_secrets :: "string list"

definition masked :: json where
  "masked = JStr ''***''"

text \<open>\<open>lookup_value\<close>: the first segment names a variable, the others follow object keys, and a
  secret variable shows only that the path exists.\<close>

definition lookup_value :: "scope \<Rightarrow> string \<Rightarrow> json option" where
  "lookup_value sc name =
     (case split_dots name of
        [] \<Rightarrow> None
      | head # segments \<Rightarrow>
          (case om_get (sc_variables sc) head of
             None \<Rightarrow> None
           | Some current \<Rightarrow>
               (case json_path current segments of
                  None \<Rightarrow> None
                | Some v \<Rightarrow> Some (if head \<in> set (sc_secrets sc) then masked else v))))"

fun template_string :: "externs \<Rightarrow> json \<Rightarrow> string" where
  "template_string x (JStr text) = text"
| "template_string x JNull = []"
| "template_string x v = ext_json_text x v"

definition lookup :: "externs \<Rightarrow> scope \<Rightarrow> string \<Rightarrow> string option" where
  "lookup x sc name = map_option (template_string x) (lookup_value sc name)"

definition redacted_variables :: "scope \<Rightarrow> jobject" where
  "redacted_variables sc =
     map (\<lambda>(name, v). (name, if name \<in> set (sc_secrets sc) then masked else v)) (sc_variables sc)"

section \<open>Interpolation\<close>

definition open_braces :: string where "open_braces = ''{{''"
definition close_braces :: string where "close_braces = ''}}''"

text \<open>The placeholder that starts at the front of a text: what is between the braces and what
  follows them.\<close>

definition placeholder_at :: "string \<Rightarrow> (string \<times> string) option" where
  "placeholder_at text =
     (case strip_prefix open_braces text of None \<Rightarrow> None | Some body \<Rightarrow> cut_at close_braces body)"

lemma placeholder_at_length: "placeholder_at text = Some (raw, after) \<Longrightarrow> length after < length text"
  by (auto simp: placeholder_at_def strip_prefix_def starts_with_def open_braces_def close_braces_def
      split: option.splits if_splits dest!: cut_at_length)

function interpolate_with :: "(string \<Rightarrow> string option) \<Rightarrow> string \<Rightarrow> string" where
  "interpolate_with look [] = []"
| "interpolate_with look (ch # text) =
     (case placeholder_at (ch # text) of
        None \<Rightarrow> ch # interpolate_with look text
      | Some (raw, after) \<Rightarrow>
          (case look (trim raw) of
             Some resolved \<Rightarrow> resolved @ interpolate_with look after
           | None \<Rightarrow> ch # interpolate_with look text))"
  by pat_completeness auto
termination
  by (relation "measure (length \<circ> snd)") (auto dest: placeholder_at_length)

definition interpolate :: "externs \<Rightarrow> scope \<Rightarrow> string \<Rightarrow> string" where
  "interpolate x sc text = interpolate_with (lookup x sc) text"

definition exact_placeholder :: "string \<Rightarrow> string option" where
  "exact_placeholder text =
     (case strip_prefix open_braces (trim text) of
        None \<Rightarrow> None
      | Some rest \<Rightarrow>
          (case strip_suffix close_braces rest of
             None \<Rightarrow> None
           | Some inner \<Rightarrow>
               if contains_str open_braces inner \<or> contains_str close_braces inner then None
               else if trim inner = [] then None else Some (trim inner)))"

section \<open>Values and configurations\<close>

fun resolve_value :: "externs \<Rightarrow> scope \<Rightarrow> json \<Rightarrow> json" where
  "resolve_value x sc (JStr text) = JStr (interpolate x sc text)"
| "resolve_value x sc (JArr items) = JArr (map (resolve_value x sc) items)"
| "resolve_value x sc (JObj m) = JObj (map (\<lambda>(k, v). (k, resolve_value x sc v)) m)"
| "resolve_value x sc v = v"

definition schema_types :: "json \<Rightarrow> string list option" where
  "schema_types schema =
     (case jget schema ''type'' of
        Some (JStr kind) \<Rightarrow> Some [kind]
      | Some (JArr kinds) \<Rightarrow> Some (List.map_filter as_str kinds)
      | _ \<Rightarrow> None)"

fun coerce_integer :: "json \<Rightarrow> json" where
  "coerce_integer (JNum n) =
     (case num_as_i64 n of
        Some i \<Rightarrow> JNum (num_of_i64 i)
      | None \<Rightarrow> (case num_as_u64 n of Some u \<Rightarrow> JNum (num_of_u64 u) | None \<Rightarrow> JNum n))"
| "coerce_integer (JStr text) =
     (case parse_i64 text of Some i \<Rightarrow> JNum (num_of_i64 i) | None \<Rightarrow> JStr text)"
| "coerce_integer v = v"

fun coerce_number :: "json \<Rightarrow> json" where
  "coerce_number (JStr text) =
     (case Option.bind (parse_f64 text) num_of_f64 of Some n \<Rightarrow> JNum n | None \<Rightarrow> JStr text)"
| "coerce_number v = v"

fun coerce_boolean :: "json \<Rightarrow> json" where
  "coerce_boolean (JStr text) =
     (if eq_ignore_ascii_case text ''true'' then JBool True
      else if eq_ignore_ascii_case text ''false'' then JBool False
      else JStr text)"
| "coerce_boolean v = v"

definition coerce_value_for_schema :: "externs \<Rightarrow> json \<Rightarrow> json option \<Rightarrow> json" where
  "coerce_value_for_schema x v schema =
     (if v = JNull then v
      else case Option.bind schema schema_types of
        None \<Rightarrow> v
      | Some types \<Rightarrow>
          if ''string'' \<in> set types then JStr (template_string x v)
          else if ''integer'' \<in> set types then coerce_integer v
          else if ''number'' \<in> set types then coerce_number v
          else if ''boolean'' \<in> set types then coerce_boolean v
          else v)"

definition child_schema :: "json option \<Rightarrow> string \<Rightarrow> json option" where
  "child_schema schema key =
     (let properties = Option.bind (Option.bind schema (\<lambda>s. jget s ''properties'')) as_object;
          additional = Option.bind (Option.bind schema (\<lambda>s. jget s ''additionalProperties''))
                         (\<lambda>v. if as_object v \<noteq> None then Some v else None)
      in case Option.bind properties (\<lambda>ps. om_get ps key) of
           Some s \<Rightarrow> Some s
         | None \<Rightarrow> additional)"

definition resolve_text :: "externs \<Rightarrow> scope \<Rightarrow> string \<Rightarrow> json option \<Rightarrow> json" where
  "resolve_text x sc text schema =
     (case Option.bind (exact_placeholder text) (lookup_value sc) of
        Some resolved \<Rightarrow> coerce_value_for_schema x resolved schema
      | None \<Rightarrow> JStr (interpolate x sc text))"

fun resolve_config_value :: "externs \<Rightarrow> scope \<Rightarrow> json \<Rightarrow> json option \<Rightarrow> json" where
  "resolve_config_value x sc (JStr text) schema = resolve_text x sc text schema"
| "resolve_config_value x sc (JArr items) schema =
     JArr (map (\<lambda>item. resolve_config_value x sc item (Option.bind schema (\<lambda>s. jget s ''items''))) items)"
| "resolve_config_value x sc (JObj m) schema =
     JObj (map (\<lambda>(key, child). (key, resolve_config_value x sc child (child_schema schema key))) m)"
| "resolve_config_value x sc v schema = v"

definition resolve_config :: "externs \<Rightarrow> scope \<Rightarrow> json \<Rightarrow> json \<Rightarrow> json" where
  "resolve_config x sc v schema = resolve_config_value x sc v (Some schema)"

section \<open>Text without placeholders\<close>

lemma starts_with_append: "starts_with p s \<longleftrightarrow> (\<exists>b. s = p @ b)"
  by (metis append_eq_conv_conj append_take_drop_id starts_with_def)

lemma cut_at_None: "p \<noteq> [] \<Longrightarrow> cut_at p s = None \<longleftrightarrow> (\<forall>a b. s \<noteq> a @ p @ b)"
proof (induction s)
  case (Cons c s)
  show ?case
  proof (cases "starts_with p (c # s)")
    case True
    then have "\<exists>a b. c # s = a @ p @ b" by (metis append_Nil starts_with_append)
    with True show ?thesis by simp
  next
    case False
    then have "(\<exists>a b. c # s = a @ p @ b) \<longleftrightarrow> (\<exists>a b. s = a @ p @ b)"
      by (auto simp: starts_with_append Cons_eq_append_conv)
    with False Cons show ?thesis by auto
  qed
qed simp

lemma contains_str_iff: "p \<noteq> [] \<Longrightarrow> contains_str p s \<longleftrightarrow> (\<exists>a b. s = a @ p @ b)"
  using cut_at_None [of p s] by (auto simp: contains_str_def)

lemma trim_infix: "\<exists>a b. s = a @ trim s @ b"
proof -
  have start: "s = takeWhile is_space s @ trim_start s" by (simp add: trim_start_def)
  have "trim_start s = trim s @ rev (takeWhile is_space (rev (trim_start s)))"
    by (metis rev_append rev_rev_ident takeWhile_dropWhile_id trim_def trim_end_def)
  with start show ?thesis by (metis append.assoc)
qed

lemma contains_trim: "p \<noteq> [] \<Longrightarrow> contains_str p (trim s) \<Longrightarrow> contains_str p s"
  using trim_infix [of s] by (auto simp: contains_str_iff) (metis append.assoc)

lemma contains_tail: "\<not> contains_str p (c # s) \<Longrightarrow> \<not> contains_str p s"
  by (auto simp: contains_str_def split: if_splits)

lemma placeholder_at_None: "\<not> contains_str open_braces body \<Longrightarrow> placeholder_at body = None"
  by (cases body) (auto simp: placeholder_at_def strip_prefix_def contains_str_def open_braces_def split: if_splits)

lemma interpolate_with_plain: "\<not> contains_str open_braces body \<Longrightarrow> interpolate_with look body = body"
proof (induction look body rule: interpolate_with.induct)
  case (2 look ch body)
  then show ?case by (simp add: placeholder_at_None contains_tail)
qed simp

lemma exact_placeholder_plain: "\<not> contains_str open_braces body \<Longrightarrow> exact_placeholder body = None"
proof (rule ccontr)
  assume plain: "\<not> contains_str open_braces body" and "exact_placeholder body \<noteq> None"
  then have "starts_with open_braces (trim body)"
    by (auto simp: exact_placeholder_def strip_prefix_def split: if_splits)
  then have "contains_str open_braces (trim body)"
    by (cases "trim body") (simp_all add: contains_str_def starts_with_def open_braces_def)
  with plain contains_trim [of open_braces body] show False by (simp add: open_braces_def)
qed

fun plain_json :: "json \<Rightarrow> bool" where
  "plain_json (JStr text) = (\<not> contains_str open_braces text)"
| "plain_json (JArr items) = list_all plain_json items"
| "plain_json (JObj m) = list_all (\<lambda>(k, v). plain_json v) m"
| "plain_json v = True"

lemma resolve_config_value_plain: "plain_json v \<Longrightarrow> resolve_config_value x sc v schema = v"
proof (induction x sc v schema rule: resolve_config_value.induct)
  case (2 x sc items schema)
  then show ?case by (auto simp: list_all_iff intro: map_idI)
next
  case (3 x sc m schema)
  have "(case p of (key, child) \<Rightarrow> (key, resolve_config_value x sc child (child_schema schema key))) = p"
    if "p \<in> set m" for p
    using 3 that by (cases p) (force simp: list_all_iff)
  then show ?case by (simp add: map_idI)
qed (simp_all add: resolve_text_def exact_placeholder_plain interpolate_def interpolate_with_plain)

section \<open>Placeholders\<close>

lemma cut_at_first:
  assumes "CHR ''}'' \<notin> set a"
  shows "cut_at close_braces (a @ close_braces @ b) = Some (a, b)"
  using assms by (induction a) (auto simp: close_braces_def starts_with_def)

lemma placeholder_at_front:
  "CHR ''}'' \<notin> set raw \<Longrightarrow> placeholder_at (open_braces @ raw @ close_braces @ after) = Some (raw, after)"
  by (simp add: placeholder_at_def strip_prefix_def starts_with_append cut_at_first)

lemma placeholder_at_other: "ch \<noteq> CHR ''{'' \<Longrightarrow> placeholder_at (ch # s) = None"
  by (simp add: placeholder_at_def strip_prefix_def starts_with_def open_braces_def)

lemma interpolate_with_placeholder:
  assumes "CHR ''{'' \<notin> set pre" "CHR ''}'' \<notin> set raw" "look (trim raw) = Some resolved"
  shows "interpolate_with look (pre @ open_braces @ raw @ close_braces @ after) =
    pre @ resolved @ interpolate_with look after"
  using assms(1)
proof (induction pre)
  case Nil
  obtain ch rest where front: "open_braces @ raw @ close_braces @ after = ch # rest"
    by (cases "open_braces @ raw @ close_braces @ after") (auto simp: open_braces_def)
  show ?case
    unfolding append_Nil front interpolate_with.simps
    by (simp add: assms(3) placeholder_at_front [OF assms(2), of after, unfolded front])
next
  case (Cons ch pre)
  then have "ch \<noteq> CHR ''{''" by auto
  with Cons placeholder_at_other show ?case by simp
qed

lemma trim_braces: "trim (''{{'' @ raw @ ''}}'') = ''{{'' @ raw @ ''}}''"
proof -
  have "trim_start (''{{'' @ raw @ ''}}'') = ''{{'' @ raw @ ''}}''"
    by (simp add: trim_start_def is_space_def)
  then show ?thesis by (simp add: trim_def trim_end_def is_space_def)
qed

lemma contains_str_char: "p \<noteq> [] \<Longrightarrow> hd p \<notin> set s \<Longrightarrow> \<not> contains_str p s"
  by (cases p) (auto simp: contains_str_iff)

lemma exact_placeholder_braces:
  assumes "trim raw \<noteq> []" "CHR ''{'' \<notin> set raw" "CHR ''}'' \<notin> set raw"
  shows "exact_placeholder (''{{'' @ raw @ ''}}'') = Some (trim raw)"
proof -
  have "\<not> contains_str open_braces raw" "\<not> contains_str close_braces raw"
    using assms(2,3) by (simp_all add: contains_str_char open_braces_def close_braces_def)
  with assms(1) show ?thesis
    unfolding exact_placeholder_def trim_braces
    by (simp add: strip_prefix_def strip_suffix_def starts_with_def open_braces_def close_braces_def)
qed

section \<open>Secrets\<close>

text \<open>Two scopes that an observer of templates must not tell apart: the same secret names, the
  same variables outside them, and secret values of the same shape, the only thing about
  them that the look-up tests.\<close>

definition same_paths :: "json \<Rightarrow> json \<Rightarrow> bool" where
  "same_paths v v' \<longleftrightarrow> (\<forall>path. json_path v path = None \<longleftrightarrow> json_path v' path = None)"

fun same_entry :: "bool \<Rightarrow> json option \<Rightarrow> json option \<Rightarrow> bool" where
  "same_entry secret None None = True"
| "same_entry secret (Some v) (Some v') = (if secret then same_paths v v' else v = v')"
| "same_entry secret _ _ = False"

definition same_public :: "scope \<Rightarrow> scope \<Rightarrow> bool" where
  "same_public sc sc' \<longleftrightarrow>
     sc_secrets sc = sc_secrets sc' \<and> om_ok (sc_variables sc) \<and> om_ok (sc_variables sc') \<and>
     (\<forall>name. same_entry (name \<in> set (sc_secrets sc))
        (om_get (sc_variables sc) name) (om_get (sc_variables sc') name))"

lemma same_publicD1: "same_public sc sc' \<Longrightarrow> sc_secrets sc' = sc_secrets sc"
  by (simp add: same_public_def)

lemma same_publicD2:
  "same_public sc sc' \<Longrightarrow> same_entry (name \<in> set (sc_secrets sc)) (om_get (sc_variables sc) name) (om_get (sc_variables sc') name)"
  unfolding same_public_def by blast

lemma same_entry_cases:
  assumes "same_entry secret v v'"
  obtains (none) "v = None" "v' = None"
  | (some) u u' where "v = Some u" "v' = Some u'" "if secret then same_paths u u' else u = u'"
  using assms by (cases v; cases v') auto

lemma same_public_lookup_value:
  assumes "same_public sc sc'"
  shows "lookup_value sc = lookup_value sc'"
proof
  fix name
  obtain head segments where split: "split_dots name = head # segments"
    by (metis list.exhaust split_by_nonempty split_dots_def)
  from same_publicD2 [OF assms, of head] show "lookup_value sc name = lookup_value sc' name"
  proof (cases rule: same_entry_cases)
    case none
    then show ?thesis by (simp add: lookup_value_def split)
  next
    case (some u u')
    show ?thesis
    proof (cases "head \<in> set (sc_secrets sc)")
      case True
      with some have "json_path u segments = None \<longleftrightarrow> json_path u' segments = None"
        by (simp add: same_paths_def)
      then show ?thesis
        by (auto simp: lookup_value_def split some True same_publicD1 [OF assms] split: option.splits)
    qed (use some in \<open>auto simp: lookup_value_def split same_publicD1 [OF assms] split: option.splits\<close>)
  qed
qed

lemma same_public_interpolate: "same_public sc sc' \<Longrightarrow> interpolate x sc = interpolate x sc'"
  using same_public_lookup_value [of sc sc'] by (intro ext) (simp add: interpolate_def lookup_def [abs_def])

lemma same_public_resolve:
  "same_public sc sc' \<Longrightarrow> resolve_config_value x sc v schema = resolve_config_value x sc' v schema"
proof (induction x sc v schema rule: resolve_config_value.induct)
  case (1 x sc body schema)
  then show ?case
    by (auto simp: resolve_text_def same_public_lookup_value [of sc sc'] same_public_interpolate [of sc sc']
        split: option.splits)
qed auto

lemma same_public_redacted: "same_public sc sc' \<Longrightarrow> redacted_variables sc = redacted_variables sc'"
proof (rule om_eqI)
  assume same: "same_public sc sc'"
  have keys: "map fst (redacted_variables s) = map fst (sc_variables s)" for s
    by (simp add: redacted_variables_def comp_def case_prod_beta)
  show "om_ok (redacted_variables sc)" "om_ok (redacted_variables sc')"
    using same by (simp_all add: om_ok_def keys same_public_def)
  fix name
  have get: "om_get (redacted_variables s) name =
      map_option (\<lambda>v. if name \<in> set (sc_secrets s) then masked else v) (om_get (sc_variables s) name)" for s
    unfolding redacted_variables_def by (simp only: om_get_map_values)
  from same_publicD2 [OF same, of name]
  show "om_get (redacted_variables sc) name = om_get (redacted_variables sc') name"
    by (cases rule: same_entry_cases) (auto simp: get same_publicD1 [OF same] split: if_splits)
qed

section \<open>Coercion\<close>

lemma coerce_integer_num: "num_ok n \<Longrightarrow> coerce_integer (JNum n) = JNum n"
proof (cases n)
  case (PosInt w)
  then show ?thesis by (simp add: num_of_i64_def num_of_u64_def)
next
  case (NegInt w)
  moreover assume "num_ok n"
  ultimately show ?thesis by (simp add: num_of_i64_def)
qed simp

lemma coerce_keeps:
  assumes "json_ok v" "as_str v = None" "case Option.bind schema schema_types of None \<Rightarrow> True | Some types \<Rightarrow> ''string'' \<notin> set types"
  shows "coerce_value_for_schema x v schema = v"
proof (cases v)
  case (JNum n)
  with assms show ?thesis
    by (auto simp: coerce_value_for_schema_def coerce_integer_num simp del: coerce_integer.simps split: option.splits)
qed (use assms in \<open>auto simp: coerce_value_for_schema_def split: option.splits\<close>)

section \<open>Properties\<close>

text \<open>C4. Templates cannot be used to read a secret: two run scopes that differ only in the values
  of secret variables (of the same shape) give the same interpolated text, the same
  resolved configuration under any schema and the same redacted scope.\<close>

theorem templates_hide_secrets:
  assumes "same_public sc sc'"
  shows "interpolate x sc text = interpolate x sc' text \<and>
    resolve_config x sc config schema = resolve_config x sc' config schema \<and>
    redacted_variables sc = redacted_variables sc'"
  using same_public_interpolate [OF assms] same_public_resolve [OF assms] same_public_redacted [OF assms]
  by (simp add: resolve_config_def)

definition silent_externs :: externs where
  "silent_externs = \<lparr>ext_powf = (\<lambda>a b. a), ext_json_text = (\<lambda>_. []), ext_f64_text = (\<lambda>_. []), ext_serde_error = (\<lambda>_. [])\<rparr>"

definition secret_scope :: "json \<Rightarrow> scope" where
  "secret_scope v = \<lparr>sc_variables = [(''a'', JBool True), (''key'', v)], sc_secrets = [''key'']\<rparr>"

lemma templates_hide_secrets_witness:
  "interpolate silent_externs (secret_scope (JStr ''s3cret'')) ''use {{key}}'' =
     interpolate silent_externs (secret_scope (JStr ''other'')) ''use {{key}}''"
proof -
  have paths: "same_paths (JStr s) (JStr t)" for s t
    unfolding same_paths_def
  proof
    fix path show "(json_path (JStr s) path = None) = (json_path (JStr t) path = None)" by (cases path) auto
  qed
  have "same_public (secret_scope (JStr ''s3cret'')) (secret_scope (JStr ''other''))"
    by (auto simp: same_public_def secret_scope_def om_ok_def paths)
  from templates_hide_secrets [OF this] show ?thesis by blast
qed



end
