(* ===== verification/Nodara_Context.thy ===== *)
theory Nodara_Context
  imports Nodara_Template Nodara_Control Nodara_Policy Nodara_Audit
begin

text \<open>
  The execution context (\<open>context.rs\<close>) and the executor trait (\<open>executor.rs\<close>). What the
  context shares with the engine and with other threads through an \<open>Arc\<close> (the control
  handle, the bus, the audit log, the artefact store) and the outside world are the record
  \<open>shared\<close>; the rest of the struct is the record \<open>exec_context\<close>. An approval handler and an
  executor are steps of that state, and \<open>None\<close> is a call that never returns. The audit log
  is kept as the list of records handed to it: the logs of \<open>Nodara_Audit\<close> are folds of it.

  \<open>ctx_step\<close> lists what a context lets an executor do. The fields of the struct are private
  in Rust, so every executor acts by such steps; \<open>respects_context\<close> states it.
\<close>

section \<open>Artefacts\<close>

record artifact_meta =
  am_id :: string
  am_name :: string
  am_content_type :: string
  am_size :: nat

type_synonym artifact_store = "(artifact_meta \<times> 8 word list) omap"

definition artifact_put ::
    "'w machine \<Rightarrow> string \<Rightarrow> string \<Rightarrow> 8 word list \<Rightarrow> artifact_store \<Rightarrow> 'w \<Rightarrow> artifact_meta \<times> artifact_store \<times> 'w" where
  "artifact_put m name content_type bytes store w =
     (let (aid, w') = mc_uuid m w;
          meta = \<lparr>am_id = aid, am_name = name, am_content_type = content_type, am_size = length bytes\<rparr>
      in (meta, om_insert aid (meta, bytes) store, w'))"

definition artifact_insert :: "artifact_meta \<Rightarrow> 8 word list \<Rightarrow> artifact_store \<Rightarrow> artifact_store" where
  "artifact_insert meta bytes store =
     (let meta' = meta\<lparr>am_size := length bytes\<rparr> in om_insert (am_id meta') (meta', bytes) store)"

definition artifact_get_with_meta :: "artifact_store \<Rightarrow> string \<Rightarrow> (artifact_meta \<times> 8 word list) option" where
  "artifact_get_with_meta store aid = om_get store aid"

definition artifact_get :: "artifact_store \<Rightarrow> string \<Rightarrow> 8 word list option" where
  "artifact_get store aid = map_option snd (om_get store aid)"

definition artifact_meta_of :: "artifact_store \<Rightarrow> string \<Rightarrow> artifact_meta option" where
  "artifact_meta_of store aid = map_option fst (om_get store aid)"

definition artifact_list :: "artifact_store \<Rightarrow> artifact_meta list" where
  "artifact_list store = map (\<lambda>(k, meta, bytes). meta) store"

definition artifact_len :: "artifact_store \<Rightarrow> nat" where
  "artifact_len store = length store"

definition artifact_is_empty :: "artifact_store \<Rightarrow> bool" where
  "artifact_is_empty store = (store = [])"

section \<open>Shared state\<close>

record 'w shared =
  sh_control :: run_control
  sh_bus :: event_bus
  sh_audit :: "audit_record list"
  sh_artifacts :: artifact_store
  sh_world :: 'w

definition sh_emit :: "'w machine \<Rightarrow> execution_event \<Rightarrow> 'w shared \<Rightarrow> 'w shared" where
  "sh_emit m event s =
     (let (envelope, b, w) = bus_emit m event (sh_bus s) (sh_world s)
      in s\<lparr>sh_bus := b, sh_world := w\<rparr>)"

text \<open>\<open>audit.record(AuditRecord::new(...)...)\<close>: the builder calls are the function \<open>build\<close>.\<close>

definition sh_record ::
    "'w machine \<Rightarrow> string \<Rightarrow> audit_category \<Rightarrow> string \<Rightarrow> (audit_record \<Rightarrow> audit_record) \<Rightarrow> 'w shared \<Rightarrow> 'w shared" where
  "sh_record m run_id category message build s =
     (let (r, w) = new_audit_record m run_id category message (sh_world s)
      in s\<lparr>sh_audit := sh_audit s @ [build r], sh_world := w\<rparr>)"

definition sh_is_cancelled :: "'w shared \<Rightarrow> bool \<times> 'w shared" where
  "sh_is_cancelled s = (let (b, ctl) = is_cancelled (sh_control s) in (b, s\<lparr>sh_control := ctl\<rparr>))"

definition sh_sleep :: "'w machine \<Rightarrow> u64 \<Rightarrow> 'w shared \<Rightarrow> 'w shared" where
  "sh_sleep m ms s = s\<lparr>sh_world := mc_sleep_ms m ms (sh_world s)\<rparr>"

section \<open>The context\<close>

type_synonym 'w approval_handler = "capability_request \<Rightarrow> 'w \<Rightarrow> (bool \<times> 'w) option"

record 'w exec_context =
  cx_run_id :: string
  cx_workflow_id :: string
  cx_node_id :: "string option"
  cx_variables :: jobject
  cx_secrets :: "string list"
  cx_policy :: capability_policy
  cx_approval :: "'w approval_handler"
  cx_shared :: "'w shared"

definition new_context ::
    "string \<Rightarrow> string \<Rightarrow> jobject \<Rightarrow> string list \<Rightarrow> capability_policy \<Rightarrow> 'w approval_handler \<Rightarrow> 'w shared \<Rightarrow> 'w exec_context" where
  "new_context run_id workflow_id vars secrets policy approval s =
     \<lparr>cx_run_id = run_id, cx_workflow_id = workflow_id, cx_node_id = None, cx_variables = vars,
      cx_secrets = secrets, cx_policy = policy, cx_approval = approval, cx_shared = s\<rparr>"

definition ctx_scope :: "'w exec_context \<Rightarrow> scope" where
  "ctx_scope c = \<lparr>sc_variables = cx_variables c, sc_secrets = cx_secrets c\<rparr>"

definition set_node :: "string option \<Rightarrow> 'w exec_context \<Rightarrow> 'w exec_context" where
  "set_node node_id c = c\<lparr>cx_node_id := node_id\<rparr>"

definition ctx_variable :: "'w exec_context \<Rightarrow> string \<Rightarrow> json option" where
  "ctx_variable c name = om_get (cx_variables c) name"

definition set_variable :: "string \<Rightarrow> json \<Rightarrow> 'w exec_context \<Rightarrow> 'w exec_context" where
  "set_variable name v c = c\<lparr>cx_variables := om_insert name v (cx_variables c)\<rparr>"

definition is_secret :: "'w exec_context \<Rightarrow> string \<Rightarrow> bool" where
  "is_secret c name = (name \<in> set (cx_secrets c))"

definition ctx_redacted :: "'w exec_context \<Rightarrow> jobject" where
  "ctx_redacted c = redacted_variables (ctx_scope c)"

definition on_shared :: "('w shared \<Rightarrow> 'w shared) \<Rightarrow> 'w exec_context \<Rightarrow> 'w exec_context" where
  "on_shared f c = c\<lparr>cx_shared := f (cx_shared c)\<rparr>"

definition ctx_emit :: "'w machine \<Rightarrow> execution_event \<Rightarrow> 'w exec_context \<Rightarrow> 'w exec_context" where
  "ctx_emit m event = on_shared (sh_emit m event)"

definition ctx_record ::
    "'w machine \<Rightarrow> audit_category \<Rightarrow> string \<Rightarrow> (audit_record \<Rightarrow> audit_record) \<Rightarrow> 'w exec_context \<Rightarrow> 'w exec_context" where
  "ctx_record m category message build c = on_shared (sh_record m (cx_run_id c) category message build) c"

definition check_cancelled :: "'w exec_context \<Rightarrow> (node_error, unit) result \<times> 'w exec_context" where
  "check_cancelled c =
     (let (b, s) = sh_is_cancelled (cx_shared c)
      in (if b then Inl CancelledError else Inr (), c\<lparr>cx_shared := s\<rparr>))"

definition unwrap_or_default :: "string option \<Rightarrow> string" where
  "unwrap_or_default s = (case s of None \<Rightarrow> [] | Some t \<Rightarrow> t)"

definition ctx_log :: "'w machine \<Rightarrow> log_level \<Rightarrow> string \<Rightarrow> 'w exec_context \<Rightarrow> 'w exec_context" where
  "ctx_log m level message c =
     (let c1 = ctx_emit m (Log level message (cx_node_id c)) c;
          build = (\<lambda>r. (case cx_node_id c of Some node_id \<Rightarrow> record_node node_id [] | None \<Rightarrow> id)
                    (record_detail (JObj [(''level'', JStr (to_ascii_lowercase (log_level_debug level)))]) r))
      in ctx_record m AuditLog message build c1)"

definition ctx_progress :: "'w machine \<Rightarrow> f64 option \<Rightarrow> string option \<Rightarrow> 'w exec_context \<Rightarrow> 'w exec_context" where
  "ctx_progress m progress message c =
     ctx_emit m (NodeProgress (unwrap_or_default (cx_node_id c)) progress message) c"

definition request_of :: "'w exec_context \<Rightarrow> string \<Rightarrow> string list \<Rightarrow> bool \<Rightarrow> json \<Rightarrow> capability_request" where
  "request_of c node_type permissions dangerous input =
     \<lparr>cr_run_id = cx_run_id c, cr_node_id = unwrap_or_default (cx_node_id c), cr_node_type = node_type,
      cr_capability = node_type, cr_permissions = permissions, cr_dangerous = dangerous, cr_input = input\<rparr>"

text \<open>The event and the audit record of a decision.\<close>

definition announce_decision ::
    "'w machine \<Rightarrow> capability_request \<Rightarrow> decision \<Rightarrow> 'w exec_context \<Rightarrow> 'w exec_context" where
  "announce_decision m request decision c =
     ctx_record m AuditCapabilityEvaluated
       (''capability `'' @ cr_node_type request @ ''` -> '' @ decision_name decision)
       (\<lambda>r. record_detail
          (JObj [(''dangerous'', JBool (cr_dangerous request)),
                 (''permissions'', JArr (map JStr (cr_permissions request)))])
          (record_capability (cr_node_type request) (decision_name decision)
             (record_node (cr_node_id request) (cr_node_type request) r)))
       (ctx_emit m (CapabilityDecision (cr_capability request) (decision_name decision) (cx_node_id c)) c)"

definition announce_approval :: "'w machine \<Rightarrow> capability_request \<Rightarrow> bool \<Rightarrow> 'w exec_context \<Rightarrow> 'w exec_context" where
  "announce_approval m request approved c =
     ctx_record m AuditApproval
       (''approval for `'' @ cr_node_type request @ ''` '' @ (if approved then ''granted'' else ''refused''))
       (\<lambda>r. record_capability (cr_node_type request) (if approved then ''approved'' else ''rejected'')
          (record_node (cr_node_id request) (cr_node_type request) r)) c"

definition ask_approval :: "'w machine \<Rightarrow> capability_request \<Rightarrow> 'w exec_context \<Rightarrow> (bool \<times> 'w exec_context) option" where
  "ask_approval m request c =
     (case cx_approval c request (sh_world (cx_shared c)) of
        None \<Rightarrow> None
      | Some (approved, w) \<Rightarrow>
          Some (approved, announce_approval m request approved (on_shared (\<lambda>s. s\<lparr>sh_world := w\<rparr>) c)))"

definition authorize ::
    "'w machine \<Rightarrow> string \<Rightarrow> string list \<Rightarrow> bool \<Rightarrow> json \<Rightarrow> 'w exec_context
       \<Rightarrow> ((node_error, decision) result \<times> 'w exec_context) option" where
  "authorize m node_type permissions dangerous input c =
     (let request = request_of c node_type permissions dangerous input;
          decision = cx_policy c request;
          c1 = announce_decision m request decision c
      in case decision of
           Allow \<Rightarrow> Some (Inr Allow, c1)
         | Deny reason \<Rightarrow> Some (Inl (denied node_type reason), c1)
         | RequireApproval reason \<Rightarrow>
             (case ask_approval m request c1 of
                None \<Rightarrow> None
              | Some (True, c2) \<Rightarrow> Some (Inr Allow, c2)
              | Some (False, c2) \<Rightarrow> Some (Inl (denied node_type reason), c2)))"

section \<open>Executors\<close>

type_synonym 'w execute =
  "node_input \<Rightarrow> 'w exec_context \<Rightarrow> ((node_error, node_output) result \<times> 'w exec_context) option"

record 'w node_executor =
  ex_descriptor :: node_descriptor
  ex_execute :: "'w execute"

section \<open>What an executor can do to its context\<close>

inductive ctx_step :: "'w machine \<Rightarrow> 'w exec_context \<Rightarrow> 'w exec_context \<Rightarrow> bool" for m where
  step_variable: "ctx_step m c (set_variable name v c)"
| step_node: "ctx_step m c (set_node node_id c)"
| step_log: "ctx_step m c (ctx_log m level message c)"
| step_progress: "ctx_step m c (ctx_progress m progress message c)"
| step_authorize: "authorize m node_type permissions dangerous input c = Some (r, c') \<Longrightarrow> ctx_step m c c'"
| step_control: "ctx_step m c (on_shared (\<lambda>s. s\<lparr>sh_control := f (sh_control s)\<rparr>) c)"
| step_artifacts: "ctx_step m c (on_shared (\<lambda>s. s\<lparr>sh_artifacts := f (sh_artifacts s)\<rparr>) c)"
| step_world: "ctx_step m c (on_shared (\<lambda>s. s\<lparr>sh_world := w\<rparr>) c)"

definition ctx_reaches :: "'w machine \<Rightarrow> 'w exec_context \<Rightarrow> 'w exec_context \<Rightarrow> bool" where
  "ctx_reaches m = (ctx_step m)\<^sup>*\<^sup>*"

definition respects_context :: "'w machine \<Rightarrow> 'w execute \<Rightarrow> bool" where
  "respects_context m ex \<longleftrightarrow> (\<forall>input c r c'. ex input c = Some (r, c') \<longrightarrow> ctx_reaches m c c')"

text \<open>The events an executor can cause are the three kinds below: whatever else appears in the
  stream of a run was put there by the engine.\<close>

fun node_event :: "execution_event \<Rightarrow> bool" where
  "node_event (Log _ _ _) = True"
| "node_event (NodeProgress _ _ _) = True"
| "node_event (CapabilityDecision _ _ _) = True"
| "node_event _ = False"

section \<open>Views of a context\<close>

named_theorems ctx_simps \<open>how the operations of a context change its fields\<close>

abbreviation sh_events :: "'w shared \<Rightarrow> execution_event list" where
  "sh_events s \<equiv> bus_events (sh_bus s)"

abbreviation cx_events :: "'w exec_context \<Rightarrow> execution_event list" where
  "cx_events c \<equiv> bus_events (sh_bus (cx_shared c))"

abbreviation cx_control :: "'w exec_context \<Rightarrow> run_control" where
  "cx_control c \<equiv> sh_control (cx_shared c)"

abbreviation cx_audit :: "'w exec_context \<Rightarrow> audit_record list" where
  "cx_audit c \<equiv> sh_audit (cx_shared c)"

lemma sh_emit_simps [simp, ctx_simps]:
  "sh_control (sh_emit m e s) = sh_control s"
  "sh_audit (sh_emit m e s) = sh_audit s"
  "sh_artifacts (sh_emit m e s) = sh_artifacts s"
  "bus_events (sh_bus (sh_emit m e s)) = bus_events (sh_bus s) @ [e]"
  "bus_ok (sh_bus s) \<Longrightarrow> bus_ok (sh_bus (sh_emit m e s))"
  "eb_run_id (sh_bus (sh_emit m e s)) = eb_run_id (sh_bus s)"
  by (auto simp: sh_emit_def dest: bus_emit_events bus_emit_ok split: prod.splits)

lemma sh_record_simps [simp, ctx_simps]:
  "sh_control (sh_record m run_id cat msg build s) = sh_control s"
  "sh_bus (sh_record m run_id cat msg build s) = sh_bus s"
  "sh_artifacts (sh_record m run_id cat msg build s) = sh_artifacts s"
  by (auto simp: sh_record_def split: prod.splits)

lemma sh_record_audit: "\<exists>r. sh_audit (sh_record m run_id cat msg build s) = sh_audit s @ [r]"
  by (auto simp: sh_record_def split: prod.splits)

lemma on_shared_simps [simp, ctx_simps]:
  "cx_run_id (on_shared f c) = cx_run_id c" "cx_workflow_id (on_shared f c) = cx_workflow_id c"
  "cx_node_id (on_shared f c) = cx_node_id c" "cx_variables (on_shared f c) = cx_variables c"
  "cx_secrets (on_shared f c) = cx_secrets c" "cx_policy (on_shared f c) = cx_policy c"
  "cx_approval (on_shared f c) = cx_approval c" "cx_shared (on_shared f c) = f (cx_shared c)"
  by (simp_all add: on_shared_def)

text \<open>The fixed part of a context, and the growth of its observable part.\<close>

definition same_run :: "'w exec_context \<Rightarrow> 'w exec_context \<Rightarrow> bool" where
  "same_run c c' \<longleftrightarrow>
     cx_run_id c' = cx_run_id c \<and> cx_workflow_id c' = cx_workflow_id c \<and>
     cx_secrets c' = cx_secrets c \<and> cx_policy c' = cx_policy c \<and> cx_approval c' = cx_approval c"

definition sh_extends :: "(execution_event \<Rightarrow> bool) \<Rightarrow> 'w shared \<Rightarrow> 'w shared \<Rightarrow> bool" where
  "sh_extends p s s' \<longleftrightarrow>
     (bus_ok (sh_bus s) \<longrightarrow> bus_ok (sh_bus s')) \<and>
     (\<exists>es. sh_events s' = sh_events s @ es \<and> list_all p es) \<and>
     (\<exists>rs. sh_audit s' = sh_audit s @ rs)"

lemma sh_extends_refl [simp, intro]: "sh_extends p s s"
  by (simp add: sh_extends_def)

lemma sh_extends_trans [trans]: "sh_extends p a b \<Longrightarrow> sh_extends p b c \<Longrightarrow> sh_extends p a c"
  unfolding sh_extends_def by (metis append.assoc list_all_append)

lemma sh_extends_mono: "sh_extends p s s' \<Longrightarrow> (\<And>e. p e \<Longrightarrow> q e) \<Longrightarrow> sh_extends q s s'"
  unfolding sh_extends_def by (meson list.pred_mono_strong)

lemma sh_extends_emit [simp]: "p e \<Longrightarrow> sh_extends p s (sh_emit m e s)"
  by (simp add: sh_extends_def)

lemma sh_extends_record [simp]: "sh_extends p s (sh_record m run_id cat msg build s)"
  using sh_record_audit [of m run_id cat msg build s] by (auto simp: sh_extends_def)

lemma sh_extends_fields [simp]:
  "sh_extends p s (s\<lparr>sh_control := ctl\<rparr>)" "sh_extends p s (s\<lparr>sh_artifacts := st\<rparr>)" "sh_extends p s (s\<lparr>sh_world := w\<rparr>)"
  by (simp_all add: sh_extends_def)

text \<open>What every step keeps: the identity of the run, its secrets, its policy and approval, a
  sorted variable map, and a bus and an audit trail that only grow, by events that satisfy
  \<open>p\<close>.\<close>

definition ctx_extends :: "(execution_event \<Rightarrow> bool) \<Rightarrow> 'w exec_context \<Rightarrow> 'w exec_context \<Rightarrow> bool" where
  "ctx_extends p c c' \<longleftrightarrow>
     same_run c c' \<and> sh_extends p (cx_shared c) (cx_shared c') \<and>
     (om_ok (cx_variables c) \<longrightarrow> om_ok (cx_variables c'))"

lemma ctx_extends_refl [simp, intro]: "ctx_extends p c c"
  by (simp add: ctx_extends_def same_run_def)

lemma ctx_extends_trans [trans]: "ctx_extends p a b \<Longrightarrow> ctx_extends p b c \<Longrightarrow> ctx_extends p a c"
  unfolding ctx_extends_def same_run_def by (metis sh_extends_trans)

lemma ctx_extends_mono: "ctx_extends p c c' \<Longrightarrow> (\<And>e. p e \<Longrightarrow> q e) \<Longrightarrow> ctx_extends q c c'"
  unfolding ctx_extends_def using sh_extends_mono by blast

lemma ctx_extends_shared:
  "sh_extends p (cx_shared c) (f (cx_shared c)) \<Longrightarrow> ctx_extends p c (on_shared f c)"
  by (simp add: ctx_extends_def same_run_def)

lemma ctx_extends_emit [simp]: "p e \<Longrightarrow> ctx_extends p c (ctx_emit m e c)"
  by (simp add: ctx_emit_def ctx_extends_shared)

lemma ctx_extends_record [simp]: "ctx_extends p c (ctx_record m cat msg build c)"
  by (simp add: ctx_record_def ctx_extends_shared)

lemma ctx_extends_variable [simp]: "ctx_extends p c (set_variable name v c)"
  by (simp add: ctx_extends_def same_run_def set_variable_def)

lemma ctx_extends_node [simp]: "ctx_extends p c (set_node node_id c)"
  by (simp add: ctx_extends_def same_run_def set_node_def)

lemma ctx_extends_log:
  assumes "\<And>node_id. p (Log level message node_id)"
  shows "ctx_extends p c (ctx_log m level message c)"
proof -
  have "ctx_extends p c (ctx_emit m (Log level message (cx_node_id c)) c)"
    by (rule ctx_extends_emit) (rule assms)
  then show ?thesis
    unfolding ctx_log_def Let_def by (rule ctx_extends_trans [OF _ ctx_extends_record])
qed

lemma ctx_extends_announce:
  "p (CapabilityDecision (cr_capability request) (decision_name decision) (cx_node_id c)) \<Longrightarrow>
     ctx_extends p c (announce_decision m request decision c)"
  unfolding announce_decision_def by (rule ctx_extends_trans [OF ctx_extends_emit ctx_extends_record])

lemma ctx_extends_ask: "ask_approval m request c = Some (approved, c') \<Longrightarrow> ctx_extends p c c'"
  by (auto simp: ask_approval_def announce_approval_def split: option.splits
      intro: ctx_extends_trans [OF ctx_extends_shared ctx_extends_record])

lemma ctx_extends_authorize:
  assumes "authorize m node_type permissions dangerous input c = Some (r, c')"
    and "\<And>decision. p (CapabilityDecision node_type decision (cx_node_id c))"
  shows "ctx_extends p c c'"
proof -
  let ?request = "request_of c node_type permissions dangerous input"
  let ?decision = "cx_policy c ?request"
  have announce: "ctx_extends p c (announce_decision m ?request ?decision c)"
    by (rule ctx_extends_announce) (use assms(2) in \<open>simp add: request_of_def\<close>)
  show ?thesis
    using assms(1) announce
    by (auto simp: authorize_def Let_def split: decision.splits option.splits bool.splits prod.splits
        dest!: ctx_extends_ask [where p = p] intro: ctx_extends_trans)
qed

lemma ctx_step_extends: "ctx_step m c c' \<Longrightarrow> ctx_extends node_event c c'"
proof (induction rule: ctx_step.induct)
  case (step_authorize node_type permissions dangerous input c r c')
  then show ?case by (rule ctx_extends_authorize) simp
qed (simp_all add: ctx_extends_log ctx_progress_def ctx_extends_shared)

lemma ctx_reaches_extends: "ctx_reaches m c c' \<Longrightarrow> ctx_extends node_event c c'"
  unfolding ctx_reaches_def
  by (induction rule: rtranclp_induct) (auto intro: ctx_extends_trans ctx_step_extends)

lemma respects_contextD:
  "respects_context m ex \<Longrightarrow> ex input c = Some (r, c') \<Longrightarrow> ctx_extends node_event c c'"
  unfolding respects_context_def by (blast intro: ctx_reaches_extends)

section \<open>Authorisation\<close>

text \<open>The part of an audit record that says what was decided.\<close>

definition verdict_of :: "audit_record \<Rightarrow> audit_category \<times> string option" where
  "verdict_of r = (ar_category r, ar_decision r)"

lemma sh_record_verdicts:
  assumes "\<And>r. verdict_of (build r) = (ar_category r, d)"
  shows "map verdict_of (sh_audit (sh_record m run_id cat msg build s)) = map verdict_of (sh_audit s) @ [(cat, d)]"
  by (auto simp: sh_record_def new_audit_record_def Let_def assms split: prod.splits)

lemma verdict_of_builders [simp]:
  "verdict_of (record_detail j r) = verdict_of r"
  "verdict_of (record_node n t r) = verdict_of r"
  "verdict_of (record_capability cap d r) = (ar_category r, Some d)"
  "ar_category (record_node n t r) = ar_category r"
  "ar_category (record_detail j r) = ar_category r"
  by (simp_all add: verdict_of_def record_detail_def record_node_def record_capability_def)

lemma announce_decision_simps:
  "cx_events (announce_decision m request d c) =
     cx_events c @ [CapabilityDecision (cr_capability request) (decision_name d) (cx_node_id c)]"
  "map verdict_of (cx_audit (announce_decision m request d c)) =
     map verdict_of (cx_audit c) @ [(AuditCapabilityEvaluated, Some (decision_name d))]"
  "cx_approval (announce_decision m request d c) = cx_approval c"
  by (simp_all add: announce_decision_def ctx_record_def ctx_emit_def sh_record_verdicts)

lemma ask_approval_simps:
  assumes "ask_approval m request c = Some (approved, c')"
  shows "cx_events c' = cx_events c"
    and "map verdict_of (cx_audit c') =
      map verdict_of (cx_audit c) @ [(AuditApproval, Some (if approved then ''approved'' else ''rejected''))]"
    and "\<exists>w w'. cx_approval c request w = Some (approved, w')"
  using assms
  by (auto simp: ask_approval_def announce_approval_def ctx_record_def sh_record_verdicts split: option.splits)

lemma authorize_cases:
  assumes "authorize m node_type permissions dangerous input c = Some (r, c')"
  obtains (allow) "cx_policy c (request_of c node_type permissions dangerous input) = Allow" "r = Inr Allow"
      "c' = announce_decision m (request_of c node_type permissions dangerous input) Allow c"
    | (deny) reason where "cx_policy c (request_of c node_type permissions dangerous input) = Deny reason"
      "r = Inl (PermissionDenied node_type reason)"
      "c' = announce_decision m (request_of c node_type permissions dangerous input) (Deny reason) c"
    | (ask) reason approved where
      "cx_policy c (request_of c node_type permissions dangerous input) = RequireApproval reason"
      "ask_approval m (request_of c node_type permissions dangerous input)
         (announce_decision m (request_of c node_type permissions dangerous input) (RequireApproval reason) c) =
         Some (approved, c')"
      "r = (if approved then Inr Allow else Inl (PermissionDenied node_type reason))"
proof (cases "cx_policy c (request_of c node_type permissions dangerous input)")
  case Allow
  with assms that(1) show ?thesis by (simp add: authorize_def Let_def)
next
  case (Deny reason)
  with assms that(2) show ?thesis by (simp add: authorize_def Let_def denied_def)
next
  case (RequireApproval reason)
  with assms that(3) show ?thesis
    by (auto simp: authorize_def Let_def denied_def split: option.splits bool.splits)
qed

section \<open>Properties\<close>

text \<open>C6. Authorisation does what the policy says and records it: the decision is announced by one
  event and one audit record, approval is asked for exactly when the policy requires it and
  its answer is recorded, and the call is permitted exactly when the policy allows it or the
  approver consented. A refusal by the policy is final.\<close>

theorem authorize_correct:
  assumes "authorize m node_type permissions dangerous input c = Some (r, c')"
  shows "let request = request_of c node_type permissions dangerous input; decision = cx_policy c request in
    cx_events c' = cx_events c @ [CapabilityDecision node_type (decision_name decision) (cx_node_id c)] \<and>
    (case decision of
       Allow \<Rightarrow> r = Inr Allow \<and> map verdict_of (cx_audit c') =
         map verdict_of (cx_audit c) @ [(AuditCapabilityEvaluated, Some ''allow'')]
     | Deny reason \<Rightarrow> r = Inl (PermissionDenied node_type reason) \<and> map verdict_of (cx_audit c') =
         map verdict_of (cx_audit c) @ [(AuditCapabilityEvaluated, Some ''deny'')]
     | RequireApproval reason \<Rightarrow> (\<exists>approved w w'.
         cx_approval c request w = Some (approved, w') \<and>
         r = (if approved then Inr Allow else Inl (PermissionDenied node_type reason)) \<and>
         map verdict_of (cx_audit c') = map verdict_of (cx_audit c) @
           [(AuditCapabilityEvaluated, Some ''require_approval''),
            (AuditApproval, Some (if approved then ''approved'' else ''rejected''))]))"
proof -
  let ?request = "request_of c node_type permissions dangerous input"
  have cap: "cr_capability ?request = node_type" by (simp add: request_of_def)
  note announced = announce_decision_simps [of m ?request "cx_policy c ?request" c, unfolded cap]
  from assms show ?thesis
  proof (cases rule: authorize_cases)
    case allow
    then show ?thesis by (simp add: Let_def announced [unfolded allow(1)])
  next
    case (deny reason)
    then show ?thesis by (simp add: Let_def announced [unfolded deny(1)])
  next
    case (ask reason approved)
    note asked = ask_approval_simps [OF ask(2)] and announced = announced [unfolded ask(1)]
    from asked(3) announced(3) obtain w w' where w: "cx_approval c ?request w = Some (approved, w')" by auto
    have events: "cx_events c' = cx_events c @ [CapabilityDecision node_type ''require_approval'' (cx_node_id c)]"
      using asked(1) announced(1) by simp
    have "map verdict_of (cx_audit c') = map verdict_of (cx_audit c) @
        [(AuditCapabilityEvaluated, Some ''require_approval''),
         (AuditApproval, Some (if approved then ''approved'' else ''rejected''))]"
      using asked(2) announced(2) by simp
    then show ?thesis
      unfolding Let_def ask(1) decision.case decision_name.simps
      by (intro conjI exI [of _ approved] exI [of _ w] exI [of _ w'] events w ask(3))
  qed
qed

definition quiet_machine :: "nat machine" where
  "quiet_machine =
     \<lparr>mc_ext = \<lparr>ext_powf = (\<lambda>a b. a), ext_json_text = (\<lambda>_. []), ext_f64_text = (\<lambda>_. []),
        ext_serde_error = (\<lambda>_. [])\<rparr>,
      mc_now_ms = (\<lambda>w. (of_nat w, Suc w)), mc_instant_ns = (\<lambda>w. (w, Suc w)),
      mc_sleep_ms = (\<lambda>ms w. w + unat ms), mc_uuid = (\<lambda>w. (show_nat w, Suc w))\<rparr>"

definition sample_context :: "capability_policy \<Rightarrow> bool \<Rightarrow> nat exec_context" where
  "sample_context policy answer =
     new_context ''run'' ''wf'' [] [] policy (\<lambda>request w. Some (answer, w))
       \<lparr>sh_control = new_control [], sh_bus = new_bus ''run'', sh_audit = [], sh_artifacts = [], sh_world = 0\<rparr>"

lemma authorize_correct_witness:
  "\<exists>r c'. authorize quiet_machine ''windows.Input'' [''input.control''] True JNull (sample_context default_policy False) = Some (r, c') \<and>
     map verdict_of (cx_audit c') =
       [(AuditCapabilityEvaluated, Some ''require_approval''), (AuditApproval, Some ''rejected'')]"
proof -
  let ?c = "sample_context default_policy False"
  obtain r c' where run: "authorize quiet_machine ''windows.Input'' [''input.control''] True JNull ?c = Some (r, c')"
    by (simp add: authorize_def ask_approval_def Let_def sample_context_def new_context_def default_policy_def
        request_of_def announce_decision_def ctx_record_def ctx_emit_def on_shared_def)
  have policy: "cx_policy ?c = default_policy" "cx_approval ?c = (\<lambda>request w. Some (False, w))" "cx_audit ?c = []"
    by (simp_all add: sample_context_def new_context_def)
  from authorize_correct [OF run] have "map verdict_of (cx_audit c') =
      [(AuditCapabilityEvaluated, Some ''require_approval''), (AuditApproval, Some ''rejected'')]"
    by (auto simp: Let_def policy default_policy_def request_of_def)
  with run show ?thesis by (intro exI conjI)
qed

end
