(* ===== verification/Nodara_Registry.thy ===== *)
theory Nodara_Registry
  imports Nodara_Context
begin

text \<open>
  The capability registry (\<open>registry.rs\<close>): executors and descriptors by node type. A
  \<open>HashMap\<close> of the code is the sorted map here; no operation depends on its order, because
  the listings sort.
\<close>

record 'w registry =
  rg_executors :: "'w node_executor omap"
  rg_descriptors :: "node_descriptor omap"

definition new_registry :: "'w registry" where
  "new_registry = \<lparr>rg_executors = om_empty, rg_descriptors = om_empty\<rparr>"

definition register_executor :: "'w node_executor \<Rightarrow> 'w registry \<Rightarrow> 'w registry" where
  "register_executor ex r =
     (let d = ex_descriptor ex in
      r\<lparr>rg_descriptors := om_insert (d_node_type d) d (rg_descriptors r),
        rg_executors := om_insert (d_node_type d) ex (rg_executors r)\<rparr>)"

definition register_descriptor :: "node_descriptor \<Rightarrow> 'w registry \<Rightarrow> 'w registry" where
  "register_descriptor d r = r\<lparr>rg_descriptors := om_insert (d_node_type d) d (rg_descriptors r)\<rparr>"

definition registry_get :: "'w registry \<Rightarrow> string \<Rightarrow> 'w node_executor option" where
  "registry_get r node_type = om_get (rg_executors r) node_type"

definition registry_descriptor :: "'w registry \<Rightarrow> string \<Rightarrow> node_descriptor option" where
  "registry_descriptor r node_type = om_get (rg_descriptors r) node_type"

definition registry_node_types :: "'w registry \<Rightarrow> string list" where
  "registry_node_types r = sort (om_keys (rg_descriptors r))"

definition registry_descriptors :: "'w registry \<Rightarrow> node_descriptor list" where
  "registry_descriptors r = sort_key d_node_type (map snd (rg_descriptors r))"

definition can_execute :: "'w registry \<Rightarrow> string \<Rightarrow> bool" where
  "can_execute r node_type = om_has (rg_executors r) node_type"

definition registry_len :: "'w registry \<Rightarrow> nat" where
  "registry_len r = length (rg_descriptors r)"

definition registry_is_empty :: "'w registry \<Rightarrow> bool" where
  "registry_is_empty r = (rg_descriptors r = [])"

section \<open>The invariant\<close>

text \<open>Every executor is filed under the type its descriptor names, and every type that can be
  executed has a descriptor of that type.\<close>

definition registry_ok :: "'w registry \<Rightarrow> bool" where
  "registry_ok r \<longleftrightarrow>
     om_ok (rg_executors r) \<and> om_ok (rg_descriptors r) \<and>
     (\<forall>t ex. om_get (rg_executors r) t = Some ex \<longrightarrow> d_node_type (ex_descriptor ex) = t) \<and>
     (\<forall>t d. om_get (rg_descriptors r) t = Some d \<longrightarrow> d_node_type d = t) \<and>
     (\<forall>t. om_has (rg_executors r) t \<longrightarrow> om_has (rg_descriptors r) t)"

lemma registry_ok_new [simp]: "registry_ok new_registry"
  by (simp add: registry_ok_def new_registry_def om_has_def om_empty_def)

lemma registry_ok_register [simp]: "registry_ok r \<Longrightarrow> registry_ok (register_executor ex r)"
  by (auto simp: registry_ok_def register_executor_def om_has_def Let_def)

lemma registry_ok_register_descriptor [simp]: "registry_ok r \<Longrightarrow> registry_ok (register_descriptor d r)"
  by (auto simp: registry_ok_def register_descriptor_def om_has_def)

lemma registry_get_register:
  "registry_get (register_executor ex r) t =
     (if t = d_node_type (ex_descriptor ex) then Some ex else registry_get r t)"
  by (simp add: registry_get_def register_executor_def Let_def)

lemma registry_descriptor_register:
  "registry_descriptor (register_executor ex r) t =
     (if t = d_node_type (ex_descriptor ex) then Some (ex_descriptor ex) else registry_descriptor r t)"
  by (simp add: registry_descriptor_def register_executor_def Let_def)

lemma registry_node_types_sorted:
  "registry_ok r \<Longrightarrow> registry_node_types r = map fst (rg_descriptors r)"
  by (simp add: registry_node_types_def om_keys_def registry_ok_def om_ok_def strict_sorted_iff sort_key_id_if_sorted)

end
