(* ===== verification/Nodara_Builtin.thy ===== *)
theory Nodara_Builtin
  imports Nodara_Registry Nodara_Expr_Spec
begin

text \<open>
  The built-in node types (\<open>builtin.rs\<close>): the descriptor and the executor of each, and their
  registration. \<open>serde_json::from_value\<close> of the two configuration structs is written out:
  the derived decoder takes an object with the named fields or an array with the fields in
  order. The text of a decoding error is the library's (\<open>ext_serde_error\<close>).
\<close>

section \<open>Schema helpers\<close>

abbreviation jobj :: "(string \<times> json) list \<Rightarrow> json" where
  "jobj kvs \<equiv> JObj (om_of_list kvs)"

definition config_schema :: "json \<Rightarrow> string list \<Rightarrow> json" where
  "config_schema properties required =
     jobj [(''type'', JStr ''object''), (''properties'', properties),
           (''required'', JArr (map JStr required)), (''additionalProperties'', JBool False)]"

definition port :: "string \<Rightarrow> string \<Rightarrow> port_kind \<Rightarrow> value_type \<Rightarrow> bool \<Rightarrow> port_descriptor" where
  "port name display kind ty required = port_required (new_port name display kind ty) required"

definition jint :: "int \<Rightarrow> json" where
  "jint i = JNum (num_of_i64 i)"

section \<open>Start and End\<close>

definition start_descriptor :: node_descriptor where
  "start_descriptor =
     (descriptor_with_description (new_descriptor ''core.Start'' ''Start'' ''Core'') ''Entry point of the workflow'')
     \<lparr>d_outputs := [port ''out'' ''Out'' OutputPort AnyType False],
      d_config_schema := config_schema (jobj []) [],
      d_allows_additional_config := False\<rparr>"

definition start_execute :: "'w execute" where
  "start_execute input c = Some (Inr (with_output new_output ''out'' JNull), c)"

definition end_descriptor :: node_descriptor where
  "end_descriptor =
     (descriptor_with_description (new_descriptor ''core.End'' ''End'' ''Core'') ''Terminates the workflow'')
     \<lparr>d_inputs := [port ''in'' ''In'' InputPort AnyType False],
      d_config_schema := config_schema
        (jobj [(''code'', jobj
           [(''type'', JStr ''integer''), (''title'', JStr ''Exit code''),
            (''description'', JStr ''Process exit code reported by the runtime when the workflow finishes.''),
            (''default'', jint 0)])]) [],
      d_allows_additional_config := False\<rparr>"

definition end_execute :: "'w execute" where
  "end_execute input c = Some (Inr new_output, c)"

section \<open>Log\<close>

definition log_descriptor :: node_descriptor where
  "log_descriptor =
     (descriptor_with_description (new_descriptor ''core.Log'' ''Log'' ''Core'') ''Writes a message to the run log'')
     \<lparr>d_inputs := [port ''in'' ''In'' InputPort AnyType False],
      d_outputs := [port ''out'' ''Out'' OutputPort StringType False],
      d_config_schema := config_schema
        (jobj
          [(''message'', jobj
             [(''type'', JStr ''string''), (''title'', JStr ''Message''),
              (''description'', JStr ''Message template; supports `{{variable}}` interpolation.''),
              (''examples'', JArr [JStr ''Hello, {{name}}!''])]),
           (''level'', jobj
             [(''type'', JStr ''string''), (''title'', JStr ''Level''),
              (''description'', JStr ''Log severity. Defaults to `info`.''),
              (''enum'', JArr [JStr ''debug'', JStr ''info'', JStr ''warn'', JStr ''error'']),
              (''default'', JStr ''info'')])])
        [''message''],
      d_allows_additional_config := False\<rparr>"

definition log_level_of :: "string option \<Rightarrow> log_level" where
  "log_level_of level =
     (let name = (case level of None \<Rightarrow> ''info'' | Some l \<Rightarrow> l) in
      if name = ''debug'' then Debug
      else if name = ''warn'' then Warn
      else if name = ''error'' then Error
      else Info)"

definition log_execute :: "'w machine \<Rightarrow> 'w execute" where
  "log_execute m input c =
     (let i = with_input_fallback (with_input_object_fallback input ''in'') ''in'' ''message'' in
      case require_str i ''message'' of
        Inl e \<Rightarrow> Some (Inl e, c)
      | Inr message \<Rightarrow>
          Some (Inr (with_output new_output ''out'' (JStr message)),
                ctx_log m (log_level_of (config_str i ''level'')) message c))"

section \<open>Calculate\<close>

definition two_to_53 :: f64 where
  "two_to_53 = Fin 9007199254740992"

text \<open>Integral results within the exact range become integers, other finite ones floats.\<close>

definition number_value :: "f64 \<Rightarrow> json" where
  "number_value v =
     (if \<not> is_finite v then JNull
      else if has_no_fract v \<and> fle (fabs v) two_to_53 then JNum (num_of_i64 (f64_as_i64 v))
      else (case num_of_f64 v of Some n \<Rightarrow> JNum n | None \<Rightarrow> JNull))"

definition calculate_descriptor :: node_descriptor where
  "calculate_descriptor =
     (descriptor_with_description (new_descriptor ''core.Calculate'' ''Calculate'' ''Core'') ''Evaluates a numeric expression'')
     \<lparr>d_inputs := [port ''in'' ''In'' InputPort AnyType False],
      d_outputs := [port ''result'' ''Result'' OutputPort NumberType False],
      d_config_schema := config_schema
        (jobj
          [(''expression'', jobj
             [(''type'', JStr ''string''), (''title'', JStr ''Expression''),
              (''description'', JStr (''Arithmetic and comparison expression evaluated against the run scope. Supports '' @
                 ''`+`, `-`, `*`, `/`, `%`, `^`, comparisons and `&&`/`||`.'')),
              (''examples'', JArr [JStr ''2 + 2 * 3'', JStr ''{{price}} * {{quantity}}''])]),
           (''output_var'', jobj
             [(''type'', JStr ''string''), (''title'', JStr ''Output variable''),
              (''description'', JStr ''Variable the result is published under.''),
              (''examples'', JArr [JStr ''answer''])])])
        [''expression'', ''output_var''],
      d_allows_additional_config := False\<rparr>"

definition calculate_execute :: "'w machine \<Rightarrow> 'w execute" where
  "calculate_execute m input c =
     (case require_str input ''expression'' of
        Inl e \<Rightarrow> Some (Inl e, c)
      | Inr expression \<Rightarrow>
     (case require_str input ''output_var'' of
        Inl e \<Rightarrow> Some (Inl e, c)
      | Inr output_var \<Rightarrow>
     (case evaluate_expression (mc_ext m) expression (cx_variables c) of
        Inl e \<Rightarrow> Some (Inl (InvalidConfig (''`'' @ expression @ ''`: '' @ expr_error_text e)), c)
      | Inr v \<Rightarrow>
          Some (Inr (with_output new_output ''result'' (number_value v)),
                set_variable output_var (number_value v) c))))"

section \<open>Calculate many\<close>

record named_expression =
  ne_name :: string
  ne_expression :: string

record calculate_many_config =
  cm_expressions :: "named_expression list"
  cm_variables :: jobject
  cm_output_var :: "string option"

text \<open>A list of optional values, all present.\<close>

fun all_some :: "'a option list \<Rightarrow> 'a list option" where
  "all_some [] = Some []"
| "all_some (None # vs) = None"
| "all_some (Some v # vs) = map_option ((#) v) (all_some vs)"

fun decode_named_expression :: "json \<Rightarrow> named_expression option" where
  "decode_named_expression (JObj m) =
     (case (Option.bind (om_get m ''name'') as_str, Option.bind (om_get m ''expression'') as_str) of
        (Some name, Some expression) \<Rightarrow> Some \<lparr>ne_name = name, ne_expression = expression\<rparr>
      | _ \<Rightarrow> None)"
| "decode_named_expression (JArr [JStr name, JStr expression]) =
     Some \<lparr>ne_name = name, ne_expression = expression\<rparr>"
| "decode_named_expression _ = None"

definition decode_expressions :: "json \<Rightarrow> named_expression list option" where
  "decode_expressions v = Option.bind (as_array v) (\<lambda>vs. all_some (map decode_named_expression vs))"

text \<open>A field that may be missing: the default, or the decoded value.\<close>

definition decode_default :: "'a \<Rightarrow> (json \<Rightarrow> 'a option) \<Rightarrow> json option \<Rightarrow> 'a option" where
  "decode_default d decode v = (case v of None \<Rightarrow> Some d | Some j \<Rightarrow> decode j)"

fun decode_optional_string :: "json \<Rightarrow> string option option" where
  "decode_optional_string JNull = Some None"
| "decode_optional_string (JStr s) = Some (Some s)"
| "decode_optional_string _ = None"

definition decode_many_fields :: "json option \<Rightarrow> json option \<Rightarrow> json option \<Rightarrow> calculate_many_config option" where
  "decode_many_fields expressions vars output_var =
     (case (Option.bind expressions decode_expressions, decode_default om_empty as_object vars,
            decode_default None decode_optional_string output_var) of
        (Some es, Some vs, Some out) \<Rightarrow> Some \<lparr>cm_expressions = es, cm_variables = vs, cm_output_var = out\<rparr>
      | _ \<Rightarrow> None)"

fun decode_calculate_many :: "json \<Rightarrow> calculate_many_config option" where
  "decode_calculate_many (JObj m) =
     decode_many_fields (om_get m ''expressions'') (om_get m ''variables'') (om_get m ''output_var'')"
| "decode_calculate_many (JArr [es]) = decode_many_fields (Some es) None None"
| "decode_calculate_many (JArr [es, vs]) = decode_many_fields (Some es) (Some vs) None"
| "decode_calculate_many (JArr [es, vs, out]) = decode_many_fields (Some es) (Some vs) (Some out)"
| "decode_calculate_many _ = None"

text \<open>The loop over the expressions: the scope, the results and the names seen so far.\<close>

fun calculate_many_loop ::
    "externs \<Rightarrow> named_expression list \<Rightarrow> jobject \<Rightarrow> jobject \<Rightarrow> string list \<Rightarrow> 'w exec_context
       \<Rightarrow> (node_error, jobject) result \<times> 'w exec_context" where
  "calculate_many_loop x [] scope results seen c = (Inr results, c)"
| "calculate_many_loop x (e # es) scope results seen c =
     (let name = trim (ne_name e) in
      if name = [] then (Inl (InvalidConfig ''expression names must not be empty''), c)
      else if name \<in> set seen then (Inl (InvalidConfig (''duplicate expression name `'' @ name @ ''`'')), c)
      else (case evaluate_expression x (trim (ne_expression e)) scope of
              Inl err \<Rightarrow> (Inl (InvalidConfig (''`'' @ ne_expression e @ ''`: '' @ expr_error_text err)), c)
            | Inr v \<Rightarrow>
                let number = number_value v in
                calculate_many_loop x es (om_insert name number scope) (om_insert name number results)
                  (name # seen) (set_variable name number c)))"

definition calculate_many_execute :: "'w machine \<Rightarrow> 'w execute" where
  "calculate_many_execute m input c =
     (case decode_calculate_many (ni_resolved_config input) of
        None \<Rightarrow>
          Some (Inl (InvalidConfig (''invalid calculate config: '' @
            ext_serde_error (mc_ext m) (ni_resolved_config input))), c)
      | Some config \<Rightarrow>
          if cm_expressions config = []
          then Some (Inl (InvalidConfig ''`expressions` must contain at least one entry''), c)
          else (case calculate_many_loop (mc_ext m) (cm_expressions config)
                       (om_extend (cx_variables c) (cm_variables config)) om_empty [] c of
                  (Inl e, c1) \<Rightarrow> Some (Inl e, c1)
                | (Inr results, c1) \<Rightarrow>
                    Some (Inr (with_output new_output ''out'' (JObj results)),
                      (case cm_output_var config of
                         Some name \<Rightarrow> if trim name \<noteq> [] then set_variable name (JObj results) c1 else c1
                       | None \<Rightarrow> c1))))"

definition named_expression_schema :: json where
  "named_expression_schema =
     jobj [(''type'', JStr ''object''),
       (''properties'', jobj
         [(''name'', jobj
            [(''type'', JStr ''string''), (''title'', JStr ''Name''),
             (''description'', JStr ''Variable name for this result.'')]),
          (''expression'', jobj
            [(''type'', JStr ''string''), (''title'', JStr ''Expression''),
             (''description'', JStr ''Arithmetic expression; may read run-scope variables and earlier results.'')])]),
       (''required'', JArr [JStr ''name'', JStr ''expression'']),
       (''additionalProperties'', JBool False)]"

definition calculate_many_descriptor :: node_descriptor where
  "calculate_many_descriptor =
     (descriptor_with_description (new_descriptor ''core.CalculateMany'' ''Calculate Many'' ''Core'')
        ''Evaluates several named expressions in order'')
     \<lparr>d_inputs := [port ''in'' ''In'' InputPort AnyType False],
      d_outputs := [port ''out'' ''Results'' OutputPort ObjectType False],
      d_config_schema := jobj
        [(''type'', JStr ''object''),
         (''properties'', jobj
           [(''expressions'', jobj
              [(''type'', JStr ''array''), (''title'', JStr ''Expressions''),
               (''description'', JStr (''Named expressions evaluated in order. Each result is published '' @
                  ''before the next expression is evaluated.'')),
               (''minItems'', jint 1), (''items'', named_expression_schema)]),
            (''variables'', jobj
              [(''type'', JStr ''object''), (''title'', JStr ''Seed variables''),
               (''description'', JStr ''Optional numeric values available only while evaluating this node.''),
               (''additionalProperties'', JBool True)]),
            (''output_var'', jobj
              [(''type'', JStr ''string''), (''title'', JStr ''Output variable''),
               (''description'', JStr ''Optional variable receiving the complete result object.'')])]),
         (''required'', JArr [JStr ''expressions'']),
         (''additionalProperties'', JBool False)],
      d_allows_additional_config := False\<rparr>"

section \<open>Delay\<close>

definition delay_descriptor :: node_descriptor where
  "delay_descriptor =
     (descriptor_with_description (new_descriptor ''system.Delay'' ''Delay'' ''System'') ''Waits for a fixed duration'')
     \<lparr>d_inputs := [port ''in'' ''In'' InputPort AnyType False],
      d_outputs := [port ''out'' ''Out'' OutputPort AnyType False],
      d_config_schema := config_schema
        (jobj [(''duration_ms'', jobj
           [(''type'', JStr ''integer''), (''title'', JStr ''Duration (ms)''), (''minimum'', jint 0),
            (''default'', jint 0),
            (''description'', JStr ''How long to wait, in milliseconds. Cancellation is observed while waiting.'')])])
        [''duration_ms''],
      d_allows_additional_config := False\<rparr>"

text \<open>Sleep in slices of at most 25 ms, looking for cancellation before each.\<close>

function delay_loop :: "'w machine \<Rightarrow> u64 \<Rightarrow> 'w exec_context \<Rightarrow> (node_error, unit) result \<times> 'w exec_context" where
  "delay_loop m remaining c =
     (if remaining = 0 then (Inr (), c)
      else (case check_cancelled c of
              (Inl e, c1) \<Rightarrow> (Inl e, c1)
            | (Inr _, c1) \<Rightarrow>
                let slice = min remaining 25
                in delay_loop m (remaining - slice) (on_shared (sh_sleep m slice) c1)))"
  by pat_completeness auto
termination
  by (relation "measure (\<lambda>(m, remaining, c). unat remaining)") (auto simp: slice_decreases)

declare delay_loop.simps [simp del]

definition delay_execute :: "'w machine \<Rightarrow> 'w execute" where
  "delay_execute m input c =
     (let i = with_input_fallback (with_input_object_fallback input ''in'') ''in'' ''duration_ms'' in
      case require_i64 i ''duration_ms'' of
        Inl e \<Rightarrow> Some (Inl e, c)
      | Inr duration \<Rightarrow>
          let total_ms = (word_of_int (max duration 0) :: u64) in
          (case delay_loop m total_ms c of
             (Inl e, c1) \<Rightarrow> Some (Inl e, c1)
           | (Inr _, c1) \<Rightarrow> Some (Inr (with_output new_output ''out'' (JNum (PosInt total_ms))), c1)))"

section \<open>Set variable\<close>

definition set_variable_descriptor :: node_descriptor where
  "set_variable_descriptor =
     (descriptor_with_description (new_descriptor ''core.SetVariable'' ''Set Variable'' ''Core'')
        ''Publishes a value into the run scope'')
     \<lparr>d_inputs := [port ''in'' ''In'' InputPort AnyType False],
      d_outputs := [port ''out'' ''Out'' OutputPort AnyType False],
      d_config_schema := jobj
        [(''type'', JStr ''object''),
         (''properties'', jobj
           [(''name'', jobj
              [(''type'', JStr ''string''), (''title'', JStr ''Variable name''),
               (''description'', JStr ''Name to publish the value under in the run scope.'')]),
            (''value'', jobj
              [(''title'', JStr ''Value''),
               (''description'', JStr (''Value to store. Strings support `{{variable}}` '' @
                  ''interpolation; any JSON value is accepted.''))])]),
         (''required'', JArr [JStr ''name'']),
         (''additionalProperties'', JBool False)],
      d_allows_additional_config := False\<rparr>"

definition set_variable_execute :: "'w execute" where
  "set_variable_execute input c =
     (let i = with_input_fallback (with_input_object_fallback input ''in'') ''in'' ''value'' in
      case require_str i ''name'' of
        Inl e \<Rightarrow> Some (Inl e, c)
      | Inr name \<Rightarrow>
          let v = (case jget (ni_resolved_config i) ''value'' of Some v \<Rightarrow> v | None \<Rightarrow> JNull) in
          Some (Inr (with_output new_output ''out'' v), set_variable name v c))"

section \<open>Registration\<close>

definition builtins :: "'w machine \<Rightarrow> 'w node_executor list" where
  "builtins m =
     [\<lparr>ex_descriptor = start_descriptor, ex_execute = start_execute\<rparr>,
      \<lparr>ex_descriptor = end_descriptor, ex_execute = end_execute\<rparr>,
      \<lparr>ex_descriptor = log_descriptor, ex_execute = log_execute m\<rparr>,
      \<lparr>ex_descriptor = calculate_descriptor, ex_execute = calculate_execute m\<rparr>,
      \<lparr>ex_descriptor = calculate_many_descriptor, ex_execute = calculate_many_execute m\<rparr>,
      \<lparr>ex_descriptor = delay_descriptor, ex_execute = delay_execute m\<rparr>,
      \<lparr>ex_descriptor = set_variable_descriptor, ex_execute = set_variable_execute\<rparr>]"

definition register_builtins :: "'w machine \<Rightarrow> 'w registry \<Rightarrow> 'w registry" where
  "register_builtins m r = fold register_executor (builtins m) r"

section \<open>Built-in nodes keep to the interface and always return\<close>

text \<open>The contract of an executor the engine can rely on.\<close>

locale context_executor =
  fixes m :: "'w machine" and execute :: "'w execute"
  assumes returns: "\<exists>r c'. execute input c = Some (r, c')"
    and steps: "execute input c = Some (r, c') \<Longrightarrow> ctx_reaches m c c'"
begin

lemma respects: "respects_context m execute"
  using steps by (auto simp: respects_context_def)

lemma extends: "execute input c = Some (r, c') \<Longrightarrow> ctx_extends node_event c c'"
  by (rule respects_contextD [OF respects])

end

lemma ctx_reaches_refl [simp]: "ctx_reaches m c c"
  by (simp add: ctx_reaches_def)

lemma ctx_reaches_step: "ctx_step m c c' \<Longrightarrow> ctx_reaches m c c'"
  by (simp add: ctx_reaches_def)

lemma ctx_reaches_trans: "ctx_reaches m a b \<Longrightarrow> ctx_reaches m b c \<Longrightarrow> ctx_reaches m a c"
  by (simp add: ctx_reaches_def)

lemma ctx_reaches_variable [simp]: "ctx_reaches m c (set_variable name v c)"
  by (rule ctx_reaches_step [OF step_variable])

lemma calculate_many_loop_reaches:
  "calculate_many_loop x es scope results seen c = (r, c') \<Longrightarrow> ctx_reaches m c c'"
proof (induction x es scope results seen c rule: calculate_many_loop.induct)
  case (2 x e es scope results seen c)
  then show ?case
    by (auto simp: Let_def split: if_splits sum.splits intro: ctx_reaches_trans [OF ctx_reaches_variable])
qed simp

lemma check_cancelled_reaches: "check_cancelled c = (r, c') \<Longrightarrow> ctx_reaches m c c'"
proof -
  assume "check_cancelled c = (r, c')"
  then have "c' = on_shared (\<lambda>s. s\<lparr>sh_control := lock_control (sh_control s)\<rparr>) c"
    by (auto simp: check_cancelled_def sh_is_cancelled_def is_cancelled_def Let_def on_shared_def)
  then show ?thesis using step_control [of m c lock_control] by (simp add: ctx_reaches_step)
qed

lemma sleep_reaches: "ctx_reaches m c (on_shared (sh_sleep m ms) c)"
proof -
  have "on_shared (sh_sleep m ms) c = on_shared (\<lambda>s. s\<lparr>sh_world := mc_sleep_ms m ms (sh_world (cx_shared c))\<rparr>) c"
    by (simp add: on_shared_def sh_sleep_def)
  then show ?thesis by (simp only: ctx_reaches_step [OF step_world])
qed

lemma delay_loop_reaches: "delay_loop m remaining c = (r, c') \<Longrightarrow> ctx_reaches m c c'"
proof (induction m remaining c rule: delay_loop.induct)
  case (1 m remaining c)
  show ?case
  proof (cases "remaining = 0")
    case True
    with "1.prems" show ?thesis by (simp add: delay_loop.simps)
  next
    case False
    obtain res c1 where check: "check_cancelled c = (res, c1)" by (cases "check_cancelled c")
    have c1: "ctx_reaches m c c1" by (rule check_cancelled_reaches [OF check])
    show ?thesis
    proof (cases res)
      case (Inl e)
      with "1.prems" False check c1 show ?thesis by (simp add: delay_loop.simps)
    next
      case (Inr u)
      with "1.prems" False check have
        "delay_loop m (remaining - min remaining 25) (on_shared (sh_sleep m (min remaining 25)) c1) = (r, c')"
        by (simp add: delay_loop.simps [of m remaining c] Let_def)
      with "1.IH" [OF False check [symmetric, unfolded Inr] refl refl] c1 show ?thesis
        by (blast intro: ctx_reaches_trans sleep_reaches)
    qed
  qed
qed

interpretation start_node: context_executor m start_execute for m
  by unfold_locales (simp_all add: start_execute_def)

interpretation end_node: context_executor m end_execute for m
  by unfold_locales (simp_all add: end_execute_def)

interpretation log_node: context_executor m "log_execute m" for m
  by unfold_locales (auto simp: log_execute_def Let_def split: sum.splits intro: ctx_reaches_step [OF step_log])

interpretation calculate_node: context_executor m "calculate_execute m" for m
  by unfold_locales (auto simp: calculate_execute_def split: sum.splits)

interpretation calculate_many_node: context_executor m "calculate_many_execute m" for m
proof unfold_locales
  fix input and c c' :: "'a exec_context" and r
  show "\<exists>r c'. calculate_many_execute m input c = Some (r, c')"
    by (auto simp: calculate_many_execute_def split: option.splits sum.splits prod.splits)
  show "calculate_many_execute m input c = Some (r, c') \<Longrightarrow> ctx_reaches m c c'"
    by (auto simp: calculate_many_execute_def split: option.splits sum.splits prod.splits if_splits
        dest!: calculate_many_loop_reaches [where m = m] intro: ctx_reaches_trans)
qed

interpretation delay_node: context_executor m "delay_execute m" for m
proof unfold_locales
  fix input and c c' :: "'a exec_context" and r
  show "\<exists>r c'. delay_execute m input c = Some (r, c')"
    by (auto simp: delay_execute_def Let_def split: sum.splits prod.splits)
  show "delay_execute m input c = Some (r, c') \<Longrightarrow> ctx_reaches m c c'"
    by (auto simp: delay_execute_def Let_def split: sum.splits prod.splits dest: delay_loop_reaches)
qed

interpretation set_variable_node: context_executor m set_variable_execute for m
  by unfold_locales (auto simp: set_variable_execute_def Let_def split: sum.splits)

section \<open>Delay\<close>

text \<open>A control no one can cancel any more.\<close>

definition never_cancels :: "run_control \<Rightarrow> bool" where
  "never_cancels ctl =
     (\<not> cf_cancelled (rc_flags ctl) \<and> list_all (list_all (\<lambda>p. p \<noteq> OpCancel)) (rc_inbox ctl))"

lemma apply_control_ops_uncancelled:
  "\<not> cf_cancelled f \<Longrightarrow> list_all (\<lambda>p. p \<noteq> OpCancel) ops \<Longrightarrow> \<not> cf_cancelled (apply_control_ops ops f)"
  unfolding apply_control_ops_def
proof (induction ops arbitrary: f)
  case (Cons p ops)
  then show ?case by (cases p) (simp_all add: pause_flags_def resume_flags_def step_flags_def)
qed simp

lemma never_cancels_lock: "never_cancels ctl \<Longrightarrow> never_cancels (lock_control ctl)"
  by (auto simp: never_cancels_def lock_control_def apply_control_ops_uncancelled split: list.splits)

lemma check_cancelled_never:
  assumes "never_cancels (cx_control c)"
  shows "check_cancelled c = (Inr (), c\<lparr>cx_shared := (cx_shared c)\<lparr>sh_control := lock_control (cx_control c)\<rparr>\<rparr>)"
  using never_cancels_lock [OF assms]
  by (simp add: check_cancelled_def sh_is_cancelled_def is_cancelled_def Let_def never_cancels_def)

definition sleeps_exactly :: "nat machine \<Rightarrow> bool" where
  "sleeps_exactly m \<longleftrightarrow> (\<forall>ms w. mc_sleep_ms m ms w = w + unat ms)"

lemma delay_loop_sleeps:
  "sleeps_exactly m \<Longrightarrow> never_cancels (cx_control c) \<Longrightarrow>
    \<exists>c'. delay_loop m remaining c = (Inr (), c') \<and> never_cancels (cx_control c') \<and>
      sh_world (cx_shared c') = sh_world (cx_shared c) + unat remaining"
proof (induction m remaining c rule: delay_loop.induct)
  case (1 m remaining c)
  show ?case
  proof (cases "remaining = 0")
    case True
    with 1 show ?thesis by (simp add: delay_loop.simps)
  next
    case False
    let ?slice = "min remaining 25"
    let ?c1 = "c\<lparr>cx_shared := (cx_shared c)\<lparr>sh_control := lock_control (cx_control c)\<rparr>\<rparr>"
    let ?c2 = "on_shared (sh_sleep m ?slice) ?c1"
    have check: "check_cancelled c = (Inr (), ?c1)" by (rule check_cancelled_never [OF "1.prems"(2)])
    have quiet: "never_cancels (cx_control ?c2)"
      using never_cancels_lock [OF "1.prems"(2)] by (simp add: sh_sleep_def)
    have world: "sh_world (cx_shared ?c2) = sh_world (cx_shared c) + unat ?slice"
      using "1.prems"(1) by (simp add: sh_sleep_def sleeps_exactly_def)
    have rest: "unat ?slice + unat (remaining - ?slice) = unat remaining"
      by (simp add: unat_sub min_def word_le_nat_alt)
    have unroll: "delay_loop m remaining c = delay_loop m (remaining - ?slice) ?c2"
      using False check by (simp add: delay_loop.simps [of m remaining c] Let_def)
    from "1.IH" [OF False check [symmetric] refl refl "1.prems"(1) quiet] show ?thesis
      unfolding unroll using world rest by auto
  qed
qed

section \<open>Exact integers\<close>

lemma number_value_of_int: "small_int i \<Longrightarrow> number_value (f64_of_int i) = jint i"
proof -
  assume small: "small_int i"
  then have "fabs (f64_of_int i) = f64_of_int \<bar>i\<bar>"
    by (auto simp: f64_of_int_small small_int_def)
  moreover have "two_to_53 = f64_of_int (2 ^ 53)"
    using f64_of_int_small [of "2 ^ 53"] by (simp add: two_to_53_def small_int_def)
  moreover have "fle (f64_of_int \<bar>i\<bar>) (f64_of_int (2 ^ 53))"
    using small by (simp add: fle_def flt_of_int feq_of_int small_int_def le_less)
  ultimately show ?thesis
    using small f64_as_i64_of_int [OF small]
    by (auto simp: number_value_def jint_def f64_of_int_small trunc_rat_def)
qed

lemma jint_as_f64: "small_int i \<Longrightarrow> as_f64 (jint i) = Some (f64_of_int i)"
  by (simp add: jint_def num_of_i64_as_f64 small_int_def i64_min_def i64_max_def)

section \<open>Properties\<close>

text \<open>Every built-in executor returns, whatever its input and context, and acts on the context
  only through its operations; so every event it causes is a log line, a progress report or
  a capability decision, and the identity, secrets and policy of the run stay as they were.\<close>

theorem builtins_keep_the_contract:
  "list_all (\<lambda>ex. (\<exists>r c'. ex_execute ex input c = Some (r, c') \<and> ctx_extends node_event c c') \<and>
     respects_context m (ex_execute ex)) (builtins m)"
proof -
  have ok: "(\<exists>r c'. execute input c = Some (r, c') \<and> ctx_extends node_event c c') \<and> respects_context m execute"
    if "context_executor m execute" for execute
    using context_executor.returns [OF that, of input c] context_executor.extends [OF that, of input c]
      context_executor.respects [OF that] by blast
  show ?thesis
    by (simp add: builtins_def ok start_node.context_executor_axioms end_node.context_executor_axioms
        log_node.context_executor_axioms calculate_node.context_executor_axioms
        calculate_many_node.context_executor_axioms delay_node.context_executor_axioms
        set_variable_node.context_executor_axioms)
qed

text \<open>\<open>system.Delay\<close> waits exactly as long as it is asked to: on a machine whose sleeps are
  exact and with no cancellation to come it returns after \<open>duration_ms\<close> milliseconds of
  sleep in all and reports that number; a negative duration is no wait.\<close>

theorem delay_waits_exactly:
  assumes "sleeps_exactly m" "never_cancels (cx_control c)"
    and "jget (ni_resolved_config input) ''duration_ms'' = Some (jint d)" "i64_min \<le> d" "d \<le> i64_max"
  shows "\<exists>c'. delay_execute m input c =
      Some (Inr (with_output new_output ''out'' (JNum (PosInt (word_of_int (max d 0))))), c') \<and>
    sh_world (cx_shared c') = sh_world (cx_shared c) + nat d"
proof -
  have config: "require_i64 (with_input_fallback (with_input_object_fallback input ''in'') ''in'' ''duration_ms'') ''duration_ms'' = Inr d"
    using assms(3-5)
    by (simp add: require_i64_def config_i64_def jget_input_fallback jget_object_fallback jint_def num_of_i64_as_i64)
  have "unat (word_of_int (max d 0) :: u64) = nat d"
  proof -
    have "uint (word_of_int (max d 0) :: u64) = max d 0"
      using assms(5) by (simp add: uint_word_of_int i64_max_def)
    then show ?thesis by (metis nat_uint_eq max_def nat_0_le nat_le_0 nat_zero_as_int nle_le)
  qed
  moreover obtain c' where "delay_loop m (word_of_int (max d 0)) c = (Inr (), c')"
    "sh_world (cx_shared c') = sh_world (cx_shared c) + unat (word_of_int (max d 0) :: u64)"
    using delay_loop_sleeps [OF assms(1,2)] by blast
  ultimately show ?thesis by (simp add: delay_execute_def config Let_def)
qed

text \<open>Integer arithmetic in \<open>core.Calculate\<close> is exact up to \<open>2^53\<close>: with integer variables
  \<open>a\<close> and \<open>b\<close>, the node publishes their sum as a JSON integer, with no rounding and no
  change to a float.\<close>

theorem calculate_adds_exactly:
  assumes "config_str input ''expression'' = Some ''(a + b)''" "config_str input ''output_var'' = Some out"
    and "om_get (cx_variables c) ''a'' = Some (jint i)" "om_get (cx_variables c) ''b'' = Some (jint j)"
    and "small_int i" "small_int j" "small_int (i + j)"
  shows "calculate_execute m input c =
    Some (Inr (with_output new_output ''result'' (jint (i + j))), set_variable out (jint (i + j)) c)"
proof -
  have parts: "trim ''(a + b)'' = ''(a + b)''"
    "lex ''(a + b)'' = Inr (tokens_of (Binary Add (Var ''a'') (Var ''b'')))"
    "split_dots ''a'' = [''a'']" "split_dots ''b'' = [''b'']" by code_simp+
  have vars: "ident_value (cx_variables c) ''a'' = Inr (f64_of_int i)"
    "ident_value (cx_variables c) ''b'' = Inr (f64_of_int j)"
    using assms(3-6) by (simp_all add: ident_value_def resolve_def parts jint_as_f64)
  have "eval (mc_ext m) (cx_variables c) (Binary Add (Var ''a'') (Var ''b'')) = Inr (f64_of_int (i + j))"
    by (simp add: vars apply_binary_def op_tables fadd_of_int assms)
  moreover have "evaluate_tokens (mc_ext m) (cx_variables c) (tokens_of (Binary Add (Var ''a'') (Var ''b''))) =
      Some (eval (mc_ext m) (cx_variables c) (Binary Add (Var ''a'') (Var ''b'')))"
    by (rule evaluate_tokens_of) (simp_all add: max_depth_def)
  ultimately have "evaluate_expression (mc_ext m) ''(a + b)'' (cx_variables c) = Inr (f64_of_int (i + j))"
    by (simp add: evaluate_expression_def parts del: eval.simps tokens_of.simps lex.simps)
  then show ?thesis
    using assms(1,2) by (simp add: calculate_execute_def require_str_def number_value_of_int assms(7))
qed

definition sum_input :: node_input where
  "sum_input =
     \<lparr>ni_node_id = ''n'', ni_node_type = ''core.Calculate'', ni_config = JNull,
      ni_resolved_config = jobj [(''expression'', JStr ''(a + b)''), (''output_var'', JStr ''s'')],
      ni_inputs = [], ni_timeout_ms = None\<rparr>"

lemma calculate_adds_exactly_witness:
  "\<exists>c'. calculate_execute quiet_machine sum_input
      (set_variable ''a'' (jint 2) (set_variable ''b'' (jint 40) (sample_context default_policy True))) =
    Some (Inr (with_output new_output ''result'' (jint 42)), c')"
proof -
  let ?c = "set_variable ''a'' (jint 2) (set_variable ''b'' (jint 40) (sample_context default_policy True))"
  have "config_str sum_input ''expression'' = Some ''(a + b)''" "config_str sum_input ''output_var'' = Some ''s''"
    by (simp_all add: sum_input_def config_str_def om_of_list_def om_extend_def om_empty_def)
  moreover have "om_get (cx_variables ?c) ''a'' = Some (jint 2)" "om_get (cx_variables ?c) ''b'' = Some (jint 40)"
    by (simp_all add: set_variable_def)
  moreover have "small_int 2" "small_int 40" "small_int (2 + 40)" by (simp_all add: small_int_def)
  ultimately show ?thesis
    using calculate_adds_exactly [of sum_input "''s''" ?c 2 40 quiet_machine] by auto
qed

lemma delay_waits_exactly_witness:
  "\<exists>c'. delay_execute quiet_machine (sum_input\<lparr>ni_resolved_config := jobj [(''duration_ms'', jint 60)]\<rparr>)
      (sample_context default_policy True) =
      Some (Inr (with_output new_output ''out'' (JNum (PosInt 60))), c') \<and> sh_world (cx_shared c') = 60"
proof -
  let ?i = "sum_input\<lparr>ni_resolved_config := jobj [(''duration_ms'', jint 60)]\<rparr>"
  let ?c = "sample_context default_policy True"
  have "sleeps_exactly quiet_machine" by (simp add: sleeps_exactly_def quiet_machine_def)
  moreover have "never_cancels (cx_control ?c)" "sh_world (cx_shared ?c) = 0"
    by (simp_all add: sample_context_def new_context_def new_control_def new_flags_def never_cancels_def)
  moreover have "jget (ni_resolved_config ?i) ''duration_ms'' = Some (jint 60)"
    by (simp add: om_of_list_def om_extend_def om_empty_def)
  moreover have "i64_min \<le> 60" "60 \<le> i64_max" by (simp_all add: i64_min_def i64_max_def)
  ultimately show ?thesis
    using delay_waits_exactly [of quiet_machine ?c ?i 60] by auto
qed

end
