(* ===== verification/Nodara_Validation.thy ===== *)
theory Nodara_Validation
  imports Nodara_Topology Nodara_Template Nodara_Expr
begin

text \<open>
  Workflow validation (\<open>validation.rs\<close>): diagnostics, reports, options and the checks in the
  order of \<open>validate_with_options\<close>. Each check is a definition that returns the diagnostics it
  pushes; the report is their concatenation. A set of names already seen is a list.
\<close>

section \<open>Diagnostics\<close>

datatype severity = InfoSeverity | WarningSeverity | ErrorSeverity

record diagnostic =
  dg_severity :: severity
  dg_code :: string
  dg_message :: string
  dg_path :: string
  dg_node_id :: "string option"
  dg_edge_id :: "string option"
  dg_hint :: "string option"

definition new_diagnostic :: "severity \<Rightarrow> string \<Rightarrow> string \<Rightarrow> string \<Rightarrow> diagnostic" where
  "new_diagnostic severity code message path =
     \<lparr>dg_severity = severity, dg_code = code, dg_message = message, dg_path = path,
      dg_node_id = None, dg_edge_id = None, dg_hint = None\<rparr>"

definition about_node :: "string \<Rightarrow> diagnostic \<Rightarrow> diagnostic" where
  "about_node nid d = d\<lparr>dg_node_id := Some nid\<rparr>"

definition about_edge :: "string \<Rightarrow> diagnostic \<Rightarrow> diagnostic" where
  "about_edge eid d = d\<lparr>dg_edge_id := Some eid\<rparr>"

definition with_hint :: "string \<Rightarrow> diagnostic \<Rightarrow> diagnostic" where
  "with_hint hint d = d\<lparr>dg_hint := Some hint\<rparr>"

record validation_options =
  vo_reject_cycles :: bool
  vo_require_start :: bool
  vo_require_end :: bool
  vo_warn_unreachable :: bool
  vo_warn_dead_end :: bool
  vo_check_variable_references :: bool

definition default_validation_options :: validation_options where
  "default_validation_options =
     \<lparr>vo_reject_cycles = True, vo_require_start = True, vo_require_end = True,
      vo_warn_unreachable = True, vo_warn_dead_end = True, vo_check_variable_references = True\<rparr>"

type_synonym report = "diagnostic list"

definition report_push :: "report \<Rightarrow> diagnostic \<Rightarrow> report" where
  "report_push r d = r @ [d]"

definition report_errors :: "report \<Rightarrow> diagnostic list" where
  "report_errors r = filter (\<lambda>d. dg_severity d = ErrorSeverity) r"

definition report_warnings :: "report \<Rightarrow> diagnostic list" where
  "report_warnings r = filter (\<lambda>d. dg_severity d = WarningSeverity) r"

definition error_count :: "report \<Rightarrow> nat" where
  "error_count r = length (report_errors r)"

definition warning_count :: "report \<Rightarrow> nat" where
  "warning_count r = length (report_warnings r)"

definition is_valid :: "report \<Rightarrow> bool" where
  "is_valid r = (error_count r = 0)"

definition report_extend :: "report \<Rightarrow> report \<Rightarrow> report" where
  "report_extend r other = r @ other"

record node_type_index =
  ix_node_types :: "string list"
  ix_descriptor :: "string \<Rightarrow> node_descriptor option"

definition diag_error :: "string \<Rightarrow> string \<Rightarrow> string \<Rightarrow> diagnostic" where
  "diag_error code message path = new_diagnostic ErrorSeverity code message path"

definition diag_warning :: "string \<Rightarrow> string \<Rightarrow> string \<Rightarrow> diagnostic" where
  "diag_warning code message path = new_diagnostic WarningSeverity code message path"

section \<open>Document and node checks\<close>

definition check_schema_version :: "workflow \<Rightarrow> report" where
  "check_schema_version w =
     (if \<not> is_compatible_schema_version (w_schema_version w)
      then [with_hint ''run `nodara-cli migrate` to upgrade a legacy document''
        (diag_error ''WF100''
          (''unsupported schema_version `'' @ w_schema_version w @ ''` (this build supports '' @ schema_version @ '')'')
          ''/schema_version'')]
      else if w_schema_version w \<noteq> schema_version
      then [with_hint ''run `nodara-cli migrate`, which converts legacy edges to explicit control edges''
        (diag_error ''WF118''
          (''workflow schema `'' @ w_schema_version w @ ''` must be migrated to `'' @ schema_version @ ''` before execution'')
          ''/schema_version'')]
      else [])"

definition check_workflow_id :: "workflow \<Rightarrow> report" where
  "check_workflow_id w =
     (if trim (w_id w) = [] then [diag_error ''WF101'' ''workflow id must not be empty'' ''/id''] else [])"

definition check_node_id :: "string \<Rightarrow> node \<Rightarrow> string list \<Rightarrow> report" where
  "check_node_id path n seen =
     (if trim (n_id n) = [] then [diag_error ''WF102'' ''node id must not be empty'' path]
      else if n_id n \<in> set seen
      then [about_node (n_id n) (diag_error ''WF103'' (''duplicate node id `'' @ n_id n @ ''`'') path)]
      else [])"

definition check_node_type :: "string \<Rightarrow> node \<Rightarrow> report" where
  "check_node_type path n =
     (if trim (n_type n) = []
      then [about_node (n_id n) (diag_error ''WF104'' ''node `type` must not be empty'' path)] else [])"

fun check_nodes :: "nat \<Rightarrow> node list \<Rightarrow> string list \<Rightarrow> report" where
  "check_nodes i [] seen = []"
| "check_nodes i (n # ns) seen =
     (let path = ''/nodes/'' @ show_nat i in
      check_node_id path n seen @ check_node_type path n @
      check_nodes (Suc i) ns (if trim (n_id n) = [] then seen else n_id n # seen))"

section \<open>Edge checks\<close>

definition check_edge_id :: "string \<Rightarrow> edge \<Rightarrow> string list \<Rightarrow> report" where
  "check_edge_id path e seen =
     (if trim (e_id e) = [] then [diag_error ''WF110'' ''edge id must not be empty'' path]
      else if e_id e \<in> set seen
      then [about_edge (e_id e) (diag_error ''WF111'' (''duplicate edge id `'' @ e_id e @ ''`'') path)]
      else [])"

definition check_edge_ends :: "workflow \<Rightarrow> string \<Rightarrow> edge \<Rightarrow> report" where
  "check_edge_ends w path e =
     (if contains_node w (e_source e) then []
      else [with_hint ''create the missing node or remove the edge'' (about_edge (e_id e)
        (diag_error ''WF112'' (''edge source `'' @ e_source e @ ''` does not exist'') path))]) @
     (if contains_node w (e_target e) then []
      else [with_hint ''create the missing node or remove the edge'' (about_edge (e_id e)
        (diag_error ''WF113'' (''edge target `'' @ e_target e @ ''` does not exist'') path))]) @
     (if e_source e = e_target e
      then [about_edge (e_id e) (diag_warning ''WF114'' (''edge `'' @ e_id e @ ''` is a self-loop'') path)]
      else [])"

definition check_control_edge :: "string \<Rightarrow> edge \<Rightarrow> report" where
  "check_control_edge path e =
     (if e_source_port e \<noteq> None \<or> e_target_port e \<noteq> None
      then [with_hint ''use a data edge for port mapping, or remove the ports from this control edge''
        (about_edge (e_id e) (diag_error ''WF147''
          (''control edge `'' @ e_id e @ ''` must not declare source_port or target_port'') path))]
      else [])"

fun value_type_debug :: "value_type \<Rightarrow> string" where
  "value_type_debug AnyType = ''Any''"
| "value_type_debug StringType = ''String''"
| "value_type_debug NumberType = ''Number''"
| "value_type_debug BooleanType = ''Boolean''"
| "value_type_debug ObjectType = ''Object''"
| "value_type_debug ArrayType = ''Array''"
| "value_type_debug ImageType = ''Image''"
| "value_type_debug WindowType = ''Window''"
| "value_type_debug PathType = ''Path''"

definition find_port :: "port_descriptor list \<Rightarrow> string \<Rightarrow> port_descriptor option" where
  "find_port ps name = find (\<lambda>p. p_name p = name) ps"

text \<open>The ports of a data edge against the descriptors of the nodes at its ends.\<close>

definition check_ports :: "string \<Rightarrow> edge \<Rightarrow> node \<Rightarrow> node \<Rightarrow> node_descriptor option \<Rightarrow> node_descriptor option \<Rightarrow> report" where
  "check_ports path e source target source_descriptor target_descriptor =
     (let source_port = Option.bind (e_source_port e) (\<lambda>name.
            Option.bind source_descriptor (\<lambda>d. find_port (d_outputs d) name));
          target_port = Option.bind (e_target_port e) (\<lambda>name.
            Option.bind target_descriptor (\<lambda>d. find_port (d_inputs d) name))
      in (case e_source_port e of
            Some name \<Rightarrow>
              if source_descriptor \<noteq> None \<and> source_port = None
              then [with_hint ''choose an output port declared by the source node'' (about_edge (e_id e)
                (diag_error ''WF115'' (''edge `'' @ e_id e @ ''` source port `'' @ name @
                   ''` is not declared by `'' @ n_type source @ ''`'') path))]
              else []
          | None \<Rightarrow> []) @
         (case e_target_port e of
            Some name \<Rightarrow>
              if target_descriptor \<noteq> None \<and> target_port = None
              then [with_hint ''choose an input port declared by the target node'' (about_edge (e_id e)
                (diag_error ''WF116'' (''edge `'' @ e_id e @ ''` target port `'' @ name @
                   ''` is not declared by `'' @ n_type target @ ''`'') path))]
              else []
          | None \<Rightarrow> []) @
         (case (source_port, target_port) of
            (Some sp, Some tp) \<Rightarrow>
              if is_compatible_with (p_value_type sp) (p_value_type tp) then []
              else [with_hint ''connect ports with compatible value types'' (about_edge (e_id e)
                (diag_error ''WF117''
                  (''edge `'' @ e_id e @ ''` connects '' @ value_type_debug (p_value_type sp) @ '' output `'' @
                   p_name sp @ ''` to '' @ value_type_debug (p_value_type tp) @ '' input `'' @ p_name tp @ ''`'')
                  path))]
          | _ \<Rightarrow> []))"

definition check_data_edge :: "workflow \<Rightarrow> node_type_index option \<Rightarrow> string \<Rightarrow> edge \<Rightarrow> report" where
  "check_data_edge w index path e =
     (if e_source_port e = None \<or> e_target_port e = None
      then [with_hint ''choose both a source output and a target input port'' (about_edge (e_id e)
        (diag_error ''WF146'' (''data edge `'' @ e_id e @ ''` must declare source_port and target_port'') path))]
      else
        (if e_branch e \<noteq> Always \<or> e_condition e \<noteq> None \<or> e_label e \<noteq> None
         then [with_hint ''move execution conditions to a separate control edge'' (about_edge (e_id e)
           (diag_error ''WF148'' (''data edge `'' @ e_id e @ ''` must not declare branch, condition or label'') path))]
         else []) @
        (case index of
           None \<Rightarrow> []
         | Some ix \<Rightarrow>
             (case (workflow_node w (e_source e), workflow_node w (e_target e)) of
                (Some source, Some target) \<Rightarrow>
                  check_ports path e source target
                    (ix_descriptor ix (n_type source)) (ix_descriptor ix (n_type target))
              | _ \<Rightarrow> [])))"

fun check_edges :: "workflow \<Rightarrow> node_type_index option \<Rightarrow> nat \<Rightarrow> edge list \<Rightarrow> string list \<Rightarrow> report" where
  "check_edges w index i [] seen = []"
| "check_edges w index i (e # es) seen =
     (let path = ''/edges/'' @ show_nat i in
      check_edge_id path e seen @ check_edge_ends w path e @
      (case e_kind e of
         Control \<Rightarrow> check_control_edge path e
       | Data \<Rightarrow> check_data_edge w index path e) @
      check_edges w index (Suc i) es (if trim (e_id e) = [] then seen else e_id e # seen))"

section \<open>Graph checks\<close>

definition start_nodes :: "workflow \<Rightarrow> node list" where
  "start_nodes w = filter (\<lambda>n. n_type n = ''core.Start'') (w_nodes w)"

definition check_start :: "validation_options \<Rightarrow> workflow \<Rightarrow> report" where
  "check_start options w =
     (if vo_require_start options \<and> start_nodes w = []
      then [diag_error ''WF120'' ''workflow has no `core.Start` node'' ''/nodes''] else []) @
     (if 1 < length (start_nodes w)
      then [diag_error ''WF121''
        (''workflow declares '' @ show_nat (length (start_nodes w)) @ '' `core.Start` nodes'') ''/nodes'']
      else [])"

definition check_end :: "validation_options \<Rightarrow> workflow \<Rightarrow> report" where
  "check_end options w =
     (if vo_require_end options \<and> \<not> list_ex (\<lambda>n. n_type n = ''core.End'') (w_nodes w)
      then [with_hint ''terminate the graph with a `core.End` node''
        (diag_error ''WF122'' ''workflow has no `core.End` node'' ''/nodes'')]
      else [])"

definition check_cycles :: "validation_options \<Rightarrow> workflow \<Rightarrow> report" where
  "check_cycles options w =
     (if vo_reject_cycles options
      then (case find_cycle (graph_of w) of
              None \<Rightarrow> []
            | Some cycle \<Rightarrow> [with_hint ''break the cycle or disable cycle rejection for looping workflows''
                (diag_error ''WF130'' (''workflow contains a cycle: '' @ join_with '' -> '' cycle) ''/edges'')])
      else [])"

definition check_unreachable :: "validation_options \<Rightarrow> workflow \<Rightarrow> report" where
  "check_unreachable options w =
     (if vo_warn_unreachable options
      then (case start_nodes w of
              [] \<Rightarrow> []
            | start # _ \<Rightarrow>
                (let reachable = reachable_from (graph_of w) (n_id start) in
                 map (\<lambda>n. about_node (n_id n) (diag_warning ''WF131''
                       (''node `'' @ n_id n @ ''` is not reachable from `'' @ n_id start @ ''`'') ''/nodes''))
                   (filter (\<lambda>n. n_id n \<notin> set reachable) (w_nodes w))))
      else [])"

definition check_dead_ends :: "validation_options \<Rightarrow> workflow \<Rightarrow> report" where
  "check_dead_ends options w =
     (if vo_warn_dead_end options
      then map (\<lambda>n. about_node (n_id n) (diag_warning ''WF132'' (''node `'' @ n_id n @ ''` has no outgoing edge'') ''/nodes''))
        (filter (\<lambda>n. n_type n \<noteq> ''core.End'' \<and> n_type n \<noteq> ''core.Start'' \<and> out_degree (graph_of w) (n_id n) = 0)
          (w_nodes w))
      else [])"

section \<open>Configuration checks\<close>

definition check_required :: "node \<Rightarrow> node_descriptor \<Rightarrow> jobject \<Rightarrow> bool \<Rightarrow> report" where
  "check_required n d config has_data_input =
     (case Option.bind (jget (d_config_schema d) ''required'') as_array of
        None \<Rightarrow> []
      | Some required \<Rightarrow>
          map (\<lambda>key. about_node (n_id n) (diag_error ''WF142''
                (''node `'' @ n_id n @ ''` is missing required config key `'' @ key @ ''`'') ''/nodes''))
            (filter (\<lambda>key. \<not> om_has config key \<and> \<not> has_data_input) (List.map_filter as_str required)))"

definition check_result :: "node \<Rightarrow> node_descriptor \<Rightarrow> report" where
  "check_result n d =
     (case n_result_var n of
        Some name \<Rightarrow>
          if trim name = []
          then [about_node (n_id n) (diag_error ''WF145'' (''node `'' @ n_id n @ ''` result_var must not be empty'') ''/nodes'')]
          else []
      | None \<Rightarrow> []) @
     (case n_result_port n of
        Some p \<Rightarrow>
          if list_ex (\<lambda>out. p_name out = p) (d_outputs d) then []
          else [with_hint ''use one of the output ports published by the node descriptor'' (about_node (n_id n)
            (diag_error ''WF144'' (''node `'' @ n_id n @ ''` result_port `'' @ p @ ''` is not declared by `'' @ n_type n @ ''`'')
               ''/nodes''))]
      | None \<Rightarrow> [])"

definition check_unknown_keys :: "node \<Rightarrow> node_descriptor \<Rightarrow> jobject \<Rightarrow> report" where
  "check_unknown_keys n d config =
     (case Option.bind (jget (d_config_schema d) ''properties'') as_object of
        None \<Rightarrow> []
      | Some props \<Rightarrow>
          map (\<lambda>key. about_node (n_id n) (diag_warning ''WF143''
                (''node `'' @ n_id n @ ''` has unknown config key `'' @ key @ ''`'') ''/nodes''))
            (filter (\<lambda>key. \<not> om_has props key \<and> \<not> d_allows_additional_config d) (om_keys config)))"

definition validate_config :: "node \<Rightarrow> node_descriptor \<Rightarrow> bool \<Rightarrow> report" where
  "validate_config n d has_data_input =
     (case as_object (n_config n) of
        None \<Rightarrow> [about_node (n_id n) (diag_error ''WF141'' (''node `'' @ n_id n @ ''` config must be a JSON object'') ''/nodes'')]
      | Some config \<Rightarrow>
          check_required n d config has_data_input @ check_result n d @ check_unknown_keys n d config)"

definition check_node_known :: "workflow \<Rightarrow> node_type_index \<Rightarrow> node \<Rightarrow> report" where
  "check_node_known w ix n =
     (if n_type n \<notin> set (ix_node_types ix)
      then [with_hint ''install a plugin that provides this node type'' (about_node (n_id n)
        (diag_error ''WF140'' (''unknown node type `'' @ n_type n @ ''`'') ''/nodes''))]
      else (case ix_descriptor ix (n_type n) of
              None \<Rightarrow> []
            | Some d \<Rightarrow> validate_config n d (data_edges_to (graph_of w) (n_id n) \<noteq> [])))"

definition check_node_types :: "workflow \<Rightarrow> node_type_index option \<Rightarrow> report" where
  "check_node_types w index =
     (case index of None \<Rightarrow> [] | Some ix \<Rightarrow> concat (map (check_node_known w ix) (w_nodes w)))"

section \<open>Variable references\<close>

definition placeholder_name_char :: "char \<Rightarrow> bool" where
  "placeholder_name_char c = (is_alphanumeric c \<or> c = CHR ''_'' \<or> c = CHR ''.'' \<or> c = CHR ''-'')"

text \<open>The scan stops three bytes before the end, where no placeholder fits any more.\<close>

function parse_placeholders :: "string \<Rightarrow> string list" where
  "parse_placeholders [] = []"
| "parse_placeholders (ch # rest) =
     (case placeholder_at (ch # rest) of
        None \<Rightarrow> parse_placeholders rest
      | Some (raw, after) \<Rightarrow>
          (if trim raw \<noteq> [] \<and> list_all placeholder_name_char (trim raw) then [trim raw] else []) @
          parse_placeholders after)"
  by pat_completeness auto
termination
  by (relation "measure length") (auto dest: placeholder_at_length)

fun collect_variable_references :: "json \<Rightarrow> string list" where
  "collect_variable_references (JStr s) = parse_placeholders s"
| "collect_variable_references (JArr items) = concat (map collect_variable_references items)"
| "collect_variable_references (JObj m) = concat (map (\<lambda>(k, v). collect_variable_references v) m)"
| "collect_variable_references _ = []"

definition identifier_root :: "string \<Rightarrow> string" where
  "identifier_root tok = hd (split_dots tok)"

function collect_expression_identifiers :: "string \<Rightarrow> string list" where
  "collect_expression_identifiers [] = []"
| "collect_expression_identifiers (c # cs) =
     (if starts_ident c
      then (let tok = takeWhile ident_char (c # cs) in
            (if identifier_root tok \<noteq> ''true'' \<and> identifier_root tok \<noteq> ''false'' then [identifier_root tok] else []) @
            collect_expression_identifiers (dropWhile ident_char (c # cs)))
      else collect_expression_identifiers cs)"
  by pat_completeness auto
termination
proof (relation "measure length")
  fix c cs and x :: string
  assume "starts_ident c"
  then have "ident_char c" by (auto simp: starts_ident_def ident_char_def is_alphanumeric_def Let_def)
  then show "(dropWhile ident_char (c # cs), c # cs) \<in> measure length"
    using length_dropWhile_le [of ident_char cs] by simp
qed auto

definition nonblank :: "string option \<Rightarrow> string list" where
  "nonblank name = (case name of Some s \<Rightarrow> if trim s \<noteq> [] then [s] else [] | None \<Rightarrow> [])"

definition config_string :: "node \<Rightarrow> string \<Rightarrow> string option" where
  "config_string n key = Option.bind (jget (n_config n) key) as_str"

text \<open>The names a node publishes at run time.\<close>

definition published_names :: "node \<Rightarrow> string list" where
  "published_names n =
     nonblank (n_result_var n) @ nonblank (config_string n ''output_var'') @
     (if n_type n = ''core.SetVariable'' then nonblank (config_string n ''name'') else []) @
     (if n_type n = ''core.CalculateMany''
      then (case Option.bind (jget (n_config n) ''expressions'') as_array of
              None \<Rightarrow> []
            | Some es \<Rightarrow> concat (map (\<lambda>e. nonblank (Option.bind (jget e ''name'') as_str)) es))
      else [])"

definition declared_names :: "workflow \<Rightarrow> string list" where
  "declared_names w = om_keys (w_variables w) @ [''last_error''] @ concat (map published_names (w_nodes w))"

definition is_declared_reference :: "string list \<Rightarrow> string \<Rightarrow> bool" where
  "is_declared_reference declared reference =
     (reference \<in> set declared \<or> identifier_root reference \<in> set declared)"

text \<open>One loop over references: the undeclared ones not reported before under the same owner.\<close>

type_synonym reported = "(string \<times> string) list"

fun report_references ::
    "(string \<Rightarrow> bool) \<Rightarrow> string \<Rightarrow> (string \<Rightarrow> diagnostic) \<Rightarrow> string list \<Rightarrow> reported \<Rightarrow> report \<times> reported" where
  "report_references known owner diag [] reported = ([], reported)"
| "report_references known owner diag (r # rs) reported =
     (if known r \<or> (owner, r) \<in> set reported then report_references known owner diag rs reported
      else (let (ds, reported') = report_references known owner diag rs ((owner, r) # reported)
            in (diag r # ds, reported')))"

definition undeclared_hint :: string where
  "undeclared_hint = ''declare it under `variables` or bind it at runtime''"

definition node_reference_diag :: "node \<Rightarrow> string \<Rightarrow> diagnostic" where
  "node_reference_diag n reference = with_hint undeclared_hint (about_node (n_id n)
     (diag_warning ''WF150'' (''node `'' @ n_id n @ ''` references undeclared variable `'' @ reference @ ''`'') ''/nodes''))"

definition node_condition_diag :: "node \<Rightarrow> string \<Rightarrow> diagnostic" where
  "node_condition_diag n reference = with_hint undeclared_hint (about_node (n_id n)
     (diag_warning ''WF151'' (''node `'' @ n_id n @ ''` condition references undeclared variable `'' @ reference @ ''`'') ''/nodes''))"

definition edge_condition_diag :: "edge \<Rightarrow> string \<Rightarrow> diagnostic" where
  "edge_condition_diag e reference = with_hint undeclared_hint (about_edge (e_id e)
     (diag_warning ''WF152'' (''edge `'' @ e_id e @ ''` condition references undeclared variable `'' @ reference @ ''`'') ''/edges''))"

definition condition_identifiers :: "string option \<Rightarrow> string list" where
  "condition_identifiers condition =
     (case condition of None \<Rightarrow> [] | Some s \<Rightarrow> collect_expression_identifiers s)"

fun check_node_references :: "string list \<Rightarrow> node list \<Rightarrow> reported \<Rightarrow> report \<times> reported" where
  "check_node_references declared [] reported = ([], reported)"
| "check_node_references declared (n # ns) reported =
     (let (ds1, reported1) = report_references (is_declared_reference declared) (''node:'' @ n_id n)
            (node_reference_diag n) (collect_variable_references (n_config n)) reported;
          (ds2, reported2) = report_references (\<lambda>r. r \<in> set declared) (''condition:'' @ n_id n)
            (node_condition_diag n) (condition_identifiers (n_condition n)) reported1;
          (ds3, reported3) = check_node_references declared ns reported2
      in (ds1 @ ds2 @ ds3, reported3))"

fun check_edge_references :: "string list \<Rightarrow> edge list \<Rightarrow> reported \<Rightarrow> report \<times> reported" where
  "check_edge_references declared [] reported = ([], reported)"
| "check_edge_references declared (e # es) reported =
     (let (ds1, reported1) =
            (if e_kind e \<noteq> Control then ([], reported)
             else report_references (\<lambda>r. r \<in> set declared) (''edge:'' @ e_id e)
                    (edge_condition_diag e) (condition_identifiers (e_condition e)) reported);
          (ds2, reported2) = check_edge_references declared es reported1
      in (ds1 @ ds2, reported2))"

definition check_references :: "validation_options \<Rightarrow> workflow \<Rightarrow> report" where
  "check_references options w =
     (if vo_check_variable_references options
      then (let declared = declared_names w;
                (ds1, reported) = check_node_references declared (w_nodes w) [];
                (ds2, _) = check_edge_references declared (w_edges w) reported
            in ds1 @ ds2)
      else [])"

section \<open>The whole report\<close>

definition validate_with_options :: "workflow \<Rightarrow> node_type_index option \<Rightarrow> validation_options \<Rightarrow> report" where
  "validate_with_options w index options =
     check_schema_version w @ check_workflow_id w @ check_nodes 0 (w_nodes w) [] @
     check_edges w index 0 (w_edges w) [] @
     check_start options w @ check_end options w @ check_cycles options w @
     check_unreachable options w @ check_dead_ends options w @
     check_node_types w index @ check_references options w"

definition validate :: "workflow \<Rightarrow> report" where
  "validate w = validate_with_options w None default_validation_options"

definition validate_with :: "workflow \<Rightarrow> node_type_index \<Rightarrow> validation_options \<Rightarrow> report" where
  "validate_with w ix options = validate_with_options w (Some ix) options"

end
