(* ===== verification/Nodara_Validation_Spec.thy ===== *)
theory Nodara_Validation_Spec
  imports Nodara_Validation
begin

text \<open>
  What a valid report means: a declarative description of the documents the validator
  accepts with its default options, and the proof that it accepts exactly those. From it
  follow the facts the engine relies on: a valid document can be scheduled.
\<close>

section \<open>Well-formed documents\<close>

definition ports_well_formed ::
    "string \<Rightarrow> string \<Rightarrow> node_descriptor option \<Rightarrow> node_descriptor option \<Rightarrow> bool" where
  "ports_well_formed sp tp source_descriptor target_descriptor \<longleftrightarrow>
     (\<forall>d. source_descriptor = Some d \<longrightarrow> find_port (d_outputs d) sp \<noteq> None) \<and>
     (\<forall>d. target_descriptor = Some d \<longrightarrow> find_port (d_inputs d) tp \<noteq> None) \<and>
     (\<forall>d d' p p'. source_descriptor = Some d \<longrightarrow> target_descriptor = Some d' \<longrightarrow>
        find_port (d_outputs d) sp = Some p \<longrightarrow> find_port (d_inputs d') tp = Some p' \<longrightarrow>
        is_compatible_with (p_value_type p) (p_value_type p'))"

definition data_edge_well_formed :: "workflow \<Rightarrow> node_type_index \<Rightarrow> edge \<Rightarrow> bool" where
  "data_edge_well_formed w ix e \<longleftrightarrow>
     e_branch e = Always \<and> e_condition e = None \<and> e_label e = None \<and>
     (\<exists>sp tp. e_source_port e = Some sp \<and> e_target_port e = Some tp \<and>
        (\<forall>source target. workflow_node w (e_source e) = Some source \<longrightarrow>
           workflow_node w (e_target e) = Some target \<longrightarrow>
           ports_well_formed sp tp (ix_descriptor ix (n_type source)) (ix_descriptor ix (n_type target))))"

definition edge_well_formed :: "workflow \<Rightarrow> node_type_index \<Rightarrow> edge \<Rightarrow> bool" where
  "edge_well_formed w ix e \<longleftrightarrow>
     trim (e_id e) \<noteq> [] \<and> contains_node w (e_source e) \<and> contains_node w (e_target e) \<and>
     (e_kind e = Control \<longrightarrow> e_source_port e = None \<and> e_target_port e = None) \<and>
     (e_kind e = Data \<longrightarrow> data_edge_well_formed w ix e)"

definition config_well_formed :: "workflow \<Rightarrow> node_descriptor \<Rightarrow> node \<Rightarrow> bool" where
  "config_well_formed w d n \<longleftrightarrow>
     (\<exists>config. n_config n = JObj config \<and>
        (\<forall>required key. jget (d_config_schema d) ''required'' = Some (JArr required) \<longrightarrow> JStr key \<in> set required \<longrightarrow>
           om_has config key \<or> data_edges_to (graph_of w) (n_id n) \<noteq> [])) \<and>
     (\<forall>name. n_result_var n = Some name \<longrightarrow> trim name \<noteq> []) \<and>
     (\<forall>p. n_result_port n = Some p \<longrightarrow> p \<in> p_name ` set (d_outputs d))"

definition node_well_formed :: "workflow \<Rightarrow> node_type_index \<Rightarrow> node \<Rightarrow> bool" where
  "node_well_formed w ix n \<longleftrightarrow>
     trim (n_id n) \<noteq> [] \<and> trim (n_type n) \<noteq> [] \<and> n_type n \<in> set (ix_node_types ix) \<and>
     (\<forall>d. ix_descriptor ix (n_type n) = Some d \<longrightarrow> config_well_formed w d n)"

definition well_formed :: "workflow \<Rightarrow> node_type_index \<Rightarrow> bool" where
  "well_formed w ix \<longleftrightarrow>
     w_schema_version w = schema_version \<and> trim (w_id w) \<noteq> [] \<and>
     distinct (node_ids w) \<and> distinct (map e_id (w_edges w)) \<and>
     (\<forall>n\<in>set (w_nodes w). node_well_formed w ix n) \<and>
     (\<forall>e\<in>set (w_edges w). edge_well_formed w ix e) \<and>
     length (start_nodes w) = 1 \<and> (\<exists>n\<in>set (w_nodes w). n_type n = ''core.End'') \<and>
     acyclic (control_rel w)"

section \<open>Reports without errors\<close>

definition clean :: "report \<Rightarrow> bool" where
  "clean r = (report_errors r = [])"

named_theorems clean_simps \<open>when a check reports no error\<close>

lemma is_valid_clean: "is_valid r = clean r"
  by (simp add: is_valid_def error_count_def clean_def)

lemma clean_basic [simp, clean_simps]:
  "clean []"
  "clean (d # r) \<longleftrightarrow> dg_severity d \<noteq> ErrorSeverity \<and> clean r"
  "clean (r @ r') \<longleftrightarrow> clean r \<and> clean r'"
  by (auto simp: clean_def report_errors_def)

lemma clean_map: "clean (map f xs) \<longleftrightarrow> (\<forall>x\<in>set xs. dg_severity (f x) \<noteq> ErrorSeverity)"
  by (auto simp: clean_def report_errors_def filter_empty_conv)

lemma clean_concat: "clean (concat rs) \<longleftrightarrow> (\<forall>r\<in>set rs. clean r)"
  by (auto simp: clean_def report_errors_def filter_empty_conv)

lemma dg_severity_simps [simp]:
  "dg_severity (diag_error code msg path) = ErrorSeverity"
  "dg_severity (diag_warning code msg path) = WarningSeverity"
  "dg_severity (about_node nid d) = dg_severity d"
  "dg_severity (about_edge eid d) = dg_severity d"
  "dg_severity (with_hint h d) = dg_severity d"
  by (simp_all add: diag_error_def diag_warning_def new_diagnostic_def about_node_def about_edge_def with_hint_def)

section \<open>Check by check\<close>

lemma is_compatible_schema_version_current: "is_compatible_schema_version schema_version"
  by (simp add: is_compatible_schema_version_def)

lemma check_schema_version_clean: "clean (check_schema_version w) \<longleftrightarrow> w_schema_version w = schema_version"
  using is_compatible_schema_version_current by (auto simp: check_schema_version_def)

lemma check_workflow_id_clean: "clean (check_workflow_id w) \<longleftrightarrow> trim (w_id w) \<noteq> []"
  by (simp add: check_workflow_id_def)

lemma check_node_id_clean: "clean (check_node_id path n seen) \<longleftrightarrow> trim (n_id n) \<noteq> [] \<and> n_id n \<notin> set seen"
  by (simp add: check_node_id_def)

lemma check_node_type_clean: "clean (check_node_type path n) \<longleftrightarrow> trim (n_type n) \<noteq> []"
  by (simp add: check_node_type_def)

lemma check_nodes_clean:
  "clean (check_nodes i ns seen) \<longleftrightarrow>
     (\<forall>n\<in>set ns. trim (n_id n) \<noteq> [] \<and> trim (n_type n) \<noteq> []) \<and> distinct (map n_id ns) \<and>
     set (map n_id ns) \<inter> set seen = {}"
proof (induction ns arbitrary: i seen)
  case (Cons n ns)
  have "clean (check_nodes i (n # ns) seen) \<longleftrightarrow> trim (n_id n) \<noteq> [] \<and> n_id n \<notin> set seen \<and> trim (n_type n) \<noteq> [] \<and>
      clean (check_nodes (Suc i) ns (if trim (n_id n) = [] then seen else n_id n # seen))"
    by (simp only: check_nodes.simps Let_def clean_basic(3) check_node_id_clean check_node_type_clean conj_assoc)
  with Cons.IH show ?case by auto
qed simp

lemma check_ports_clean:
  assumes "e_source_port e = Some sp" "e_target_port e = Some tp"
  shows "clean (check_ports path e source target sd td) \<longleftrightarrow> ports_well_formed sp tp sd td"
  by (cases sd; cases td)
    (auto simp: check_ports_def ports_well_formed_def assms Let_def split: option.splits)

lemma check_data_edge_clean:
  "clean (check_data_edge w (Some ix) path e) \<longleftrightarrow> data_edge_well_formed w ix e"
proof (cases "e_source_port e = None \<or> e_target_port e = None")
  case True
  then show ?thesis by (auto simp: check_data_edge_def data_edge_well_formed_def)
next
  case False
  then obtain sp tp where ports: "e_source_port e = Some sp" "e_target_port e = Some tp" by auto
  show ?thesis
    by (auto simp: check_data_edge_def data_edge_well_formed_def ports check_ports_clean [OF ports]
        split: option.splits)
qed

lemma check_edge_clean:
  "clean (check_edge_ends w path e @ (case e_kind e of
       Control \<Rightarrow> check_control_edge path e | Data \<Rightarrow> check_data_edge w (Some ix) path e)) \<and> trim (e_id e) \<noteq> [] \<longleftrightarrow>
     edge_well_formed w ix e"
  by (cases "e_kind e")
    (auto simp: edge_well_formed_def check_edge_ends_def check_control_edge_def check_data_edge_clean)

lemma check_edge_id_clean: "clean (check_edge_id path e seen) \<longleftrightarrow> trim (e_id e) \<noteq> [] \<and> e_id e \<notin> set seen"
  by (simp add: check_edge_id_def)

lemma check_edges_clean:
  "clean (check_edges w (Some ix) i es seen) \<longleftrightarrow>
     (\<forall>e\<in>set es. edge_well_formed w ix e) \<and> distinct (map e_id es) \<and> set (map e_id es) \<inter> set seen = {}"
proof (induction es arbitrary: i seen)
  case (Cons e es)
  define path where "path = ''/edges/'' @ show_nat i"
  have "check_edges w (Some ix) i (e # es) seen = check_edge_id path e seen @
      (check_edge_ends w path e @ (case e_kind e of
         Control \<Rightarrow> check_control_edge path e | Data \<Rightarrow> check_data_edge w (Some ix) path e)) @
      check_edges w (Some ix) (Suc i) es (if trim (e_id e) = [] then seen else e_id e # seen)"
    unfolding check_edges.simps Let_def path_def by (simp only: append_assoc)
  with check_edge_clean [of w path e ix] have "clean (check_edges w (Some ix) i (e # es) seen) \<longleftrightarrow> e_id e \<notin> set seen \<and> edge_well_formed w ix e \<and>
      clean (check_edges w (Some ix) (Suc i) es (if trim (e_id e) = [] then seen else e_id e # seen))"
    by (simp only: check_edge_id_clean clean_basic(3)) blast
  with Cons.IH show ?case by (auto simp: edge_well_formed_def)
qed simp

lemma check_start_clean:
  "clean (check_start default_validation_options w) \<longleftrightarrow> length (start_nodes w) = 1"
  by (cases "start_nodes w") (auto simp: check_start_def default_validation_options_def)

lemma check_end_clean:
  "clean (check_end default_validation_options w) \<longleftrightarrow> (\<exists>n\<in>set (w_nodes w). n_type n = ''core.End'')"
  by (auto simp: check_end_def default_validation_options_def list_ex_iff)

lemma check_cycles_clean: "clean (check_cycles default_validation_options w) \<longleftrightarrow> acyclic (control_rel w)"
  by (auto simp: check_cycles_def default_validation_options_def find_cycle_iff [symmetric] split: option.splits)

lemma check_warnings_clean: "clean (check_unreachable options w)" "clean (check_dead_ends options w)"
  by (auto simp: check_unreachable_def check_dead_ends_def clean_map Let_def split: list.splits)

lemma set_map_filter_as_str: "key \<in> set (List.map_filter as_str vs) \<longleftrightarrow> JStr key \<in> set vs"
proof (induction vs)
  case (Cons v vs)
  then show ?case by (cases v) (simp_all add: map_filter_simps)
qed (simp add: map_filter_simps)

lemma as_array_Some: "as_array v = Some vs \<longleftrightarrow> v = JArr vs"
  by (cases v) auto

lemma as_object_Some: "as_object v = Some m \<longleftrightarrow> v = JObj m"
  by (cases v) auto

lemma check_required_clean:
  "clean (check_required n d config has) \<longleftrightarrow>
     (\<forall>required key. jget (d_config_schema d) ''required'' = Some (JArr required) \<longrightarrow> JStr key \<in> set required \<longrightarrow>
        om_has config key \<or> has)"
proof (cases "Option.bind (jget (d_config_schema d) ''required'') as_array")
  case None
  then have "jget (d_config_schema d) ''required'' \<noteq> Some (JArr required)" for required by auto
  with None show ?thesis unfolding check_required_def by simp
next
  case (Some required)
  then have "jget (d_config_schema d) ''required'' = Some (JArr required)"
    by (auto simp: bind_eq_Some_conv as_array_Some)
  with Some show ?thesis
    unfolding check_required_def by (auto simp: clean_map set_map_filter_as_str)
qed

lemma validate_config_clean:
  "clean (validate_config n d (data_edges_to (graph_of w) (n_id n) \<noteq> [])) \<longleftrightarrow> config_well_formed w d n"
proof -
  have unknown: "clean (check_unknown_keys n d config)" for config
    by (auto simp: check_unknown_keys_def clean_map split: option.splits)
  have result: "clean (check_result n d) \<longleftrightarrow>
      (\<forall>name. n_result_var n = Some name \<longrightarrow> trim name \<noteq> []) \<and>
      (\<forall>p. n_result_port n = Some p \<longrightarrow> p \<in> p_name ` set (d_outputs d))"
    by (auto simp: check_result_def list_ex_iff split: option.splits)
  show ?thesis
    by (auto simp: validate_config_def config_well_formed_def check_required_clean result unknown as_object_Some
        split: option.splits simp del: data_edges_to_view)
qed

lemma check_node_known_clean:
  "clean (check_node_known w ix n) \<longleftrightarrow>
     n_type n \<in> set (ix_node_types ix) \<and> (\<forall>d. ix_descriptor ix (n_type n) = Some d \<longrightarrow> config_well_formed w d n)"
  unfolding check_node_known_def by (auto simp: validate_config_clean split: option.splits simp del: data_edges_to_view)

lemma report_references_clean:
  assumes "\<And>r. dg_severity (diag r) \<noteq> ErrorSeverity"
  shows "clean (fst (report_references known owner diag rs reported))"
proof (induction rs arbitrary: reported)
  case (Cons r rs)
  then show ?case
    using Cons.IH [of "(owner, r) # reported"] assms
    by (cases "report_references known owner diag rs ((owner, r) # reported)") simp
qed simp

lemma check_references_clean: "clean (check_references options w)"
proof -
  have nodes: "clean (fst (check_node_references declared ns reported))" for declared ns reported
  proof (induction declared ns reported rule: check_node_references.induct)
    case (2 declared n ns reported)
    have "clean (fst (report_references k owner (node_reference_diag n) rs reported))"
      "clean (fst (report_references k owner (node_condition_diag n) rs reported))" for k owner rs reported
      by (rule report_references_clean, simp add: node_reference_diag_def node_condition_diag_def)+
    with 2 show ?case by (auto simp: Let_def split: prod.splits) (metis fst_conv)+
  qed simp
  have edges: "clean (fst (check_edge_references declared es reported))" for declared es reported
  proof (induction declared es reported rule: check_edge_references.induct)
    case (2 declared e es reported)
    have "clean (fst (report_references k owner (edge_condition_diag e) rs reported))" for k owner rs reported
      by (rule report_references_clean) (simp add: edge_condition_diag_def)
    with 2 show ?case by (auto simp: Let_def split: prod.splits) (metis fst_conv)+
  qed simp
  show ?thesis
    using nodes edges by (auto simp: check_references_def Let_def split: prod.splits) (metis fst_conv)+
qed

lemma is_valid_iff: "is_valid (validate_with w ix default_validation_options) \<longleftrightarrow> well_formed w ix"
proof -
  have types: "clean (check_node_types w (Some ix)) \<longleftrightarrow> (\<forall>n\<in>set (w_nodes w). clean (check_node_known w ix n))"
    by (simp add: check_node_types_def clean_concat)
  show ?thesis
    unfolding is_valid_clean validate_with_def validate_with_options_def clean_basic
      check_schema_version_clean check_workflow_id_clean check_nodes_clean check_edges_clean
      check_start_clean check_end_clean check_cycles_clean types check_node_known_clean
    by (auto simp: well_formed_def node_well_formed_def node_ids_def check_warnings_clean check_references_clean)
qed

section \<open>Consequences for scheduling\<close>

lemma start_nodes_entry:
  assumes "start_nodes w \<noteq> []"
  shows "\<exists>n\<in>set (w_nodes w). entry_node (graph_of w) = Some n \<and> n_type n = ''core.Start''"
proof -
  have "find (\<lambda>n. n_type n = ''core.Start'') (w_nodes w) \<noteq> None"
    using assms by (auto simp: start_nodes_def find_None_iff filter_empty_conv)
  then obtain n where n: "find (\<lambda>n. n_type n = ''core.Start'') (w_nodes w) = Some n" by blast
  then have "n \<in> set (w_nodes w)" "n_type n = ''core.Start''" by (auto simp: find_Some_iff)
  with n show ?thesis by (simp add: entry_node_def)
qed

lemma well_formed_schedulable:
  assumes "well_formed w ix"
  shows "\<exists>order. topological_order (graph_of w) = Inr order \<and> is_topological_order w order"
  using assms topological_order_complete [of w] topological_order_sound [of w] by (auto simp: well_formed_def)

section \<open>Properties\<close>

text \<open>C7. The validator is exact: with the default options a report has no error if and only if
  the document is well formed, that is: current schema version, non-blank distinct ids,
  existing edge ends, ports only on data edges and there declared and of compatible types,
  known node types with object configurations that hold the required keys, one start node,
  an end node, and no cycle of control edges.\<close>

theorem validator_exact:
  "is_valid (validate_with w ix default_validation_options) \<longleftrightarrow> well_formed w ix"
  by (rule is_valid_iff)

text \<open>A document that passes validation can be run: the scheduler produces a complete
  topological order of its nodes, and the entry point exists and is its only start node.\<close>

theorem valid_document_schedulable:
  assumes "is_valid (validate_with w ix default_validation_options)"
  shows "(\<exists>order. topological_order (graph_of w) = Inr order \<and> is_topological_order w order) \<and>
    (\<exists>n. entry_node (graph_of w) = Some n \<and> start_nodes w = [n])"
proof -
  have wf: "well_formed w ix" using assms by (simp add: is_valid_iff)
  then obtain s where s: "start_nodes w = [s]" by (auto simp: well_formed_def length_Suc_conv)
  then obtain n where n: "n \<in> set (w_nodes w)" "entry_node (graph_of w) = Some n" "n_type n = ''core.Start''"
    using start_nodes_entry [of w] by auto
  then have "n \<in> set (start_nodes w)" by (simp add: start_nodes_def)
  with s n well_formed_schedulable [OF wf] show ?thesis by auto
qed

definition two_step :: workflow where
  "two_step = (new_workflow ''wf'')
     \<lparr>w_nodes := [new_node ''s'' ''core.Start'', new_node ''e'' ''core.End''],
      w_edges := [new_edge ''1'' ''s'' ''e'']\<rparr>"

definition bare_index :: node_type_index where
  "bare_index = \<lparr>ix_node_types = [''core.Start'', ''core.End''], ix_descriptor = (\<lambda>_. None)\<rparr>"

lemma two_step_well_formed: "well_formed two_step bare_index"
proof -
  have parts: "list_all (\<lambda>s. trim s \<noteq> []) [''s'', ''e'', ''1'', ''wf'', ''core.Start'', ''core.End'']"
    "distinct (node_ids two_step)" "find_cycle (graph_of two_step) = None" by code_simp+
  then have "acyclic (control_rel two_step)" by (simp add: find_cycle_iff)
  with parts show ?thesis
    by (auto simp: well_formed_def node_well_formed_def edge_well_formed_def bare_index_def two_step_def
        new_workflow_def new_node_def new_edge_def start_nodes_def contains_node_def)
qed

lemma valid_document_schedulable_witness:
  "\<exists>order. topological_order (graph_of two_step) = Inr order"
proof -
  have "is_valid (validate_with two_step bare_index default_validation_options)"
    using two_step_well_formed by (simp add: is_valid_iff)
  from valid_document_schedulable [OF this] show ?thesis by blast
qed

end
