(* ===== verification/Nodara_Migration.thy ===== *)
theory Nodara_Migration
  imports Nodara_Template
begin

text \<open>
  Migration of older documents (\<open>migration.rs\<close> and \<open>error.rs\<close> of the schema). The decoder that
  \<open>serde\<close> derives for a whole document is the parameter \<open>decode\<close>; the derived decoders of an edge
  branch and of a variable are written out. \<open>migrate_nodes\<close> and \<open>migrate_edges\<close> are the loops, with
  the index of the next element.
\<close>

section \<open>Errors and the report\<close>

datatype schema_error =
    JsonError string
  | IoError string
  | UnsupportedSchemaVersion string string
  | InvalidWorkflow string
  | InvalidManifest string
  | UnsupportedProtocolVersion string
  | MigrationError string
  | GraphError string

fun schema_error_text :: "schema_error \<Rightarrow> string" where
  "schema_error_text (JsonError e) = ''json error: '' @ e"
| "schema_error_text (IoError e) = ''io error: '' @ e"
| "schema_error_text (UnsupportedSchemaVersion found supported) =
     ''unsupported schema version `'' @ found @ ''` (supported: `'' @ supported @ ''`)''"
| "schema_error_text (InvalidWorkflow e) = ''invalid workflow: '' @ e"
| "schema_error_text (InvalidManifest e) = ''invalid plugin manifest: '' @ e"
| "schema_error_text (UnsupportedProtocolVersion v) = ''unsupported protocol version `'' @ v @ ''`''"
| "schema_error_text (MigrationError e) = ''migration failed: '' @ e"
| "schema_error_text (GraphError e) = ''graph error: '' @ e"

record migration_report =
  mr_from :: string
  mr_to :: string
  mr_notes :: "string list"
  mr_changed :: bool

section \<open>Node types\<close>

definition legacy_kinds :: "(string \<times> string) list" where
  "legacy_kinds =
    [(''start'', ''core.Start''), (''core.start'', ''core.Start''),
     (''exit'', ''core.End''), (''end'', ''core.End''), (''stop'', ''core.End''), (''core.end'', ''core.End''),
     (''system.log'', ''core.Log''), (''systemlog'', ''core.Log''), (''log'', ''core.Log''), (''core.log'', ''core.Log''),
     (''system.delay'', ''system.Delay''), (''systemdelay'', ''system.Delay''), (''delay'', ''system.Delay''),
     (''wait'', ''system.Delay''),
     (''system.paste'', ''system.Paste''), (''systempaste'', ''system.Paste''), (''paste'', ''system.Paste''),
     (''clipboard.read'', ''system.Paste''),
     (''calculate'', ''core.Calculate''), (''core.calculate'', ''core.Calculate''), (''math'', ''core.Calculate''),
     (''input.keyboard'', ''windows.Input.Keyboard''), (''keyboard'', ''windows.Input.Keyboard''),
     (''windows.input.keyboard'', ''windows.Input.Keyboard''),
     (''input.mouse'', ''windows.Input.Mouse''), (''mouse'', ''windows.Input.Mouse''),
     (''windows.input.mouse'', ''windows.Input.Mouse''),
     (''input.text'', ''windows.Input.Text''), (''text'', ''windows.Input.Text''),
     (''windows.input.text'', ''windows.Input.Text''),
     (''window.find'', ''windows.Window.Find''), (''windows.window.find'', ''windows.Window.Find''),
     (''findwindow'', ''windows.Window.Find''),
     (''window.capture'', ''windows.Window.Capture''), (''windows.window.capture'', ''windows.Window.Capture''),
     (''desktop.capture'', ''windows.Desktop.Capture''), (''screenshot'', ''windows.Desktop.Capture''),
     (''windows.desktop.capture'', ''windows.Desktop.Capture''),
     (''vision.ocr'', ''vision.Ocr''), (''ocr'', ''vision.Ocr''),
     (''agent.decision'', ''agent.Decision''), (''decision'', ''agent.Decision'')]"

definition canonical_node_type :: "string \<Rightarrow> string" where
  "canonical_node_type kind =
     (let normalised = trim kind
      in case map_of legacy_kinds (to_ascii_lowercase normalised) of Some ty \<Rightarrow> ty | None \<Rightarrow> normalised)"

definition node_type_from_value :: "json \<Rightarrow> string option" where
  "node_type_from_value v =
     (case v of
        JStr s \<Rightarrow> Some (canonical_node_type s)
      | JObj m \<Rightarrow> map_option canonical_node_type (Option.bind (om_get m ''type'') as_str)
      | _ \<Rightarrow> None)"

section \<open>Configurations\<close>

definition normalise_config :: "json option \<Rightarrow> jobject" where
  "normalise_config v =
     (case v of
        Some (JObj m) \<Rightarrow> m
      | Some (JStr s) \<Rightarrow> om_empty
      | None \<Rightarrow> om_empty
      | Some other \<Rightarrow> [(''value'', other)])"

text \<open>\<open>(seconds * 1000.0).round().max(0.0) as i64\<close>.\<close>

definition delay_millis :: "f64 \<Rightarrow> int" where
  "delay_millis seconds = f64_as_i64 (fmax (fround (fmul seconds (f64_of_int 1000))) (Zero False))"

definition normalise_delay :: "jobject \<Rightarrow> jobject" where
  "normalise_delay m =
     (if om_has m ''duration_ms'' then m
      else (let m' = om_remove ''seconds'' m
            in case Option.bind (om_get m ''seconds'') as_f64 of
                 None \<Rightarrow> m'
               | Some seconds \<Rightarrow> om_insert ''duration_ms'' (JNum (num_of_i64 (delay_millis seconds))) m'))"

definition normalise_log :: "jobject \<Rightarrow> jobject" where
  "normalise_log m =
     (if om_has m ''message'' then m
      else (case om_get m ''text'' of
              None \<Rightarrow> m
            | Some txt \<Rightarrow> om_insert ''message'' txt (om_remove ''text'' m)))"

definition normalise_legacy_config :: "string \<Rightarrow> jobject \<Rightarrow> jobject" where
  "normalise_legacy_config node_type m =
     (let m1 = (if node_type = ''system.Delay'' then normalise_delay m else m)
      in if node_type = ''core.Log'' then normalise_log m1 else m1)"

section \<open>Nodes\<close>

definition str_field :: "jobject \<Rightarrow> string \<Rightarrow> string option" where
  "str_field m k = Option.bind (om_get m k) as_str"

definition or_else :: "'a option \<Rightarrow> 'a option \<Rightarrow> 'a option" where
  "or_else a b = (case a of None \<Rightarrow> b | Some _ \<Rightarrow> a)"

definition unwrap_or :: "'a \<Rightarrow> 'a option \<Rightarrow> 'a" where
  "unwrap_or d a = (case a of None \<Rightarrow> d | Some x \<Rightarrow> x)"

definition known_namespace :: "string \<Rightarrow> bool" where
  "known_namespace ty =
     list_ex (starts_with ty) [''core.'', ''system.'', ''windows.'', ''vision.'', ''agent.'']"

definition migrate_node :: "nat \<Rightarrow> json \<Rightarrow> (schema_error, node \<times> string list) result" where
  "migrate_node index raw =
     (case as_object raw of
        None \<Rightarrow> Inl (MigrationError (''node at index '' @ show_nat index @ '' is not a JSON object''))
      | Some m \<Rightarrow>
          (let node_id = unwrap_or (''node'' @ show_nat index) (str_field m ''id'') in
           case or_else (om_get m ''type'') (om_get m ''kind'') of
             None \<Rightarrow> Inl (MigrationError (''node `'' @ node_id @ ''` has neither `type` nor `kind`''))
           | Some kind \<Rightarrow>
               (case node_type_from_value kind of
                  None \<Rightarrow> Inl (MigrationError (''node `'' @ node_id @ ''` has an unrecognised kind''))
                | Some node_type \<Rightarrow>
                    Inr ((new_node node_id node_type)\<lparr>n_label := str_field m ''label'',
                           n_config := JObj (normalise_legacy_config node_type (normalise_config (om_get m ''config'')))\<rparr>,
                         if known_namespace node_type then []
                         else [''node `'' @ node_id @ ''` kept its original type `'' @ node_type @ ''`'']))))"

fun migrate_nodes :: "nat \<Rightarrow> json list \<Rightarrow> (schema_error, node list \<times> string list) result" where
  "migrate_nodes index [] = Inr ([], [])"
| "migrate_nodes index (raw # raws) =
     bind_result (migrate_node index raw) (\<lambda>(n, notes).
       bind_result (migrate_nodes (Suc index) raws) (\<lambda>(ns, notes'). Inr (n # ns, notes @ notes')))"

section \<open>Edges\<close>

text \<open>The derived decoder of a unit enum: the name of the variant, alone or with the value null.\<close>

definition branch_named :: "string \<Rightarrow> edge_branch option" where
  "branch_named s =
     (if s = ''always'' then Some Always else if s = ''success'' then Some Success
      else if s = ''failure'' then Some Failure else None)"

fun decode_branch :: "json \<Rightarrow> edge_branch option" where
  "decode_branch (JStr s) = branch_named s"
| "decode_branch (JObj [(s, JNull)]) = branch_named s"
| "decode_branch _ = None"

definition migrate_edge :: "nat \<Rightarrow> json \<Rightarrow> (schema_error, edge \<times> string list) result" where
  "migrate_edge index raw =
     (case as_object raw of
        None \<Rightarrow> Inl (MigrationError (''edge at index '' @ show_nat index @ '' is not a JSON object''))
      | Some m \<Rightarrow>
          (case Option.bind (or_else (om_get m ''source'') (om_get m ''from'')) as_str of
             None \<Rightarrow> Inl (MigrationError (''edge at index '' @ show_nat index @ '' has no source''))
           | Some source \<Rightarrow>
               (case Option.bind (or_else (om_get m ''target'') (om_get m ''to'')) as_str of
                  None \<Rightarrow> Inl (MigrationError (''edge at index '' @ show_nat index @ '' has no target''))
                | Some target \<Rightarrow>
                    (let edge_id = unwrap_or (''e'' @ show_nat (index + 1)) (str_field m ''id'');
                         e = (new_edge edge_id source target)\<lparr>e_condition := str_field m ''condition'',
                               e_label := str_field m ''label''\<rparr>;
                         notes = (if om_has m ''source_port'' \<or> om_has m ''target_port''
                           then [''edge `'' @ edge_id @ ''` became a control edge; its data port mapping was removed and must be reconnected explicitly'']
                           else [])
                     in case om_get m ''branch'' of
                          None \<Rightarrow> Inr (e, notes)
                        | Some b \<Rightarrow>
                            (case decode_branch b of
                               None \<Rightarrow> Inl (MigrationError (''edge `'' @ edge_id @ ''` has an unsupported branch value''))
                             | Some branch \<Rightarrow> Inr (e\<lparr>e_branch := branch\<rparr>, notes))))))"

fun migrate_edges :: "nat \<Rightarrow> json list \<Rightarrow> (schema_error, edge list \<times> string list) result" where
  "migrate_edges index [] = Inr ([], [])"
| "migrate_edges index (raw # raws) =
     bind_result (migrate_edge index raw) (\<lambda>(e, notes).
       bind_result (migrate_edges (Suc index) raws) (\<lambda>(es, notes'). Inr (e # es, notes @ notes')))"

section \<open>Variables\<close>

text \<open>The derived decoder of \<open>Variable\<close> on an object: a field that is missing has its default,
  \<open>None\<close> is a field of the wrong type.\<close>

fun decode_description :: "json option \<Rightarrow> string option option" where
  "decode_description None = Some None"
| "decode_description (Some JNull) = Some None"
| "decode_description (Some (JStr d)) = Some (Some d)"
| "decode_description (Some _) = None"

fun decode_secret :: "json option \<Rightarrow> bool option" where
  "decode_secret None = Some False"
| "decode_secret (Some (JBool b)) = Some b"
| "decode_secret (Some _) = None"

definition decode_variable :: "jobject \<Rightarrow> variable option" where
  "decode_variable m =
     (case decode_description (om_get m ''description'') of
        None \<Rightarrow> None
      | Some d \<Rightarrow>
          (case decode_secret (om_get m ''secret'') of
             None \<Rightarrow> None
           | Some b \<Rightarrow> Some \<lparr>v_value = unwrap_or JNull (om_get m ''value''), v_description = d, v_secret = b\<rparr>))"

definition plain_variable :: "json \<Rightarrow> variable" where
  "plain_variable v = default_variable\<lparr>v_value := v\<rparr>"

definition migrate_variable :: "json \<Rightarrow> variable" where
  "migrate_variable raw =
     (case raw of
        JObj m \<Rightarrow>
          (if om_has m ''value'' \<or> om_has m ''description'' \<or> om_has m ''secret''
           then unwrap_or (plain_variable raw) (decode_variable m)
           else plain_variable raw)
      | _ \<Rightarrow> plain_variable raw)"

definition migrate_variables :: "jobject \<Rightarrow> variable omap" where
  "migrate_variables vars = fold (\<lambda>(k, raw). om_insert k (migrate_variable raw)) vars om_empty"

section \<open>Documents\<close>

definition declared_version :: "externs \<Rightarrow> jobject \<Rightarrow> string" where
  "declared_version x m =
     unwrap_or ''1'' (or_else (str_field m ''schema_version'')
       (map_option (\<lambda>v. case v of JStr s \<Rightarrow> s | other \<Rightarrow> ext_json_text x other) (om_get m ''version'')))"

definition is_current :: "externs \<Rightarrow> jobject \<Rightarrow> bool" where
  "is_current x m =
     (declared_version x m = schema_version \<and> om_has m ''schema_version'' \<and> om_has m ''nodes'')"

definition array_field :: "jobject \<Rightarrow> string \<Rightarrow> json list" where
  "array_field m k = unwrap_or [] (Option.bind (om_get m k) as_array)"

definition migrated_metadata :: "jobject \<Rightarrow> string \<Rightarrow> metadata" where
  "migrated_metadata m wid =
     (let nested = (\<lambda>k. Option.bind (om_get m ''metadata'') (\<lambda>v. jget v k)) in
      default_metadata\<lparr>
        m_name := unwrap_or wid (Option.bind (or_else (om_get m ''name'') (nested ''name'')) as_str),
        m_description := Option.bind (or_else (om_get m ''description'') (nested ''description'')) as_str\<rparr>)"

definition migrate_document :: "externs \<Rightarrow> jobject \<Rightarrow> (schema_error, workflow \<times> migration_report) result" where
  "migrate_document x m =
     (let wid = unwrap_or ''workflow.migrated'' (str_field m ''id'');
          raw_nodes = array_field m ''nodes'';
          raw_edges = array_field m ''edges''
      in if raw_nodes = [] then Inl (MigrationError ''source document contains no nodes'')
         else bind_result (migrate_nodes 0 raw_nodes) (\<lambda>(nodes, node_notes).
              bind_result (migrate_edges 0 raw_edges) (\<lambda>(edges, edge_notes).
                Inr (\<lparr>w_schema_url = str_field m ''$schema'', w_schema_version = schema_version, w_id = wid,
                      w_metadata = migrated_metadata m wid, w_nodes = nodes, w_edges = edges,
                      w_variables = (case Option.bind (om_get m ''variables'') as_object of
                         None \<Rightarrow> om_empty | Some vars \<Rightarrow> migrate_variables vars)\<rparr>,
                     \<lparr>mr_from = declared_version x m, mr_to = schema_version,
                      mr_notes = node_notes @ [''migrated nodes to the namespaced node-type convention''] @ edge_notes @
                        (if raw_edges = [] then []
                         else [''migrated edges to 2.1 control edges with source/target field names'']),
                      mr_changed = True\<rparr>))))"

definition migrate ::
    "externs \<Rightarrow> (json \<Rightarrow> (string, workflow) result) \<Rightarrow> json \<Rightarrow> (schema_error, workflow \<times> migration_report) result" where
  "migrate x decode v =
     (case as_object v of
        None \<Rightarrow> Inl (MigrationError ''document root must be a JSON object'')
      | Some m \<Rightarrow>
          (if is_current x m
           then (case decode v of
                   Inl e \<Rightarrow> Inl (JsonError e)
                 | Inr w \<Rightarrow> Inr (w, \<lparr>mr_from = declared_version x m, mr_to = schema_version,
                     mr_notes = [''document already used the current schema''], mr_changed = False\<rparr>))
           else migrate_document x m))"

section \<open>Facts\<close>

lemma trim_idem: "trim (trim s) = trim s"
proof -
  have start: "trim_start (trim s) = trim s"
  proof (cases "trim s")
    case (Cons c cs)
    have "c = hd (trim s)" using Cons by simp
    let ?t = "dropWhile is_space s"
    obtain d ds where t: "?t = d # ds" using Cons by (cases ?t) (auto simp: trim_def trim_start_def trim_end_def)
    have d: "\<not> is_space d" using t by (metis hd_dropWhile list.distinct(1) list.sel(1))
    have "\<exists>zs. rev (dropWhile is_space (rev (d # ds))) = d # zs"
      using d by (auto simp: dropWhile_append) (metis rev_rev_ident)
    then obtain zs where "trim s = d # zs" using t by (auto simp: trim_def trim_start_def trim_end_def)
    with d show ?thesis by (simp add: trim_start_def)
  qed (simp add: trim_start_def)
  have "trim_end (trim s) = trim s"
    by (simp add: trim_def trim_end_def)
  with start show ?thesis by (simp only: trim_def)
qed

lemma canonical_legacy: "list_all (\<lambda>(k, ty). map_of legacy_kinds (to_ascii_lowercase (trim ty)) = Some ty) legacy_kinds"
  by code_simp

lemma canonical_idem: "canonical_node_type (canonical_node_type kind) = canonical_node_type kind"
proof (cases "map_of legacy_kinds (to_ascii_lowercase (trim kind))")
  case None
  then show ?thesis by (simp add: canonical_node_type_def trim_idem)
next
  case (Some ty)
  then have "(to_ascii_lowercase (trim kind), ty) \<in> set legacy_kinds" by (rule map_of_SomeD)
  with canonical_legacy have "map_of legacy_kinds (to_ascii_lowercase (trim ty)) = Some ty" by (auto simp: list_all_iff)
  with Some show ?thesis by (simp add: canonical_node_type_def)
qed

lemma node_type_canonical: "node_type_from_value v = Some ty \<Longrightarrow> canonical_node_type ty = ty"
  by (auto simp: node_type_from_value_def canonical_idem split: json.splits)

lemma migrate_node_Inr:
  assumes "migrate_node index raw = Inr (n, notes)"
  shows "canonical_node_type (n_type n) = n_type n \<and> (\<exists>m. n_config n = JObj m) \<and>
    n = (new_node (n_id n) (n_type n))\<lparr>n_label := n_label n, n_config := n_config n\<rparr>"
  using assms by (auto simp: migrate_node_def new_node_def Let_def split: option.splits dest: node_type_canonical)

lemma migrate_nodes_Inr:
  assumes "migrate_nodes index raws = Inr (ns, logs)"
  shows "list_all2 (\<lambda>(i, raw) n. \<exists>notes. migrate_node i raw = Inr (n, notes)) (enumerate index raws) ns"
  using assms
proof (induction index raws arbitrary: ns logs rule: migrate_nodes.induct)
  case (2 index raw raws)
  then show ?case by force
qed simp

lemma migrate_edge_Inr:
  assumes "migrate_edge index raw = Inr (e, notes)"
  shows "e_kind e = Control \<and> e_source_port e = None \<and> e_target_port e = None \<and>
    (\<exists>m. raw = JObj m \<and> Option.bind (or_else (om_get m ''source'') (om_get m ''from'')) as_str = Some (e_source e) \<and>
       Option.bind (or_else (om_get m ''target'') (om_get m ''to'')) as_str = Some (e_target e))"
  using assms by (cases raw) (auto simp: migrate_edge_def new_edge_def Let_def split: option.splits)

lemma migrate_edges_Inr:
  assumes "migrate_edges index raws = Inr (es, logs)"
  shows "list_all2 (\<lambda>(i, raw) e. \<exists>notes. migrate_edge i raw = Inr (e, notes)) (enumerate index raws) es"
  using assms
proof (induction index raws arbitrary: es logs rule: migrate_edges.induct)
  case (2 index raw raws)
  then show ?case by force
qed simp

text \<open>A delay in seconds becomes a whole number of milliseconds in the range of the executor.\<close>

lemma delay_millis_range: "0 \<le> delay_millis s \<and> delay_millis s \<le> i64_max"
proof -
  have "0 \<le> f64_as_i64 (fmax y (Zero False))" for y
    by (cases y) (auto simp: fmax_def flt_def trunc_rat_def split: if_splits)
  moreover have "f64_as_i64 y \<le> i64_max" for y
    by (cases y) (auto simp: i64_max_def)
  ultimately show ?thesis by (simp add: delay_millis_def)
qed

section \<open>Property\<close>

text \<open>The endpoints of a legacy edge, and the settings a migrated node never carries over.\<close>

fun edge_ends :: "json \<Rightarrow> (string \<times> string) option" where
  "edge_ends (JObj m) =
     (case (Option.bind (or_else (om_get m ''source'') (om_get m ''from'')) as_str,
            Option.bind (or_else (om_get m ''target'') (om_get m ''to'')) as_str) of
        (Some s, Some t) \<Rightarrow> Some (s, t) | _ \<Rightarrow> None)"
| "edge_ends _ = None"

definition default_settings :: "node \<Rightarrow> bool" where
  "default_settings n \<longleftrightarrow> n = (new_node (n_id n) (n_type n))\<lparr>n_label := n_label n, n_config := n_config n\<rparr>"

lemma enumerate_list_all2:
  "list_all2 (\<lambda>(i, raw) y. P i raw y) (enumerate k raws) ys \<Longrightarrow> (\<And>i raw y. P i raw y \<Longrightarrow> Q raw y) \<Longrightarrow> list_all2 Q raws ys"
  by (induction raws arbitrary: k ys) (auto simp: list_all2_Cons1)

text \<open>Migration either hands a current document to the decoder untouched, or produces a document
  of the current version with one node and one edge for each of the source, in order: types are
  canonical (migrating them again changes nothing), configurations are objects, edges keep their
  endpoints and are control edges without ports. The execution settings of every migrated node are
  the defaults, whatever the source said.\<close>

theorem migration_result:
  assumes "migrate x decode v = Inr (w, r)"
  shows "\<exists>m. v = JObj m \<and>
    (if mr_changed r
     then w_schema_version w = schema_version \<and> length (w_nodes w) = length (array_field m ''nodes'') \<and>
       list_all (\<lambda>n. canonical_node_type (n_type n) = n_type n \<and> as_object (n_config n) \<noteq> None \<and> default_settings n) (w_nodes w) \<and>
       map (\<lambda>e. Some (e_source e, e_target e)) (w_edges w) = map edge_ends (array_field m ''edges'') \<and>
       list_all (\<lambda>e. e_kind e = Control \<and> e_source_port e = None \<and> e_target_port e = None) (w_edges w)
     else is_current x m \<and> decode v = Inr w)"
proof -
  from assms obtain m where v: "v = JObj m" by (cases v) (auto simp: migrate_def)
  show ?thesis
  proof (cases "is_current x m")
    case True
    with assms v show ?thesis by (auto simp: migrate_def split: sum.splits)
  next
    case False
    with assms v have doc: "migrate_document x m = Inr (w, r)" by (simp add: migrate_def)
    then obtain node_notes edge_notes where
      nodes: "migrate_nodes 0 (array_field m ''nodes'') = Inr (w_nodes w, node_notes)" and
      edges: "migrate_edges 0 (array_field m ''edges'') = Inr (w_edges w, edge_notes)" and
      rest: "w_schema_version w = schema_version" "mr_changed r"
      by (auto simp: migrate_document_def Let_def split: if_splits)
    have ns: "list_all2 (\<lambda>raw n. canonical_node_type (n_type n) = n_type n \<and> as_object (n_config n) \<noteq> None \<and> default_settings n)
        (array_field m ''nodes'') (w_nodes w)"
      by (rule enumerate_list_all2 [OF migrate_nodes_Inr [OF nodes]]) (auto simp: default_settings_def dest: migrate_node_Inr)
    have es: "list_all2 (\<lambda>raw e. edge_ends raw = Some (e_source e, e_target e) \<and>
        e_kind e = Control \<and> e_source_port e = None \<and> e_target_port e = None) (array_field m ''edges'') (w_edges w)"
      by (rule enumerate_list_all2 [OF migrate_edges_Inr [OF edges]]) (auto dest!: migrate_edge_Inr)
    have "map (\<lambda>e. Some (e_source e, e_target e)) (w_edges w) = map edge_ends (array_field m ''edges'')"
      using es by (induction rule: list_all2_induct) auto
    moreover have "list_all (\<lambda>e. e_kind e = Control \<and> e_source_port e = None \<and> e_target_port e = None) (w_edges w)"
      using es by (induction rule: list_all2_induct) auto
    moreover have "list_all (\<lambda>n. canonical_node_type (n_type n) = n_type n \<and> as_object (n_config n) \<noteq> None \<and> default_settings n) (w_nodes w)"
      using ns by (induction rule: list_all2_induct) auto
    ultimately show ?thesis using v rest list_all2_lengthD [OF ns] by simp
  qed
qed

definition legacy_document :: json where
  "legacy_document = JObj (om_of_list
     [(''schema_version'', JStr ''2.0''), (''id'', JStr ''legacy''),
      (''nodes'', JArr [JObj (om_of_list [(''id'', JStr ''start''), (''kind'', JStr ''Start''), (''enabled'', JBool False)]),
                        JObj (om_of_list [(''id'', JStr ''log''), (''kind'', JStr ''System.Log'')])]),
      (''edges'', JArr [JObj (om_of_list [(''from'', JStr ''start''), (''to'', JStr ''log'')])])])"

lemma migration_result_witness:
  "\<exists>w r. migrate silent_externs (\<lambda>_. Inl []) legacy_document = Inr (w, r) \<and> mr_changed r \<and>
     map (\<lambda>e. Some (e_source e, e_target e)) (w_edges w) = [Some (''start'', ''log'')]"
proof -
  have "(case migrate silent_externs (\<lambda>_. Inl []) legacy_document of Inr (w, r) \<Rightarrow> mr_changed r | Inl e \<Rightarrow> False)"
    by code_simp
  then obtain w r where m: "migrate silent_externs (\<lambda>_. Inl []) legacy_document = Inr (w, r)" and r: "mr_changed r"
    by (auto split: sum.splits)
  from migration_result [OF m] r obtain d where d:
    "legacy_document = JObj d" "map (\<lambda>e. Some (e_source e, e_target e)) (w_edges w) = map edge_ends (array_field d ''edges'')"
    by auto
  have "map edge_ends (array_field (the (as_object legacy_document)) ''edges'') = [Some (''start'', ''log'')]"
    by code_simp
  then have "map edge_ends (array_field d ''edges'') = [Some (''start'', ''log'')]"
    unfolding d(1) as_object.simps option.sel .
  with d(2) m r show ?thesis by (intro exI [of _ w] exI [of _ r]) simp
qed

end
