(* ===== verification/Nodara_Engine.thy ===== *)
theory Nodara_Engine
  imports Nodara_Registry Nodara_Expr Nodara_Validation
begin

text \<open>
  The engine (\<open>engine.rs\<close>). \<open>run_engine\<close> is \<open>WorkflowEngine::run\<close>: validation, the plan, the
  loop over the topological order and the terminal event. The body of the loop is cut at
  its comments into stages; a stage breaks the loop, continues with the next node or
  proceeds to the next stage with a value, and \<open>None\<close> means that the run thread blocks for
  ever (an operator never resumes it, or an executor or approver never returns). The event
  bus, the audit trail, the control handle and the world are the \<open>shared\<close> state of
  \<open>Nodara_Context\<close>. Identifiers and clock readings come from the machine.
\<close>

section \<open>Errors of a run\<close>

datatype execution_error =
    ValidationFailed nat nat report
  | SchemaFailed string
  | NoEntryPoint
  | GraphFailed graph_error
  | UnknownNodeType string string
  | NodeExecutionFailed string string node_error
  | RunCancelledError

fun graph_error_text :: "graph_error \<Rightarrow> string" where
  "graph_error_text (Cycle nodes) = ''cycle detected involving: '' @ nodes"
| "graph_error_text (NodeNotFound nid) = ''node not found: '' @ nid"

fun execution_error_text :: "execution_error \<Rightarrow> string" where
  "execution_error_text (ValidationFailed errors warnings r) =
     ''workflow validation failed with '' @ show_nat errors @ '' error(s) and '' @ show_nat warnings @ '' warning(s)''"
| "execution_error_text (SchemaFailed e) = e"
| "execution_error_text NoEntryPoint = ''workflow has no entry point''"
| "execution_error_text (GraphFailed e) = graph_error_text e"
| "execution_error_text (UnknownNodeType nid ty) = ''unknown node type `'' @ ty @ ''` for node `'' @ nid @ ''`''"
| "execution_error_text (NodeExecutionFailed nid ty e) =
     ''node `'' @ nid @ ''` ('' @ ty @ '') failed: '' @ node_error_text e"
| "execution_error_text RunCancelledError = ''run cancelled''"

fun execution_error_code :: "execution_error \<Rightarrow> string" where
  "execution_error_code (ValidationFailed _ _ _) = ''E_VALIDATION''"
| "execution_error_code (SchemaFailed _) = ''E_SCHEMA''"
| "execution_error_code NoEntryPoint = ''E_NO_ENTRY_POINT''"
| "execution_error_code (GraphFailed _) = ''E_GRAPH''"
| "execution_error_code (UnknownNodeType _ _) = ''E_UNKNOWN_NODE_TYPE''"
| "execution_error_code (NodeExecutionFailed _ _ e) = node_error_code e"
| "execution_error_code RunCancelledError = ''E_CANCELLED''"

section \<open>Requests, options, outcomes\<close>

record engine_options =
  eo_validate :: bool
  eo_validation :: validation_options
  eo_max_nodes :: nat

definition default_engine_options :: engine_options where
  "default_engine_options =
     \<lparr>eo_validate = True, eo_validation = default_validation_options, eo_max_nodes = 10000\<rparr>"

record 'w run_request =
  rr_workflow :: workflow
  rr_run_id :: "string option"
  rr_variables :: jobject
  rr_start_paused :: bool
  rr_artifacts :: "artifact_store option"
  rr_approval :: "'w approval_handler option"

definition new_run_request :: "workflow \<Rightarrow> 'w run_request" where
  "new_run_request w =
     \<lparr>rr_workflow = w, rr_run_id = None, rr_variables = om_empty, rr_start_paused = False,
      rr_artifacts = None, rr_approval = None\<rparr>"

definition with_run_id :: "string \<Rightarrow> 'w run_request \<Rightarrow> 'w run_request" where
  "with_run_id run_id r = r\<lparr>rr_run_id := Some run_id\<rparr>"

definition with_variables :: "jobject \<Rightarrow> 'w run_request \<Rightarrow> 'w run_request" where
  "with_variables vars r = r\<lparr>rr_variables := vars\<rparr>"

definition with_start_paused :: "bool \<Rightarrow> 'w run_request \<Rightarrow> 'w run_request" where
  "with_start_paused p r = r\<lparr>rr_start_paused := p\<rparr>"

definition with_artifacts :: "artifact_store \<Rightarrow> 'w run_request \<Rightarrow> 'w run_request" where
  "with_artifacts store r = r\<lparr>rr_artifacts := Some store\<rparr>"

definition with_approval :: "'w approval_handler \<Rightarrow> 'w run_request \<Rightarrow> 'w run_request" where
  "with_approval handler r = r\<lparr>rr_approval := Some handler\<rparr>"

record run_failure =
  rf_code :: string
  rf_message :: string

record run_outcome =
  ro_run_id :: string
  ro_status :: run_status
  ro_nodes_executed :: nat
  ro_variables :: jobject
  ro_duration_ms :: u64
  ro_failure :: "run_failure option"

definition is_success :: "run_outcome \<Rightarrow> bool" where
  "is_success o' = (ro_status o' = Completed)"

record 'w engine =
  en_registry :: "'w registry"
  en_policy :: capability_policy
  en_approval :: "'w approval_handler"
  en_options :: engine_options

definition new_engine :: "'w registry \<Rightarrow> 'w engine" where
  "new_engine r =
     \<lparr>en_registry = r, en_policy = default_policy,
      en_approval = (\<lambda>request w. Some (auto_approve request, w)), en_options = default_engine_options\<rparr>"

definition engine_with_policy :: "capability_policy \<Rightarrow> 'w engine \<Rightarrow> 'w engine" where
  "engine_with_policy p en = en\<lparr>en_policy := p\<rparr>"

definition engine_with_approval :: "'w approval_handler \<Rightarrow> 'w engine \<Rightarrow> 'w engine" where
  "engine_with_approval h en = en\<lparr>en_approval := h\<rparr>"

definition engine_with_options :: "engine_options \<Rightarrow> 'w engine \<Rightarrow> 'w engine" where
  "engine_with_options opts en = en\<lparr>en_options := opts\<rparr>"

definition registry_index :: "'w registry \<Rightarrow> node_type_index" where
  "registry_index r = \<lparr>ix_node_types = registry_node_types r, ix_descriptor = registry_descriptor r\<rparr>"

section \<open>Helpers of the engine\<close>

definition cancelled_failure :: run_failure where
  "cancelled_failure = \<lparr>rf_code = ''E_CANCELLED'', rf_message = ''run cancelled''\<rparr>"

definition seeded_variables :: "workflow \<Rightarrow> jobject \<Rightarrow> jobject" where
  "seeded_variables w overrides = om_extend (map (\<lambda>(name, v). (name, v_value v)) (w_variables w)) overrides"

definition secret_names :: "workflow \<Rightarrow> string list" where
  "secret_names w = map fst (filter (\<lambda>(name, v). v_secret v) (w_variables w))"

definition retry_delay_ms :: "node \<Rightarrow> u32 \<Rightarrow> u64" where
  "retry_delay_ms n failed_attempt =
     (let delay = (case n_retry_backoff n of
            Fixed \<Rightarrow> n_retry_delay_ms n
          | Exponential \<Rightarrow>
              (let shift = min (sat_sub failed_attempt 1) 63
               in sat_mul (n_retry_delay_ms n) (push_bit (unat shift) 1)))
      in case n_retry_max_delay_ms n of None \<Rightarrow> delay | Some maximum \<Rightarrow> min delay maximum)"

definition ctx_is_cancelled :: "'w exec_context \<Rightarrow> bool \<times> 'w exec_context" where
  "ctx_is_cancelled c = (let (b, s) = sh_is_cancelled (cx_shared c) in (b, c\<lparr>cx_shared := s\<rparr>))"

text \<open>\<open>wait_interruptible\<close>: false when cancellation was seen before, between or after the slices.\<close>

function wait_interruptible :: "'w machine \<Rightarrow> u64 \<Rightarrow> 'w exec_context \<Rightarrow> bool \<times> 'w exec_context" where
  "wait_interruptible m remaining c =
     (if remaining = 0 then (let (b, c') = ctx_is_cancelled c in (\<not> b, c'))
      else (case ctx_is_cancelled c of
              (True, c1) \<Rightarrow> (False, c1)
            | (False, c1) \<Rightarrow>
                let slice = min remaining 25
                in wait_interruptible m (remaining - slice) (on_shared (sh_sleep m slice) c1)))"
  by pat_completeness auto
termination
  by (relation "measure (\<lambda>(m, remaining, c). unat remaining)") (auto simp: slice_decreases)

declare wait_interruptible.simps [simp del]

definition ctx_await :: "'w exec_context \<Rightarrow> (bool \<times> 'w exec_context) option" where
  "ctx_await c =
     map_option (\<lambda>(granted, ctl). (granted, on_shared (\<lambda>s. s\<lparr>sh_control := ctl\<rparr>) c)) (await_permission (cx_control c))"

definition ctx_is_paused :: "'w exec_context \<Rightarrow> bool \<times> 'w exec_context" where
  "ctx_is_paused c =
     (let (b, ctl) = is_paused (cx_control c) in (b, on_shared (\<lambda>s. s\<lparr>sh_control := ctl\<rparr>) c))"

definition ctx_pause :: "'w exec_context \<Rightarrow> 'w exec_context" where
  "ctx_pause c = on_shared (\<lambda>s. s\<lparr>sh_control := pause_control (sh_control s)\<rparr>) c"

definition ctx_instant :: "'w machine \<Rightarrow> 'w exec_context \<Rightarrow> nat \<times> 'w exec_context" where
  "ctx_instant m c =
     (let (t, w) = mc_instant_ns m (sh_world (cx_shared c)) in (t, on_shared (\<lambda>s. s\<lparr>sh_world := w\<rparr>) c))"

definition ctx_elapsed :: "'w machine \<Rightarrow> nat \<Rightarrow> 'w exec_context \<Rightarrow> u64 \<times> 'w exec_context" where
  "ctx_elapsed m started c =
     (let (d, w) = elapsed_ms m started (sh_world (cx_shared c)) in (d, on_shared (\<lambda>s. s\<lparr>sh_world := w\<rparr>) c))"

datatype node_outcome = SuccessOutcome | FailureOutcome

fun branch_matches :: "edge_branch \<Rightarrow> node_outcome \<Rightarrow> bool" where
  "branch_matches Always outcome = True"
| "branch_matches Success outcome = (outcome = SuccessOutcome)"
| "branch_matches Failure outcome = (outcome = FailureOutcome)"

definition edge_is_taken :: "'w machine \<Rightarrow> edge \<Rightarrow> node_outcome \<Rightarrow> 'w exec_context \<Rightarrow> bool \<times> 'w exec_context" where
  "edge_is_taken m e outcome c =
     (if \<not> branch_matches (e_branch e) outcome then (False, c)
      else (case e_condition e of
              None \<Rightarrow> (True, c)
            | Some condition \<Rightarrow>
                (case evaluate_expression (mc_ext m) condition (cx_variables c) of
                   Inr v \<Rightarrow> (truthy v, c)
                 | Inl err \<Rightarrow>
                     (False, ctx_emit m (Log Warn
                        (''edge `'' @ e_id e @ ''` guard `'' @ condition @ ''` could not be evaluated: '' @
                         expr_error_text err @ ''; treating as false'') None) c))))"

text \<open>The loop over outgoing edges: a taken edge activates its target and is announced. The
  flag says whether any edge was taken.\<close>

fun activate_edges ::
    "'w machine \<Rightarrow> node_outcome \<Rightarrow> edge list \<Rightarrow> string list \<Rightarrow> 'w exec_context \<Rightarrow> bool \<times> string list \<times> 'w exec_context" where
  "activate_edges m outcome [] activated c = (False, activated, c)"
| "activate_edges m outcome (e # es) activated c =
     (case edge_is_taken m e outcome c of
        (True, c1) \<Rightarrow>
          (let c2 = ctx_emit m (EdgeActivated (e_id e) (e_source e) (e_target e) (e_branch e)) c1;
               (taken, rest) = activate_edges m outcome es (e_target e # activated) c2
           in (True, rest))
      | (False, c1) \<Rightarrow> activate_edges m outcome es activated c1)"

text \<open>The values that arrive on data edges.\<close>

fun transfer_inputs ::
    "'w machine \<Rightarrow> jobject omap \<Rightarrow> edge list \<Rightarrow> jobject \<Rightarrow> 'w exec_context \<Rightarrow> jobject \<times> 'w exec_context" where
  "transfer_inputs m outputs [] inputs c = (inputs, c)"
| "transfer_inputs m outputs (e # es) inputs c =
     (case (e_source_port e, e_target_port e) of
        (Some source_port, Some target_port) \<Rightarrow>
          (let v = (case Option.bind (om_get outputs (e_source e)) (\<lambda>out. om_get out source_port) of
                      Some v \<Rightarrow> v | None \<Rightarrow> JNull)
           in transfer_inputs m outputs es (om_insert target_port v inputs)
                (ctx_emit m (DataTransferred (e_id e) (e_source e) (e_target e) source_port target_port v) c))
      | _ \<Rightarrow> transfer_inputs m outputs es inputs c)"

section \<open>Attempts\<close>

text \<open>The retry loop; \<open>Some (None, _)\<close> is a cancellation seen while waiting.\<close>

definition may_retry :: "node \<Rightarrow> u32 \<Rightarrow> node_error \<Rightarrow> bool" where
  "may_retry n attempt e = (attempt \<le> n_retry n \<and> e \<noteq> CancelledError)"

definition retry_message :: "node \<Rightarrow> u32 \<Rightarrow> node_error \<Rightarrow> string" where
  "retry_message n attempt e =
     ''node `'' @ n_id n @ ''` attempt '' @ show_nat (unat attempt) @ '' failed: '' @ node_error_text e @ ''; retrying''"

partial_function (option) attempt_loop ::
    "'w machine \<Rightarrow> 'w execute \<Rightarrow> node \<Rightarrow> node_input \<Rightarrow> u32 \<Rightarrow> 'w exec_context
       \<Rightarrow> ((node_error, node_output) result option \<times> 'w exec_context) option" where
  "attempt_loop m ex n input attempt c =
     Option.bind (ex input c) (\<lambda>(r, c1).
       (let attempt' = sat_add attempt 1 in
        case r of
          Inr out \<Rightarrow> Some (Some (Inr out), c1)
        | Inl e \<Rightarrow>
            if may_retry n attempt' e
            then (case wait_interruptible m (retry_delay_ms n attempt')
                         (ctx_log m Warn (retry_message n attempt' e) c1) of
                    (granted, c2) \<Rightarrow>
                      if granted then attempt_loop m ex n input attempt' c2 else Some (None, c2))
            else Some (Some (Inl e), c1)))"

declare attempt_loop.simps [code]

section \<open>The state of the loop and its stages\<close>

record 'w loop_state =
  ls_context :: "'w exec_context"
  ls_activated :: "string list"
  ls_outputs :: "jobject omap"
  ls_executed :: nat
  ls_status :: run_status
  ls_failure :: "run_failure option"

datatype ('s, 'a) stage = Break 's | Continue 's | Proceed 's 'a

definition then_stage ::
    "('s, 'a) stage option \<Rightarrow> ('s \<Rightarrow> 'a \<Rightarrow> ('s, 'b) stage option) \<Rightarrow> ('s, 'b) stage option" where
  "then_stage r f =
     (case r of
        None \<Rightarrow> None
      | Some (Break s) \<Rightarrow> Some (Break s)
      | Some (Continue s) \<Rightarrow> Some (Continue s)
      | Some (Proceed s a) \<Rightarrow> f s a)"

definition in_context :: "'w exec_context \<Rightarrow> 'w loop_state \<Rightarrow> 'w loop_state" where
  "in_context c st = st\<lparr>ls_context := c\<rparr>"

definition stop_run :: "run_status \<Rightarrow> run_failure \<Rightarrow> 'w loop_state \<Rightarrow> ('w loop_state, 'a) stage" where
  "stop_run status failure st = Break (st\<lparr>ls_status := status, ls_failure := Some failure\<rparr>)"

definition stop_cancelled :: "'w loop_state \<Rightarrow> ('w loop_state, 'a) stage" where
  "stop_cancelled st = stop_run Cancelled cancelled_failure st"

text \<open>Cancellation, activation, the node limit and permission.\<close>

definition turn_stage :: "'w engine \<Rightarrow> string \<Rightarrow> 'w loop_state \<Rightarrow> ('w loop_state, unit) stage option" where
  "turn_stage en nid st =
     (let (cancelled, c1) = ctx_is_cancelled (ls_context st); st1 = in_context c1 st in
      if cancelled then Some (stop_cancelled st1)
      else if nid \<notin> set (ls_activated st1) then Some (Continue st1)
      else if eo_max_nodes (en_options en) \<le> ls_executed st1
      then Some (stop_run Failed
        \<lparr>rf_code = ''E_NODE_LIMIT'',
         rf_message = ''execution exceeded '' @ show_nat (eo_max_nodes (en_options en)) @ '' nodes''\<rparr> st1)
      else (case ctx_await c1 of
              None \<Rightarrow> None
            | Some (granted, c2) \<Rightarrow>
                Some (if granted then Proceed (in_context c2 st1) () else stop_cancelled (in_context c2 st1))))"

text \<open>The node itself; a disabled node passes its success branches on.\<close>

definition follow_edges ::
    "'w machine \<Rightarrow> workflow_graph \<Rightarrow> node_outcome \<Rightarrow> node \<Rightarrow> 'w loop_state \<Rightarrow> bool \<times> 'w loop_state" where
  "follow_edges m g outcome n st =
     (let (taken, activated, c) =
            activate_edges m outcome (edges_from g (n_id n)) (ls_activated st) (ls_context st)
      in (taken, st\<lparr>ls_activated := activated, ls_context := c\<rparr>))"

definition enter_stage ::
    "'w machine \<Rightarrow> workflow_graph \<Rightarrow> string \<Rightarrow> 'w loop_state \<Rightarrow> ('w loop_state, node) stage option" where
  "enter_stage m g nid st =
     (case graph_node g nid of
        None \<Rightarrow> Some (Continue st)
      | Some n \<Rightarrow>
          (let c1 = set_node (Some (n_id n)) (ls_context st) in
           if n_enabled n then Some (Proceed (in_context c1 st) n)
           else (let c2 = ctx_log m Info (''node `'' @ n_id n @ ''` is disabled and was skipped'') c1
                 in Some (Continue (snd (follow_edges m g SuccessOutcome n (in_context c2 st)))))))"

definition announce_failure :: "'w machine \<Rightarrow> node \<Rightarrow> node_error \<Rightarrow> bool \<Rightarrow> 'w exec_context \<Rightarrow> 'w exec_context" where
  "announce_failure m n e retry c =
     ctx_emit m (NodeFailed (n_id n) (node_error_code e) (node_error_text e) retry (ctx_redacted c)) c"

definition failure_of :: "node_error \<Rightarrow> run_failure" where
  "failure_of e = \<lparr>rf_code = node_error_code e, rf_message = node_error_text e\<rparr>"

definition condition_stage :: "'w machine \<Rightarrow> node \<Rightarrow> 'w loop_state \<Rightarrow> ('w loop_state, unit) stage option" where
  "condition_stage m n st =
     (case n_condition n of
        None \<Rightarrow> Some (Proceed st ())
      | Some condition \<Rightarrow>
          (case evaluate_expression (mc_ext m) condition (cx_variables (ls_context st)) of
             Inr v \<Rightarrow>
               if truthy v then Some (Proceed st ())
               else Some (Continue (in_context
                 (ctx_log m Info (''node `'' @ n_id n @ ''` skipped because condition is false'') (ls_context st)) st))
           | Inl err \<Rightarrow>
               (let e = InvalidConfig (''invalid node condition `'' @ condition @ ''`: '' @ expr_error_text err);
                    c1 = announce_failure m n e False (ls_context st);
                    c2 = ctx_record m AuditNodeFailed (node_error_text e) (record_node (n_id n) (n_type n)) c1
                in Some (stop_run Failed (failure_of e) (in_context c2 st)))))"

definition breakpoint_stage :: "'w machine \<Rightarrow> node \<Rightarrow> 'w loop_state \<Rightarrow> ('w loop_state, unit) stage option" where
  "breakpoint_stage m n st =
     (if \<not> n_breakpoint n then Some (Proceed st ())
      else (case ctx_is_paused (ls_context st) of
              (True, c1) \<Rightarrow> Some (Proceed (in_context c1 st) ())
            | (False, c1) \<Rightarrow>
                (let c2 = ctx_emit m RunPaused (ctx_pause
                       (ctx_log m Info (''breakpoint hit before node `'' @ n_id n @ ''`'') c1)) in
                 case ctx_await c2 of
                   None \<Rightarrow> None
                 | Some (granted, c3) \<Rightarrow>
                     Some (if granted then Proceed (in_context c3 st) () else stop_cancelled (in_context c3 st)))))"

definition executor_stage :: "'w engine \<Rightarrow> node \<Rightarrow> 'w loop_state \<Rightarrow> ('w loop_state, 'w node_executor) stage option" where
  "executor_stage en n st =
     (case registry_get (en_registry en) (n_type n) of
        None \<Rightarrow>
          (let e = UnknownNodeType (n_id n) (n_type n)
           in Some (stop_run Failed \<lparr>rf_code = execution_error_code e, rf_message = execution_error_text e\<rparr> st))
      | Some ex \<Rightarrow> Some (Proceed st ex))"

definition authorize_stage ::
    "'w machine \<Rightarrow> node \<Rightarrow> node_descriptor \<Rightarrow> 'w loop_state \<Rightarrow> ('w loop_state, json) stage option" where
  "authorize_stage m n d st =
     (let c = ls_context st;
          config = resolve_config (mc_ext m) (ctx_scope c) (n_config n) (d_config_schema d)
      in case authorize m (n_type n) (d_permissions d) (d_dangerous d) config c of
           None \<Rightarrow> None
         | Some (Inr decision, c1) \<Rightarrow> Some (Proceed (in_context c1 st) config)
         | Some (Inl e, c1) \<Rightarrow>
             (let c2 = announce_failure m n e (retryable e) c1;
                  c3 = ctx_record m AuditNodeFailed (node_error_text e) (record_node (n_id n) (n_type n)) c2
              in Some (stop_run (if e = CancelledError then Cancelled else Failed) (failure_of e) (in_context c3 st))))"

definition start_stage ::
    "'w machine \<Rightarrow> workflow_graph \<Rightarrow> node \<Rightarrow> json \<Rightarrow> 'w loop_state \<Rightarrow> ('w loop_state, node_input \<times> nat) stage option" where
  "start_stage m g n config st =
     (let (inputs, c1) = transfer_inputs m (ls_outputs st) (data_edges_to g (n_id n)) om_empty (ls_context st);
          input = \<lparr>ni_node_id = n_id n, ni_node_type = n_type n, ni_config = n_config n,
                   ni_resolved_config = config, ni_inputs = inputs, ni_timeout_ms = n_timeout_ms n\<rparr>;
          snapshot = \<lparr>is_config = n_config n, is_resolved_config = config, is_inputs = inputs,
                      is_variables_before = ctx_redacted c1, is_timeout_ms = n_timeout_ms n\<rparr>;
          c2 = ctx_emit m (NodeStarted (n_id n) (n_type n) (Some snapshot)) c1;
          c3 = ctx_record m AuditNodeStarted (''node `'' @ n_id n @ ''` started'') (record_node (n_id n) (n_type n)) c2;
          (started, c4) = ctx_instant m c3;
          (granted, c5) = wait_interruptible m (n_delay_before_ms n) c4
      in Some (if granted then Proceed (in_context c5 st) (input, started)
               else stop_cancelled (in_context c5 st)))"

definition attempt_stage ::
    "'w machine \<Rightarrow> node \<Rightarrow> 'w execute \<Rightarrow> node_input \<Rightarrow> 'w loop_state
       \<Rightarrow> ('w loop_state, (node_error, node_output) result) stage option" where
  "attempt_stage m n ex input st =
     (case attempt_loop m ex n input 0 (ls_context st) of
        None \<Rightarrow> None
      | Some (None, c) \<Rightarrow> Some (stop_cancelled (in_context c st))
      | Some (Some r, c) \<Rightarrow> Some (Proceed (in_context c st) r))"

text \<open>The value captured in \<open>result_var\<close>.\<close>

definition captured_value :: "node \<Rightarrow> node_output \<Rightarrow> json" where
  "captured_value n out =
     (case n_result_port n of
        Some p \<Rightarrow> (case om_get (no_outputs out) p of Some v \<Rightarrow> v | None \<Rightarrow> JNull)
      | None \<Rightarrow>
          (case om_get (no_outputs out) ''out'' of
             Some v \<Rightarrow> v
           | None \<Rightarrow> (case no_outputs out of [] \<Rightarrow> JNull | (k, v) # _ \<Rightarrow> v)))"

definition publish_result :: "node \<Rightarrow> node_output \<Rightarrow> 'w exec_context \<Rightarrow> 'w exec_context" where
  "publish_result n out c =
     (let c1 = fold (\<lambda>(name, v). set_variable name v) (no_variables out) c in
      case n_result_var n of
        Some name \<Rightarrow> if name = [] then c1 else set_variable name (captured_value n out) c1
      | None \<Rightarrow> c1)"

definition success_stage ::
    "'w machine \<Rightarrow> workflow_graph \<Rightarrow> node \<Rightarrow> nat \<Rightarrow> node_output \<Rightarrow> 'w loop_state \<Rightarrow> ('w loop_state, unit) stage option" where
  "success_stage m g n started out st =
     (let (duration_ms, c1) = ctx_elapsed m started (ls_context st);
          c2 = publish_result n out c1;
          c3 = ctx_emit m (NodeFinished (n_id n) (no_outputs out) (ctx_redacted c2) duration_ms) c2;
          c4 = ctx_record m AuditNodeFinished
                 (''node `'' @ n_id n @ ''` finished in '' @ show_nat (unat duration_ms) @ ''ms'')
                 (record_node (n_id n) (n_type n)) c3;
          (granted, c5) = wait_interruptible m (n_delay_after_ms n) c4;
          st1 = st\<lparr>ls_executed := Suc (ls_executed st), ls_outputs := om_insert (n_id n) (no_outputs out) (ls_outputs st),
                   ls_context := c5\<rparr>
      in if \<not> granted then Some (stop_cancelled st1)
         else (let st2 = snd (follow_edges m g SuccessOutcome n st1)
               in Some (if n_type n = ''core.End'' then Break st2 else Continue st2)))"

definition error_value :: "node \<Rightarrow> node_error \<Rightarrow> json" where
  "error_value n e =
     JObj [(''code'', JStr (node_error_code e)), (''message'', JStr (node_error_text e)),
           (''node_id'', JStr (n_id n)), (''retryable'', JBool (retryable e))]"

definition failure_stage ::
    "'w machine \<Rightarrow> workflow_graph \<Rightarrow> node \<Rightarrow> nat \<Rightarrow> node_error \<Rightarrow> 'w loop_state \<Rightarrow> ('w loop_state, unit) stage option" where
  "failure_stage m g n started e st =
     (let (duration_ms, c1) = ctx_elapsed m started (ls_context st);
          c2 = set_variable ''last_error'' (error_value n e) c1;
          c3 = announce_failure m n e (retryable e) c2;
          c4 = ctx_record m AuditNodeFailed (''node `'' @ n_id n @ ''` failed: '' @ node_error_text e)
                 (\<lambda>r. record_detail (JObj [(''duration_ms'', JNum (PosInt duration_ms))])
                    (record_node (n_id n) (n_type n) r)) c3;
          st1 = in_context c4 st;
          has_failure_route = list_ex (\<lambda>e'. e_branch e' = Failure) (edges_from g (n_id n));
          stop = (\<lambda>s. stop_run (if e = CancelledError then Cancelled else Failed) (failure_of e) s)
      in if e \<noteq> CancelledError \<and> (has_failure_route \<or> n_continue_on_error n)
         then (let (routed_failure, st2) = follow_edges m g FailureOutcome n st1 in
               if routed_failure \<or> n_continue_on_error n
               then Some (Continue (in_context (ctx_log m Warn
                 (''node `'' @ n_id n @ ''` failed; continuing because '' @
                  (if routed_failure then ''a failure branch handles it'' else ''`continue_on_error` is enabled''))
                 (ls_context st2)) st2))
               else Some (stop st2))
         else Some (stop st1))"

definition conclude_stage ::
    "'w machine \<Rightarrow> workflow_graph \<Rightarrow> node \<Rightarrow> nat \<Rightarrow> (node_error, node_output) result \<Rightarrow> 'w loop_state
       \<Rightarrow> ('w loop_state, unit) stage option" where
  "conclude_stage m g n started r st =
     (case r of Inr out \<Rightarrow> success_stage m g n started out st | Inl e \<Rightarrow> failure_stage m g n started e st)"

text \<open>One node, from the permission to run it to the edges it activates.\<close>

definition execute_node ::
    "'w machine \<Rightarrow> workflow_graph \<Rightarrow> node \<Rightarrow> 'w node_executor \<Rightarrow> 'w loop_state \<Rightarrow> ('w loop_state, unit) stage option" where
  "execute_node m g n ex st =
     then_stage (authorize_stage m n (ex_descriptor ex) st) (\<lambda>st1 config.
     then_stage (start_stage m g n config st1) (\<lambda>st2 (input, started).
     then_stage (attempt_stage m n (ex_execute ex) input st2) (\<lambda>st3 r.
       conclude_stage m g n started r st3)))"

definition run_node ::
    "'w machine \<Rightarrow> 'w engine \<Rightarrow> workflow_graph \<Rightarrow> string \<Rightarrow> 'w loop_state \<Rightarrow> ('w loop_state, unit) stage option" where
  "run_node m en g nid st =
     then_stage (turn_stage en nid st) (\<lambda>st1 _.
     then_stage (enter_stage m g nid st1) (\<lambda>st2 n.
     then_stage (condition_stage m n st2) (\<lambda>st3 _.
     then_stage (breakpoint_stage m n st3) (\<lambda>st4 _.
     then_stage (executor_stage en n st4) (\<lambda>st5 ex.
       execute_node m g n ex st5)))))"

fun run_nodes ::
    "'w machine \<Rightarrow> 'w engine \<Rightarrow> workflow_graph \<Rightarrow> string list \<Rightarrow> 'w loop_state \<Rightarrow> 'w loop_state option" where
  "run_nodes m en g [] st = Some st"
| "run_nodes m en g (nid # rest) st =
     (case run_node m en g nid st of
        None \<Rightarrow> None
      | Some (Break st') \<Rightarrow> Some st'
      | Some (Continue st') \<Rightarrow> run_nodes m en g rest st'
      | Some (Proceed st' _) \<Rightarrow> run_nodes m en g rest st')"

section \<open>A whole run\<close>

text \<open>The JSON form of a report: what its \<open>Serialize\<close> attributes say.\<close>

fun severity_name :: "severity \<Rightarrow> string" where
  "severity_name InfoSeverity = ''info''"
| "severity_name WarningSeverity = ''warning''"
| "severity_name ErrorSeverity = ''error''"

definition optional_field :: "string \<Rightarrow> string option \<Rightarrow> (string \<times> json) list" where
  "optional_field key v = (case v of None \<Rightarrow> [] | Some s \<Rightarrow> [(key, JStr s)])"

definition diagnostic_json :: "diagnostic \<Rightarrow> json" where
  "diagnostic_json d =
     JObj (om_of_list
       ([(''severity'', JStr (severity_name (dg_severity d))), (''code'', JStr (dg_code d)),
         (''message'', JStr (dg_message d)), (''path'', JStr (dg_path d))] @
        optional_field ''node_id'' (dg_node_id d) @ optional_field ''edge_id'' (dg_edge_id d) @
        optional_field ''hint'' (dg_hint d)))"

definition report_json :: "report \<Rightarrow> json" where
  "report_json r = JObj [(''diagnostics'', JArr (map diagnostic_json r))]"

definition run_failure_json :: "run_failure option \<Rightarrow> json" where
  "run_failure_json f =
     (case f of
        None \<Rightarrow> JNull
      | Some f \<Rightarrow> JObj [(''code'', JStr (rf_code f)), (''message'', JStr (rf_message f))])"

definition sh_finish :: "'w shared \<Rightarrow> 'w shared" where
  "sh_finish s = s\<lparr>sh_control := finish_control (sh_control s)\<rparr>"

definition sh_elapsed :: "'w machine \<Rightarrow> nat \<Rightarrow> 'w shared \<Rightarrow> u64 \<times> 'w shared" where
  "sh_elapsed m started s = (let (d, w) = elapsed_ms m started (sh_world s) in (d, s\<lparr>sh_world := w\<rparr>))"

definition fail_fast ::
    "'w machine \<Rightarrow> string \<Rightarrow> nat \<Rightarrow> jobject \<Rightarrow> string \<Rightarrow> string \<Rightarrow> 'w shared \<Rightarrow> run_outcome \<times> 'w shared" where
  "fail_fast m run_id started vars code message s =
     (let s1 = sh_finish (sh_emit m (RunFailed code message) s);
          (duration_ms, s2) = sh_elapsed m started s1
      in (\<lparr>ro_run_id = run_id, ro_status = Failed, ro_nodes_executed = 0, ro_variables = vars,
           ro_duration_ms = duration_ms, ro_failure = Some \<lparr>rf_code = code, rf_message = message\<rparr>\<rparr>, s2))"

definition begin_run :: "'w machine \<Rightarrow> bool \<Rightarrow> 'w exec_context \<Rightarrow> 'w exec_context" where
  "begin_run m start_paused c =
     (let c1 = ctx_emit m (RunStarted (cx_workflow_id c)) c;
          c2 = (if start_paused then ctx_emit m RunPaused c1 else c1)
      in ctx_record m AuditRunStarted (''run started for workflow `'' @ cx_workflow_id c @ ''`'') id c2)"

definition terminal_event :: "run_status \<Rightarrow> run_failure option \<Rightarrow> nat \<Rightarrow> u64 \<Rightarrow> execution_event" where
  "terminal_event status failure executed duration_ms =
     (if status = Completed then RunCompleted executed duration_ms
      else if status = Cancelled then RunCancelled (map_option rf_message failure)
      else (case failure of
              Some f \<Rightarrow> RunFailed (rf_code f) (rf_message f)
            | None \<Rightarrow> RunFailed ''E_UNKNOWN'' ''unknown failure''))"

definition finish_run :: "'w machine \<Rightarrow> nat \<Rightarrow> 'w loop_state \<Rightarrow> run_outcome \<times> 'w shared" where
  "finish_run m started st =
     (let c1 = set_node None (ls_context st);
          (duration_ms, c2) = ctx_elapsed m started c1;
          c3 = ctx_emit m (terminal_event (ls_status st) (ls_failure st) (ls_executed st) duration_ms) c2;
          c4 = ctx_record m AuditRunFinished (''run finished with status '' @ run_status_debug (ls_status st))
                 (record_detail (JObj
                   [(''duration_ms'', JNum (PosInt duration_ms)),
                    (''failure'', run_failure_json (ls_failure st)),
                    (''nodes_executed'', JNum (num_of_u64 (ls_executed st)))])) c3
      in (\<lparr>ro_run_id = cx_run_id c4, ro_status = ls_status st, ro_nodes_executed = ls_executed st,
           ro_variables = ctx_redacted c1, ro_duration_ms = duration_ms, ro_failure = ls_failure st\<rparr>,
          sh_finish (cx_shared c4)))"

definition initial_state :: "'w exec_context \<Rightarrow> string \<Rightarrow> 'w loop_state" where
  "initial_state c entry_id =
     \<lparr>ls_context = c, ls_activated = [entry_id], ls_outputs = om_empty, ls_executed = 0,
      ls_status = Completed, ls_failure = None\<rparr>"

text \<open>After validation: the plan and the loop.\<close>

definition run_plan ::
    "'w machine \<Rightarrow> 'w engine \<Rightarrow> workflow \<Rightarrow> bool \<Rightarrow> 'w approval_handler \<Rightarrow> jobject \<Rightarrow> string \<Rightarrow> nat \<Rightarrow> 'w shared
       \<Rightarrow> (run_outcome \<times> 'w shared) option" where
  "run_plan m en w start_paused approval seeded run_id started s =
     (let g = graph_of w in
      case entry_node g of
        None \<Rightarrow> Some (fail_fast m run_id started seeded ''E_NO_ENTRY_POINT'' ''workflow has no entry point'' s)
      | Some entry \<Rightarrow>
          (case topological_order g of
             Inl e \<Rightarrow> Some (fail_fast m run_id started seeded ''E_GRAPH'' (graph_error_text e) s)
           | Inr order \<Rightarrow>
               (let c = new_context run_id (w_id w) seeded (secret_names w) (en_policy en) approval s
                in map_option (finish_run m started)
                     (run_nodes m en g order (initial_state (begin_run m start_paused c) (n_id entry))))))"

definition validation_message :: "workflow \<Rightarrow> report \<Rightarrow> string" where
  "validation_message w r =
     ''workflow `'' @ w_id w @ ''` failed validation with '' @ show_nat (error_count r) @ '' error(s)''"

definition run_validated ::
    "'w machine \<Rightarrow> 'w engine \<Rightarrow> 'w run_request \<Rightarrow> string \<Rightarrow> nat \<Rightarrow> 'w shared \<Rightarrow> (run_outcome \<times> 'w shared) option" where
  "run_validated m en request run_id started s =
     (let w = rr_workflow request;
          seeded = seeded_variables w (rr_variables request);
          approval = (case rr_approval request of Some h \<Rightarrow> h | None \<Rightarrow> en_approval en);
          r = validate_with w (registry_index (en_registry en)) (eo_validation (en_options en))
      in if eo_validate (en_options en) \<and> \<not> is_valid r
         then Some (fail_fast m run_id started seeded ''E_VALIDATION'' (validation_message w r)
           (sh_record m run_id AuditRunFinished (validation_message w r) (record_detail (report_json r)) s))
         else run_plan m en w (rr_start_paused request) approval seeded run_id started s)"

text \<open>\<open>WorkflowEngine::run\<close> on a world and a control handle. The audit records of the run are
  those of the resulting \<open>shared\<close> state.\<close>

definition run_engine ::
    "'w machine \<Rightarrow> 'w engine \<Rightarrow> 'w run_request \<Rightarrow> run_control \<Rightarrow> 'w \<Rightarrow> (run_outcome \<times> 'w shared) option" where
  "run_engine m en request control w =
     (let (started, w1) = mc_instant_ns m w;
          (run_id, w2) = (case rr_run_id request of Some run_id \<Rightarrow> (run_id, w1) | None \<Rightarrow> mc_uuid m w1);
          store = (case rr_artifacts request of Some a \<Rightarrow> a | None \<Rightarrow> [])
      in run_validated m en request run_id started
           \<lparr>sh_control = control, sh_bus = new_bus run_id, sh_audit = [], sh_artifacts = store, sh_world = w2\<rparr>)"

text \<open>\<open>RunningRun\<close>: the handle of a run on its own thread, and what \<open>join\<close> reports.\<close>

datatype thread_result = SpawnFailed string | Panicked | AlreadyJoined | Returned run_outcome

definition thread_failure :: "string \<Rightarrow> string \<Rightarrow> string \<Rightarrow> run_outcome" where
  "thread_failure run_id code message =
     \<lparr>ro_run_id = run_id, ro_status = Failed, ro_nodes_executed = 0, ro_variables = om_empty,
      ro_duration_ms = 0, ro_failure = Some \<lparr>rf_code = code, rf_message = message\<rparr>\<rparr>"

fun join_run :: "string \<Rightarrow> thread_result \<Rightarrow> run_outcome" where
  "join_run run_id (SpawnFailed e) = thread_failure run_id ''E_THREAD'' (''could not spawn the run thread: '' @ e)"
| "join_run run_id Panicked = thread_failure run_id ''E_PANIC'' ''run thread panicked''"
| "join_run run_id AlreadyJoined = thread_failure run_id ''E_JOINED'' ''run was already joined''"
| "join_run run_id (Returned o') = o'"

end
