(* ===== verification/Nodara_Runs.thy ===== *)
theory Nodara_Runs
  imports Nodara_Engine
begin

text \<open>
  Run handles and the run manager (\<open>runs.rs\<close> of the runtime). A handle is the record
  \<open>run_handle\<close>; its broadcast channel is the list of envelopes sent so far, and a subscriber
  the length of that list when it subscribed. \<open>publish\<close> is one call; its four critical sections
  are also the steps \<open>publish_step\<close> of a relation in which several threads publish at once.
  Operators act on the flags of the control behind its mutex.
\<close>

section \<open>Handles\<close>

record run_state =
  rs_status :: run_status
  rs_started_at_ms :: u64
  rs_finished_at_ms :: "u64 option"
  rs_nodes_executed :: nat
  rs_variables :: jobject
  rs_failure :: "run_failure option"

record run_snapshot =
  sn_id :: string
  sn_workflow_id :: string
  sn_status :: run_status
  sn_started_at_ms :: u64
  sn_finished_at_ms :: "u64 option"
  sn_nodes_executed :: nat
  sn_variables :: jobject
  sn_failure :: "run_failure option"
  sn_event_count :: nat
  sn_artifact_count :: nat

record run_handle =
  rh_id :: string
  rh_workflow :: workflow
  rh_flags :: control_flags
  rh_state :: run_state
  rh_history :: "event_envelope list"
  rh_artifacts :: artifact_store
  rh_next_seq :: u64
  rh_sent :: "event_envelope list"

definition new_handle ::
    "'w machine \<Rightarrow> string \<Rightarrow> workflow \<Rightarrow> control_flags \<Rightarrow> artifact_store \<Rightarrow> 'w \<Rightarrow> run_handle \<times> 'w" where
  "new_handle m hid w flags artifacts world =
     (let (now, world') = mc_now_ms m world
      in (\<lparr>rh_id = hid, rh_workflow = w, rh_flags = flags,
           rh_state = \<lparr>rs_status = Pending, rs_started_at_ms = now, rs_finished_at_ms = None,
             rs_nodes_executed = 0, rs_variables = om_empty, rs_failure = None\<rparr>,
           rh_history = [], rh_artifacts = artifacts, rh_next_seq = 0, rh_sent = []\<rparr>, world'))"

definition handle_workflow_id :: "run_handle \<Rightarrow> string" where
  "handle_workflow_id h = w_id (rh_workflow h)"

definition snapshot :: "run_handle \<Rightarrow> run_snapshot" where
  "snapshot h =
     (let s = rh_state h in
      \<lparr>sn_id = rh_id h, sn_workflow_id = handle_workflow_id h, sn_status = rs_status s,
       sn_started_at_ms = rs_started_at_ms s, sn_finished_at_ms = rs_finished_at_ms s,
       sn_nodes_executed = rs_nodes_executed s, sn_variables = rs_variables s, sn_failure = rs_failure s,
       sn_event_count = length (rh_history h), sn_artifact_count = artifact_len (rh_artifacts h)\<rparr>)"

text \<open>Replay, the last sequence number in it, and the live receiver. The receiver is created
  first, on the handle \<open>h\<close>; the history is copied later, from \<open>h'\<close>. A receiver sees what is sent
  after it was created, at most the newest \<open>event_channel_capacity\<close> of it.\<close>

definition event_channel_capacity :: nat where
  "event_channel_capacity = 1024"

definition subscribe :: "run_handle \<Rightarrow> run_handle \<Rightarrow> event_envelope list \<times> u64 option \<times> nat" where
  "subscribe h h' =
     (rh_history h', (if rh_history h' = [] then None else Some (ev_seq (last (rh_history h')))), length (rh_sent h))"

text \<open>What a caller that follows the contract of \<open>subscribe\<close> delivers, when it reads at \<open>h\<close>: the
  replay, then the live events above the last replayed number.\<close>

definition delivered :: "event_envelope list \<times> u64 option \<times> nat \<Rightarrow> run_handle \<Rightarrow> event_envelope list" where
  "delivered sub h =
     (case sub of (replay, last_seq, receiver) \<Rightarrow>
        replay @ filter (\<lambda>e. case last_seq of None \<Rightarrow> True | Some n \<Rightarrow> n < ev_seq e)
          (drop (max receiver (length (rh_sent h) - event_channel_capacity)) (rh_sent h)))"

section \<open>Events and the state of a run\<close>

definition on_state :: "(run_state \<Rightarrow> run_state) \<Rightarrow> run_handle \<Rightarrow> run_handle" where
  "on_state f h = h\<lparr>rh_state := f (rh_state h)\<rparr>"

definition finished_at :: "'w machine \<Rightarrow> run_status \<Rightarrow> run_handle \<Rightarrow> 'w \<Rightarrow> run_handle \<times> 'w" where
  "finished_at m status h w =
     (let (now, w') = mc_now_ms m w
      in (on_state (\<lambda>s. s\<lparr>rs_status := status, rs_finished_at_ms := Some now\<rparr>) h, w'))"

definition with_failure :: "run_failure \<Rightarrow> run_handle \<times> 'w \<Rightarrow> run_handle \<times> 'w" where
  "with_failure f r = (on_state (\<lambda>s. s\<lparr>rs_failure := Some f\<rparr>) (fst r), snd r)"

fun apply_event :: "'w machine \<Rightarrow> execution_event \<Rightarrow> run_handle \<Rightarrow> 'w \<Rightarrow> run_handle \<times> 'w" where
  "apply_event m (RunStarted workflow_id) h w =
     ((on_state (\<lambda>s. s\<lparr>rs_status := Running\<rparr>) h)\<lparr>rh_workflow := (rh_workflow h)\<lparr>w_id := workflow_id\<rparr>\<rparr>, w)"
| "apply_event m RunPaused h w =
     (on_state (\<lambda>s. if is_terminal (rs_status s) then s else s\<lparr>rs_status := Paused\<rparr>) h, w)"
| "apply_event m RunResumed h w =
     (on_state (\<lambda>s. if rs_status s = Paused then s\<lparr>rs_status := Running\<rparr> else s) h, w)"
| "apply_event m (NodeFinished _ _ _ _) h w =
     (on_state (\<lambda>s. s\<lparr>rs_nodes_executed := rs_nodes_executed s + 1\<rparr>) h, w)"
| "apply_event m (RunCompleted _ _) h w = finished_at m Completed h w"
| "apply_event m (RunFailed code message) h w =
     with_failure \<lparr>rf_code = code, rf_message = message\<rparr> (finished_at m Failed h w)"
| "apply_event m (RunCancelled reason) h w =
     with_failure \<lparr>rf_code = ''E_CANCELLED'',
         rf_message = (case reason of Some r \<Rightarrow> r | None \<Rightarrow> ''run cancelled'')\<rparr> (finished_at m Cancelled h w)"
| "apply_event m _ h w = (h, w)"

text \<open>The four critical sections of \<open>publish\<close>.\<close>

definition claim_seq :: "'w machine \<Rightarrow> event_envelope \<Rightarrow> run_handle \<Rightarrow> 'w \<Rightarrow> event_envelope \<times> run_handle \<times> 'w" where
  "claim_seq m e h w =
     (let e1 = e\<lparr>ev_seq := rh_next_seq h, ev_run_id := rh_id h\<rparr>;
          h1 = h\<lparr>rh_next_seq := rh_next_seq h + 1\<rparr>
      in if ev_timestamp_ms e1 = 0
         then (let (now, w') = mc_now_ms m w in (e1\<lparr>ev_timestamp_ms := now\<rparr>, h1, w'))
         else (e1, h1, w))"

definition push_history :: "event_envelope \<Rightarrow> run_handle \<Rightarrow> run_handle" where
  "push_history e h = h\<lparr>rh_history := rh_history h @ [e]\<rparr>"

definition broadcast :: "event_envelope \<Rightarrow> run_handle \<Rightarrow> run_handle" where
  "broadcast e h = h\<lparr>rh_sent := rh_sent h @ [e]\<rparr>"

definition publish :: "'w machine \<Rightarrow> event_envelope \<Rightarrow> run_handle \<Rightarrow> 'w \<Rightarrow> run_handle \<times> 'w" where
  "publish m e h w =
     (let (e1, h1, w1) = claim_seq m e h w;
          (h2, w2) = apply_event m (ev_event e1) h1 w1
      in (broadcast e1 (push_history e1 h2), w2))"

definition publish_new :: "'w machine \<Rightarrow> execution_event \<Rightarrow> run_handle \<Rightarrow> 'w \<Rightarrow> run_handle \<times> 'w" where
  "publish_new m event h w =
     (let (envelope, w1) = new_envelope m (rh_id h) 0 event w in publish m envelope h w1)"

definition complete_run :: "'w machine \<Rightarrow> run_outcome \<Rightarrow> run_handle \<Rightarrow> 'w \<Rightarrow> run_handle \<times> 'w" where
  "complete_run m out h w =
     (let h1 = on_state (\<lambda>s. s\<lparr>rs_status := ro_status out, rs_nodes_executed := ro_nodes_executed out,
                  rs_variables := ro_variables out, rs_failure := ro_failure out\<rparr>) h
      in if is_terminal (ro_status out) \<and> rs_finished_at_ms (rh_state h1) = None
         then (let (now, w') = mc_now_ms m w
               in (on_state (\<lambda>s. s\<lparr>rs_finished_at_ms := Some now\<rparr>) h1, w'))
         else (h1, w))"

definition mark_paused :: "'w machine \<Rightarrow> run_handle \<Rightarrow> 'w \<Rightarrow> run_handle \<times> 'w" where
  "mark_paused m h w =
     (if \<not> is_terminal (rs_status (rh_state h)) \<and> rs_status (rh_state h) \<noteq> Paused
      then publish_new m RunPaused h w else (h, w))"

definition mark_running :: "'w machine \<Rightarrow> run_handle \<Rightarrow> 'w \<Rightarrow> run_handle \<times> 'w" where
  "mark_running m h w =
     (if rs_status (rh_state h) = Paused then publish_new m RunResumed h w else (h, w))"

section \<open>The manager\<close>

record api_error =
  ae_status :: nat
  ae_code :: string
  ae_message :: string
  ae_detail :: "json option"

definition api_error_new :: "nat \<Rightarrow> string \<Rightarrow> string \<Rightarrow> api_error" where
  "api_error_new status code message =
     \<lparr>ae_status = status, ae_code = code, ae_message = message, ae_detail = None\<rparr>"

definition with_detail :: "json \<Rightarrow> api_error \<Rightarrow> api_error" where
  "with_detail d e = e\<lparr>ae_detail := Some d\<rparr>"

definition bad_request :: "string \<Rightarrow> string \<Rightarrow> api_error" where
  "bad_request code message = api_error_new 400 code message"

definition not_found :: "string \<Rightarrow> string \<Rightarrow> api_error" where
  "not_found code message = api_error_new 404 code message"

definition conflict :: "string \<Rightarrow> string \<Rightarrow> api_error" where
  "conflict code message = api_error_new 409 code message"

definition unprocessable :: "string \<Rightarrow> string \<Rightarrow> api_error" where
  "unprocessable code message = api_error_new 422 code message"

type_synonym run_map = "run_handle omap"

definition run_lookup :: "run_map \<Rightarrow> string \<Rightarrow> (api_error, run_handle) result" where
  "run_lookup runs run_id =
     (case om_get runs run_id of
        Some h \<Rightarrow> Inr h
      | None \<Rightarrow> Inl (not_found ''E_RUN_NOT_FOUND'' (''no run with id `'' @ run_id @ ''`'')))"

text \<open>\<open>start_with_options\<close> up to the spawn: the handle in the map and the request of the thread.\<close>

definition start_run ::
    "'w machine \<Rightarrow> string \<Rightarrow> workflow \<Rightarrow> jobject \<Rightarrow> bool \<Rightarrow> 'w approval_handler option \<Rightarrow> run_map \<Rightarrow> 'w
       \<Rightarrow> 'w run_request \<times> run_map \<times> 'w" where
  "start_run m run_id w vars start_paused approval runs world =
     (let flags = (if start_paused then pause_flags new_flags else new_flags);
          (h, world') = new_handle m run_id w flags [] world;
          request = with_start_paused start_paused (with_artifacts [] (with_variables vars
                      (with_run_id run_id (new_run_request w))));
          request' = (case approval of Some a \<Rightarrow> with_approval a request | None \<Rightarrow> request)
      in (request', om_insert run_id h runs, world'))"

definition start_with_run_id ::
    "'w machine \<Rightarrow> string \<Rightarrow> workflow \<Rightarrow> jobject \<Rightarrow> bool \<Rightarrow> run_map \<Rightarrow> 'w \<Rightarrow> 'w run_request \<times> run_map \<times> 'w" where
  "start_with_run_id m run_id w vars start_paused runs world = start_run m run_id w vars start_paused None runs world"

definition start_fresh :: "'w machine \<Rightarrow> workflow \<Rightarrow> jobject \<Rightarrow> run_map \<Rightarrow> 'w \<Rightarrow> 'w run_request \<times> run_map \<times> 'w" where
  "start_fresh m w vars runs world =
     (let (run_id, world') = mc_uuid m world in start_with_run_id m run_id w vars False runs world')"

text \<open>The body of the thread, once the engine returned: every envelope went through the sink, then
  the outcome is recorded. A thread that could not be spawned records its own outcome.\<close>

definition publish_all :: "'w machine \<Rightarrow> event_envelope list \<Rightarrow> run_handle \<Rightarrow> 'w \<Rightarrow> run_handle \<times> 'w" where
  "publish_all m es h w = fold (\<lambda>e (h, w). publish m e h w) es (h, w)"

definition run_thread :: "'w machine \<Rightarrow> event_envelope list \<Rightarrow> run_outcome \<Rightarrow> run_handle \<Rightarrow> 'w \<Rightarrow> run_handle \<times> 'w" where
  "run_thread m es out h w = (let (h1, w1) = publish_all m es h w in complete_run m out h1 w1)"

definition spawn_failed :: "'w machine \<Rightarrow> string \<Rightarrow> run_handle \<Rightarrow> 'w \<Rightarrow> run_handle \<times> 'w" where
  "spawn_failed m e h w =
     complete_run m (thread_failure (rh_id h) ''E_THREAD'' (''could not spawn the run thread: '' @ e)) h w"

definition list_runs :: "run_map \<Rightarrow> run_snapshot list" where
  "list_runs runs = rev (sort_key sn_started_at_ms (rev (map (snapshot \<circ> snd) runs)))"

definition pause_run :: "'w machine \<Rightarrow> string \<Rightarrow> run_map \<Rightarrow> 'w \<Rightarrow> (api_error, run_map \<times> 'w) result" where
  "pause_run m run_id runs w =
     (case run_lookup runs run_id of
        Inl e \<Rightarrow> Inl e
      | Inr h \<Rightarrow>
          if is_terminal (sn_status (snapshot h))
          then Inl (conflict ''E_RUN_FINISHED'' (''run `'' @ run_id @ ''` has already finished''))
          else (let (h', w') = mark_paused m (h\<lparr>rh_flags := pause_flags (rh_flags h)\<rparr>) w
                in Inr (om_insert run_id h' runs, w')))"

definition resume_run :: "'w machine \<Rightarrow> string \<Rightarrow> run_map \<Rightarrow> 'w \<Rightarrow> (api_error, run_map \<times> 'w) result" where
  "resume_run m run_id runs w =
     (case run_lookup runs run_id of
        Inl e \<Rightarrow> Inl e
      | Inr h \<Rightarrow>
          (let (h', w') = mark_running m (h\<lparr>rh_flags := resume_flags (rh_flags h)\<rparr>) w
           in Inr (om_insert run_id h' runs, w')))"

definition step_run :: "string \<Rightarrow> run_map \<Rightarrow> (api_error, run_map) result" where
  "step_run run_id runs =
     (case run_lookup runs run_id of
        Inl e \<Rightarrow> Inl e
      | Inr h \<Rightarrow> Inr (om_insert run_id (h\<lparr>rh_flags := step_flags (rh_flags h)\<rparr>) runs))"

definition cancel_run :: "string \<Rightarrow> run_map \<Rightarrow> (api_error, run_map) result" where
  "cancel_run run_id runs =
     (case run_lookup runs run_id of
        Inl e \<Rightarrow> Inl e
      | Inr h \<Rightarrow> Inr (om_insert run_id (h\<lparr>rh_flags := cancel_flags (rh_flags h)\<rparr>) runs))"

section \<open>Concurrent publication\<close>

text \<open>A publication in flight, after its first, second and third critical section.\<close>

datatype in_flight = Claimed event_envelope | Applied event_envelope | Pushed event_envelope

type_synonym 'w publishers = "run_handle \<times> in_flight list \<times> 'w"

inductive publish_step :: "'w machine \<Rightarrow> 'w publishers \<Rightarrow> 'w publishers \<Rightarrow> bool" for m where
  claim: "claim_seq m e h w = (e1, h1, w1) \<Longrightarrow> publish_step m (h, fl, w) (h1, Claimed e1 # fl, w1)"
| applies: "apply_event m (ev_event e) h w = (h1, w1) \<Longrightarrow>
    publish_step m (h, xs @ Claimed e # ys, w) (h1, xs @ Applied e # ys, w1)"
| push: "publish_step m (h, xs @ Applied e # ys, w) (push_history e h, xs @ Pushed e # ys, w)"
| send: "publish_step m (h, xs @ Pushed e # ys, w) (broadcast e h, xs @ ys, w)"

inductive_cases claim_stepE: "publish_step m (h, fl, w) s"

end
