(* ===== verification/Nodara_Engine_Trace.thy ===== *)
theory Nodara_Engine_Trace
  imports Nodara_Engine
begin

text \<open>
  What the loop of a run adds to the event stream. A trace is summarised by the nodes it
  starts, the nodes it finishes and the edges it activates; \<open>moves S F A st st'\<close> says that the
  loop got from \<open>st\<close> to \<open>st'\<close> by events with that summary, and that the counters of the loop
  agree with it. Every stage of the engine is such a move, \<open>run_node_moves\<close> gives the shape of
  the move of one node, and \<open>run_nodes_moves\<close> that of the loop.
\<close>

section \<open>Summaries of a trace\<close>

fun started_node :: "execution_event \<Rightarrow> string option" where
  "started_node (NodeStarted nid _ _) = Some nid"
| "started_node _ = None"

fun finished_node :: "execution_event \<Rightarrow> string option" where
  "finished_node (NodeFinished nid _ _ _) = Some nid"
| "finished_node _ = None"

fun activated_edge :: "execution_event \<Rightarrow> (string \<times> string) option" where
  "activated_edge (EdgeActivated _ source target _) = Some (source, target)"
| "activated_edge _ = None"

definition starts :: "execution_event list \<Rightarrow> string list" where
  "starts es = List.map_filter started_node es"

definition finishes :: "execution_event list \<Rightarrow> string list" where
  "finishes es = List.map_filter finished_node es"

definition activations :: "execution_event list \<Rightarrow> (string \<times> string) list" where
  "activations es = List.map_filter activated_edge es"

named_theorems trace_simps \<open>summaries of a trace\<close>

lemma map_filter_append: "List.map_filter f (xs @ ys) = List.map_filter f xs @ List.map_filter f ys"
  by (simp add: List.map_filter_def)

lemma trace_append [simp, trace_simps]:
  "starts (xs @ ys) = starts xs @ starts ys" "finishes (xs @ ys) = finishes xs @ finishes ys"
  "activations (xs @ ys) = activations xs @ activations ys"
  by (simp_all add: starts_def finishes_def activations_def map_filter_append)

lemma trace_Nil [simp, trace_simps]: "starts [] = []" "finishes [] = []" "activations [] = []"
  by (simp_all add: starts_def finishes_def activations_def List.map_filter_def)

lemma trace_Cons [simp, trace_simps]:
  "starts (e # es) = (case started_node e of None \<Rightarrow> starts es | Some n \<Rightarrow> n # starts es)"
  "finishes (e # es) = (case finished_node e of None \<Rightarrow> finishes es | Some n \<Rightarrow> n # finishes es)"
  "activations (e # es) = (case activated_edge e of None \<Rightarrow> activations es | Some p \<Rightarrow> p # activations es)"
  by (cases "started_node e"; cases "finished_node e"; cases "activated_edge e";
      simp add: starts_def finishes_def activations_def List.map_filter_def)+

section \<open>The events of the loop\<close>

text \<open>A variable map that shows no secret.\<close>

definition hides :: "string list \<Rightarrow> jobject \<Rightarrow> bool" where
  "hides secrets vars \<longleftrightarrow> (\<forall>name\<in>set secrets. om_get vars name = None \<or> om_get vars name = Some masked)"

lemma hides_redacted [simp]: "hides (cx_secrets c) (ctx_redacted c)"
  by (auto simp: hides_def ctx_redacted_def redacted_variables_def ctx_scope_def om_get_map_values)

fun quiet_event :: "string list \<Rightarrow> execution_event \<Rightarrow> bool" where
  "quiet_event secrets (Log _ _ _) = True"
| "quiet_event secrets (NodeProgress _ _ _) = True"
| "quiet_event secrets (CapabilityDecision _ _ _) = True"
| "quiet_event secrets (DataTransferred _ _ _ _ _ _) = True"
| "quiet_event secrets RunPaused = True"
| "quiet_event secrets (NodeFailed _ _ _ _ vars) = hides secrets vars"
| "quiet_event secrets _ = False"

fun loop_event :: "string list \<Rightarrow> execution_event \<Rightarrow> bool" where
  "loop_event secrets (EdgeActivated _ _ _ _) = True"
| "loop_event secrets (NodeStarted _ _ (Some s)) = hides secrets (is_variables_before s)"
| "loop_event secrets (NodeFinished _ _ vars _) = hides secrets vars"
| "loop_event secrets e = quiet_event secrets e"

lemma node_event_quiet: "node_event e \<Longrightarrow> quiet_event secrets e"
  by (cases e) simp_all

lemma quiet_event_loop: "quiet_event secrets e \<Longrightarrow> loop_event secrets e"
  by (cases e) simp_all

lemma quiet_event_summary:
  "quiet_event secrets e \<Longrightarrow> started_node e = None \<and> finished_node e = None \<and> activated_edge e = None"
  by (cases e) simp_all

lemma quiet_trace:
  "list_all (quiet_event secrets) es \<Longrightarrow> starts es = [] \<and> finishes es = [] \<and> activations es = []"
  by (induction es) (auto dest: quiet_event_summary)

section \<open>Quiet steps of a context\<close>

definition quiet :: "'w exec_context \<Rightarrow> 'w exec_context \<Rightarrow> bool" where
  "quiet c c' = ctx_extends (quiet_event (cx_secrets c)) c c'"

named_theorems quiet_intros \<open>operations that add only quiet events\<close>

lemma quiet_refl [simp]: "quiet c c"
  by (simp add: quiet_def)

lemma ctx_extends_secrets: "ctx_extends p c c' \<Longrightarrow> cx_secrets c' = cx_secrets c"
  by (simp add: ctx_extends_def same_run_def)

lemma quiet_trans [trans]: "quiet a b \<Longrightarrow> quiet b c \<Longrightarrow> quiet a c"
  unfolding quiet_def using ctx_extends_secrets ctx_extends_trans by metis

lemma quiet_extends: "(\<And>p. ctx_extends p c c') \<Longrightarrow> quiet c c'"
  by (simp add: quiet_def)

lemma quiet_emit [quiet_intros]: "quiet_event (cx_secrets c) e \<Longrightarrow> quiet c (ctx_emit m e c)"
  by (simp add: quiet_def)

lemma quiet_simple [quiet_intros]:
  "quiet c (ctx_record m cat msg build c)" "quiet c (set_variable name v c)" "quiet c (set_node node_id c)"
  "quiet c (ctx_log m level msg c)"
  by (simp_all add: quiet_def ctx_extends_log)

lemma ctx_extends_update [simp]:
  "ctx_extends p c (on_shared (\<lambda>s. s\<lparr>sh_control := ctl\<rparr>) c)"
  "ctx_extends p c (on_shared (\<lambda>s. s\<lparr>sh_world := w\<rparr>) c)"
  "ctx_extends p c (on_shared (\<lambda>s. s\<lparr>sh_control := f (sh_control s)\<rparr>) c)"
  "ctx_extends p c (on_shared (sh_sleep m ms) c)"
  by (simp_all add: ctx_extends_shared sh_sleep_def)

lemma quiet_update [quiet_intros]: "quiet c (on_shared (sh_sleep m ms) c)" "quiet c (ctx_pause c)"
  by (simp_all add: quiet_def ctx_pause_def)

lemma quiet_is_cancelled: "ctx_is_cancelled c = (b, c') \<Longrightarrow> quiet c c'"
  by (auto simp: quiet_def ctx_is_cancelled_def sh_is_cancelled_def Let_def ctx_extends_def same_run_def
      split: prod.splits)

lemma quiet_await: "ctx_await c = Some (b, c') \<Longrightarrow> quiet c c'"
  by (auto simp: quiet_def ctx_await_def)

lemma quiet_is_paused: "ctx_is_paused c = (b, c') \<Longrightarrow> quiet c c'"
  by (auto simp: quiet_def ctx_is_paused_def Let_def split: prod.splits)

lemma quiet_instant: "ctx_instant m c = (t, c') \<Longrightarrow> quiet c c'"
  by (auto simp: quiet_def ctx_instant_def split: prod.splits)

lemma quiet_elapsed: "ctx_elapsed m t c = (d, c') \<Longrightarrow> quiet c c'"
  by (auto simp: quiet_def ctx_elapsed_def split: prod.splits)

lemma quiet_wait: "wait_interruptible m remaining c = (b, c') \<Longrightarrow> quiet c c'"
proof (induction m remaining c arbitrary: b c' rule: wait_interruptible.induct)
  case (1 m remaining c)
  show ?case
  proof (cases "remaining = 0")
    case True
    with "1.prems" show ?thesis
      by (auto simp: wait_interruptible.simps [of m 0] Let_def split: prod.splits dest: quiet_is_cancelled)
  next
    case False
    obtain cancelled c1 where first: "ctx_is_cancelled c = (cancelled, c1)" by fastforce
    show ?thesis
    proof (cases cancelled)
      case True
      with "1.prems" False first show ?thesis
        by (auto simp: wait_interruptible.simps [of m remaining] dest: quiet_is_cancelled)
    next
      case live: False
      let ?slice = "min remaining 25"
      have next_wait: "wait_interruptible m (remaining - ?slice) (on_shared (sh_sleep m ?slice) c1) = (b, c')"
        using "1.prems" False first live by (simp add: wait_interruptible.simps [of m remaining] Let_def)
      have "quiet c c1" using first by (rule quiet_is_cancelled)
      also have "quiet c1 (on_shared (sh_sleep m ?slice) c1)" by (rule quiet_update)
      also have "quiet \<dots> c'"
        using "1.IH" [OF False _ _ refl next_wait] first live by simp
      finally show ?thesis .
    qed
  qed
qed

lemma quiet_respects: "respects_context m ex \<Longrightarrow> ex input c = Some (r, c') \<Longrightarrow> quiet c c'"
  unfolding quiet_def
  by (rule ctx_extends_mono [where p = node_event]) (auto dest: respects_contextD intro: node_event_quiet)

lemma quiet_authorize: "authorize m ty perms dangerous input c = Some (r, c') \<Longrightarrow> quiet c c'"
  unfolding quiet_def by (erule ctx_extends_authorize) simp

lemma quiet_announce_failure [quiet_intros]: "quiet c (announce_failure m n e retry c)"
  by (simp add: announce_failure_def quiet_emit)

lemma quiet_transfer: "transfer_inputs m outputs es inputs c = (inputs', c') \<Longrightarrow> quiet c c'"
proof (induction m outputs es inputs c arbitrary: inputs' c' rule: transfer_inputs.induct)
  case (2 m outputs e es inputs c)
  have "quiet c (ctx_emit m (DataTransferred (e_id e) (e_source e) (e_target e) sp tp v) c)" for sp tp v
    by (rule quiet_emit) simp
  with 2 show ?case by (fastforce split: option.splits simp: Let_def intro: quiet_trans)
qed simp

text \<open>The retry loop calls the executor, logs and waits.\<close>

lemma quiet_attempt_loop:
  assumes "respects_context m ex" "attempt_loop m ex n input attempt c = Some (r, c')"
  shows "quiet c c'"
proof -
  have "respects_context m ex \<longrightarrow> quiet c (snd (r, c'))"
  proof (rule attempt_loop.raw_induct [of "\<lambda>m ex n input attempt c res. respects_context m ex \<longrightarrow> quiet c (snd res)",
        OF _ assms(2)], intro impI)
    fix loop m ex n input attempt and c :: "'a exec_context" and res
    assume IH: "\<And>m ex n input attempt c res. loop m ex n input attempt c = Some res \<Longrightarrow>
        respects_context m ex \<longrightarrow> quiet c (snd res)"
      and ok: "respects_context m ex"
      and run: "Option.bind (ex input c) (\<lambda>(r, c1).
       (let attempt' = sat_add attempt 1 in
        case r of
          Inl e \<Rightarrow>
            if may_retry n attempt' e
            then (case wait_interruptible m (retry_delay_ms n attempt')
                         (ctx_log m Warn (retry_message n attempt' e) c1) of
                    (granted, c2) \<Rightarrow>
                      if granted then loop m ex n input attempt' c2 else Some (None, c2))
            else Some (Some (Inl e), c1)
        | Inr out \<Rightarrow> Some (Some (Inr out), c1))) = Some res"
    obtain r c1 where call: "ex input c = Some (r, c1)" using run by (auto simp: bind_eq_Some_conv)
    have first: "quiet c c1" using ok call by (rule quiet_respects)
    show "quiet c (snd res)"
    proof (cases r)
      case (Inr out)
      with run call first show ?thesis by auto
    next
      case (Inl e)
      show ?thesis
      proof (cases "may_retry n (sat_add attempt 1) e")
        case True
        let ?logged = "ctx_log m Warn (retry_message n (sat_add attempt 1) e) c1"
        obtain granted c2 where wait:
          "wait_interruptible m (retry_delay_ms n (sat_add attempt 1)) ?logged = (granted, c2)" by fastforce
        have "quiet c c2"
          by (rule quiet_trans [OF quiet_trans [OF first] quiet_wait [OF wait]]) (rule quiet_intros)
        moreover have "quiet c2 (snd res)"
          using run call Inl True wait IH ok by (auto simp: Let_def split: if_splits)
        ultimately show ?thesis by (rule quiet_trans)
      qed (use run call first Inl in auto)
    qed
  qed
  with assms(1) show ?thesis by simp
qed

section \<open>Moves\<close>

definition ctx_moves ::
    "string list \<Rightarrow> string list \<Rightarrow> (string \<times> string) list \<Rightarrow> 'w exec_context \<Rightarrow> 'w exec_context \<Rightarrow> bool" where
  "ctx_moves S F A c c' \<longleftrightarrow>
     ctx_extends (loop_event (cx_secrets c)) c c' \<and>
     (\<exists>es. cx_events c' = cx_events c @ es \<and> starts es = S \<and> finishes es = F \<and> activations es = A)"

lemma quiet_moves: "quiet c c' \<Longrightarrow> ctx_moves [] [] [] c c'"
proof -
  assume "quiet c c'"
  then have ext: "ctx_extends (quiet_event (cx_secrets c)) c c'" by (simp add: quiet_def)
  then obtain es where "cx_events c' = cx_events c @ es" "list_all (quiet_event (cx_secrets c)) es"
    by (auto simp: ctx_extends_def sh_extends_def)
  with ctx_extends_mono [OF ext quiet_event_loop] show "ctx_moves [] [] [] c c'"
    unfolding ctx_moves_def by (auto dest!: quiet_trace)
qed

lemma ctx_moves_trans:
  "ctx_moves S F A a b \<Longrightarrow> ctx_moves S' F' A' b c \<Longrightarrow> ctx_moves (S @ S') (F @ F') (A @ A') a c"
  unfolding ctx_moves_def using ctx_extends_secrets [of "loop_event (cx_secrets a)" a b]
  by (auto intro: ctx_extends_trans)

lemma ctx_moves_quiet: "ctx_moves S F A a b \<Longrightarrow> quiet b c \<Longrightarrow> ctx_moves S F A a c"
  using ctx_moves_trans [OF _ quiet_moves, of S F A a b c] by simp

lemma quiet_ctx_moves: "quiet a b \<Longrightarrow> ctx_moves S F A b c \<Longrightarrow> ctx_moves S F A a c"
  using ctx_moves_trans [OF quiet_moves, of a b S F A c] by simp

lemma ctx_moves_emit:
  "loop_event (cx_secrets c) e \<Longrightarrow> ctx_moves (starts [e]) (finishes [e]) (activations [e]) c (ctx_emit m e c)"
  by (simp add: ctx_moves_def) (simp add: ctx_emit_def)

definition moves ::
    "string list \<Rightarrow> string list \<Rightarrow> (string \<times> string) list \<Rightarrow> 'w loop_state \<Rightarrow> 'w loop_state \<Rightarrow> bool" where
  "moves S F A st st' \<longleftrightarrow>
     ctx_moves S F A (ls_context st) (ls_context st') \<and>
     ls_executed st' = ls_executed st + length F \<and>
     set (ls_activated st') = set (ls_activated st) \<union> snd ` set A"

lemma moves_trans: "moves S F A a b \<Longrightarrow> moves S' F' A' b c \<Longrightarrow> moves (S @ S') (F @ F') (A @ A') a c"
  unfolding moves_def by (auto intro: ctx_moves_trans)

lemma moves_refl [simp]: "moves [] [] [] st st"
  by (simp add: moves_def quiet_moves)

text \<open>A stage that ends the loop without an error of its own keeps the status.\<close>

fun stage_state :: "('s, 'a) stage \<Rightarrow> 's" where
  "stage_state (Break st) = st"
| "stage_state (Continue st) = st"
| "stage_state (Proceed st _) = st"

definition verdict :: "'w loop_state \<Rightarrow> run_status \<times> run_failure option" where
  "verdict st = (ls_status st, ls_failure st)"

definition stopped :: "'w loop_state \<Rightarrow> bool" where
  "stopped st \<longleftrightarrow> (ls_status st = Failed \<or> ls_status st = Cancelled) \<and> ls_failure st \<noteq> None"

fun settles :: "'w loop_state \<Rightarrow> ('w loop_state, 'a) stage \<Rightarrow> bool" where
  "settles st (Break st') = (verdict st' = verdict st \<or> stopped st')"
| "settles st (Continue st') = (verdict st' = verdict st)"
| "settles st (Proceed st' _) = (verdict st' = verdict st)"

definition stage_moves ::
    "string list \<Rightarrow> string list \<Rightarrow> (string \<times> string) list \<Rightarrow> 'w loop_state \<Rightarrow> ('w loop_state, 'a) stage \<Rightarrow> bool" where
  "stage_moves S F A st r \<longleftrightarrow> moves S F A st (stage_state r) \<and> settles st r"

lemma then_stage_cases:
  assumes "then_stage r f = Some res"
  obtains (stopped) st where "r = Some (Break st)" "res = Break st"
    | (skipped) st where "r = Some (Continue st)" "res = Continue st"
    | (proceeds) st x where "r = Some (Proceed st x)" "f st x = Some res"
  using assms by (auto simp: then_stage_def split: option.splits stage.splits)

lemma stage_moves_Proceed:
  assumes "stage_moves S F A st (Proceed st1 x)" "stage_moves S' F' A' st1 r"
  shows "stage_moves (S @ S') (F @ F') (A @ A') st r"
  using assms unfolding stage_moves_def by (cases r) (auto intro: moves_trans)

lemma settles_simps [simp]:
  "settles st (stop_run status failure st') \<longleftrightarrow>
     verdict (st'\<lparr>ls_status := status, ls_failure := Some failure\<rparr>) = verdict st \<or> status = Failed \<or> status = Cancelled"
  "settles st (stop_cancelled st')"
  by (auto simp: stop_run_def stop_cancelled_def stopped_def)

lemma stage_state_simps [simp]:
  "stage_state (stop_run status failure st) = st\<lparr>ls_status := status, ls_failure := Some failure\<rparr>"
  "stage_state (stop_cancelled st) = st\<lparr>ls_status := Cancelled, ls_failure := Some cancelled_failure\<rparr>"
  by (simp_all add: stop_run_def stop_cancelled_def)

lemma in_context_simps [simp]:
  "ls_context (in_context c st) = c" "ls_executed (in_context c st) = ls_executed st"
  "ls_activated (in_context c st) = ls_activated st" "ls_outputs (in_context c st) = ls_outputs st"
  "verdict (in_context c st) = verdict st"
  by (simp_all add: in_context_def verdict_def)

text \<open>A quiet stage.\<close>

lemma stage_quietI:
  "quiet (ls_context st) (ls_context (stage_state r)) \<Longrightarrow> ls_executed (stage_state r) = ls_executed st \<Longrightarrow>
     ls_activated (stage_state r) = ls_activated st \<Longrightarrow> settles st r \<Longrightarrow> stage_moves [] [] [] st r"
  by (simp add: stage_moves_def moves_def quiet_moves)

section \<open>The moves of the stages\<close>

lemma turn_stage_moves:
  assumes "turn_stage en nid st = Some r"
  shows "stage_moves [] [] [] st r"
    and "\<And>st' u. r = Proceed st' u \<Longrightarrow> nid \<in> set (ls_activated st) \<and> ls_executed st < eo_max_nodes (en_options en)"
proof -
  obtain cancelled c1 where first: "ctx_is_cancelled (ls_context st) = (cancelled, c1)" by fastforce
  note q = quiet_is_cancelled [OF first]
  show "stage_moves [] [] [] st r"
    using assms first q
    by (auto simp: turn_stage_def Let_def split: if_splits option.splits intro!: stage_quietI
        intro: quiet_trans [OF q quiet_await])
  show "\<And>st' u. r = Proceed st' u \<Longrightarrow> nid \<in> set (ls_activated st) \<and> ls_executed st < eo_max_nodes (en_options en)"
    using assms first
    by (auto simp: turn_stage_def Let_def stop_run_def stop_cancelled_def split: if_splits option.splits)
qed

lemma edge_is_taken_quiet: "edge_is_taken m e outcome c = (b, c') \<Longrightarrow> quiet c c'"
  by (auto simp: edge_is_taken_def split: if_splits option.splits sum.splits intro!: quiet_emit)

lemma activate_edges_moves:
  "activate_edges m outcome es activated c = (taken, activated', c') \<Longrightarrow>
     \<exists>A. ctx_moves [] [] A c c' \<and> set activated' = set activated \<union> snd ` set A \<and>
       set A \<subseteq> {(e_source e, e_target e) | e. e \<in> set es}"
proof (induction m outcome es activated c arbitrary: taken activated' c' rule: activate_edges.induct)
  case (1 m outcome activated c)
  then show ?case by (auto intro!: exI [of _ "[]"] quiet_moves)
next
  case (2 m outcome e es activated c)
  obtain b c1 where edge: "edge_is_taken m e outcome c = (b, c1)" by fastforce
  note first = edge_is_taken_quiet [OF edge]
  show ?case
  proof (cases b)
    case True
    let ?e = "EdgeActivated (e_id e) (e_source e) (e_target e) (e_branch e)"
    let ?c2 = "ctx_emit m ?e c1"
    obtain t a' cc where rec: "activate_edges m outcome es (e_target e # activated) ?c2 = (t, a', cc)"
      by (metis prod_cases3)
    have res: "a' = activated'" "cc = c'"
      using "2.prems" edge True rec by (simp_all add: Let_def)
    have "\<exists>A. ctx_moves [] [] A ?c2 c' \<and> set activated' = set (e_target e # activated) \<union> snd ` set A \<and>
        set A \<subseteq> {(e_source e, e_target e) | e. e \<in> set es}"
      using "2.IH"(1) [of b c1] edge True rec res by simp
    then obtain A where A: "ctx_moves [] [] A ?c2 c'"
      "set activated' = set (e_target e # activated) \<union> snd ` set A"
      "set A \<subseteq> {(e_source e, e_target e) | e. e \<in> set es}" by blast
    have "ctx_moves [] [] [(e_source e, e_target e)] c1 ?c2"
      using ctx_moves_emit [of c1 ?e m] by simp
    from ctx_moves_trans [OF quiet_ctx_moves [OF first this] A(1)]
    have "ctx_moves [] [] ((e_source e, e_target e) # A) c c'" by simp
    with A show ?thesis by (intro exI [of _ "(e_source e, e_target e) # A"]) auto
  next
    case False
    with "2.prems" edge have "activate_edges m outcome es activated c1 = (taken, activated', c')" by simp
    from "2.IH"(2) [OF edge [symmetric] _ this] False obtain A where
      "ctx_moves [] [] A c1 c'" "set activated' = set activated \<union> snd ` set A"
      "set A \<subseteq> {(e_source e, e_target e) | e. e \<in> set es}" by auto
    with quiet_ctx_moves [OF first] show ?thesis by (intro exI [of _ A]) auto
  qed
qed

definition leaves :: "workflow_graph \<Rightarrow> string \<Rightarrow> (string \<times> string) list \<Rightarrow> bool" where
  "leaves g nid A \<longleftrightarrow> set A \<subseteq> {(e_source e, e_target e) | e. e \<in> set (edges_from g nid)}"

lemma leaves_Nil [simp]: "leaves g nid []"
  by (simp add: leaves_def)

lemma follow_edges_moves:
  assumes "follow_edges m g outcome n st = (taken, st')"
  shows "\<exists>A. moves [] [] A st st' \<and> leaves g (n_id n) A" "verdict st' = verdict st"
proof -
  obtain t a c where run: "activate_edges m outcome (edges_from g (n_id n)) (ls_activated st) (ls_context st) = (t, a, c)"
    by (metis prod_cases3)
  with assms have st': "st' = st\<lparr>ls_activated := a, ls_context := c\<rparr>" by (simp add: follow_edges_def)
  from activate_edges_moves [OF run] st' show "\<exists>A. moves [] [] A st st' \<and> leaves g (n_id n) A"
    by (auto simp: moves_def leaves_def)
  show "verdict st' = verdict st" by (simp add: st' verdict_def)
qed

lemma enter_stage_moves:
  assumes "enter_stage m g nid st = Some r" "\<And>n. graph_node g nid = Some n \<Longrightarrow> n_id n = nid"
  shows "\<exists>A. stage_moves [] [] A st r \<and> leaves g nid A \<and>
     (\<forall>st' n. r = Proceed st' n \<longrightarrow> n_id n = nid \<and> A = [] \<and> ls_activated st' = ls_activated st)"
proof (cases "graph_node g nid")
  case None
  with assms(1) show ?thesis by (auto simp: enter_stage_def stage_moves_def intro!: exI [of _ "[]"])
next
  case (Some n)
  let ?c1 = "set_node (Some (n_id n)) (ls_context st)"
  have id: "n_id n = nid" using assms(2) Some by blast
  show ?thesis
  proof (cases "n_enabled n")
    case True
    with assms(1) Some have "r = Proceed (in_context ?c1 st) n" by (simp add: enter_stage_def Let_def)
    with id show ?thesis
      by (intro exI [of _ "[]"]) (auto intro!: stage_quietI quiet_intros)
  next
    case False
    let ?c2 = "ctx_log m Info (''node `'' @ n_id n @ ''` is disabled and was skipped'') ?c1"
    obtain taken st2 where follow: "follow_edges m g SuccessOutcome n (in_context ?c2 st) = (taken, st2)" by fastforce
    have r: "r = Continue st2" using assms(1) Some False follow by (simp add: enter_stage_def Let_def)
    have "quiet (ls_context st) ?c2" by (rule quiet_trans; rule quiet_intros)
    then have first: "moves [] [] [] st (in_context ?c2 st)" by (simp add: moves_def quiet_moves)
    from follow_edges_moves [OF follow] obtain A where
      "moves [] [] A (in_context ?c2 st) st2" "leaves g nid A" "verdict st2 = verdict st" by (auto simp: id)
    with moves_trans [OF first] r show ?thesis
      by (intro exI [of _ A]) (force simp: stage_moves_def)
  qed
qed

lemma condition_stage_moves:
  assumes "condition_stage m n st = Some r"
  shows "stage_moves [] [] [] st r \<and> (\<forall>st' u. r = Proceed st' u \<longrightarrow> st' = st)"
proof (cases "n_condition n")
  case None
  with assms show ?thesis by (auto simp: condition_stage_def stage_moves_def)
next
  case (Some condition)
  show ?thesis
  proof (cases "evaluate_expression (mc_ext m) condition (cx_variables (ls_context st))")
    case (Inr v)
    with assms Some show ?thesis
      by (auto simp: condition_stage_def stop_run_def split: if_splits intro!: stage_quietI quiet_intros)
  next
    case (Inl err)
    have "quiet (ls_context st) (ctx_record m cat msg build (announce_failure m n e b (ls_context st)))" for cat msg build e b
      by (rule quiet_trans; rule quiet_intros)
    with assms Some Inl show ?thesis
      by (auto simp: condition_stage_def Let_def stop_run_def stopped_def intro!: stage_quietI)
  qed
qed

lemma breakpoint_stage_moves:
  assumes "breakpoint_stage m n st = Some r"
  shows "stage_moves [] [] [] st r \<and> (\<forall>st' u. r = Proceed st' u \<longrightarrow> ls_activated st' = ls_activated st)"
proof (cases "n_breakpoint n")
  case False
  with assms show ?thesis by (auto simp: breakpoint_stage_def stage_moves_def)
next
  case True
  obtain paused c1 where first: "ctx_is_paused (ls_context st) = (paused, c1)" by fastforce
  note q = quiet_is_paused [OF first]
  show ?thesis
  proof (cases paused)
    case True
    with assms \<open>n_breakpoint n\<close> first q show ?thesis
      by (auto simp: breakpoint_stage_def intro!: stage_quietI)
  next
    case False
    let ?c2 = "ctx_emit m RunPaused (ctx_pause
       (ctx_log m Info (''breakpoint hit before node `'' @ n_id n @ ''`'') c1))"
    have q2: "quiet (ls_context st) ?c2"
      by (rule quiet_trans [OF quiet_trans [OF quiet_trans [OF q]]]; rule quiet_intros) simp
    with assms \<open>n_breakpoint n\<close> first False show ?thesis
      by (auto simp: breakpoint_stage_def Let_def stop_cancelled_def stop_run_def stopped_def
          split: option.splits if_splits intro!: stage_quietI quiet_trans [OF q2 quiet_await])
  qed
qed

lemma executor_stage_moves:
  assumes "executor_stage en n st = Some r"
  shows "stage_moves [] [] [] st r \<and>
    (\<forall>st' ex. r = Proceed st' ex \<longrightarrow> st' = st \<and> registry_get (en_registry en) (n_type n) = Some ex)"
  using assms
  by (auto simp: executor_stage_def Let_def stop_run_def stopped_def split: option.splits intro!: stage_quietI)

lemma authorize_stage_moves:
  assumes "authorize_stage m n d st = Some r"
  shows "stage_moves [] [] [] st r"
proof -
  have failed: "quiet (ls_context st) c1 \<Longrightarrow> quiet (ls_context st) (ctx_record m cat msg build (announce_failure m n e b c1))"
    for c1 cat msg build e b
    by (erule quiet_trans, rule quiet_trans; rule quiet_intros)
  show ?thesis
    using assms
    by (auto simp: authorize_stage_def Let_def split: option.splits prod.splits sum.splits
        dest!: quiet_authorize intro!: stage_quietI failed)
qed

lemma start_stage_moves:
  assumes "start_stage m g n config st = Some r"
  shows "stage_moves [n_id n] [] [] st r"
proof -
  obtain inputs c1 where transfer: "transfer_inputs m (ls_outputs st) (data_edges_to g (n_id n)) om_empty (ls_context st) = (inputs, c1)"
    by fastforce
  let ?e = "NodeStarted (n_id n) (n_type n) (Some \<lparr>is_config = n_config n, is_resolved_config = config, is_inputs = inputs,
      is_variables_before = ctx_redacted c1, is_timeout_ms = n_timeout_ms n\<rparr>)"
  let ?c3 = "ctx_record m AuditNodeStarted (''node `'' @ n_id n @ ''` started'') (record_node (n_id n) (n_type n)) (ctx_emit m ?e c1)"
  obtain started c4 where instant: "ctx_instant m ?c3 = (started, c4)" by fastforce
  obtain granted c5 where wait: "wait_interruptible m (n_delay_before_ms n) c4 = (granted, c5)" by fastforce
  have "ctx_moves [n_id n] [] [] c1 (ctx_emit m ?e c1)" using ctx_moves_emit [of c1 ?e m] by simp
  from ctx_moves_quiet [OF quiet_ctx_moves [OF quiet_transfer [OF transfer] this] quiet_intros(2)]
  have "ctx_moves [n_id n] [] [] (ls_context st) ?c3" .
  from ctx_moves_quiet [OF ctx_moves_quiet [OF this quiet_instant [OF instant]] quiet_wait [OF wait]]
  have moved: "ctx_moves [n_id n] [] [] (ls_context st) c5" .
  with assms transfer instant wait show ?thesis
    by (cases granted) (auto simp: start_stage_def Let_def stage_moves_def moves_def)
qed

lemma attempt_stage_moves:
  assumes "attempt_stage m n ex input st = Some r" "respects_context m ex"
  shows "stage_moves [] [] [] st r"
  using assms(1)
  by (auto simp: attempt_stage_def split: option.splits intro!: stage_quietI dest!: quiet_attempt_loop [OF assms(2)])

lemma quiet_set_variables: "quiet c (fold (\<lambda>(name, v). set_variable name v) vars c)"
  by (induction vars arbitrary: c) (auto intro: quiet_trans quiet_intros)

lemma quiet_publish: "quiet c (publish_result n out c)"
  by (auto simp: publish_result_def Let_def quiet_set_variables split: option.splits
      intro: quiet_trans [OF quiet_set_variables] quiet_intros)

lemma success_stage_moves:
  assumes "success_stage m g n started out st = Some r"
  shows "\<exists>A. stage_moves [] [n_id n] A st r \<and> leaves g (n_id n) A"
proof -
  obtain duration_ms c1 where elapsed: "ctx_elapsed m started (ls_context st) = (duration_ms, c1)" by fastforce
  let ?c2 = "publish_result n out c1"
  let ?e = "NodeFinished (n_id n) (no_outputs out) (ctx_redacted ?c2) duration_ms"
  let ?c4 = "ctx_record m AuditNodeFinished (''node `'' @ n_id n @ ''` finished in '' @ show_nat (unat duration_ms) @ ''ms'')
                 (record_node (n_id n) (n_type n)) (ctx_emit m ?e ?c2)"
  obtain granted c5 where wait: "wait_interruptible m (n_delay_after_ms n) ?c4 = (granted, c5)" by fastforce
  let ?st1 = "st\<lparr>ls_executed := Suc (ls_executed st), ls_outputs := om_insert (n_id n) (no_outputs out) (ls_outputs st),
                   ls_context := c5\<rparr>"
  have "ctx_moves [] [n_id n] [] ?c2 (ctx_emit m ?e ?c2)" using ctx_moves_emit [of ?c2 ?e m] by simp
  from quiet_ctx_moves [OF quiet_trans [OF quiet_elapsed [OF elapsed] quiet_publish] this]
  have "ctx_moves [] [n_id n] [] (ls_context st) (ctx_emit m ?e ?c2)" .
  from ctx_moves_quiet [OF ctx_moves_quiet [OF this quiet_intros(2)] quiet_wait [OF wait]]
  have first: "moves [] [n_id n] [] st ?st1" by (simp add: moves_def)
  show ?thesis
  proof (cases granted)
    case False
    with assms elapsed wait have "r = stop_cancelled ?st1" by (simp add: success_stage_def Let_def)
    with first show ?thesis by (intro exI [of _ "[]"]) (simp add: stage_moves_def moves_def)
  next
    case True
    obtain taken st2 where follow: "follow_edges m g SuccessOutcome n ?st1 = (taken, st2)" by fastforce
    from assms elapsed wait True follow have r: "r = (if n_type n = ''core.End'' then Break st2 else Continue st2)"
      by (auto simp: success_stage_def Let_def split: if_splits)
    from follow_edges_moves [OF follow] obtain A where A: "moves [] [] A ?st1 st2" "leaves g (n_id n) A"
      and v: "verdict st2 = verdict st" by (auto simp: verdict_def)
    from moves_trans [OF first A(1)] have "moves [] [n_id n] A st st2" by simp
    with A(2) v r show ?thesis by (intro exI [of _ A]) (auto simp: stage_moves_def)
  qed
qed

lemma failure_stage_moves:
  assumes "failure_stage m g n started e st = Some r"
  shows "\<exists>A. stage_moves [] [] A st r \<and> leaves g (n_id n) A"
proof -
  let ?failed = "\<lambda>s. stop_run (if e = CancelledError then Cancelled else Failed) (failure_of e) s"
  obtain duration_ms c1 where elapsed: "ctx_elapsed m started (ls_context st) = (duration_ms, c1)" by fastforce
  define c4 where "c4 = ctx_record m AuditNodeFailed (''node `'' @ n_id n @ ''` failed: '' @ node_error_text e)
      (\<lambda>r. record_detail (JObj [(''duration_ms'', JNum (PosInt duration_ms))]) (record_node (n_id n) (n_type n) r))
      (announce_failure m n e (retryable e) (set_variable ''last_error'' (error_value n e) c1))"
  have "quiet c1 c4" unfolding c4_def
    by (rule quiet_trans [OF quiet_trans]; rule quiet_intros)
  from quiet_trans [OF quiet_elapsed [OF elapsed] this]
  have first: "moves [] [] [] st (in_context c4 st)" by (simp add: moves_def quiet_moves)
  obtain routed st2 where follow: "follow_edges m g FailureOutcome n (in_context c4 st) = (routed, st2)" by fastforce
  from follow_edges_moves [OF follow] obtain A where A: "moves [] [] A (in_context c4 st) st2" "leaves g (n_id n) A"
    and v: "verdict st2 = verdict st" by auto
  have moved: "moves [] [] A st st2" using moves_trans [OF first A(1)] by simp
  have logged: "moves [] [] A st (in_context (ctx_log m Warn msg (ls_context st2)) st2)" for msg
    using ctx_moves_quiet [OF _ quiet_intros(5), of "[]" "[]" A "ls_context st" "ls_context st2" m Warn msg] moved
    by (simp add: moves_def)
  have update: "moves S F A st st' \<Longrightarrow> moves S F A st (st'\<lparr>ls_status := x, ls_failure := y\<rparr>)" for S F A st' x y
    by (simp add: moves_def)
  from assms consider (early) "r = ?failed (in_context c4 st)" | (late) "r = ?failed st2"
    | (goes_on) msg where "r = Continue (in_context (ctx_log m Warn msg (ls_context st2)) st2)"
    unfolding failure_stage_def Let_def elapsed prod.case c4_def [symmetric] follow
    by (auto split: if_splits)
  then show ?thesis
  proof cases
    case early
    with update [OF first] show ?thesis by (intro exI [of _ "[]"]) (simp add: stage_moves_def)
  next
    case late
    with update [OF moved] A(2) show ?thesis by (intro exI [of _ A]) (simp add: stage_moves_def)
  next
    case goes_on
    with logged A(2) v show ?thesis by (intro exI [of _ A]) (simp add: stage_moves_def)
  qed
qed

section \<open>The moves of a node and of the loop\<close>

lemma stage_moves_retype:
  "stage_moves S F A st (Break s :: ('w loop_state, 'a) stage) \<Longrightarrow> stage_moves S F A st (Break s :: ('w loop_state, 'b) stage)"
  "stage_moves S F A st (Continue s :: ('w loop_state, 'a) stage) \<Longrightarrow> stage_moves S F A st (Continue s :: ('w loop_state, 'b) stage)"
  by (simp_all add: stage_moves_def)

text \<open>The rule for a sequence: a stage that ends the turn ends it, one that proceeds is followed.\<close>

lemma then_stage_moves:
  assumes run: "then_stage r f = Some res"
    and first: "\<And>x. r = Some x \<Longrightarrow> stage_moves S F A st x"
    and next_stage: "\<And>st' y. r = Some (Proceed st' y) \<Longrightarrow> f st' y = Some res \<Longrightarrow>
      \<exists>S' F' A'. stage_moves S' F' A' st' res \<and> P (S @ S') (F @ F') (A @ A')"
    and last: "P S F A"
  shows "\<exists>S F A. stage_moves S F A st res \<and> P S F A"
  using run
proof (cases rule: then_stage_cases)
  case (stopped s)
  from stage_moves_retype(1) [OF first [OF stopped(1)]] stopped(2) last show ?thesis by auto
next
  case (skipped s)
  from stage_moves_retype(2) [OF first [OF skipped(1)]] skipped(2) last show ?thesis by auto
next
  case (proceeds s x)
  from next_stage [OF proceeds] obtain S' F' A' where
    "stage_moves S' F' A' s res" "P (S @ S') (F @ F') (A @ A')" by blast
  with stage_moves_Proceed [OF first [OF proceeds(1)]] show ?thesis by blast
qed

lemma conclude_stage_moves:
  assumes "conclude_stage m g n started res st = Some r"
  shows "\<exists>F A. stage_moves [] F A st r \<and> (F = [] \<or> F = [n_id n]) \<and> leaves g (n_id n) A"
  using assms success_stage_moves failure_stage_moves by (fastforce simp: conclude_stage_def split: sum.splits)

lemma execute_node_moves:
  assumes run: "execute_node m g n ex st = Some r" and ok: "respects_context m (ex_execute ex)"
  shows "\<exists>S F A. stage_moves S F A st r \<and> (S = [] \<or> S = [n_id n]) \<and> (F = [] \<or> F = S) \<and> leaves g (n_id n) A"
  using run unfolding execute_node_def
proof (rule then_stage_moves)
  fix st1 config
  assume "then_stage (start_stage m g n config st1) (\<lambda>st2 (input, started).
      then_stage (attempt_stage m n (ex_execute ex) input st2) (\<lambda>st3 res. conclude_stage m g n started res st3)) = Some r"
  then have "\<exists>S F A. stage_moves S F A st1 r \<and> S = [n_id n] \<and> (F = [] \<or> F = S) \<and> leaves g (n_id n) A"
  proof (rule then_stage_moves)
    fix st2 :: "'a loop_state" and y :: "node_input \<times> nat"
    assume "(case y of (input, started) \<Rightarrow>
        then_stage (attempt_stage m n (ex_execute ex) input st2) (\<lambda>st3 res. conclude_stage m g n started res st3)) = Some r"
    then have "then_stage (attempt_stage m n (ex_execute ex) (fst y) st2) (\<lambda>st3 res. conclude_stage m g n (snd y) res st3) = Some r"
      by (simp add: case_prod_beta)
    then have "\<exists>S F A. stage_moves S F A st2 r \<and> S = [] \<and> (F = [] \<or> F = [n_id n]) \<and> leaves g (n_id n) A"
      by (rule then_stage_moves) (use attempt_stage_moves [OF _ ok] conclude_stage_moves in auto)
    then show "\<exists>S' F' A'. stage_moves S' F' A' st2 r \<and>
        [n_id n] @ S' = [n_id n] \<and> ([] @ F' = [] \<or> [] @ F' = [n_id n] @ S') \<and> leaves g (n_id n) ([] @ A')" by auto
  qed (auto dest: start_stage_moves)
  then show "\<exists>S' F' A'. stage_moves S' F' A' st1 r \<and>
      ([] @ S' = [] \<or> [] @ S' = [n_id n]) \<and> ([] @ F' = [] \<or> [] @ F' = [] @ S') \<and> leaves g (n_id n) ([] @ A')" by auto
qed (auto dest: authorize_stage_moves)

definition registry_respects :: "'w machine \<Rightarrow> 'w registry \<Rightarrow> bool" where
  "registry_respects m r \<longleftrightarrow> (\<forall>t ex. registry_get r t = Some ex \<longrightarrow> respects_context m (ex_execute ex))"

lemma run_node_moves:
  assumes run: "run_node m en g nid st = Some r"
    and g: "\<And>n. graph_node g nid = Some n \<Longrightarrow> n_id n = nid"
    and ok: "registry_respects m (en_registry en)"
  shows "\<exists>S F A. stage_moves S F A st r \<and>
    (S = [] \<or> S = [nid] \<and> nid \<in> set (ls_activated st) \<and> ls_executed st < eo_max_nodes (en_options en)) \<and>
    (F = [] \<or> F = S) \<and> leaves g nid A"
  using run unfolding run_node_def
proof (rule then_stage_moves)
  fix st1 :: "'a loop_state" and u :: unit
  assume turn: "turn_stage en nid st = Some (Proceed st1 u)"
  note permitted = turn_stage_moves(2) [OF turn refl]
  assume "then_stage (enter_stage m g nid st1) (\<lambda>st2 n.
      then_stage (condition_stage m n st2) (\<lambda>st3 _. then_stage (breakpoint_stage m n st3) (\<lambda>st4 _.
      then_stage (executor_stage en n st4) (\<lambda>st5 ex. execute_node m g n ex st5)))) = Some r"
  then have "\<exists>S F A. stage_moves S F A st1 r \<and> (S = [] \<or> S = [nid]) \<and> (F = [] \<or> F = S) \<and> leaves g nid A"
  proof (cases rule: then_stage_cases)
    case (stopped s)
    from enter_stage_moves [OF stopped(1) g] obtain A where
      "stage_moves [] [] A st1 (Break s :: ('a loop_state, node) stage)" "leaves g nid A" by auto
    with stage_moves_retype(1) stopped(2) show ?thesis by (intro exI [of _ "[]"] exI [of _ A]) auto
  next
    case (skipped s)
    from enter_stage_moves [OF skipped(1) g] obtain A where
      "stage_moves [] [] A st1 (Continue s :: ('a loop_state, node) stage)" "leaves g nid A" by auto
    with stage_moves_retype(2) skipped(2) show ?thesis by (intro exI [of _ "[]"] exI [of _ A]) auto
  next
    case (proceeds st2 n)
    from enter_stage_moves [OF proceeds(1) g] have enter: "stage_moves [] [] [] st1 (Proceed st2 n)" and id: "n_id n = nid"
      by auto
    from proceeds(2) have "\<exists>S F A. stage_moves S F A st2 r \<and> (S = [] \<or> S = [nid]) \<and> (F = [] \<or> F = S) \<and> leaves g nid A"
    proof (rule then_stage_moves)
      fix st3 :: "'a loop_state" and u :: unit
      assume "then_stage (breakpoint_stage m n st3) (\<lambda>st4 _.
          then_stage (executor_stage en n st4) (\<lambda>st5 ex. execute_node m g n ex st5)) = Some r"
      then have "\<exists>S F A. stage_moves S F A st3 r \<and> (S = [] \<or> S = [nid]) \<and> (F = [] \<or> F = S) \<and> leaves g nid A"
      proof (rule then_stage_moves)
        fix st4 :: "'a loop_state" and u :: unit
        assume "then_stage (executor_stage en n st4) (\<lambda>st5 ex. execute_node m g n ex st5) = Some r"
        then have "\<exists>S F A. stage_moves S F A st4 r \<and> (S = [] \<or> S = [nid]) \<and> (F = [] \<or> F = S) \<and> leaves g nid A"
        proof (rule then_stage_moves)
          fix st5 ex
          assume found: "executor_stage en n st4 = Some (Proceed st5 ex)" and "execute_node m g n ex st5 = Some r"
          moreover have "respects_context m (ex_execute ex)"
            using executor_stage_moves [OF found] ok by (auto simp: registry_respects_def)
          ultimately show "\<exists>S' F' A'. stage_moves S' F' A' st5 r \<and> ([] @ S' = [] \<or> [] @ S' = [nid]) \<and>
              ([] @ F' = [] \<or> [] @ F' = [] @ S') \<and> leaves g nid ([] @ A')"
            using execute_node_moves [of m g n ex st5 r] by (auto simp: id)
        qed (auto dest: executor_stage_moves)
        then show "\<exists>S' F' A'. stage_moves S' F' A' st4 r \<and> ([] @ S' = [] \<or> [] @ S' = [nid]) \<and>
            ([] @ F' = [] \<or> [] @ F' = [] @ S') \<and> leaves g nid ([] @ A')" by simp
      qed (auto dest: breakpoint_stage_moves)
      then show "\<exists>S' F' A'. stage_moves S' F' A' st3 r \<and> ([] @ S' = [] \<or> [] @ S' = [nid]) \<and>
          ([] @ F' = [] \<or> [] @ F' = [] @ S') \<and> leaves g nid ([] @ A')" by simp
    qed (auto dest: condition_stage_moves)
    then show ?thesis using stage_moves_Proceed [OF enter] by (metis append_Nil)
  qed
  then show "\<exists>S' F' A'. stage_moves S' F' A' st1 r \<and>
      ([] @ S' = [] \<or> [] @ S' = [nid] \<and> nid \<in> set (ls_activated st) \<and> ls_executed st < eo_max_nodes (en_options en)) \<and>
      ([] @ F' = [] \<or> [] @ F' = [] @ S') \<and> leaves g nid ([] @ A')"
    using permitted by auto
qed (auto dest: turn_stage_moves(1))

end
