(* ===== verification/Nodara_Engine_Spec.thy ===== *)
theory Nodara_Engine_Spec
  imports Nodara_Engine_Trace Nodara_Topology
begin

text \<open>
  What a run promises. \<open>engine_result\<close> is the shape of the result of \<open>run_engine\<close>: a run that
  fails before its first node, or the loop between \<open>begin_run\<close> and \<open>finish_run\<close>. The properties
  combine it with the moves of \<open>Nodara_Engine_Trace\<close>. The executors are arbitrary code; where
  a property needs it, \<open>registry_respects\<close> says that they touch the context through its
  operations only, which the privacy of its fields enforces in Rust.
\<close>

section \<open>The loop\<close>

lemma subseq_distinct: "subseq xs ys \<Longrightarrow> distinct ys \<Longrightarrow> distinct xs"
  by (induction rule: list_emb.induct) (auto dest: subseq_set)

definition justified :: "string \<Rightarrow> execution_event list \<Rightarrow> bool" where
  "justified entry es \<longleftrightarrow>
     (\<forall>xs e ys nid. es = xs @ e # ys \<longrightarrow> started_node e = Some nid \<longrightarrow> nid = entry \<or> nid \<in> snd ` set (activations xs))"

lemma justified_append:
  assumes "justified entry es" "\<And>nid. nid \<in> set (starts es') \<Longrightarrow> nid = entry \<or> nid \<in> snd ` set (activations es)"
  shows "justified entry (es @ es')"
  unfolding justified_def
proof (intro allI impI)
  fix xs e ys nid
  assume split: "es @ es' = xs @ e # ys" and nid: "started_node e = Some nid"
  have "(\<exists>us. es = xs @ e # us) \<or> (\<exists>us. xs = es @ us \<and> es' = us @ e # ys)"
    using split by (auto simp: append_eq_append_conv2 Cons_eq_append_conv append_eq_Cons_conv)
  then consider us where "es = xs @ e # us" | us where "xs = es @ us" "es' = us @ e # ys" by blast
  then show "nid = entry \<or> nid \<in> snd ` set (activations xs)"
  proof cases
    case 1
    with assms(1) nid show ?thesis by (simp add: justified_def)
  next
    case 2
    with assms(2) [of nid] nid show ?thesis by auto
  qed
qed

text \<open>The invariant of the loop: what is activated was activated by an edge in the stream.\<close>

definition loop_inv :: "workflow \<Rightarrow> string \<Rightarrow> 'w loop_state \<Rightarrow> bool" where
  "loop_inv w entry st \<longleftrightarrow>
     justified entry (cx_events (ls_context st)) \<and>
     set (ls_activated st) \<subseteq> insert entry (snd ` set (activations (cx_events (ls_context st)))) \<and>
     set (activations (cx_events (ls_context st))) \<subseteq>
       {(e_source e, e_target e) | e. e \<in> set (w_edges w) \<and> e_kind e = Control}"

lemma loop_inv_moves:
  assumes "loop_inv w entry st" "moves S F A st st'" "set S \<subseteq> set (ls_activated st)" "leaves (graph_of w) nid A"
  shows "loop_inv w entry st'"
proof -
  obtain es where es: "cx_events (ls_context st') = cx_events (ls_context st) @ es" "starts es = S" "activations es = A"
    using assms(2) by (auto simp: moves_def ctx_moves_def)
  moreover have "justified entry (cx_events (ls_context st) @ es)"
    using assms(1,3) es by (intro justified_append) (auto simp: loop_inv_def)
  moreover have "set A \<subseteq> {(e_source e, e_target e) | e. e \<in> set (w_edges w) \<and> e_kind e = Control}"
    using assms(4) by (auto simp: leaves_def)
  ultimately show ?thesis
    using assms(1,2) unfolding loop_inv_def moves_def by auto
qed

lemma moves_stopped_trans:
  "verdict b = verdict a \<Longrightarrow> verdict c = verdict b \<or> stopped c \<Longrightarrow> verdict c = verdict a \<or> stopped c"
  by simp

lemma run_nodes_moves:
  assumes "run_nodes m en (graph_of w) order st = Some st'"
    and "registry_respects m (en_registry en)" "loop_inv w entry st"
  shows "\<exists>S F A. moves S F A st st' \<and> subseq S order \<and> subseq F S \<and>
    (verdict st' = verdict st \<or> stopped st') \<and> loop_inv w entry st' \<and>
    (ls_executed st \<le> eo_max_nodes (en_options en) \<longrightarrow> ls_executed st' \<le> eo_max_nodes (en_options en))"
  using assms(1,3)
proof (induction order arbitrary: st)
  case Nil
  then show ?case by (intro exI [of _ "[]"]) simp
next
  case (Cons nid order)
  let ?g = "graph_of w"
  obtain r where r: "run_node m en ?g nid st = Some r" using Cons.prems(1) by (auto split: option.splits)
  have id: "\<And>n. graph_node ?g nid = Some n \<Longrightarrow> n_id n = nid" by (simp add: workflow_node_SomeD)
  obtain S F A where move: "stage_moves S F A st r"
    "S = [] \<or> S = [nid] \<and> nid \<in> set (ls_activated st) \<and> ls_executed st < eo_max_nodes (en_options en)"
    "F = [] \<or> F = S" "leaves ?g nid A"
    using run_node_moves [OF r id assms(2)] by blast
  have m1: "moves S F A st (stage_state r)" using move(1) by (simp add: stage_moves_def)
  have inv: "loop_inv w entry (stage_state r)"
    by (rule loop_inv_moves [OF Cons.prems(2) m1 _ move(4)]) (use move(2) in auto)
  have S: "subseq S (nid # zs)" for zs using move(2) by auto
  have F: "subseq F S" using move(3) by auto
  have limit: "ls_executed st \<le> eo_max_nodes (en_options en) \<longrightarrow> ls_executed (stage_state r) \<le> eo_max_nodes (en_options en)"
    using m1 move(2,3) by (auto simp: moves_def)
  show ?case
  proof (cases "\<exists>s. r = Break s")
    case True
    then have "st' = stage_state r" "settles st (Break st' :: ('a loop_state, unit) stage)"
      using Cons.prems(1) r move(1) by (auto simp: stage_moves_def)
    with m1 S F inv limit show ?thesis by (intro exI [of _ S] exI [of _ F] exI [of _ A]) auto
  next
    case False
    then have rest: "run_nodes m en ?g order (stage_state r) = Some st'" and v: "verdict (stage_state r) = verdict st"
      using Cons.prems(1) r move(1) by (cases r; auto simp: stage_moves_def)+
    obtain S' F' A' where IH: "moves S' F' A' (stage_state r) st'" "subseq S' order" "subseq F' S'"
      "verdict st' = verdict (stage_state r) \<or> stopped st'" "loop_inv w entry st'"
      "ls_executed (stage_state r) \<le> eo_max_nodes (en_options en) \<longrightarrow> ls_executed st' \<le> eo_max_nodes (en_options en)"
      using Cons.IH [OF rest inv] by blast
    have "subseq (S @ S') (nid # order)" using move(2) IH(2) by (auto intro: list_emb_Cons)
    moreover have "subseq (F @ F') (S @ S')" using F IH(3) by (rule list_emb_append_mono)
    moreover have "moves (S @ S') (F @ F') (A @ A') st st'" using m1 IH(1) by (rule moves_trans)
    ultimately show ?thesis
      using IH(4-6) v limit by (intro exI [of _ "S @ S'"] exI [of _ "F @ F'"] exI [of _ "A @ A'"]) auto
  qed
qed

section \<open>The shape of a result\<close>

lemma fail_fast_simps:
  assumes "fail_fast m run_id started vars code message s = (o', s')"
  shows "sh_events s' = sh_events s @ [RunFailed code message]" "bus_ok (sh_bus s) \<Longrightarrow> bus_ok (sh_bus s')"
    "ro_status o' = Failed" "ro_nodes_executed o' = 0" "ro_variables o' = vars"
    "ro_failure o' = Some \<lparr>rf_code = code, rf_message = message\<rparr>" "eb_run_id (sh_bus s') = eb_run_id (sh_bus s)"
    "ro_run_id o' = run_id"
  using assms by (auto simp: fail_fast_def sh_finish_def sh_elapsed_def Let_def split: prod.splits)

lemma finish_run_simps:
  assumes "finish_run m started st = (o', s')"
  shows "\<exists>d. sh_events s' = cx_events (ls_context st) @ [terminal_event (ls_status st) (ls_failure st) (ls_executed st) d] \<and>
      ro_duration_ms o' = d"
    "bus_ok (sh_bus (cx_shared (ls_context st))) \<Longrightarrow> bus_ok (sh_bus s')"
    "ro_status o' = ls_status st" "ro_nodes_executed o' = ls_executed st"
    "ro_variables o' = ctx_redacted (ls_context st)"
    "ro_failure o' = ls_failure st" "ro_run_id o' = cx_run_id (ls_context st)"
proof -
  have scope: "ctx_redacted (set_node x c) = ctx_redacted c" for x and c :: "'a exec_context"
    by (simp add: ctx_redacted_def ctx_scope_def set_node_def)
  have node: "cx_shared (set_node x c) = cx_shared c" "cx_run_id (set_node x c) = cx_run_id c" for x and c :: "'a exec_context"
    by (simp_all add: set_node_def)
  obtain d c2 where elapsed: "ctx_elapsed m started (set_node None (ls_context st)) = (d, c2)" by fastforce
  then have c2: "cx_events c2 = cx_events (ls_context st)" "sh_bus (cx_shared c2) = sh_bus (cx_shared (ls_context st))"
      "cx_run_id c2 = cx_run_id (ls_context st)"
    by (auto simp: ctx_elapsed_def node split: prod.splits)
  show "\<exists>d. sh_events s' = cx_events (ls_context st) @ [terminal_event (ls_status st) (ls_failure st) (ls_executed st) d] \<and>
      ro_duration_ms o' = d"
    "bus_ok (sh_bus (cx_shared (ls_context st))) \<Longrightarrow> bus_ok (sh_bus s')"
    "ro_status o' = ls_status st" "ro_nodes_executed o' = ls_executed st"
    "ro_variables o' = ctx_redacted (ls_context st)"
    "ro_failure o' = ls_failure st" "ro_run_id o' = cx_run_id (ls_context st)"
    using assms unfolding finish_run_def Let_def elapsed prod.case
    by (auto simp: sh_finish_def ctx_record_def ctx_emit_def scope c2)
qed

definition prologue :: "'w run_request \<Rightarrow> execution_event list" where
  "prologue request =
     RunStarted (w_id (rr_workflow request)) # (if rr_start_paused request then [RunPaused] else [])"

lemma begin_run_simps:
  "cx_events (begin_run m paused c) =
     cx_events c @ RunStarted (cx_workflow_id c) # (if paused then [RunPaused] else [])"
  "cx_secrets (begin_run m paused c) = cx_secrets c"
  "bus_ok (sh_bus (cx_shared c)) \<Longrightarrow> bus_ok (sh_bus (cx_shared (begin_run m paused c)))"
  "cx_variables (begin_run m paused c) = cx_variables c" "cx_policy (begin_run m paused c) = cx_policy c"
  "cx_control (begin_run m paused c) = cx_control c" "cx_approval (begin_run m paused c) = cx_approval c"
  "cx_run_id (begin_run m paused c) = cx_run_id c"
  by (simp_all add: begin_run_def ctx_record_def ctx_emit_def Let_def)

text \<open>The state in which the loop of a request starts.\<close>

definition loop_start ::
    "'w machine \<Rightarrow> 'w engine \<Rightarrow> 'w run_request \<Rightarrow> run_control \<Rightarrow> string \<Rightarrow> 'w \<Rightarrow> string \<Rightarrow> 'w loop_state" where
  "loop_start m en request control run_id world entry =
     initial_state (begin_run m (rr_start_paused request)
       (new_context run_id (w_id (rr_workflow request))
          (seeded_variables (rr_workflow request) (rr_variables request)) (secret_names (rr_workflow request))
          (en_policy en) (case rr_approval request of Some h \<Rightarrow> h | None \<Rightarrow> en_approval en)
          \<lparr>sh_control = control, sh_bus = new_bus run_id, sh_audit = [],
            sh_artifacts = (case rr_artifacts request of Some a \<Rightarrow> a | None \<Rightarrow> []), sh_world = world\<rparr>)) entry"

lemma engine_result:
  assumes "run_engine m en request control world = Some (o', s)"
  obtains (failed) code message where "sh_events s = [RunFailed code message]" "bus_ok (sh_bus s)"
      "ro_status o' = Failed" "ro_nodes_executed o' = 0"
      "ro_variables o' = seeded_variables (rr_workflow request) (rr_variables request)"
      "ro_failure o' = Some \<lparr>rf_code = code, rf_message = message\<rparr>"
      "eo_validate (en_options en) \<and> code = ''E_VALIDATION'' \<and>
         \<not> is_valid (validate_with (rr_workflow request) (registry_index (en_registry en)) (eo_validation (en_options en))) \<or>
       code = ''E_NO_ENTRY_POINT'' \<and> entry_node (graph_of (rr_workflow request)) = None \<or>
       code = ''E_GRAPH'' \<and> (\<exists>e. topological_order (graph_of (rr_workflow request)) = Inl e)"
    | (ran) run_id w1 started entry order st where
      "entry_node (graph_of (rr_workflow request)) = Some entry"
      "topological_order (graph_of (rr_workflow request)) = Inr order"
      "run_nodes m en (graph_of (rr_workflow request)) order (loop_start m en request control run_id w1 (n_id entry)) = Some st"
      "finish_run m started st = (o', s)"
      "eo_validate (en_options en) \<Longrightarrow>
         is_valid (validate_with (rr_workflow request) (registry_index (en_registry en)) (eo_validation (en_options en)))"
proof -
  let ?w = "rr_workflow request"
  obtain started w0 where instant: "mc_instant_ns m world = (started, w0)" by fastforce
  obtain run_id w1 where rid: "(case rr_run_id request of Some run_id \<Rightarrow> (run_id, w0) | None \<Rightarrow> mc_uuid m w0) = (run_id, w1)"
    by fastforce
  define s0 where "s0 = \<lparr>sh_control = control, sh_bus = new_bus run_id, sh_audit = [],
    sh_artifacts = (case rr_artifacts request of Some a \<Rightarrow> a | None \<Rightarrow> []), sh_world = w1\<rparr>"
  have run: "run_validated m en request run_id started s0 = Some (o', s)"
    using assms by (simp add: run_engine_def instant rid Let_def s0_def)
  have s0: "sh_events s0 = []" "bus_ok (sh_bus s0)" by (simp_all add: s0_def)
  let ?seeded = "seeded_variables ?w (rr_variables request)"
  let ?r = "validate_with ?w (registry_index (en_registry en)) (eo_validation (en_options en))"
  have ff: thesis if "fail_fast m run_id started ?seeded code message s1 = (o', s)" "sh_events s1 = []" "bus_ok (sh_bus s1)"
      "eo_validate (en_options en) \<and> code = ''E_VALIDATION'' \<and> \<not> is_valid ?r \<or>
       code = ''E_NO_ENTRY_POINT'' \<and> entry_node (graph_of ?w) = None \<or>
       code = ''E_GRAPH'' \<and> (\<exists>e. topological_order (graph_of ?w) = Inl e)" for code message s1
    using fail_fast_simps [OF that(1)] that(2-) by (intro failed [of code message]) simp_all
  show thesis
  proof (cases "eo_validate (en_options en) \<and> \<not> is_valid ?r")
    case True
    with run have "fail_fast m run_id started ?seeded ''E_VALIDATION'' (validation_message ?w ?r)
        (sh_record m run_id AuditRunFinished (validation_message ?w ?r) (record_detail (report_json ?r)) s0) = (o', s)"
      by (simp add: run_validated_def Let_def)
    from ff [OF this] True s0 show thesis by simp
  next
    case False
    let ?approval = "case rr_approval request of Some h \<Rightarrow> h | None \<Rightarrow> en_approval en"
    from False run have plan: "run_plan m en ?w (rr_start_paused request) ?approval ?seeded run_id started s0 = Some (o', s)"
      by (auto simp: run_validated_def Let_def split: if_splits)
    show thesis
    proof (cases "entry_node (graph_of ?w)")
      case None
      with plan have "fail_fast m run_id started ?seeded ''E_NO_ENTRY_POINT'' ''workflow has no entry point'' s0 = (o', s)"
        by (simp add: run_plan_def Let_def)
      from ff [OF this] None s0 show thesis by simp
    next
      case (Some entry)
      show thesis
      proof (cases "topological_order (graph_of ?w)")
        case (Inl e)
        with plan Some have "fail_fast m run_id started ?seeded ''E_GRAPH'' (graph_error_text e) s0 = (o', s)"
          by (simp add: run_plan_def Let_def)
        from ff [OF this] Inl s0 show thesis by simp
      next
        case (Inr order)
        with plan Some obtain st where
          "run_nodes m en (graph_of ?w) order (loop_start m en request control run_id w1 (n_id entry)) = Some st"
          "finish_run m started st = (o', s)"
          by (auto simp: run_plan_def Let_def loop_start_def s0_def)
        with ran [OF Some Inr] False show thesis by blast
      qed
    qed
  qed
qed

lemma loop_start_simps:
  fixes request :: "'w run_request"
  shows "cx_events (ls_context (loop_start m en request control run_id w entry)) = prologue request"
    "cx_secrets (ls_context (loop_start m en request control run_id w entry)) = secret_names (rr_workflow request)"
    "bus_ok (sh_bus (cx_shared (ls_context (loop_start m en request control run_id w entry))))"
    "ls_executed (loop_start m en request control run_id w entry) = 0"
    "ls_activated (loop_start m en request control run_id w entry) = [entry]"
    "verdict (loop_start m en request control run_id w entry) = (Completed, None)"
    "cx_policy (ls_context (loop_start m en request control run_id w entry)) = en_policy en"
    "cx_control (ls_context (loop_start m en request control run_id w entry)) = control"
  by (simp_all add: loop_start_def initial_state_def begin_run_simps new_context_def prologue_def verdict_def)

lemma trace_prologue: "starts (prologue r) = []" "finishes (prologue r) = []" "activations (prologue r) = []"
  by (simp_all add: prologue_def)

lemma loop_inv_start: "loop_inv w entry (loop_start m en request control run_id world entry)"
proof -
  have "justified entry ([] @ prologue request)"
    by (rule justified_append) (simp_all add: justified_def trace_prologue)
  then show ?thesis by (simp add: loop_inv_def loop_start_simps trace_prologue)
qed

lemma terminal_event_summary:
  "started_node (terminal_event status failure n d) = None" "finished_node (terminal_event status failure n d) = None"
  "activated_edge (terminal_event status failure n d) = None"
  by (auto simp: terminal_event_def split: option.splits)

lemma engine_trace:
  assumes run: "run_engine m en request control world = Some (o', s)"
    and ok: "registry_respects m (en_registry en)"
  obtains (failed) code message where "sh_events s = [RunFailed code message]" "bus_ok (sh_bus s)"
      "ro_status o' = Failed" "ro_nodes_executed o' = 0" "ro_failure o' = Some \<lparr>rf_code = code, rf_message = message\<rparr>"
    | (ran) mid entry order where
      "sh_events s = prologue request @ mid @
         [terminal_event (ro_status o') (ro_failure o') (ro_nodes_executed o') (ro_duration_ms o')]"
      "bus_ok (sh_bus s)" "list_all (loop_event (secret_names (rr_workflow request))) mid"
      "ro_status o' = Completed \<and> ro_failure o' = None \<or>
       (ro_status o' = Failed \<or> ro_status o' = Cancelled) \<and> ro_failure o' \<noteq> None"
      "entry_node (graph_of (rr_workflow request)) = Some entry"
      "topological_order (graph_of (rr_workflow request)) = Inr order"
      "subseq (starts mid) order" "subseq (finishes mid) (starts mid)"
      "ro_nodes_executed o' = length (finishes mid)" "ro_nodes_executed o' \<le> eo_max_nodes (en_options en)"
      "justified (n_id entry) (prologue request @ mid)"
      "set (activations mid) \<subseteq> {(e_source e, e_target e) | e. e \<in> set (w_edges (rr_workflow request)) \<and> e_kind e = Control}"
      "hides (secret_names (rr_workflow request)) (ro_variables o')"
  using run
proof (cases rule: engine_result)
  case (failed code message)
  then show thesis using that(1) by blast
next
  case (ran run_id w1 started entry order st)
  let ?w = "rr_workflow request"
  let ?st0 = "loop_start m en request control run_id w1 (n_id entry)"
  obtain S F A where loop: "moves S F A ?st0 st" "subseq S order" "subseq F S"
      "verdict st = (Completed, None) \<or> stopped st" "loop_inv ?w (n_id entry) st"
      "ls_executed st \<le> eo_max_nodes (en_options en)"
    using run_nodes_moves [OF ran(3) ok loop_inv_start] by (auto simp: loop_start_simps)
  obtain mid where mid: "cx_events (ls_context st) = prologue request @ mid" "starts mid = S" "finishes mid = F" "activations mid = A"
    using loop(1) by (auto simp: moves_def ctx_moves_def loop_start_simps)
  have ext: "ctx_extends (loop_event (secret_names ?w)) (ls_context ?st0) (ls_context st)"
    using loop(1) by (simp add: moves_def ctx_moves_def loop_start_simps)
  then have events: "list_all (loop_event (secret_names ?w)) mid" and bus: "bus_ok (sh_bus (cx_shared (ls_context st)))"
    using mid(1) by (auto simp: ctx_extends_def sh_extends_def loop_start_simps)
  have "cx_secrets (ls_context st) = secret_names ?w"
    using ctx_extends_secrets [OF ext] by (simp add: loop_start_simps)
  then have hidden: "hides (secret_names ?w) (ctx_redacted (ls_context st))"
    using hides_redacted [of "ls_context st"] by simp
  note fin = finish_run_simps [OF ran(4)]
  have "ls_executed st = length F" using loop(1) by (simp add: moves_def loop_start_simps)
  moreover have "justified (n_id entry) (prologue request @ mid)"
    using loop(5) by (simp add: loop_inv_def mid)
  moreover have "set A \<subseteq> {(e_source e, e_target e) | e. e \<in> set (w_edges ?w) \<and> e_kind e = Control}"
    using loop(5) by (simp add: loop_inv_def mid trace_prologue)
  moreover have "ls_status st = Completed \<and> ls_failure st = None \<or>
      (ls_status st = Failed \<or> ls_status st = Cancelled) \<and> ls_failure st \<noteq> None"
    using loop(4) by (auto simp: verdict_def stopped_def)
  ultimately show thesis
    using fin loop(2,3,6) mid events bus hidden ran(1,2) by (intro that(2) [of mid entry order]) auto
qed

end
