(* ===== verification/Nodara_Runs_Spec.thy ===== *)
theory Nodara_Runs_Spec
  imports Nodara_Runs Nodara_Engine_Spec "HOL-Library.Multiset"
begin

text \<open>
  What a run handle promises: the state machine its status follows, agreement with the outcome
  of the engine, complete delivery to subscribers, and the numbering that concurrent publication
  keeps, together with what it does not keep.
\<close>

section \<open>The state machine of a handle\<close>

text \<open>Specification: the status after an event.\<close>

fun status_after :: "execution_event \<Rightarrow> run_status \<Rightarrow> run_status" where
  "status_after (RunStarted _) s = Running"
| "status_after RunPaused s = (if is_terminal s then s else Paused)"
| "status_after RunResumed s = (if s = Paused then Running else s)"
| "status_after (RunCompleted _ _) s = Completed"
| "status_after (RunFailed _ _) s = Failed"
| "status_after (RunCancelled _) s = Cancelled"
| "status_after _ s = s"

fun ends_run :: "execution_event \<Rightarrow> bool" where
  "ends_run (RunCompleted _ _) = True"
| "ends_run (RunFailed _ _) = True"
| "ends_run (RunCancelled _) = True"
| "ends_run _ = False"

named_theorems handle_simps \<open>fields of a handle after an operation\<close>

lemma on_state_fields [simp]:
  "rh_state (on_state f h) = f (rh_state h)" "rh_history (on_state f h) = rh_history h"
  "rh_sent (on_state f h) = rh_sent h" "rh_next_seq (on_state f h) = rh_next_seq h" "rh_id (on_state f h) = rh_id h"
  "rh_flags (on_state f h) = rh_flags h"
  by (simp_all add: on_state_def)

lemma apply_event_fields [handle_simps]:
  assumes "apply_event m e h w = (h', w')"
  shows "rs_status (rh_state h') = status_after e (rs_status (rh_state h))"
    "rs_nodes_executed (rh_state h') = rs_nodes_executed (rh_state h) + length (finishes [e])"
    "rs_finished_at_ms (rh_state h') = None \<Longrightarrow> rs_finished_at_ms (rh_state h) = None \<and> \<not> ends_run e"
    "rh_history h' = rh_history h" "rh_sent h' = rh_sent h" "rh_next_seq h' = rh_next_seq h" "rh_id h' = rh_id h"
    "rh_flags h' = rh_flags h"
  using assms by (cases e; auto simp: finished_at_def with_failure_def Let_def split: if_splits prod.splits)+

lemma claim_seq_fields [handle_simps]:
  assumes "claim_seq m e h w = (e', h', w')"
  shows "h' = h\<lparr>rh_next_seq := rh_next_seq h + 1\<rparr>" "ev_seq e' = rh_next_seq h" "ev_run_id e' = rh_id h"
    "ev_event e' = ev_event e"
  using assms by (auto simp: claim_seq_def Let_def split: if_splits prod.splits)

lemma publish_fields:
  assumes "publish m e h w = (h', w')"
  shows "rs_status (rh_state h') = status_after (ev_event e) (rs_status (rh_state h))"
    "rs_nodes_executed (rh_state h') = rs_nodes_executed (rh_state h) + length (finishes [ev_event e])"
    "rs_finished_at_ms (rh_state h') = None \<Longrightarrow> rs_finished_at_ms (rh_state h) = None \<and> \<not> ends_run (ev_event e)"
    "\<exists>e'. rh_history h' = rh_history h @ [e'] \<and> rh_sent h' = rh_sent h @ [e'] \<and> ev_seq e' = rh_next_seq h \<and>
       ev_run_id e' = rh_id h \<and> ev_event e' = ev_event e"
    "rh_next_seq h' = rh_next_seq h + 1" "rh_id h' = rh_id h" "rh_flags h' = rh_flags h"
proof -
  obtain e1 h1 w1 h2 w2 where steps: "claim_seq m e h w = (e1, h1, w1)" "apply_event m (ev_event e1) h1 w1 = (h2, w2)"
    by (metis surj_pair)
  with assms have h': "h' = broadcast e1 (push_history e1 h2)" by (simp add: publish_def)
  note f = claim_seq_fields [OF steps(1)] apply_event_fields [OF steps(2)]
  show "rs_status (rh_state h') = status_after (ev_event e) (rs_status (rh_state h))"
    "rs_nodes_executed (rh_state h') = rs_nodes_executed (rh_state h) + length (finishes [ev_event e])"
    "rs_finished_at_ms (rh_state h') = None \<Longrightarrow> rs_finished_at_ms (rh_state h) = None \<and> \<not> ends_run (ev_event e)"
    "\<exists>e'. rh_history h' = rh_history h @ [e'] \<and> rh_sent h' = rh_sent h @ [e'] \<and> ev_seq e' = rh_next_seq h \<and>
       ev_run_id e' = rh_id h \<and> ev_event e' = ev_event e"
    "rh_next_seq h' = rh_next_seq h + 1" "rh_id h' = rh_id h" "rh_flags h' = rh_flags h"
    using f by (simp_all add: h' broadcast_def push_history_def)
qed

lemma publish_all_simps [simp]:
  "publish_all m [] h w = (h, w)"
  "publish_all m (e # es) h w = (case publish m e h w of (h', w') \<Rightarrow> publish_all m es h' w')"
  by (simp_all add: publish_all_def split: prod.splits)

lemma publish_all_append:
  "publish_all m (xs @ ys) h w = (case publish_all m xs h w of (h', w') \<Rightarrow> publish_all m ys h' w')"
  by (induction xs arbitrary: h w) (auto split: prod.splits)

lemma publish_all_state:
  assumes "publish_all m es h w = (h', w')"
  shows "rs_status (rh_state h') = fold status_after (map ev_event es) (rs_status (rh_state h)) \<and>
    rs_nodes_executed (rh_state h') = rs_nodes_executed (rh_state h) + length (finishes (map ev_event es)) \<and>
    (rs_finished_at_ms (rh_state h') = None \<longrightarrow>
       rs_finished_at_ms (rh_state h) = None \<and> list_all (\<lambda>e. \<not> ends_run e) (map ev_event es))"
  using assms
proof (induction es arbitrary: h w)
  case (Cons e es)
  from Cons.prems obtain h1 w1 where h1: "publish m e h w = (h1, w1)" "publish_all m es h1 w1 = (h', w')"
    by (auto split: prod.splits)
  from Cons.IH [OF h1(2)] publish_fields [OF h1(1)] show ?case by (auto split: option.splits)
qed simp

text \<open>What the engine relies on when it emits through a handle: a sink that keeps the event of every
  envelope, in order, whatever numbers it puts on them.\<close>

locale recording_sink =
  fixes emit :: "event_envelope \<Rightarrow> 's \<Rightarrow> 's" and seen :: "'s \<Rightarrow> execution_event list"
  assumes emit_seen: "seen (emit e s) = seen s @ [ev_event e]"
begin

lemma seen_all: "seen (fold emit es s) = seen s @ map ev_event es"
  by (induction es arbitrary: s) (simp_all add: emit_seen)

lemma seen_run: "seen (fold emit (es @ [e]) s) \<noteq> [] \<and> last (seen (fold emit (es @ [e]) s)) = ev_event e"
  by (simp add: seen_all emit_seen)

end

interpretation handle_sink: recording_sink "\<lambda>e (h, w). publish m e h w" "\<lambda>(h, w). map ev_event (rh_history h)" for m
proof
  fix e and s :: "run_handle \<times> 'a"
  obtain h w h' w' where s: "s = (h, w)" "publish m e h w = (h', w')" by (metis surj_pair)
  with publish_fields(4) [OF s(2)] show
    "(case (case s of (h, w) \<Rightarrow> publish m e h w) of (h, w) \<Rightarrow> map ev_event (rh_history h)) =
      (case s of (h, w) \<Rightarrow> map ev_event (rh_history h)) @ [ev_event e]" by auto
qed

interpretation collecting_recorder: recording_sink collecting_sink_emit "map ev_event"
  by unfold_locales (simp add: collecting_sink_emit_def)

section \<open>Operator events around the events of the engine\<close>

lemma finishes_subset: "list_all (\<lambda>e. finished_node e = None) es \<Longrightarrow> finishes es = []"
  by (induction es) auto

lemma finishes_shuffles:
  "es \<in> shuffles xs ys \<Longrightarrow> list_all (\<lambda>e. finished_node e = None) ys \<Longrightarrow> finishes es = finishes xs"
proof (induction xs ys arbitrary: es rule: shuffles.induct)
  case (3 x xs y ys)
  then show ?case by (auto split: option.splits)
qed (auto simp: finishes_subset)

lemma shuffles_last:
  "es \<in> shuffles xs ys \<Longrightarrow> xs \<noteq> [] \<Longrightarrow> \<exists>as bs. es = as @ last xs # bs \<and> set bs \<subseteq> set ys"
proof (induction xs ys arbitrary: es rule: shuffles.induct)
  case (2 xs)
  then have "es = butlast xs @ [last xs]" by simp
  then show ?case by (metis empty_subsetI list.set(1))
next
  case (3 x xs y ys)
  from 3(3) consider zs where "es = x # zs" "zs \<in> shuffles xs (y # ys)" | zs where "es = y # zs" "zs \<in> shuffles (x # xs) ys"
    by auto
  then show ?case
  proof cases
    case 1
    show ?thesis
    proof (cases "xs = []")
      case True
      with 1 show ?thesis by (intro exI [of _ "[]"] exI [of _ zs]) auto
    next
      case False
      from 3(1) [OF 1(2) False] obtain as bs where "zs = as @ last xs # bs" "set bs \<subseteq> set (y # ys)" by blast
      with 1 False show ?thesis by (intro exI [of _ "x # as"] exI [of _ bs]) simp
    qed
  next
    case 2
    from 3(2) [OF 2(2)] obtain as bs where "zs = as @ last (x # xs) # bs" "set bs \<subseteq> set ys" by auto
    with 2 show ?thesis by (intro exI [of _ "y # as"] exI [of _ bs]) auto
  qed
qed simp

lemma operators_keep_terminal:
  "set es \<subseteq> {RunPaused, RunResumed} \<Longrightarrow> is_terminal s \<Longrightarrow> fold status_after es s = s"
  by (induction es) (auto simp: is_terminal_def)

lemma terminal_event_status:
  assumes "status = Completed \<and> failure = None \<or> (status = Failed \<or> status = Cancelled) \<and> failure \<noteq> None"
  shows "status_after (terminal_event status failure n d) s = status" "is_terminal status"
    "ends_run (terminal_event status failure n d)"
  using assms by (auto simp: terminal_event_def is_terminal_def)

text \<open>The events a run ends with: everything the engine emitted, its terminal event last.\<close>

lemma run_events_end:
  assumes "run_engine m en request control world = Some (o', s)" "registry_respects m (en_registry en)"
  obtains es where "sh_events s = es @ [terminal_event (ro_status o') (ro_failure o') (ro_nodes_executed o') (ro_duration_ms o')]"
    "ro_nodes_executed o' = length (finishes (sh_events s))"
    "ro_status o' = Completed \<and> ro_failure o' = None \<or>
       (ro_status o' = Failed \<or> ro_status o' = Cancelled) \<and> ro_failure o' \<noteq> None"
  using assms
proof (cases rule: engine_trace)
  case (failed code message)
  then show thesis using that [of "[]"] by (simp add: terminal_event_def)
next
  case (ran mid entry order)
  then show thesis using that [of "prologue request @ mid"] by (simp add: trace_prologue terminal_event_summary)
qed

section \<open>Numbering\<close>

text \<open>The invariant of a handle that one thread publishes to: what was sent is the history,
  numbered from 0 in its order.\<close>

definition numbered :: "run_handle \<Rightarrow> bool" where
  "numbered h \<longleftrightarrow>
     rh_sent h = rh_history h \<and> rh_next_seq h = of_nat (length (rh_history h)) \<and>
     map ev_seq (rh_history h) = map of_nat [0..<length (rh_history h)] \<and>
     list_all (\<lambda>e. ev_run_id e = rh_id h) (rh_history h)"

lemma numbered_new: "new_handle m hid wkf flags artifacts w = (h, w') \<Longrightarrow> numbered h"
  by (auto simp: new_handle_def numbered_def Let_def split: prod.splits)

lemma numbered_publish: "numbered h \<Longrightarrow> publish m e h w = (h', w') \<Longrightarrow> numbered h'"
  using publish_fields(4-6) [of m e h w h' w'] by (auto simp: numbered_def add.commute)

lemma numbered_publish_all:
  assumes "numbered h" "publish_all m es h w = (h', w')"
  shows "numbered h' \<and> rh_id h' = rh_id h \<and>
    (\<exists>new. rh_history h' = rh_history h @ new \<and> map ev_event new = map ev_event es)"
  using assms
proof (induction es arbitrary: h w)
  case (Cons e es)
  from Cons.prems obtain h1 w1 where h1: "publish m e h w = (h1, w1)" "publish_all m es h1 w1 = (h', w')"
    by (auto split: prod.splits)
  from publish_fields(4,6) [OF h1(1)] obtain e' where e': "rh_history h1 = rh_history h @ [e']" "ev_event e' = ev_event e" "rh_id h1 = rh_id h"
    by blast
  from Cons.IH [OF numbered_publish [OF Cons.prems(1) h1(1)] h1(2)] obtain new where
    "numbered h'" "rh_id h' = rh_id h1" "rh_history h' = rh_history h1 @ new" "map ev_event new = map ev_event es" by blast
  with e' show ?case by (intro conjI exI [of _ "e' # new"]) auto
qed simp

text \<open>Filtering the live events by the last replayed number leaves those after the replay.\<close>

lemma live_events_after:
  assumes "map ev_seq es = map of_nat [0..<length es]" "length es < 2 ^ 64" "r \<le> k" "k \<le> length es" "0 < k"
  shows "filter (\<lambda>e. (of_nat (k - 1) :: u64) < ev_seq e) (drop r es) = drop k es"
proof -
  have seq: "unat (ev_seq (es ! i)) = i" if "i < length es" for i
    using arg_cong [OF assms(1), of "\<lambda>xs. xs ! i"] that assms(2) by (simp add: unat_of_nat take_bit_nat_eq_self)
  have above: "(of_nat (k - 1) :: u64) < ev_seq e \<longleftrightarrow> k - 1 < unat (ev_seq e)" for e
    using assms(2,4) by (simp add: word_less_nat_alt unat_of_nat take_bit_nat_eq_self del: of_nat_diff)
  have split: "drop r es = take (k - r) (drop r es) @ drop k es"
    using assms(3) by (metis append_take_drop_id drop_drop le_add_diff_inverse2)
  have "filter (\<lambda>e. (of_nat (k - 1) :: u64) < ev_seq e) (take (k - r) (drop r es)) = []"
    using assms(3-5) seq unfolding above by (auto simp: filter_empty_conv in_set_conv_nth)
  moreover have "filter (\<lambda>e. (of_nat (k - 1) :: u64) < ev_seq e) (drop k es) = drop k es"
    using assms(4,5) seq unfolding above by (auto simp: filter_id_conv in_set_conv_nth)
  ultimately show ?thesis by (subst split) simp
qed

section \<open>Concurrent publication\<close>

inductive_cases publish_stepE: "publish_step m (h, fl, w) s"

fun unpushed :: "in_flight \<Rightarrow> event_envelope option" where
  "unpushed (Claimed e) = Some e"
| "unpushed (Applied e) = Some e"
| "unpushed (Pushed e) = None"

fun pushed :: "in_flight \<Rightarrow> event_envelope option" where
  "pushed (Pushed e) = Some e"
| "pushed _ = None"

lemma map_filter_simps:
  "List.map_filter f [] = []" "List.map_filter f (x # xs) = (case f x of None \<Rightarrow> List.map_filter f xs | Some y \<Rightarrow> y # List.map_filter f xs)"
  by (auto simp: List.map_filter_def split: option.split)

text \<open>What concurrent publishers keep: every number is claimed once, and the history differs from
  what was sent only by the publications between their last two critical sections.\<close>

definition claims_ok :: "u64 \<Rightarrow> event_envelope multiset \<Rightarrow> bool" where
  "claims_ok next es \<longleftrightarrow> next = of_nat (size es) \<and> image_mset ev_seq es = mset (map of_nat [0..<size es])"

lemma claims_ok_add: "claims_ok n es \<Longrightarrow> ev_seq e = n \<Longrightarrow> claims_ok (n + 1) (add_mset e es)"
  by (simp add: claims_ok_def add.commute)

fun publishers_ok :: "'w publishers \<Rightarrow> bool" where
  "publishers_ok (h, fl, w) \<longleftrightarrow>
     mset (rh_history h) = mset (rh_sent h) + mset (List.map_filter pushed fl) \<and>
     claims_ok (rh_next_seq h) (mset (rh_history h) + mset (List.map_filter unpushed fl))"

lemma publish_step_ok:
  assumes "publish_step m s s'" "publishers_ok s"
  shows "publishers_ok s'"
  using assms
proof (induction rule: publish_step.induct)
  case (claim e h w e1 h1 w1 fl)
  from claim_seq_fields [OF claim(1)] claim(2) show ?case by (auto simp: map_filter_simps intro: claims_ok_add)
next
  case (applies e h w h1 w1 xs ys)
  from apply_event_fields [OF applies(1)] applies(2) show ?case by (auto simp: map_filter_simps map_filter_append)
qed (auto simp: map_filter_simps map_filter_append push_history_def broadcast_def)

lemma publish_steps_ok: "(publish_step m)\<^sup>*\<^sup>* s s' \<Longrightarrow> publishers_ok s \<Longrightarrow> publishers_ok s'"
  by (induction rule: rtranclp_induct) (auto intro: publish_step_ok)

lemma numbered_publishers_ok: "numbered h \<Longrightarrow> publishers_ok (h, [], w)"
  by (simp add: numbered_def map_filter_simps claims_ok_def flip: mset_map)

text \<open>One thread at a time: the four steps in sequence are \<open>publish\<close>.\<close>

lemma publish_by_steps:
  assumes "publish m e h w = (h', w')"
  shows "(publish_step m)\<^sup>*\<^sup>* (h, [], w) (h', [], w')"
proof -
  obtain e1 h1 w1 h2 w2 where steps: "claim_seq m e h w = (e1, h1, w1)" "apply_event m (ev_event e1) h1 w1 = (h2, w2)"
    by (metis surj_pair)
  with assms have h': "h' = broadcast e1 (push_history e1 h2)" "w' = w2" by (simp_all add: publish_def)
  have a: "publish_step m (h, [], w) (h1, [Claimed e1], w1)" by (rule publish_step.claim [OF steps(1)])
  have b: "publish_step m (h1, [Claimed e1], w1) (h2, [Applied e1], w2)"
    using publish_step.applies [OF steps(2), of "[]" "[]"] by simp
  have c: "publish_step m (h2, [Applied e1], w2) (push_history e1 h2, [Pushed e1], w2)"
    using publish_step.push [of m h2 "[]" e1 "[]" w2] by simp
  have d: "publish_step m (push_history e1 h2, [Pushed e1], w2) (h', [], w')"
    using publish_step.send [of m "push_history e1 h2" "[]" e1 "[]" w2] by (simp add: h')
  note go = converse_rtranclp_into_rtranclp
  show ?thesis by (rule go [OF a go [OF b go [OF c r_into_rtranclp [of "publish_step m", OF d]]]])
qed

end
