(* ===== verification/Nodara_Engine_Total.thy ===== *)
theory Nodara_Engine_Total
  imports Nodara_Engine_Spec Nodara_Builtin
begin

text \<open>
  A run ends. \<open>responsive\<close> executors return and do not pause the control; with such executors,
  an approver that answers, a control nobody pauses, no breakpoints and a retry count below
  the 32-bit maximum, every stage returns, the retry loop included, and the control stays
  unpaused. The retry loop is compared with a bounded one, \<open>bounded_attempts\<close>, which makes
  at most \<open>retry + 1\<close> calls; at the maximum the counter saturates and the loop never ends.
\<close>

section \<open>Attempts\<close>

text \<open>The retry loop with an explicit number of calls left.\<close>

primrec bounded_attempts ::
    "nat \<Rightarrow> 'w machine \<Rightarrow> 'w execute \<Rightarrow> node \<Rightarrow> node_input \<Rightarrow> u32 \<Rightarrow> 'w exec_context
       \<Rightarrow> ((node_error, node_output) result option \<times> 'w exec_context) option" where
  "bounded_attempts 0 m ex n input attempt c = None"
| "bounded_attempts (Suc k) m ex n input attempt c =
     (case ex input c of
        None \<Rightarrow> None
      | Some (Inr out, c1) \<Rightarrow> Some (Some (Inr out), c1)
      | Some (Inl e, c1) \<Rightarrow>
          if k = 0 \<or> e = CancelledError then Some (Some (Inl e), c1)
          else (case wait_interruptible m (retry_delay_ms n (attempt + 1))
                       (ctx_log m Warn (retry_message n (attempt + 1) e) c1) of
                  (granted, c2) \<Rightarrow>
                    if granted then bounded_attempts k m ex n input (attempt + 1) c2 else Some (None, c2)))"

lemma sat_add_one: "(a :: u32) < b \<Longrightarrow> sat_add a 1 = a + 1 \<and> unat (a + 1) = Suc (unat a)"
proof -
  assume "a < b"
  moreover have "unat b < 2 ^ LENGTH(32)" by (rule unsigned_less)
  ultimately have "unat a + 1 < 2 ^ 32" by (simp add: word_less_nat_alt)
  then have u: "unat (sat_add a 1) = Suc (unat a)" by (simp add: unat_sat_add)
  moreover have "unat (a + 1) = Suc (unat a)"
    using \<open>unat a + 1 < 2 ^ 32\<close> by (simp add: unat_word_ariths)
  ultimately show ?thesis by (metis word_unat_eq_iff)
qed

lemma attempt_loop_bounded:
  assumes "n_retry n < - 1" "unat (n_retry n) = unat attempt + k"
  shows "attempt_loop m ex n input attempt c = bounded_attempts (Suc k) m ex n input attempt c"
  using assms(2)
proof (induction k arbitrary: attempt c)
  case 0
  then have "attempt = n_retry n" by (simp add: word_unat_eq_iff)
  with assms(1) have "\<not> sat_add attempt 1 \<le> n_retry n"
    using sat_add_one [of attempt "- 1"] by (simp add: word_le_nat_alt)
  then show ?case
    by (subst attempt_loop.simps)
      (auto simp: may_retry_def Let_def split: option.splits sum.splits Option.bind_splits)
next
  case (Suc k)
  have less: "attempt < n_retry n" using Suc.prems by (simp add: word_less_nat_alt)
  note step = sat_add_one [OF less]
  have le: "attempt + 1 \<le> n_retry n" using Suc.prems step by (simp add: word_le_nat_alt)
  have IH: "attempt_loop m ex n input (attempt + 1) c' = bounded_attempts (Suc k) m ex n input (attempt + 1) c'" for c'
    by (rule Suc.IH) (use Suc.prems step in simp)
  show ?case
    by (subst attempt_loop.simps, subst bounded_attempts.simps(2))
      (auto simp: may_retry_def Let_def step le IH split: option.splits sum.splits prod.splits Option.bind_splits
        simp del: bounded_attempts.simps)
qed

section \<open>The control while a stage runs\<close>

text \<open>A predicate on controls that taking the lock keeps.\<close>

definition lock_stable :: "(run_control \<Rightarrow> bool) \<Rightarrow> bool" where
  "lock_stable Q \<longleftrightarrow> (\<forall>ctl. Q ctl \<longrightarrow> Q (lock_control ctl))"

lemma lock_stable_instances [simp]: "lock_stable never_pauses" "lock_stable never_cancels"
  by (simp_all add: lock_stable_def never_pauses_lock never_cancels_lock)

lemma is_cancelled_control:
  assumes "lock_stable Q" "Q (cx_control c)" "ctx_is_cancelled c = (b, c')"
  shows "Q (cx_control c')" and "b = cf_cancelled (rc_flags (cx_control c'))"
  using assms by (auto simp: ctx_is_cancelled_def sh_is_cancelled_def is_cancelled_def Let_def lock_stable_def)

lemma wait_control:
  assumes "lock_stable Q" "Q (cx_control c)" "wait_interruptible m remaining c = (b, c')"
  shows "Q (cx_control c') \<and> (b \<or> cf_cancelled (rc_flags (cx_control c')))"
  using assms(2,3)
proof (induction m remaining c arbitrary: b c' rule: wait_interruptible.induct)
  case (1 m remaining c)
  obtain cancelled c1 where first: "ctx_is_cancelled c = (cancelled, c1)" by fastforce
  note ctl = is_cancelled_control [OF assms(1) "1.prems"(1) first]
  show ?case
  proof (cases "remaining = 0")
    case True
    with "1.prems"(2) first ctl show ?thesis by (auto simp: wait_interruptible.simps [of m 0])
  next
    case False
    show ?thesis
    proof (cases cancelled)
      case True
      with "1.prems"(2) False first ctl show ?thesis by (auto simp: wait_interruptible.simps [of m remaining])
    next
      case live: False
      let ?slice = "min remaining 25"
      have next_wait: "wait_interruptible m (remaining - ?slice) (on_shared (sh_sleep m ?slice) c1) = (b, c')"
        using "1.prems"(2) False first live by (simp add: wait_interruptible.simps [of m remaining] Let_def)
      have "Q (cx_control (on_shared (sh_sleep m ?slice) c1))" using ctl by (simp add: sh_sleep_def)
      from "1.IH" [OF False _ _ refl this next_wait] first live show ?thesis by simp
    qed
  qed
qed

lemma control_simps [simp]:
  "cx_control (ctx_emit m e c) = cx_control c" "cx_control (ctx_record m cat msg build c) = cx_control c"
  "cx_control (set_variable name v c) = cx_control c" "cx_control (set_node x c) = cx_control c"
  "cx_approval (ctx_emit m e c) = cx_approval c" "cx_approval (ctx_record m cat msg build c) = cx_approval c"
  "cx_approval (set_variable name v c) = cx_approval c" "cx_approval (set_node x c) = cx_approval c"
  by (simp_all add: ctx_emit_def ctx_record_def set_variable_def set_node_def)

lemma control_log [simp]:
  "cx_control (ctx_log m level msg c) = cx_control c" "cx_approval (ctx_log m level msg c) = cx_approval c"
  by (simp_all add: ctx_log_def Let_def)

text \<open>At the 32-bit maximum the retry counter saturates: a node that keeps failing is retried for
  ever.\<close>

definition keeps_failing :: "'w execute \<Rightarrow> node_input \<Rightarrow> bool" where
  "keeps_failing ex input \<longleftrightarrow>
     (\<forall>c. \<exists>e c'. ex input c = Some (Inl e, c') \<and> e \<noteq> CancelledError \<and> cx_control c' = cx_control c)"

lemma never_cancels_flags: "never_cancels ctl \<Longrightarrow> \<not> cf_cancelled (rc_flags ctl)"
  by (simp add: never_cancels_def)

lemma attempt_loop_diverges:
  assumes "n_retry n = - 1" "keeps_failing ex input" "never_cancels (cx_control c)"
  shows "attempt_loop m ex n input attempt c = None"
proof (rule ccontr)
  assume "attempt_loop m ex n input attempt c \<noteq> None"
  then obtain res where res: "attempt_loop m ex n input attempt c = Some res" by blast
  have "\<not> (n_retry n = - 1 \<and> keeps_failing ex input \<and> never_cancels (cx_control c))"
  proof (rule attempt_loop.raw_induct [of "\<lambda>m ex n input attempt c res.
        \<not> (n_retry n = - 1 \<and> keeps_failing ex input \<and> never_cancels (cx_control c))", OF _ res], rule notI)
    fix loop m ex n input attempt and c :: "'a exec_context" and res
    assume IH: "\<And>m ex n input attempt c res. loop m ex n input attempt c = Some res \<Longrightarrow>
        \<not> (n_retry n = - 1 \<and> keeps_failing ex input \<and> never_cancels (cx_control c))"
      and ok: "n_retry n = - 1 \<and> keeps_failing ex input \<and> never_cancels (cx_control c)"
      and run: "Option.bind (ex input c) (\<lambda>(r, c1).
       (let attempt' = sat_add attempt 1 in
        case r of
          Inl e \<Rightarrow>
            if may_retry n attempt' e
            then (case wait_interruptible m (retry_delay_ms n attempt')
                         (ctx_log m Warn (retry_message n attempt' e) c1) of
                    (granted, c2) \<Rightarrow>
                      if granted then loop m ex n input attempt' c2 else Some (None, c2))
            else Some (Some (Inl e), c1)
        | Inr out \<Rightarrow> Some (Some (Inr out), c1))) = Some res"
    obtain e c1 where call: "ex input c = Some (Inl e, c1)" "e \<noteq> CancelledError" "cx_control c1 = cx_control c"
      using ok unfolding keeps_failing_def by blast
    have retry: "may_retry n (sat_add attempt 1) e"
      using ok call(2) by (simp add: may_retry_def)
    obtain granted c2 where wait: "wait_interruptible m (retry_delay_ms n (sat_add attempt 1))
        (ctx_log m Warn (retry_message n (sat_add attempt 1) e) c1) = (granted, c2)" by fastforce
    have "never_cancels (cx_control c2) \<and> (granted \<or> cf_cancelled (rc_flags (cx_control c2)))"
      by (rule wait_control [OF _ _ wait]) (use ok call(3) in simp_all)
    then have "granted" "never_cancels (cx_control c2)" using never_cancels_flags by auto
    with run call(1) retry wait have "loop m ex n input (sat_add attempt 1) c2 = Some res" by (simp add: Let_def)
    from IH [OF this] ok \<open>never_cancels (cx_control c2)\<close> show False by simp
  qed
  with assms show False by simp
qed

section \<open>Executors that return\<close>

definition live :: "'w exec_context \<Rightarrow> bool" where
  "live c \<longleftrightarrow> never_pauses (cx_control c) \<and> (\<forall>request w. cx_approval c request w \<noteq> None)"

definition responsive :: "'w machine \<Rightarrow> 'w execute \<Rightarrow> bool" where
  "responsive m ex \<longleftrightarrow> respects_context m ex \<and>
     (\<forall>input c. never_pauses (cx_control c) \<longrightarrow> (\<exists>r c'. ex input c = Some (r, c') \<and> never_pauses (cx_control c')))"

lemma responsive_live:
  assumes "responsive m ex" "live c"
  shows "\<exists>r c'. ex input c = Some (r, c') \<and> live c'"
proof -
  obtain r c' where call: "ex input c = Some (r, c')" "never_pauses (cx_control c')"
    using assms unfolding responsive_def live_def by blast
  moreover have "cx_approval c' = cx_approval c"
    using respects_contextD [of m ex input c r c'] call(1) assms(1)
    by (auto simp: responsive_def ctx_extends_def same_run_def)
  ultimately show ?thesis using assms(2) by (auto simp: live_def)
qed

lemma wait_live:
  assumes "live c" shows "\<exists>b c'. wait_interruptible m remaining c = (b, c') \<and> live c'"
proof -
  obtain b c' where wait: "wait_interruptible m remaining c = (b, c')" by fastforce
  have "cx_approval c' = cx_approval c"
    using quiet_wait [OF wait] by (simp add: quiet_def ctx_extends_def same_run_def)
  with wait assms wait_control [OF lock_stable_instances(1) _ wait] show ?thesis by (auto simp: live_def)
qed

lemma bounded_attempts_live:
  assumes "responsive m ex" "live c"
  shows "\<exists>r c'. bounded_attempts (Suc k) m ex n input attempt c = Some (r, c') \<and> live c'"
  using assms(2)
proof (induction k arbitrary: attempt c)
  case 0
  obtain r c' where "ex input c = Some (r, c')" "live c'" using responsive_live [OF assms(1) "0"] by blast
  then show ?case by (cases r) simp_all
next
  case (Suc k)
  obtain r c1 where call: "ex input c = Some (r, c1)" "live c1" using responsive_live [OF assms(1) Suc.prems] by blast
  show ?case
  proof (cases r)
    case (Inl e)
    have "live (ctx_log m Warn (retry_message n (attempt + 1) e) c1)" using call(2) by (simp add: live_def)
    from wait_live [OF this] obtain granted c2 where
      wait: "wait_interruptible m (retry_delay_ms n (attempt + 1)) (ctx_log m Warn (retry_message n (attempt + 1) e) c1) = (granted, c2)"
        and "live c2" by blast
    with Suc.IH [of c2 "attempt + 1"] call Inl show ?thesis
      by (subst bounded_attempts.simps(2)) (auto simp del: bounded_attempts.simps)
  qed (use call in simp)
qed

lemma attempt_loop_live:
  assumes "responsive m ex" "live c" "n_retry n < - 1"
  shows "\<exists>r c'. attempt_loop m ex n input 0 c = Some (r, c') \<and> live c'"
proof -
  have "attempt_loop m ex n input 0 c = bounded_attempts (Suc (unat (n_retry n))) m ex n input 0 c"
    using attempt_loop_bounded [OF assms(3), of 0 "unat (n_retry n)"] by simp
  then show ?thesis by (simp only: bounded_attempts_live [OF assms(1,2)])
qed

section \<open>Stages that return\<close>

definition stage_live :: "('w loop_state, 'a) stage option \<Rightarrow> bool" where
  "stage_live r \<longleftrightarrow> (\<exists>x. r = Some x \<and> live (ls_context (stage_state x)))"

lemma stage_live_simps [simp]:
  "stage_live (Some x) \<longleftrightarrow> live (ls_context (stage_state x))" "\<not> stage_live None"
  by (auto simp: stage_live_def)

lemma then_stage_live:
  assumes "stage_live r" "\<And>st x. r = Some (Proceed st x) \<Longrightarrow> live (ls_context st) \<Longrightarrow> stage_live (f st x)"
  shows "stage_live (then_stage r f)"
proof -
  obtain y where y: "r = Some y" "live (ls_context (stage_state y))" using assms(1) by (auto simp: stage_live_def)
  then show ?thesis using assms(2) by (cases y) (auto simp: then_stage_def)
qed

named_theorems live_intros \<open>operations that keep a context live\<close>

lemma live_simple [live_intros, simp]:
  "live (ctx_emit m e c) \<longleftrightarrow> live c" "live (ctx_record m cat msg build c) \<longleftrightarrow> live c"
  "live (set_variable name v c) \<longleftrightarrow> live c" "live (set_node x c) \<longleftrightarrow> live c" "live (ctx_log m level msg c) \<longleftrightarrow> live c"
  "live (announce_failure m n err b c) \<longleftrightarrow> live c" "live (on_shared (\<lambda>s. s\<lparr>sh_world := w\<rparr>) c) \<longleftrightarrow> live c"
  "live (announce_decision m request d c) \<longleftrightarrow> live c" "live (announce_approval m request b c) \<longleftrightarrow> live c"
  by (simp_all add: live_def announce_failure_def announce_decision_def announce_approval_def)

lemma live_is_cancelled: "ctx_is_cancelled c = (b, c') \<Longrightarrow> live c \<Longrightarrow> live c'"
  using is_cancelled_control(1) [OF lock_stable_instances(1)] quiet_is_cancelled [of c b c']
  by (auto simp: live_def quiet_def ctx_extends_def same_run_def)

lemma live_await: "live c \<Longrightarrow> \<exists>b c'. ctx_await c = Some (b, c') \<and> live c'"
  using await_never_pauses [of "cx_control c"] by (auto simp: live_def ctx_await_def)

lemma live_elapsed: "ctx_elapsed m t c = (d, c') \<Longrightarrow> live c' \<longleftrightarrow> live c"
  by (auto simp: ctx_elapsed_def split: prod.splits)

lemma live_instant: "ctx_instant m c = (t, c') \<Longrightarrow> live c' \<longleftrightarrow> live c"
  by (auto simp: ctx_instant_def split: prod.splits)

lemma live_transfer: "transfer_inputs m outputs es inputs c = (inputs', c') \<Longrightarrow> live c' \<longleftrightarrow> live c"
  by (induction m outputs es inputs c arbitrary: inputs' c' rule: transfer_inputs.induct)
    (auto split: option.splits simp: Let_def)

lemma live_edge_is_taken: "edge_is_taken m e outcome c = (b, c') \<Longrightarrow> live c' \<longleftrightarrow> live c"
  by (auto simp: edge_is_taken_def split: if_splits option.splits sum.splits)

lemma live_activate_edges: "activate_edges m outcome es activated c = (b, a, c') \<Longrightarrow> live c' \<longleftrightarrow> live c"
proof (induction m outcome es activated c arbitrary: b a c' rule: activate_edges.induct)
  case (2 m outcome e es activated c)
  obtain taken c1 where edge: "edge_is_taken m e outcome c = (taken, c1)" by fastforce
  note first = live_edge_is_taken [OF edge]
  show ?case
  proof (cases taken)
    case True
    with edge 2(3) obtain b' where "activate_edges m outcome es (e_target e # activated)
        (ctx_emit m (EdgeActivated (e_id e) (e_source e) (e_target e) (e_branch e)) c1) = (b', a, c')"
      by (auto simp: Let_def split: prod.splits)
    from 2(1) [OF edge [symmetric] _ _ this] True first show ?thesis by simp
  next
    case False
    with edge 2(3) have "activate_edges m outcome es activated c1 = (b, a, c')" by simp
    from 2(2) [OF edge [symmetric] _ this] False first show ?thesis by simp
  qed
qed simp

lemma live_follow_edges: "live (ls_context (snd (follow_edges m g outcome n st))) \<longleftrightarrow> live (ls_context st)"
  by (auto simp: follow_edges_def live_activate_edges split: prod.splits)

lemma live_set_variables: "live (fold (\<lambda>(name, v). set_variable name v) vars c) \<longleftrightarrow> live c"
proof (induction vars arbitrary: c)
  case (Cons x vars)
  then show ?case by (cases x) simp
qed simp

lemma live_publish: "live (publish_result n out c) \<longleftrightarrow> live c"
proof (cases "n_result_var n")
  case None
  then show ?thesis by (simp add: publish_result_def live_set_variables)
next
  case (Some name)
  then show ?thesis by (cases "name = []") (simp_all add: publish_result_def live_set_variables)
qed

lemma live_stop [simp]:
  "live (ls_context (stage_state (stop_run status failure st))) \<longleftrightarrow> live (ls_context st)"
  "live (ls_context (stage_state (stop_cancelled st))) \<longleftrightarrow> live (ls_context st)"
  by simp_all

lemma turn_stage_live: "live (ls_context st) \<Longrightarrow> stage_live (turn_stage en nid st)"
proof -
  assume l: "live (ls_context st)"
  obtain cancelled c1 where first: "ctx_is_cancelled (ls_context st) = (cancelled, c1)" by fastforce
  have l1: "live c1" using live_is_cancelled [OF first l] .
  obtain b c2 where "ctx_await c1 = Some (b, c2)" "live c2" using live_await [OF l1] by blast
  with first l1 show ?thesis by (simp add: turn_stage_def Let_def)
qed

lemma enter_stage_live: "live (ls_context st) \<Longrightarrow> stage_live (enter_stage m g nid st)"
  by (auto simp: enter_stage_def Let_def live_follow_edges split: option.splits)

lemma condition_stage_live: "live (ls_context st) \<Longrightarrow> stage_live (condition_stage m n st)"
  by (auto simp: condition_stage_def Let_def split: option.splits sum.splits)

lemma executor_stage_live: "live (ls_context st) \<Longrightarrow> stage_live (executor_stage en n st)"
  by (auto simp: executor_stage_def Let_def split: option.splits)

lemma authorize_live:
  "live c \<Longrightarrow> \<exists>r c'. authorize m ty perms dangerous input c = Some (r, c') \<and> live c'"
proof -
  assume l: "live c"
  let ?request = "request_of c ty perms dangerous input"
  let ?c1 = "announce_decision m ?request (cx_policy c ?request) c"
  have l1: "live ?c1" using l by simp
  then obtain b w where "cx_approval ?c1 ?request (sh_world (cx_shared ?c1)) = Some (b, w)"
    unfolding live_def by fastforce
  with l1 have "\<exists>b c2. ask_approval m ?request ?c1 = Some (b, c2) \<and> live c2" by (simp add: ask_approval_def)
  with l1 show ?thesis
    by (cases "cx_policy c ?request") (force simp: authorize_def Let_def split: bool.splits)+
qed

lemma authorize_stage_live: "live (ls_context st) \<Longrightarrow> stage_live (authorize_stage m n d st)"
proof -
  assume l: "live (ls_context st)"
  let ?config = "resolve_config (mc_ext m) (ctx_scope (ls_context st)) (n_config n) (d_config_schema d)"
  obtain r c1 where auth: "authorize m (n_type n) (d_permissions d) (d_dangerous d) ?config (ls_context st) = Some (r, c1)" "live c1"
    using authorize_live [OF l] by blast
  then show ?thesis by (cases r) (auto simp: authorize_stage_def Let_def)
qed

lemma start_stage_live: "live (ls_context st) \<Longrightarrow> stage_live (start_stage m g n config st)"
proof -
  assume l: "live (ls_context st)"
  obtain inputs c1 where transfer: "transfer_inputs m (ls_outputs st) (data_edges_to g (n_id n)) om_empty (ls_context st) = (inputs, c1)"
    by fastforce
  define c3 where "c3 = ctx_record m AuditNodeStarted (''node `'' @ n_id n @ ''` started'') (record_node (n_id n) (n_type n))
    (ctx_emit m (NodeStarted (n_id n) (n_type n) (Some \<lparr>is_config = n_config n, is_resolved_config = config, is_inputs = inputs,
      is_variables_before = ctx_redacted c1, is_timeout_ms = n_timeout_ms n\<rparr>)) c1)"
  obtain started c4 where instant: "ctx_instant m c3 = (started, c4)" by fastforce
  have "live c4" using live_instant [OF instant] live_transfer [OF transfer] l by (simp add: c3_def)
  then obtain granted c5 where "wait_interruptible m (n_delay_before_ms n) c4 = (granted, c5)" "live c5"
    using wait_live by blast
  then show ?thesis
    unfolding start_stage_def Let_def transfer prod.case c3_def [symmetric] instant by (cases granted) simp_all
qed

lemma attempt_stage_live:
  "responsive m ex \<Longrightarrow> n_retry n < - 1 \<Longrightarrow> live (ls_context st) \<Longrightarrow> stage_live (attempt_stage m n ex input st)"
  using attempt_loop_live [of m ex "ls_context st" n input] by (auto simp: attempt_stage_def split: option.splits)

lemma conclude_stage_live: "live (ls_context st) \<Longrightarrow> stage_live (conclude_stage m g n started r st)"
proof -
  assume l: "live (ls_context st)"
  obtain d c1 where elapsed: "ctx_elapsed m started (ls_context st) = (d, c1)" by fastforce
  have l1: "live c1" using live_elapsed [OF elapsed] l by simp
  show ?thesis
  proof (cases r)
    case (Inr out)
    define c4 where "c4 = ctx_record m AuditNodeFinished (''node `'' @ n_id n @ ''` finished in '' @ show_nat (unat d) @ ''ms'')
      (record_node (n_id n) (n_type n))
      (ctx_emit m (NodeFinished (n_id n) (no_outputs out) (ctx_redacted (publish_result n out c1)) d) (publish_result n out c1))"
    have "live c4" using l1 by (simp add: c4_def live_publish)
    then obtain granted c5 where "wait_interruptible m (n_delay_after_ms n) c4 = (granted, c5)" "live c5"
      using wait_live by blast
    then show ?thesis
      unfolding Inr conclude_stage_def sum.case success_stage_def Let_def elapsed prod.case c4_def [symmetric]
      by (auto simp: live_follow_edges)
  next
    case (Inl e)
    have "live (ls_context st2) \<longleftrightarrow> live (ls_context st1)" if "follow_edges m g outcome n st1 = (b, st2)" for outcome b st1 st2
      using live_follow_edges [of m g outcome n st1] that by simp
    then show ?thesis
      unfolding Inl conclude_stage_def sum.case failure_stage_def Let_def elapsed prod.case
      using l1 by (auto split: prod.splits)
  qed
qed

section \<open>Runs that return\<close>

text \<open>A node without a breakpoint whose retry count can be reached.\<close>

definition unattended :: "node \<Rightarrow> bool" where
  "unattended n \<longleftrightarrow> \<not> n_breakpoint n \<and> n_retry n < - 1"

lemma execute_node_live:
  assumes "responsive m (ex_execute ex)" "unattended n" "live (ls_context st)"
  shows "stage_live (execute_node m g n ex st)"
  unfolding execute_node_def
proof (rule then_stage_live [OF authorize_stage_live [OF assms(3)]])
  fix st1 :: "'a loop_state" and config
  assume "live (ls_context st1)"
  then show "stage_live (then_stage (start_stage m g n config st1) (\<lambda>st2 (input, started).
      then_stage (attempt_stage m n (ex_execute ex) input st2) (\<lambda>st3 r. conclude_stage m g n started r st3)))"
  proof (rule then_stage_live [OF start_stage_live])
    fix st2 :: "'a loop_state" and x :: "node_input \<times> nat"
    assume "live (ls_context st2)"
    then have "stage_live (then_stage (attempt_stage m n (ex_execute ex) (fst x) st2) (\<lambda>st3 r. conclude_stage m g n (snd x) r st3))"
      using assms(1,2) by (intro then_stage_live [OF attempt_stage_live] conclude_stage_live) (auto simp: unattended_def)
    then show "stage_live (case x of (input, started) \<Rightarrow>
        then_stage (attempt_stage m n (ex_execute ex) input st2) (\<lambda>st3 r. conclude_stage m g n started r st3))"
      by (simp add: case_prod_beta)
  qed
qed

definition registry_responsive :: "'w machine \<Rightarrow> 'w registry \<Rightarrow> bool" where
  "registry_responsive m r \<longleftrightarrow> (\<forall>t ex. registry_get r t = Some ex \<longrightarrow> responsive m (ex_execute ex))"

lemma run_node_live:
  assumes "registry_responsive m (en_registry en)" "\<And>n. graph_node g nid = Some n \<Longrightarrow> unattended n"
    and "live (ls_context st)"
  shows "stage_live (run_node m en g nid st)"
  unfolding run_node_def
proof (rule then_stage_live [OF turn_stage_live [OF assms(3)]], rule then_stage_live [OF enter_stage_live], assumption)
  fix st2 :: "'a loop_state" and st1 :: "'a loop_state" and n
  assume enter: "enter_stage m g nid st1 = Some (Proceed st2 n)" and l: "live (ls_context st2)"
  have n: "unattended n"
    using enter assms(2) by (auto simp: enter_stage_def Let_def split: option.splits if_splits)
  have "stage_live (then_stage (breakpoint_stage m n st3) (\<lambda>st4 _.
      then_stage (executor_stage en n st4) (\<lambda>st5 ex. execute_node m g n ex st5)))" if l3: "live (ls_context st3)" for st3
  proof (rule then_stage_live)
    show "stage_live (breakpoint_stage m n st3)" using n l3 by (simp add: breakpoint_stage_def unattended_def)
    fix st4 :: "'a loop_state" assume "live (ls_context st4)"
    then show "stage_live (then_stage (executor_stage en n st4) (\<lambda>st5 ex. execute_node m g n ex st5))"
    proof (rule then_stage_live [OF executor_stage_live])
      fix st5 :: "'a loop_state" and ex
      assume found: "executor_stage en n st4 = Some (Proceed st5 ex)" and l5: "live (ls_context st5)"
      have "responsive m (ex_execute ex)"
        using executor_stage_moves [OF found] assms(1) by (auto simp: registry_responsive_def)
      then show "stage_live (execute_node m g n ex st5)" using n l5 by (rule execute_node_live)
    qed
  qed
  then show "stage_live (then_stage (condition_stage m n st2) (\<lambda>st3 _. then_stage (breakpoint_stage m n st3) (\<lambda>st4 _.
      then_stage (executor_stage en n st4) (\<lambda>st5 ex. execute_node m g n ex st5))))"
    by (intro then_stage_live [OF condition_stage_live [OF l]])
qed

lemma run_nodes_live:
  assumes "registry_responsive m (en_registry en)" "\<And>nid n. graph_node g nid = Some n \<Longrightarrow> unattended n"
    and "live (ls_context st)"
  shows "\<exists>st'. run_nodes m en g order st = Some st'"
  using assms(3)
proof (induction order arbitrary: st)
  case (Cons nid order)
  obtain x where x: "run_node m en g nid st = Some x" "live (ls_context (stage_state x))"
    using run_node_live [OF assms(1) _ Cons.prems, of g nid] assms(2) by (auto simp: stage_live_def)
  with Cons.IH show ?case by (cases x) auto
qed simp

lemma run_plan_returns:
  assumes "\<And>order entry. run_nodes m en (graph_of w) order (initial_state (begin_run m paused
     (new_context run_id (w_id w) seeded (secret_names w) (en_policy en) approval s)) entry) \<noteq> None"
  shows "run_plan m en w paused approval seeded run_id started s \<noteq> None"
  using assms unfolding run_plan_def Let_def by (simp only: option.map_disc_iff split: option.split sum.split) blast

section \<open>Built-in nodes are responsive\<close>

text \<open>The contract of \<open>Nodara_Builtin\<close>, and the control only changes by taking the lock.\<close>

locale locking_executor = context_executor +
  assumes locks: "lock_stable Q \<Longrightarrow> Q (cx_control c) \<Longrightarrow> execute input c = Some (r, c') \<Longrightarrow> Q (cx_control c')"
begin

lemma responsive: "responsive m execute"
  unfolding responsive_def
proof (intro conjI allI impI respects)
  fix input and c :: "'a exec_context"
  assume "never_pauses (cx_control c)"
  with returns [of input c] locks [OF lock_stable_instances(1)]
  show "\<exists>r c'. execute input c = Some (r, c') \<and> never_pauses (cx_control c')" by blast
qed

end

lemma delay_loop_locks:
  "lock_stable Q \<Longrightarrow> Q (cx_control c) \<Longrightarrow> delay_loop m remaining c = (r, c') \<Longrightarrow> Q (cx_control c')"
proof (induction m remaining c rule: delay_loop.induct)
  case (1 m remaining c)
  obtain r1 c1 where check: "check_cancelled c = (r1, c1)" by fastforce
  have Q1: "Q (cx_control c1)"
    using "1.prems"(1,2) check
    by (auto simp: check_cancelled_def sh_is_cancelled_def is_cancelled_def Let_def lock_stable_def)
  show ?case
  proof (cases "remaining = 0 \<or> (\<exists>e. r1 = Inl e)")
    case True
    with "1.prems" check Q1 show ?thesis
      by (cases "remaining = 0") (auto simp: delay_loop.simps [of m 0 c] delay_loop.simps [of m remaining c])
  next
    case False
    then obtain u where u: "r1 = Inr u" "remaining \<noteq> 0" by (cases r1) auto
    let ?slice = "min remaining 25"
    have "delay_loop m (remaining - ?slice) (on_shared (sh_sleep m ?slice) c1) = (r, c')"
      using "1.prems"(3) u check by (simp add: delay_loop.simps [of m remaining c] Let_def)
    from "1.IH" [OF u(2) check [symmetric, unfolded u(1)] refl refl "1.prems"(1) _ this] Q1
    show ?thesis by (simp add: sh_sleep_def)
  qed
qed

lemma calculate_many_loop_control:
  "calculate_many_loop x es scope results seen c = (r, c') \<Longrightarrow> cx_control c' = cx_control c"
proof (induction x es scope results seen c rule: calculate_many_loop.induct)
  case (2 x e es scope results seen c)
  then show ?case by (auto simp: Let_def split: if_splits sum.splits)
qed simp

interpretation start_locks: locking_executor m start_execute for m
  by unfold_locales (simp add: start_execute_def)

interpretation end_locks: locking_executor m end_execute for m
  by unfold_locales (simp add: end_execute_def)

interpretation log_locks: locking_executor m "log_execute m" for m
  by unfold_locales (auto simp: log_execute_def Let_def split: sum.splits)

interpretation calculate_locks: locking_executor m "calculate_execute m" for m
  by unfold_locales (auto simp: calculate_execute_def split: sum.splits)

interpretation calculate_many_locks: locking_executor m "calculate_many_execute m" for m
  by unfold_locales (auto simp: calculate_many_execute_def split: option.splits sum.splits prod.splits if_splits
      dest!: calculate_many_loop_control)

interpretation delay_locks: locking_executor m "delay_execute m" for m
  by unfold_locales (auto simp: delay_execute_def Let_def split: sum.splits prod.splits dest: delay_loop_locks)

interpretation set_variable_locks: locking_executor m set_variable_execute for m
  by unfold_locales (auto simp: set_variable_execute_def Let_def split: sum.splits)

lemma registry_responsive_register:
  "registry_responsive m r \<Longrightarrow> responsive m (ex_execute ex) \<Longrightarrow> registry_responsive m (register_executor ex r)"
  by (simp add: registry_responsive_def registry_get_register)

lemma builtins_responsive: "registry_responsive m (register_builtins m new_registry)"
proof -
  have "registry_responsive m (new_registry :: 'a registry)"
    by (simp add: registry_responsive_def new_registry_def registry_get_def om_empty_def)
  then show ?thesis
    by (simp add: register_builtins_def builtins_def registry_responsive_register start_locks.responsive
        end_locks.responsive log_locks.responsive calculate_locks.responsive calculate_many_locks.responsive
        delay_locks.responsive set_variable_locks.responsive)
qed

lemma registry_responsive_respects: "registry_responsive m r \<Longrightarrow> registry_respects m r"
  by (simp add: registry_responsive_def registry_respects_def responsive_def)

section \<open>A run cancelled before it starts\<close>

lemma cancelled_run_nodes:
  assumes "cf_cancelled (rc_flags (cx_control (ls_context st)))" "run_nodes m en g (nid # order) st = Some st'"
  shows "ls_status st' = Cancelled \<and> ls_executed st' = ls_executed st \<and> cx_events (ls_context st') = cx_events (ls_context st)"
proof -
  let ?Q = "\<lambda>ctl. cf_cancelled (rc_flags ctl)"
  obtain b c1 where first: "ctx_is_cancelled (ls_context st) = (b, c1)" by fastforce
  have stable: "lock_stable ?Q" by (simp add: lock_stable_def cancelled_lock)
  have b: "b" using is_cancelled_control [OF stable assms(1) first] by simp
  have "cx_events c1 = cx_events (ls_context st)"
    using first by (auto simp: ctx_is_cancelled_def sh_is_cancelled_def Let_def split: prod.splits)
  with assms(2) first b show ?thesis
    by (auto simp: run_node_def turn_stage_def Let_def then_stage_def stop_cancelled_def stop_run_def)
qed

lemma entry_in_order:
  assumes "entry_node (graph_of w) = Some entry" "topological_order (graph_of w) = Inr order"
  shows "order \<noteq> []"
proof -
  have "entry \<in> set (w_nodes w)"
    using assms(1) by (auto simp: entry_node_def graph_roots_def find_Some_iff filter_eq_Cons_iff
        split: option.splits list.splits)
  then have "n_id entry \<in> set (node_ids w)" by (auto simp: node_ids_def)
  then have "length (g_index (graph_of w)) \<noteq> 0" using index_keys [of w] by auto
  then show ?thesis using assms(2) by (auto simp: topological_order_def Let_def split: if_splits)
qed

section \<open>Denied node types\<close>

text \<open>Registries that differ only in what executors of denied types do.\<close>

definition denied_type :: "capability_policy \<Rightarrow> string \<Rightarrow> bool" where
  "denied_type p ty \<longleftrightarrow> (\<forall>request. cr_node_type request = ty \<longrightarrow> (\<exists>reason. p request = Deny reason))"

definition same_but_denied :: "capability_policy \<Rightarrow> 'w registry \<Rightarrow> 'w registry \<Rightarrow> bool" where
  "same_but_denied p r r' \<longleftrightarrow>
     rg_descriptors r' = rg_descriptors r \<and>
     (\<forall>t. map_option ex_descriptor (registry_get r' t) = map_option ex_descriptor (registry_get r t) \<and>
          (\<not> denied_type p t \<longrightarrow> registry_get r' t = registry_get r t))"

lemma execute_node_denied:
  assumes "denied_type p (n_type n)" "cx_policy (ls_context st) = p" "ex_descriptor ex' = ex_descriptor ex"
  shows "execute_node m g n ex' st = execute_node m g n ex st"
proof -
  let ?d = "ex_descriptor ex"
  let ?config = "resolve_config (mc_ext m) (ctx_scope (ls_context st)) (n_config n) (d_config_schema ?d)"
  let ?request = "request_of (ls_context st) (n_type n) (d_permissions ?d) (d_dangerous ?d) ?config"
  have "cr_node_type ?request = n_type n" by (simp add: request_of_def)
  with assms(1,2) obtain reason where "cx_policy (ls_context st) ?request = Deny reason"
    unfolding denied_type_def by blast
  then have "\<exists>s. authorize_stage m n ?d st = Some (Break s)"
    by (simp add: authorize_stage_def authorize_def Let_def stop_run_def)
  then obtain s where "authorize_stage m n ?d st = Some (Break s)" ..
  then show ?thesis by (simp add: execute_node_def assms(3) then_stage_def)
qed

lemma run_node_denied:
  assumes same: "same_but_denied (en_policy en) (en_registry en) r'"
    and g: "\<And>n. graph_node g nid = Some n \<Longrightarrow> n_id n = nid"
    and policy: "cx_policy (ls_context st) = en_policy en"
  shows "run_node m (en\<lparr>en_registry := r'\<rparr>) g nid st = run_node m en g nid st"
proof -
  have turn: "turn_stage (en\<lparr>en_registry := r'\<rparr>) nid st = turn_stage en nid st"
  proof -
    have "en_options (en\<lparr>en_registry := r'\<rparr>) = en_options en" by simp
    then show ?thesis by (simp only: turn_stage_def)
  qed
  have keeps: "stage_moves S F A s (Proceed s' x) \<Longrightarrow> cx_policy (ls_context s') = cx_policy (ls_context s)"
    for S F A and s s' :: "'a loop_state" and x
    by (simp add: stage_moves_def moves_def ctx_moves_def ctx_extends_def same_run_def)
  have last: "then_stage (executor_stage (en\<lparr>en_registry := r'\<rparr>) n st4) (\<lambda>st5 ex. execute_node m g n ex st5) =
      then_stage (executor_stage en n st4) (\<lambda>st5 ex. execute_node m g n ex st5)"
    if "cx_policy (ls_context st4) = en_policy en" for n st4
  proof (cases "registry_get (en_registry en) (n_type n)")
    case None
    then have "map_option ex_descriptor (registry_get r' (n_type n)) = None"
      using same by (simp add: same_but_denied_def)
    then have "registry_get r' (n_type n) = None" by simp
    with None show ?thesis by (simp add: executor_stage_def Let_def then_stage_def stop_run_def)
  next
    case (Some ex)
    then have "map_option ex_descriptor (registry_get r' (n_type n)) = Some (ex_descriptor ex)"
      using same by (simp add: same_but_denied_def)
    then obtain ex' where ex': "registry_get r' (n_type n) = Some ex'" "ex_descriptor ex' = ex_descriptor ex"
      by blast
    have "execute_node m g n ex' st4 = execute_node m g n ex st4"
    proof (cases "denied_type (en_policy en) (n_type n)")
      case True
      from execute_node_denied [OF True that ex'(2)] show ?thesis .
    next
      case False
      with same Some ex'(1) show ?thesis by (auto simp: same_but_denied_def)
    qed
    with Some ex'(1) show ?thesis by (simp add: executor_stage_def then_stage_def)
  qed
  have cong: "then_stage r f = then_stage r f'"
    if "\<And>s x. r = Some (Proceed s x) \<Longrightarrow> f s x = f' s x"
    for r :: "('a loop_state, 'b) stage option" and f f' :: "'a loop_state \<Rightarrow> 'b \<Rightarrow> ('a loop_state, unit) stage option"
    using that by (auto simp: then_stage_def split: option.splits stage.splits)
  show ?thesis
    unfolding run_node_def turn
  proof (rule cong)
    fix st1 :: "'a loop_state" and u
    assume "turn_stage en nid st = Some (Proceed st1 u)"
    from keeps [OF turn_stage_moves(1) [OF this]] have p1: "cx_policy (ls_context st1) = en_policy en" using policy by simp
    show "then_stage (enter_stage m g nid st1) (\<lambda>st2 n. then_stage (condition_stage m n st2) (\<lambda>st3 _.
          then_stage (breakpoint_stage m n st3) (\<lambda>st4 _.
          then_stage (executor_stage (en\<lparr>en_registry := r'\<rparr>) n st4) (\<lambda>st5 ex. execute_node m g n ex st5)))) =
        then_stage (enter_stage m g nid st1) (\<lambda>st2 n. then_stage (condition_stage m n st2) (\<lambda>st3 _.
          then_stage (breakpoint_stage m n st3) (\<lambda>st4 _.
          then_stage (executor_stage en n st4) (\<lambda>st5 ex. execute_node m g n ex st5))))"
    proof (rule cong, rule cong, rule cong, rule last)
      fix st2 st3 st4 :: "'a loop_state" and n and u v :: unit
      assume enter: "enter_stage m g nid st1 = Some (Proceed st2 n)"
        and cond: "condition_stage m n st2 = Some (Proceed st3 u)"
        and brk: "breakpoint_stage m n st3 = Some (Proceed st4 v)"
      have "cx_policy (ls_context st2) = en_policy en"
        using enter_stage_moves [OF enter g] keeps p1 by metis
      then have "cx_policy (ls_context st3) = en_policy en"
        using condition_stage_moves [OF cond] by simp
      then show "cx_policy (ls_context st4) = en_policy en"
        using breakpoint_stage_moves [OF brk] keeps by metis
    qed
  qed
qed

lemma run_nodes_denied:
  assumes same: "same_but_denied (en_policy en) (en_registry en) r'" and ok: "registry_respects m (en_registry en)"
  shows "cx_policy (ls_context st) = en_policy en \<Longrightarrow>
    run_nodes m (en\<lparr>en_registry := r'\<rparr>) (graph_of w) order st = run_nodes m en (graph_of w) order st"
proof (induction order arbitrary: st)
  case (Cons nid order)
  have id: "\<And>n. graph_node (graph_of w) nid = Some n \<Longrightarrow> n_id n = nid" by (simp add: workflow_node_SomeD)
  have eq: "run_node m (en\<lparr>en_registry := r'\<rparr>) (graph_of w) nid st = run_node m en (graph_of w) nid st"
    by (rule run_node_denied [OF same id Cons.prems])
  have policy: "cx_policy (ls_context (stage_state x)) = en_policy en"
    if "run_node m en (graph_of w) nid st = Some x" for x
    using run_node_moves [OF that id ok] Cons.prems
    by (auto simp: stage_moves_def moves_def ctx_moves_def ctx_extends_def same_run_def)
  show ?case
  proof (cases "run_node m en (graph_of w) nid st")
    case (Some x)
    with Cons.IH [OF policy [OF Some]] show ?thesis by (cases x) (simp_all add: eq)
  qed (simp add: eq)
qed simp

section \<open>A whole run returns\<close>

lemma run_returns:
  assumes "registry_responsive m (en_registry en)"
    and "\<And>request' w. (case rr_approval request of Some h \<Rightarrow> h | None \<Rightarrow> en_approval en) request' w \<noteq> None"
    and "never_pauses control" "\<And>n. n \<in> set (w_nodes (rr_workflow request)) \<Longrightarrow> unattended n"
  shows "\<exists>o' s. run_engine m en request control world = Some (o', s)"
proof -
  let ?g = "graph_of (rr_workflow request)"
  have nodes: "\<And>nid n. graph_node ?g nid = Some n \<Longrightarrow> unattended n"
    using assms(4) workflow_node_SomeD by fastforce
  have lives: "live (ls_context (loop_start m en request control run_id w1 entry))" for run_id w1 entry
    using assms(2,3) by (simp add: live_def loop_start_def initial_state_def begin_run_simps new_context_def)
  have "run_nodes m en ?g order (loop_start m en request control run_id w1 entry) \<noteq> None" for order run_id w1 entry
    using run_nodes_live [OF assms(1) _ lives, of ?g] nodes by fastforce
  then have plan: "run_plan m en (rr_workflow request) (rr_start_paused request)
      (case rr_approval request of Some h \<Rightarrow> h | None \<Rightarrow> en_approval en)
      (seeded_variables (rr_workflow request) (rr_variables request)) run_id started
      \<lparr>sh_control = control, sh_bus = new_bus run_id, sh_audit = [],
        sh_artifacts = (case rr_artifacts request of Some a \<Rightarrow> a | None \<Rightarrow> []), sh_world = w1\<rparr> \<noteq> None"
    for run_id started w1
    unfolding loop_start_def by (rule run_plan_returns)
  obtain started w0 where instant: "mc_instant_ns m world = (started, w0)" by fastforce
  obtain run_id w1 where rid: "(case rr_run_id request of Some run_id \<Rightarrow> (run_id, w0) | None \<Rightarrow> mc_uuid m w0) = (run_id, w1)"
    by fastforce
  have branch: "b \<noteq> None \<Longrightarrow> (if c then Some a else b) \<noteq> None" for b :: "(run_outcome \<times> 'a shared) option" and a c
    by simp
  have "run_engine m en request control world \<noteq> None"
    unfolding run_engine_def instant rid prod.case Let_def run_validated_def by (rule branch [OF plan])
  then show ?thesis by auto
qed

section \<open>The entry node starts\<close>

lemma free_control:
  "cx_control c = new_control [] \<Longrightarrow> ctx_is_cancelled c = (False, c)"
  "cx_control c = new_control [] \<Longrightarrow> ctx_await c = Some (True, c)"
  by (simp_all add: ctx_is_cancelled_def sh_is_cancelled_def is_cancelled_def lock_control_def new_control_def
      new_flags_def ctx_await_def await_permission_def try_permission_def Let_def on_shared_def)

lemma in_context_same [simp]: "in_context (ls_context st) st = st"
  by (simp add: in_context_def)

lemma inactive_node_skipped:
  assumes "cx_control (ls_context st) = new_control []" "nid \<notin> set (ls_activated st)"
  shows "run_node m en g nid st = Some (Continue st)"
  using assms by (simp add: run_node_def turn_stage_def free_control then_stage_def)

text \<open>A node that nothing but the policy can hold back.\<close>

definition ready_node :: "'w engine \<Rightarrow> node \<Rightarrow> bool" where
  "ready_node en n \<longleftrightarrow> n_enabled n \<and> n_condition n = None \<and> \<not> n_breakpoint n \<and>
     registry_get (en_registry en) (n_type n) \<noteq> None \<and>
     (\<forall>request. cr_node_type request = n_type n \<longrightarrow> en_policy en request = Allow)"

lemma ready_node_starts:
  assumes run: "run_node m en g nid st = Some r"
    and n: "graph_node g nid = Some n" "n_id n = nid" "ready_node en n"
    and turn: "nid \<in> set (ls_activated st)" "ls_executed st < eo_max_nodes (en_options en)"
    and ctl: "cx_control (ls_context st) = new_control []"
    and policy: "cx_policy (ls_context st) = en_policy en"
    and ok: "registry_respects m (en_registry en)"
  shows "\<exists>F A. stage_moves [nid] F A st r"
proof -
  obtain ex where ex: "registry_get (en_registry en) (n_type n) = Some ex" using n(3) by (auto simp: ready_node_def)
  let ?st1 = "in_context (set_node (Some (n_id n)) (ls_context st)) st"
  have "run_node m en g nid st = execute_node m g n ex ?st1"
    using n turn ctl ex
    by (simp add: run_node_def turn_stage_def free_control then_stage_def enter_stage_def condition_stage_def
        breakpoint_stage_def executor_stage_def ready_node_def)
  then have exec: "execute_node m g n ex ?st1 = Some r" using run by simp
  obtain st2 config where auth: "authorize_stage m n (ex_descriptor ex) ?st1 = Some (Proceed st2 config)"
    using n(3) policy
    by (simp add: authorize_stage_def authorize_def Let_def request_of_def ready_node_def set_node_def)
  have "then_stage (start_stage m g n config st2) (\<lambda>st2 (input, started).
      then_stage (attempt_stage m n (ex_execute ex) input st2) (\<lambda>st3 res. conclude_stage m g n started res st3)) = Some r"
    using exec auth by (simp add: execute_node_def then_stage_def)
  then have "\<exists>S F A. stage_moves S F A st2 r \<and> S = [nid]"
  proof (rule then_stage_moves)
    fix st2 :: "'a loop_state" and y :: "node_input \<times> nat"
    assume "(case y of (input, started) \<Rightarrow>
        then_stage (attempt_stage m n (ex_execute ex) input st2) (\<lambda>st3 res. conclude_stage m g n started res st3)) = Some r"
    then have "then_stage (attempt_stage m n (ex_execute ex) (fst y) st2) (\<lambda>st3 res. conclude_stage m g n (snd y) res st3) = Some r"
      by (simp add: case_prod_beta)
    then have "\<exists>S F A. stage_moves S F A st2 r \<and> S = []"
    proof (rule then_stage_moves)
      have ok': "respects_context m (ex_execute ex)" using ok ex by (auto simp: registry_respects_def)
      show "attempt_stage m n (ex_execute ex) (fst y) st2 = Some x \<Longrightarrow> stage_moves [] [] [] st2 x" for x
        using attempt_stage_moves ok' by blast
      show "conclude_stage m g n (snd y) res st3 = Some r \<Longrightarrow>
          \<exists>S' F' A'. stage_moves S' F' A' st3 r \<and> [] @ S' = []" for st3 res
        using conclude_stage_moves by fastforce
    qed simp
    then show "\<exists>S' F' A'. stage_moves S' F' A' st2 r \<and> [nid] @ S' = [nid]" by auto
  qed (use start_stage_moves n(2) in auto)
  then obtain F A where late: "stage_moves [nid] F A st2 r" by blast
  have "stage_moves [] [] [] st (Proceed ?st1 ())"
    by (rule stage_quietI) (auto intro: quiet_intros)
  from stage_moves_Proceed [OF this stage_moves_Proceed [OF authorize_stage_moves [OF auth] late]]
  show ?thesis by auto
qed

lemma entry_starts_loop:
  assumes "run_nodes m en (graph_of w) order st = Some st'" "entry \<in> set order" "ls_activated st = [entry]"
    and "graph_node (graph_of w) entry = Some n" "ready_node en n" "ls_executed st < eo_max_nodes (en_options en)"
    and "cx_control (ls_context st) = new_control []" "cx_policy (ls_context st) = en_policy en"
    and ok: "registry_respects m (en_registry en)" and inv: "loop_inv w entry st"
  shows "\<exists>es. cx_events (ls_context st') = cx_events (ls_context st) @ es \<and> starts es \<noteq> [] \<and> hd (starts es) = entry"
  using assms(1,2)
proof (induction order)
  case (Cons nid order)
  show ?case
  proof (cases "nid = entry")
    case False
    with Cons assms(3,7) show ?thesis by (simp add: inactive_node_skipped)
  next
    case True
    obtain r where r: "run_node m en (graph_of w) entry st = Some r" using Cons.prems(1) True by (auto split: option.splits)
    obtain F A where first: "stage_moves [entry] F A st r"
      using ready_node_starts [OF r assms(4) _ assms(5) _ assms(6,7,8) ok] assms(3,4) by (auto simp: workflow_node_SomeD)
    then obtain es where es: "cx_events (ls_context (stage_state r)) = cx_events (ls_context st) @ es" "starts es = [entry]"
      by (auto simp: stage_moves_def moves_def ctx_moves_def)
    have "\<exists>es'. cx_events (ls_context st') = cx_events (ls_context (stage_state r)) @ es'"
    proof (cases "\<exists>s. r = Break s")
      case True
      with Cons.prems(1) r \<open>nid = entry\<close> show ?thesis by auto
    next
      case False
      have id: "\<And>n. graph_node (graph_of w) entry = Some n \<Longrightarrow> n_id n = entry" by (simp add: workflow_node_SomeD)
      obtain S2 F2 A2 where "stage_moves S2 F2 A2 st r" "S2 = [] \<or> S2 = [entry]" "leaves (graph_of w) entry A2"
        using run_node_moves [OF r id ok] by blast
      then have "loop_inv w entry (stage_state r)"
        using loop_inv_moves [OF inv, of S2 F2 A2 "stage_state r"] assms(3) by (auto simp: stage_moves_def)
      moreover have "run_nodes m en (graph_of w) order (stage_state r) = Some st'"
        using Cons.prems(1) r False \<open>nid = entry\<close> by (cases r) auto
      ultimately show ?thesis using run_nodes_moves [OF _ ok] by (fastforce simp: moves_def ctx_moves_def)
    qed
    with es show ?thesis by auto
  qed
qed simp

end
