(* ===== verification/Nodara_Engine_Props.thy ===== *)
theory Nodara_Engine_Props
  imports Nodara_Engine_Total Nodara_Validation_Spec
begin

text \<open>
  The properties of the engine, over the lemmas of \<open>Nodara_Engine_Spec\<close> and
  \<open>Nodara_Engine_Total\<close>, with a small run they are applied to: the document \<open>two_step\<close> on the
  built-in nodes.
\<close>

section \<open>A small run\<close>

definition demo_engine :: "nat engine" where
  "demo_engine = engine_with_options (default_engine_options\<lparr>eo_validate := False\<rparr>)
     (engine_with_policy allow_all_policy (new_engine (register_builtins quiet_machine new_registry)))"

definition demo_request :: "nat run_request" where
  "demo_request = new_run_request two_step"

lemma demo_simps:
  "rr_workflow demo_request = two_step" "rr_approval demo_request = None"
  "en_registry demo_engine = register_builtins quiet_machine new_registry"
  "en_approval demo_engine = (\<lambda>request w. Some (auto_approve request, w))" "en_policy demo_engine = allow_all_policy"
  "eo_validate (en_options demo_engine) = False" "eo_max_nodes (en_options demo_engine) = 10000"
  by (simp_all add: demo_request_def new_run_request_def demo_engine_def engine_with_options_def
      engine_with_policy_def new_engine_def default_engine_options_def)

lemma demo_respects: "registry_respects quiet_machine (en_registry demo_engine)"
  by (simp add: demo_simps builtins_responsive registry_responsive_respects)

lemma two_step_nodes: "w_nodes two_step = [new_node ''s'' ''core.Start'', new_node ''e'' ''core.End'']"
  by (simp add: two_step_def)

lemma two_step_unattended: "n \<in> set (w_nodes two_step) \<Longrightarrow> unattended n"
  by (auto simp: two_step_nodes unattended_def new_node_def word_less_nat_alt unat_max_word)

lemma two_step_entry: "entry_node (graph_of two_step) = Some (new_node ''s'' ''core.Start'')"
  by (simp add: entry_node_def two_step_nodes new_node_def)

lemma two_step_distinct: "distinct (node_ids two_step)"
  by (simp add: node_ids_def two_step_nodes new_node_def)

text \<open>A run of it, for any control that nobody pauses.\<close>

lemma demo_returns:
  assumes "never_pauses control"
  obtains o' s where "run_engine quiet_machine demo_engine demo_request control 0 = Some (o', s)"
  using run_returns [of quiet_machine demo_engine demo_request control 0] assms two_step_unattended
  by (auto simp: demo_simps builtins_responsive)

lemma free_never_pauses [simp]: "never_pauses (new_control [])"
  by (simp add: never_pauses_def new_control_def new_flags_def)

lemma demo_started:
  assumes "run_engine quiet_machine demo_engine demo_request control 0 = Some (o', s)"
  shows "RunStarted ''wf'' \<in> set (sh_events s)"
  using assms
proof (cases rule: engine_result)
  case (failed code message)
  then show ?thesis
    using well_formed_schedulable [OF two_step_well_formed] by (auto simp: demo_simps two_step_entry)
next
  case (ran run_id w1 started entry order st)
  obtain es where "cx_events (ls_context st) = prologue demo_request @ es"
    using run_nodes_moves [OF ran(3) demo_respects loop_inv_start]
    by (auto simp: moves_def ctx_moves_def loop_start_simps)
  moreover have "w_id two_step = ''wf''" by (simp add: two_step_def new_workflow_def)
  ultimately show ?thesis
    using finish_run_simps(1) [OF ran(4)] by (auto simp: prologue_def demo_simps)
qed

lemma find_distinct: "distinct (map n_id ns) \<Longrightarrow> n \<in> set ns \<Longrightarrow> find (\<lambda>x. n_id x = n_id n) ns = Some n"
  by (induction ns) (auto simp: image_iff)

lemma workflow_node_distinct: "distinct (node_ids w) \<Longrightarrow> n \<in> set (w_nodes w) \<Longrightarrow> workflow_node w (n_id n) = Some n"
  by (simp add: workflow_node_def node_ids_def find_distinct)

lemma entry_starts_run:
  assumes "run_engine m en request (new_control []) world = Some (o', s)" "registry_respects m (en_registry en)"
    and "distinct (node_ids (rr_workflow request))" "RunStarted wid \<in> set (sh_events s)"
    and "entry_node (graph_of (rr_workflow request)) = Some entry" "ready_node en entry"
    and "0 < eo_max_nodes (en_options en)"
  shows "starts (sh_events s) \<noteq> [] \<and> hd (starts (sh_events s)) = n_id entry"
  using assms(1)
proof (cases rule: engine_result)
  case (failed code message)
  with assms(4) show ?thesis by simp
next
  case (ran run_id w1 started entry' order st)
  have entry': "entry' = entry" using ran(1) assms(5) by simp
  have "entry \<in> set (w_nodes (rr_workflow request))"
    using assms(5) by (auto simp: entry_node_def graph_roots_def find_Some_iff filter_eq_Cons_iff
        split: option.splits list.splits)
  then have found: "graph_node (graph_of (rr_workflow request)) (n_id entry) = Some entry"
      and member: "n_id entry \<in> set (node_ids (rr_workflow request))"
    using assms(3) by (auto simp: node_ids_def workflow_node_distinct)
  have "n_id entry \<in> set order"
    using topological_order_sound [OF assms(3) ran(2)] member by (simp add: is_topological_order_def)
  from entry_starts_loop [OF ran(3) [unfolded entry'] this _ found assms(6) _ _ _ assms(2) loop_inv_start]
  obtain es where es: "cx_events (ls_context st) = prologue request @ es" "starts es \<noteq> []" "hd (starts es) = n_id entry"
    using assms(7) by (auto simp: loop_start_simps)
  with finish_run_simps(1) [OF ran(4)] show ?thesis
    by (auto simp: trace_prologue terminal_event_summary)
qed

lemma starts_split: "nid \<in> set (starts es) \<Longrightarrow> \<exists>xs ty snapshot ys. es = xs @ NodeStarted nid ty snapshot # ys"
proof (induction es)
  case (Cons e es)
  show ?case
  proof (cases "started_node e = Some nid")
    case True
    then show ?thesis by (cases e) force+
  next
    case False
    with Cons have "nid \<in> set (starts es)" by (auto split: option.splits)
    with Cons.IH show ?thesis by (metis append_Cons)
  qed
qed simp

lemma demo_ready: "ready_node demo_engine (new_node ''s'' ''core.Start'')"
  by (simp add: ready_node_def demo_simps allow_all_policy_def new_node_def register_builtins_def builtins_def
      registry_get_register start_descriptor_def end_descriptor_def log_descriptor_def calculate_descriptor_def
      calculate_many_descriptor_def delay_descriptor_def set_variable_descriptor_def new_descriptor_def
      descriptor_with_description_def)

text \<open>The facts the witnesses share.\<close>

lemma demo_run:
  obtains o' s where "run_engine quiet_machine demo_engine demo_request (new_control []) 0 = Some (o', s)"
    "RunStarted ''wf'' \<in> set (sh_events s)" "''s'' \<in> set (starts (sh_events s))"
proof -
  obtain o' s where run: "run_engine quiet_machine demo_engine demo_request (new_control []) 0 = Some (o', s)"
    using demo_returns free_never_pauses by blast
  have "starts (sh_events s) \<noteq> [] \<and> hd (starts (sh_events s)) = n_id (new_node ''s'' ''core.Start'')"
    by (rule entry_starts_run [OF run demo_respects _ demo_started [OF run] _ demo_ready])
      (simp_all add: demo_simps two_step_distinct two_step_entry)
  then have "''s'' \<in> set (starts (sh_events s))" using hd_in_set [of "starts (sh_events s)"] by (simp add: new_node_def)
  with run demo_started [OF run] that show thesis by blast
qed

section \<open>Delays\<close>

lemma unat_min_word: "unat (min a b :: 'a::len word) = min (unat a) (unat b)"
  by (simp add: min_def word_le_nat_alt)

lemma unat_two_power: "s < 64 \<Longrightarrow> unat (2 ^ s :: u64) = 2 ^ s"
proof -
  assume "s < 64"
  then have "(2 :: nat) ^ s < 2 ^ 64" by (rule power_strict_increasing) simp
  moreover have "(2 :: u64) ^ s = of_nat (2 ^ s)" by simp
  ultimately show ?thesis by (simp only: unat_of_nat) (simp add: take_bit_nat_eq_self)
qed

lemma unat_retry_delay:
  "unat (retry_delay_ms n k) =
     min (case n_retry_max_delay_ms n of None \<Rightarrow> 2 ^ 64 - 1 | Some maximum \<Rightarrow> unat maximum)
       (case n_retry_backoff n of
          Fixed \<Rightarrow> unat (n_retry_delay_ms n)
        | Exponential \<Rightarrow> min (2 ^ 64 - 1) (unat (n_retry_delay_ms n) * 2 ^ min (unat k - 1) 63))"
proof -
  have shift: "unat (min (sat_sub k 1) 63) = min (unat k - 1) 63"
    by (simp add: unat_min_word unat_sat_sub)
  have delay: "unat (case n_retry_backoff n of
        Fixed \<Rightarrow> n_retry_delay_ms n
      | Exponential \<Rightarrow> sat_mul (n_retry_delay_ms n) (push_bit (unat (min (sat_sub k 1) 63)) 1)) =
    (case n_retry_backoff n of
        Fixed \<Rightarrow> unat (n_retry_delay_ms n)
      | Exponential \<Rightarrow> min (2 ^ 64 - 1) (unat (n_retry_delay_ms n) * 2 ^ min (unat k - 1) 63))"
    by (simp add: shift unat_sat_mul unat_two_power min.commute split: retry_backoff.split)
  have le: "unat d \<le> 2 ^ 64 - 1" for d :: u64
  proof -
    have "unat d < 2 ^ LENGTH(64)" by (rule unsigned_less)
    then show ?thesis by simp
  qed
  show ?thesis
  proof (cases "n_retry_max_delay_ms n")
    case None
    show ?thesis
      unfolding retry_delay_ms_def Let_def None option.case delay [symmetric] by (rule min_absorb2 [OF le, symmetric])
  next
    case (Some maximum)
    show ?thesis
      unfolding retry_delay_ms_def Let_def Some option.case delay [symmetric]
      by (rule trans [OF unat_min_word min.commute])
  qed
qed

section \<open>Properties\<close>

text \<open>C8. The stream of a run is well formed, whatever the executors do: the envelopes are numbered
  without gaps, exactly one terminal event is emitted, it is the last one and agrees with the
  outcome, and the run was either rejected before it started or opens with \<open>RunStarted\<close>;
  what lies between is made of node, edge, log, progress and decision events.\<close>

theorem run_stream_well_formed:
  assumes "run_engine m en request control world = Some (o', s)" "registry_respects m (en_registry en)"
  shows "bus_ok (sh_bus s) \<and>
    (ro_status o' = Completed \<and> ro_failure o' = None \<or>
     (ro_status o' = Failed \<or> ro_status o' = Cancelled) \<and> ro_failure o' \<noteq> None) \<and>
    last (sh_events s) = terminal_event (ro_status o') (ro_failure o') (ro_nodes_executed o') (ro_duration_ms o') \<and>
    (length (sh_events s) = 1 \<and> ro_nodes_executed o' = 0 \<or>
     (\<exists>mid. butlast (sh_events s) = prologue request @ mid \<and>
        list_all (loop_event (secret_names (rr_workflow request))) mid))"
  using assms by (cases rule: engine_trace) (auto simp: terminal_event_def butlast_append)

lemma run_stream_well_formed_witness:
  "\<exists>o' s. run_engine quiet_machine demo_engine demo_request (new_control []) 0 = Some (o', s) \<and>
     last (sh_events s) = terminal_event (ro_status o') (ro_failure o') (ro_nodes_executed o') (ro_duration_ms o')"
proof -
  obtain o' s where run: "run_engine quiet_machine demo_engine demo_request (new_control []) 0 = Some (o', s)"
    by (rule demo_run)
  from run_stream_well_formed [OF run demo_respects] run show ?thesis by blast
qed

text \<open>C9. Nodes run in dependency order and are counted: each node starts at most once, no node
  starts after one that depends on it, only started nodes finish, in the order they started,
  and the outcome reports exactly the number of finished nodes, which never exceeds the limit
  of the options.\<close>

theorem nodes_run_in_order:
  assumes "run_engine m en request control world = Some (o', s)" "registry_respects m (en_registry en)"
    and "distinct (node_ids (rr_workflow request))"
  shows "distinct (starts (sh_events s)) \<and>
    sorted_wrt (\<lambda>a b. (b, a) \<notin> control_rel (rr_workflow request)) (starts (sh_events s)) \<and>
    subseq (finishes (sh_events s)) (starts (sh_events s)) \<and>
    ro_nodes_executed o' = length (finishes (sh_events s)) \<and>
    ro_nodes_executed o' \<le> eo_max_nodes (en_options en)"
  using assms(1,2)
proof (cases rule: engine_trace)
  case (ran mid entry order)
  from topological_order_sound [OF assms(3) ran(6)] have
    order: "distinct order" "sorted_wrt (\<lambda>a b. (b, a) \<notin> control_rel (rr_workflow request)) order"
    by (auto simp: is_topological_order_def sorted_wrt_iff_nth_less) (meson less_asym less_trans)
  have "starts (sh_events s) = starts mid" "finishes (sh_events s) = finishes mid"
    by (simp_all add: ran(1) trace_prologue terminal_event_summary)
  with ran order show ?thesis
    using sorted_wrt_subseq [OF ran(7) order(2)] subseq_distinct [OF ran(7) order(1)] by simp
qed simp

lemma nodes_run_in_order_witness:
  "\<exists>o' s. run_engine quiet_machine demo_engine demo_request (new_control []) 0 = Some (o', s) \<and>
     ''s'' \<in> set (starts (sh_events s)) \<and> distinct (starts (sh_events s)) \<and> ro_nodes_executed o' \<le> 10000"
proof -
  obtain o' s where run: "run_engine quiet_machine demo_engine demo_request (new_control []) 0 = Some (o', s)"
    "''s'' \<in> set (starts (sh_events s))" by (rule demo_run)
  from nodes_run_in_order [OF run(1) demo_respects] run show ?thesis
    by (auto simp: demo_simps two_step_distinct)
qed

text \<open>C10. No node runs uninvited: every node that starts is the entry node or the target of an
  edge that was activated earlier in the stream, and only control edges of the document are
  ever activated.\<close>

theorem starts_are_activated:
  assumes "run_engine m en request control world = Some (o', s)" "registry_respects m (en_registry en)"
    and "sh_events s = xs @ NodeStarted nid ty snapshot # ys"
  shows "(entry_node (graph_of (rr_workflow request)) \<noteq> None \<and>
       nid = n_id (the (entry_node (graph_of (rr_workflow request)))) \<or> nid \<in> snd ` set (activations xs)) \<and>
    set (activations xs) \<subseteq> {(e_source e, e_target e) | e. e \<in> set (w_edges (rr_workflow request)) \<and> e_kind e = Control}"
  using assms(1,2)
proof (cases rule: engine_trace)
  case (failed code message)
  with assms(3) show ?thesis by (simp add: Cons_eq_append_conv)
next
  case (ran mid entry order)
  let ?last = "terminal_event (ro_status o') (ro_failure o') (ro_nodes_executed o') (ro_duration_ms o')"
  have "justified (n_id entry) ((prologue request @ mid) @ [?last])"
    by (rule justified_append [OF ran(11)]) (simp add: terminal_event_summary)
  then have "justified (n_id entry) (xs @ NodeStarted nid ty snapshot # ys)"
    using ran(1) assms(3) by simp
  then have first: "nid = n_id entry \<or> nid \<in> snd ` set (activations xs)" by (auto simp: justified_def)
  have "activations (sh_events s) = activations mid"
    by (simp add: ran(1) trace_prologue terminal_event_summary)
  then have "set (activations xs) \<subseteq> set (activations mid)" using assms(3) by (metis Un_upper1 set_append trace_append(3))
  with ran(5,12) first show ?thesis by auto
qed

lemma starts_are_activated_witness:
  "\<exists>o' s xs ty snapshot ys. run_engine quiet_machine demo_engine demo_request (new_control []) 0 = Some (o', s) \<and>
     sh_events s = xs @ NodeStarted ''s'' ty snapshot # ys \<and> set (activations xs) \<subseteq> {(''s'', ''e'')}"
proof -
  obtain o' s where run: "run_engine quiet_machine demo_engine demo_request (new_control []) 0 = Some (o', s)"
    "''s'' \<in> set (starts (sh_events s))" by (rule demo_run)
  then obtain xs ty snapshot ys where split: "sh_events s = xs @ NodeStarted ''s'' ty snapshot # ys"
    using starts_split by blast
  have "w_edges two_step = [new_edge ''1'' ''s'' ''e'']" by (simp add: two_step_def)
  with starts_are_activated [OF run(1) demo_respects split] run split show ?thesis
    by (auto simp: demo_simps new_edge_def)
qed

text \<open>C11. Secrets stay out of the record of a run that started: the variables of its outcome and
  those shown by every event are masked.\<close>

theorem started_runs_hide_secrets:
  assumes "run_engine m en request control world = Some (o', s)" "registry_respects m (en_registry en)"
    and "RunStarted wid \<in> set (sh_events s)"
  shows "hides (secret_names (rr_workflow request)) (ro_variables o') \<and>
    (\<forall>nid outputs vars d. NodeFinished nid outputs vars d \<in> set (sh_events s) \<longrightarrow>
       hides (secret_names (rr_workflow request)) vars) \<and>
    (\<forall>nid ty snapshot. NodeStarted nid ty (Some snapshot) \<in> set (sh_events s) \<longrightarrow>
       hides (secret_names (rr_workflow request)) (is_variables_before snapshot)) \<and>
    (\<forall>nid code msg retry vars. NodeFailed nid code msg retry vars \<in> set (sh_events s) \<longrightarrow>
       hides (secret_names (rr_workflow request)) vars)"
  using assms(1,2)
proof (cases rule: engine_trace)
  case (failed code message)
  with assms(3) show ?thesis by simp
next
  case (ran mid entry order)
  have member: "e \<in> set mid \<Longrightarrow> loop_event (secret_names (rr_workflow request)) e" for e
    using ran(3) by (simp add: list_all_iff)
  have "e \<in> set (sh_events s) \<Longrightarrow> e \<in> set mid \<or> (\<exists>w. e = RunStarted w) \<or> e = RunPaused \<or>
      (\<exists>a b. e = RunCompleted a b) \<or> (\<exists>a. e = RunCancelled a) \<or> (\<exists>a b. e = RunFailed a b)" for e
    by (auto simp: ran(1) prologue_def terminal_event_def split: if_splits option.splits)
  then show ?thesis using ran(13) by (fastforce dest!: member)
qed

lemma started_runs_hide_secrets_witness:
  "\<exists>o' s. run_engine quiet_machine demo_engine demo_request (new_control []) 0 = Some (o', s) \<and>
     hides (secret_names two_step) (ro_variables o')"
proof -
  obtain o' s where run: "run_engine quiet_machine demo_engine demo_request (new_control []) 0 = Some (o', s)"
    "RunStarted ''wf'' \<in> set (sh_events s)" by (rule demo_run)
  from started_runs_hide_secrets [OF run(1) demo_respects run(2)] run show ?thesis by (auto simp: demo_simps)
qed

text \<open>C12. Retries are bounded: below the 32-bit maximum the retry loop is the loop that calls the
  executor at most \<open>retry + 1\<close> times, waits the configured delay before each retry, stops at the
  first success and never retries a cancellation.\<close>

theorem retries_are_bounded:
  assumes "n_retry n < - 1"
  shows "attempt_loop m ex n input 0 c = bounded_attempts (unat (n_retry n) + 1) m ex n input 0 c"
  using attempt_loop_bounded [OF assms, of 0 "unat (n_retry n)"] by simp

definition stubborn_execute :: "'w execute" where
  "stubborn_execute input c = Some (Inl (InvalidConfig ''x''), c)"

definition stubborn_node :: "u32 \<Rightarrow> node" where
  "stubborn_node retry = (new_node ''a'' ''core.Log'')\<lparr>n_retry := retry\<rparr>"

lemma retries_are_bounded_witness:
  "attempt_loop quiet_machine stubborn_execute (stubborn_node 2) sum_input 0 (sample_context allow_all_policy True) =
     bounded_attempts 3 quiet_machine stubborn_execute (stubborn_node 2) sum_input 0 (sample_context allow_all_policy True)"
proof -
  have retry: "n_retry (stubborn_node 2) = 2" by (simp add: stubborn_node_def)
  moreover have "(2 :: u32) < - 1" by (simp add: word_less_nat_alt unat_max_word)
  moreover have "unat (2 :: u32) + 1 = 3" by simp
  ultimately show ?thesis
    using retries_are_bounded [of "stubborn_node 2" quiet_machine stubborn_execute sum_input "sample_context allow_all_policy True"]
    by (simp only:)
qed

text \<open>At the 32-bit maximum the retry counter saturates and the bound is lost: a node that keeps
  failing is retried for ever, and the run never returns.\<close>

theorem retry_at_maximum_never_ends:
  assumes "n_retry n = - 1" "keeps_failing ex input" "never_cancels (cx_control c)"
  shows "attempt_loop m ex n input 0 c = None"
  using assms by (rule attempt_loop_diverges)

lemma retry_at_maximum_never_ends_witness:
  "attempt_loop quiet_machine stubborn_execute (stubborn_node (- 1)) sum_input 0 (sample_context allow_all_policy True) = None"
  by (rule retry_at_maximum_never_ends)
    (simp_all add: stubborn_execute_def stubborn_node_def keeps_failing_def sample_context_def new_context_def never_cancels_def new_control_def new_flags_def)

text \<open>C13. A run ends: with executors that return, an approver that answers, a control that nobody
  pauses, no breakpoints and retry counts below the maximum, \<open>run\<close> returns an outcome for every
  document.\<close>

theorem run_ends:
  assumes "registry_responsive m (en_registry en)"
    and "\<And>request' w. (case rr_approval request of Some h \<Rightarrow> h | None \<Rightarrow> en_approval en) request' w \<noteq> None"
    and "never_pauses control" "\<And>n. n \<in> set (w_nodes (rr_workflow request)) \<Longrightarrow> unattended n"
  shows "\<exists>o' s. run_engine m en request control world = Some (o', s)"
  using assms by (rule run_returns)

lemma run_ends_witness:
  "\<exists>o' s. run_engine quiet_machine demo_engine demo_request (new_control [[OpCancel]]) 0 = Some (o', s)"
proof (rule run_ends)
  show "registry_responsive quiet_machine (en_registry demo_engine)"
    unfolding demo_simps by (rule builtins_responsive)
  show "never_pauses (new_control [[OpCancel]])" by (simp add: never_pauses_def new_control_def new_flags_def)
  show "(case rr_approval demo_request of Some h \<Rightarrow> h | None \<Rightarrow> en_approval demo_engine) r w \<noteq> None" for r w
    by (simp add: demo_simps)
  show "n \<in> set (w_nodes (rr_workflow demo_request)) \<Longrightarrow> unattended n" for n
    unfolding demo_simps by (rule two_step_unattended)
qed

text \<open>A run cancelled before it starts does nothing: no node starts, none is counted, and the
  outcome is cancelled unless the document was rejected.\<close>

theorem cancelled_before_start:
  assumes "run_engine m en request control world = Some (o', s)" "cf_cancelled (rc_flags control)"
  shows "starts (sh_events s) = [] \<and> ro_nodes_executed o' = 0 \<and>
    (ro_status o' = Cancelled \<or> ro_status o' = Failed \<and> length (sh_events s) = 1)"
  using assms(1)
proof (cases rule: engine_result)
  case (ran run_id w1 started entry order st)
  then obtain nid rest where "order = nid # rest" using entry_in_order by (meson list.exhaust)
  with cancelled_run_nodes [of "loop_start m en request control run_id w1 (n_id entry)"] ran(3) assms(2)
  have st: "ls_status st = Cancelled" "ls_executed st = 0" "cx_events (ls_context st) = prologue request"
    by (auto simp: loop_start_simps)
  from finish_run_simps [OF ran(4)] st show ?thesis by (auto simp: trace_prologue terminal_event_summary)
qed simp

definition cancelled_control :: run_control where
  "cancelled_control = \<lparr>rc_flags = cancel_flags new_flags, rc_inbox = []\<rparr>"

lemma cancelled_before_start_witness:
  "\<exists>o' s. run_engine quiet_machine demo_engine demo_request cancelled_control 0 = Some (o', s) \<and>
     starts (sh_events s) = []"
proof -
  have ctl: "never_pauses cancelled_control" "cf_cancelled (rc_flags cancelled_control)"
    by (simp_all add: cancelled_control_def never_pauses_def cancel_flags_def new_flags_def)
  from demo_returns [OF ctl(1)] obtain o' s where
    run: "run_engine quiet_machine demo_engine demo_request cancelled_control 0 = Some (o', s)" .
  from cancelled_before_start [OF run ctl(2)] run show ?thesis by auto
qed

text \<open>C14. A denied node type is never executed: if the policy denies every request for a type, the
  whole run, its outcome, events, audit records and effects on the world, does not depend on
  what the executor of that type would do.\<close>

theorem denied_types_never_run:
  assumes "same_but_denied (en_policy en) (en_registry en) r'" "registry_respects m (en_registry en)"
  shows "run_engine m (en\<lparr>en_registry := r'\<rparr>) request control world = run_engine m en request control world"
proof -
  have index: "registry_index r' = registry_index (en_registry en)"
    using assms(1) by (simp add: same_but_denied_def registry_index_def registry_node_types_def registry_descriptor_def fun_eq_iff)
  have "run_plan m (en\<lparr>en_registry := r'\<rparr>) w paused approval seeded run_id started s =
      run_plan m en w paused approval seeded run_id started s" for w paused approval seeded run_id started s
  proof -
    have "run_nodes m (en\<lparr>en_registry := r'\<rparr>) (graph_of w) order (initial_state (begin_run m paused
        (new_context run_id (w_id w) seeded (secret_names w) (en_policy en) approval s)) entry) =
      run_nodes m en (graph_of w) order (initial_state (begin_run m paused
        (new_context run_id (w_id w) seeded (secret_names w) (en_policy en) approval s)) entry)" for order entry
      by (rule run_nodes_denied [OF assms]) (simp add: initial_state_def begin_run_simps new_context_def)
    moreover have "en_policy (en\<lparr>en_registry := r'\<rparr>) = en_policy en" by simp
    ultimately show ?thesis unfolding run_plan_def by presburger
  qed
  moreover have "en_options (en\<lparr>en_registry := r'\<rparr>) = en_options en" "en_registry (en\<lparr>en_registry := r'\<rparr>) = r'"
    "en_approval (en\<lparr>en_registry := r'\<rparr>) = en_approval en" by simp_all
  ultimately show ?thesis unfolding run_engine_def run_validated_def by (simp only: index)
qed

lemma denied_types_never_run_witness:
  "run_engine quiet_machine
     ((engine_with_policy deny_all_policy demo_engine)\<lparr>en_registry :=
        register_executor \<lparr>ex_descriptor = start_descriptor, ex_execute = stubborn_execute\<rparr>
          (register_builtins quiet_machine new_registry)\<rparr>) demo_request (new_control []) 0 =
   run_engine quiet_machine (engine_with_policy deny_all_policy demo_engine) demo_request (new_control []) 0"
proof (rule denied_types_never_run)
  let ?r = "register_builtins quiet_machine new_registry :: nat registry"
  have denied: "denied_type deny_all_policy t" for t
    by (simp add: denied_type_def deny_all_policy_def)
  have start: "registry_get ?r ''core.Start'' = Some \<lparr>ex_descriptor = start_descriptor, ex_execute = start_execute\<rparr>"
    by (simp add: register_builtins_def builtins_def registry_get_register start_descriptor_def end_descriptor_def
        log_descriptor_def calculate_descriptor_def calculate_many_descriptor_def delay_descriptor_def
        set_variable_descriptor_def new_descriptor_def descriptor_with_description_def)
  have ok: "registry_ok ?r" by (simp add: register_builtins_def builtins_def)
  have ty: "d_node_type start_descriptor = ''core.Start''"
    by (simp add: start_descriptor_def new_descriptor_def descriptor_with_description_def)
  have desc: "om_get (rg_descriptors ?r) ''core.Start'' = Some start_descriptor"
    by (simp add: register_builtins_def builtins_def registry_descriptor_register start_descriptor_def end_descriptor_def
        log_descriptor_def calculate_descriptor_def calculate_many_descriptor_def delay_descriptor_def
        set_variable_descriptor_def new_descriptor_def descriptor_with_description_def flip: registry_descriptor_def)
  have "om_insert ''core.Start'' start_descriptor (rg_descriptors ?r) = rg_descriptors ?r"
    using ok desc by (intro om_eqI) (auto simp: registry_ok_def)
  then have same: "rg_descriptors (register_executor \<lparr>ex_descriptor = start_descriptor, ex_execute = stubborn_execute\<rparr> ?r) = rg_descriptors ?r"
    by (simp add: register_executor_def Let_def ty)
  show "same_but_denied (en_policy (engine_with_policy deny_all_policy demo_engine))
      (en_registry (engine_with_policy deny_all_policy demo_engine))
      (register_executor \<lparr>ex_descriptor = start_descriptor, ex_execute = stubborn_execute\<rparr> ?r)"
    using denied start same by (simp add: engine_with_policy_def demo_simps same_but_denied_def registry_get_register ty)
  show "registry_respects quiet_machine (en_registry (engine_with_policy deny_all_policy demo_engine))"
    using demo_respects by (simp add: engine_with_policy_def)
qed

text \<open>C15. A run makes progress: with a free control, an entry node that is enabled, has no guard and no
  breakpoint, is registered and allowed by the policy starts, before any other node.\<close>

theorem entry_node_starts:
  assumes "run_engine m en request (new_control []) world = Some (o', s)" "registry_respects m (en_registry en)"
    and "distinct (node_ids (rr_workflow request))" "RunStarted wid \<in> set (sh_events s)"
    and "entry_node (graph_of (rr_workflow request)) = Some entry" "ready_node en entry"
    and "0 < eo_max_nodes (en_options en)"
  shows "starts (sh_events s) \<noteq> [] \<and> hd (starts (sh_events s)) = n_id entry"
  using assms by (rule entry_starts_run)

lemma entry_node_starts_witness:
  "\<exists>o' s. run_engine quiet_machine demo_engine demo_request (new_control []) 0 = Some (o', s) \<and>
     hd (starts (sh_events s)) = ''s''"
proof -
  obtain o' s where run: "run_engine quiet_machine demo_engine demo_request (new_control []) 0 = Some (o', s)"
    "RunStarted ''wf'' \<in> set (sh_events s)" by (rule demo_run)
  have "starts (sh_events s) \<noteq> [] \<and> hd (starts (sh_events s)) = n_id (new_node ''s'' ''core.Start'')"
    by (rule entry_node_starts [OF run(1) demo_respects _ run(2) _ demo_ready])
      (simp_all add: demo_simps two_step_distinct two_step_entry)
  with run(1) show ?thesis by (simp add: new_node_def)
qed

text \<open>The delay before a retry is the configured one, doubled for every further attempt when the
  back-off is exponential, computed without wrap-around (it saturates at 64 bits), never above the
  configured maximum, and never shorter for a later attempt.\<close>

theorem retry_delay_bounds:
  "unat (retry_delay_ms n k) =
     min (case n_retry_max_delay_ms n of None \<Rightarrow> 2 ^ 64 - 1 | Some maximum \<Rightarrow> unat maximum)
       (case n_retry_backoff n of
          Fixed \<Rightarrow> unat (n_retry_delay_ms n)
        | Exponential \<Rightarrow> min (2 ^ 64 - 1) (unat (n_retry_delay_ms n) * 2 ^ min (unat k - 1) 63)) \<and>
   (j \<le> k \<longrightarrow> retry_delay_ms n j \<le> retry_delay_ms n k)"
proof -
  have "unat j \<le> unat k \<Longrightarrow> (2 :: nat) ^ min (unat j - 1) 63 \<le> 2 ^ min (unat k - 1) 63"
    by (rule power_increasing) auto
  then have "j \<le> k \<Longrightarrow> unat (retry_delay_ms n j) \<le> unat (retry_delay_ms n k)"
    unfolding unat_retry_delay
    by (cases "n_retry_backoff n") (auto simp only: retry_backoff.case word_le_nat_alt intro!: min.mono mult_le_mono)
  then show ?thesis by (simp only: unat_retry_delay word_le_nat_alt) blast
qed

definition doubling_node :: node where
  "doubling_node = (new_node ''a'' ''core.Log'')\<lparr>n_retry_delay_ms := 100, n_retry_backoff := Exponential\<rparr>"

lemma retry_delay_bounds_witness:
  "unat (retry_delay_ms doubling_node 3) = 400 \<and> retry_delay_ms doubling_node 2 \<le> retry_delay_ms doubling_node 3"
  using retry_delay_bounds [of doubling_node 3 2] by (simp add: doubling_node_def new_node_def)

section \<open>Two divergences\<close>

text \<open>A run rejected before its loop reports the seeded variables as they are, secrets included:
  the masking of C21 needs its hypothesis.\<close>

definition secret_document :: workflow where
  "secret_document = (new_workflow ''wf'')
     \<lparr>w_variables := [(''token'', \<lparr>v_value = JStr ''hunter2'', v_description = None, v_secret = True\<rparr>)]\<rparr>"

lemma rejected_run_shows_secret:
  "\<exists>o' s. run_engine quiet_machine demo_engine (new_run_request secret_document) control 0 = Some (o', s) \<and>
     secret_names secret_document = [''token''] \<and> om_get (ro_variables o') ''token'' = Some (JStr ''hunter2'')"
proof -
  have "entry_node (graph_of secret_document) = None"
    by (simp add: entry_node_def secret_document_def new_workflow_def graph_roots_def)
  then show ?thesis
    by (simp add: run_engine_def run_validated_def run_plan_def fail_fast_def Let_def demo_simps new_run_request_def
        seeded_variables_def secret_names_def secret_document_def om_extend_def om_empty_def split: prod.split)
qed

text \<open>\<open>with_start_paused\<close> announces a pause that does not happen: the request decides whether
  \<open>RunPaused\<close> is emitted, and the control handle the loop starts with is the one it was given.\<close>

lemma start_paused_only_announces:
  "cx_control (ls_context (loop_start m en (with_start_paused True request) control run_id w entry)) = control \<and>
   RunPaused \<in> set (cx_events (ls_context (loop_start m en (with_start_paused True request) control run_id w entry)))"
  by (simp add: loop_start_simps prologue_def with_start_paused_def)

end
