(* ===== verification/Nodara_Runs_Props.thy ===== *)
theory Nodara_Runs_Props
  imports Nodara_Runs_Spec Nodara_Engine_Props
begin

text \<open>
  The properties of run handles and of the manager, with their witnesses.
\<close>

section \<open>Requests of operators\<close>

datatype manager_op = MPause string | MResume string | MStep string | MCancel string

text \<open>One request; a refused one leaves the runs as they are.\<close>

fun apply_manager_op :: "'w machine \<Rightarrow> manager_op \<Rightarrow> run_map \<times> 'w \<Rightarrow> run_map \<times> 'w" where
  "apply_manager_op m (MPause i) (runs, w) = (case pause_run m i runs w of Inl e \<Rightarrow> (runs, w) | Inr r \<Rightarrow> r)"
| "apply_manager_op m (MResume i) (runs, w) = (case resume_run m i runs w of Inl e \<Rightarrow> (runs, w) | Inr r \<Rightarrow> r)"
| "apply_manager_op m (MStep i) (runs, w) = (case step_run i runs of Inl e \<Rightarrow> (runs, w) | Inr runs' \<Rightarrow> (runs', w))"
| "apply_manager_op m (MCancel i) (runs, w) = (case cancel_run i runs of Inl e \<Rightarrow> (runs, w) | Inr runs' \<Rightarrow> (runs', w))"

lemma lookup_simps:
  "run_lookup runs i = Inr h \<longleftrightarrow> om_get runs i = Some h"
  "(\<exists>e. run_lookup runs i = Inl e) \<longleftrightarrow> om_get runs i = None"
  by (auto simp: run_lookup_def split: option.splits)

lemmas manager_defs = pause_run_def resume_run_def step_run_def cancel_run_def run_lookup_def

lemma finished_op:
  assumes "om_get runs i = Some h" "is_terminal (rs_status (rh_state h))"
  shows "\<exists>f. om_get (fst (apply_manager_op m op (runs, w))) i = Some (h\<lparr>rh_flags := f\<rparr>)"
proof -
  have same: "\<exists>f. h = h\<lparr>rh_flags := f\<rparr>" by (rule exI [of _ "rh_flags h"]) simp
  have "rs_status (rh_state h) \<noteq> Paused" using assms(2) by (auto simp: is_terminal_def)
  with assms same show ?thesis
    by (cases op) (auto simp: manager_defs snapshot_def mark_paused_def mark_running_def Let_def
        split: option.splits prod.splits if_splits)
qed

lemma finished_ops:
  assumes "om_get runs i = Some h" "is_terminal (rs_status (rh_state h))"
  shows "\<exists>f. om_get (fst (fold (apply_manager_op m) ops (runs, w))) i = Some (h\<lparr>rh_flags := f\<rparr>)"
  using assms
proof (induction ops arbitrary: runs w h)
  case Nil
  then show ?case by (auto intro: exI [of _ "rh_flags h"])
next
  case (Cons op ops)
  obtain runs1 w1 where step: "apply_manager_op m op (runs, w) = (runs1, w1)" by fastforce
  with finished_op [OF Cons.prems, of m op w] obtain f where "om_get runs1 i = Some (h\<lparr>rh_flags := f\<rparr>)" by auto
  from Cons.IH [OF this, of w1] Cons.prems(2) step show ?case by auto
qed

section \<open>Properties\<close>

text \<open>C16. The events alone tell a watcher how a run ended. Whatever pause and resume events
  operators put between those of the engine, once all are published the handle is in the terminal
  state of the engine's outcome with its number of executed nodes and an end time; recording the
  outcome afterwards only adds the variables and the failure.\<close>

theorem handle_mirrors_run:
  assumes run: "run_engine m en request control world = Some (o', s)" "registry_respects m (en_registry en)"
    and events: "map ev_event es \<in> shuffles (sh_events s) ops" "set ops \<subseteq> {RunPaused, RunResumed}"
    and fresh: "new_handle m hid wkf flags artifacts w0 = (h0, w1)"
    and publish: "publish_all m es h0 w1 = (h, w2)"
  shows "rs_status (rh_state h) = ro_status o' \<and> is_terminal (ro_status o') \<and>
    rs_nodes_executed (rh_state h) = ro_nodes_executed o' \<and> rs_finished_at_ms (rh_state h) \<noteq> None \<and>
    complete_run m o' h w2 =
      (h\<lparr>rh_state := (rh_state h)\<lparr>rs_variables := ro_variables o', rs_failure := ro_failure o'\<rparr>\<rparr>, w2)"
proof -
  let ?t = "terminal_event (ro_status o') (ro_failure o') (ro_nodes_executed o') (ro_duration_ms o')"
  obtain es0 where es0: "sh_events s = es0 @ [?t]" "ro_nodes_executed o' = length (finishes (sh_events s))"
      "ro_status o' = Completed \<and> ro_failure o' = None \<or>
       (ro_status o' = Failed \<or> ro_status o' = Cancelled) \<and> ro_failure o' \<noteq> None"
    by (rule run_events_end [OF run])
  note t = terminal_event_status [OF es0(3)]
  obtain as bs where split: "map ev_event es = as @ ?t # bs" "set bs \<subseteq> set ops"
    using shuffles_last [OF events(1)] es0(1) by auto
  have "finishes (map ev_event es) = finishes (sh_events s)"
    using finishes_shuffles [OF events(1)] events(2) by (force simp: list_all_iff)
  moreover have "rs_nodes_executed (rh_state h0) = 0" using fresh by (auto simp: new_handle_def Let_def split: prod.splits)
  moreover note publish_all_state [OF publish]
  ultimately have n: "rs_nodes_executed (rh_state h) = ro_nodes_executed o'"
    and status: "rs_status (rh_state h) = fold status_after bs (ro_status o')"
    and time: "rs_finished_at_ms (rh_state h) \<noteq> None"
    using es0(2) split(1) t by (auto simp: list_all_iff)
  have "rs_status (rh_state h) = ro_status o'"
    using operators_keep_terminal [of bs, OF _ t(2)] split(2) events(2) status by auto
  with n time t(2) show ?thesis by (auto simp: complete_run_def on_state_def Let_def)
qed

text \<open>C17. A finished run stays as it is: no sequence of operator requests, on any run, changes the
  state or the history of a run in a terminal state or has it publish anything, and a request to
  pause it is refused as a conflict.\<close>

theorem finished_runs_stay:
  assumes "run_lookup runs i = Inr h" "is_terminal (rs_status (rh_state h))"
  shows "pause_run m i runs w = Inl (conflict ''E_RUN_FINISHED'' (''run `'' @ i @ ''` has already finished'')) \<and>
    (\<exists>f. run_lookup (fst (fold (apply_manager_op m) ops (runs, w))) i = Inr (h\<lparr>rh_flags := f\<rparr>))"
  using finished_ops [of runs i h m ops w] assms by (auto simp: lookup_simps) (simp add: manager_defs snapshot_def Let_def)

text \<open>Delivery is complete when one thread publishes: whenever a client's receiver is created
  and its copy of the history is taken, replay and live events together are the whole history,
  every event exactly once and in order, as long as the client falls no further behind than the
  channel holds.\<close>

theorem subscribers_miss_nothing:
  assumes "new_handle m hid wkf flags artifacts w0 = (h0, w1)"
    and "publish_all m es1 h0 w1 = (h1, w2)" "publish_all m es2 h1 w2 = (h2, w3)" "publish_all m es3 h2 w3 = (h3, w4)"
    and "length (es2 @ es3) \<le> event_channel_capacity" "length (es1 @ es2 @ es3) < 2 ^ 64"
  shows "delivered (subscribe h1 h2) h3 = rh_history h3 \<and>
    map ev_event (rh_history h3) = map ev_event (es1 @ es2 @ es3) \<and>
    map ev_seq (rh_history h3) = map of_nat [0..<length (es1 @ es2 @ es3)]"
proof -
  note n0 = numbered_new [OF assms(1)]
  obtain a where a: "numbered h1" "rh_history h1 = rh_history h0 @ a" "map ev_event a = map ev_event es1"
    using numbered_publish_all [OF n0 assms(2)] by blast
  obtain b where b: "numbered h2" "rh_history h2 = rh_history h1 @ b" "map ev_event b = map ev_event es2"
    using numbered_publish_all [OF a(1) assms(3)] by blast
  obtain c where c: "numbered h3" "rh_history h3 = rh_history h2 @ c" "map ev_event c = map ev_event es3"
    using numbered_publish_all [OF b(1) assms(4)] by blast
  have "rh_history h0 = []" using assms(1) by (auto simp: new_handle_def Let_def split: prod.splits)
  with a b c have h: "rh_history h1 = a" "rh_history h2 = a @ b" "rh_history h3 = a @ b @ c" by simp_all
  have lengths: "length a = length es1" "length b = length es2" "length c = length es3"
    using a(3) b(3) c(3) map_eq_imp_length_eq by metis+
  have sent: "rh_sent h1 = a" "rh_sent h3 = a @ b @ c" using a(1) c(1) h by (simp_all add: numbered_def)
  have seqs: "map ev_seq (a @ b @ c) = map of_nat [0..<length (a @ b @ c)]" using c(1) h by (simp add: numbered_def)
  have receiver: "max (length (rh_sent h1)) (length (rh_sent h3) - event_channel_capacity) = length a"
    using assms(5) lengths by (simp add: sent)
  have "delivered (subscribe h1 h2) h3 = a @ b @ c"
  proof (cases "a @ b = []")
    case True
    then show ?thesis using receiver by (simp add: delivered_def subscribe_def h sent)
  next
    case False
    have taken: "map ev_seq (a @ b) = map of_nat [0..<length (a @ b)]"
      using arg_cong [OF seqs, of "take (length (a @ b))"] by (simp add: take_map take_upt)
    have "ev_seq (last (a @ b)) = last (map ev_seq (a @ b))" by (rule last_map [OF False, symmetric])
    also have "\<dots> = of_nat (length (a @ b) - 1)"
      unfolding taken using False by (simp add: last_map del: of_nat_diff)
    finally have last: "ev_seq (last (a @ b)) = of_nat (length (a @ b) - 1)" .
    have "0 < length (a @ b)" unfolding length_greater_0_conv by (rule False)
    moreover have "length (a @ b @ c) < 2 ^ 64" using assms(6) lengths by simp
    ultimately have "filter (\<lambda>e. (of_nat (length (a @ b) - 1) :: u64) < ev_seq e) (drop (length a) (a @ b @ c)) = drop (length (a @ b)) (a @ b @ c)"
      by (intro live_events_after [OF seqs]) simp_all
    moreover have "drop (length (a @ b)) (a @ b @ c) = c" by simp
    ultimately have "filter (\<lambda>e. (of_nat (length (a @ b) - 1) :: u64) < ev_seq e) (drop (length a) (a @ b @ c)) = c"
      by (simp only:)
    then show ?thesis using receiver False by (simp add: delivered_def subscribe_def h sent last del: of_nat_diff)
  qed
  with a(3) b(3) c(3) seqs lengths show ?thesis by (simp add: h)
qed

text \<open>Whatever the interleaving of publishers, every event that was published is recorded and
  sent exactly once, and the numbers handed out are exactly those from 0 up, each once.\<close>

theorem concurrent_publication_counts:
  assumes "new_handle m hid wkf flags artifacts w0 = (h0, w1)" "(publish_step m)\<^sup>*\<^sup>* (h0, [], w1) (h, [], w2)"
  shows "mset (rh_sent h) = mset (rh_history h) \<and>
    mset (map ev_seq (rh_history h)) = mset (map of_nat [0..<length (rh_history h)])"
proof -
  from publish_steps_ok [OF assms(2) numbered_publishers_ok [OF numbered_new [OF assms(1)]]]
  have sent: "mset (rh_history h) = mset (rh_sent h)" and claims: "claims_ok (rh_next_seq h) (mset (rh_history h))"
    by (auto simp: map_filter_simps)
  from claims have "image_mset ev_seq (mset (rh_history h)) = mset (map of_nat [0..<length (rh_history h)])"
    unfolding claims_ok_def size_mset by (rule conjunct2)
  with sent show ?thesis by (simp only: mset_map)
qed

text \<open>The contract of \<open>subscribe\<close> is not enough when threads publish at once: for every handle
  there is an interleaving of two publications in which a client that does what the contract asks
  never receives the event that ends the run, although the history holds it.\<close>

theorem concurrent_subscriber_loses_the_end:
  "\<exists>h1 fl w1 h2 w2 e.
     (publish_step m)\<^sup>*\<^sup>* (fst (new_handle m hid wkf flags artifacts w), [], snd (new_handle m hid wkf flags artifacts w)) (h1, fl, w1) \<and>
     (publish_step m)\<^sup>*\<^sup>* (h1, fl, w1) (h2, [], w2) \<and>
     e \<in> set (rh_history h2) \<and> ends_run (ev_event e) \<and> e \<notin> set (delivered (subscribe h1 h1) h2)"
proof -
  let ?e = "\<lambda>event. \<lparr>ev_run_id = hid, ev_seq = 0, ev_timestamp_ms = 1, ev_event = event\<rparr>"
  obtain h0 w0 where h0: "new_handle m hid wkf flags artifacts w = (h0, w0)" by fastforce
  then have empty: "rh_history h0 = []" "rh_sent h0 = []" "rh_next_seq h0 = 0"
    by (auto simp: new_handle_def Let_def split: prod.splits)
  obtain a ha wa where a: "claim_seq m (?e (RunCompleted 1 0)) h0 w0 = (a, ha, wa)" by (metis surj_pair)
  obtain b hb wb where b: "claim_seq m (?e RunPaused) ha wa = (b, hb, wb)" by (metis surj_pair)
  obtain hc wc where c: "apply_event m (ev_event b) hb wb = (hc, wc)" by fastforce
  let ?h1 = "broadcast b (push_history b hc)"
  obtain hd' wd where d: "apply_event m (ev_event a) ?h1 wc = (hd', wd)" by fastforce
  let ?h2 = "broadcast a (push_history a hd')"
  note fa = claim_seq_fields [OF a] and fb = claim_seq_fields [OF b]
  note fc = apply_event_fields [OF c] and fd = apply_event_fields [OF d]
  note go = converse_rtranclp_into_rtranclp [of "publish_step m"]
  have first: "(publish_step m)\<^sup>*\<^sup>* (h0, [], w0) (?h1, [Claimed a], wc)"
  proof (rule go [OF publish_step.claim [OF a] go [OF publish_step.claim [OF b]]])
    have "publish_step m (hb, [Claimed b, Claimed a], wb) (hc, [Applied b, Claimed a], wc)"
      using publish_step.applies [OF c, of "[]" "[Claimed a]"] by simp
    moreover have "publish_step m (hc, [Applied b, Claimed a], wc) (push_history b hc, [Pushed b, Claimed a], wc)"
      using publish_step.push [of m hc "[]" b "[Claimed a]" wc] by simp
    moreover have "publish_step m (push_history b hc, [Pushed b, Claimed a], wc) (?h1, [Claimed a], wc)"
      using publish_step.send [of m "push_history b hc" "[]" b "[Claimed a]" wc] by simp
    ultimately show "(publish_step m)\<^sup>*\<^sup>* (hb, [Claimed b, Claimed a], wb) (?h1, [Claimed a], wc)"
      by (metis (no_types) go rtranclp.rtrancl_refl)
  qed
  have second: "(publish_step m)\<^sup>*\<^sup>* (?h1, [Claimed a], wc) (?h2, [], wd)"
  proof -
    have "publish_step m (?h1, [Claimed a], wc) (hd', [Applied a], wd)"
      using publish_step.applies [OF d, of "[]" "[]"] by simp
    moreover have "publish_step m (hd', [Applied a], wd) (push_history a hd', [Pushed a], wd)"
      using publish_step.push [of m hd' "[]" a "[]" wd] by simp
    moreover have "publish_step m (push_history a hd', [Pushed a], wd) (?h2, [], wd)"
      using publish_step.send [of m "push_history a hd'" "[]" a "[]" wd] by simp
    ultimately show ?thesis by (metis (no_types) go rtranclp.rtrancl_refl)
  qed
  have history: "rh_history ?h1 = [b]" "rh_sent ?h1 = [b]" "rh_history ?h2 = [b, a]" "rh_sent ?h2 = [b, a]"
    using empty fa(1) fb(1) fc(4,5) fd(4,5) by (simp_all add: broadcast_def push_history_def)
  have numbers: "ev_seq a = 0" "ev_seq b = 1" using empty fa(1,2) fb(2) by simp_all
  from numbers have "delivered (subscribe ?h1 ?h1) ?h2 = [b]"
    by (simp add: delivered_def subscribe_def history event_channel_capacity_def)
  moreover have "a \<noteq> b" "ends_run (ev_event a)" using numbers fa(4) by auto
  ultimately show ?thesis
    unfolding h0 fst_conv snd_conv using first second history(3) by (intro exI conjI) auto
qed

section \<open>Requests the events do not show\<close>

text \<open>A step request suspends a running run, but neither its status nor its events say so.\<close>

lemma step_is_silent:
  assumes "om_get runs i = Some h" "rs_status (rh_state h) = Running"
  obtains h' where "step_run i runs = Inr (om_insert i h' runs)" "cf_paused (rh_flags h')"
    "snapshot h' = snapshot h" "rh_history h' = rh_history h" "sn_status (snapshot h') = Running"
  using assms that [of "h\<lparr>rh_flags := step_flags (rh_flags h)\<rparr>"]
  by (simp add: step_run_def run_lookup_def step_flags_def snapshot_def handle_workflow_id_def Let_def)

text \<open>A run that starts paused and is resumed before its thread announced the pause is shown as
  paused while it executes.\<close>

lemma early_resume_shows_paused:
  assumes "om_get runs i = Some h" "rs_status (rh_state h) = Pending" "\<not> cf_cancelled (rh_flags h)"
    and "resume_run m i runs w = Inr (runs', w')" "om_get runs' i = Some h'"
    and "publish_all m es h' w' = (h2, w2)" "map ev_event es = [RunStarted wid, RunPaused, NodeStarted n t inp]"
  shows "rs_status (rh_state h2) = Paused" "try_permission (rh_flags h') = Granted (rh_flags h')"
proof -
  from assms(1,2,4,5) have h': "h' = h\<lparr>rh_flags := resume_flags (rh_flags h)\<rparr>"
    by (auto simp: resume_run_def run_lookup_def mark_running_def)
  from publish_all_state [OF assms(6)] show "rs_status (rh_state h2) = Paused"
    by (simp add: assms(7) is_terminal_def)
  from h' assms(3) show "try_permission (rh_flags h') = Granted (rh_flags h')"
    by (simp add: try_permission_def resume_flags_def)
qed

section \<open>Witnesses\<close>

definition demo_handle :: "run_handle \<times> nat" where
  "demo_handle = new_handle quiet_machine ''run'' two_step new_flags [] 0"

lemma handle_mirrors_run_witness:
  "\<exists>o' s h w. run_engine quiet_machine demo_engine demo_request (new_control []) 0 = Some (o', s) \<and>
     publish_all quiet_machine (eb_history (sh_bus s)) (fst demo_handle) (snd demo_handle) = (h, w) \<and>
     rs_status (rh_state h) = ro_status o'"
proof -
  obtain o' s where run: "run_engine quiet_machine demo_engine demo_request (new_control []) 0 = Some (o', s)"
    by (rule demo_run)
  obtain h w where h: "publish_all quiet_machine (eb_history (sh_bus s)) (fst demo_handle) (snd demo_handle) = (h, w)"
    by fastforce
  have events: "map ev_event (eb_history (sh_bus s)) \<in> shuffles (sh_events s) []"
    by (simp add: bus_events_def)
  have fresh: "new_handle quiet_machine ''run'' two_step new_flags [] 0 = (fst demo_handle, snd demo_handle)"
    by (simp add: demo_handle_def)
  from handle_mirrors_run [OF run demo_respects events _ fresh h] run h show ?thesis by auto
qed

definition demo_runs :: run_map where
  "demo_runs = [(''run'', on_state (\<lambda>s. s\<lparr>rs_status := Completed\<rparr>) (fst demo_handle))]"

lemma finished_runs_stay_witness:
  "\<exists>e h. pause_run quiet_machine ''run'' demo_runs 0 = Inl e \<and> ae_status e = 409 \<and>
     run_lookup (fst (fold (apply_manager_op quiet_machine) [MResume ''run'', MStep ''run'', MPause ''other''] (demo_runs, 0))) ''run'' = Inr h \<and>
     rs_status (rh_state h) = Completed"
proof -
  have h: "run_lookup demo_runs ''run'' = Inr (on_state (\<lambda>s. s\<lparr>rs_status := Completed\<rparr>) (fst demo_handle))"
    by (simp add: demo_runs_def run_lookup_def)
  have t: "is_terminal (rs_status (rh_state (on_state (\<lambda>s. s\<lparr>rs_status := Completed\<rparr>) (fst demo_handle))))"
    by (simp add: is_terminal_def)
  from finished_runs_stay [OF h t, of quiet_machine 0 "[MResume ''run'', MStep ''run'', MPause ''other'']"]
  show ?thesis by (auto simp: conflict_def api_error_new_def)
qed

lemma subscribers_miss_nothing_witness:
  "\<exists>h1 w1 h2 w2 h3 w3. publish_all quiet_machine [ (fst (new_envelope quiet_machine ''run'' 0 (RunStarted ''w'') 0)) ] (fst demo_handle) (snd demo_handle) = (h1, w1) \<and>
     publish_all quiet_machine [ (fst (new_envelope quiet_machine ''run'' 0 RunPaused 0)) ] h1 w1 = (h2, w2) \<and>
     publish_all quiet_machine [ (fst (new_envelope quiet_machine ''run'' 0 RunResumed 0)) ] h2 w2 = (h3, w3) \<and>
     map ev_event (delivered (subscribe h1 h2) h3) = [RunStarted ''w'', RunPaused, RunResumed]"
proof -
  let ?es = "\<lambda>e. [fst (new_envelope quiet_machine ''run'' 0 e (0::nat))]"
  have event: "map ev_event (?es e) = [e]" for e by (simp add: new_envelope_def Let_def split: prod.splits)
  obtain h1 w1 where h1: "publish_all quiet_machine (?es (RunStarted ''w'')) (fst demo_handle) (snd demo_handle) = (h1, w1)" by fastforce
  obtain h2 w2 where h2: "publish_all quiet_machine (?es RunPaused) h1 w1 = (h2, w2)" by fastforce
  obtain h3 w3 where h3: "publish_all quiet_machine (?es RunResumed) h2 w2 = (h3, w3)" by fastforce
  have fresh: "new_handle quiet_machine ''run'' two_step new_flags [] 0 = (fst demo_handle, snd demo_handle)"
    by (simp add: demo_handle_def)
  from subscribers_miss_nothing [OF fresh h1 h2 h3]
  have "delivered (subscribe h1 h2) h3 = rh_history h3 \<and> map ev_event (rh_history h3) = map ev_event (?es (RunStarted ''w'') @ ?es RunPaused @ ?es RunResumed)"
    by (simp add: event_channel_capacity_def)
  then have "map ev_event (delivered (subscribe h1 h2) h3) = [RunStarted ''w'', RunPaused, RunResumed]"
    using event by simp
  with h1 h2 h3 show ?thesis by (intro exI conjI)
qed

lemma concurrent_publication_counts_witness:
  "\<exists>h w. (publish_step quiet_machine)\<^sup>*\<^sup>* (fst demo_handle, [], snd demo_handle) (h, [], w) \<and>
     length (rh_history h) = 1 \<and> mset (rh_sent h) = mset (rh_history h)"
proof -
  let ?e = "fst (new_envelope quiet_machine ''run'' 0 RunPaused (0::nat))"
  have fresh: "new_handle quiet_machine ''run'' two_step new_flags [] 0 = (fst demo_handle, snd demo_handle)"
    by (simp add: demo_handle_def)
  obtain h w where p: "publish quiet_machine ?e (fst demo_handle) (snd demo_handle) = (h, w)" by fastforce
  note steps = publish_by_steps [OF p]
  have "rh_history (fst demo_handle) = []"
    by (simp add: demo_handle_def new_handle_def Let_def split: prod.splits)
  with publish_fields(4) [OF p] have "length (rh_history h) = 1" by auto
  with concurrent_publication_counts [OF fresh steps] steps show ?thesis by blast
qed

end
