(* ===== verification/Nodara_Sessions.thy ===== *)
theory Nodara_Sessions
  imports Nodara_Context Nodara_Validation
begin

text \<open>
  Agent sessions (\<open>session.rs\<close> of the schema, \<open>sessions.rs\<close> and \<open>approval.rs\<close> of the
  runtime). The store is the record behind the mutex. A waiter's channel of capacity one is a
  cell of \<open>ss_channels\<close>, and \<open>ss_waiters\<close> maps the id of an approval to its cell, so that removing
  the waiter leaves the channel to the thread that holds its receiver. A blocked run thread gives
  way to the other threads: what they do until \<open>recv_timeout\<close> returns, and between its return and
  the next lock, are two lists of operations. The timeout is the end of the first list.
  The iteration order of a \<open>HashMap\<close> is not specified; the model visits the ids in ascending order.
\<close>

section \<open>Data\<close>

datatype session_status = SDraft | SPlanning | SAwaitingApproval | SReady | SRunning | SCompleted | SFailed | SCancelled

definition session_terminal :: "session_status \<Rightarrow> bool" where
  "session_terminal s = (s = SCompleted \<or> s = SFailed \<or> s = SCancelled)"

datatype message_role = Operator | Agent | Runtime

record session_message =
  sm_seq :: u64
  sm_at_ms :: u64
  sm_role :: message_role
  sm_text :: string

datatype approval_decision = Approved | Denied

record approval_request =
  ap_id :: string
  ap_requested_at_ms :: u64
  ap_run_id :: string
  ap_node_id :: string
  ap_node_type :: string
  ap_capability :: string
  ap_permissions :: "string list"
  ap_reason :: string
  ap_input :: json
  ap_decision :: "approval_decision option"
  ap_decided_at_ms :: "u64 option"
  ap_decided_by :: "string option"

definition is_pending :: "approval_request \<Rightarrow> bool" where
  "is_pending a = (ap_decision a = None)"

record plan_preview =
  pp_at_ms :: u64
  pp_workflow :: workflow
  pp_valid :: bool
  pp_errors :: nat
  pp_warnings :: nat
  pp_diagnostics :: "diagnostic list"

record agent_session =
  as_id :: string
  as_goal :: string
  as_provider :: string
  as_status :: session_status
  as_created_at_ms :: u64
  as_updated_at_ms :: u64
  as_messages :: "session_message list"
  as_plan :: "plan_preview option"
  as_approvals :: "approval_request list"
  as_run_id :: "string option"
  as_tokens_used :: u64

definition new_session :: "'w machine \<Rightarrow> string \<Rightarrow> string \<Rightarrow> 'w \<Rightarrow> agent_session \<times> 'w" where
  "new_session m sid goal w =
     (let (now, w') = mc_now_ms m w
      in (\<lparr>as_id = sid, as_goal = goal, as_provider = [], as_status = SDraft, as_created_at_ms = now,
           as_updated_at_ms = now, as_messages = [], as_plan = None, as_approvals = [], as_run_id = None,
           as_tokens_used = 0\<rparr>, w'))"

definition session_pending :: "agent_session \<Rightarrow> approval_request list" where
  "session_pending s = filter is_pending (as_approvals s)"

definition needs_attention :: "agent_session \<Rightarrow> bool" where
  "needs_attention s = (session_pending s \<noteq> [])"

section \<open>The store\<close>

record session_store =
  ss_sessions :: "agent_session omap"
  ss_waiters :: "nat omap"
  ss_channels :: "approval_decision list list"

definition new_store :: session_store where
  "new_store = \<lparr>ss_sessions = om_empty, ss_waiters = om_empty, ss_channels = []\<rparr>"

definition put_session :: "string \<Rightarrow> agent_session \<Rightarrow> session_store \<Rightarrow> session_store" where
  "put_session sid x s = s\<lparr>ss_sessions := om_insert sid x (ss_sessions s)\<rparr>"

definition create_session ::
    "'w machine \<Rightarrow> string \<Rightarrow> string \<Rightarrow> session_store \<Rightarrow> 'w \<Rightarrow> agent_session \<times> session_store \<times> 'w" where
  "create_session m goal provider s w =
     (let (sid, w1) = mc_uuid m w;
          (x, w2) = new_session m sid goal w1;
          (now, w3) = mc_now_ms m w2;
          x' = x\<lparr>as_provider := provider,
                 as_messages := [\<lparr>sm_seq = 0, sm_at_ms = now, sm_role = Operator, sm_text = goal\<rparr>]\<rparr>
      in (x', put_session sid x' s, w3))"

definition get_session :: "string \<Rightarrow> session_store \<Rightarrow> agent_session option" where
  "get_session sid s = om_get (ss_sessions s) sid"

definition upsert_session ::
    "'w machine \<Rightarrow> agent_session \<Rightarrow> session_store \<Rightarrow> 'w \<Rightarrow> agent_session \<times> session_store \<times> 'w" where
  "upsert_session m x s w =
     (let (now, w') = mc_now_ms m w; x' = x\<lparr>as_updated_at_ms := now\<rparr>
      in (x', put_session (as_id x') x' s, w'))"

definition list_sessions :: "session_store \<Rightarrow> agent_session list" where
  "list_sessions s = rev (sort_key as_created_at_ms (rev (map snd (ss_sessions s))))"

definition pending_approvals :: "session_store \<Rightarrow> (string \<times> approval_request) list" where
  "pending_approvals s = concat (map (\<lambda>(k, x). map (\<lambda>a. (as_id x, a)) (session_pending x)) (ss_sessions s))"

text \<open>\<open>sessions.get_mut(session_id)?\<close>, a change, and \<open>updated_at_ms\<close>.\<close>

definition edit_session ::
    "'w machine \<Rightarrow> string \<Rightarrow> (agent_session \<Rightarrow> agent_session) \<Rightarrow> session_store \<Rightarrow> 'w
       \<Rightarrow> agent_session option \<times> session_store \<times> 'w" where
  "edit_session m sid f s w =
     (case get_session sid s of
        None \<Rightarrow> (None, s, w)
      | Some x \<Rightarrow>
          (let (now, w') = mc_now_ms m w; x' = (f x)\<lparr>as_updated_at_ms := now\<rparr>
           in (Some x', put_session sid x' s, w')))"

definition append_message ::
    "'w machine \<Rightarrow> string \<Rightarrow> message_role \<Rightarrow> string \<Rightarrow> session_store \<Rightarrow> 'w
       \<Rightarrow> session_message option \<times> session_store \<times> 'w" where
  "append_message m sid role txt s w =
     (case get_session sid s of
        None \<Rightarrow> (None, s, w)
      | Some x \<Rightarrow>
          (let (now, w1) = mc_now_ms m w;
               message = \<lparr>sm_seq = of_nat (length (as_messages x)), sm_at_ms = now, sm_role = role, sm_text = txt\<rparr>;
               (x', s', w2) = edit_session m sid (\<lambda>x. x\<lparr>as_messages := as_messages x @ [message]\<rparr>) s w1
           in (Some message, s', w2)))"

definition set_plan ::
    "'w machine \<Rightarrow> string \<Rightarrow> plan_preview \<Rightarrow> session_store \<Rightarrow> 'w \<Rightarrow> agent_session option \<times> session_store \<times> 'w" where
  "set_plan m sid preview s w =
     edit_session m sid (\<lambda>x. x\<lparr>as_plan := Some preview,
       as_status := (if needs_attention x then SAwaitingApproval else if pp_valid preview then SReady else SFailed)\<rparr>) s w"

definition set_status ::
    "'w machine \<Rightarrow> string \<Rightarrow> session_status \<Rightarrow> session_store \<Rightarrow> 'w \<Rightarrow> agent_session option \<times> session_store \<times> 'w" where
  "set_status m sid status s w = edit_session m sid (\<lambda>x. x\<lparr>as_status := status\<rparr>) s w"

definition attach_run ::
    "'w machine \<Rightarrow> string \<Rightarrow> string \<Rightarrow> session_store \<Rightarrow> 'w \<Rightarrow> agent_session option \<times> session_store \<times> 'w" where
  "attach_run m sid run_id s w = edit_session m sid (\<lambda>x. x\<lparr>as_run_id := Some run_id, as_status := SRunning\<rparr>) s w"

definition record_tokens ::
    "'w machine \<Rightarrow> string \<Rightarrow> u64 \<Rightarrow> session_store \<Rightarrow> 'w \<Rightarrow> agent_session option \<times> session_store \<times> 'w" where
  "record_tokens m sid tokens s w =
     edit_session m sid (\<lambda>x. x\<lparr>as_tokens_used := sat_add (as_tokens_used x) tokens\<rparr>) s w"

definition owner_of_run :: "string \<Rightarrow> session_store \<Rightarrow> (string \<times> agent_session) option" where
  "owner_of_run run_id s = List.find (\<lambda>(k, x). as_run_id x = Some run_id) (ss_sessions s)"

definition session_for_run :: "string \<Rightarrow> session_store \<Rightarrow> agent_session option" where
  "session_for_run run_id s = map_option snd (owner_of_run run_id s)"

section \<open>Approvals\<close>

definition approval_of :: "capability_request \<Rightarrow> string \<Rightarrow> u64 \<Rightarrow> approval_request" where
  "approval_of c aid now =
     \<lparr>ap_id = aid, ap_requested_at_ms = now, ap_run_id = cr_run_id c, ap_node_id = cr_node_id c,
      ap_node_type = cr_node_type c, ap_capability = cr_capability c, ap_permissions = cr_permissions c,
      ap_reason = ''`'' @ cr_node_id c @ ''` requested `'' @ cr_node_type c @ ''` with '' @ debug_strings (cr_permissions c),
      ap_input = cr_input c, ap_decision = None, ap_decided_at_ms = None, ap_decided_by = None\<rparr>"

text \<open>The first critical section of \<open>raise_and_wait\<close>: the approval id and the channel.\<close>

definition raise_approval ::
    "'w machine \<Rightarrow> capability_request \<Rightarrow> session_store \<Rightarrow> 'w \<Rightarrow> (string \<times> nat) option \<times> session_store \<times> 'w" where
  "raise_approval m c s w =
     (case owner_of_run (cr_run_id c) s of
        None \<Rightarrow> (None, s, w)
      | Some (sid, x) \<Rightarrow>
          (let (aid, w1) = mc_uuid m w;
               (now, w2) = mc_now_ms m w1;
               (x', s', w3) = edit_session m sid (\<lambda>x. x\<lparr>as_approvals := as_approvals x @ [approval_of c aid now],
                 as_status := SAwaitingApproval\<rparr>) s w2;
               address = length (ss_channels s')
           in (Some (aid, address),
               s'\<lparr>ss_waiters := om_insert aid address (ss_waiters s'), ss_channels := ss_channels s' @ [[]]\<rparr>, w3)))"

text \<open>\<open>recv_timeout\<close> at the moment it returns: the decision in the channel, or the time is up.\<close>

definition receive_decision :: "nat \<Rightarrow> session_store \<Rightarrow> approval_decision \<times> session_store" where
  "receive_decision address s =
     (case ss_channels s ! address of
        [] \<Rightarrow> (Denied, s)
      | d # rest \<Rightarrow> (d, s\<lparr>ss_channels := (ss_channels s)[address := rest]\<rparr>))"

definition drop_waiter :: "string \<Rightarrow> session_store \<Rightarrow> session_store" where
  "drop_waiter aid s = s\<lparr>ss_waiters := om_remove aid (ss_waiters s)\<rparr>"

text \<open>\<open>try_send\<close> on a channel of capacity one; the error of a full channel is ignored.\<close>

definition try_send :: "nat \<Rightarrow> approval_decision \<Rightarrow> session_store \<Rightarrow> session_store" where
  "try_send address d s =
     (if ss_channels s ! address = [] then s\<lparr>ss_channels := (ss_channels s)[address := [d]]\<rparr> else s)"

text \<open>The first approval with the id, changed in place.\<close>

fun edit_first :: "('a \<Rightarrow> bool) \<Rightarrow> ('a \<Rightarrow> 'a) \<Rightarrow> 'a list \<Rightarrow> 'a list option" where
  "edit_first p f [] = None"
| "edit_first p f (x # xs) = (if p x then Some (f x # xs) else map_option ((#) x) (edit_first p f xs))"

definition record_decision :: "string \<Rightarrow> approval_decision \<Rightarrow> u64 \<Rightarrow> string \<Rightarrow> agent_session \<Rightarrow> agent_session option" where
  "record_decision aid d now who x =
     map_option (\<lambda>as. x\<lparr>as_approvals := as\<rparr>)
       (edit_first (\<lambda>a. ap_id a = aid)
          (\<lambda>a. a\<lparr>ap_decision := Some d, ap_decided_at_ms := Some now, ap_decided_by := Some who\<rparr>) (as_approvals x))"

definition decide_approval ::
    "'w machine \<Rightarrow> string \<Rightarrow> string \<Rightarrow> approval_decision \<Rightarrow> string \<Rightarrow> session_store \<Rightarrow> 'w
       \<Rightarrow> agent_session option \<times> session_store \<times> 'w" where
  "decide_approval m sid aid d who s w =
     (case get_session sid s of
        None \<Rightarrow> (None, s, w)
      | Some x \<Rightarrow>
          (if \<forall>a\<in>set (as_approvals x). ap_id a \<noteq> aid then (None, s, w)
           else
             (let (now, w1) = mc_now_ms m w;
                  decided = (case record_decision aid d now who x of Some x' \<Rightarrow> x' | None \<Rightarrow> x);
                  (x', s1, w2) = edit_session m sid (\<lambda>x.
                    if \<not> needs_attention decided \<and> as_status decided = SAwaitingApproval
                    then decided\<lparr>as_status := SRunning\<rparr> else decided) s w1;
                  s2 = drop_waiter aid s1
              in (x', (case om_get (ss_waiters s1) aid of Some address \<Rightarrow> try_send address d s2 | None \<Rightarrow> s2), w2))))"

section \<open>Other threads\<close>

datatype store_op =
    OpCreate string string
  | OpUpsert agent_session
  | OpAppend string message_role string
  | OpSetPlan string plan_preview
  | OpSetStatus string session_status
  | OpAttach string string
  | OpTokens string u64
  | OpRaise capability_request
  | OpReceive nat
  | OpDropWaiter string
  | OpDecide string string approval_decision string

fun apply_store_op :: "'w machine \<Rightarrow> store_op \<Rightarrow> session_store \<times> 'w \<Rightarrow> session_store \<times> 'w" where
  "apply_store_op m (OpCreate goal provider) (s, w) = snd (create_session m goal provider s w)"
| "apply_store_op m (OpUpsert x) (s, w) = snd (upsert_session m x s w)"
| "apply_store_op m (OpAppend sid role txt) (s, w) = snd (append_message m sid role txt s w)"
| "apply_store_op m (OpSetPlan sid preview) (s, w) = snd (set_plan m sid preview s w)"
| "apply_store_op m (OpSetStatus sid status) (s, w) = snd (set_status m sid status s w)"
| "apply_store_op m (OpAttach sid run_id) (s, w) = snd (attach_run m sid run_id s w)"
| "apply_store_op m (OpTokens sid n) (s, w) = snd (record_tokens m sid n s w)"
| "apply_store_op m (OpRaise c) (s, w) = snd (raise_approval m c s w)"
| "apply_store_op m (OpReceive address) (s, w) = (snd (receive_decision address s), w)"
| "apply_store_op m (OpDropWaiter aid) (s, w) = (drop_waiter aid s, w)"
| "apply_store_op m (OpDecide sid aid d who) (s, w) = snd (decide_approval m sid aid d who s w)"

definition apply_store_ops :: "'w machine \<Rightarrow> store_op list \<Rightarrow> session_store \<times> 'w \<Rightarrow> session_store \<times> 'w" where
  "apply_store_ops m ops sw = fold (apply_store_op m) ops sw"

definition raise_and_wait ::
    "'w machine \<Rightarrow> capability_request \<Rightarrow> store_op list \<Rightarrow> store_op list \<Rightarrow> session_store \<Rightarrow> 'w
       \<Rightarrow> approval_decision option \<times> session_store \<times> 'w" where
  "raise_and_wait m c until_return before_lock s w =
     (case raise_approval m c s w of
        (None, s1, w1) \<Rightarrow> (None, s1, w1)
      | (Some (aid, address), s1, w1) \<Rightarrow>
          (let (s2, w2) = apply_store_ops m until_return (s1, w1);
               (d, s3) = receive_decision address s2;
               (s4, w4) = apply_store_ops m before_lock (s3, w2)
           in (Some d, drop_waiter aid s4, w4)))"

section \<open>The approval handler of the runtime\<close>

text \<open>The world of a run that asks the store: the store, what the other threads will do while the
  run waits, one pair of lists per request, and the rest of the world.\<close>

record 'v session_world =
  sw_store :: session_store
  sw_schedule :: "(store_op list \<times> store_op list) list"
  sw_rest :: 'v

definition default_allow :: bool where
  "default_allow = False"

definition session_approve :: "'v machine \<Rightarrow> bool \<Rightarrow> 'v session_world approval_handler" where
  "session_approve m allow request sw =
     (let (until_return, before_lock) = (case sw_schedule sw of [] \<Rightarrow> ([], []) | batch # _ \<Rightarrow> batch);
          (d, s, w) = raise_and_wait m request until_return before_lock (sw_store sw) (sw_rest sw)
      in Some (case d of Some Approved \<Rightarrow> True | Some Denied \<Rightarrow> False | None \<Rightarrow> allow,
               sw\<lparr>sw_store := s, sw_schedule := tl (sw_schedule sw), sw_rest := w\<rparr>))"

end
