(* ===== verification/Nodara_Sessions_Props.thy ===== *)
theory Nodara_Sessions_Props
  imports Nodara_Sessions_Spec Nodara_Builtin
begin

text \<open>
  The properties of agent sessions and of the approval bridge, with their witnesses.
\<close>

section \<open>Handlers that answer\<close>

text \<open>What the engine relies on in an approval handler: a request gets an answer.\<close>

locale answering_handler =
  fixes h :: "'w approval_handler"
  assumes answers: "h request w \<noteq> None"
begin

lemma run_answers:
  assumes "registry_responsive m (en_registry en)" "rr_approval request = Some h" "never_pauses control"
    and "\<And>n. n \<in> set (w_nodes (rr_workflow request)) \<Longrightarrow> unattended n"
  shows "\<exists>o' s. run_engine m en request control world = Some (o', s)"
  by (rule run_returns) (use assms answers in simp_all)

end

interpretation session_handler: answering_handler "session_approve m allow" for m allow
  by unfold_locales (simp add: session_approve_def Let_def split: prod.splits)

interpretation auto_approver: answering_handler "\<lambda>request w. Some (auto_approve request, w)"
  by unfold_locales simp

interpretation auto_denier: answering_handler "\<lambda>request w. Some (auto_deny request, w)"
  by unfold_locales simp

section \<open>Properties\<close>

text \<open>C19. A gated capability of a run is allowed only by an operator: the handler of the runtime
  answers yes only if, while the run waited, a thread decided \<open>Approved\<close> on the very approval that
  was raised for it. A run that belongs to no session, a refusal and silence all mean no.\<close>

theorem approval_needs_an_operator:
  assumes "session_approve m default_allow request sw = Some (True, sw')" "store_ok (sw_store sw)"
  shows "\<exists>until_return before_lock rest sid who. sw_schedule sw = (until_return, before_lock) # rest \<and>
    session_for_run (cr_run_id request) (sw_store sw) \<noteq> None \<and>
    OpDecide sid (fst (mc_uuid m (sw_rest sw))) Approved who \<in> set until_return"
proof -
  obtain ops ops' where batch: "(case sw_schedule sw of [] \<Rightarrow> ([], []) | batch # _ \<Rightarrow> batch) = (ops, ops')" by fastforce
  obtain d s w where wait: "raise_and_wait m request ops ops' (sw_store sw) (sw_rest sw) = (d, s, w)" by (rule prod_cases3)
  from assms(1) have "d = Some Approved"
    by (auto simp: session_approve_def default_allow_def batch wait split: option.splits approval_decision.splits)
  with raise_and_wait_answer [OF wait assms(2)] obtain sid who where
    "session_for_run (cr_run_id request) (sw_store sw) \<noteq> None"
    "OpDecide sid (fst (mc_uuid m (sw_rest sw))) Approved who \<in> set ops" by auto
  with batch show ?thesis by (cases "sw_schedule sw") auto
qed


text \<open>A request nobody answered in time is refused, but it stays in the session: the approval is
  still pending and the session still awaits it after the run went on, and a later decision is
  recorded as if the run had obeyed it.\<close>

theorem late_approval_is_only_recorded:
  assumes "store_ok s" "owner_of_run (cr_run_id c) s = Some (sid, x)"
    and "\<forall>b\<in>set (as_approvals x). ap_id b \<noteq> fst (mc_uuid m w)"
  shows "\<exists>s' w' y. raise_and_wait m c [] [] s w = (Some Denied, s', w') \<and>
    get_session sid s' = Some y \<and> as_status y = SAwaitingApproval \<and>
    fst (mc_uuid m w) \<in> ap_id ` set (session_pending y) \<and>
    (\<exists>y' s'' w'' b. decide_approval m sid (fst (mc_uuid m w)) Approved who s' w' = (Some y', s'', w'') \<and>
       b \<in> set (as_approvals y') \<and> ap_id b = fst (mc_uuid m w) \<and> ap_decision b = Some Approved)"
proof -
  let ?aid = "fst (mc_uuid m w)"
  obtain q s2 w' where raise: "raise_approval m c s w = (q, s2, w')" by (rule prod_cases3)
  obtain s1 now w2 r1 w3 where s1: "q = Some (?aid, length (ss_channels s))" "ss_channels s1 = ss_channels s"
      "s2 = s1\<lparr>ss_waiters := om_insert ?aid (length (ss_channels s)) (ss_waiters s), ss_channels := ss_channels s @ [[]]\<rparr>"
      "edit_session m sid (\<lambda>x. x\<lparr>as_approvals := as_approvals x @ [approval_of c ?aid now], as_status := SAwaitingApproval\<rparr>) s w2 =
         (r1, s1, w3)"
    using assms(2) by (cases rule: raise_approval_cases [OF raise assms(1)]) auto
  have "(sid, x) \<in> set (ss_sessions s)"
    using assms(2) by (auto simp: owner_of_run_def find_Some_iff) (metis nth_mem)
  with assms(1) have x: "om_get (ss_sessions s) sid = Some x"
    by (simp add: store_ok_def om_get_def om_ok_distinct)
  let ?f = "\<lambda>x. x\<lparr>as_approvals := as_approvals x @ [approval_of c ?aid now], as_status := SAwaitingApproval\<rparr>"
  from s1(4) obtain now' where "s1 = put_session sid ((?f x)\<lparr>as_updated_at_ms := now'\<rparr>) s"
    using x by (cases rule: edit_session_cases) auto
  then have y: "om_get (ss_sessions (drop_waiter ?aid s2)) sid = Some ((?f x)\<lparr>as_updated_at_ms := now'\<rparr>)"
    by (simp add: s1(3))
  let ?y = "(?f x)\<lparr>as_updated_at_ms := now'\<rparr>"
  have wait: "raise_and_wait m c [] [] s w = (Some Denied, drop_waiter ?aid s2, w')"
    by (simp add: raise_and_wait_def raise s1(1) receive_decision_def nth_append s1(3))
  let ?s' = "drop_waiter ?aid s2"
  have ok: "store_ok ?s'"
    using store_ok_raise [OF raise assms(1)] store_ok_drop by blast
  obtain r' s'' w'' where d: "decide_approval m sid ?aid Approved who ?s' w' = (r', s'', w'')" by (rule prod_cases3)
  have "\<exists>y' b. r' = Some y' \<and> b \<in> set (as_approvals y') \<and> ap_id b = ?aid \<and> ap_decision b = Some Approved"
    using d ok
  proof (cases rule: decide_approval_cases)
    case ignored
    with d y show ?thesis by (auto simp: decide_approval_def get_session_def Let_def edit_session_def approval_of_def split: prod.splits option.splits)
  next
    case (decided x' s1' now1)
    then obtain as b bs where
      b: "ap_id b = ?aid" "map_option as_approvals r' =
        Some (as @ b\<lparr>ap_decision := Some Approved, ap_decided_at_ms := Some now1, ap_decided_by := Some who\<rparr> # bs)" by blast
    then show ?thesis by (cases r') auto
  qed
  moreover have "?aid \<in> ap_id ` set (session_pending ?y)"
    by (simp add: session_pending_def is_pending_def approval_of_def)
  ultimately show ?thesis using wait y d by (auto simp: get_session_def)
qed

section \<open>Witnesses\<close>

definition demo_capability :: capability_request where
  "demo_capability =
     \<lparr>cr_run_id = ''run'', cr_node_id = ''keyboard'', cr_node_type = ''windows.Input.Keyboard'',
      cr_capability = ''windows.Input.Keyboard'', cr_permissions = [''input.control''], cr_dangerous = True, cr_input = JNull\<rparr>"

definition demo_session :: agent_session where
  "demo_session =
     \<lparr>as_id = ''s'', as_goal = ''type'', as_provider = [], as_status = SRunning, as_created_at_ms = 0,
      as_updated_at_ms = 0, as_messages = [], as_plan = None, as_approvals = [], as_run_id = Some ''run'', as_tokens_used = 0\<rparr>"

definition demo_store :: session_store where
  "demo_store = \<lparr>ss_sessions = [(''s'', demo_session)], ss_waiters = om_empty, ss_channels = []\<rparr>"

definition demo_world :: "nat session_world" where
  "demo_world = \<lparr>sw_store = demo_store,
     sw_schedule = [([OpDecide ''s'' (fst (mc_uuid quiet_machine 0)) Approved ''operator''], [])], sw_rest = 0\<rparr>"

lemma demo_store_ok: "store_ok demo_store"
  by (simp add: store_ok_def demo_store_def om_empty_def om_ok_def demo_session_def)

lemmas demo_defs = demo_world_def demo_store_def demo_session_def demo_capability_def

lemma approval_needs_an_operator_witness:
  "\<exists>sw'. session_approve quiet_machine default_allow demo_capability demo_world = Some (True, sw') \<and>
     session_for_run ''run'' (sw_store demo_world) \<noteq> None"
proof -
  have "fst (the (session_approve quiet_machine default_allow demo_capability demo_world)) = True"
    by (code_simp)
  moreover obtain b sw' where b: "session_approve quiet_machine default_allow demo_capability demo_world = Some (b, sw')"
    using session_handler.answers [of quiet_machine default_allow demo_capability demo_world] by auto
  ultimately have run: "session_approve quiet_machine default_allow demo_capability demo_world = Some (True, sw')" by simp
  have ok: "store_ok (sw_store demo_world)" using demo_store_ok by (simp add: demo_world_def)
  have rid: "cr_run_id demo_capability = ''run''" by (simp add: demo_capability_def)
  from approval_needs_an_operator [OF run ok] run show ?thesis unfolding rid by blast
qed


lemma late_approval_is_only_recorded_witness:
  "\<exists>s' w' y. raise_and_wait quiet_machine demo_capability [] [] demo_store 0 = (Some Denied, s', w') \<and>
     get_session ''s'' s' = Some y \<and> needs_attention y"
proof -
  have owner: "owner_of_run (cr_run_id demo_capability) demo_store = Some (''s'', demo_session)"
    by (simp add: owner_of_run_def demo_defs)
  have fresh: "\<forall>b\<in>set (as_approvals demo_session). ap_id b \<noteq> fst (mc_uuid quiet_machine 0)"
    by (simp add: demo_session_def)
  from late_approval_is_only_recorded [OF demo_store_ok owner fresh, of "''operator''"]
  obtain s' w' y where "raise_and_wait quiet_machine demo_capability [] [] demo_store 0 = (Some Denied, s', w')"
    "get_session ''s'' s' = Some y" "fst (mc_uuid quiet_machine 0) \<in> ap_id ` set (session_pending y)" by blast
  then show ?thesis by (intro exI [of _ s'] exI [of _ w'] exI [of _ y]) (auto simp: needs_attention_def)
qed

end
