(* ===== verification/Nodara_Jsonrpc.thy ===== *)
theory Nodara_Jsonrpc
  imports Nodara_Json "HOL-Library.Monad_Syntax"
begin

text \<open>
  JSON-RPC framing (\<open>jsonrpc.rs\<close>) and the errors of the plugin host (\<open>error.rs\<close>). A message is
  decoded by \<open>decode_message\<close>; it is encoded by code that \<open>serde\<close> derives from the struct, which is
  written out here: \<open>skip_serializing_if\<close> drops a member, a missing member with a default takes it,
  unknown members are ignored, and a struct may also be given as the array of its fields. The text of
  a decoding error is a parameter, by the name of the type and the value.
\<close>

section \<open>Derived decoders\<close>

type_synonym 'a decoder = "json \<Rightarrow> 'a option"

definition struct_fields :: "string list \<Rightarrow> json \<Rightarrow> jobject option" where
  "struct_fields names v =
     (case v of
        JObj m \<Rightarrow> Some m
      | JArr vs \<Rightarrow> if length vs \<le> length names then Some (om_of_list (zip names vs)) else None
      | _ \<Rightarrow> None)"

definition req_field :: "'a decoder \<Rightarrow> jobject \<Rightarrow> string \<Rightarrow> 'a option" where
  "req_field dec m k = Option.bind (om_get m k) dec"

definition def_field :: "'a \<Rightarrow> 'a decoder \<Rightarrow> jobject \<Rightarrow> string \<Rightarrow> 'a option" where
  "def_field d dec m k = (case om_get m k of None \<Rightarrow> Some d | Some v \<Rightarrow> dec v)"

definition opt_field :: "'a decoder \<Rightarrow> jobject \<Rightarrow> string \<Rightarrow> 'a option option" where
  "opt_field dec m k =
     (case om_get m k of
        None \<Rightarrow> Some None
      | Some v \<Rightarrow> if v = JNull then Some None else map_option Some (dec v))"

definition list_decoder :: "'a decoder \<Rightarrow> 'a list decoder" where
  "list_decoder dec v = Option.bind (as_array v) (\<lambda>vs. those (map dec vs))"

definition strings_json :: "string list \<Rightarrow> json" where
  "strings_json ss = JArr (map JStr ss)"

definition some_member :: "string \<Rightarrow> ('a \<Rightarrow> json) \<Rightarrow> 'a option \<Rightarrow> (string \<times> json) list" where
  "some_member k enc v = (case v of None \<Rightarrow> [] | Some a \<Rightarrow> [(k, enc a)])"

definition null_member :: "string \<Rightarrow> json \<Rightarrow> (string \<times> json) list" where
  "null_member k v = (if v = JNull then [] else [(k, v)])"

named_theorems wire \<open>decoding what an encoder wrote\<close>

lemma om_get_of_list [wire]: "om_get (om_of_list kvs) k = om_get (rev kvs) k"
  by (simp add: om_of_list_def om_get_extend om_empty_def split: option.splits)

lemma om_get_append [wire]:
  "om_get (xs @ ys) k = (case om_get xs k of None \<Rightarrow> om_get ys k | Some v \<Rightarrow> Some v)"
  by (induction xs) auto

lemma those_map_Some: "(\<And>x. x \<in> set xs \<Longrightarrow> dec (enc x) = Some x) \<Longrightarrow> those (map (dec \<circ> enc) xs) = Some xs"
  by (induction xs) auto

lemma list_decoder_strings [wire]: "list_decoder as_str (strings_json ss) = Some ss"
  by (simp add: list_decoder_def strings_json_def those_map_Some)

lemma list_decoder_map [wire]:
  "(\<And>x. x \<in> set xs \<Longrightarrow> dec (enc x) = Some x) \<Longrightarrow> list_decoder dec (JArr (map enc xs)) = Some xs"
  by (simp add: list_decoder_def those_map_Some)

lemma struct_fields_object [wire]: "struct_fields names (JObj m) = Some m"
  by (simp add: struct_fields_def)

section \<open>Messages\<close>

definition jsonrpc_version :: string where
  "jsonrpc_version = ''2.0''"

definition code_parse_error :: int where "code_parse_error = - 32700"
definition code_invalid_request :: int where "code_invalid_request = - 32600"
definition code_method_not_found :: int where "code_method_not_found = - 32601"
definition code_invalid_params :: int where "code_invalid_params = - 32602"
definition code_internal_error :: int where "code_internal_error = - 32603"
definition code_app_invalid_config :: int where "code_app_invalid_config = - 32001"
definition code_app_permission_denied :: int where "code_app_permission_denied = - 32002"
definition code_app_cancelled :: int where "code_app_cancelled = - 32003"
definition code_app_timeout :: int where "code_app_timeout = - 32004"
definition code_app_unsupported :: int where "code_app_unsupported = - 32005"
definition code_app_execution :: int where "code_app_execution = - 32006"
definition code_app_io :: int where "code_app_io = - 32007"

lemmas code_defs =
  code_parse_error_def code_invalid_request_def code_method_not_found_def code_invalid_params_def
  code_internal_error_def code_app_invalid_config_def code_app_permission_denied_def
  code_app_cancelled_def code_app_timeout_def code_app_unsupported_def code_app_execution_def
  code_app_io_def

record error_object =
  eo_code :: int
  eo_message :: string
  eo_data :: "json option"

definition new_error_object :: "int \<Rightarrow> string \<Rightarrow> error_object" where
  "new_error_object code message = \<lparr>eo_code = code, eo_message = message, eo_data = None\<rparr>"

definition with_data :: "json \<Rightarrow> error_object \<Rightarrow> error_object" where
  "with_data data e = e\<lparr>eo_data := Some data\<rparr>"

record rpc_request =
  rq_jsonrpc :: string
  rq_id :: json
  rq_method :: string
  rq_params :: json

definition new_request :: "json \<Rightarrow> string \<Rightarrow> json \<Rightarrow> rpc_request" where
  "new_request i method params =
     \<lparr>rq_jsonrpc = jsonrpc_version, rq_id = i, rq_method = method, rq_params = params\<rparr>"

record rpc_notification =
  nt_jsonrpc :: string
  nt_method :: string
  nt_params :: json

definition new_notification :: "string \<Rightarrow> json \<Rightarrow> rpc_notification" where
  "new_notification method params =
     \<lparr>nt_jsonrpc = jsonrpc_version, nt_method = method, nt_params = params\<rparr>"

record rpc_response =
  rp_jsonrpc :: string
  rp_id :: "json option"
  rp_result :: "json option"
  rp_error :: "error_object option"

definition response_success :: "json \<Rightarrow> json \<Rightarrow> rpc_response" where
  "response_success i result =
     \<lparr>rp_jsonrpc = jsonrpc_version, rp_id = Some i, rp_result = Some result, rp_error = None\<rparr>"

definition response_failure :: "json option \<Rightarrow> error_object \<Rightarrow> rpc_response" where
  "response_failure i e =
     \<lparr>rp_jsonrpc = jsonrpc_version, rp_id = i, rp_result = None, rp_error = Some e\<rparr>"

definition is_error_response :: "rpc_response \<Rightarrow> bool" where
  "is_error_response r = (rp_error r \<noteq> None)"

datatype incoming =
    InRequest rpc_request
  | InNotification rpc_notification
  | InResponse rpc_response

section \<open>Encoding\<close>

definition error_object_json :: "error_object \<Rightarrow> json" where
  "error_object_json e =
     JObj (om_of_list ([(''code'', JNum (num_of_i64 (eo_code e))), (''message'', JStr (eo_message e))] @
       some_member ''data'' id (eo_data e)))"

definition request_json :: "rpc_request \<Rightarrow> json" where
  "request_json r =
     JObj (om_of_list ([(''jsonrpc'', JStr (rq_jsonrpc r)), (''id'', rq_id r), (''method'', JStr (rq_method r))] @
       null_member ''params'' (rq_params r)))"

definition notification_json :: "rpc_notification \<Rightarrow> json" where
  "notification_json n =
     JObj (om_of_list ([(''jsonrpc'', JStr (nt_jsonrpc n)), (''method'', JStr (nt_method n))] @
       null_member ''params'' (nt_params n)))"

definition response_json :: "rpc_response \<Rightarrow> json" where
  "response_json r =
     JObj (om_of_list ([(''jsonrpc'', JStr (rp_jsonrpc r))] @ some_member ''id'' id (rp_id r) @
       some_member ''result'' id (rp_result r) @ some_member ''error'' error_object_json (rp_error r)))"

fun message_json :: "incoming \<Rightarrow> json" where
  "message_json (InRequest r) = request_json r"
| "message_json (InNotification n) = notification_json n"
| "message_json (InResponse r) = response_json r"

section \<open>Decoding\<close>

definition error_object_decode :: "error_object decoder" where
  "error_object_decode v = do {
     m \<leftarrow> struct_fields [''code'', ''message'', ''data''] v;
     code \<leftarrow> req_field as_i64 m ''code'';
     message \<leftarrow> req_field as_str m ''message'';
     data \<leftarrow> opt_field Some m ''data'';
     Some \<lparr>eo_code = code, eo_message = message, eo_data = data\<rparr> }"

definition response_decode :: "rpc_response decoder" where
  "response_decode v = do {
     m \<leftarrow> struct_fields [''jsonrpc'', ''id'', ''result'', ''error''] v;
     version \<leftarrow> req_field as_str m ''jsonrpc'';
     i \<leftarrow> opt_field Some m ''id'';
     result \<leftarrow> opt_field Some m ''result'';
     error \<leftarrow> opt_field error_object_decode m ''error'';
     Some \<lparr>rp_jsonrpc = version, rp_id = i, rp_result = result, rp_error = error\<rparr> }"

definition check_version :: "jobject \<Rightarrow> (error_object, unit) result" where
  "check_version m =
     (case Option.bind (om_get m ''jsonrpc'') as_str of
        Some version \<Rightarrow>
          if version = jsonrpc_version then Inr ()
          else Inl (new_error_object code_invalid_request (''unsupported jsonrpc version `'' @ version @ ''`''))
      | None \<Rightarrow> Inl (new_error_object code_invalid_request ''missing `jsonrpc` member''))"

definition decode_call :: "jobject \<Rightarrow> (error_object, incoming) result" where
  "decode_call m =
     (case Option.bind (om_get m ''method'') as_str of
        None \<Rightarrow> Inl (new_error_object code_invalid_request ''`method` must be a string'')
      | Some method \<Rightarrow>
          (let params = (case om_get m ''params'' of None \<Rightarrow> JNull | Some v \<Rightarrow> v);
               notification = InNotification (new_notification method params)
           in Inr (case om_get m ''id'' of
                     None \<Rightarrow> notification
                   | Some i \<Rightarrow> if i = JNull then notification else InRequest (new_request i method params))))"

definition decode_response :: "(string \<Rightarrow> json \<Rightarrow> string) \<Rightarrow> json \<Rightarrow> (error_object, incoming) result" where
  "decode_response serde_text v =
     (case response_decode v of
        None \<Rightarrow> Inl (new_error_object code_invalid_request (serde_text ''Response'' v))
      | Some r \<Rightarrow>
          if rp_result r \<noteq> None \<and> rp_error r \<noteq> None
          then Inl (new_error_object code_invalid_request ''response must not contain both `result` and `error`'')
          else Inr (InResponse r))"

definition decode_message :: "(string \<Rightarrow> json \<Rightarrow> string) \<Rightarrow> json \<Rightarrow> (error_object, incoming) result" where
  "decode_message serde_text v =
     (case as_object v of
        None \<Rightarrow> Inl (new_error_object code_invalid_request ''message must be a JSON object'')
      | Some m \<Rightarrow>
          bind_result (check_version m) (\<lambda>_.
            if om_has m ''method'' then decode_call m
            else if om_has m ''result'' \<or> om_has m ''error'' then decode_response serde_text v
            else Inl (new_error_object code_invalid_request
                   ''message is neither a request, a notification nor a response'')))"

section \<open>Errors of the plugin host\<close>

datatype plugin_error =
    PluginIo string
  | PluginJson string
  | ManifestError string
  | LaunchError string string
  | HandshakeError string
  | ProtocolError string
  | RemoteError int string "json option"
  | RequestTimeout string u64
  | Disconnected
  | UnsupportedByPlugin string

fun plugin_error_text :: "plugin_error \<Rightarrow> string" where
  "plugin_error_text (PluginIo e) = ''io error: '' @ e"
| "plugin_error_text (PluginJson e) = ''json error: '' @ e"
| "plugin_error_text (ManifestError e) = ''invalid manifest: '' @ e"
| "plugin_error_text (LaunchError pid e) = ''failed to launch plugin `'' @ pid @ ''`: '' @ e"
| "plugin_error_text (HandshakeError e) = ''handshake failed: '' @ e"
| "plugin_error_text (ProtocolError e) = ''protocol error: '' @ e"
| "plugin_error_text (RemoteError code message data) =
     ''plugin returned error '' @ show_int code @ '': '' @ message"
| "plugin_error_text (RequestTimeout method ms) =
     ''plugin request `'' @ method @ ''` timed out after '' @ show_nat (unat ms) @ ''ms''"
| "plugin_error_text Disconnected = ''plugin process closed the connection''"
| "plugin_error_text (UnsupportedByPlugin e) = ''unsupported by plugin: '' @ e"

fun transport_error :: "string \<Rightarrow> plugin_error \<Rightarrow> error_object" where
  "transport_error method (RequestTimeout _ ms) =
     new_error_object code_app_timeout (''`'' @ method @ ''` timed out after '' @ show_nat (unat ms) @ ''ms'')"
| "transport_error method Disconnected =
     new_error_object code_internal_error ''channel closed before a reply arrived''"
| "transport_error method (RemoteError code message data) =
     \<lparr>eo_code = code, eo_message = message, eo_data = data\<rparr>"
| "transport_error method other = new_error_object code_internal_error (plugin_error_text other)"

section \<open>Round trip\<close>

text \<open>The messages that keep every member on the wire. \<open>Some JNull\<close> is written as \<open>null\<close> and read
  back as \<open>None\<close>; a request whose id is \<open>null\<close> is read as a notification.\<close>

definition error_object_ok :: "error_object \<Rightarrow> bool" where
  "error_object_ok e \<longleftrightarrow> i64_min \<le> eo_code e \<and> eo_code e \<le> i64_max \<and> eo_data e \<noteq> Some JNull"

fun message_ok :: "incoming \<Rightarrow> bool" where
  "message_ok (InRequest r) \<longleftrightarrow> rq_jsonrpc r = jsonrpc_version \<and> rq_id r \<noteq> JNull"
| "message_ok (InNotification n) \<longleftrightarrow> nt_jsonrpc n = jsonrpc_version"
| "message_ok (InResponse r) \<longleftrightarrow>
     rp_jsonrpc r = jsonrpc_version \<and> rp_id r \<noteq> Some JNull \<and> rp_result r \<noteq> Some JNull \<and>
     (rp_result r = None) \<noteq> (rp_error r = None) \<and>
     (case rp_error r of None \<Rightarrow> True | Some e \<Rightarrow> error_object_ok e)"

lemma error_object_roundtrip [wire]:
  assumes "error_object_ok e"
  shows "error_object_decode (error_object_json e) = Some e"
  using assms num_of_i64_as_i64 [of "eo_code e"]
  by (cases e) (auto simp: error_object_ok_def error_object_decode_def error_object_json_def req_field_def
      opt_field_def some_member_def wire split: option.splits)

lemma error_object_json_not_null [simp]: "error_object_json e \<noteq> JNull"
  by (simp add: error_object_json_def)

lemma response_roundtrip:
  assumes "message_ok (InResponse r)"
  shows "response_decode (response_json r) = Some r"
  using assms
  by (cases r) (auto simp: response_decode_def response_json_def req_field_def opt_field_def some_member_def
      wire split: option.splits)

lemma request_roundtrip:
  assumes "message_ok (InRequest r)"
  shows "decode_message serde_text (request_json r) = Inr (InRequest r)"
  using assms
  by (cases r) (auto simp: decode_message_def request_json_def check_version_def decode_call_def
      null_member_def om_has_def new_request_def wire Let_def)

lemma notification_roundtrip:
  assumes "message_ok (InNotification n)"
  shows "decode_message serde_text (notification_json n) = Inr (InNotification n)"
  using assms
  by (cases n) (auto simp: decode_message_def notification_json_def check_version_def decode_call_def
      null_member_def om_has_def new_notification_def wire Let_def)

text \<open>Every well-formed message survives the wire: decoding the JSON value that the derived
  encoder writes for a request, a notification or a response gives back that message, with its
  members, and never takes one kind for another.\<close>

theorem message_roundtrip:
  assumes "message_ok msg"
  shows "decode_message serde_text (message_json msg) = Inr msg"
proof (cases msg)
  case (InResponse r)
  with assms have ok: "message_ok (InResponse r)" by simp
  have "decode_message serde_text (response_json r) = decode_response serde_text (response_json r)"
    using ok by (auto simp: decode_message_def check_version_def response_json_def om_has_def some_member_def
        wire split: option.splits)
  with ok InResponse show ?thesis
    by (auto simp: decode_response_def response_roundtrip [OF ok])
qed (use assms request_roundtrip notification_roundtrip in auto)

lemma message_roundtrip_witness:
  "decode_message (\<lambda>_ _. []) (message_json (InResponse (response_failure (Some (JStr ''abc''))
     (with_data (JBool True) (new_error_object code_app_io ''disk'')))))
   = Inr (InResponse (response_failure (Some (JStr ''abc''))
     (with_data (JBool True) (new_error_object code_app_io ''disk''))))"
  by (rule message_roundtrip)
    (simp add: response_failure_def with_data_def new_error_object_def error_object_ok_def code_defs
      i64_min_def i64_max_def)

end
