(* ===== verification/Nodara_Protocol.thy ===== *)
theory Nodara_Protocol
  imports Nodara_Jsonrpc Nodara_Context
begin

text \<open>
  The runtime-plugin contract (\<open>protocol.rs\<close>): method names, parameters and results, with the
  encoders and decoders that \<open>serde\<close> derives for them, for node descriptors (\<open>descriptor.rs\<close>) and
  for artefact metadata (\<open>context.rs\<close>). Each group ends with its round trip.
\<close>

section \<open>Scalars\<close>

definition u64_json :: "u64 \<Rightarrow> json" where
  "u64_json n = JNum (PosInt n)"

definition u64_decode :: "u64 decoder" where
  "u64_decode v = map_option of_nat (as_u64 v)"

definition usize_json :: "nat \<Rightarrow> json" where
  "usize_json n = JNum (num_of_u64 n)"

lemma u64_roundtrip [wire]: "u64_decode (u64_json n) = Some n"
  by (simp add: u64_decode_def u64_json_def)

lemma usize_roundtrip [wire]: "n < 2 ^ 64 \<Longrightarrow> as_u64 (usize_json n) = Some n"
  by (simp add: usize_json_def num_of_u64_def unsigned_of_nat take_bit_nat_eq_self)

lemma encoded_not_null [simp]: "u64_json n \<noteq> JNull" "usize_json k \<noteq> JNull" "strings_json ss \<noteq> JNull"
  by (simp_all add: u64_json_def usize_json_def strings_json_def)

lemmas field_defs = req_field_def def_field_def opt_field_def some_member_def null_member_def

section \<open>Method names\<close>

definition method_initialize :: string where "method_initialize = ''initialize''"
definition method_describe :: string where "method_describe = ''describe''"
definition method_execute :: string where "method_execute = ''execute''"
definition method_cancel :: string where "method_cancel = ''cancel''"
definition method_shutdown :: string where "method_shutdown = ''shutdown''"
definition method_health :: string where "method_health = ''health''"
definition method_progress :: string where "method_progress = ''progress''"
definition method_log :: string where "method_log = ''log''"

lemmas method_defs =
  method_initialize_def method_describe_def method_execute_def method_cancel_def
  method_shutdown_def method_health_def method_progress_def method_log_def

section \<open>Handshake\<close>

record plugin_info =
  pi_id :: string
  pi_name :: string
  pi_version :: string

definition plugin_info_json :: "plugin_info \<Rightarrow> json" where
  "plugin_info_json p =
     JObj (om_of_list [(''id'', JStr (pi_id p)), (''name'', JStr (pi_name p)), (''version'', JStr (pi_version p))])"

definition plugin_info_decode :: "plugin_info decoder" where
  "plugin_info_decode v = do {
     m \<leftarrow> struct_fields [''id'', ''name'', ''version''] v;
     i \<leftarrow> req_field as_str m ''id'';
     name \<leftarrow> req_field as_str m ''name'';
     version \<leftarrow> req_field as_str m ''version'';
     Some \<lparr>pi_id = i, pi_name = name, pi_version = version\<rparr> }"

record initialize_params =
  ip_protocol_version :: string
  ip_runtime_version :: string
  ip_granted_permissions :: "string list"

definition initialize_params_json :: "initialize_params \<Rightarrow> json" where
  "initialize_params_json p =
     JObj (om_of_list [(''protocol_version'', JStr (ip_protocol_version p)),
       (''runtime_version'', JStr (ip_runtime_version p)),
       (''granted_permissions'', strings_json (ip_granted_permissions p))])"

definition initialize_params_decode :: "initialize_params decoder" where
  "initialize_params_decode v = do {
     m \<leftarrow> struct_fields [''protocol_version'', ''runtime_version'', ''granted_permissions''] v;
     protocol \<leftarrow> req_field as_str m ''protocol_version'';
     runtime \<leftarrow> def_field [] as_str m ''runtime_version'';
     granted \<leftarrow> def_field [] (list_decoder as_str) m ''granted_permissions'';
     Some \<lparr>ip_protocol_version = protocol, ip_runtime_version = runtime, ip_granted_permissions = granted\<rparr> }"

record initialize_result =
  ir_protocol_version :: string
  ir_plugin :: plugin_info
  ir_capabilities :: "string list"

definition initialize_result_json :: "initialize_result \<Rightarrow> json" where
  "initialize_result_json r =
     JObj (om_of_list [(''protocol_version'', JStr (ir_protocol_version r)),
       (''plugin'', plugin_info_json (ir_plugin r)), (''capabilities'', strings_json (ir_capabilities r))])"

definition initialize_result_decode :: "initialize_result decoder" where
  "initialize_result_decode v = do {
     m \<leftarrow> struct_fields [''protocol_version'', ''plugin'', ''capabilities''] v;
     protocol \<leftarrow> req_field as_str m ''protocol_version'';
     plugin \<leftarrow> req_field plugin_info_decode m ''plugin'';
     capabilities \<leftarrow> def_field [] (list_decoder as_str) m ''capabilities'';
     Some \<lparr>ir_protocol_version = protocol, ir_plugin = plugin, ir_capabilities = capabilities\<rparr> }"

lemma plugin_info_roundtrip [wire]: "plugin_info_decode (plugin_info_json p) = Some p"
  by (simp add: plugin_info_decode_def plugin_info_json_def field_defs wire)

lemma initialize_params_roundtrip [wire]: "initialize_params_decode (initialize_params_json p) = Some p"
  by (simp add: initialize_params_decode_def initialize_params_json_def field_defs wire)

lemma initialize_result_roundtrip [wire]: "initialize_result_decode (initialize_result_json r) = Some r"
  by (simp add: initialize_result_decode_def initialize_result_json_def field_defs wire)

section \<open>Descriptors\<close>

fun port_kind_name :: "port_kind \<Rightarrow> string" where
  "port_kind_name InputPort = ''input''"
| "port_kind_name OutputPort = ''output''"

fun value_type_name :: "value_type \<Rightarrow> string" where
  "value_type_name AnyType = ''any''"
| "value_type_name StringType = ''string''"
| "value_type_name NumberType = ''number''"
| "value_type_name BooleanType = ''boolean''"
| "value_type_name ObjectType = ''object''"
| "value_type_name ArrayType = ''array''"
| "value_type_name ImageType = ''image''"
| "value_type_name WindowType = ''window''"
| "value_type_name PathType = ''path''"

text \<open>A unit variant is its name, alone or as the only key of an object with the value null.\<close>

fun variant_name :: "json \<Rightarrow> string option" where
  "variant_name (JStr s) = Some s"
| "variant_name (JObj [(s, JNull)]) = Some s"
| "variant_name _ = None"

definition variant_decode :: "('a \<Rightarrow> string) \<Rightarrow> 'a list \<Rightarrow> 'a decoder" where
  "variant_decode name values v = Option.bind (variant_name v) (\<lambda>s. find (\<lambda>a. name a = s) values)"

definition port_kinds :: "port_kind list" where
  "port_kinds = [InputPort, OutputPort]"

definition value_types :: "value_type list" where
  "value_types =
     [AnyType, StringType, NumberType, BooleanType, ObjectType, ArrayType, ImageType, WindowType, PathType]"

definition port_json :: "port_descriptor \<Rightarrow> json" where
  "port_json p =
     JObj (om_of_list ([(''name'', JStr (p_name p)), (''display_name'', JStr (p_display_name p)),
       (''kind'', JStr (port_kind_name (p_kind p))), (''value_type'', JStr (value_type_name (p_value_type p))),
       (''required'', JBool (p_required p))] @
       some_member ''description'' JStr (p_description p) @ some_member ''default'' id (p_default p)))"

definition port_decode :: "port_descriptor decoder" where
  "port_decode v = do {
     m \<leftarrow> struct_fields [''name'', ''display_name'', ''kind'', ''value_type'', ''required'', ''description'', ''default''] v;
     name \<leftarrow> req_field as_str m ''name'';
     display \<leftarrow> req_field as_str m ''display_name'';
     kind \<leftarrow> req_field (variant_decode port_kind_name port_kinds) m ''kind'';
     ty \<leftarrow> req_field (variant_decode value_type_name value_types) m ''value_type'';
     required \<leftarrow> def_field False as_bool m ''required'';
     description \<leftarrow> opt_field as_str m ''description'';
     default \<leftarrow> opt_field Some m ''default'';
     Some \<lparr>p_name = name, p_display_name = display, p_kind = kind, p_value_type = ty, p_required = required,
           p_description = description, p_default = default\<rparr> }"

definition descriptor_json :: "node_descriptor \<Rightarrow> json" where
  "descriptor_json d =
     JObj (om_of_list ([(''node_type'', JStr (d_node_type d)), (''display_name'', JStr (d_display_name d)),
       (''category'', JStr (d_category d)), (''description'', JStr (d_description d)), (''version'', JStr (d_version d)),
       (''inputs'', JArr (map port_json (d_inputs d))), (''outputs'', JArr (map port_json (d_outputs d))),
       (''config_schema'', d_config_schema d), (''capabilities'', strings_json (d_capabilities d)),
       (''permissions'', strings_json (d_permissions d)), (''dangerous'', JBool (d_dangerous d)),
       (''allows_additional_config'', JBool (d_allows_additional_config d))] @
       some_member ''plugin_id'' JStr (d_plugin_id d)))"

definition descriptor_fields :: "string list" where
  "descriptor_fields =
     [''node_type'', ''display_name'', ''category'', ''description'', ''version'', ''inputs'', ''outputs'',
      ''config_schema'', ''capabilities'', ''permissions'', ''dangerous'', ''allows_additional_config'', ''plugin_id'']"

definition descriptor_decode :: "node_descriptor decoder" where
  "descriptor_decode v = do {
     m \<leftarrow> struct_fields descriptor_fields v;
     node_type \<leftarrow> req_field as_str m ''node_type'';
     display \<leftarrow> req_field as_str m ''display_name'';
     category \<leftarrow> req_field as_str m ''category'';
     description \<leftarrow> def_field [] as_str m ''description'';
     version \<leftarrow> def_field [] as_str m ''version'';
     inputs \<leftarrow> def_field [] (list_decoder port_decode) m ''inputs'';
     outputs \<leftarrow> def_field [] (list_decoder port_decode) m ''outputs'';
     schema \<leftarrow> def_field JNull Some m ''config_schema'';
     capabilities \<leftarrow> def_field [] (list_decoder as_str) m ''capabilities'';
     permissions \<leftarrow> def_field [] (list_decoder as_str) m ''permissions'';
     dangerous \<leftarrow> def_field False as_bool m ''dangerous'';
     additional \<leftarrow> def_field True as_bool m ''allows_additional_config'';
     plugin \<leftarrow> opt_field as_str m ''plugin_id'';
     Some \<lparr>d_node_type = node_type, d_display_name = display, d_category = category, d_description = description,
           d_version = version, d_inputs = inputs, d_outputs = outputs, d_config_schema = schema,
           d_capabilities = capabilities, d_permissions = permissions, d_dangerous = dangerous,
           d_allows_additional_config = additional, d_plugin_id = plugin\<rparr> }"

record describe_params =
  dp_node_types :: "string list"

record describe_result =
  dr_nodes :: "node_descriptor list"

definition describe_params_json :: "describe_params \<Rightarrow> json" where
  "describe_params_json p = JObj (om_of_list [(''node_types'', strings_json (dp_node_types p))])"

definition describe_params_decode :: "describe_params decoder" where
  "describe_params_decode v = do {
     m \<leftarrow> struct_fields [''node_types''] v;
     types \<leftarrow> def_field [] (list_decoder as_str) m ''node_types'';
     Some \<lparr>dp_node_types = types\<rparr> }"

definition describe_result_json :: "describe_result \<Rightarrow> json" where
  "describe_result_json r = JObj (om_of_list [(''nodes'', JArr (map descriptor_json (dr_nodes r)))])"

definition describe_result_decode :: "describe_result decoder" where
  "describe_result_decode v = do {
     m \<leftarrow> struct_fields [''nodes''] v;
     nodes \<leftarrow> def_field [] (list_decoder descriptor_decode) m ''nodes'';
     Some \<lparr>dr_nodes = nodes\<rparr> }"

definition port_ok :: "port_descriptor \<Rightarrow> bool" where
  "port_ok p \<longleftrightarrow> p_default p \<noteq> Some JNull"

definition descriptor_ok :: "node_descriptor \<Rightarrow> bool" where
  "descriptor_ok d \<longleftrightarrow> list_all port_ok (d_inputs d) \<and> list_all port_ok (d_outputs d)"

lemma variant_roundtrip [wire]:
  "variant_decode port_kind_name port_kinds (JStr (port_kind_name k)) = Some k"
  "variant_decode value_type_name value_types (JStr (value_type_name t)) = Some t"
  by (cases k; simp add: variant_decode_def port_kinds_def)
    (cases t; simp add: variant_decode_def value_types_def)

lemma port_roundtrip [wire]: "port_ok p \<Longrightarrow> port_decode (port_json p) = Some p"
  by (cases p) (auto simp: port_ok_def port_decode_def port_json_def field_defs wire split: option.splits)

lemma descriptor_roundtrip [wire]:
  assumes "descriptor_ok d"
  shows "descriptor_decode (descriptor_json d) = Some d"
proof -
  have "list_decoder port_decode (JArr (map port_json (d_inputs d))) = Some (d_inputs d)"
    "list_decoder port_decode (JArr (map port_json (d_outputs d))) = Some (d_outputs d)"
    using assms by (auto simp: descriptor_ok_def list_all_iff wire)
  then show ?thesis
    by (cases "d_plugin_id d") (simp_all add: descriptor_decode_def descriptor_json_def field_defs wire)
qed

lemma describe_params_roundtrip [wire]: "describe_params_decode (describe_params_json p) = Some p"
  by (simp add: describe_params_decode_def describe_params_json_def field_defs wire)

lemma describe_result_roundtrip [wire]:
  assumes "list_all descriptor_ok (dr_nodes r)"
  shows "describe_result_decode (describe_result_json r) = Some r"
proof -
  have "list_decoder descriptor_decode (JArr (map descriptor_json (dr_nodes r))) = Some (dr_nodes r)"
    using assms by (auto simp: list_all_iff wire)
  then show ?thesis by (simp add: describe_result_decode_def describe_result_json_def field_defs wire)
qed

section \<open>Execution\<close>

record artifact_payload =
  ap_meta :: artifact_meta
  ap_data_base64 :: string

record execute_params =
  ep_run_id :: string
  ep_node_id :: string
  ep_node_type :: string
  ep_config :: json
  ep_inputs :: jobject
  ep_variables :: jobject
  ep_artifacts :: "artifact_payload list"
  ep_timeout_ms :: "u64 option"

record execute_result =
  er_outputs :: jobject
  er_variables :: jobject
  er_artifacts :: "artifact_payload list"

record cancel_params =
  cp_run_id :: string
  cp_node_id :: "string option"

record progress_notification =
  pn_run_id :: string
  pn_node_id :: string
  pn_progress :: "f64 option"
  pn_message :: "string option"

record log_notification =
  ln_run_id :: string
  ln_node_id :: "string option"
  ln_level :: string
  ln_message :: string

definition artifact_meta_json :: "artifact_meta \<Rightarrow> json" where
  "artifact_meta_json a =
     JObj (om_of_list [(''id'', JStr (am_id a)), (''name'', JStr (am_name a)),
       (''content_type'', JStr (am_content_type a)), (''size'', usize_json (am_size a))])"

definition artifact_meta_decode :: "artifact_meta decoder" where
  "artifact_meta_decode v = do {
     m \<leftarrow> struct_fields [''id'', ''name'', ''content_type'', ''size''] v;
     i \<leftarrow> req_field as_str m ''id'';
     name \<leftarrow> req_field as_str m ''name'';
     ty \<leftarrow> req_field as_str m ''content_type'';
     size \<leftarrow> req_field as_u64 m ''size'';
     Some \<lparr>am_id = i, am_name = name, am_content_type = ty, am_size = size\<rparr> }"

definition artifact_payload_json :: "artifact_payload \<Rightarrow> json" where
  "artifact_payload_json a =
     JObj (om_of_list [(''meta'', artifact_meta_json (ap_meta a)), (''data_base64'', JStr (ap_data_base64 a))])"

definition artifact_payload_decode :: "artifact_payload decoder" where
  "artifact_payload_decode v = do {
     m \<leftarrow> struct_fields [''meta'', ''data_base64''] v;
     meta \<leftarrow> req_field artifact_meta_decode m ''meta'';
     data \<leftarrow> req_field as_str m ''data_base64'';
     Some \<lparr>ap_meta = meta, ap_data_base64 = data\<rparr> }"

definition execute_params_json :: "execute_params \<Rightarrow> json" where
  "execute_params_json p =
     JObj (om_of_list ([(''run_id'', JStr (ep_run_id p)), (''node_id'', JStr (ep_node_id p)),
       (''node_type'', JStr (ep_node_type p)), (''config'', ep_config p), (''inputs'', JObj (ep_inputs p)),
       (''variables'', JObj (ep_variables p)), (''artifacts'', JArr (map artifact_payload_json (ep_artifacts p)))] @
       some_member ''timeout_ms'' u64_json (ep_timeout_ms p)))"

definition execute_params_decode :: "execute_params decoder" where
  "execute_params_decode v = do {
     m \<leftarrow> struct_fields [''run_id'', ''node_id'', ''node_type'', ''config'', ''inputs'', ''variables'', ''artifacts'', ''timeout_ms''] v;
     run_id \<leftarrow> req_field as_str m ''run_id'';
     node_id \<leftarrow> req_field as_str m ''node_id'';
     node_type \<leftarrow> req_field as_str m ''node_type'';
     config \<leftarrow> def_field JNull Some m ''config'';
     inputs \<leftarrow> def_field om_empty as_object m ''inputs'';
     variables \<leftarrow> def_field om_empty as_object m ''variables'';
     artifacts \<leftarrow> def_field [] (list_decoder artifact_payload_decode) m ''artifacts'';
     timeout \<leftarrow> opt_field u64_decode m ''timeout_ms'';
     Some \<lparr>ep_run_id = run_id, ep_node_id = node_id, ep_node_type = node_type, ep_config = config, ep_inputs = inputs,
           ep_variables = variables, ep_artifacts = artifacts, ep_timeout_ms = timeout\<rparr> }"

definition execute_result_json :: "execute_result \<Rightarrow> json" where
  "execute_result_json r =
     JObj (om_of_list [(''outputs'', JObj (er_outputs r)), (''variables'', JObj (er_variables r)),
       (''artifacts'', JArr (map artifact_payload_json (er_artifacts r)))])"

definition execute_result_decode :: "execute_result decoder" where
  "execute_result_decode v = do {
     m \<leftarrow> struct_fields [''outputs'', ''variables'', ''artifacts''] v;
     outputs \<leftarrow> def_field om_empty as_object m ''outputs'';
     variables \<leftarrow> def_field om_empty as_object m ''variables'';
     artifacts \<leftarrow> def_field [] (list_decoder artifact_payload_decode) m ''artifacts'';
     Some \<lparr>er_outputs = outputs, er_variables = variables, er_artifacts = artifacts\<rparr> }"

definition cancel_params_json :: "cancel_params \<Rightarrow> json" where
  "cancel_params_json p =
     JObj (om_of_list ([(''run_id'', JStr (cp_run_id p))] @ some_member ''node_id'' JStr (cp_node_id p)))"

definition cancel_params_decode :: "cancel_params decoder" where
  "cancel_params_decode v = do {
     m \<leftarrow> struct_fields [''run_id'', ''node_id''] v;
     run_id \<leftarrow> req_field as_str m ''run_id'';
     node_id \<leftarrow> opt_field as_str m ''node_id'';
     Some \<lparr>cp_run_id = run_id, cp_node_id = node_id\<rparr> }"

definition progress_decode :: "progress_notification decoder" where
  "progress_decode v = do {
     m \<leftarrow> struct_fields [''run_id'', ''node_id'', ''progress'', ''message''] v;
     run_id \<leftarrow> req_field as_str m ''run_id'';
     node_id \<leftarrow> req_field as_str m ''node_id'';
     progress \<leftarrow> opt_field as_f64 m ''progress'';
     message \<leftarrow> opt_field as_str m ''message'';
     Some \<lparr>pn_run_id = run_id, pn_node_id = node_id, pn_progress = progress, pn_message = message\<rparr> }"

definition log_decode :: "log_notification decoder" where
  "log_decode v = do {
     m \<leftarrow> struct_fields [''run_id'', ''node_id'', ''level'', ''message''] v;
     run_id \<leftarrow> req_field as_str m ''run_id'';
     node_id \<leftarrow> opt_field as_str m ''node_id'';
     level \<leftarrow> req_field as_str m ''level'';
     message \<leftarrow> req_field as_str m ''message'';
     Some \<lparr>ln_run_id = run_id, ln_node_id = node_id, ln_level = level, ln_message = message\<rparr> }"

definition payload_ok :: "artifact_payload \<Rightarrow> bool" where
  "payload_ok a \<longleftrightarrow> am_size (ap_meta a) < 2 ^ 64"

lemma artifact_payload_roundtrip [wire]:
  "payload_ok a \<Longrightarrow> artifact_payload_decode (artifact_payload_json a) = Some a"
  by (simp add: payload_ok_def artifact_payload_decode_def artifact_payload_json_def artifact_meta_decode_def
      artifact_meta_json_def field_defs wire)

lemma payloads_roundtrip:
  "list_all payload_ok as \<Longrightarrow> list_decoder artifact_payload_decode (JArr (map artifact_payload_json as)) = Some as"
  by (auto simp: list_all_iff wire)

lemma execute_params_roundtrip [wire]:
  assumes "list_all payload_ok (ep_artifacts p)"
  shows "execute_params_decode (execute_params_json p) = Some p"
  using payloads_roundtrip [OF assms]
  by (cases "ep_timeout_ms p") (simp_all add: execute_params_decode_def execute_params_json_def field_defs wire)

lemma execute_result_roundtrip [wire]:
  assumes "list_all payload_ok (er_artifacts r)"
  shows "execute_result_decode (execute_result_json r) = Some r"
  using payloads_roundtrip [OF assms]
  by (simp add: execute_result_decode_def execute_result_json_def field_defs wire)

lemma cancel_params_roundtrip [wire]: "cancel_params_decode (cancel_params_json p) = Some p"
  by (cases "cp_node_id p") (simp_all add: cancel_params_decode_def cancel_params_json_def field_defs wire)

end
