(* ===== verification/Nodara_Extension.thy ===== *)
theory Nodara_Extension
  imports Nodara_Migration
begin

text \<open>
  Plugin manifests (\<open>manifest.rs\<close>), extension descriptors (\<open>extension.rs\<close> of the schema), the
  extension registry (\<open>extension.rs\<close> of the core) and discovery (\<open>discovery.rs\<close>). The file system is
  the record \<open>file_system\<close>, a parameter: tests on paths, the names in a directory, and what
  reading and parsing the manifest of a directory gives.
\<close>

section \<open>Manifests\<close>

datatype extension_kind =
    BuiltinExtension | InProcessExtension | PluginExtension | UiExtension | PolicyExtension
  | IntegrationExtension | OtherExtension

record plugin_feature =
  pf_id :: string
  pf_name :: string
  pf_kind :: extension_kind
  pf_description :: "string option"
  pf_capabilities :: "string list"
  pf_permissions :: "string list"
  pf_node_types :: "string list"

record plugin_manifest =
  pm_id :: string
  pm_name :: string
  pm_version :: string
  pm_protocol_version :: string
  pm_executable :: string
  pm_args :: "string list"
  pm_capabilities :: "string list"
  pm_permissions :: "string list"
  pm_node_types :: "string list"
  pm_features :: "plugin_feature list"
  pm_description :: "string option"
  pm_author :: "string option"
  pm_homepage :: "string option"
  pm_metadata :: jobject

definition require_text :: "string \<Rightarrow> string \<Rightarrow> string list" where
  "require_text field s = (if trim s = [] then [''`'' @ field @ ''` must not be empty''] else [])"

text \<open>The loop over the features, with the ids inserted into \<open>feature_ids\<close> so far.\<close>

fun check_features :: "string list \<Rightarrow> plugin_feature list \<Rightarrow> string list" where
  "check_features seen [] = []"
| "check_features seen (f # fs) =
     (let (errors, seen') =
        (if trim (pf_id f) = [] then ([''feature `id` must not be empty''], seen)
         else if pf_id f \<in> set seen then ([''feature id `'' @ pf_id f @ ''` is duplicated''], seen)
         else ([], pf_id f # seen))
      in errors @
         (if trim (pf_name f) = [] then [''feature `'' @ pf_id f @ ''` name must not be empty''] else []) @
         check_features seen' fs)"

definition manifest_errors :: "plugin_manifest \<Rightarrow> string list" where
  "manifest_errors m =
     require_text ''id'' (pm_id m) @ require_text ''name'' (pm_name m) @
     require_text ''version'' (pm_version m) @ require_text ''executable'' (pm_executable m) @
     (if major_of (pm_protocol_version m) \<noteq> major_of protocol_version
      then [''`protocol_version` '' @ pm_protocol_version m @ '' is not compatible with runtime protocol '' @ protocol_version]
      else []) @
     (if pm_node_types m = [] \<and> pm_capabilities m = [] \<and> pm_features m = []
      then [''plugin must declare at least one node type, capability or feature''] else []) @
     check_features [] (pm_features m)"

definition manifest_validate :: "plugin_manifest \<Rightarrow> (string list, unit) result" where
  "manifest_validate m = (if manifest_errors m = [] then Inr () else Inl (manifest_errors m))"

definition requires_permission :: "plugin_manifest \<Rightarrow> string \<Rightarrow> bool" where
  "requires_permission m permission = list_ex (\<lambda>p. p = permission) (pm_permissions m)"

text \<open>Specification: which manifests are accepted.\<close>

definition manifest_valid :: "plugin_manifest \<Rightarrow> bool" where
  "manifest_valid m \<longleftrightarrow>
     trim (pm_id m) \<noteq> [] \<and> trim (pm_name m) \<noteq> [] \<and> trim (pm_version m) \<noteq> [] \<and> trim (pm_executable m) \<noteq> [] \<and>
     major_of (pm_protocol_version m) = major_of protocol_version \<and>
     \<not> (pm_node_types m = [] \<and> pm_capabilities m = [] \<and> pm_features m = []) \<and>
     list_all (\<lambda>f. trim (pf_id f) \<noteq> [] \<and> trim (pf_name f) \<noteq> []) (pm_features m) \<and>
     distinct (map pf_id (pm_features m))"

lemma check_features_clean:
  "check_features seen fs = [] \<longleftrightarrow>
     list_all (\<lambda>f. trim (pf_id f) \<noteq> [] \<and> trim (pf_name f) \<noteq> []) fs \<and>
     distinct (map pf_id fs) \<and> set (map pf_id fs) \<inter> set seen = {}"
  by (induction seen fs rule: check_features.induct) (auto simp: Let_def)

lemma manifest_validate_iff: "is_ok (manifest_validate m) \<longleftrightarrow> manifest_valid m"
  by (auto simp: manifest_validate_def manifest_errors_def manifest_valid_def require_text_def
      check_features_clean)

section \<open>The file system\<close>

record file_system =
  fs_is_absolute :: "string \<Rightarrow> bool"
  fs_join :: "string \<Rightarrow> string \<Rightarrow> string"
  fs_exists :: "string \<Rightarrow> bool"
  fs_is_dir :: "string \<Rightarrow> bool"
  fs_is_file :: "string \<Rightarrow> bool"
  fs_read_dir :: "string \<Rightarrow> string list option"
  fs_read_manifest :: "string \<Rightarrow> (schema_error, plugin_manifest) result"
  fs_binary_dir :: "string option"

definition manifest_file :: string where
  "manifest_file = ''manifest.json''"

definition manifest_from_dir :: "file_system \<Rightarrow> string \<Rightarrow> (schema_error, plugin_manifest) result" where
  "manifest_from_dir fs dir =
     bind_result (fs_read_manifest fs (fs_join fs dir manifest_file)) (\<lambda>m.
       case manifest_validate m of
         Inr _ \<Rightarrow> Inr m
       | Inl errors \<Rightarrow> Inl (InvalidManifest (join_with ''; '' errors)))"

definition executable_path :: "file_system \<Rightarrow> plugin_manifest \<Rightarrow> string \<Rightarrow> string" where
  "executable_path fs m dir =
     (if fs_is_absolute fs (pm_executable m) then pm_executable m else fs_join fs dir (pm_executable m))"

text \<open>Where the host looks for the program of a plugin (\<open>client.rs\<close>).\<close>

definition resolve_executable :: "file_system \<Rightarrow> plugin_manifest \<Rightarrow> string \<Rightarrow> string" where
  "resolve_executable fs m dir =
     (let installed = executable_path fs m dir; name = pm_executable m
      in if fs_exists fs installed then installed
         else (case fs_binary_dir fs of
                 None \<Rightarrow> installed
               | Some binary_dir \<Rightarrow>
                   (let sibling = (if fs_is_absolute fs name then name else fs_join fs binary_dir name);
                        staged = fs_join fs (fs_join fs (fs_join fs binary_dir ''plugins'') (pm_id m)) name
                    in if fs_exists fs sibling then sibling
                       else if fs_exists fs staged then staged
                       else installed)))"

lemma resolve_executable_cases:
  "fs_exists fs (resolve_executable fs m dir) \<or> resolve_executable fs m dir = executable_path fs m dir"
  by (auto simp: resolve_executable_def Let_def split: option.splits)

section \<open>Discovery\<close>

record discovery_outcome =
  do_plugins :: "(plugin_manifest \<times> string) list"
  do_errors :: "(string \<times> string) list"

definition discovery_record :: "file_system \<Rightarrow> string \<Rightarrow> discovery_outcome \<Rightarrow> discovery_outcome" where
  "discovery_record fs dir out =
     (case manifest_from_dir fs dir of
        Inr m \<Rightarrow> out\<lparr>do_plugins := do_plugins out @ [(m, dir)]\<rparr>
      | Inl e \<Rightarrow> out\<lparr>do_errors := do_errors out @ [(dir, schema_error_text e)]\<rparr>)"

definition has_manifest :: "file_system \<Rightarrow> string \<Rightarrow> bool" where
  "has_manifest fs dir = fs_is_file fs (fs_join fs dir manifest_file)"

text \<open>The children of one directory compare by their names.\<close>

definition plugin_children :: "file_system \<Rightarrow> string \<Rightarrow> string list \<Rightarrow> string list" where
  "plugin_children fs base names =
     filter (\<lambda>p. fs_is_dir fs p \<and> has_manifest fs p) (map (fs_join fs base) (sort names))"

definition scan_root :: "file_system \<Rightarrow> string \<Rightarrow> discovery_outcome \<Rightarrow> discovery_outcome" where
  "scan_root fs base out =
     (if \<not> fs_is_dir fs base then out
      else if has_manifest fs base then discovery_record fs base out
      else (case fs_read_dir fs base of
              None \<Rightarrow> out
            | Some names \<Rightarrow> fold (discovery_record fs) (plugin_children fs base names) out))"

definition discover_plugins :: "file_system \<Rightarrow> string list \<Rightarrow> discovery_outcome" where
  "discover_plugins fs roots = fold (scan_root fs) roots \<lparr>do_plugins = [], do_errors = []\<rparr>"

definition inspected :: "discovery_outcome \<Rightarrow> nat" where
  "inspected out = length (do_plugins out) + length (do_errors out)"

text \<open>Whatever is on disk, a discovered plugin has an accepted manifest.\<close>

definition outcome_ok :: "discovery_outcome \<Rightarrow> bool" where
  "outcome_ok out \<longleftrightarrow> list_all (\<lambda>(m, dir). manifest_valid m) (do_plugins out)"

lemma manifest_from_dir_valid:
  assumes "manifest_from_dir fs dir = Inr m"
  shows "manifest_valid m"
proof -
  obtain a where "(case manifest_validate a of Inr _ \<Rightarrow> Inr a
      | Inl errors \<Rightarrow> Inl (InvalidManifest (join_with ''; '' errors))) = Inr m"
    using assms by (auto simp: manifest_from_dir_def)
  then have "is_ok (manifest_validate m)" by (cases "manifest_validate a") auto
  then show ?thesis by (simp add: manifest_validate_iff)
qed

lemma discovery_record_ok: "outcome_ok out \<Longrightarrow> outcome_ok (discovery_record fs dir out)"
  by (auto simp: outcome_ok_def discovery_record_def dest: manifest_from_dir_valid split: sum.splits)

lemma scan_root_ok: "outcome_ok out \<Longrightarrow> outcome_ok (scan_root fs base out)"
proof -
  have "outcome_ok out \<Longrightarrow> outcome_ok (fold (discovery_record fs) dirs out)" for dirs out
    by (induction dirs arbitrary: out) (auto simp: discovery_record_ok)
  then show "outcome_ok out \<Longrightarrow> outcome_ok (scan_root fs base out)"
    by (auto simp: scan_root_def discovery_record_ok split: option.splits)
qed

lemma discovered_manifests_valid: "outcome_ok (discover_plugins fs roots)"
proof -
  have "outcome_ok out \<Longrightarrow> outcome_ok (fold (scan_root fs) roots out)" for out
    by (induction roots arbitrary: out) (auto simp: scan_root_ok)
  then show ?thesis by (simp add: discover_plugins_def outcome_ok_def)
qed

section \<open>The extension registry\<close>

record extension_descriptor =
  xd_id :: string
  xd_name :: string
  xd_version :: string
  xd_kind :: extension_kind
  xd_source :: string
  xd_description :: "string option"
  xd_capabilities :: "string list"
  xd_permissions :: "string list"
  xd_node_types :: "string list"
  xd_loaded :: bool

definition package_version :: string where
  "package_version = ''2.0.0''"

definition builtin_extension :: "string list \<Rightarrow> extension_descriptor" where
  "builtin_extension node_types =
     \<lparr>xd_id = ''nodara.builtins'', xd_name = ''Nodara built-ins'', xd_version = package_version,
      xd_kind = BuiltinExtension, xd_source = ''runtime'',
      xd_description = Some ''Core workflow control, logging, calculation and variables.'',
      xd_capabilities = [], xd_permissions = [], xd_node_types = node_types, xd_loaded = True\<rparr>"

definition in_process_extension :: "string list \<Rightarrow> extension_descriptor" where
  "in_process_extension node_types =
     \<lparr>xd_id = ''nodara.in-process'', xd_name = ''In-process extensions'', xd_version = package_version,
      xd_kind = InProcessExtension, xd_source = ''host'',
      xd_description = Some ''Capabilities registered directly by an embedding host.'',
      xd_capabilities = [], xd_permissions = [], xd_node_types = node_types, xd_loaded = True\<rparr>"

type_synonym extension_registry = "extension_descriptor omap"

definition extension_register :: "extension_descriptor \<Rightarrow> extension_registry \<Rightarrow> extension_registry" where
  "extension_register d r = om_insert (xd_id d) d r"

definition extension_get :: "extension_registry \<Rightarrow> string \<Rightarrow> extension_descriptor option" where
  "extension_get r i = om_get r i"

definition extension_list :: "extension_registry \<Rightarrow> extension_descriptor list" where
  "extension_list r = map snd r"

definition extensions_ok :: "extension_registry \<Rightarrow> bool" where
  "extensions_ok r \<longleftrightarrow> om_ok r \<and> map xd_id (map snd r) = map fst r"

lemma extensions_register: "extensions_ok r \<Longrightarrow> extensions_ok (extension_register d r)"
proof -
  have "map xd_id (map snd r) = map fst r \<Longrightarrow>
      map xd_id (map snd (om_insert (xd_id d) d r)) = map fst (om_insert (xd_id d) d r)"
    by (induction "xd_id d" d r rule: om_insert.induct) auto
  then show "extensions_ok r \<Longrightarrow> extensions_ok (extension_register d r)"
    by (auto simp: extensions_ok_def extension_register_def)
qed

lemma extension_list_sorted: "extensions_ok r \<Longrightarrow> sorted_wrt (<) (map xd_id (extension_list r))"
  by (simp only: extensions_ok_def extension_list_def om_ok_def)

end
