(* ===== verification/Nodara_Plugin.thy ===== *)
theory Nodara_Plugin
  imports Nodara_Protocol Nodara_Extension Nodara_Registry
begin

text \<open>
  Both sides of the plugin protocol: the server that a plugin runs (\<open>server.rs\<close>), the transport that
  calls a server in the same process, the client (\<open>client.rs\<close>) and the executor that stands for a
  remote node (\<open>executor.rs\<close>). The state of a transport is the type variable of its record; a call
  that never returns is \<open>None\<close>. The server keeps the control handles it created in \<open>sv_controls\<close>, and
  \<open>sv_runs\<close> maps a run to the position of its handle, so that two handles of one run stay apart.
  What other threads do to the handle of a call is the call's list of operator batches. The texts of
  decoding errors and the \<open>base64\<close> library are the record \<open>plugin_externs\<close>.
\<close>

section \<open>Library code\<close>

record plugin_externs =
  px_serde_error :: "string \<Rightarrow> json \<Rightarrow> string"
  px_encode64 :: "8 word list \<Rightarrow> string"
  px_decode64 :: "string \<Rightarrow> (string, 8 word list) result"

text \<open>\<open>PartialEq\<close> of \<open>Value\<close>: floats compare as floats, so the two zeros are equal.\<close>

fun num_equal :: "jnum \<Rightarrow> jnum \<Rightarrow> bool" where
  "num_equal (PosInt a) (PosInt b) = (a = b)"
| "num_equal (NegInt a) (NegInt b) = (a = b)"
| "num_equal (Float x) (Float y) = feq x y"
| "num_equal _ _ = False"

function json_equal :: "json \<Rightarrow> json \<Rightarrow> bool"
  and arrays_equal :: "json list \<Rightarrow> json list \<Rightarrow> bool"
  and objects_equal :: "(string \<times> json) list \<Rightarrow> (string \<times> json) list \<Rightarrow> bool" where
  "json_equal v w =
     (case (v, w) of
        (JNull, JNull) \<Rightarrow> True
      | (JBool a, JBool b) \<Rightarrow> a = b
      | (JNum a, JNum b) \<Rightarrow> num_equal a b
      | (JStr s, JStr t) \<Rightarrow> s = t
      | (JArr xs, JArr ys) \<Rightarrow> arrays_equal xs ys
      | (JObj m, JObj n) \<Rightarrow> objects_equal m n
      | _ \<Rightarrow> False)"
| "arrays_equal xs ys =
     (case (xs, ys) of
        ([], []) \<Rightarrow> True
      | (x # xs', y # ys') \<Rightarrow> json_equal x y \<and> arrays_equal xs' ys'
      | _ \<Rightarrow> False)"
| "objects_equal m n =
     (case (m, n) of
        ([], []) \<Rightarrow> True
      | ((k, v) # m', (l, w) # n') \<Rightarrow> k = l \<and> json_equal v w \<and> objects_equal m' n'
      | _ \<Rightarrow> False)"
  by pat_completeness auto

termination json_equal
  by (relation "measure (\<lambda>x. case x of Inl (v, w) \<Rightarrow> size v
       | Inr (Inl (xs, ys)) \<Rightarrow> size_list size xs
       | Inr (Inr (m, n)) \<Rightarrow> size_list (size_prod (\<lambda>_. 0) size) m)") auto

definition option_equal :: "json option \<Rightarrow> json \<Rightarrow> bool" where
  "option_equal v w = (case v of None \<Rightarrow> False | Some u \<Rightarrow> json_equal u w)"

section \<open>The server\<close>

record server_info =
  si_id :: string
  si_name :: string
  si_version :: string
  si_capabilities :: "string list"

definition new_server_info :: "string \<Rightarrow> string \<Rightarrow> string \<Rightarrow> server_info" where
  "new_server_info i name version = \<lparr>si_id = i, si_name = name, si_version = version, si_capabilities = []\<rparr>"

definition with_capabilities :: "string list \<Rightarrow> server_info \<Rightarrow> server_info" where
  "with_capabilities cs s = s\<lparr>si_capabilities := cs\<rparr>"

definition plugin_info_of :: "server_info \<Rightarrow> plugin_info" where
  "plugin_info_of s = \<lparr>pi_id = si_id s, pi_name = si_name s, pi_version = si_version s\<rparr>"

record 'w plugin_server =
  sv_registry :: "'w registry"
  sv_info :: plugin_info
  sv_capabilities :: "string list"
  sv_runs :: "nat omap"
  sv_controls :: "run_control list"
  sv_shutting_down :: bool
  sv_notified :: "rpc_notification list"

definition new_server :: "'w registry \<Rightarrow> server_info \<Rightarrow> 'w plugin_server" where
  "new_server reg s =
     \<lparr>sv_registry = reg, sv_info = plugin_info_of s, sv_capabilities = si_capabilities s, sv_runs = om_empty,
      sv_controls = [], sv_shutting_down = False, sv_notified = []\<rparr>"

section \<open>The table of runs\<close>

definition cancel_control :: "run_control \<Rightarrow> run_control" where
  "cancel_control c = (let c' = lock_control c in c'\<lparr>rc_flags := cancel_flags (rc_flags c')\<rparr>)"

definition track_run :: "string \<Rightarrow> run_control \<Rightarrow> 'w plugin_server \<Rightarrow> nat \<times> 'w plugin_server" where
  "track_run run_id c sv =
     (let a = length (sv_controls sv)
      in (a, sv\<lparr>sv_controls := sv_controls sv @ [c], sv_runs := om_insert run_id a (sv_runs sv)\<rparr>))"

definition untrack_run :: "string \<Rightarrow> 'w plugin_server \<Rightarrow> 'w plugin_server" where
  "untrack_run run_id sv = sv\<lparr>sv_runs := om_remove run_id (sv_runs sv)\<rparr>"

definition cancel_tracked :: "string \<Rightarrow> 'w plugin_server \<Rightarrow> 'w plugin_server" where
  "cancel_tracked run_id sv =
     (case om_get (sv_runs sv) run_id of
        None \<Rightarrow> sv
      | Some a \<Rightarrow> sv\<lparr>sv_controls := (sv_controls sv)[a := cancel_control (sv_controls sv ! a)]\<rparr>)"

section \<open>Notifications of a plugin\<close>

definition opt_json :: "('a \<Rightarrow> json) \<Rightarrow> 'a option \<Rightarrow> json" where
  "opt_json enc v = (case v of None \<Rightarrow> JNull | Some a \<Rightarrow> enc a)"

definition f64_json :: "f64 \<Rightarrow> json" where
  "f64_json f = opt_json JNum (num_of_f64 f)"

fun event_notification :: "string \<Rightarrow> execution_event \<Rightarrow> rpc_notification option" where
  "event_notification run_id (NodeProgress node_id progress message) =
     Some (new_notification method_progress (JObj (om_of_list
       [(''run_id'', JStr run_id), (''node_id'', JStr node_id),
        (''progress'', opt_json f64_json progress), (''message'', opt_json JStr message)])))"
| "event_notification run_id (Log level message node_id) =
     Some (new_notification method_log (JObj (om_of_list
       [(''run_id'', JStr run_id), (''node_id'', opt_json JStr node_id),
        (''level'', JStr (to_ascii_lowercase (log_level_debug level))), (''message'', JStr message)])))"
| "event_notification run_id _ = None"

section \<open>Errors across the boundary\<close>

definition node_error_to_object :: "node_error \<Rightarrow> string \<Rightarrow> error_object" where
  "node_error_to_object e node_type =
     with_data (JObj (om_of_list [(''node_type'', JStr node_type)]))
       (new_error_object
         (case e of
            InvalidConfig _ \<Rightarrow> code_app_invalid_config
          | PermissionDenied _ _ \<Rightarrow> code_app_permission_denied
          | CancelledError \<Rightarrow> code_app_cancelled
          | TimeoutError \<Rightarrow> code_app_timeout
          | UnsupportedOperation _ \<Rightarrow> code_app_unsupported
          | node_error.IoError _ \<Rightarrow> code_app_io
          | ExecutionFailed _ \<Rightarrow> code_app_execution)
         (node_error_text e))"

fun map_plugin_error :: "plugin_error \<Rightarrow> string \<Rightarrow> string \<Rightarrow> node_error" where
  "map_plugin_error (RemoteError code message data) node_type plugin_id =
     (if code = code_app_invalid_config then InvalidConfig message
      else if code = code_app_permission_denied then denied node_type message
      else if code = code_app_cancelled then CancelledError
      else if code = code_app_timeout then TimeoutError
      else if code = code_app_unsupported then UnsupportedOperation message
      else if code = code_app_io then node_error.IoError message
      else ExecutionFailed message)"
| "map_plugin_error (RequestTimeout method ms) node_type plugin_id = TimeoutError"
| "map_plugin_error Disconnected node_type plugin_id =
     ExecutionFailed (''plugin `'' @ plugin_id @ ''` disconnected'')"
| "map_plugin_error (LaunchError i e) node_type plugin_id =
     ExecutionFailed (''plugin `'' @ i @ ''` could not be launched: '' @ e)"
| "map_plugin_error other node_type plugin_id = ExecutionFailed (plugin_error_text other)"

section \<open>Artefacts across the boundary\<close>

definition store_payloads :: "plugin_externs \<Rightarrow> artifact_store \<Rightarrow> artifact_payload list" where
  "store_payloads px store =
     List.map_filter (\<lambda>meta. map_option (\<lambda>bytes. \<lparr>ap_meta = meta, ap_data_base64 = px_encode64 px bytes\<rparr>)
         (artifact_get store (am_id meta)))
       (artifact_list store)"

text \<open>The loop that decodes and inserts; the store keeps what was inserted before an error.\<close>

fun insert_payloads :: "plugin_externs \<Rightarrow> artifact_payload list \<Rightarrow> artifact_store \<Rightarrow> (string, unit) result \<times> artifact_store" where
  "insert_payloads px [] store = (Inr (), store)"
| "insert_payloads px (a # as) store =
     (case px_decode64 px (ap_data_base64 a) of
        Inl e \<Rightarrow> (Inl e, store)
      | Inr bytes \<Rightarrow> insert_payloads px as (artifact_insert (ap_meta a) bytes store))"

section \<open>The methods of the server\<close>

definition invalid_params :: "plugin_externs \<Rightarrow> string \<Rightarrow> json \<Rightarrow> error_object" where
  "invalid_params px ty params = new_error_object code_invalid_params (px_serde_error px ty params)"

definition server_initialize :: "plugin_externs \<Rightarrow> json \<Rightarrow> 'w plugin_server \<Rightarrow> (error_object, json) result" where
  "server_initialize px params sv =
     (case initialize_params_decode params of
        None \<Rightarrow> Inl (invalid_params px ''InitializeParams'' params)
      | Some p \<Rightarrow>
          if major_of (ip_protocol_version p) \<noteq> major_of protocol_version
          then Inl (new_error_object code_invalid_params
            (''runtime speaks protocol '' @ ip_protocol_version p @ '' but this plugin requires '' @ protocol_version))
          else Inr (initialize_result_json \<lparr>ir_protocol_version = protocol_version, ir_plugin = sv_info sv,
            ir_capabilities = (if sv_capabilities sv = [] then registry_node_types (sv_registry sv) else sv_capabilities sv)\<rparr>))"

definition described_nodes :: "string list \<Rightarrow> 'w registry \<Rightarrow> node_descriptor list" where
  "described_nodes types reg =
     (if types = [] then registry_descriptors reg else List.map_filter (registry_descriptor reg) types)"

definition server_describe :: "plugin_externs \<Rightarrow> json \<Rightarrow> 'w plugin_server \<Rightarrow> (error_object, json) result" where
  "server_describe px params sv =
     (let answer = (\<lambda>p. Inr (describe_result_json \<lparr>dr_nodes = described_nodes (dp_node_types p) (sv_registry sv)\<rparr>))
      in if params = JNull then answer \<lparr>dp_node_types = []\<rparr>
         else (case describe_params_decode params of
                 None \<Rightarrow> Inl (invalid_params px ''DescribeParams'' params)
               | Some p \<Rightarrow> answer p))"

definition allow_all_policy :: capability_policy where
  "allow_all_policy request = Allow"

definition auto_approve :: "'w approval_handler" where
  "auto_approve request w = Some (True, w)"

definition server_context :: "execute_params \<Rightarrow> run_control \<Rightarrow> artifact_store \<Rightarrow> 'w \<Rightarrow> 'w exec_context" where
  "server_context p control store w =
     set_node (Some (ep_node_id p))
       (new_context (ep_run_id p) (ep_run_id p) (ep_variables p) [] allow_all_policy auto_approve
         \<lparr>sh_control = control, sh_bus = new_bus (ep_run_id p), sh_audit = [], sh_artifacts = store, sh_world = w\<rparr>)"

definition server_input :: "execute_params \<Rightarrow> node_input" where
  "server_input p =
     \<lparr>ni_node_id = ep_node_id p, ni_node_type = ep_node_type p, ni_config = ep_config p,
      ni_resolved_config = ep_config p, ni_inputs = ep_inputs p, ni_timeout_ms = ep_timeout_ms p\<rparr>"

definition changed_variables :: "jobject \<Rightarrow> jobject \<Rightarrow> jobject" where
  "changed_variables before after = filter (\<lambda>(name, v). \<not> option_equal (om_get before name) v) after"

definition execute_result_of :: "plugin_externs \<Rightarrow> execute_params \<Rightarrow> node_output \<Rightarrow> 'w exec_context \<Rightarrow> execute_result" where
  "execute_result_of px p out c =
     \<lparr>er_outputs = no_outputs out,
      er_variables = om_extend (changed_variables (ep_variables p) (cx_variables c)) (no_variables out),
      er_artifacts = store_payloads px (sh_artifacts (cx_shared c))\<rparr>"

definition finish_execution :: "string \<Rightarrow> nat \<Rightarrow> 'w exec_context \<Rightarrow> 'w plugin_server \<Rightarrow> 'w plugin_server" where
  "finish_execution run_id a c sv =
     untrack_run run_id (sv\<lparr>sv_controls := (sv_controls sv)[a := cx_control c],
       sv_notified := sv_notified sv @ List.map_filter (event_notification run_id) (cx_events c)\<rparr>)"

definition server_execute ::
    "plugin_externs \<Rightarrow> control_op list list \<Rightarrow> json \<Rightarrow> 'w plugin_server \<Rightarrow> 'w
       \<Rightarrow> ((error_object, json) result \<times> 'w plugin_server \<times> 'w) option" where
  "server_execute px inbox params sv w =
     (case execute_params_decode params of
        None \<Rightarrow> Some (Inl (invalid_params px ''ExecuteParams'' params), sv, w)
      | Some p \<Rightarrow>
          (case registry_get (sv_registry sv) (ep_node_type p) of
             None \<Rightarrow> Some (Inl (new_error_object code_app_unsupported
                             (''plugin does not provide `'' @ ep_node_type p @ ''`'')), sv, w)
           | Some ex \<Rightarrow>
               (let control = new_control inbox; (a, sv1) = track_run (ep_run_id p) control sv
                in case insert_payloads px (ep_artifacts p) om_empty of
                     (Inl e, _) \<Rightarrow> Some (Inl (new_error_object code_invalid_params e), sv1, w)
                   | (Inr _, store) \<Rightarrow>
                       (case ex_execute ex (server_input p) (server_context p control store w) of
                          None \<Rightarrow> None
                        | Some (outcome, c) \<Rightarrow>
                            Some (case outcome of
                                    Inr out \<Rightarrow> Inr (execute_result_json (execute_result_of px p out c))
                                  | Inl e \<Rightarrow> Inl (node_error_to_object e (ep_node_type p)),
                                  finish_execution (ep_run_id p) a c sv1, sh_world (cx_shared c))))))"

definition server_cancel :: "plugin_externs \<Rightarrow> json \<Rightarrow> 'w plugin_server \<Rightarrow> (error_object, json) result \<times> 'w plugin_server" where
  "server_cancel px params sv =
     (case cancel_params_decode params of
        None \<Rightarrow> (Inl (invalid_params px ''CancelParams'' params), sv)
      | Some p \<Rightarrow> (Inr (JObj []), cancel_tracked (cp_run_id p) sv))"

definition server_dispatch ::
    "plugin_externs \<Rightarrow> control_op list list \<Rightarrow> string \<Rightarrow> json \<Rightarrow> 'w plugin_server \<Rightarrow> 'w
       \<Rightarrow> ((error_object, json) result \<times> 'w plugin_server \<times> 'w) option" where
  "server_dispatch px inbox method params sv w =
     (if method = method_initialize then Some (server_initialize px params sv, sv, w)
      else if method = method_describe then Some (server_describe px params sv, sv, w)
      else if method = method_execute then server_execute px inbox params sv w
      else if method = method_cancel then (let (r, sv') = server_cancel px params sv in Some (r, sv', w))
      else if method = method_shutdown then Some (Inr (JObj []), sv\<lparr>sv_shutting_down := True\<rparr>, w)
      else if method = method_health
      then Some (Inr (JObj (om_of_list [(''status'', JStr ''ok''), (''plugin'', JStr (pi_id (sv_info sv)))])), sv, w)
      else Some (Inl (new_error_object code_method_not_found (''unknown method `'' @ method @ ''`'')), sv, w))"

definition server_handle ::
    "plugin_externs \<Rightarrow> control_op list list \<Rightarrow> rpc_request \<Rightarrow> 'w plugin_server \<Rightarrow> 'w
       \<Rightarrow> (rpc_response \<times> 'w plugin_server \<times> 'w) option" where
  "server_handle px inbox request sv w =
     map_option (\<lambda>(r, sv', w').
         (case r of Inr v \<Rightarrow> response_success (rq_id request) v | Inl e \<Rightarrow> response_failure (Some (rq_id request)) e, sv', w'))
       (server_dispatch px inbox (rq_method request) (rq_params request) sv w)"

definition server_notification :: "rpc_notification \<Rightarrow> 'w plugin_server \<Rightarrow> 'w plugin_server" where
  "server_notification n sv =
     (if nt_method n = method_cancel
      then (case cancel_params_decode (nt_params n) of
              None \<Rightarrow> sv
            | Some p \<Rightarrow> cancel_tracked (cp_run_id p) sv)
      else sv)"

end
