(* ===== verification/Nodara_Remote.thy ===== *)
theory Nodara_Remote
  imports Nodara_Plugin
begin

text \<open>
  The runtime side of a plugin: transports (\<open>transport.rs\<close>, and the in-process one of \<open>server.rs\<close>),
  the client (\<open>client.rs\<close>) and the executor of a remote node (\<open>executor.rs\<close>). A transport acts on a
  state; for an executor that state is the world of the runtime.
\<close>

section \<open>Transports\<close>

record 's transport =
  tp_request :: "string \<Rightarrow> json \<Rightarrow> u64 \<Rightarrow> 's \<Rightarrow> ((plugin_error, json) result \<times> 's) option"
  tp_notify :: "string \<Rightarrow> json \<Rightarrow> 's \<Rightarrow> (plugin_error, unit) result \<times> 's"
  tp_is_alive :: "'s \<Rightarrow> bool"
  tp_close :: "'s \<Rightarrow> 's"

text \<open>What a response means to the waiting request.\<close>

definition response_outcome :: "rpc_response \<Rightarrow> (plugin_error, json) result" where
  "response_outcome r =
     (case rp_error r of
        Some e \<Rightarrow> Inl (RemoteError (eo_code e) (eo_message e) (eo_data e))
      | None \<Rightarrow> Inr (unwrap_or JNull (rp_result r)))"

text \<open>The in-process transport. \<open>il_inbox\<close> gives, by request id, what other threads do to the
  control handle of that request.\<close>

record 'w in_process =
  il_server :: "'w plugin_server"
  il_next_id :: u64
  il_inbox :: "u64 \<Rightarrow> control_op list list"
  il_world :: 'w

definition in_process_request ::
    "plugin_externs \<Rightarrow> string \<Rightarrow> json \<Rightarrow> u64 \<Rightarrow> 'w in_process \<Rightarrow> ((plugin_error, json) result \<times> 'w in_process) option" where
  "in_process_request px method params timeout st =
     (let i = il_next_id st + 1 in
      map_option (\<lambda>(response, sv, w).
          (response_outcome response, st\<lparr>il_server := sv, il_next_id := i, il_world := w\<rparr>))
        (server_handle px (il_inbox st i) (new_request (u64_json i) method params) (il_server st) (il_world st)))"

definition in_process_notify :: "string \<Rightarrow> json \<Rightarrow> 'w in_process \<Rightarrow> (plugin_error, unit) result \<times> 'w in_process" where
  "in_process_notify method params st =
     (Inr (), st\<lparr>il_server := server_notification (new_notification method params) (il_server st)\<rparr>)"

definition in_process_transport :: "plugin_externs \<Rightarrow> 'w in_process transport" where
  "in_process_transport px =
     \<lparr>tp_request = in_process_request px, tp_notify = in_process_notify, tp_is_alive = (\<lambda>_. True), tp_close = id\<rparr>"

section \<open>The stdio transport\<close>

text \<open>
  The state shared by callers and the reader thread: the ids that wait for a reply, the replies that
  were delivered to a caller's channel, the frames written. A caller's \<open>request\<close> is cut at its two
  critical sections, sending (\<open>stdio_send\<close>) and collecting the answer (\<open>stdio_collect\<close>); in between
  the reader handles frames (\<open>stdio_frame\<close>) until the end of the stream (\<open>stdio_eof\<close>). A write to the
  pipe can fail; the failure is an argument.
\<close>

record stdio =
  sd_alive :: bool
  sd_next_id :: u64
  sd_pending :: "u64 list"
  sd_replies :: "(u64 \<times> rpc_response) list"
  sd_written :: "json list"

definition stdio_write :: "plugin_error option \<Rightarrow> json \<Rightarrow> stdio \<Rightarrow> (plugin_error, unit) result \<times> stdio" where
  "stdio_write fault frame s =
     (case fault of
        Some e \<Rightarrow> (Inl e, s)
      | None \<Rightarrow> (Inr (), s\<lparr>sd_written := sd_written s @ [frame]\<rparr>))"

definition stdio_send ::
    "plugin_error option \<Rightarrow> string \<Rightarrow> json \<Rightarrow> stdio \<Rightarrow> (plugin_error, u64) result \<times> stdio" where
  "stdio_send fault method params s =
     (if \<not> sd_alive s then (Inl Disconnected, s)
      else (let i = sd_next_id s + 1;
                s1 = s\<lparr>sd_next_id := i, sd_pending := i # removeAll i (sd_pending s)\<rparr>
            in case stdio_write fault (request_json (new_request (u64_json i) method params)) s1 of
                 (Inl e, s2) \<Rightarrow> (Inl e, s2\<lparr>sd_pending := removeAll i (sd_pending s2)\<rparr>)
               | (Inr _, s2) \<Rightarrow> (Inr i, s2)))"

definition stdio_deliver :: "rpc_response \<Rightarrow> stdio \<Rightarrow> stdio" where
  "stdio_deliver response s =
     (case Option.bind (rp_id response) as_u64 of
        None \<Rightarrow> s
      | Some n \<Rightarrow>
          (let i = of_nat n in
           if i \<in> set (sd_pending s)
           then s\<lparr>sd_pending := removeAll i (sd_pending s), sd_replies := sd_replies s @ [(i, response)]\<rparr>
           else s))"

definition stdio_frame :: "(string \<Rightarrow> json \<Rightarrow> string) \<Rightarrow> json \<Rightarrow> stdio \<Rightarrow> rpc_notification option \<times> stdio" where
  "stdio_frame serde_text v s =
     (case decode_message serde_text v of
        Inr (InResponse response) \<Rightarrow> (None, stdio_deliver response s)
      | Inr (InNotification n) \<Rightarrow> (Some n, s)
      | Inr (InRequest request) \<Rightarrow> (None, s)
      | Inl e \<Rightarrow> (None, s))"

definition stdio_eof :: "stdio \<Rightarrow> stdio" where
  "stdio_eof s = s\<lparr>sd_alive := False, sd_pending := []\<rparr>"

definition stdio_close :: "stdio \<Rightarrow> stdio" where
  "stdio_close s = s\<lparr>sd_alive := False\<rparr>"

text \<open>\<open>recv_timeout\<close>: a delivered reply, a closed channel, or the deadline.\<close>

definition stdio_collect :: "string \<Rightarrow> u64 \<Rightarrow> u64 \<Rightarrow> stdio \<Rightarrow> (plugin_error, json) result \<times> stdio" where
  "stdio_collect method timeout i s =
     (case map_of (sd_replies s) i of
        Some response \<Rightarrow> (response_outcome response, s\<lparr>sd_replies := filter (\<lambda>(j, _). j \<noteq> i) (sd_replies s)\<rparr>)
      | None \<Rightarrow>
          if i \<in> set (sd_pending s)
          then (Inl (RequestTimeout method timeout), s\<lparr>sd_pending := removeAll i (sd_pending s)\<rparr>)
          else (Inl Disconnected, s))"

definition stdio_notify ::
    "plugin_error option \<Rightarrow> string \<Rightarrow> json \<Rightarrow> stdio \<Rightarrow> (plugin_error, unit) result \<times> stdio" where
  "stdio_notify fault method params s =
     (if \<not> sd_alive s then (Inl Disconnected, s)
      else stdio_write fault (notification_json (new_notification method params)) s)"

section \<open>The client\<close>

definition control_timeout :: u64 where "control_timeout = 30000"
definition execute_timeout :: u64 where "execute_timeout = 300000"

record 's plugin_client =
  pc_manifest :: plugin_manifest
  pc_transport :: "'s transport"
  pc_info :: plugin_info
  pc_capabilities :: "string list"
  pc_nodes :: "node_descriptor list"

text \<open>\<open>transport.request(...)?\<close> followed by \<open>serde_json::from_value(...)?\<close>.\<close>

definition call_method ::
    "plugin_externs \<Rightarrow> 's transport \<Rightarrow> string \<Rightarrow> json \<Rightarrow> u64 \<Rightarrow> string \<Rightarrow> 'a decoder \<Rightarrow> 's
       \<Rightarrow> ((plugin_error, 'a) result \<times> 's) option" where
  "call_method px tp method params timeout ty dec s =
     map_option (\<lambda>(r, s').
         (bind_result r (\<lambda>raw. case dec raw of
              None \<Rightarrow> Inl (PluginJson (px_serde_error px ty raw)) | Some a \<Rightarrow> Inr a), s'))
       (tp_request tp method params timeout s)"

definition client_from_transport ::
    "plugin_externs \<Rightarrow> plugin_manifest \<Rightarrow> 's transport \<Rightarrow> 's \<Rightarrow> ((plugin_error, 's plugin_client) result \<times> 's) option" where
  "client_from_transport px m tp s =
     (let params = \<lparr>ip_protocol_version = protocol_version, ip_runtime_version = package_version,
                    ip_granted_permissions = pm_permissions m\<rparr>
      in case call_method px tp method_initialize (initialize_params_json params) control_timeout
                ''InitializeResult'' initialize_result_decode s of
           None \<Rightarrow> None
         | Some (Inl e, s1) \<Rightarrow> Some (Inl e, s1)
         | Some (Inr r, s1) \<Rightarrow>
             if major_of (ir_protocol_version r) \<noteq> major_of protocol_version
             then Some (Inl (HandshakeError (''plugin `'' @ pm_id m @ ''` speaks protocol '' @ ir_protocol_version r @
                    '' but the runtime requires '' @ protocol_version)), tp_close tp s1)
             else map_option (\<lambda>(d, s2).
                 (bind_result d (\<lambda>nodes. Inr \<lparr>pc_manifest = m, pc_transport = tp, pc_info = ir_plugin r,
                    pc_capabilities = ir_capabilities r, pc_nodes = dr_nodes nodes\<rparr>), s2))
               (call_method px tp method_describe (describe_params_json \<lparr>dp_node_types = []\<rparr>) control_timeout
                  ''DescribeResult'' describe_result_decode s1))"

definition client_describe ::
    "plugin_externs \<Rightarrow> 's plugin_client \<Rightarrow> string list \<Rightarrow> 's \<Rightarrow> ((plugin_error, node_descriptor list) result \<times> 's) option" where
  "client_describe px cl types s =
     map_option (\<lambda>(d, s'). (bind_result d (\<lambda>r. Inr (dr_nodes r)), s'))
       (call_method px (pc_transport cl) method_describe (describe_params_json \<lparr>dp_node_types = types\<rparr>) control_timeout
          ''DescribeResult'' describe_result_decode s)"

definition client_execute ::
    "plugin_externs \<Rightarrow> 's plugin_client \<Rightarrow> execute_params \<Rightarrow> 's \<Rightarrow> ((plugin_error, execute_result) result \<times> 's) option" where
  "client_execute px cl p s =
     call_method px (pc_transport cl) method_execute (execute_params_json p)
       (unwrap_or execute_timeout (ep_timeout_ms p)) ''ExecuteResult'' execute_result_decode s"

definition client_cancel :: "'s plugin_client \<Rightarrow> cancel_params \<Rightarrow> 's \<Rightarrow> ((plugin_error, unit) result \<times> 's) option" where
  "client_cancel cl p s =
     map_option (\<lambda>(r, s'). (bind_result r (\<lambda>_. Inr ()), s'))
       (tp_request (pc_transport cl) method_cancel (cancel_params_json p) control_timeout s)"

definition client_health :: "'s plugin_client \<Rightarrow> 's \<Rightarrow> ((plugin_error, bool) result \<times> 's) option" where
  "client_health cl s =
     map_option (\<lambda>(r, s').
         (case r of
            Inr v \<Rightarrow> Inr (Option.bind (jget v ''status'') as_str = Some ''ok'')
          | Inl Disconnected \<Rightarrow> Inr False
          | Inl e \<Rightarrow> Inl e, s'))
       (tp_request (pc_transport cl) method_health JNull control_timeout s)"

definition client_shutdown :: "'s plugin_client \<Rightarrow> 's \<Rightarrow> 's option" where
  "client_shutdown cl s =
     map_option (\<lambda>(_, s'). tp_close (pc_transport cl) s')
       (tp_request (pc_transport cl) method_shutdown JNull control_timeout s)"

text \<open>The node types that \<open>warn_about_undeclared_nodes\<close> warns about.\<close>

definition undescribed_types :: "'s plugin_client \<Rightarrow> string list" where
  "undescribed_types cl =
     filter (\<lambda>t. t \<notin> d_node_type ` set (pc_nodes cl)) (pm_node_types (pc_manifest cl))"

section \<open>The executor of a remote node\<close>

definition remote_params :: "plugin_externs \<Rightarrow> node_input \<Rightarrow> 'w exec_context \<Rightarrow> execute_params" where
  "remote_params px input c =
     \<lparr>ep_run_id = cx_run_id c, ep_node_id = ni_node_id input, ep_node_type = ni_node_type input,
      ep_config = ni_resolved_config input, ep_inputs = ni_inputs input, ep_variables = ctx_redacted c,
      ep_artifacts = store_payloads px (sh_artifacts (cx_shared c)), ep_timeout_ms = ni_timeout_ms input\<rparr>"

definition remote_execute ::
    "plugin_externs \<Rightarrow> 'w plugin_client \<Rightarrow> node_descriptor \<Rightarrow> 'w execute" where
  "remote_execute px cl d input c =
     (case check_cancelled c of
        (Inl e, c1) \<Rightarrow> Some (Inl e, c1)
      | (Inr _, c1) \<Rightarrow>
          (case client_execute px cl (remote_params px input c1) (sh_world (cx_shared c1)) of
             None \<Rightarrow> None
           | Some (r, w) \<Rightarrow>
               (let c2 = on_shared (\<lambda>s. s\<lparr>sh_world := w\<rparr>) c1 in
                case r of
                  Inl e \<Rightarrow> Some (Inl (map_plugin_error e (d_node_type d) (pi_id (pc_info cl))), c2)
                | Inr result \<Rightarrow>
                    (let (inserted, store) = insert_payloads px (er_artifacts result) (sh_artifacts (cx_shared c2));
                         c3 = on_shared (\<lambda>s. s\<lparr>sh_artifacts := store\<rparr>) c2
                     in case inserted of
                          Inl e \<Rightarrow> Some (Inl (ExecutionFailed (''plugin `'' @ pi_id (pc_info cl) @
                                     ''` returned an invalid artifact: '' @ e)), c3)
                        | Inr _ \<Rightarrow> Some (Inr \<lparr>no_outputs = er_outputs result, no_variables = er_variables result\<rparr>, c3)))))"

definition remote_executor :: "plugin_externs \<Rightarrow> 'w plugin_client \<Rightarrow> node_descriptor \<Rightarrow> 'w node_executor" where
  "remote_executor px cl d = \<lparr>ex_descriptor = d, ex_execute = remote_execute px cl d\<rparr>"

end
