(* ===== verification/Nodara_Remote_Props.thy ===== *)
theory Nodara_Remote_Props
  imports Nodara_Remote
begin

text \<open>
  Facts about remote nodes: an error keeps its kind across the boundary, artefacts survive it, and a
  node executed by a server in the same process acts like the executor run on a context of its own
  (\<open>run_isolated\<close>), in which secrets are masked. Then the table of runs of the server, and the
  replies of the stdio transport.
\<close>

section \<open>Errors\<close>

text \<open>What the caller sees of an error of the plugin's executor.\<close>

fun crossed_error :: "string \<Rightarrow> node_error \<Rightarrow> node_error" where
  "crossed_error node_type (InvalidConfig e) = InvalidConfig (node_error_text (InvalidConfig e))"
| "crossed_error node_type (PermissionDenied capability reason) =
     PermissionDenied node_type (node_error_text (PermissionDenied capability reason))"
| "crossed_error node_type (ExecutionFailed e) = ExecutionFailed (node_error_text (ExecutionFailed e))"
| "crossed_error node_type (node_error.IoError e) = node_error.IoError (node_error_text (node_error.IoError e))"
| "crossed_error node_type (UnsupportedOperation e) = UnsupportedOperation (node_error_text (UnsupportedOperation e))"
| "crossed_error node_type other = other"

lemma map_plugin_error_crossed:
  "map_plugin_error (RemoteError (eo_code (node_error_to_object e t)) (eo_message (node_error_to_object e t)) data) t' pid
   = crossed_error t' e"
  by (cases e) (simp_all add: node_error_to_object_def with_data_def new_error_object_def code_defs denied_def)

lemma crossed_error_kind:
  "node_error_code (crossed_error t e) = node_error_code e" "retryable (crossed_error t e) = retryable e"
  by (cases e; simp)+

text \<open>The text of the error does not survive: every crossing adds the prefix of its kind again.\<close>

lemma crossed_error_text:
  "node_error_text (crossed_error t (InvalidConfig e)) =
     ''invalid configuration: invalid configuration: '' @ e"
  by simp

section \<open>Artefacts\<close>

definition artifacts_ok :: "artifact_store \<Rightarrow> bool" where
  "artifacts_ok store \<longleftrightarrow>
     om_ok store \<and>
     list_all (\<lambda>(k, meta, bytes). am_id meta = k \<and> am_size meta = length bytes \<and> length bytes < 2 ^ 64) store"

definition payload_of :: "plugin_externs \<Rightarrow> string \<times> artifact_meta \<times> 8 word list \<Rightarrow> artifact_payload" where
  "payload_of px = (\<lambda>(k, meta, bytes). \<lparr>ap_meta = meta, ap_data_base64 = px_encode64 px bytes\<rparr>)"

definition base64_ok :: "plugin_externs \<Rightarrow> bool" where
  "base64_ok px \<longleftrightarrow> (\<forall>bytes. px_decode64 px (px_encode64 px bytes) = Inr bytes)"

lemma map_filter_Some:
  "(\<And>x. x \<in> set xs \<Longrightarrow> f (g x) = Some (h x)) \<Longrightarrow> List.map_filter f (map g xs) = map h xs"
  by (induction xs) (auto simp: List.map_filter_def)

lemma store_payloads_map:
  assumes "artifacts_ok store"
  shows "store_payloads px store = map (payload_of px) store"
  unfolding store_payloads_def artifact_list_def
proof (rule map_filter_Some)
  fix x assume x: "x \<in> set store"
  obtain k meta bytes where k: "x = (k, meta, bytes)" by (rule prod_cases3)
  have "om_get store k = Some (meta, bytes)"
    using assms x k om_ok_distinct [of store] by (simp add: artifacts_ok_def om_get_def map_of_is_SomeI)
  moreover have "am_id meta = k" using assms x k by (auto simp: artifacts_ok_def list_all_iff)
  ultimately show "map_option (\<lambda>bytes. \<lparr>ap_meta = (case x of (k, meta, bytes) \<Rightarrow> meta), ap_data_base64 = px_encode64 px bytes\<rparr>)
      (artifact_get store (am_id (case x of (k, meta, bytes) \<Rightarrow> meta))) = Some (payload_of px x)"
    by (simp add: k artifact_get_def payload_of_def)
qed

lemma payloads_ok: "artifacts_ok store \<Longrightarrow> list_all payload_ok (map (payload_of px) store)"
  by (auto simp: artifacts_ok_def list_all_iff payload_of_def payload_ok_def)

lemma same_size [simp]: "am_size a = n \<Longrightarrow> a\<lparr>am_size := n\<rparr> = a"
  by (cases a) simp

lemma insert_payloads_extend:
  assumes "base64_ok px" "artifacts_ok store"
  shows "insert_payloads px (map (payload_of px) store) base = (Inr (), om_extend base store)"
proof -
  have "list_all (\<lambda>(k, meta, bytes). am_id meta = k \<and> am_size meta = length bytes \<and> length bytes < 2 ^ 64) xs \<Longrightarrow>
      insert_payloads px (map (payload_of px) xs) base = (Inr (), om_extend base xs)" for xs
    using assms(1)
    by (induction xs arbitrary: base)
      (auto simp: payload_of_def base64_ok_def artifact_insert_def Let_def om_extend_def)
  with assms(2) show ?thesis by (simp add: artifacts_ok_def)
qed

lemma om_get_rev: "distinct (map fst m) \<Longrightarrow> om_get (rev m) k = om_get m k"
proof (induction m)
  case (Cons x m)
  then have "om_get m (fst x) = None" by (auto simp: om_get_def map_of_eq_None_iff)
  with Cons show ?case by (cases x) (auto simp: wire split: option.splits)
qed simp

lemma om_extend_empty: "om_ok m \<Longrightarrow> om_extend om_empty m = m"
  by (rule om_eqI) (auto simp: om_get_extend om_empty_def om_get_rev om_ok_distinct split: option.splits)

section \<open>Remote execution\<close>

text \<open>The context in which the executor runs at the other side: the same run and artefacts, masked
  variables, nothing secret, everything allowed, and a control handle of its own.\<close>

definition isolated_context :: "control_op list list \<Rightarrow> string \<Rightarrow> 'v exec_context \<Rightarrow> 'w \<Rightarrow> 'w exec_context" where
  "isolated_context inbox node_id c w =
     \<lparr>cx_run_id = cx_run_id c, cx_workflow_id = cx_run_id c, cx_node_id = Some node_id,
      cx_variables = ctx_redacted c, cx_secrets = [], cx_policy = allow_all_policy, cx_approval = auto_approve,
      cx_shared = \<lparr>sh_control = new_control inbox, sh_bus = new_bus (cx_run_id c), sh_audit = [],
        sh_artifacts = sh_artifacts (cx_shared c), sh_world = w\<rparr>\<rparr>"

text \<open>The result of a remote node, its artefacts and its world, said without messages: an error
  keeps its kind, an output publishes what the executor changed, and artefacts are merged.\<close>

definition run_isolated ::
    "'w execute \<Rightarrow> control_op list list \<Rightarrow> node_input \<Rightarrow> 'v exec_context \<Rightarrow> 'w
       \<Rightarrow> ((node_error, node_output) result \<times> artifact_store \<times> 'w) option" where
  "run_isolated ex inbox input c w =
     map_option (\<lambda>(outcome, c').
         (case outcome of
            Inl e \<Rightarrow> (Inl (crossed_error (ni_node_type input) e), sh_artifacts (cx_shared c), sh_world (cx_shared c'))
          | Inr out \<Rightarrow>
              (Inr \<lparr>no_outputs = no_outputs out,
                 no_variables = om_extend (changed_variables (ctx_redacted c) (cx_variables c')) (no_variables out)\<rparr>,
               om_extend (sh_artifacts (cx_shared c)) (sh_artifacts (cx_shared c')), sh_world (cx_shared c'))))
       (ex (input\<lparr>ni_config := ni_resolved_config input\<rparr>) (isolated_context inbox (ni_node_id input) c w))"

definition keeps_artifacts :: "'w execute \<Rightarrow> bool" where
  "keeps_artifacts ex \<longleftrightarrow>
     (\<forall>input c r c'. ex input c = Some (r, c') \<longrightarrow> artifacts_ok (sh_artifacts (cx_shared c)) \<longrightarrow>
        artifacts_ok (sh_artifacts (cx_shared c')))"

lemma server_context_isolated:
  "server_context (remote_params px input c) (new_control inbox) (sh_artifacts (cx_shared c)) w =
     isolated_context inbox (ni_node_id input) c w"
  by (simp add: server_context_def isolated_context_def remote_params_def new_context_def set_node_def)

lemma server_input_isolated: "server_input (remote_params px input c) = input\<lparr>ni_config := ni_resolved_config input\<rparr>"
  by (cases input) (simp add: server_input_def remote_params_def)

lemma remote_params_artifacts:
  "artifacts_ok (sh_artifacts (cx_shared c)) \<Longrightarrow>
     ep_artifacts (remote_params px input c) = map (payload_of px) (sh_artifacts (cx_shared c))"
  by (simp add: remote_params_def store_payloads_map)

lemma remote_params_variables: "ep_variables (remote_params px input c) = ctx_redacted c"
  by (simp add: remote_params_def)

text \<open>The server's answer to the call of a remote node.\<close>

lemma server_execute_remote:
  assumes "base64_ok px" "artifacts_ok (sh_artifacts (cx_shared c))"
    and "registry_get (sv_registry sv) (ni_node_type input) = Some ex"
  shows "server_execute px inbox (execute_params_json (remote_params px input c)) sv w =
     (let (a, sv1) = track_run (cx_run_id c) (new_control inbox) sv in
      map_option (\<lambda>(outcome, c').
          (case outcome of
             Inr out \<Rightarrow> Inr (execute_result_json (execute_result_of px (remote_params px input c) out c'))
           | Inl e \<Rightarrow> Inl (node_error_to_object e (ni_node_type input)),
           finish_execution (cx_run_id c) a c' sv1, sh_world (cx_shared c')))
        (ex_execute ex (input\<lparr>ni_config := ni_resolved_config input\<rparr>) (isolated_context inbox (ni_node_id input) c w)))"
proof -
  let ?p = "remote_params px input c"
  have decode: "execute_params_decode (execute_params_json ?p) = Some ?p"
    by (rule execute_params_roundtrip) (simp add: remote_params_artifacts assms payloads_ok)
  have load: "insert_payloads px (ep_artifacts ?p) om_empty = (Inr (), sh_artifacts (cx_shared c))"
    using assms by (simp add: remote_params_artifacts insert_payloads_extend om_extend_empty artifacts_ok_def)
  have fields: "ep_node_type ?p = ni_node_type input" "ep_run_id ?p = cx_run_id c"
    by (simp_all add: remote_params_def)
  show ?thesis
    by (simp add: server_execute_def decode load fields assms(3) server_context_isolated server_input_isolated
        Let_def split: prod.splits option.splits sum.splits)
qed

lemma in_process_execute:
  "in_process_request px method_execute params timeout st =
     map_option (\<lambda>(r, sv, w).
         (case r of Inl e \<Rightarrow> Inl (RemoteError (eo_code e) (eo_message e) (eo_data e)) | Inr v \<Rightarrow> Inr v,
          st\<lparr>il_server := sv, il_next_id := il_next_id st + 1, il_world := w\<rparr>))
       (server_execute px (il_inbox st (il_next_id st + 1)) params (il_server st) (il_world st))"
proof (cases "server_execute px (il_inbox st (il_next_id st + 1)) params (il_server st) (il_world st)")
  case (Some x)
  obtain r sv w where "x = (r, sv, w)" by (rule prod_cases3)
  with Some show ?thesis
    by (cases r) (simp_all add: in_process_request_def server_handle_def server_dispatch_def method_defs new_request_def
        response_outcome_def response_success_def response_failure_def unwrap_or_def Let_def)
qed (simp add: in_process_request_def server_handle_def server_dispatch_def method_defs new_request_def Let_def)

text \<open>The runtime's context after the call: only its artefacts and its world changed.\<close>

definition after_remote :: "artifact_store \<Rightarrow> 'w in_process \<Rightarrow> 'w in_process exec_context \<Rightarrow> 'w in_process exec_context" where
  "after_remote store st c = on_shared (\<lambda>s. s\<lparr>sh_artifacts := store, sh_world := st\<rparr>) c"

definition in_process_client :: "plugin_externs \<Rightarrow> 'w in_process plugin_client \<Rightarrow> bool" where
  "in_process_client px cl \<longleftrightarrow> pc_transport cl = in_process_transport px"

definition object_failure :: "error_object \<Rightarrow> plugin_error" where
  "object_failure e = RemoteError (eo_code e) (eo_message e) (eo_data e)"

lemma object_failure_crossed:
  "map_plugin_error (object_failure (node_error_to_object e t)) t' pid = crossed_error t' e"
  unfolding object_failure_def by (rule map_plugin_error_crossed)

definition server_after :: "string \<Rightarrow> control_op list list \<Rightarrow> 'w plugin_server \<Rightarrow> 'w exec_context \<Rightarrow> 'w plugin_server" where
  "server_after run_id inbox sv c' =
     finish_execution run_id (length (sv_controls sv)) c' (snd (track_run run_id (new_control inbox) sv))"

lemma om_remove_insert: "om_remove k (om_insert k v m) = om_remove k m"
  by (induction k v m rule: om_insert.induct) (auto simp: om_remove_def)

lemma server_after_fields:
  "sv_runs (server_after run_id inbox sv c') = om_remove run_id (sv_runs sv)"
  "sv_registry (server_after run_id inbox sv c') = sv_registry sv"
  by (simp_all add: server_after_def finish_execution_def untrack_run_def track_run_def Let_def om_remove_insert)

lemma client_execute_remote:
  assumes "in_process_client px cl" "base64_ok px" "artifacts_ok (sh_artifacts (cx_shared c))"
    and "registry_get (sv_registry (il_server st)) (ni_node_type input) = Some ex"
    and "keeps_artifacts (ex_execute ex)" "inbox = il_inbox st (il_next_id st + 1)"
  shows "client_execute px cl (remote_params px input c) st =
     map_option (\<lambda>(outcome, c').
         (case outcome of
            Inr out \<Rightarrow> Inr (execute_result_of px (remote_params px input c) out c')
          | Inl e \<Rightarrow> Inl (object_failure (node_error_to_object e (ni_node_type input))),
          st\<lparr>il_server := server_after (cx_run_id c) inbox (il_server st) c',
             il_next_id := il_next_id st + 1, il_world := sh_world (cx_shared c')\<rparr>))
       (ex_execute ex (input\<lparr>ni_config := ni_resolved_config input\<rparr>)
          (isolated_context inbox (ni_node_id input) c (il_world st)))"
proof -
  let ?c = "isolated_context inbox (ni_node_id input) c (il_world st)"
  have decode: "execute_result_decode (execute_result_json (execute_result_of px p out c')) = Some (execute_result_of px p out c')"
    if "ex_execute ex i ?c = Some (Inr out, c')" for i p out c'
  proof (rule execute_result_roundtrip)
    have "artifacts_ok (sh_artifacts (cx_shared c'))"
      using assms(3,5) that by (fastforce simp: keeps_artifacts_def isolated_context_def)
    then show "list_all payload_ok (er_artifacts (execute_result_of px p out c'))"
      by (simp add: execute_result_of_def store_payloads_map payloads_ok)
  qed
  note call = client_execute_def call_method_def in_process_transport_def in_process_execute
    server_execute_remote [OF assms(2,3,4)] server_after_def object_failure_def track_run_def Let_def
    assms(1) [unfolded in_process_client_def] assms(6) [symmetric]
  show ?thesis
  proof (cases "ex_execute ex (input\<lparr>ni_config := ni_resolved_config input\<rparr>) ?c")
    case None
    then show ?thesis by (simp add: call)
  next
    case (Some x)
    obtain outcome c' where x: "x = (outcome, c')" by (cases x)
    show ?thesis
    proof (cases outcome)
      case (Inl e)
      with Some x show ?thesis by (simp add: call)
    next
      case (Inr out)
      with Some x decode show ?thesis by (simp add: call)
    qed
  qed
qed

lemma check_cancelled_fields:
  assumes "check_cancelled c = (r, c1)"
  shows "ctx_redacted c1 = ctx_redacted c" "cx_run_id c1 = cx_run_id c" "cx_variables c1 = cx_variables c"
    "sh_artifacts (cx_shared c1) = sh_artifacts (cx_shared c)" "sh_world (cx_shared c1) = sh_world (cx_shared c)"
  using assms by (auto simp: check_cancelled_def sh_is_cancelled_def ctx_redacted_def ctx_scope_def split: prod.splits)


section \<open>An instance\<close>

definition demo_plugin_externs :: plugin_externs where
  "demo_plugin_externs =
     \<lparr>px_serde_error = (\<lambda>_ _. []), px_encode64 = map (\<lambda>b. char_of (unat b)),
      px_decode64 = (\<lambda>s. Inr (map (\<lambda>c. of_nat (of_char c)) s))\<rparr>"

lemma demo_base64_ok: "base64_ok demo_plugin_externs"
proof -
  have "of_nat (of_char (char_of (unat b) :: char)) = b" for b :: "8 word"
  proof -
    have "unat b < 256" using unsigned_less [of b] by simp
    then show ?thesis by simp
  qed
  then show ?thesis by (simp add: base64_ok_def demo_plugin_externs_def o_def)
qed

definition demo_remote_executor :: "unit node_executor" where
  "demo_remote_executor =
     \<lparr>ex_descriptor = new_descriptor ''demo.Echo'' ''Echo'' ''Demo'',
      ex_execute = (\<lambda>input c.
        if jget (ni_resolved_config input) ''fail'' = None
        then Some (Inr (with_output new_output ''out'' (ni_resolved_config input)), set_variable ''seen'' (JBool True) c)
        else Some (Inl (InvalidConfig ''told to fail''), c))\<rparr>"

definition demo_in_process :: "unit in_process" where
  "demo_in_process =
     \<lparr>il_server = new_server (register_executor demo_remote_executor new_registry) (new_server_info ''demo'' ''Demo'' ''1.0''),
      il_next_id = 0, il_inbox = (\<lambda>_. []), il_world = ()\<rparr>"

definition demo_caller :: "unit in_process exec_context" where
  "demo_caller =
     new_context ''run'' ''wf'' [(''key'', JStr ''hidden'')] [''key''] allow_all_policy auto_approve
       \<lparr>sh_control = new_control [], sh_bus = new_bus ''run'', sh_audit = [],
        sh_artifacts = [(''a'', \<lparr>am_id = ''a'', am_name = ''a'', am_content_type = ''t'', am_size = 1\<rparr>, [7])],
        sh_world = demo_in_process\<rparr>"

definition demo_manifest :: plugin_manifest where
  "demo_manifest =
     \<lparr>pm_id = ''demo'', pm_name = ''Demo'', pm_version = ''1.0'', pm_protocol_version = ''1'', pm_executable = ''demo.exe'',
      pm_args = [], pm_capabilities = [], pm_permissions = [], pm_node_types = [''demo.Echo''], pm_features = [],
      pm_description = None, pm_author = None, pm_homepage = None, pm_metadata = []\<rparr>"

definition demo_remote_client :: "unit in_process plugin_client" where
  "demo_remote_client =
     \<lparr>pc_manifest = demo_manifest, pc_transport = in_process_transport demo_plugin_externs,
      pc_info = \<lparr>pi_id = ''demo'', pi_name = ''Demo'', pi_version = ''1.0''\<rparr>, pc_capabilities = [],
      pc_nodes = [ex_descriptor demo_remote_executor]\<rparr>"

definition demo_remote_input :: node_input where
  "demo_remote_input =
     \<lparr>ni_node_id = ''n'', ni_node_type = ''demo.Echo'', ni_config = JNull, ni_resolved_config = JBool True,
      ni_inputs = [], ni_timeout_ms = None\<rparr>"


section \<open>Cancelling a run at the server\<close>

lemma cancel_reaches_run:
  assumes "track_run run_id c sv = (a, sv1)"
  shows "cf_cancelled (rc_flags (sv_controls (cancel_tracked run_id sv1) ! a))"
  using assms by (auto simp: track_run_def cancel_tracked_def Let_def cancel_control_def cancel_flags_def)

text \<open>Two executions of one run overlap when a call timed out at the runtime and was retried while
  the plugin still works on it. The end of the first then forgets the handle of the second, and a
  cancellation no longer reaches it.\<close>

lemma overlapping_execution_not_cancelled:
  assumes "track_run run_id c1 sv = (a, sv1)" "track_run run_id c2 sv1 = (b, sv2)"
  shows "cancel_tracked run_id (untrack_run run_id sv2) = untrack_run run_id sv2"
    and "sv_controls (untrack_run run_id sv2) ! b = c2"
proof -
  have "om_get (om_remove k m) k = None" for k and m :: "nat omap"
    by (induction m) (auto simp: om_remove_def)
  then show "cancel_tracked run_id (untrack_run run_id sv2) = untrack_run run_id sv2"
    by (simp add: cancel_tracked_def untrack_run_def)
  show "sv_controls (untrack_run run_id sv2) ! b = c2"
    using assms by (auto simp: untrack_run_def track_run_def Let_def nth_append)
qed

text \<open>A call whose artefacts do not decode is refused, but its run stays in the table.\<close>

lemma refused_artifact_stays_tracked:
  assumes "execute_params_decode params = Some p" "registry_get (sv_registry sv) (ep_node_type p) = Some ex"
    and "insert_payloads px (ep_artifacts p) om_empty = (Inl e, store)"
    and "server_execute px inbox params sv w = Some (r, sv', w')"
  shows "om_get (sv_runs sv') (ep_run_id p) = Some (length (sv_controls sv))"
  using assms by (auto simp: server_execute_def track_run_def Let_def)

section \<open>Replies on the stdio transport\<close>

text \<open>Fewer than \<open>2^64\<close> requests are sent, so that ids are not used again.\<close>

inductive stdio_step :: "stdio \<Rightarrow> stdio \<Rightarrow> bool" where
  stdio_step_send: "sd_next_id s \<noteq> - 1 \<Longrightarrow> stdio_step s (snd (stdio_send fault method params s))"
| stdio_step_frame: "stdio_step s (snd (stdio_frame serde_text v s))"
| stdio_step_eof: "stdio_step s (stdio_eof s)"
| stdio_step_close: "stdio_step s (stdio_close s)"
| stdio_step_collect: "stdio_step s (snd (stdio_collect method timeout i s))"
| stdio_step_notify: "stdio_step s (snd (stdio_notify fault method params s))"

definition reply_for :: "u64 \<Rightarrow> rpc_response \<Rightarrow> bool" where
  "reply_for i response \<longleftrightarrow> map_option of_nat (Option.bind (rp_id response) as_u64) = Some i"

definition stdio_ok :: "stdio \<Rightarrow> bool" where
  "stdio_ok s \<longleftrightarrow>
     (\<forall>(i, response) \<in> set (sd_replies s). reply_for i response \<and> i \<le> sd_next_id s \<and> i \<notin> set (sd_pending s)) \<and>
     (\<forall>i \<in> set (sd_pending s). i \<le> sd_next_id s) \<and> distinct (map fst (sd_replies s))"

lemma next_id_fresh:
  fixes i n :: u64
  assumes "n \<noteq> - 1" "i \<le> n"
  shows "i < n + 1"
proof -
  have "n + 1 \<noteq> 0" using assms(1) by (simp add: add_eq_0_iff2)
  then have "unat (n + 1) = Suc (unat n)" using unatSuc [of n] by (simp add: add.commute)
  with assms(2) show ?thesis by (simp add: word_less_nat_alt word_le_nat_alt)
qed

lemma stdio_ok_step: "stdio_step s s' \<Longrightarrow> stdio_ok s \<Longrightarrow> stdio_ok s'"
proof (induction rule: stdio_step.induct)
  case (stdio_step_send s fault name params)
  then have fresh: "\<And>i. i \<le> sd_next_id s \<Longrightarrow> i < sd_next_id s + 1" using next_id_fresh by blast
  with stdio_step_send show ?case
    by (auto simp: stdio_ok_def stdio_send_def stdio_write_def Let_def split: option.splits)
      (fastforce dest: fresh)+
next
  case (stdio_step_frame s serde_text v)
  have "stdio_ok (stdio_deliver response s)" for response
    using stdio_step_frame
    by (auto simp: stdio_ok_def stdio_deliver_def Let_def reply_for_def split: option.splits)
  then show ?case using stdio_step_frame by (auto simp: stdio_frame_def split: sum.splits incoming.splits)
next
  case (stdio_step_collect s name timeout i)
  then show ?case
    by (auto simp: stdio_ok_def stdio_collect_def split: option.splits intro: distinct_map_filter)
qed (auto simp: stdio_ok_def stdio_eof_def stdio_close_def stdio_notify_def stdio_write_def split: option.splits)

definition new_stdio :: stdio where
  "new_stdio = \<lparr>sd_alive = True, sd_next_id = 0, sd_pending = [], sd_replies = [], sd_written = []\<rparr>"

text \<open>A request that gets an answer gets the one that bears its own id, whatever else travels on the
  stream; without one it ends in a timeout or a disconnection.\<close>

lemma replies_reach_their_request:
  assumes "stdio_step\<^sup>*\<^sup>* new_stdio s"
  shows "(\<exists>response. reply_for i response \<and> (i, response) \<in> set (sd_replies s) \<and>
            fst (stdio_collect method timeout i s) = response_outcome response) \<or>
         fst (stdio_collect method timeout i s) \<in> {Inl (RequestTimeout method timeout), Inl Disconnected}"
proof -
  have "stdio_ok new_stdio" by (simp add: stdio_ok_def new_stdio_def)
  with assms have ok: "stdio_ok s" by (induction rule: rtranclp_induct) (auto intro: stdio_ok_step)
  show ?thesis
  proof (cases "map_of (sd_replies s) i")
    case (Some response)
    then have "(i, response) \<in> set (sd_replies s)" by (rule map_of_SomeD)
    with ok Some show ?thesis by (auto simp: stdio_ok_def stdio_collect_def)
  qed (simp add: stdio_collect_def)
qed

end
