(* ===== verification/Nodara_Host.thy ===== *)
theory Nodara_Host
  imports Nodara_Remote_Props
begin

text \<open>
  The plugin host of the runtime (\<open>host.rs\<close>): the installed plugins, the installation of their
  executors into the capability registry, and the routing of their notifications into runs. The sink
  of a route is the list of envelopes it received. Launching a plugin is the parameter \<open>connect\<close>.
\<close>

section \<open>State\<close>

record 's installed_plugin =
  in_manifest :: plugin_manifest
  in_directory :: string
  in_client :: "'s plugin_client option"
  in_descriptors :: "node_descriptor list"

record plugin_summary =
  ps_id :: string
  ps_name :: string
  ps_version :: string
  ps_protocol_version :: string
  ps_capabilities :: "string list"
  ps_permissions :: "string list"
  ps_node_types :: "string list"
  ps_features :: "plugin_feature list"
  ps_description :: "string option"
  ps_loaded :: bool

record run_route =
  rr_run_id :: string
  rr_sink :: "event_envelope list"
  rr_seq :: u64

record 's plugin_host =
  ht_plugins :: "'s installed_plugin list"
  ht_routes :: "run_route omap"

definition new_host :: "'s plugin_host" where
  "new_host = \<lparr>ht_plugins = [], ht_routes = om_empty\<rparr>"

section \<open>Installing plugins\<close>

abbreviation plugin_id_of :: "'s installed_plugin \<Rightarrow> string" where
  "plugin_id_of e \<equiv> pm_id (in_manifest e)"

definition register_one :: "plugin_manifest \<times> string \<Rightarrow> 's plugin_host \<Rightarrow> 's plugin_host" where
  "register_one = (\<lambda>(m, dir) h.
     if list_ex (\<lambda>e. plugin_id_of e = pm_id m) (ht_plugins h) then h
     else h\<lparr>ht_plugins := ht_plugins h @ [\<lparr>in_manifest = m, in_directory = dir, in_client = None, in_descriptors = []\<rparr>]\<rparr>)"

definition register_discovered :: "discovery_outcome \<Rightarrow> 's plugin_host \<Rightarrow> 's plugin_host" where
  "register_discovered out h = fold register_one (do_plugins out) h"

text \<open>Replaces the first entry with the id of the manifest, or appends one.\<close>

fun put_plugin :: "'s installed_plugin \<Rightarrow> 's installed_plugin list \<Rightarrow> 's installed_plugin list" where
  "put_plugin p [] = [p]"
| "put_plugin p (e # es) = (if plugin_id_of e = plugin_id_of p then p # es else e # put_plugin p es)"

definition install_client :: "plugin_manifest \<Rightarrow> string \<Rightarrow> 's plugin_client \<Rightarrow> 's plugin_host \<Rightarrow> 's plugin_host" where
  "install_client m dir cl h =
     h\<lparr>ht_plugins := put_plugin \<lparr>in_manifest = m, in_directory = dir, in_client = Some cl, in_descriptors = pc_nodes cl\<rparr>
       (ht_plugins h)\<rparr>"

type_synonym 's connector = "plugin_manifest \<Rightarrow> string \<Rightarrow> 's \<Rightarrow> ((plugin_error, 's plugin_client) result \<times> 's) option"

definition load_plugin ::
    "'s connector \<Rightarrow> plugin_manifest \<Rightarrow> string \<Rightarrow> 's plugin_host \<Rightarrow> 's
       \<Rightarrow> ((plugin_error, unit) result \<times> 's plugin_host \<times> 's) option" where
  "load_plugin connect m dir h s =
     (case manifest_validate m of
        Inl errors \<Rightarrow> Some (Inl (ManifestError (join_with ''; '' errors)), h, s)
      | Inr _ \<Rightarrow>
          map_option (\<lambda>(r, s').
              (case r of
                 Inl e \<Rightarrow> (Inl e, h, s')
               | Inr cl \<Rightarrow> (Inr (), install_client m dir cl h, s')))
            (connect m dir s))"

fun load_list ::
    "'s connector \<Rightarrow> (plugin_manifest \<times> string) list \<Rightarrow> 's plugin_host \<Rightarrow> 's
       \<Rightarrow> ((string \<times> plugin_error) list \<times> 's plugin_host \<times> 's) option" where
  "load_list connect [] h s = Some ([], h, s)"
| "load_list connect ((m, dir) # ps) h s =
     (case load_plugin connect m dir h s of
        None \<Rightarrow> None
      | Some (r, h', s') \<Rightarrow>
          map_option (\<lambda>(failures, h'', s'').
              ((case r of Inl e \<Rightarrow> (pm_id m, e) # failures | Inr _ \<Rightarrow> failures), h'', s''))
            (load_list connect ps h' s'))"

definition load_all where
  "load_all connect out h s = load_list connect (do_plugins out) h s"

section \<open>The registry\<close>

definition install_descriptor :: "plugin_externs \<Rightarrow> 'w plugin_client \<Rightarrow> node_descriptor \<Rightarrow> 'w registry \<Rightarrow> 'w registry" where
  "install_descriptor px cl d r =
     (if can_execute r (d_node_type d) then r else register_executor (remote_executor px cl d) r)"

definition install_placeholder :: "string \<Rightarrow> 'w registry \<Rightarrow> 'w registry" where
  "install_placeholder t r =
     (if registry_descriptor r t \<noteq> None then r else register_descriptor (new_descriptor t t ''Plugin'') r)"

definition install_entry :: "plugin_externs \<Rightarrow> 'w installed_plugin \<Rightarrow> 'w registry \<Rightarrow> 'w registry" where
  "install_entry px e r =
     (case in_client e of
        Some cl \<Rightarrow> fold (install_descriptor px cl) (in_descriptors e) r
      | None \<Rightarrow> fold install_placeholder (pm_node_types (in_manifest e)) r)"

definition install_into :: "plugin_externs \<Rightarrow> 'w plugin_host \<Rightarrow> 'w registry \<Rightarrow> 'w registry" where
  "install_into px h r = fold (install_entry px) (ht_plugins h) r"

section \<open>Views\<close>

definition summary_of :: "'s installed_plugin \<Rightarrow> plugin_summary" where
  "summary_of e =
     (let m = in_manifest e in
      \<lparr>ps_id = pm_id m, ps_name = pm_name m, ps_version = pm_version m, ps_protocol_version = pm_protocol_version m,
       ps_capabilities = pm_capabilities m, ps_permissions = pm_permissions m, ps_node_types = pm_node_types m,
       ps_features = pm_features m, ps_description = pm_description m, ps_loaded = (in_client e \<noteq> None)\<rparr>)"

definition summaries :: "'s plugin_host \<Rightarrow> plugin_summary list" where
  "summaries h = map summary_of (ht_plugins h)"

definition plugin_extension :: "plugin_summary \<Rightarrow> extension_descriptor" where
  "plugin_extension p =
     \<lparr>xd_id = ps_id p, xd_name = ps_name p, xd_version = ps_version p, xd_kind = PluginExtension,
      xd_source = ''plugin'', xd_description = ps_description p, xd_capabilities = ps_capabilities p,
      xd_permissions = ps_permissions p, xd_node_types = ps_node_types p, xd_loaded = ps_loaded p\<rparr>"

definition feature_extension :: "plugin_summary \<Rightarrow> plugin_feature \<Rightarrow> extension_descriptor" where
  "feature_extension p f =
     \<lparr>xd_id = ps_id p @ ''/'' @ pf_id f, xd_name = pf_name f, xd_version = ps_version p, xd_kind = pf_kind f,
      xd_source = ''plugin:'' @ ps_id p, xd_description = pf_description f, xd_capabilities = pf_capabilities f,
      xd_permissions = pf_permissions f, xd_node_types = pf_node_types f, xd_loaded = ps_loaded p\<rparr>"

definition extension_descriptors :: "'s plugin_host \<Rightarrow> extension_descriptor list" where
  "extension_descriptors h =
     sort_key xd_id (concat (map (\<lambda>p. plugin_extension p # map (feature_extension p) (ps_features p)) (summaries h)))"

definition host_descriptors :: "'s plugin_host \<Rightarrow> node_descriptor list" where
  "host_descriptors h = sort_key d_node_type (concat (map in_descriptors (ht_plugins h)))"

definition has_loaded_plugins :: "'s plugin_host \<Rightarrow> bool" where
  "has_loaded_plugins h = list_ex (\<lambda>e. in_client e \<noteq> None) (ht_plugins h)"

definition loaded_clients :: "'s plugin_host \<Rightarrow> 's plugin_client list" where
  "loaded_clients h = List.map_filter in_client (ht_plugins h)"

section \<open>Calls to every plugin\<close>

fun cancel_clients :: "string \<Rightarrow> 's plugin_client list \<Rightarrow> 's \<Rightarrow> 's option" where
  "cancel_clients run_id [] s = Some s"
| "cancel_clients run_id (cl # cls) s =
     (case client_cancel cl \<lparr>cp_run_id = run_id, cp_node_id = None\<rparr> s of
        None \<Rightarrow> None | Some (_, s') \<Rightarrow> cancel_clients run_id cls s')"

definition host_cancel_run :: "string \<Rightarrow> 's plugin_host \<Rightarrow> 's \<Rightarrow> 's option" where
  "host_cancel_run run_id h s = cancel_clients run_id (loaded_clients h) s"

fun shutdown_clients :: "'s plugin_client list \<Rightarrow> 's \<Rightarrow> 's option" where
  "shutdown_clients [] s = Some s"
| "shutdown_clients (cl # cls) s =
     (case client_shutdown cl s of None \<Rightarrow> None | Some s' \<Rightarrow> shutdown_clients cls s')"

definition host_shutdown :: "'s plugin_host \<Rightarrow> 's \<Rightarrow> ('s plugin_host \<times> 's) option" where
  "host_shutdown h s =
     map_option (\<lambda>s'. (h\<lparr>ht_plugins := map (\<lambda>e. e\<lparr>in_client := None\<rparr>) (ht_plugins h)\<rparr>, s'))
       (shutdown_clients (loaded_clients h) s)"

section \<open>Routing\<close>

definition register_route :: "string \<Rightarrow> event_envelope list \<Rightarrow> 's plugin_host \<Rightarrow> 's plugin_host" where
  "register_route run_id sink h =
     h\<lparr>ht_routes := om_insert run_id \<lparr>rr_run_id = run_id, rr_sink = sink, rr_seq = 0\<rparr> (ht_routes h)\<rparr>"

definition unregister_route :: "string \<Rightarrow> 's plugin_host \<Rightarrow> 's plugin_host" where
  "unregister_route run_id h = h\<lparr>ht_routes := om_remove run_id (ht_routes h)\<rparr>"

definition route_emit :: "'w machine \<Rightarrow> execution_event \<Rightarrow> run_route \<Rightarrow> 'w \<Rightarrow> run_route \<times> 'w" where
  "route_emit m event r w =
     (let (e, w') = new_envelope m (rr_run_id r) (rr_seq r) event w
      in (r\<lparr>rr_seq := rr_seq r + 1, rr_sink := rr_sink r @ [e]\<rparr>, w'))"

definition parse_level :: "string \<Rightarrow> log_level" where
  "parse_level level =
     (let l = to_ascii_lowercase level
      in if l = ''debug'' then Debug else if l = ''warn'' \<or> l = ''warning'' then Warn
         else if l = ''error'' then Error else Info)"

definition route_event :: "'w machine \<Rightarrow> string \<Rightarrow> execution_event \<Rightarrow> 's plugin_host \<Rightarrow> 'w \<Rightarrow> 's plugin_host \<times> 'w" where
  "route_event m run_id event h w =
     (case om_get (ht_routes h) run_id of
        None \<Rightarrow> (h, w)
      | Some r \<Rightarrow>
          (let (r', w') = route_emit m event r w in (h\<lparr>ht_routes := om_insert run_id r' (ht_routes h)\<rparr>, w')))"

definition host_notification :: "'w machine \<Rightarrow> rpc_notification \<Rightarrow> 's plugin_host \<Rightarrow> 'w \<Rightarrow> 's plugin_host \<times> 'w" where
  "host_notification m n h w =
     (if nt_method n = method_progress
      then (case progress_decode (nt_params n) of
              None \<Rightarrow> (h, w)
            | Some p \<Rightarrow> route_event m (pn_run_id p) (NodeProgress (pn_node_id p) (pn_progress p) (pn_message p)) h w)
      else if nt_method n = method_log
      then (case log_decode (nt_params n) of
              None \<Rightarrow> (h, w)
            | Some l \<Rightarrow> route_event m (ln_run_id l) (Log (parse_level (ln_level l)) (ln_message l) (ln_node_id l)) h w)
      else (h, w))"

section \<open>Facts\<close>

text \<open>Installed plugins have different ids.\<close>

definition host_ok :: "'s plugin_host \<Rightarrow> bool" where
  "host_ok h \<longleftrightarrow> distinct (map plugin_id_of (ht_plugins h))"

lemma host_ok_new: "host_ok new_host"
  by (simp add: host_ok_def new_host_def)

lemma host_ok_discovered: "host_ok h \<Longrightarrow> host_ok (register_discovered out h)"
proof -
  have "host_ok h \<Longrightarrow> host_ok (register_one p h)" for p :: "plugin_manifest \<times> string" and h :: "'s plugin_host"
    by (cases p) (auto simp: host_ok_def register_one_def list_ex_iff)
  then have "host_ok h \<Longrightarrow> host_ok (fold register_one ps h)" for ps and h :: "'s plugin_host"
    by (induction ps arbitrary: h) auto
  then show "host_ok h \<Longrightarrow> host_ok (register_discovered out h)" for h :: "'s plugin_host"
    by (simp add: register_discovered_def)
qed

lemma put_plugin_ids:
  "map plugin_id_of (put_plugin p es) =
     (if plugin_id_of p \<in> plugin_id_of ` set es then map plugin_id_of es else map plugin_id_of es @ [plugin_id_of p])"
  by (induction p es rule: put_plugin.induct) auto

lemma host_ok_install: "host_ok h \<Longrightarrow> host_ok (install_client m dir cl h)"
  by (auto simp: host_ok_def install_client_def put_plugin_ids)

text \<open>Installation never replaces an executor, and never a descriptor by a placeholder.\<close>

lemma install_descriptor_ok: "registry_ok r \<Longrightarrow> registry_ok (install_descriptor px cl d r)"
  by (simp add: install_descriptor_def)

lemma install_descriptor_facts:
  "registry_get r t = Some ex \<Longrightarrow> registry_get (install_descriptor px cl d r) t = Some ex"
  "can_execute (install_descriptor px cl d r) (d_node_type d)"
  "can_execute r t \<Longrightarrow> can_execute (install_descriptor px cl d r) t"
  by (auto simp: install_descriptor_def registry_get_register can_execute_def registry_get_def om_has_def
      register_executor_def remote_executor_def Let_def)

lemma install_placeholder_ok: "registry_ok r \<Longrightarrow> registry_ok (install_placeholder t r)"
  by (simp add: install_placeholder_def)

lemma install_placeholder_facts:
  "registry_get (install_placeholder t r) u = registry_get r u"
  "can_execute (install_placeholder t r) u = can_execute r u"
  "registry_descriptor r u = Some d \<Longrightarrow> registry_descriptor (install_placeholder t r) u = Some d"
  by (auto simp: install_placeholder_def registry_get_def register_descriptor_def can_execute_def
      registry_descriptor_def new_descriptor_def)

lemma fold_keeps: "(\<And>x r. x \<in> set xs \<Longrightarrow> P r \<Longrightarrow> P (f x r)) \<Longrightarrow> P r \<Longrightarrow> P (fold f xs r)"
  by (induction xs arbitrary: r) auto

lemma install_entry_facts:
  "registry_get r t = Some ex \<Longrightarrow> registry_get (install_entry px e r) t = Some ex"
  "registry_ok r \<Longrightarrow> registry_ok (install_entry px e r)"
  "can_execute r t \<Longrightarrow> can_execute (install_entry px e r) t"
  by (auto simp: install_entry_def install_descriptor_facts install_placeholder_facts install_descriptor_ok
      install_placeholder_ok split: option.splits intro!: fold_keeps [where P = "\<lambda>r. registry_get r t = Some ex"]
        fold_keeps [where P = registry_ok] fold_keeps [where P = "\<lambda>r. can_execute r t"])

lemma fold_reaches:
  assumes "x \<in> set xs" "\<And>r. P (f x r)" "\<And>y r. P r \<Longrightarrow> P (f y r)"
  shows "P (fold f xs r)"
proof -
  obtain ys zs where xs: "xs = ys @ x # zs" using assms(1) by (meson split_list)
  have "P (fold f zs (f x (fold f ys r)))" by (rule fold_keeps [where P = P]) (rule assms(3), assumption, rule assms(2))
  then show ?thesis by (simp add: xs)
qed

lemma install_entry_loaded:
  assumes "in_client e = Some cl" "d \<in> set (in_descriptors e)"
  shows "can_execute (install_entry px e r) (d_node_type d)"
  unfolding install_entry_def assms(1) option.case
  by (rule fold_reaches [where P = "\<lambda>r. can_execute r (d_node_type d)", OF assms(2)])
    (auto simp: install_descriptor_facts)

text \<open>C25. Installing plugins is conservative and complete: whatever plugins are installed, the
  registry keeps its invariant and every executor it had (so an embedded capability is never replaced
  by a remote copy), and afterwards it can execute every node type that a loaded plugin describes.\<close>

theorem installation_is_conservative:
  assumes "registry_ok r"
  shows "registry_ok (install_into px h r) \<and>
    (\<forall>t ex. registry_get r t = Some ex \<longrightarrow> registry_get (install_into px h r) t = Some ex) \<and>
    (\<forall>e \<in> set (ht_plugins h). \<forall>d \<in> set (in_descriptors e).
       in_client e \<noteq> None \<longrightarrow> can_execute (install_into px h r) (d_node_type d))"
proof (intro conjI allI impI ballI)
  show "registry_ok (install_into px h r)"
    unfolding install_into_def using assms by (intro fold_keeps [where P = registry_ok]) (auto simp: install_entry_facts)
next
  fix t ex assume "registry_get r t = Some ex"
  then show "registry_get (install_into px h r) t = Some ex"
    unfolding install_into_def
    by (intro fold_keeps [where P = "\<lambda>r. registry_get r t = Some ex"]) (auto simp: install_entry_facts)
next
  fix e d assume e: "e \<in> set (ht_plugins h)" and d: "d \<in> set (in_descriptors e)" and "in_client e \<noteq> None"
  then obtain cl where "in_client e = Some cl" by auto
  then show "can_execute (install_into px h r) (d_node_type d)"
    unfolding install_into_def
    by (intro fold_reaches [where P = "\<lambda>r. can_execute r (d_node_type d)", OF e] install_entry_loaded d install_entry_facts)
qed

definition demo_host :: "unit in_process plugin_host" where
  "demo_host = install_client demo_manifest ''plugins/demo'' demo_remote_client new_host"

lemma installation_is_conservative_witness:
  "registry_ok (install_into demo_plugin_externs demo_host new_registry) \<and>
     can_execute (install_into demo_plugin_externs demo_host new_registry) ''demo.Echo''"
proof -
  have "\<exists>e \<in> set (ht_plugins demo_host). in_client e \<noteq> None \<and>
      (\<exists>d \<in> set (in_descriptors e). d_node_type d = ''demo.Echo'')"
    by (simp add: demo_host_def install_client_def new_host_def demo_remote_client_def demo_remote_executor_def
        new_descriptor_def)
  with installation_is_conservative [OF registry_ok_new, of demo_plugin_externs demo_host] show ?thesis by metis
qed

end
