(* ===== verification/Nodara_Guardrails.thy ===== *)
theory Nodara_Guardrails
  imports Nodara_Sessions
begin

text \<open>
  The agent's limits (\<open>policy.rs\<close>) and errors (\<open>error.rs\<close>): budgets for model calls, tokens and time,
  and the tool policy that a proposed workflow must pass. Clock readings are in nanoseconds. The record
  \<open>agent_externs\<close> holds what the agent takes from libraries: the \<open>Debug\<close> rendering of a duration and of
  a list of strings, the JSON parser and printers, the derived codecs of the schema types, base64, and
  the em dash, which is outside the range of the text model.
\<close>

section \<open>Errors\<close>

datatype agent_error =
    ProviderError string
  | RuntimeError nat string
  | TransportError string
  | InvalidPlan string
  | Refused string
  | BudgetExhausted string
  | ConfigurationError string
  | AgentJsonError string
  | AgentIoError string
  | AgentSchemaError string

fun agent_error_text :: "agent_error \<Rightarrow> string" where
  "agent_error_text (ProviderError e) = ''provider error: '' @ e"
| "agent_error_text (RuntimeError status message) =
     ''runtime error ('' @ show_nat status @ ''): '' @ message"
| "agent_error_text (TransportError e) = ''transport error: '' @ e"
| "agent_error_text (InvalidPlan e) = ''the model did not produce a valid workflow: '' @ e"
| "agent_error_text (Refused e) = ''refused: '' @ e"
| "agent_error_text (BudgetExhausted e) = ''budget exhausted: '' @ e"
| "agent_error_text (ConfigurationError e) = ''configuration error: '' @ e"
| "agent_error_text (AgentJsonError e) = ''json error: '' @ e"
| "agent_error_text (AgentIoError e) = ''io error: '' @ e"
| "agent_error_text (AgentSchemaError e) = ''schema error: '' @ e"

record agent_externs =
  ax_duration_text :: "nat \<Rightarrow> string"
  ax_strings_text :: "string list \<Rightarrow> string"
  ax_em_dash :: string
  ax_json_text :: "json \<Rightarrow> string"
  ax_json_pretty :: "json \<Rightarrow> string"
  ax_parse_json :: "string \<Rightarrow> (string, json) result"
  ax_workflow_json :: "workflow \<Rightarrow> json"
  ax_workflow_of_json :: "json \<Rightarrow> (string, workflow) result"
  ax_report_json :: "report \<Rightarrow> json"
  ax_event_json :: "event_envelope \<Rightarrow> json"
  ax_base64 :: "8 word list \<Rightarrow> string"

section \<open>Budgets\<close>

record budget =
  bg_max_steps :: u32
  bg_max_tokens :: u64
  bg_max_wall_ns :: nat

definition default_budget :: budget where
  "default_budget = \<lparr>bg_max_steps = 8, bg_max_tokens = 100000, bg_max_wall_ns = 600 * 10 ^ 9\<rparr>"

record budget_tracker =
  bt_budget :: budget
  bt_steps :: u32
  bt_tokens :: u64
  bt_started :: nat

definition new_tracker :: "'w machine \<Rightarrow> budget \<Rightarrow> 'w \<Rightarrow> budget_tracker \<times> 'w" where
  "new_tracker m b w =
     (let (now, w') = mc_instant_ns m w in (\<lparr>bt_budget = b, bt_steps = 0, bt_tokens = 0, bt_started = now\<rparr>, w'))"

definition check_time :: "agent_externs \<Rightarrow> 'w machine \<Rightarrow> budget_tracker \<Rightarrow> 'w \<Rightarrow> (agent_error, unit) result \<times> 'w" where
  "check_time ax m t w =
     (let (now, w') = mc_instant_ns m w
      in (if bg_max_wall_ns (bt_budget t) < now - bt_started t
          then Inl (BudgetExhausted (''session exceeded '' @ ax_duration_text ax (bg_max_wall_ns (bt_budget t))))
          else Inr (), w'))"

definition charge_step ::
    "agent_externs \<Rightarrow> 'w machine \<Rightarrow> budget_tracker \<Rightarrow> 'w \<Rightarrow> (agent_error, unit) result \<times> budget_tracker \<times> 'w" where
  "charge_step ax m t w =
     (let t' = t\<lparr>bt_steps := bt_steps t + 1\<rparr> in
      if bg_max_steps (bt_budget t') < bt_steps t'
      then (Inl (BudgetExhausted (''used '' @ show_nat (unat (bt_steps t')) @ '' of '' @
              show_nat (unat (bg_max_steps (bt_budget t'))) @ '' model steps'')), t', w)
      else (let (r, w') = check_time ax m t' w in (r, t', w')))"

definition charge_tokens ::
    "agent_externs \<Rightarrow> 'w machine \<Rightarrow> u64 \<Rightarrow> budget_tracker \<Rightarrow> 'w \<Rightarrow> (agent_error, unit) result \<times> budget_tracker \<times> 'w" where
  "charge_tokens ax m n t w =
     (let t' = t\<lparr>bt_tokens := bt_tokens t + n\<rparr> in
      if bg_max_tokens (bt_budget t') < bt_tokens t'
      then (Inl (BudgetExhausted (''used '' @ show_nat (unat (bt_tokens t')) @ '' of '' @
              show_nat (unat (bg_max_tokens (bt_budget t'))) @ '' tokens'')), t', w)
      else (let (r, w') = check_time ax m t' w in (r, t', w')))"

section \<open>The tool policy\<close>

record tool_policy =
  tl_allowed :: "string list option"
  tl_deny_dangerous :: bool
  tl_deny_privileged :: bool

definition unrestricted :: tool_policy where
  "unrestricted = \<lparr>tl_allowed = None, tl_deny_dangerous = False, tl_deny_privileged = False\<rparr>"

definition allow_only :: "string list \<Rightarrow> tool_policy" where
  "allow_only types = \<lparr>tl_allowed = Some types, tl_deny_dangerous = False, tl_deny_privileged = False\<rparr>"

definition refusing_dangerous :: "tool_policy \<Rightarrow> tool_policy" where
  "refusing_dangerous p = p\<lparr>tl_deny_dangerous := True\<rparr>"

definition refusing_privileged :: "tool_policy \<Rightarrow> tool_policy" where
  "refusing_privileged p = p\<lparr>tl_deny_privileged := True\<rparr>"

definition safe_guardrails :: tool_policy where
  "safe_guardrails = refusing_privileged (refusing_dangerous unrestricted)"

definition find_descriptor :: "node_descriptor list \<Rightarrow> string \<Rightarrow> node_descriptor option" where
  "find_descriptor ds t = find (\<lambda>d. d_node_type d = t) ds"

text \<open>One iteration of \<open>check\<close>.\<close>

definition check_tool :: "agent_externs \<Rightarrow> tool_policy \<Rightarrow> node_descriptor list \<Rightarrow> node \<Rightarrow> (agent_error, unit) result" where
  "check_tool ax p ds n =
     (if (case tl_allowed p of Some allowed \<Rightarrow> n_type n \<notin> set allowed | None \<Rightarrow> False)
      then Inl (Refused (''node `'' @ n_id n @ ''` uses `'' @ n_type n @ ''`, which is not on the agent allowlist''))
      else (case find_descriptor ds (n_type n) of
              None \<Rightarrow> Inr ()
            | Some d \<Rightarrow>
                if tl_deny_dangerous p \<and> d_dangerous d
                then Inl (Refused (''node `'' @ n_id n @ ''` is `'' @ n_type n @ ''`, which this agent is not permitted to use''))
                else if tl_deny_privileged p \<and> d_permissions d \<noteq> []
                then Inl (Refused (''node `'' @ n_id n @ ''` requires '' @ ax_strings_text ax (d_permissions d) @
                       '', which this agent may not request''))
                else Inr ()))"

fun check_tools :: "agent_externs \<Rightarrow> tool_policy \<Rightarrow> node_descriptor list \<Rightarrow> node list \<Rightarrow> (agent_error, unit) result" where
  "check_tools ax p ds [] = Inr ()"
| "check_tools ax p ds (n # ns) = bind_result (check_tool ax p ds n) (\<lambda>_. check_tools ax p ds ns)"

definition tool_policy_check :: "agent_externs \<Rightarrow> tool_policy \<Rightarrow> workflow \<Rightarrow> node_descriptor list \<Rightarrow> (agent_error, unit) result" where
  "tool_policy_check ax p w ds = check_tools ax p ds (w_nodes w)"

definition tool_policy_describe :: "tool_policy \<Rightarrow> string" where
  "tool_policy_describe p =
     join_with ''; ''
       ((case tl_allowed p of
           Some allowed \<Rightarrow> [''allowlist of '' @ show_nat (length allowed) @ '' node type(s)'']
         | None \<Rightarrow> [''no node-type allowlist'']) @
        (if tl_deny_dangerous p then [''dangerous nodes refused''] else []) @
        (if tl_deny_privileged p then [''privileged nodes refused''] else []))"

section \<open>Which workflows pass\<close>

definition tool_allowed :: "tool_policy \<Rightarrow> node_descriptor list \<Rightarrow> string \<Rightarrow> bool" where
  "tool_allowed p ds t \<longleftrightarrow>
     (case tl_allowed p of Some allowed \<Rightarrow> t \<in> set allowed | None \<Rightarrow> True) \<and>
     (case find_descriptor ds t of
        None \<Rightarrow> True
      | Some d \<Rightarrow> \<not> (tl_deny_dangerous p \<and> d_dangerous d) \<and> \<not> (tl_deny_privileged p \<and> d_permissions d \<noteq> []))"

lemma check_tool_ok: "is_ok (check_tool ax p ds n) \<longleftrightarrow> tool_allowed p ds (n_type n)"
  by (auto simp: check_tool_def tool_allowed_def split: option.splits)

lemma tool_policy_exact: "is_ok (tool_policy_check ax p w ds) \<longleftrightarrow> list_all (\<lambda>n. tool_allowed p ds (n_type n)) (w_nodes w)"
proof -
  have "is_ok (check_tools ax p ds ns) \<longleftrightarrow> list_all (\<lambda>n. tool_allowed p ds (n_type n)) ns" for ns
    by (induction ns) (auto simp: check_tool_ok [of ax, symmetric] is_ok_def bind_result_def split: sum.splits)
  then show ?thesis by (simp add: tool_policy_check_def)
qed

lemma tool_policy_error: "tool_policy_check ax p w ds = Inl e \<Longrightarrow> \<exists>text. e = Refused text"
proof -
  have "check_tools ax p ds ns = Inl e \<Longrightarrow> \<exists>text. e = Refused text" for ns
    by (induction ns) (auto simp: check_tool_def bind_result_def split: sum.splits if_splits option.splits)
  then show "tool_policy_check ax p w ds = Inl e \<Longrightarrow> \<exists>text. e = Refused text" by (simp add: tool_policy_check_def)
qed

section \<open>Which calls are paid for\<close>

text \<open>As long as the counter is below its last value, a step is granted exactly while steps are left
  and time is.\<close>

lemma charge_step_granted:
  assumes "charge_step ax m t w = (Inr (), t', w')" "bt_steps t \<noteq> - 1"
  shows "t' = t\<lparr>bt_steps := bt_steps t + 1\<rparr>" "unat (bt_steps t') = unat (bt_steps t) + 1"
    "bt_steps t' \<le> bg_max_steps (bt_budget t)"
proof -
  show t': "t' = t\<lparr>bt_steps := bt_steps t + 1\<rparr>"
    using assms(1) by (auto simp: charge_step_def Let_def split: if_splits prod.splits)
  have "bt_steps t + 1 \<noteq> 0" using assms(2) by (simp add: add_eq_0_iff2)
  then show "unat (bt_steps t') = unat (bt_steps t) + 1" using unatSuc [of "bt_steps t"] by (simp add: t' add.commute)
  show "bt_steps t' \<le> bg_max_steps (bt_budget t)"
    using assms(1) by (auto simp: charge_step_def Let_def t' split: if_splits prod.splits)
qed

end
