(* ===== verification/Nodara_Prompt.thy ===== *)
theory Nodara_Prompt
  imports Nodara_Guardrails
begin

text \<open>
  Chat types (\<open>model.rs\<close>) and prompts (\<open>prompt.rs\<close>). The temperature of a request, a literal of the
  code that is only passed on, is kept as the rational it denotes.
\<close>

section \<open>Chat\<close>

datatype chat_role = SystemRole | UserRole | AssistantRole

record chat_image =
  ci_name :: string
  ci_media_type :: string
  ci_data_base64 :: string
  ci_artifact_id :: "string option"

record chat_message =
  cm_role :: chat_role
  cm_content :: string
  cm_images :: "chat_image list"

definition system_message :: "string \<Rightarrow> chat_message" where
  "system_message content = \<lparr>cm_role = SystemRole, cm_content = content, cm_images = []\<rparr>"

definition user_message :: "string \<Rightarrow> chat_message" where
  "user_message content = \<lparr>cm_role = UserRole, cm_content = content, cm_images = []\<rparr>"

definition user_message_with_images :: "string \<Rightarrow> chat_image list \<Rightarrow> chat_message" where
  "user_message_with_images content images = \<lparr>cm_role = UserRole, cm_content = content, cm_images = images\<rparr>"

definition assistant_message :: "string \<Rightarrow> chat_message" where
  "assistant_message content = \<lparr>cm_role = AssistantRole, cm_content = content, cm_images = []\<rparr>"

record chat_request =
  cq_messages :: "chat_message list"
  cq_temperature :: rat
  cq_max_tokens :: u32
  cq_json_mode :: bool

definition new_chat_request :: "chat_message list \<Rightarrow> chat_request" where
  "new_chat_request messages =
     \<lparr>cq_messages = messages, cq_temperature = 0, cq_max_tokens = 2048, cq_json_mode = True\<rparr>"

record token_usage =
  tu_prompt_tokens :: u32
  tu_completion_tokens :: u32

definition no_usage :: token_usage where
  "no_usage = \<lparr>tu_prompt_tokens = 0, tu_completion_tokens = 0\<rparr>"

definition usage_total :: "token_usage \<Rightarrow> u32" where
  "usage_total u = tu_prompt_tokens u + tu_completion_tokens u"

record chat_response =
  cr_content :: string
  cr_model :: string
  cr_usage :: token_usage

section \<open>The catalogue of the system prompt\<close>

definition required_text :: "json \<Rightarrow> string" where
  "required_text schema =
     (case Option.bind (jget schema ''required'') as_array of
        None \<Rightarrow> []
      | Some required \<Rightarrow> join_with '', '' (List.map_filter as_str required))"

definition property_text :: "string \<Rightarrow> json \<Rightarrow> string" where
  "property_text key schema =
     (let kind = (case Option.bind (jget schema ''type'') as_str of Some k \<Rightarrow> k | None \<Rightarrow> ''any'');
          allowed = (case Option.bind (jget schema ''enum'') as_array of
              None \<Rightarrow> []
            | Some values \<Rightarrow> '' one of ['' @ join_with '', '' (List.map_filter as_str values) @ '']'')
      in key @ '': '' @ kind @ allowed)"

definition properties_text :: "json \<Rightarrow> string" where
  "properties_text schema =
     (case Option.bind (jget schema ''properties'') as_object of
        None \<Rightarrow> []
      | Some properties \<Rightarrow> join_with ''; '' (map (\<lambda>(key, s). property_text key s) properties))"

definition gate_text :: "node_descriptor \<Rightarrow> string" where
  "gate_text d =
     (if d_dangerous d \<or> d_permissions d \<noteq> []
      then '' [gated: '' @
        (if d_permissions d = [] then ''requires approval'' else join_with '', '' (d_permissions d)) @ '']''
      else [])"

definition describe_node :: "node_descriptor \<Rightarrow> string" where
  "describe_node d =
     ''- `'' @ d_node_type d @ ''` ('' @ d_display_name d @ '')'' @ gate_text d @ [newline] @
     ''    '' @ d_description d @ [newline] @
     ''    config: {'' @ properties_text (d_config_schema d) @ ''}'' @ [newline] @
     ''    required: {'' @ required_text (d_config_schema d) @ ''}''"

text \<open>The fixed text of the prompt, line by line, around the catalogue.\<close>

definition system_prompt_lines :: "agent_externs \<Rightarrow> string \<Rightarrow> string list" where
  "system_prompt_lines ax catalogue =
    [''You are the planning component of Nodara-Core. You translate an'',
      ''operator's goal into a workflow document, and you are the only component allowed'',
      ''to author one.'',
      [],
      ''Reply with a single JSON object and nothing else. The object must have this'',
      ''shape:'',
      [],
      ''{'',
      ''  \"schema_version\": \"'' @ schema_version @ ''\",'',
      ''  \"id\": \"workflow.<short-name>\",'',
      ''  \"metadata\": { \"name\": \"<human name>\", \"description\": \"<one sentence>\" },'',
      ''  \"nodes\": ['',
      ''    { \"id\": \"<unique id>\", \"type\": \"<node type from the catalogue>\",'',
      ''       \"config\": { ... }, \"position\": { \"x\": 0, \"y\": 0 } }'',
      ''  ],'',
      ''  \"edges\": [ { \"id\": \"<unique id>\", \"source\": \"<node id>\", \"target\": \"<node id>\" } ],'',
      ''  \"variables\": { \"<name>\": { \"value\": <default> } }'',
      ''}'',
      [],
      ''Hard rules:'',
      [],
      ''1. Exactly one node of type `core.Start` and at least one of type `core.End`.'',
      ''2. `type` must be copied verbatim from the catalogue below. Never invent one.'',
      ''3. Every `config` key must appear in that node type's schema; required keys must'',
      ''   be present. Do not add keys the schema does not list.'',
      ''4. `edges` must form a directed acyclic graph unless the operator asked for a'',
      ''   loop. Every edge id must be unique.'',
      ''5. Reference data between nodes with `{{variable_name}}` placeholders. A node'',
      ''   publishes a variable by writing to the `output_var` its schema names.'',
      ''6. Give every node a `position` so the editor can lay the graph out sensibly.'',
      ''7. Prefer the smallest graph that accomplishes the goal '' @ ax_em_dash ax @ '' but never drop the'',
      ''   step that observes what the goal depends on. Do not add logging nodes unless'',
      ''   the operator asked to see progress.'',
      ''8. You cannot see the screen, the filesystem, the clipboard or the desktop: you'',
      ''   have no observation channel of your own. Everything you know about this'',
      ''   machine is either in the catalogue below or produced by a node at run time.'',
      ''9. Never invent a value that only a run can produce: screen coordinates, pixel'',
      ''   colours, window titles, window handles, process ids, file contents, clipboard'',
      ''   contents, match results or timestamps. A literal coordinate in a click, move,'',
      ''   drag or scroll node is a defect, not a simplification.'',
      ''10. When the goal depends on what is on screen, plan the observation first:'',
      ''    capture it (`windows.Desktop.Capture` or `windows.Window.Capture`) and locate'',
      ''    or read the target with `vision.TemplateMatch` / `vision.Ocr`, then feed the'',
      ''    coordinate that node published (`center_x`, `center_y`) into the input node.'',
      ''    The capture node's `output_var` receives an artefact, not a path.'',
      ''11. `variables` is the operator's override surface. Declare a variable only for'',
      ''    a value the operator supplies '' @ ax_em_dash ax @ '' a template image path, an expected text, a'',
      ''    target window title '' @ ax_em_dash ax @ '' and reference it as `{name}`. Never declare a'',
      ''    variable whose value the workflow itself is supposed to discover, and never'',
      ''    give one a made-up default: nothing in the plan can know that value.'',
      ''12. Before sending input to an application, make sure the right window is in'',
      ''    front: use `windows.Window.Wait` / `windows.Window.Focus` instead of'',
      ''    assuming the foreground window is already the target.'',
      ''13. `vision.Ocr` needs an OCR backend the operator configures and returns text'',
      ''    only; it cannot tell you where on the screen something is.'',
      [],
      ''## Node catalogue'',
      [],
      catalogue,
      []]"

definition system_prompt :: "agent_externs \<Rightarrow> node_descriptor list \<Rightarrow> string" where
  "system_prompt ax ds =
     join_with [newline] (system_prompt_lines ax (join_with [newline] (map describe_node ds)))"

section \<open>The user turns\<close>

definition user_prompt :: "string \<Rightarrow> string list \<Rightarrow> string" where
  "user_prompt goal constraints =
     (if constraints = [] then goal
      else goal @ [newline, newline] @ ''Constraints from the operator:'' @ [newline] @
           join_with [newline] (map (\<lambda>c. ''- '' @ c) constraints))"

definition repair_prompt :: "agent_externs \<Rightarrow> string \<Rightarrow> json \<Rightarrow> string" where
  "repair_prompt ax draft diagnostics =
     ''The runtime rejected this workflow document:'' @ [newline, newline] @ draft @ [newline, newline] @
     ''It reported these diagnostics (code, severity, message, path):'' @ [newline, newline] @
     ax_json_text ax diagnostics @ [newline, newline] @
     ''Return a corrected workflow document. Fix every `error` diagnostic. Keep everything that was already correct, and reply with the JSON object only.''"

definition modify_prompt :: "string \<Rightarrow> string \<Rightarrow> string" where
  "modify_prompt current instruction =
     ''Here is the workflow the operator is currently editing:'' @ [newline, newline] @ current @ [newline, newline] @
     ''Apply this change:'' @ [newline, newline] @ instruction @ [newline, newline] @
     ''Return the whole document, not a patch. Keep every node id that still refers to the same step, keep existing `position` values, and keep configuration for nodes the change does not touch. Reply with the JSON object only.''"

definition json_block :: "string \<Rightarrow> string \<Rightarrow> string" where
  "json_block title text =
     ''## '' @ title @ [newline, newline] @ ''```json'' @ [newline] @ text @ [newline] @ ''```'' @ [newline]"

definition explain_prompt :: "agent_externs \<Rightarrow> string option \<Rightarrow> json option \<Rightarrow> json option \<Rightarrow> json \<Rightarrow> string" where
  "explain_prompt ax workflow diagnostics run events =
     ''Explain the following to the operator. Say what the workflow does, then, if a run is included, what happened and why it ended the way it did. Be specific: name nodes by their id, quote the diagnostic codes and the log lines that matter, and finish with the single most useful next action. Do not speculate beyond the evidence given. Plain prose, no JSON.'' @
     [newline, newline] @
     (case workflow of Some w \<Rightarrow> json_block ''Workflow'' w @ [newline] | None \<Rightarrow> []) @
     (case diagnostics of Some d \<Rightarrow> json_block ''Validation diagnostics'' (ax_json_text ax d) @ [newline] | None \<Rightarrow> []) @
     (case run of Some r \<Rightarrow> json_block ''Run snapshot'' (ax_json_text ax r) @ [newline] | None \<Rightarrow> []) @
     (if events \<noteq> JNull then json_block ''Execution events'' (ax_json_text ax events) else [])"

end
