(* ===== verification/Nodara_Planner.thy ===== *)
theory Nodara_Planner
  imports Nodara_Prompt Nodara_Validation_Spec
begin

text \<open>
  The planner (\<open>planner.rs\<close>) and the provider it drives (the trait of \<open>provider.rs\<close>): draft, validate,
  repair. A provider acts on the world; a streaming call also yields the text deltas it reported, in
  order, up to its end or its error. The observer is the list of the events it received. The slice of
  a reply whose last closing brace stands before its first opening brace panics; a panic is an outcome
  of its own (\<open>Panicked\<close>), beside the errors the code returns.
\<close>

section \<open>Providers\<close>

record 'w llm_provider =
  lp_name :: string
  lp_complete :: "chat_request \<Rightarrow> 'w \<Rightarrow> (agent_error, chat_response) result \<times> 'w"
  lp_streaming :: "chat_request \<Rightarrow> 'w \<Rightarrow> ((agent_error, chat_response) result \<times> string list) \<times> 'w"

text \<open>The streaming call that the trait gives a provider without one of its own.\<close>

definition default_streaming ::
    "(chat_request \<Rightarrow> 'w \<Rightarrow> (agent_error, chat_response) result \<times> 'w) \<Rightarrow> chat_request \<Rightarrow> 'w \<Rightarrow>
      ((agent_error, chat_response) result \<times> string list) \<times> 'w" where
  "default_streaming answer q w =
     (case answer q w of
        (Inl e, w') \<Rightarrow> ((Inl e, []), w')
      | (Inr response, w') \<Rightarrow> ((Inr response, [cr_content response]), w'))"

text \<open>The mock provider answers from a list and keeps the requests it saw.\<close>

record mock_provider =
  mk_responses :: "string list"
  mk_calls :: "chat_request list"

definition count_words :: "string \<Rightarrow> u32" where
  "count_words text = of_nat (length (filter (\<lambda>w. w \<noteq> []) (split_by is_space text)))"

definition mock_complete :: "chat_request \<Rightarrow> mock_provider \<Rightarrow> (agent_error, chat_response) result \<times> mock_provider" where
  "mock_complete q p =
     (let p' = p\<lparr>mk_calls := mk_calls p @ [q]\<rparr> in
      case mk_responses p' of
        [] \<Rightarrow> (Inl (ProviderError ''mock provider ran out of responses''), p')
      | reply # rest \<Rightarrow>
          (Inr \<lparr>cr_content = reply, cr_model = ''mock'',
             cr_usage = \<lparr>tu_prompt_tokens = sum_list (map (\<lambda>msg. count_words (cm_content msg)) (cq_messages q)),
                         tu_completion_tokens = 0\<rparr>\<rparr>,
           p'\<lparr>mk_responses := rest\<rparr>))"

section \<open>Requests, outcomes and events\<close>

datatype plan_event =
    PlanPhase string string
  | ModelDelta string
  | PlanValidation bool report
  | RepairStarted u32
  | PlanReady workflow

record plan_request =
  rq_goal :: string
  rq_constraints :: "string list"
  rq_max_repairs :: u32
  rq_base :: "workflow option"
  rq_history :: "chat_message list"

definition new_plan_request :: "string \<Rightarrow> plan_request" where
  "new_plan_request goal =
     \<lparr>rq_goal = goal, rq_constraints = [], rq_max_repairs = 3, rq_base = None, rq_history = []\<rparr>"

definition with_base :: "plan_request \<Rightarrow> workflow \<Rightarrow> plan_request" where
  "with_base rq base = rq\<lparr>rq_base := Some base\<rparr>"

definition with_constraint :: "plan_request \<Rightarrow> string \<Rightarrow> plan_request" where
  "with_constraint rq c = rq\<lparr>rq_constraints := rq_constraints rq @ [c]\<rparr>"

record plan_outcome =
  po_workflow :: "workflow option"
  po_raw :: string
  po_report :: report
  po_repairs :: u32
  po_tokens_used :: u64
  po_accepted :: bool

datatype agent_failure = Returned agent_error | Panicked string

section \<open>Drafts\<close>

definition code_fence :: string where
  "code_fence = ''```''"

definition first_index :: "char \<Rightarrow> string \<Rightarrow> nat option" where
  "first_index c s = (if c \<in> set s then Some (length (takeWhile (\<lambda>x. x \<noteq> c) s)) else None)"

definition last_index :: "char \<Rightarrow> string \<Rightarrow> nat option" where
  "last_index c s = map_option (\<lambda>i. length s - 1 - i) (first_index c (rev s))"

text \<open>\<open>None\<close> is the panic of \<open>&trimmed[start..=end]\<close>.\<close>

definition braced_slice :: "string \<Rightarrow> string option" where
  "braced_slice t =
     (case (first_index (CHR ''{'') t, last_index (CHR ''}'') t) of
        (Some start, Some stop) \<Rightarrow>
          if stop + 1 < start then None else Some (take (stop + 1 - start) (drop start t))
      | _ \<Rightarrow> Some t)"

definition extract_candidate :: "string \<Rightarrow> string option" where
  "extract_candidate raw =
     (let t = trim raw in
      case cut_at code_fence t of
        Some (_, after) \<Rightarrow>
          (let after = (case strip_prefix ''json'' after of Some rest \<Rightarrow> rest | None \<Rightarrow> after)
           in Some (case cut_at code_fence after of Some (body, _) \<Rightarrow> trim body | None \<Rightarrow> trim after))
      | None \<Rightarrow> braced_slice t)"

definition decode_workflow :: "agent_externs \<Rightarrow> string \<Rightarrow> (string, workflow) result" where
  "decode_workflow ax candidate =
     (case ax_parse_json ax candidate of
        Inl e \<Rightarrow> Inl (''reply was not JSON: '' @ e)
      | Inr v \<Rightarrow>
          (case ax_workflow_of_json ax v of
             Inl e \<Rightarrow> Inl (''reply was JSON but not a workflow document: '' @ e)
           | Inr w \<Rightarrow> Inr w))"

definition extract_workflow :: "agent_externs \<Rightarrow> string \<Rightarrow> (string, workflow) result option" where
  "extract_workflow ax raw = map_option (decode_workflow ax) (extract_candidate raw)"

definition descriptor_index :: "node_descriptor list \<Rightarrow> node_type_index" where
  "descriptor_index ds =
     \<lparr>ix_node_types = map d_node_type ds, ix_descriptor = (\<lambda>t. find (\<lambda>d. d_node_type d = t) ds)\<rparr>"

definition payload_error :: "string \<Rightarrow> diagnostic" where
  "payload_error message =
     \<lparr>dg_severity = ErrorSeverity, dg_code = ''AG100'', dg_message = message, dg_path = ''/'',
      dg_node_id = None, dg_edge_id = None, dg_hint = Some ''reply with a single workflow JSON object''\<rparr>"

definition draft_report :: "node_descriptor list \<Rightarrow> workflow \<Rightarrow> report" where
  "draft_report ds w =
     (if ds = [] then validate w else validate_with w (descriptor_index ds) default_validation_options)"

definition evaluate_draft :: "agent_externs \<Rightarrow> node_descriptor list \<Rightarrow> string \<Rightarrow> (workflow option \<times> report) option" where
  "evaluate_draft ax ds raw =
     (case extract_workflow ax raw of
        None \<Rightarrow> None
      | Some (Inr w) \<Rightarrow> Some (Some w, draft_report ds w)
      | Some (Inl e) \<Rightarrow> Some (None, report_push [] (payload_error e)))"

section \<open>The loop\<close>

record 'w planning =
  pl_budget :: "budget_tracker option"
  pl_messages :: "chat_message list"
  pl_raw :: string
  pl_repairs :: u32
  pl_tokens :: u64
  pl_events :: "plan_event list"
  pl_world :: 'w

definition plan_emit :: "plan_event \<Rightarrow> 'w planning \<Rightarrow> 'w planning" where
  "plan_emit e st = st\<lparr>pl_events := pl_events st @ [e]\<rparr>"

definition planner_charge ::
    "agent_externs \<Rightarrow> 'w machine \<Rightarrow> 'w planning \<Rightarrow> (agent_error, unit) result \<times> 'w planning" where
  "planner_charge ax m st =
     (case pl_budget st of
        None \<Rightarrow> (Inr (), st)
      | Some t \<Rightarrow>
          (let (r, t', w) = charge_step ax m t (pl_world st)
           in (r, st\<lparr>pl_budget := Some t', pl_world := w\<rparr>)))"

text \<open>A paid model call: the budget, the announcement, the streaming call with its deltas.\<close>

definition request_draft ::
    "agent_externs \<Rightarrow> 'w machine \<Rightarrow> 'w llm_provider \<Rightarrow> string \<Rightarrow> string \<Rightarrow> 'w planning \<Rightarrow>
      (agent_error, chat_response) result \<times> 'w planning" where
  "request_draft ax m pv phase message st =
     (case planner_charge ax m st of
        (Inl e, st1) \<Rightarrow> (Inl e, st1)
      | (Inr _, st1) \<Rightarrow>
          (let st2 = plan_emit (PlanPhase phase message) st1;
               ((r, deltas), w) = lp_streaming pv (new_chat_request (pl_messages st2)) (pl_world st2)
           in (r, st2\<lparr>pl_events := pl_events st2 @ map ModelDelta deltas, pl_world := w\<rparr>)))"

definition plan_result :: "workflow option \<Rightarrow> report \<Rightarrow> bool \<Rightarrow> 'w planning \<Rightarrow> plan_outcome" where
  "plan_result workflow report accepted st =
     \<lparr>po_workflow = workflow, po_raw = pl_raw st, po_report = report, po_repairs = pl_repairs st,
      po_tokens_used = pl_tokens st, po_accepted = accepted\<rparr>"

text \<open>The next repair round before its call: the counter, the event and the two turns.\<close>

definition begin_repair :: "agent_externs \<Rightarrow> report \<Rightarrow> 'w planning \<Rightarrow> 'w planning" where
  "begin_repair ax report st =
     (let st1 = plan_emit (RepairStarted (pl_repairs st + 1)) (st\<lparr>pl_repairs := pl_repairs st + 1\<rparr>)
      in st1\<lparr>pl_messages := pl_messages st1 @ [assistant_message (pl_raw st1),
               user_message (repair_prompt ax (pl_raw st1) (ax_report_json ax report))]\<rparr>)"

definition accept_draft :: "'w planning \<Rightarrow> chat_response \<Rightarrow> 'w planning" where
  "accept_draft st response =
     st\<lparr>pl_tokens := pl_tokens st + ucast (usage_total (cr_usage response)), pl_raw := cr_content response\<rparr>"

definition repair_note :: "u32 \<Rightarrow> string" where
  "repair_note n = ''repair round '' @ show_nat (unat n)"

lemma planner_charge_frame:
  "pl_repairs (snd (planner_charge ax m st)) = pl_repairs st"
  "pl_events (snd (planner_charge ax m st)) = pl_events st"
  by (simp_all add: planner_charge_def split: option.splits prod.splits)

lemma request_draft_repairs: "request_draft ax m pv phase message st = (r, st') \<Longrightarrow> pl_repairs st' = pl_repairs st"
  using planner_charge_frame(1) [of ax m st]
  by (auto simp: request_draft_def plan_emit_def Let_def split: prod.splits sum.splits)

lemma begin_repair_repairs [simp]: "pl_repairs (begin_repair ax report st) = pl_repairs st + 1"
  by (simp add: begin_repair_def plan_emit_def Let_def)

lemma plan_emit_simps [simp]:
  "pl_repairs (plan_emit e st) = pl_repairs st" "pl_raw (plan_emit e st) = pl_raw st"
  "pl_budget (plan_emit e st) = pl_budget st" "pl_events (plan_emit e st) = pl_events st @ [e]"
  "pl_messages (plan_emit e st) = pl_messages st" "pl_tokens (plan_emit e st) = pl_tokens st"
  "pl_world (plan_emit e st) = pl_world st"
  by (simp_all add: plan_emit_def)

lemma accept_draft_simps [simp]:
  "pl_repairs (accept_draft st response) = pl_repairs st" "pl_events (accept_draft st response) = pl_events st"
  "pl_budget (accept_draft st response) = pl_budget st"
  by (simp_all add: accept_draft_def)

lemma repairs_left_decrease: "\<not> limit \<le> (n :: u32) \<Longrightarrow> unat (limit - (n + 1)) < unat (limit - n)"
  by (metis (no_types, opaque_lifting) diff_diff_add eq_iff_diff_eq_0 measure_unat order_refl)

function plan_loop ::
    "agent_externs \<Rightarrow> 'w machine \<Rightarrow> 'w llm_provider \<Rightarrow> node_descriptor list \<Rightarrow> u32 \<Rightarrow> 'w planning \<Rightarrow>
      (agent_failure, plan_outcome) result \<times> 'w planning" where
  "plan_loop ax m pv ds limit st =
     (case evaluate_draft ax ds (pl_raw st) of
        None \<Rightarrow> (Inl (Panicked ''begin > end when slicing''), st)
      | Some (workflow, report) \<Rightarrow>
          (let st1 = plan_emit (PlanValidation (is_valid report) report) st in
           if is_valid report
           then (Inr (plan_result workflow report True st1),
                 case workflow of Some w \<Rightarrow> plan_emit (PlanReady w) st1 | None \<Rightarrow> st1)
           else if limit \<le> pl_repairs st1 then (Inr (plan_result workflow report False st1), st1)
           else
             (case request_draft ax m pv ''repair'' (repair_note (pl_repairs st1 + 1))
                     (begin_repair ax report st1) of
                (Inl e, st3) \<Rightarrow> (Inl (Returned e), st3)
              | (Inr response, st3) \<Rightarrow> plan_loop ax m pv ds limit (accept_draft st3 response))))"
  by pat_completeness auto
termination
  by (relation "measure (\<lambda>(ax, m, pv, ds, limit, st). unat (limit - pl_repairs st))")
    (auto simp: repairs_left_decrease dest!: request_draft_repairs [OF sym])

declare plan_loop.simps [simp del]

definition opening_turn :: "agent_externs \<Rightarrow> plan_request \<Rightarrow> string" where
  "opening_turn ax rq =
     (case rq_base rq of
        Some base \<Rightarrow>
          modify_prompt (ax_json_pretty ax (ax_workflow_json ax base)) (user_prompt (rq_goal rq) (rq_constraints rq))
      | None \<Rightarrow> user_prompt (rq_goal rq) (rq_constraints rq))"

definition opening_messages :: "agent_externs \<Rightarrow> node_descriptor list \<Rightarrow> plan_request \<Rightarrow> chat_message list" where
  "opening_messages ax ds rq =
     system_message (system_prompt ax ds) # rq_history rq @ [user_message (opening_turn ax rq)]"

definition start_planning ::
    "agent_externs \<Rightarrow> node_descriptor list \<Rightarrow> plan_request \<Rightarrow> budget_tracker option \<Rightarrow> 'w \<Rightarrow> 'w planning" where
  "start_planning ax ds rq budget w =
     \<lparr>pl_budget = budget, pl_messages = opening_messages ax ds rq, pl_raw = [], pl_repairs = 0, pl_tokens = 0,
      pl_events = [], pl_world = w\<rparr>"

definition plan_workflow ::
    "agent_externs \<Rightarrow> 'w machine \<Rightarrow> 'w llm_provider \<Rightarrow> node_descriptor list \<Rightarrow> plan_request \<Rightarrow>
      budget_tracker option \<Rightarrow> 'w \<Rightarrow> (agent_failure, plan_outcome) result \<times> 'w planning" where
  "plan_workflow ax m pv ds rq budget w =
     (case request_draft ax m pv ''model_call'' ''requesting the first draft'' (start_planning ax ds rq budget w) of
        (Inl e, st) \<Rightarrow> (Inl (Returned e), st)
      | (Inr response, st) \<Rightarrow> plan_loop ax m pv ds (rq_max_repairs rq) (accept_draft st response))"

end
