(* ===== verification/Nodara_Selector.thy ===== *)
theory Nodara_Selector
  imports Nodara_Workflow "HOL-Library.Product_Lexorder"
begin

text \<open>
  Tool selection (\<open>selector.rs\<close>): the catalogue is scored against the words of the goal, the
  scaffolding nodes come first, and the best of the rest follow up to the cap. The counts of
  points are small numbers that stay far inside the code's \<open>i32\<close>.
\<close>

section \<open>Words\<close>

text \<open>\<open>str::to_lowercase\<close> on the Latin-1 range: the capital letters with and without accents.\<close>

definition to_lower_char :: "char \<Rightarrow> char" where
  "to_lower_char c =
     (let n = (of_char c :: nat) in
      if (65 \<le> n \<and> n \<le> 90) \<or> (192 \<le> n \<and> n \<le> 222 \<and> n \<noteq> 215) then char_of (n + 32) else c)"

definition to_lowercase :: "string \<Rightarrow> string" where
  "to_lowercase s = map to_lower_char s"

definition split_whitespace :: "string \<Rightarrow> string list" where
  "split_whitespace s = filter (\<lambda>w. w \<noteq> []) (split_by is_space s)"

text \<open>\<open>str::len\<close> counts the bytes of the UTF-8 encoding: two for the upper half of Latin-1.\<close>

definition byte_length :: "string \<Rightarrow> nat" where
  "byte_length s = sum_list (map (\<lambda>c. if (of_char c :: nat) < 128 then 1 else 2) s)"

definition stop_words :: "string list" where
  "stop_words =
     [''a'', ''an'', ''and'', ''the'', ''to'', ''of'', ''for'', ''with'', ''then'', ''into'', ''on'', ''in'', ''it'',
      ''that'', ''this'', ''from'', ''at'', ''by'', ''is'', ''are'', ''be'', ''my'', ''me'', ''i'', ''please'']"

text \<open>The set of tokens is the sorted list of its members.\<close>

definition tokenise :: "string \<Rightarrow> string list" where
  "tokenise goal =
     remdups (sort (filter (\<lambda>w. 1 < byte_length w \<and> w \<notin> set stop_words)
                       (split_by (\<lambda>c. \<not> is_alphanumeric c) (to_lowercase goal))))"

section \<open>Scoring\<close>

definition token_points :: "node_descriptor \<Rightarrow> string \<Rightarrow> int" where
  "token_points d token =
     (if token \<in> set (split_dots (to_lowercase (d_node_type d))) then 6 else 0) +
     (if to_lowercase (d_category d) = token then 4 else 0) +
     (if token \<in> set (split_whitespace (to_lowercase (d_display_name d))) then 3 else 0) +
     (if token \<in> set (split_whitespace (to_lowercase (d_description d))) then 1 else 0)"

definition score :: "string list \<Rightarrow> node_descriptor \<Rightarrow> int" where
  "score tokens d = sum_list (map (token_points d) tokens)"

definition rank_key :: "int \<times> node_descriptor \<Rightarrow> int \<times> string" where
  "rank_key entry = (- fst entry, d_node_type (snd entry))"

definition ranking :: "string list \<Rightarrow> node_descriptor list \<Rightarrow> (int \<times> node_descriptor) list" where
  "ranking tokens ds = sort_key rank_key (map (\<lambda>d. (score tokens d, d)) ds)"

section \<open>Selection\<close>

record tool_selector =
  ts_always_include_core :: bool
  ts_max_tools :: nat

definition default_selector :: tool_selector where
  "default_selector = \<lparr>ts_always_include_core = True, ts_max_tools = 40\<rparr>"

definition always_included :: "string list" where
  "always_included = [''core.Start'', ''core.End'', ''core.Log'']"

text \<open>The scaffolding: what the first loop adds for each wanted type (\<open>seen\<close> is the list of the types
  of what was selected, up to the order).\<close>

fun select_core :: "node_descriptor list \<Rightarrow> string list \<Rightarrow> node_descriptor list \<Rightarrow> string list \<Rightarrow>
    node_descriptor list \<times> string list" where
  "select_core ds [] selected seen = (selected, seen)"
| "select_core ds (wanted # rest) selected seen =
     (case find (\<lambda>d. d_node_type d = wanted) ds of
        None \<Rightarrow> select_core ds rest selected seen
      | Some d \<Rightarrow>
          if d_node_type d \<in> set seen then select_core ds rest selected seen
          else select_core ds rest (selected @ [d]) (d_node_type d # seen))"

fun select_scored :: "nat \<Rightarrow> (int \<times> node_descriptor) list \<Rightarrow> node_descriptor list \<Rightarrow> string list \<Rightarrow>
    node_descriptor list" where
  "select_scored max_tools [] selected seen = selected"
| "select_scored max_tools ((points, d) # rest) selected seen =
     (if d_node_type d \<in> set seen then select_scored max_tools rest selected seen
      else if points = 0 \<and> max_tools div 2 \<le> length selected
      then select_scored max_tools rest selected (d_node_type d # seen)
      else if max_tools \<le> length (selected @ [d]) then selected @ [d]
      else select_scored max_tools rest (selected @ [d]) (d_node_type d # seen))"

definition select_tools :: "tool_selector \<Rightarrow> string \<Rightarrow> node_descriptor list \<Rightarrow> node_descriptor list" where
  "select_tools ts goal ds =
     (let tokens = tokenise goal in
      if tokens = [] then take (ts_max_tools ts) ds
      else (let (selected, seen) = if ts_always_include_core ts then select_core ds always_included [] [] else ([], [])
            in select_scored (ts_max_tools ts) (ranking tokens ds) selected seen))"

section \<open>What is selected\<close>

lemma token_points_nonneg: "0 \<le> token_points d token"
  by (simp add: token_points_def)

lemma score_nonneg: "0 \<le> score tokens d"
  by (auto simp: score_def token_points_nonneg intro!: sum_list_nonneg)

lemma ranking_set: "set (ranking tokens ds) = (\<lambda>d. (score tokens d, d)) ` set ds"
  by (simp add: ranking_def)

lemma ranking_sorted: "sorted (map rank_key (ranking tokens ds))"
  by (simp add: ranking_def)

text \<open>What the selection keeps: types are distinct, every selected type was seen, and everything is
  from the catalogue.\<close>

definition selection_ok :: "node_descriptor list \<Rightarrow> node_descriptor list \<Rightarrow> string list \<Rightarrow> bool" where
  "selection_ok ds selected seen \<longleftrightarrow>
     set selected \<subseteq> set ds \<and> distinct (map d_node_type selected) \<and> d_node_type ` set selected \<subseteq> set seen"

lemma selection_ok_empty: "selection_ok ds [] []"
  by (simp add: selection_ok_def)

lemma selection_ok_add:
  "selection_ok ds selected seen \<Longrightarrow> d \<in> set ds \<Longrightarrow> d_node_type d \<notin> set seen \<Longrightarrow>
   selection_ok ds (selected @ [d]) (d_node_type d # seen)"
  by (auto simp: selection_ok_def)

lemma selection_ok_skip: "selection_ok ds selected seen \<Longrightarrow> selection_ok ds selected (t # seen)"
  by (auto simp: selection_ok_def)

lemma find_SomeD: "find P xs = Some x \<Longrightarrow> P x \<and> x \<in> set xs"
  by (auto simp: find_Some_iff)

lemma select_core_ok:
  assumes "select_core ds wanted selected seen = (selected', seen')" "selection_ok ds selected seen"
  shows "selection_ok ds selected' seen' \<and> length selected' \<le> length selected + length wanted"
  using assms
proof (induction ds wanted selected seen arbitrary: selected' seen' rule: select_core.induct)
  case (2 ds wanted rest selected seen)
  show ?case
  proof (cases "find (\<lambda>d. d_node_type d = wanted) ds")
    case None
    with "2.IH"(1) "2.prems" show ?thesis by fastforce
  next
    case (Some d)
    with find_SomeD [OF Some] "2.IH"(2,3) [OF Some] "2.prems" show ?thesis
      by (cases "d_node_type d \<in> set seen") (fastforce dest: selection_ok_add)+
  qed
qed simp

lemma select_core_types:
  assumes "select_core ds wanted selected seen = (selected', seen')" "set seen = d_node_type ` set selected"
  shows "set seen' = d_node_type ` set selected' \<and>
    d_node_type ` set selected' = d_node_type ` set selected \<union> (set wanted \<inter> d_node_type ` set ds)"
  using assms
proof (induction ds wanted selected seen arbitrary: selected' seen' rule: select_core.induct)
  case (2 ds wanted rest selected seen)
  show ?case
  proof (cases "find (\<lambda>d. d_node_type d = wanted) ds")
    case None
    then have "wanted \<notin> d_node_type ` set ds" by (auto simp: find_None_iff)
    with None "2.IH"(1) "2.prems" show ?thesis by simp
  next
    case (Some d)
    with find_SomeD [OF Some] have d: "d_node_type d = wanted" "wanted \<in> d_node_type ` set ds" by auto
    show ?thesis
    proof (cases "wanted \<in> set seen")
      case True
      with Some d "2.IH"(2) "2.prems" show ?thesis by auto
    next
      case False
      with Some d "2.IH"(3) "2.prems" show ?thesis by auto
    qed
  qed
qed simp

lemma select_scored_ok:
  assumes "selection_ok ds selected seen" "snd ` set entries \<subseteq> set ds"
  shows "set (select_scored max_tools entries selected seen) \<subseteq> set ds \<and>
    distinct (map d_node_type (select_scored max_tools entries selected seen))"
  using assms
proof (induction max_tools entries selected seen rule: select_scored.induct)
  case (2 max_tools points d rest selected seen)
  then show ?case
    by (simp add: selection_ok_add selection_ok_skip) (auto simp: selection_ok_def)
qed (simp add: selection_ok_def)

lemma select_scored_length:
  "length (select_scored max_tools entries selected seen) \<le> max max_tools (length selected + 1)"
  by (induction max_tools entries selected seen rule: select_scored.induct) auto

text \<open>An entry with points whose type is not taken means that the cap stopped the loop before it, and
  what the loop took stands before it in the ranking.\<close>

lemma select_scored_prefix:
  "set selected \<subseteq> set (select_scored max_tools entries selected seen)"
  by (induction max_tools entries selected seen rule: select_scored.induct) auto

lemma select_scored_best:
  assumes "sorted (map rank_key entries)" "(points, d) \<in> set entries" "0 < points"
    "d_node_type d \<notin> set seen" "d_node_type d \<notin> d_node_type ` set (select_scored max_tools entries selected seen)"
    "\<forall>(p, d)\<in>set entries. 0 \<le> p"
  shows "max_tools \<le> length (select_scored max_tools entries selected seen) \<and>
    (\<forall>d'\<in>set (select_scored max_tools entries selected seen) - set selected.
       \<exists>p. (p, d') \<in> set entries \<and> rank_key (p, d') \<le> rank_key (points, d))"
  using assms
proof (induction max_tools entries selected seen rule: select_scored.induct)
  case (2 max_tools p e rest selected seen)
  note IH = "2.IH" and prems = "2.prems"
  have first: "rank_key (p, e) \<le> rank_key (points, d)"
    using prems(1,2) by auto
  have p: "points \<le> p"
    using first by (auto simp: rank_key_def less_eq_prod_def)
  show ?case
  proof (cases "d_node_type e \<in> set seen")
    case True
    then have "(points, d) \<in> set rest" using prems(2,4) by auto
    with True IH(1) prems show ?thesis by (simp, fastforce)
  next
    case False
    have nz: "\<not> (p = 0 \<and> max_tools div 2 \<le> length selected)" using p prems(3) by simp
    show ?thesis
    proof (cases "max_tools \<le> length (selected @ [e])")
      case True
      with False nz first show ?thesis by auto
    next
      case more: False
      let ?r = "select_scored max_tools rest (selected @ [e]) (d_node_type e # seen)"
      have r: "select_scored max_tools ((p, e) # rest) selected seen = ?r" using False nz more by auto
      have e: "e \<in> set ?r" using select_scored_prefix [of "selected @ [e]" max_tools rest] by auto
      have ne: "d_node_type d \<noteq> d_node_type e" using prems(5) e by (metis r image_eqI)
      then have "(points, d) \<in> set rest" using prems(2) by auto
      with IH(3) [OF False nz more] prems ne
      have "max_tools \<le> length ?r \<and>
          (\<forall>d'\<in>set ?r - set (selected @ [e]). \<exists>p. (p, d') \<in> set rest \<and> rank_key (p, d') \<le> rank_key (points, d))"
        by (simp add: r del: select_scored.simps)
      with first show ?thesis unfolding r by auto
    qed
  qed
qed simp

section \<open>The selection as a whole\<close>

definition core_selection :: "tool_selector \<Rightarrow> node_descriptor list \<Rightarrow> node_descriptor list \<times> string list" where
  "core_selection ts ds = (if ts_always_include_core ts then select_core ds always_included [] [] else ([], []))"

lemma select_tools_words:
  "tokenise goal \<noteq> [] \<Longrightarrow> core_selection ts ds = (selected, seen) \<Longrightarrow>
   select_tools ts goal ds = select_scored (ts_max_tools ts) (ranking (tokenise goal) ds) selected seen"
  by (simp add: select_tools_def core_selection_def Let_def)

lemma core_selection_facts:
  assumes "core_selection ts ds = (selected, seen)"
  shows "selection_ok ds selected seen" "length selected \<le> 3" "set seen = d_node_type ` set selected"
    "d_node_type ` set selected = (if ts_always_include_core ts then set always_included \<inter> d_node_type ` set ds else {})"
proof -
  show "selection_ok ds selected seen" "length selected \<le> 3"
    using assms select_core_ok [of ds always_included "[]" "[]" selected seen]
    by (auto simp: core_selection_def selection_ok_empty always_included_def simp del: select_core.simps split: if_splits)
  show "set seen = d_node_type ` set selected"
    "d_node_type ` set selected = (if ts_always_include_core ts then set always_included \<inter> d_node_type ` set ds else {})"
    using assms select_core_types [of ds always_included "[]" "[]" selected seen]
    by (auto simp: core_selection_def split: if_splits)
qed

text \<open>What the selection keeps for a goal with words.\<close>

lemma selection_facts:
  assumes words: "tokenise goal \<noteq> []" and chosen_def: "chosen = select_tools ts goal ds"
  shows "set chosen \<subseteq> set ds" "distinct (map d_node_type chosen)" "length chosen \<le> max (ts_max_tools ts) 4"
    and "ts_always_include_core ts \<Longrightarrow> set always_included \<inter> d_node_type ` set ds \<subseteq> d_node_type ` set chosen"
    and "d \<in> set ds \<Longrightarrow> 0 < score (tokenise goal) d \<Longrightarrow> d_node_type d \<notin> d_node_type ` set chosen \<Longrightarrow>
      ts_max_tools ts \<le> length chosen \<and>
      (\<forall>d'\<in>set chosen. d_node_type d' \<in> set always_included \<or> score (tokenise goal) d \<le> score (tokenise goal) d')"
proof -
  obtain selected seen where core: "core_selection ts ds = (selected, seen)" by (rule prod.exhaust)
  note facts = core_selection_facts [OF core]
  have chosen: "chosen = select_scored (ts_max_tools ts) (ranking (tokenise goal) ds) selected seen"
    unfolding chosen_def by (rule select_tools_words [OF words core])
  have entries: "snd ` set (ranking (tokenise goal) ds) \<subseteq> set ds" by (simp add: ranking_set image_image)
  show "set chosen \<subseteq> set ds" "distinct (map d_node_type chosen)"
    using select_scored_ok [OF facts(1) entries, of "ts_max_tools ts"] by (simp_all add: chosen)
  show "length chosen \<le> max (ts_max_tools ts) 4"
    using facts(2) select_scored_length [of "ts_max_tools ts" "ranking (tokenise goal) ds" selected seen]
    by (simp add: chosen)
  have sub: "set selected \<subseteq> set chosen" by (simp add: chosen select_scored_prefix)
  then show "ts_always_include_core ts \<Longrightarrow> set always_included \<inter> d_node_type ` set ds \<subseteq> d_node_type ` set chosen"
    using facts(4) by (metis image_mono)
  assume d: "d \<in> set ds" "0 < score (tokenise goal) d" "d_node_type d \<notin> d_node_type ` set chosen"
  have "d_node_type d \<notin> set seen" using d(3) sub facts(3) by auto
  moreover have "(score (tokenise goal) d, d) \<in> set (ranking (tokenise goal) ds)" using d(1) by (simp add: ranking_set)
  moreover have "\<forall>(p, d)\<in>set (ranking (tokenise goal) ds). 0 \<le> p" by (auto simp: ranking_set score_nonneg)
  ultimately have best: "ts_max_tools ts \<le> length chosen \<and>
      (\<forall>d'\<in>set chosen - set selected. \<exists>p. (p, d') \<in> set (ranking (tokenise goal) ds) \<and>
         rank_key (p, d') \<le> rank_key (score (tokenise goal) d, d))"
    using select_scored_best [OF ranking_sorted, where max_tools = "ts_max_tools ts" and selected = selected and seen = seen]
      d(2,3) by (simp add: chosen)
  have core_types: "d_node_type ` set selected \<subseteq> set always_included"
    by (subst facts(4)) simp
  have "d_node_type d' \<in> set always_included \<or> score (tokenise goal) d \<le> score (tokenise goal) d'"
    if d': "d' \<in> set chosen" for d'
  proof (cases "d' \<in> set selected")
    case True
    with core_types show ?thesis by blast
  next
    case False
    with best d' obtain p where "(p, d') \<in> set (ranking (tokenise goal) ds)"
      "rank_key (p, d') \<le> rank_key (score (tokenise goal) d, d)" by blast
    then show ?thesis by (auto simp: ranking_set rank_key_def less_eq_prod_def)
  qed
  with best show "ts_max_tools ts \<le> length chosen \<and>
      (\<forall>d'\<in>set chosen. d_node_type d' \<in> set always_included \<or> score (tokenise goal) d \<le> score (tokenise goal) d')"
    by blast
qed

text \<open>The cap is exceeded by one when the scaffolding fills it and the goal names a tool: the loop pushes
  the tool before it compares the count with the cap.\<close>

lemma cap_exceeded:
  "length (select_tools \<lparr>ts_always_include_core = True, ts_max_tools = 3\<rparr> ''keyboard''
     [new_descriptor ''core.Start'' ''Start'' ''Core'', new_descriptor ''core.End'' ''End'' ''Core'',
      new_descriptor ''core.Log'' ''Log'' ''Core'', new_descriptor ''windows.Keyboard'' ''Keyboard'' ''Input'']) = 4"
  by code_simp

text \<open>The tools that reach the prompt are tools of the catalogue, none twice, at most \<open>max_tools\<close>
  of them (four when the cap is below that), the scaffolding among them; and when a tool the goal
  speaks of is left out, the cap is full of scaffolding and of tools that score at least as high.
\<close>

theorem selection_takes_the_best:
  assumes "tokenise goal \<noteq> []"
  shows "set (select_tools ts goal ds) \<subseteq> set ds \<and>
    distinct (map d_node_type (select_tools ts goal ds)) \<and>
    length (select_tools ts goal ds) \<le> max (ts_max_tools ts) 4 \<and>
    (ts_always_include_core ts \<longrightarrow>
       set always_included \<inter> d_node_type ` set ds \<subseteq> d_node_type ` set (select_tools ts goal ds)) \<and>
    (\<forall>d\<in>set ds. 0 < score (tokenise goal) d \<and> d_node_type d \<notin> d_node_type ` set (select_tools ts goal ds) \<longrightarrow>
       ts_max_tools ts \<le> length (select_tools ts goal ds) \<and>
       (\<forall>d'\<in>set (select_tools ts goal ds).
          d_node_type d' \<in> set always_included \<or> score (tokenise goal) d \<le> score (tokenise goal) d'))"
  using selection_facts [OF assms refl, where ts = ts and ds = ds] by blast

lemma selection_takes_the_best_witness:
  "(let goal = ''press the keyboard'';
        keyboard = new_descriptor ''windows.Keyboard'' ''Keyboard'' ''Input'';
        ds = [new_descriptor ''vision.Ocr'' ''OCR'' ''Vision'', keyboard];
        chosen = select_tools \<lparr>ts_always_include_core = True, ts_max_tools = 1\<rparr> goal ds
    in tokenise goal = [''keyboard'', ''press''] \<and> map d_node_type chosen = [''windows.Keyboard''] \<and>
       set chosen \<subseteq> set ds \<and> distinct (map d_node_type chosen))"
proof -
  have words: "tokenise ''press the keyboard'' = [''keyboard'', ''press'']" by code_simp
  have chosen: "map d_node_type (select_tools \<lparr>ts_always_include_core = True, ts_max_tools = 1\<rparr> ''press the keyboard''
      [new_descriptor ''vision.Ocr'' ''OCR'' ''Vision'', new_descriptor ''windows.Keyboard'' ''Keyboard'' ''Input'']) =
      [''windows.Keyboard'']"
    by code_simp
  from words have "tokenise ''press the keyboard'' \<noteq> []" by simp
  from selection_takes_the_best [OF this, where ts = "\<lparr>ts_always_include_core = True, ts_max_tools = 1\<rparr>" and ds =
      "[new_descriptor ''vision.Ocr'' ''OCR'' ''Vision'', new_descriptor ''windows.Keyboard'' ''Keyboard'' ''Input'']"]
  show ?thesis unfolding Let_def by (intro conjI words chosen) blast+
qed

end
