(* ===== verification/Nodara_Observation.thy ===== *)
theory Nodara_Observation
  imports Nodara_Guardrails
begin

text \<open>
  The review of a plan (\<open>observation.rs\<close>): input positions read from variables that no node of the
  workflow writes. The sets of the code are lists of their members here; only membership is asked.
\<close>

definition position_fields :: "string list" where
  "position_fields =
     [''x'', ''y'', ''to_x'', ''to_y'', ''from_x'', ''from_y'', ''start_x'', ''start_y'', ''end_x'', ''end_y'',
      ''center_x'', ''center_y'', ''position_x'', ''position_y'']"

record plan_finding =
  pf_node_id :: string
  pf_field :: string
  pf_variable :: string
  pf_message :: string

definition is_input_node :: "string \<Rightarrow> bool" where
  "is_input_node t \<longleftrightarrow> starts_with ''windows.Input.'' t \<or> starts_with ''vision.'' t"

section \<open>Variables a node writes\<close>

fun collect_names :: "json \<Rightarrow> string list" where
  "collect_names (JStr name) =
     (let name = trim name in if name \<noteq> [] \<and> \<not> contains_str ''{{'' name then [name] else [])"
| "collect_names (JArr items) = concat (map collect_names items)"
| "collect_names v = []"

definition writes_key :: "string \<Rightarrow> bool" where
  "writes_key key \<longleftrightarrow>
     key = ''output_var'' \<or> starts_with ''output_var_'' key \<or> key = ''variable'' \<or> key = ''variables'' \<or>
     key = ''target_var'' \<or> key = ''name''"

fun collect_writes :: "json \<Rightarrow> string list" where
  "collect_writes (JObj m) =
     concat (map (\<lambda>(key, child). (if writes_key key then collect_names child else []) @ collect_writes child) m)"
| "collect_writes (JArr items) = concat (map collect_writes items)"
| "collect_writes v = []"

definition written_variables :: "workflow \<Rightarrow> string list" where
  "written_variables w = concat (map (\<lambda>n. collect_writes (n_config n)) (w_nodes w))"

section \<open>Variables a text reads\<close>

function referenced_variables :: "string \<Rightarrow> string list" where
  "referenced_variables text =
     (case cut_at ''{{'' text of
        None \<Rightarrow> []
      | Some (before, after) \<Rightarrow>
          (case cut_at ''}}'' after of
             None \<Rightarrow> []
           | Some (name, rest) \<Rightarrow>
               (if trim name \<noteq> [] then [trim name] else []) @ referenced_variables rest))"
  by pat_completeness auto
termination
  by (relation "measure length") (auto dest!: cut_at_length)

declare referenced_variables.simps [simp del]

section \<open>The review\<close>

definition default_text :: "agent_externs \<Rightarrow> workflow \<Rightarrow> string \<Rightarrow> string" where
  "default_text ax w name =
     (case om_get (w_variables w) name of Some v \<Rightarrow> ax_json_text ax (v_value v) | None \<Rightarrow> ''null'')"

definition finding_for :: "agent_externs \<Rightarrow> workflow \<Rightarrow> node \<Rightarrow> string \<Rightarrow> string \<Rightarrow> plan_finding" where
  "finding_for ax w n field name =
     \<lparr>pf_node_id = n_id n, pf_field = field, pf_variable = name,
      pf_message = ''`'' @ n_id n @ ''` takes `'' @ field @ ''` from `{{'' @ name @ ''}}` (declared as '' @
        default_text ax w name @
        ''), and no node in this workflow writes that variable: the value is a guess, not an observation.''\<rparr>"

text \<open>One variable reference of a field: reported unless a node writes it, nothing declares it or it was
  reported for this field before.\<close>

definition reports_variable :: "workflow \<Rightarrow> string \<Rightarrow> bool" where
  "reports_variable w name \<longleftrightarrow> name \<notin> set (written_variables w) \<and> om_get (w_variables w) name \<noteq> None"

definition finding_key :: "plan_finding \<Rightarrow> string \<times> string \<times> string" where
  "finding_key f = (pf_node_id f, pf_field f, pf_variable f)"

fun review_references ::
    "agent_externs \<Rightarrow> workflow \<Rightarrow> node \<Rightarrow> string \<Rightarrow> string list \<Rightarrow> plan_finding list \<Rightarrow> plan_finding list" where
  "review_references ax w n field [] found = found"
| "review_references ax w n field (name # names) found =
     (if \<not> reports_variable w name then review_references ax w n field names found
      else if (n_id n, field, name) \<in> finding_key ` set found then review_references ax w n field names found
      else review_references ax w n field names (found @ [finding_for ax w n field name]))"

fun review_fields :: "agent_externs \<Rightarrow> workflow \<Rightarrow> node \<Rightarrow> jobject \<Rightarrow> string list \<Rightarrow> plan_finding list \<Rightarrow> plan_finding list" where
  "review_fields ax w n config [] found = found"
| "review_fields ax w n config (field # others) found =
     review_fields ax w n config others
       (case om_get config field of
          Some (JStr raw) \<Rightarrow> review_references ax w n field (referenced_variables raw) found
        | _ \<Rightarrow> found)"

definition review_node :: "agent_externs \<Rightarrow> workflow \<Rightarrow> node \<Rightarrow> plan_finding list \<Rightarrow> plan_finding list" where
  "review_node ax w n found =
     (if \<not> is_input_node (n_type n) then found
      else (case n_config n of JObj config \<Rightarrow> review_fields ax w n config position_fields found | _ \<Rightarrow> found))"

definition uninformed_inputs :: "agent_externs \<Rightarrow> workflow \<Rightarrow> plan_finding list" where
  "uninformed_inputs ax w = fold (review_node ax w) (w_nodes w) []"

definition observation_constraint :: "agent_externs \<Rightarrow> workflow \<Rightarrow> string option" where
  "observation_constraint ax w =
     (let found = uninformed_inputs ax w in
      if found = [] then None
      else Some (''The runtime accepted the draft, but nothing in it can produce these values:'' @ [newline] @
        concat (map (\<lambda>f. ''- '' @ pf_message f @ [newline]) found) @
        ''A value that only a run can observe '' @ ax_em_dash ax @ '' a screen position, a match, a window handle '' @
        ax_em_dash ax @ '' must come from an observation step in the same workflow: capture the screen and locate the target with vision.TemplateMatch (or read it with vision.Ocr), then pass the coordinate that node published. Values the operator supplies belong in `variables` and must be documented as such.''))"

section \<open>Exactly the guesses are reported\<close>

text \<open>A guess: a position field of an input node that names a declared variable no node writes.\<close>

definition is_guess :: "workflow \<Rightarrow> node \<Rightarrow> string \<Rightarrow> string \<Rightarrow> bool" where
  "is_guess w n field name \<longleftrightarrow>
     n \<in> set (w_nodes w) \<and> is_input_node (n_type n) \<and> field \<in> set position_fields \<and>
     (\<exists>config raw. n_config n = JObj config \<and> om_get config field = Some (JStr raw) \<and>
        name \<in> set (referenced_variables raw)) \<and>
     reports_variable w name"

lemma review_references_keys:
  "finding_key ` set (review_references ax w n field names found) =
   finding_key ` set found \<union> {(n_id n, field, name) | name. name \<in> set names \<and> reports_variable w name}"
  by (induction ax w n field names found rule: review_references.induct) (auto simp: finding_key_def finding_for_def)

lemma review_references_distinct:
  "distinct (map finding_key found) \<Longrightarrow> distinct (map finding_key (review_references ax w n field names found))"
  by (induction ax w n field names found rule: review_references.induct)
    (auto simp: finding_key_def finding_for_def image_iff)

definition field_guesses :: "workflow \<Rightarrow> node \<Rightarrow> jobject \<Rightarrow> string set \<Rightarrow> (string \<times> string \<times> string) set" where
  "field_guesses w n config among =
     {(n_id n, field, name) | field name raw. field \<in> among \<and> om_get config field = Some (JStr raw) \<and>
        name \<in> set (referenced_variables raw) \<and> reports_variable w name}"

lemma review_fields_keys:
  "finding_key ` set (review_fields ax w n config others found) =
   finding_key ` set found \<union> field_guesses w n config (set others)"
proof (induction others arbitrary: found)
  case Nil
  then show ?case by (simp add: field_guesses_def)
next
  case (Cons field others)
  have "finding_key ` set (case om_get config field of
          Some (JStr raw) \<Rightarrow> review_references ax w n field (referenced_variables raw) found | _ \<Rightarrow> found) =
      finding_key ` set found \<union> field_guesses w n config {field}"
    by (auto simp: review_references_keys field_guesses_def split: option.splits json.splits)
  moreover have "field_guesses w n config (set (field # others)) =
      field_guesses w n config {field} \<union> field_guesses w n config (set others)"
    by (auto simp: field_guesses_def)
  ultimately show ?case by (simp only: review_fields.simps Cons.IH Un_assoc)
qed

lemma review_fields_distinct:
  "distinct (map finding_key found) \<Longrightarrow> distinct (map finding_key (review_fields ax w n config others found))"
  by (induction others arbitrary: found)
    (auto simp: review_references_distinct split: option.splits json.splits)

lemma review_node_keys:
  "finding_key ` set (review_node ax w n found) = finding_key ` set found \<union>
     (if is_input_node (n_type n)
      then (case n_config n of JObj config \<Rightarrow> field_guesses w n config (set position_fields) | _ \<Rightarrow> {}) else {})"
  by (simp add: review_node_def review_fields_keys split: json.splits)

lemma review_node_distinct:
  "distinct (map finding_key found) \<Longrightarrow> distinct (map finding_key (review_node ax w n found))"
  by (simp add: review_node_def review_fields_distinct split: json.splits)

lemma review_nodes_keys:
  "finding_key ` set (fold (review_node ax w) ns found) = finding_key ` set found \<union>
     (\<Union>n\<in>set ns. if is_input_node (n_type n)
       then (case n_config n of JObj config \<Rightarrow> field_guesses w n config (set position_fields) | _ \<Rightarrow> {}) else {})"
  by (induction ns arbitrary: found) (simp_all add: review_node_keys Un_assoc)

lemma review_nodes_distinct:
  "distinct (map finding_key found) \<Longrightarrow> distinct (map finding_key (fold (review_node ax w) ns found))"
  by (induction ns arbitrary: found) (simp_all add: review_node_distinct)

lemma uninformed_inputs_exact:
  "finding_key ` set (uninformed_inputs ax w) = {(n_id n, field, name) | n field name. is_guess w n field name}"
  by (auto simp: uninformed_inputs_def review_nodes_keys is_guess_def field_guesses_def split: if_splits json.splits)
    fastforce

lemma uninformed_inputs_distinct: "distinct (map finding_key (uninformed_inputs ax w))"
  unfolding uninformed_inputs_def by (rule review_nodes_distinct) simp

lemma observation_constraint_None:
  "observation_constraint ax w = None \<longleftrightarrow> (\<nexists>n field name. is_guess w n field name)"
proof -
  have "observation_constraint ax w = None \<longleftrightarrow> finding_key ` set (uninformed_inputs ax w) = {}"
    by (simp add: observation_constraint_def Let_def)
  then show ?thesis unfolding uninformed_inputs_exact by auto
qed

end
