(* ===== verification/Nodara_Report.thy ===== *)
theory Nodara_Report
  imports Nodara_Guardrails
begin

text \<open>
  The decision trace (\<open>audit.rs\<close> of the agent) and the execution report (\<open>report.rs\<close>). The file system
  is a parameter: creating directories and opening a file can fail, appending a line to a file is tried
  and its failure ignored, as in the code. The derived codec of a trace entry is a parameter too.
\<close>

section \<open>The trace\<close>

datatype trace_step = GoalStep | ModelCallStep | ValidationStep | GuardrailStep | RunStartedStep | RunFinishedStep | NoteStep

fun trace_step_debug :: "trace_step \<Rightarrow> string" where
  "trace_step_debug GoalStep = ''Goal''"
| "trace_step_debug ModelCallStep = ''ModelCall''"
| "trace_step_debug ValidationStep = ''Validation''"
| "trace_step_debug GuardrailStep = ''Guardrail''"
| "trace_step_debug RunStartedStep = ''RunStarted''"
| "trace_step_debug RunFinishedStep = ''RunFinished''"
| "trace_step_debug NoteStep = ''Note''"

record trace_entry =
  te_seq :: u64
  te_timestamp_ms :: u64
  te_step :: trace_step
  te_summary :: string
  te_payload :: json

record 'w trace_files =
  tf_parent :: "string \<Rightarrow> string option"
  tf_create_dir_all :: "string \<Rightarrow> 'w \<Rightarrow> (string, unit) result \<times> 'w"
  tf_open :: "string \<Rightarrow> 'w \<Rightarrow> (string, unit) result \<times> 'w"
  tf_append :: "string \<Rightarrow> string \<Rightarrow> 'w \<Rightarrow> 'w"
  tf_read :: "string \<Rightarrow> 'w \<Rightarrow> (string, string) result \<times> 'w"
  tf_line :: "trace_entry \<Rightarrow> string option"
  tf_parse :: "string \<Rightarrow> trace_entry option"

record audit_trace =
  at_path :: "string option"
  at_entries :: "trace_entry list"

definition in_memory_trace :: audit_trace where
  "in_memory_trace = \<lparr>at_path = None, at_entries = []\<rparr>"

definition open_trace :: "'w trace_files \<Rightarrow> string \<Rightarrow> 'w \<Rightarrow> (agent_error, audit_trace) result \<times> 'w" where
  "open_trace tf path w =
     (let (made, w1) = (case tf_parent tf path of
              Some parent \<Rightarrow> if parent \<noteq> [] then tf_create_dir_all tf parent w else (Inr (), w)
            | None \<Rightarrow> (Inr (), w))
      in case made of
           Inl e \<Rightarrow> (Inl (AgentIoError e), w1)
         | Inr _ \<Rightarrow>
             (case tf_open tf path w1 of
                (Inl e, w2) \<Rightarrow> (Inl (AgentIoError e), w2)
              | (Inr _, w2) \<Rightarrow> (Inr \<lparr>at_path = Some path, at_entries = []\<rparr>, w2)))"

definition trace_record ::
    "'w machine \<Rightarrow> 'w trace_files \<Rightarrow> trace_step \<Rightarrow> string \<Rightarrow> json \<Rightarrow> audit_trace \<Rightarrow> 'w \<Rightarrow> audit_trace \<times> 'w" where
  "trace_record m tf step summary payload t w =
     (let (now, w1) = mc_now_ms m w;
          entry = \<lparr>te_seq = of_nat (length (at_entries t)), te_timestamp_ms = now, te_step = step,
                   te_summary = summary, te_payload = payload\<rparr>;
          w2 = (case (at_path t, tf_line tf entry) of
                  (Some path, Some line) \<Rightarrow> tf_append tf path (line @ [newline]) w1
                | _ \<Rightarrow> w1)
      in (t\<lparr>at_entries := at_entries t @ [entry]\<rparr>, w2))"

definition trace_len :: "audit_trace \<Rightarrow> nat" where
  "trace_len t = length (at_entries t)"

definition trace_is_empty :: "audit_trace \<Rightarrow> bool" where
  "trace_is_empty t = (at_entries t = [])"

definition load_trace :: "'w trace_files \<Rightarrow> string \<Rightarrow> 'w \<Rightarrow> (agent_error, trace_entry list) result \<times> 'w" where
  "load_trace tf path w =
     (case tf_read tf path w of
        (Inl e, w1) \<Rightarrow> (Inl (AgentIoError e), w1)
      | (Inr content, w1) \<Rightarrow>
          (Inr (List.map_filter (tf_parse tf) (filter (\<lambda>line. trim line \<noteq> []) (str_lines content))), w1))"

definition pad_left :: "nat \<Rightarrow> string \<Rightarrow> string" where
  "pad_left width s = replicate (width - length s) (CHR '' '') @ s"

definition render_trace :: "trace_entry list \<Rightarrow> string" where
  "render_trace entries =
     join_with [newline]
       (map (\<lambda>e. pad_left 2 (show_nat (unat (te_seq e))) @ ''  '' @ trace_step_debug (te_step e) @ ''  '' @ te_summary e)
          entries)"

section \<open>The report\<close>

record execution_report =
  er_goal :: string
  er_session_id :: "string option"
  er_run_id :: "string option"
  er_accepted :: bool
  er_attempts :: u32
  er_status :: string
  er_nodes_executed :: nat
  er_duration_ms :: u64
  er_variables :: jobject
  er_failure :: "json option"
  er_events_observed :: nat
  er_highlights :: "string list"
  er_tokens_used :: u64
  er_trace :: "trace_entry list"

definition str_or :: "string \<Rightarrow> json option \<Rightarrow> string" where
  "str_or fallback v = (case Option.bind v as_str of Some s \<Rightarrow> s | None \<Rightarrow> fallback)"

definition report_lines :: "string list \<Rightarrow> string" where
  "report_lines ls = concat (map (\<lambda>l. l @ [newline]) ls)"

definition status_line :: "agent_externs \<Rightarrow> execution_report \<Rightarrow> string" where
  "status_line ax r =
     (if er_accepted r
      then ''**Status.** '' @ er_status r @ '' (planned in '' @ show_nat (unat (er_attempts r)) @ '' attempt(s))''
      else ''**Status.** '' @ er_status r @ '' '' @ ax_em_dash ax @ '' the runtime did not accept a plan'')"

definition failure_lines :: "agent_externs \<Rightarrow> json \<Rightarrow> string list" where
  "failure_lines ax failure =
     [''## Failure'', [], ''`'' @ str_or ''unknown'' (jget failure ''code'') @ ''` '' @ ax_em_dash ax @ '' '' @
        str_or ''no message'' (jget failure ''message''), []]"

definition to_markdown :: "agent_externs \<Rightarrow> execution_report \<Rightarrow> string" where
  "to_markdown ax r =
     report_lines
       ([''# Agent report'', [], ''**Goal.** '' @ er_goal r, [], status_line ax r, []] @
        (case er_session_id r of Some sid \<Rightarrow> [''- session: `'' @ sid @ ''`''] | None \<Rightarrow> []) @
        (case er_run_id r of
           Some run_id \<Rightarrow> [''- run: `'' @ run_id @ ''` '' @ ax_em_dash ax @ '' '' @ show_nat (er_nodes_executed r) @
             '' node(s) in '' @ show_nat (unat (er_duration_ms r)) @ ''ms, '' @ show_nat (er_events_observed r) @ '' event(s)'']
         | None \<Rightarrow> []) @
        [''- tokens: '' @ show_nat (unat (er_tokens_used r)), []] @
        (case er_failure r of Some failure \<Rightarrow> failure_lines ax failure | None \<Rightarrow> []) @
        (if er_highlights r \<noteq> [] then [''## Log'', []] @ map (\<lambda>l. ''- '' @ l) (er_highlights r) @ [[]] else []) @
        (if er_variables r \<noteq> []
         then [''## Resulting variables'', []] @
              map (\<lambda>(name, v). ''- `'' @ name @ ''` = `'' @ ax_json_text ax v @ ''`'') (er_variables r) @ [[]]
         else []))"

section \<open>The trace only grows\<close>

text \<open>Entries are numbered by their position.\<close>

definition trace_ok :: "audit_trace \<Rightarrow> bool" where
  "trace_ok t \<longleftrightarrow> (\<forall>i<length (at_entries t). te_seq (at_entries t ! i) = of_nat i)"

lemma trace_record_ok: "trace_ok t \<Longrightarrow> trace_record m tf step summary payload t w = (t', w') \<Longrightarrow> trace_ok t'"
  by (auto simp: trace_record_def trace_ok_def nth_append less_Suc_eq Let_def split: prod.splits)

lemma trace_record_grows:
  "trace_record m tf step summary payload t w = (t', w') \<Longrightarrow>
   \<exists>e. at_entries t' = at_entries t @ [e] \<and> te_step e = step \<and> te_summary e = summary \<and> at_path t' = at_path t"
  by (auto simp: trace_record_def Let_def split: prod.splits)

text \<open>A trace written line by line to a file reads back as it was: the lines of the entries parse to the
  entries, and neither a line break nor a blank line is among them.\<close>

definition codec_ok :: "'w trace_files \<Rightarrow> trace_entry \<Rightarrow> bool" where
  "codec_ok tf e \<longleftrightarrow>
     (case tf_line tf e of
        None \<Rightarrow> False
      | Some line \<Rightarrow> newline \<notin> set line \<and> drop_cr line = line \<and> trim line \<noteq> [] \<and> tf_parse tf line = Some e)"

definition trace_text :: "'w trace_files \<Rightarrow> trace_entry list \<Rightarrow> string" where
  "trace_text tf entries = report_lines (List.map_filter (tf_line tf) entries)"

lemma lines_of_trace_text:
  assumes "list_all (codec_ok tf) entries"
  shows "List.map_filter (tf_parse tf) (filter (\<lambda>line. trim line \<noteq> []) (str_lines (trace_text tf entries))) = entries"
  using assms
proof (induction entries)
  case Nil
  then show ?case by (simp add: trace_text_def report_lines_def List.map_filter_def str_lines.simps)
next
  case (Cons e entries)
  then obtain line where line: "tf_line tf e = Some line" "newline \<notin> set line" "drop_cr line = line" "trim line \<noteq> []"
    "tf_parse tf line = Some e" by (auto simp: codec_ok_def split: option.splits)
  then have "trace_text tf (e # entries) = line @ newline # trace_text tf entries"
    by (simp add: trace_text_def report_lines_def List.map_filter_def)
  with Cons line show ?case by (simp add: str_lines_line List.map_filter_def)
qed

lemma loaded_trace:
  assumes "list_all (codec_ok tf) entries" "tf_read tf path w = (Inr (trace_text tf entries), w')"
  shows "load_trace tf path w = (Inr entries, w')"
  using assms by (simp add: load_trace_def lines_of_trace_text)

end
