(* ===== verification/Nodara_Runtime_Client.thy ===== *)
theory Nodara_Runtime_Client
  imports Nodara_Guardrails
begin

text \<open>
  The client of the runtime's REST interface (\<open>runtime_client.rs\<close>). The HTTP library is a parameter: it
  turns a request into a reply and acts on the world. The derived decoders of the schema types are the
  fields of \<open>api_codecs\<close>. Polling a run is a loop that the clock ends.
\<close>

section \<open>Identifiers in paths\<close>

definition utf8_bytes :: "char \<Rightarrow> nat list" where
  "utf8_bytes c = (let n = of_char c in if n < 128 then [n] else [192 + n div 64, 128 + n mod 64])"

definition upper_hex :: "nat \<Rightarrow> char" where
  "upper_hex n = (if n < 10 then char_of (48 + n) else char_of (55 + n))"

definition unreserved :: "nat \<Rightarrow> bool" where
  "unreserved b \<longleftrightarrow> (65 \<le> b \<and> b \<le> 90) \<or> (97 \<le> b \<and> b \<le> 122) \<or> (48 \<le> b \<and> b \<le> 57) \<or> b \<in> {45, 95, 46, 126}"

definition segment_byte :: "nat \<Rightarrow> string" where
  "segment_byte b = (if unreserved b then [char_of b] else [CHR ''%'', upper_hex (b div 16), upper_hex (b mod 16)])"

definition segment :: "string \<Rightarrow> string" where
  "segment s = concat (map segment_byte (concat (map utf8_bytes s)))"

section \<open>The HTTP library and the decoders\<close>

datatype http_request = HttpGet string | HttpPost string json

record http_body =
  hb_content_type :: "string option"
  hb_json :: "(string, json) result"
  hb_bytes :: "(string, 8 word list) result"

datatype http_reply = HttpSuccess http_body | HttpStatus nat http_body | HttpFailure string

type_synonym 'w http = "http_request \<Rightarrow> 'w \<Rightarrow> http_reply \<times> 'w"

record runtime_artifact =
  ra_id :: string
  ra_name :: string
  ra_content_type :: string
  ra_size :: nat

record api_codecs =
  ac_descriptors :: "json \<Rightarrow> (string, node_descriptor list) result"
  ac_report :: "json \<Rightarrow> (string, report) result"
  ac_workflow :: "json \<Rightarrow> (string, workflow) result"
  ac_artifacts :: "json \<Rightarrow> (string, runtime_artifact list) result"
  ac_events :: "json \<Rightarrow> (string, event_envelope list) result"
  ac_session :: "json \<Rightarrow> (string, agent_session) result"
  ac_approval :: "json \<Rightarrow> approval_request option"
  ac_preview_json :: "plan_preview \<Rightarrow> json"
  ac_workflow_json :: "workflow \<Rightarrow> json"

fun role_text :: "message_role \<Rightarrow> string" where
  "role_text Operator = ''operator''"
| "role_text Agent = ''agent''"
| "role_text Runtime = ''runtime''"

fun session_status_text :: "session_status \<Rightarrow> string" where
  "session_status_text SDraft = ''draft''"
| "session_status_text SPlanning = ''planning''"
| "session_status_text SAwaitingApproval = ''awaiting_approval''"
| "session_status_text SReady = ''ready''"
| "session_status_text SRunning = ''running''"
| "session_status_text SCompleted = ''completed''"
| "session_status_text SFailed = ''failed''"
| "session_status_text SCancelled = ''cancelled''"

fun approval_decision_text :: "approval_decision \<Rightarrow> string" where
  "approval_decision_text Approved = ''approved''"
| "approval_decision_text Denied = ''denied''"

datatype run_approval_mode = AutoApproval | SessionApproval

fun approval_mode_text :: "run_approval_mode \<Rightarrow> string" where
  "approval_mode_text AutoApproval = ''auto''"
| "approval_mode_text SessionApproval = ''session''"

section \<open>Requests and replies\<close>

record runtime_client =
  rc_base :: string
  rc_timeout_s :: nat

definition trim_end_slashes :: "string \<Rightarrow> string" where
  "trim_end_slashes s = rev (dropWhile (\<lambda>c. c = CHR ''/'') (rev s))"

definition new_client :: "string \<Rightarrow> runtime_client" where
  "new_client base = \<lparr>rc_base = trim_end_slashes base, rc_timeout_s = 60\<rparr>"

definition error_message :: "http_body \<Rightarrow> string" where
  "error_message b =
     (let body = (case hb_json b of Inr v \<Rightarrow> v | Inl _ \<Rightarrow> JNull)
      in case Option.bind (jget body ''message'') as_str of
           Some text \<Rightarrow> text
         | None \<Rightarrow> ''runtime returned an error'')"

fun decode_reply :: "http_reply \<Rightarrow> (agent_error, json) result" where
  "decode_reply (HttpSuccess b) = (case hb_json b of Inr v \<Rightarrow> Inr v | Inl e \<Rightarrow> Inl (TransportError e))"
| "decode_reply (HttpStatus status b) = Inl (RuntimeError status (error_message b))"
| "decode_reply (HttpFailure e) = Inl (TransportError e)"

definition client_get :: "'w http \<Rightarrow> runtime_client \<Rightarrow> string \<Rightarrow> 'w \<Rightarrow> (agent_error, json) result \<times> 'w" where
  "client_get http c path w = (let (reply, w') = http (HttpGet (rc_base c @ path)) w in (decode_reply reply, w'))"

definition client_post :: "'w http \<Rightarrow> runtime_client \<Rightarrow> string \<Rightarrow> json \<Rightarrow> 'w \<Rightarrow> (agent_error, json) result \<times> 'w" where
  "client_post http c path body w =
     (let (reply, w') = http (HttpPost (rc_base c @ path) body) w in (decode_reply reply, w'))"

definition json_result :: "(string, 'a) result \<Rightarrow> (agent_error, 'a) result" where
  "json_result r = (case r of Inl e \<Rightarrow> Inl (AgentJsonError e) | Inr v \<Rightarrow> Inr v)"

definition and_decode ::
    "(json \<Rightarrow> (agent_error, 'a) result) \<Rightarrow> (agent_error, json) result \<times> 'w \<Rightarrow> (agent_error, 'a) result \<times> 'w" where
  "and_decode f rw = (bind_result (fst rw) f, snd rw)"

definition json_obj :: "(string \<times> json) list \<Rightarrow> json" where
  "json_obj kvs = JObj (om_of_list kvs)"

definition field_of :: "string \<Rightarrow> json \<Rightarrow> (agent_error, json) result" where
  "field_of key payload =
     (case jget payload key of
        Some v \<Rightarrow> Inr v
      | None \<Rightarrow> Inl (TransportError (''missing `'' @ key @ ''` in response'')))"

definition opt_str :: "string option \<Rightarrow> json" where
  "opt_str v = (case v of Some s \<Rightarrow> JStr s | None \<Rightarrow> JNull)"

section \<open>The catalogue and validation\<close>

definition rc_health :: "'w http \<Rightarrow> runtime_client \<Rightarrow> 'w \<Rightarrow> (agent_error, json) result \<times> 'w" where
  "rc_health http c w = client_get http c ''/api/v1/health'' w"

definition rc_node_types ::
    "api_codecs \<Rightarrow> 'w http \<Rightarrow> runtime_client \<Rightarrow> 'w \<Rightarrow> (agent_error, node_descriptor list) result \<times> 'w" where
  "rc_node_types ac http c w =
     and_decode (\<lambda>payload. bind_result (field_of ''node_types'' payload) (\<lambda>v. json_result (ac_descriptors ac v)))
       (client_get http c ''/api/v1/node-types'' w)"

definition rc_plugins :: "'w http \<Rightarrow> runtime_client \<Rightarrow> 'w \<Rightarrow> (agent_error, json) result \<times> 'w" where
  "rc_plugins http c w = client_get http c ''/api/v1/plugins'' w"

definition rc_validate ::
    "api_codecs \<Rightarrow> 'w http \<Rightarrow> runtime_client \<Rightarrow> workflow \<Rightarrow> 'w \<Rightarrow> (agent_error, report) result \<times> 'w" where
  "rc_validate ac http c doc w =
     and_decode (\<lambda>payload. json_result (ac_report ac payload))
       (client_post http c ''/api/v1/workflows/validate'' (json_obj [(''workflow'', ac_workflow_json ac doc)]) w)"

section \<open>Runs\<close>

definition start_body :: "api_codecs \<Rightarrow> workflow \<Rightarrow> json \<Rightarrow> string option \<Rightarrow> bool \<Rightarrow> run_approval_mode \<Rightarrow> json" where
  "start_body ac doc variables session_id start_paused approval =
     json_obj [(''workflow'', ac_workflow_json ac doc), (''variables'', variables), (''session_id'', opt_str session_id),
           (''start_paused'', JBool start_paused), (''approval'', JStr (approval_mode_text approval))]"

definition rc_start_run_with_options ::
    "api_codecs \<Rightarrow> 'w http \<Rightarrow> runtime_client \<Rightarrow> workflow \<Rightarrow> json \<Rightarrow> string option \<Rightarrow> bool \<Rightarrow> run_approval_mode \<Rightarrow> 'w \<Rightarrow>
      (agent_error, json) result \<times> 'w" where
  "rc_start_run_with_options ac http c doc variables session_id start_paused approval w =
     client_post http c ''/api/v1/runs'' (start_body ac doc variables session_id start_paused approval) w"

definition rc_start_run ::
    "api_codecs \<Rightarrow> 'w http \<Rightarrow> runtime_client \<Rightarrow> workflow \<Rightarrow> json \<Rightarrow> 'w \<Rightarrow> (agent_error, json) result \<times> 'w" where
  "rc_start_run ac http c doc variables w =
     rc_start_run_with_options ac http c doc variables None False AutoApproval w"

definition rc_start_run_for_session ::
    "api_codecs \<Rightarrow> 'w http \<Rightarrow> runtime_client \<Rightarrow> string \<Rightarrow> workflow \<Rightarrow> json \<Rightarrow> 'w \<Rightarrow> (agent_error, json) result \<times> 'w" where
  "rc_start_run_for_session ac http c sid doc variables w =
     rc_start_run_with_options ac http c doc variables (Some sid) False SessionApproval w"

definition run_path :: "string \<Rightarrow> string \<Rightarrow> string" where
  "run_path run_id rest = ''/api/v1/runs/'' @ segment run_id @ rest"

definition rc_get_run :: "'w http \<Rightarrow> runtime_client \<Rightarrow> string \<Rightarrow> 'w \<Rightarrow> (agent_error, json) result \<times> 'w" where
  "rc_get_run http c run_id w = client_get http c (run_path run_id []) w"

definition rc_run_workflow ::
    "api_codecs \<Rightarrow> 'w http \<Rightarrow> runtime_client \<Rightarrow> string \<Rightarrow> 'w \<Rightarrow> (agent_error, workflow) result \<times> 'w" where
  "rc_run_workflow ac http c run_id w =
     and_decode (\<lambda>payload. json_result (ac_workflow ac payload)) (client_get http c (run_path run_id ''/workflow'') w)"

definition rc_artifacts ::
    "api_codecs \<Rightarrow> 'w http \<Rightarrow> runtime_client \<Rightarrow> string \<Rightarrow> 'w \<Rightarrow> (agent_error, runtime_artifact list) result \<times> 'w" where
  "rc_artifacts ac http c run_id w =
     and_decode (\<lambda>payload. bind_result (field_of ''artifacts'' payload) (\<lambda>v. json_result (ac_artifacts ac v)))
       (client_get http c (run_path run_id ''/artifacts'') w)"

definition media_type :: "string option \<Rightarrow> string" where
  "media_type header =
     (let text = (case header of Some h \<Rightarrow> h | None \<Rightarrow> ''application/octet-stream'')
      in trim (hd (split_by (\<lambda>ch. ch = CHR '';'') text)))"

definition max_download :: nat where
  "max_download = 32 * 1024 * 1024"

definition rc_artifact_bytes ::
    "'w http \<Rightarrow> runtime_client \<Rightarrow> string \<Rightarrow> string \<Rightarrow> 'w \<Rightarrow> (agent_error, string \<times> 8 word list) result \<times> 'w" where
  "rc_artifact_bytes http c run_id artifact_id w =
     (let (reply, w') = http (HttpGet (rc_base c @ run_path run_id (''/artifacts/'' @ segment artifact_id))) w in
      (case reply of
         HttpSuccess b \<Rightarrow>
           (case hb_bytes b of
              Inl e \<Rightarrow> Inl (TransportError e)
            | Inr bytes \<Rightarrow> Inr (media_type (hb_content_type b), take max_download bytes))
       | HttpStatus status b \<Rightarrow> Inl (RuntimeError status (error_message b))
       | HttpFailure e \<Rightarrow> Inl (TransportError e), w'))"

definition rc_event_log ::
    "api_codecs \<Rightarrow> 'w http \<Rightarrow> runtime_client \<Rightarrow> string \<Rightarrow> 'w \<Rightarrow> (agent_error, event_envelope list) result \<times> 'w" where
  "rc_event_log ac http c run_id w =
     and_decode (\<lambda>payload. json_result (ac_events ac payload)) (client_get http c (run_path run_id ''/event-log'') w)"

definition rc_pause :: "'w http \<Rightarrow> runtime_client \<Rightarrow> string \<Rightarrow> 'w \<Rightarrow> (agent_error, json) result \<times> 'w" where
  "rc_pause http c run_id w = client_post http c (run_path run_id ''/pause'') (json_obj []) w"

definition rc_resume :: "'w http \<Rightarrow> runtime_client \<Rightarrow> string \<Rightarrow> 'w \<Rightarrow> (agent_error, json) result \<times> 'w" where
  "rc_resume http c run_id w = client_post http c (run_path run_id ''/resume'') (json_obj []) w"

definition rc_cancel :: "'w http \<Rightarrow> runtime_client \<Rightarrow> string \<Rightarrow> 'w \<Rightarrow> (agent_error, json) result \<times> 'w" where
  "rc_cancel http c run_id w = client_post http c (run_path run_id ''/cancel'') (json_obj []) w"

section \<open>Sessions\<close>

definition session_path :: "string \<Rightarrow> string \<Rightarrow> string" where
  "session_path sid rest = ''/api/v1/agent/sessions/'' @ segment sid @ rest"

definition session_reply ::
    "api_codecs \<Rightarrow> (agent_error, json) result \<times> 'w \<Rightarrow> (agent_error, agent_session) result \<times> 'w" where
  "session_reply ac rw = and_decode (\<lambda>payload. json_result (ac_session ac payload)) rw"

definition rc_create_session ::
    "api_codecs \<Rightarrow> 'w http \<Rightarrow> runtime_client \<Rightarrow> string \<Rightarrow> string \<Rightarrow> 'w \<Rightarrow> (agent_error, agent_session) result \<times> 'w" where
  "rc_create_session ac http c goal provider w =
     session_reply ac (client_post http c ''/api/v1/agent/sessions''
       (json_obj [(''goal'', JStr goal), (''provider'', JStr provider)]) w)"

definition rc_get_session ::
    "api_codecs \<Rightarrow> 'w http \<Rightarrow> runtime_client \<Rightarrow> string \<Rightarrow> 'w \<Rightarrow> (agent_error, agent_session) result \<times> 'w" where
  "rc_get_session ac http c sid w = session_reply ac (client_get http c (session_path sid []) w)"

definition rc_append_message ::
    "api_codecs \<Rightarrow> 'w http \<Rightarrow> runtime_client \<Rightarrow> string \<Rightarrow> message_role \<Rightarrow> string \<Rightarrow> 'w \<Rightarrow>
      (agent_error, agent_session) result \<times> 'w" where
  "rc_append_message ac http c sid role text w =
     session_reply ac (client_post http c (session_path sid ''/messages'')
       (json_obj [(''role'', JStr (role_text role)), (''text'', JStr text)]) w)"

definition rc_publish_plan ::
    "api_codecs \<Rightarrow> 'w http \<Rightarrow> runtime_client \<Rightarrow> string \<Rightarrow> plan_preview \<Rightarrow> 'w \<Rightarrow> (agent_error, agent_session) result \<times> 'w" where
  "rc_publish_plan ac http c sid preview w =
     session_reply ac (client_post http c (session_path sid ''/plan'') (ac_preview_json ac preview) w)"

definition rc_set_session_status ::
    "api_codecs \<Rightarrow> 'w http \<Rightarrow> runtime_client \<Rightarrow> string \<Rightarrow> session_status \<Rightarrow> 'w \<Rightarrow>
      (agent_error, agent_session) result \<times> 'w" where
  "rc_set_session_status ac http c sid status w =
     session_reply ac (client_post http c (session_path sid ''/status'')
       (json_obj [(''status'', JStr (session_status_text status))]) w)"

definition rc_pending_approvals ::
    "api_codecs \<Rightarrow> 'w http \<Rightarrow> runtime_client \<Rightarrow> 'w \<Rightarrow> (agent_error, approval_request list) result \<times> 'w" where
  "rc_pending_approvals ac http c w =
     and_decode (\<lambda>payload. Inr (List.map_filter (\<lambda>entry. Option.bind (jget entry ''approval'') (ac_approval ac))
         (case as_array payload of Some entries \<Rightarrow> entries | None \<Rightarrow> [])))
       (client_get http c ''/api/v1/agent/approvals'' w)"

definition rc_decide_approval ::
    "api_codecs \<Rightarrow> 'w http \<Rightarrow> runtime_client \<Rightarrow> string \<Rightarrow> string \<Rightarrow> approval_decision \<Rightarrow> string \<Rightarrow> 'w \<Rightarrow>
      (agent_error, agent_session) result \<times> 'w" where
  "rc_decide_approval ac http c sid approval_id decision decided_by w =
     session_reply ac (client_post http c (session_path sid (''/approvals/'' @ segment approval_id))
       (json_obj [(''decision'', JStr (approval_decision_text decision)), (''decided_by'', JStr decided_by)]) w)"

definition rc_sessions :: "'w http \<Rightarrow> runtime_client \<Rightarrow> 'w \<Rightarrow> (agent_error, json) result \<times> 'w" where
  "rc_sessions http c w = client_get http c ''/api/v1/agent/sessions'' w"

definition rc_audit ::
    "'w http \<Rightarrow> runtime_client \<Rightarrow> string option \<Rightarrow> nat option \<Rightarrow> 'w \<Rightarrow> (agent_error, json list) result \<times> 'w" where
  "rc_audit http c run_id limit w =
     (let query = (case run_id of Some r \<Rightarrow> [''run_id='' @ segment r] | None \<Rightarrow> []) @
                  (case limit of Some n \<Rightarrow> [''limit='' @ show_nat n] | None \<Rightarrow> []);
          rest = (if query = [] then [] else ''?'' @ join_with ''&'' query)
      in and_decode (\<lambda>payload. Inr (case as_array payload of Some entries \<Rightarrow> entries | None \<Rightarrow> []))
           (client_get http c (''/api/v1/audit'' @ rest) w))"

section \<open>Waiting for a run\<close>

definition snapshot_status :: "json \<Rightarrow> string" where
  "snapshot_status snapshot =
     (case Option.bind (jget snapshot ''status'') as_str of Some s \<Rightarrow> s | None \<Rightarrow> ''unknown'')"

definition status_terminal :: "string \<Rightarrow> bool" where
  "status_terminal s \<longleftrightarrow> s = ''completed'' \<or> s = ''failed'' \<or> s = ''cancelled''"

partial_function (option) grace_loop ::
    "'w http \<Rightarrow> 'w machine \<Rightarrow> runtime_client \<Rightarrow> string \<Rightarrow> nat \<Rightarrow> 'w \<Rightarrow> ((agent_error, json) result \<times> 'w) option" where
  "grace_loop http m c run_id grace w =
     (case rc_get_run http c run_id w of
        (Inl e, w1) \<Rightarrow> Some (Inl e, w1)
      | (Inr snapshot, w1) \<Rightarrow>
          if status_terminal (snapshot_status snapshot) then Some (Inr snapshot, w1)
          else (case mc_instant_ns m w1 of
                  (now, w2) \<Rightarrow>
                    if grace \<le> now then Some (Inr snapshot, w2)
                    else grace_loop http m c run_id grace (mc_sleep_ms m 100 w2)))"

text \<open>The deadline passed: cancel the run and wait five seconds more.\<close>

definition cancel_and_wait ::
    "'w http \<Rightarrow> 'w machine \<Rightarrow> runtime_client \<Rightarrow> string \<Rightarrow> 'w \<Rightarrow> ((agent_error, json) result \<times> 'w) option" where
  "cancel_and_wait http m c run_id w =
     (let (_, w1) = rc_cancel http c run_id w; (now, w2) = mc_instant_ns m w1
      in grace_loop http m c run_id (now + 5 * 10 ^ 9) w2)"

partial_function (option) wait_loop ::
    "'w http \<Rightarrow> 'w machine \<Rightarrow> runtime_client \<Rightarrow> string \<Rightarrow> nat \<Rightarrow> 'w \<Rightarrow> ((agent_error, json) result \<times> 'w) option" where
  "wait_loop http m c run_id deadline w =
     (case rc_get_run http c run_id w of
        (Inl e, w1) \<Rightarrow> Some (Inl e, w1)
      | (Inr snapshot, w1) \<Rightarrow>
          if status_terminal (snapshot_status snapshot) then Some (Inr snapshot, w1)
          else (case mc_instant_ns m w1 of
                  (now, w2) \<Rightarrow>
                    if deadline \<le> now then cancel_and_wait http m c run_id w2
                    else wait_loop http m c run_id deadline (mc_sleep_ms m 100 w2)))"

definition wait_for_run ::
    "'w http \<Rightarrow> 'w machine \<Rightarrow> runtime_client \<Rightarrow> string \<Rightarrow> nat \<Rightarrow> 'w \<Rightarrow> ((agent_error, json) result \<times> 'w) option" where
  "wait_for_run http m c run_id timeout_ns w =
     (let (now, w1) = mc_instant_ns m w in wait_loop http m c run_id (now + timeout_ns) w1)"

end
