(* ===== verification/Nodara_Agent.thy ===== *)
theory Nodara_Agent
  imports Nodara_Planner Nodara_Selector Nodara_Observation Nodara_Report Nodara_Runtime_Client
begin

text \<open>
  The agent session (\<open>agent.rs\<close>): discover, select, plan, guard, review, publish, run, re-plan, report.
  \<open>agent_env\<close> holds what the agent is built over: the libraries, the machine, the provider, the HTTP
  library and the file system, all acting on one world. The state of a session is its trace, the events
  its observer received and the world; \<open>None\<close> stands for a session that never returns, which only waiting
  for a run can cause.
\<close>

section \<open>Configuration and outcome\<close>

record 'w agent_env =
  ae_ext :: agent_externs
  ae_codecs :: api_codecs
  ae_machine :: "'w machine"
  ae_provider :: "'w llm_provider"
  ae_http :: "'w http"
  ae_files :: "'w trace_files"

record agent_config =
  gc_runtime_url :: string
  gc_max_repairs :: u32
  gc_budget :: budget
  gc_tools :: tool_policy
  gc_trace_path :: "string option"
  gc_auto_run :: bool
  gc_run_timeout_ns :: nat
  gc_variables :: json
  gc_publish_session :: bool
  gc_offline :: bool
  gc_tool_selector :: tool_selector
  gc_base_workflow :: "workflow option"
  gc_session_id :: "string option"
  gc_approval_mode :: run_approval_mode
  gc_start_paused :: bool

definition default_agent_config :: agent_config where
  "default_agent_config =
     \<lparr>gc_runtime_url = ''http://127.0.0.1:8710'', gc_max_repairs = 3, gc_budget = default_budget,
      gc_tools = unrestricted, gc_trace_path = None, gc_auto_run = False, gc_run_timeout_ns = 300 * 10 ^ 9,
      gc_variables = JObj [], gc_publish_session = True, gc_offline = False, gc_tool_selector = default_selector,
      gc_base_workflow = None, gc_session_id = None, gc_approval_mode = AutoApproval, gc_start_paused = False\<rparr>"

record agent_outcome =
  ao_accepted :: bool
  ao_workflow :: "workflow option"
  ao_run :: "json option"
  ao_trace :: "trace_entry list"
  ao_tokens_used :: u64
  ao_session_id :: "string option"
  ao_report :: execution_report

definition run_succeeded :: "agent_outcome \<Rightarrow> bool" where
  "run_succeeded out = (er_status (ao_report out) = ''completed'')"

record 'w agent_state =
  ag_trace :: audit_trace
  ag_events :: "plan_event list"
  ag_world :: 'w

definition client_of :: "agent_config \<Rightarrow> runtime_client" where
  "client_of cfg = new_client (gc_runtime_url cfg)"

definition on_world :: "('w \<Rightarrow> 'a \<times> 'w) \<Rightarrow> 'w agent_state \<Rightarrow> 'a \<times> 'w agent_state" where
  "on_world f st = (let (r, w) = f (ag_world st) in (r, st\<lparr>ag_world := w\<rparr>))"

text \<open>\<open>let _ = ...\<close>: a call whose result is dropped.\<close>

definition ignoring :: "('w \<Rightarrow> 'a \<times> 'w) \<Rightarrow> 'w agent_state \<Rightarrow> 'w agent_state" where
  "ignoring f st = st\<lparr>ag_world := snd (f (ag_world st))\<rparr>"

definition note_step :: "'w agent_env \<Rightarrow> trace_step \<Rightarrow> string \<Rightarrow> json \<Rightarrow> 'w agent_state \<Rightarrow> 'w agent_state" where
  "note_step env step summary payload st =
     (let (t, w) = trace_record (ae_machine env) (ae_files env) step summary payload (ag_trace st) (ag_world st)
      in st\<lparr>ag_trace := t, ag_world := w\<rparr>)"

definition observe :: "plan_event list \<Rightarrow> 'w agent_state \<Rightarrow> 'w agent_state" where
  "observe es st = st\<lparr>ag_events := ag_events st @ es\<rparr>"

definition names_json :: "string list \<Rightarrow> json" where
  "names_json ss = JArr (map JStr ss)"

definition nat_json :: "nat \<Rightarrow> json" where
  "nat_json n = JNum (num_of_u64 n)"

section \<open>The published session\<close>

definition append_turn ::
    "'w agent_env \<Rightarrow> agent_config \<Rightarrow> string \<Rightarrow> message_role \<Rightarrow> string \<Rightarrow> 'w agent_state \<Rightarrow> 'w agent_state" where
  "append_turn env cfg sid role text st =
     ignoring (rc_append_message (ae_codecs env) (ae_http env) (client_of cfg) sid role text) st"

definition finish_session ::
    "'w agent_env \<Rightarrow> agent_config \<Rightarrow> string option \<Rightarrow> session_status \<Rightarrow> 'w agent_state \<Rightarrow> 'w agent_state" where
  "finish_session env cfg sid status st =
     (case sid of
        None \<Rightarrow> st
      | Some s \<Rightarrow> ignoring (rc_set_session_status (ae_codecs env) (ae_http env) (client_of cfg) s status) st)"

definition publish_preview ::
    "'w agent_env \<Rightarrow> agent_config \<Rightarrow> string option \<Rightarrow> workflow \<Rightarrow> report \<Rightarrow> 'w agent_state \<Rightarrow> 'w agent_state" where
  "publish_preview env cfg sid doc report st =
     (case sid of
        None \<Rightarrow> st
      | Some s \<Rightarrow>
          (let (now, st1) = on_world (mc_now_ms (ae_machine env)) st;
               preview = \<lparr>pp_at_ms = now, pp_workflow = doc, pp_valid = is_valid report, pp_errors = error_count report,
                          pp_warnings = warning_count report, pp_diagnostics = report\<rparr>
           in append_turn env cfg s Agent
                (''Proposed `'' @ w_id doc @ ''` with '' @ show_nat (length (w_nodes doc)) @ '' node(s) and '' @
                 show_nat (length (w_edges doc)) @ '' edge(s).'')
                (ignoring (rc_publish_plan (ae_codecs env) (ae_http env) (client_of cfg) s preview) st1)))"

definition session_messages_to_chat :: "session_message list \<Rightarrow> chat_message list" where
  "session_messages_to_chat ms =
     map (\<lambda>msg. case sm_role msg of
            Operator \<Rightarrow> user_message (sm_text msg)
          | Agent \<Rightarrow> assistant_message (sm_text msg)
          | Runtime \<Rightarrow> assistant_message (''[runtime] '' @ sm_text msg))
       (rev (take 20 (rev ms)))"

section \<open>Evidence of a run\<close>

definition max_context_images :: nat where "max_context_images = 12"
definition max_context_image_bytes :: nat where "max_context_image_bytes = 8 * 1024 * 1024"
definition max_context_image_total_bytes :: nat where "max_context_image_total_bytes = 24 * 1024 * 1024"

record image_budget =
  ib_images :: "chat_image list"
  ib_bytes :: nat
  ib_skipped :: "string list"

definition skip_image :: "string \<Rightarrow> image_budget \<Rightarrow> image_budget" where
  "skip_image name ib = ib\<lparr>ib_skipped := ib_skipped ib @ [name]\<rparr>"

definition fits :: "nat \<Rightarrow> image_budget \<Rightarrow> bool" where
  "fits n ib \<longleftrightarrow> n \<le> max_context_image_bytes \<and> ib_bytes ib + n \<le> max_context_image_total_bytes"

definition attach_image ::
    "'w agent_env \<Rightarrow> agent_config \<Rightarrow> string \<Rightarrow> runtime_artifact \<Rightarrow> image_budget \<Rightarrow> 'w agent_state \<Rightarrow>
      image_budget \<times> 'w agent_state" where
  "attach_image env cfg run_id a ib st =
     (if \<not> starts_with ''image/'' (ra_content_type a) then (ib, st)
      else if max_context_images \<le> length (ib_images ib) \<or> \<not> fits (ra_size a) ib then (skip_image (ra_name a) ib, st)
      else
        (case on_world (rc_artifact_bytes (ae_http env) (client_of cfg) run_id (ra_id a)) st of
           (Inr (media, bytes), st1) \<Rightarrow>
             if fits (length bytes) ib
             then (ib\<lparr>ib_bytes := ib_bytes ib + length bytes,
                      ib_images := ib_images ib @
                        [\<lparr>ci_name = ra_name a, ci_media_type = media, ci_data_base64 = ax_base64 (ae_ext env) bytes,
                          ci_artifact_id = Some (ra_id a)\<rparr>]\<rparr>, st1)
             else (skip_image (ra_name a) ib, st1)
         | (Inl e, st1) \<Rightarrow>
             (skip_image (ra_name a) ib,
              note_step env NoteStep (''could not load artifact `'' @ ra_name a @ ''`: '' @ agent_error_text e)
                (json_obj [(''artifact_id'', JStr (ra_id a))]) st1)))"

fun attach_images ::
    "'w agent_env \<Rightarrow> agent_config \<Rightarrow> string \<Rightarrow> runtime_artifact list \<Rightarrow> image_budget \<Rightarrow> 'w agent_state \<Rightarrow>
      image_budget \<times> 'w agent_state" where
  "attach_images env cfg run_id [] ib st = (ib, st)"
| "attach_images env cfg run_id (a # rest) ib st =
     (let (ib1, st1) = attach_image env cfg run_id a ib st in attach_images env cfg run_id rest ib1 st1)"

definition evidence_instructions :: string where
  "evidence_instructions =
     ''This is the exact runtime evidence for the previous turn. Node input snapshots contain authored config, resolved config, data-port inputs and redacted variables before execution. Node finished events contain outputs and redacted variables after execution. DataTransferred events contain the exact value on each data edge. Use image attachments to inspect screenshots and derive pixel positions or visual styling.''"

definition artifact_json :: "runtime_artifact \<Rightarrow> json" where
  "artifact_json a =
     json_obj [(''id'', JStr (ra_id a)), (''name'', JStr (ra_name a)), (''content_type'', JStr (ra_content_type a)),
           (''size'', nat_json (ra_size a))]"

definition image_json :: "chat_image \<Rightarrow> json" where
  "image_json i =
     json_obj [(''artifact_id'', opt_str (ci_artifact_id i)), (''name'', JStr (ci_name i)),
           (''media_type'', JStr (ci_media_type i))]"

definition evidence_json ::
    "agent_externs \<Rightarrow> json \<Rightarrow> workflow option \<Rightarrow> event_envelope list \<Rightarrow> runtime_artifact list \<Rightarrow> image_budget \<Rightarrow> json" where
  "evidence_json ax snapshot doc events artifacts ib =
     json_obj [(''instructions'', JStr evidence_instructions), (''run'', snapshot),
           (''workflow'', case doc of Some d \<Rightarrow> ax_workflow_json ax d | None \<Rightarrow> JNull),
           (''events'', JArr (map (ax_event_json ax) events)), (''artifacts'', JArr (map artifact_json artifacts)),
           (''image_attachments'', JArr (map image_json (ib_images ib))),
           (''image_attachments_skipped'', names_json (ib_skipped ib))]"

definition runtime_context_from_parts ::
    "'w agent_env \<Rightarrow> agent_config \<Rightarrow> string \<Rightarrow> json \<Rightarrow> workflow option \<Rightarrow> event_envelope list \<Rightarrow>
      runtime_artifact list \<Rightarrow> 'w agent_state \<Rightarrow> chat_message \<times> 'w agent_state" where
  "runtime_context_from_parts env cfg run_id snapshot doc events artifacts st =
     (let (ib, st1) = attach_images env cfg run_id artifacts \<lparr>ib_images = [], ib_bytes = 0, ib_skipped = []\<rparr> st;
          st2 = note_step env NoteStep
            (''loaded complete runtime evidence for run '' @ run_id @ '': '' @ show_nat (length events) @ '' event(s), '' @
             show_nat (length (ib_images ib)) @ '' image(s), '' @ show_nat (ib_bytes ib) @ '' byte(s)'')
            (json_obj [(''run_id'', JStr run_id), (''events'', nat_json (length events)),
                   (''images_attached'', nat_json (length (ib_images ib))), (''image_bytes'', nat_json (ib_bytes ib)),
                   (''images_skipped'', names_json (ib_skipped ib))]) st1
      in (user_message_with_images
            (''[runtime evidence for '' @ run_id @ '']'' @ [newline] @
             ax_json_pretty (ae_ext env) (evidence_json (ae_ext env) snapshot doc events artifacts ib))
            (ib_images ib), st2))"

definition ok_or :: "'a \<Rightarrow> ('e, 'a) result \<Rightarrow> 'a" where
  "ok_or fallback r = (case r of Inr v \<Rightarrow> v | Inl _ \<Rightarrow> fallback)"

definition ok_option :: "('e, 'a) result \<Rightarrow> 'a option" where
  "ok_option r = (case r of Inr v \<Rightarrow> Some v | Inl _ \<Rightarrow> None)"

definition runtime_context_message ::
    "'w agent_env \<Rightarrow> agent_config \<Rightarrow> agent_session \<Rightarrow> 'w agent_state \<Rightarrow> chat_message option \<times> 'w agent_state" where
  "runtime_context_message env cfg session st =
     (case as_run_id session of
        None \<Rightarrow> (None, st)
      | Some run_id \<Rightarrow>
          (case on_world (rc_get_run (ae_http env) (client_of cfg) run_id) st of
             (Inl _, st1) \<Rightarrow> (None, st1)
           | (Inr snapshot, st1) \<Rightarrow>
               (let (doc, st2) = on_world (rc_run_workflow (ae_codecs env) (ae_http env) (client_of cfg) run_id) st1;
                    (events, st3) = on_world (rc_event_log (ae_codecs env) (ae_http env) (client_of cfg) run_id) st2;
                    (artifacts, st4) = on_world (rc_artifacts (ae_codecs env) (ae_http env) (client_of cfg) run_id) st3;
                    (msg, st5) = runtime_context_from_parts env cfg run_id snapshot (ok_option doc) (ok_or [] events)
                      (ok_or [] artifacts) st4
                in (Some msg, st5))))"

definition begin_session ::
    "'w agent_env \<Rightarrow> agent_config \<Rightarrow> string \<Rightarrow> 'w agent_state \<Rightarrow> (string option \<times> chat_message list) \<times> 'w agent_state" where
  "begin_session env cfg goal st =
     (if \<not> gc_publish_session cfg then ((None, []), st)
      else case gc_session_id cfg of
        Some sid \<Rightarrow>
          (case on_world (rc_get_session (ae_codecs env) (ae_http env) (client_of cfg) sid) st of
             (Inl e, st1) \<Rightarrow>
               ((None, []), note_step env NoteStep
                  (''session `'' @ sid @ ''` could not be loaded: '' @ agent_error_text e) JNull st1)
           | (Inr session, st1) \<Rightarrow>
               (let (evidence, st2) = runtime_context_message env cfg session st1;
                    history = session_messages_to_chat (as_messages session) @
                      (case evidence of Some msg \<Rightarrow> [msg] | None \<Rightarrow> []);
                    st3 = append_turn env cfg sid Operator goal st2;
                    st4 = ignoring (rc_set_session_status (ae_codecs env) (ae_http env) (client_of cfg) sid SPlanning) st3
                in ((Some sid, history),
                    note_step env NoteStep (''continued session '' @ sid) (json_obj [(''session_id'', JStr sid)]) st4)))
      | None \<Rightarrow>
          (case on_world (rc_create_session (ae_codecs env) (ae_http env) (client_of cfg) goal (lp_name (ae_provider env))) st of
             (Inr session, st1) \<Rightarrow>
               ((Some (as_id session), []),
                note_step env NoteStep (''session '' @ as_id session @ '' created'')
                  (json_obj [(''session_id'', JStr (as_id session))]) st1)
           | (Inl e, st1) \<Rightarrow>
               ((None, []),
                note_step env NoteStep (''session could not be published: '' @ agent_error_text e) JNull st1)))"

section \<open>One run\<close>

datatype run_attempt =
    AttemptSucceeded json "event_envelope list" "string list"
  | AttemptReplannable string "json option" "event_envelope list" "string list"
  | AttemptTerminal json "event_envelope list" "string list"

fun highlight :: "execution_event \<Rightarrow> string option" where
  "highlight (Log _ message _) = Some message"
| "highlight (NodeFailed nid code message _ _) = Some (nid @ '' failed ['' @ code @ '']: '' @ message)"
| "highlight (CapabilityDecision capability decision _) =
     (if decision \<noteq> ''allow'' then Some (''policy '' @ capability @ '': '' @ decision) else None)"
| "highlight _ = None"

definition summarise :: "event_envelope list \<Rightarrow> string list" where
  "summarise events = List.map_filter (\<lambda>e. highlight (ev_event e)) events"

definition json_u64_or_zero :: "json option \<Rightarrow> nat" where
  "json_u64_or_zero v = (case Option.bind v as_u64 of Some n \<Rightarrow> n | None \<Rightarrow> 0)"

definition failure_field :: "json \<Rightarrow> string \<Rightarrow> json option" where
  "failure_field snapshot key = Option.bind (jget snapshot ''failure'') (\<lambda>f. jget f key)"

definition classify_run :: "json \<Rightarrow> event_envelope list \<Rightarrow> string list \<Rightarrow> run_attempt" where
  "classify_run snapshot events highlights =
     (let status = snapshot_status snapshot in
      if status = ''completed'' then AttemptSucceeded snapshot events highlights
      else
        (let code = str_or ''unknown'' (failure_field snapshot ''code'');
             message = str_or ''no message'' (failure_field snapshot ''message'')
         in if status = ''failed'' \<and> code \<in> {''E_INVALID_CONFIG'', ''E_EXECUTION''}
            then AttemptReplannable (''run failed: ['' @ code @ ''] '' @ message) (Some snapshot) events highlights
            else AttemptTerminal snapshot events highlights))"

definition finish_run_attempt ::
    "'w agent_env \<Rightarrow> agent_config \<Rightarrow> string option \<Rightarrow> string \<Rightarrow> json \<Rightarrow> 'w agent_state \<Rightarrow> run_attempt \<times> 'w agent_state" where
  "finish_run_attempt env cfg sid run_id snapshot st =
     (let (log, st1) = on_world (rc_event_log (ae_codecs env) (ae_http env) (client_of cfg) run_id) st;
          events = ok_or [] log;
          status = snapshot_status snapshot;
          st2 = note_step env RunFinishedStep (''run '' @ run_id @ '' finished as '' @ status) snapshot st1;
          st3 = (case sid of
                   None \<Rightarrow> st2
                 | Some s \<Rightarrow> append_turn env cfg s Runtime
                     (''Run finished as '' @ status @ '' after '' @
                      show_nat (json_u64_or_zero (jget snapshot ''nodes_executed'')) @ '' node(s).'') st2)
      in (classify_run snapshot events (summarise events), st3))"

definition is_paused_start :: "agent_config \<Rightarrow> json \<Rightarrow> bool" where
  "is_paused_start cfg started \<longleftrightarrow> gc_start_paused cfg \<and> Option.bind (jget started ''status'') as_str = Some ''paused''"

definition watch_run ::
    "'w agent_env \<Rightarrow> agent_config \<Rightarrow> string option \<Rightarrow> string \<Rightarrow> 'w agent_state \<Rightarrow> (run_attempt \<times> 'w agent_state) option" where
  "watch_run env cfg sid run_id st =
     (case wait_for_run (ae_http env) (ae_machine env) (client_of cfg) run_id (gc_run_timeout_ns cfg) (ag_world st) of
        None \<Rightarrow> None
      | Some (Inl e, w) \<Rightarrow>
          (let st1 = note_step env NoteStep (''lost contact with run '' @ run_id @ '': '' @ agent_error_text e) JNull
                 (st\<lparr>ag_world := w\<rparr>)
           in Some (AttemptTerminal JNull [] [], ignoring (rc_cancel (ae_http env) (client_of cfg) run_id) st1))
      | Some (Inr snapshot, w) \<Rightarrow> Some (finish_run_attempt env cfg sid run_id snapshot (st\<lparr>ag_world := w\<rparr>)))"

definition run_once ::
    "'w agent_env \<Rightarrow> agent_config \<Rightarrow> string option \<Rightarrow> workflow \<Rightarrow> 'w agent_state \<Rightarrow> (run_attempt \<times> 'w agent_state) option" where
  "run_once env cfg sid doc st =
     (case on_world (rc_start_run_with_options (ae_codecs env) (ae_http env) (client_of cfg) doc (gc_variables cfg) sid
              (gc_start_paused cfg) (gc_approval_mode cfg)) st of
        (Inl e, st1) \<Rightarrow>
          Some (AttemptTerminal JNull [] [],
            note_step env NoteStep (''the runtime refused to start the run: '' @ agent_error_text e) JNull st1)
      | (Inr started, st1) \<Rightarrow>
          (let run_id = str_or [] (jget started ''id'');
               st2 = note_step env RunStartedStep (''run '' @ run_id @ '' accepted'') started st1;
               st3 = (case sid of
                        None \<Rightarrow> st2
                      | Some s \<Rightarrow> append_turn env cfg s Agent (''Running `'' @ run_id @ ''`.'') st2)
           in if is_paused_start cfg started
              then Some (AttemptTerminal started [] [''Run '' @ run_id @ '' is paused''],
                (case sid of
                   None \<Rightarrow> st3
                 | Some s \<Rightarrow> append_turn env cfg s Runtime
                     (''Run `'' @ run_id @ ''` is paused and ready for operator resume.'') st3))
              else watch_run env cfg sid run_id st3))"

section \<open>Reports\<close>

definition run_duration :: "json \<Rightarrow> nat" where
  "run_duration snapshot =
     (case (Option.bind (jget snapshot ''finished_at_ms'') as_u64, Option.bind (jget snapshot ''started_at_ms'') as_u64) of
        (Some t1, Some t0) \<Rightarrow> t1 - t0
      | _ \<Rightarrow> 0)"

definition build_report ::
    "string \<Rightarrow> string option \<Rightarrow> json \<Rightarrow> bool \<Rightarrow> u32 \<Rightarrow> event_envelope list \<Rightarrow> string list \<Rightarrow> u64 \<Rightarrow> trace_entry list \<Rightarrow>
      execution_report" where
  "build_report goal sid snapshot accepted attempts events highlights tokens trace =
     \<lparr>er_goal = goal, er_session_id = sid, er_run_id = Option.bind (jget snapshot ''id'') as_str, er_accepted = accepted,
      er_attempts = attempts,
      er_status = str_or (if accepted then ''planned'' else ''rejected'') (jget snapshot ''status''),
      er_nodes_executed = json_u64_or_zero (jget snapshot ''nodes_executed''),
      er_duration_ms = of_nat (run_duration snapshot),
      er_variables = (case Option.bind (jget snapshot ''variables'') as_object of Some m \<Rightarrow> m | None \<Rightarrow> []),
      er_failure = jget snapshot ''failure'', er_events_observed = length events, er_highlights = highlights,
      er_tokens_used = tokens, er_trace = trace\<rparr>"

section \<open>The loop\<close>

definition max_run_attempts :: u32 where
  "max_run_attempts = 2"

record 'w session_vars =
  sv_state :: "'w agent_state"
  sv_tracker :: budget_tracker
  sv_tokens :: u64
  sv_attempts :: u32
  sv_run_attempts :: u32
  sv_feedback :: string
  sv_observation :: string
  sv_reviewed :: bool
  sv_conversation :: "chat_message list"

text \<open>What stays fixed during a session: the goal, the constraints, whether to run, the session's id, the
  catalogue and the selected tools.\<close>

record session_frame =
  sf_goal :: string
  sf_constraints :: "string list"
  sf_run :: bool
  sf_session_id :: "string option"
  sf_descriptors :: "node_descriptor list"
  sf_selected :: "node_descriptor list"

datatype turn_end = Stop "(agent_failure, agent_outcome) result" | Again

definition with_state :: "('w agent_state \<Rightarrow> 'w agent_state) \<Rightarrow> 'w session_vars \<Rightarrow> 'w session_vars" where
  "with_state f v = v\<lparr>sv_state := f (sv_state v)\<rparr>"

definition fail_session ::
    "'w agent_env \<Rightarrow> agent_config \<Rightarrow> session_frame \<Rightarrow> agent_error \<Rightarrow> 'w session_vars \<Rightarrow> turn_end \<times> 'w session_vars" where
  "fail_session env cfg fr e v =
     (Stop (Inl (Returned e)), with_state (finish_session env cfg (sf_session_id fr) SFailed) v)"

definition session_report ::
    "session_frame \<Rightarrow> json \<Rightarrow> bool \<Rightarrow> event_envelope list \<Rightarrow> string list \<Rightarrow> 'w session_vars \<Rightarrow> execution_report" where
  "session_report fr snapshot accepted events highlights v =
     build_report (sf_goal fr) (sf_session_id fr) snapshot accepted (sv_attempts v) events highlights (sv_tokens v)
       (at_entries (ag_trace (sv_state v)))"

text \<open>The end of a session: the report, the status, the outcome.\<close>

definition conclude ::
    "'w agent_env \<Rightarrow> agent_config \<Rightarrow> session_frame \<Rightarrow> execution_report \<Rightarrow> bool \<Rightarrow> workflow option \<Rightarrow> json option \<Rightarrow>
      session_status \<Rightarrow> 'w session_vars \<Rightarrow> turn_end \<times> 'w session_vars" where
  "conclude env cfg fr report accepted doc run status v =
     (Stop (Inr \<lparr>ao_accepted = accepted, ao_workflow = doc, ao_run = run,
         ao_trace = at_entries (ag_trace (sv_state v)), ao_tokens_used = sv_tokens v,
         ao_session_id = sf_session_id fr, ao_report = report\<rparr>),
      with_state (finish_session env cfg (sf_session_id fr) status) v)"

definition finish_without_plan ::
    "'w agent_env \<Rightarrow> agent_config \<Rightarrow> session_frame \<Rightarrow> bool \<Rightarrow> 'w session_vars \<Rightarrow> turn_end \<times> 'w session_vars" where
  "finish_without_plan env cfg fr accepted v =
     conclude env cfg fr (session_report fr JNull accepted [] [] v) accepted None None SFailed v"

definition turn_request :: "agent_config \<Rightarrow> session_frame \<Rightarrow> 'w session_vars \<Rightarrow> plan_request" where
  "turn_request cfg fr v =
     (let rq = \<lparr>rq_goal = sf_goal fr, rq_constraints = sf_constraints fr, rq_max_repairs = gc_max_repairs cfg,
                rq_base = gc_base_workflow cfg, rq_history = sv_conversation v\<rparr>;
          rq1 = (if sv_feedback v \<noteq> []
                 then with_constraint rq (''A previous attempt failed: '' @ sv_feedback v) else rq)
      in if sv_observation v \<noteq> [] then with_constraint rq1 (sv_observation v) else rq1)"

definition plan_turn ::
    "'w agent_env \<Rightarrow> agent_config \<Rightarrow> session_frame \<Rightarrow> 'w session_vars \<Rightarrow>
      (agent_failure, plan_outcome) result \<times> 'w session_vars" where
  "plan_turn env cfg fr v =
     (let v1 = v\<lparr>sv_attempts := sv_attempts v + 1\<rparr>;
          (r, st) = plan_workflow (ae_ext env) (ae_machine env) (ae_provider env) (sf_selected fr)
            (turn_request cfg fr v1) (Some (sv_tracker v1)) (ag_world (sv_state v1))
      in (r, v1\<lparr>sv_observation := [],
               sv_tracker := (case pl_budget st of Some t \<Rightarrow> t | None \<Rightarrow> sv_tracker v1),
               sv_state := observe (pl_events st) (sv_state v1)\<lparr>ag_world := pl_world st\<rparr>\<rparr>))"

definition charge_turn ::
    "'w agent_env \<Rightarrow> plan_outcome \<Rightarrow> 'w session_vars \<Rightarrow> (agent_error, unit) result \<times> 'w session_vars" where
  "charge_turn env oc v =
     (let (r, t, w) = charge_tokens (ae_ext env) (ae_machine env) (po_tokens_used oc) (sv_tracker v) (ag_world (sv_state v))
      in (r, v\<lparr>sv_tracker := t, sv_state := (sv_state v)\<lparr>ag_world := w\<rparr>\<rparr>))"

definition record_plan :: "'w agent_env \<Rightarrow> plan_outcome \<Rightarrow> 'w session_vars \<Rightarrow> 'w session_vars" where
  "record_plan env oc v =
     (let v1 = v\<lparr>sv_tokens := sv_tokens v + po_tokens_used oc\<rparr> in
      with_state
        (\<lambda>st. note_step env ValidationStep
          (if po_accepted oc then ''runtime accepted the workflow''
           else ''runtime rejected the workflow ('' @ show_nat (error_count (po_report oc)) @ '' error(s))'')
          (ax_report_json (ae_ext env) (po_report oc))
          (note_step env ModelCallStep
            (''attempt '' @ show_nat (unat (sv_attempts v1)) @ '': planned in '' @ show_nat (unat (po_repairs oc + 1)) @
             '' call(s), '' @ show_nat (unat (po_tokens_used oc)) @ '' token(s)'')
            (json_obj [(''raw'', JStr (po_raw oc))]) st)) v1)"

definition policy_json :: "agent_config \<Rightarrow> json" where
  "policy_json cfg = json_obj [(''policy'', JStr (tool_policy_describe (gc_tools cfg)))]"

definition finding_json :: "plan_finding \<Rightarrow> json" where
  "finding_json f =
     json_obj [(''node_id'', JStr (pf_node_id f)), (''field'', JStr (pf_field f)), (''variable'', JStr (pf_variable f)),
           (''message'', JStr (pf_message f))]"

text \<open>The review of values that only a run can observe, once per session.\<close>

definition review_turn :: "'w agent_env \<Rightarrow> workflow \<Rightarrow> 'w session_vars \<Rightarrow> 'w session_vars option" where
  "review_turn env doc v =
     (if sv_reviewed v then None
      else case observation_constraint (ae_ext env) doc of
        None \<Rightarrow> None
      | Some c \<Rightarrow>
          (let found = uninformed_inputs (ae_ext env) doc in
           Some (with_state
             (\<lambda>st. observe [PlanPhase ''observation_required'' c]
               (note_step env NoteStep
                 (''plan reviewed: '' @ show_nat (length found) @ '' value(s) no node in the workflow produces'')
                 (JArr (map finding_json found)) st))
             (v\<lparr>sv_reviewed := True, sv_observation := c\<rparr>))))"

definition replan_context ::
    "'w agent_env \<Rightarrow> agent_config \<Rightarrow> workflow \<Rightarrow> json option \<Rightarrow> event_envelope list \<Rightarrow> 'w session_vars \<Rightarrow> 'w session_vars" where
  "replan_context env cfg doc snapshot events v =
     (case Option.bind (Option.bind snapshot (\<lambda>s. jget s ''id'')) as_str of
        None \<Rightarrow> v
      | Some run_id \<Rightarrow>
          (let (artifacts, st1) = on_world (rc_artifacts (ae_codecs env) (ae_http env) (client_of cfg) run_id) (sv_state v);
               (msg, st2) = runtime_context_from_parts env cfg run_id (case snapshot of Some s \<Rightarrow> s | None \<Rightarrow> JNull) (Some doc)
                 events (ok_or [] artifacts) st1
           in v\<lparr>sv_state := st2, sv_conversation := sv_conversation v @ [msg]\<rparr>))"

definition terminal_status :: "string \<Rightarrow> session_status" where
  "terminal_status s =
     (if s = ''cancelled'' then SCancelled else if s = ''paused'' \<or> s = ''running'' then SRunning else SFailed)"

fun after_run ::
    "'w agent_env \<Rightarrow> agent_config \<Rightarrow> session_frame \<Rightarrow> plan_outcome \<Rightarrow> workflow \<Rightarrow> run_attempt \<Rightarrow> 'w session_vars \<Rightarrow>
      turn_end \<times> 'w session_vars" where
  "after_run env cfg fr oc doc (AttemptSucceeded snapshot events highlights) v =
     conclude env cfg fr (session_report fr snapshot (po_accepted oc) events highlights v) True (Some doc) (Some snapshot)
       SCompleted v"
| "after_run env cfg fr oc doc (AttemptReplannable reason snapshot events highlights) v =
     (let value_of = (case snapshot of Some s \<Rightarrow> s | None \<Rightarrow> JNull);
          v1 = with_state (note_step env NoteStep (''re-planning after failure: '' @ reason) value_of) v;
          v2 = (if sv_run_attempts v1 < max_run_attempts then replan_context env cfg doc snapshot events v1 else v1)
      in if max_run_attempts \<le> sv_run_attempts v2
         then conclude env cfg fr (session_report fr value_of (po_accepted oc) events highlights v2) True (Some doc)
                (Some value_of) SFailed v2
         else (Again, v2\<lparr>sv_feedback := reason\<rparr>))"
| "after_run env cfg fr oc doc (AttemptTerminal snapshot events highlights) v =
     (let report = session_report fr snapshot (po_accepted oc) events highlights v
      in conclude env cfg fr report True (Some doc) (Some snapshot) (terminal_status (er_status report)) v)"

definition run_turn ::
    "'w agent_env \<Rightarrow> agent_config \<Rightarrow> session_frame \<Rightarrow> plan_outcome \<Rightarrow> workflow \<Rightarrow> 'w session_vars \<Rightarrow>
      (turn_end \<times> 'w session_vars) option" where
  "run_turn env cfg fr oc doc v =
     (let v1 = with_state (observe [PlanPhase ''run'' ''starting the accepted workflow''])
            (v\<lparr>sv_run_attempts := sv_run_attempts v + 1\<rparr>)
      in case run_once env cfg (sf_session_id fr) doc (sv_state v1) of
           None \<Rightarrow> None
         | Some (attempt, st) \<Rightarrow> Some (after_run env cfg fr oc doc attempt (v1\<lparr>sv_state := st\<rparr>)))"

text \<open>What follows a draft that is a document: guardrails, review, preview, run.\<close>

definition document_turn ::
    "'w agent_env \<Rightarrow> agent_config \<Rightarrow> session_frame \<Rightarrow> plan_outcome \<Rightarrow> workflow \<Rightarrow> 'w session_vars \<Rightarrow>
      (turn_end \<times> 'w session_vars) option" where
  "document_turn env cfg fr oc doc v =
     (case tool_policy_check (ae_ext env) (gc_tools cfg) doc (sf_descriptors fr) of
        Inl e \<Rightarrow>
          Some (fail_session env cfg fr e
            (with_state (note_step env GuardrailStep (''refused: '' @ agent_error_text e) (policy_json cfg)) v))
      | Inr _ \<Rightarrow>
          (let v1 = with_state (note_step env GuardrailStep ''guardrails passed'' (policy_json cfg)) v in
           case review_turn env doc v1 of
             Some v2 \<Rightarrow> Some (Again, v2)
           | None \<Rightarrow>
               (let v2 = with_state (publish_preview env cfg (sf_session_id fr) doc (po_report oc)) v1 in
                if \<not> (sf_run fr \<or> gc_auto_run cfg)
                then Some (conclude env cfg fr (session_report fr JNull (po_accepted oc) [] [] v2) (po_accepted oc) (Some doc)
                       None SReady v2)
                else run_turn env cfg fr oc doc v2)))"

definition session_turn ::
    "'w agent_env \<Rightarrow> agent_config \<Rightarrow> session_frame \<Rightarrow> 'w session_vars \<Rightarrow> (turn_end \<times> 'w session_vars) option" where
  "session_turn env cfg fr v =
     (case plan_turn env cfg fr v of
        (Inl (Panicked p), v1) \<Rightarrow> Some (Stop (Inl (Panicked p)), v1)
      | (Inl (Returned e), v1) \<Rightarrow> Some (fail_session env cfg fr e v1)
      | (Inr oc, v1) \<Rightarrow>
          (case charge_turn env oc v1 of
             (Inl e, v2) \<Rightarrow> Some (fail_session env cfg fr e v2)
           | (Inr _, v2) \<Rightarrow>
               (let v3 = record_plan env oc v2 in
                case po_workflow oc of
                  None \<Rightarrow> Some (finish_without_plan env cfg fr (po_accepted oc) v3)
                | Some doc \<Rightarrow> document_turn env cfg fr oc doc v3)))"

partial_function (option) session_loop ::
    "'w agent_env \<Rightarrow> agent_config \<Rightarrow> session_frame \<Rightarrow> 'w session_vars \<Rightarrow>
      ((agent_failure, agent_outcome) result \<times> 'w session_vars) option" where
  "session_loop env cfg fr v =
     (case session_turn env cfg fr v of
        None \<Rightarrow> None
      | Some (Stop r, v') \<Rightarrow> Some (r, v')
      | Some (Again, v') \<Rightarrow> session_loop env cfg fr v')"

section \<open>The session\<close>

definition goal_json :: "'w agent_env \<Rightarrow> agent_config \<Rightarrow> string list \<Rightarrow> json" where
  "goal_json env cfg constraints =
     json_obj [(''constraints'', names_json constraints), (''runtime'', JStr (rc_base (client_of cfg))),
           (''provider'', JStr (lp_name (ae_provider env))),
           (''guardrails'', JStr (tool_policy_describe (gc_tools cfg)))]"

definition start_session ::
    "'w agent_env \<Rightarrow> agent_config \<Rightarrow> string \<Rightarrow> 'w agent_state \<Rightarrow> (string option \<times> chat_message list) \<times> 'w agent_state" where
  "start_session env cfg goal st =
     (if gc_offline cfg
      then ((None, []), note_step env NoteStep ''offline planning: the runtime is not contacted''
              (json_obj [(''offline'', JBool True)]) st)
      else begin_session env cfg goal st)"

definition discover ::
    "'w agent_env \<Rightarrow> agent_config \<Rightarrow> string \<Rightarrow> 'w agent_state \<Rightarrow>
      (agent_error, node_descriptor list \<times> node_descriptor list) result \<times> 'w agent_state" where
  "discover env cfg goal st =
     (if gc_offline cfg then (Inr ([], []), st)
      else case on_world (rc_node_types (ae_codecs env) (ae_http env) (client_of cfg)) st of
        (Inl e, st1) \<Rightarrow> (Inl e, st1)
      | (Inr ds, st1) \<Rightarrow>
          (let selected = select_tools (gc_tool_selector cfg) goal ds
           in (Inr (ds, selected),
               note_step env NoteStep
                 (''selected '' @ show_nat (length selected) @ '' of '' @ show_nat (length ds) @ '' node types'')
                 (json_obj [(''selected'', names_json (map d_node_type selected))]) st1)))"

definition open_session_trace :: "'w agent_env \<Rightarrow> agent_config \<Rightarrow> 'w \<Rightarrow> (agent_error, audit_trace) result \<times> 'w" where
  "open_session_trace env cfg w =
     (case gc_trace_path cfg of Some path \<Rightarrow> open_trace (ae_files env) path w | None \<Rightarrow> (Inr in_memory_trace, w))"

definition initial_vars :: "budget_tracker \<Rightarrow> chat_message list \<Rightarrow> 'w agent_state \<Rightarrow> 'w session_vars" where
  "initial_vars tracker conversation st =
     \<lparr>sv_state = st, sv_tracker = tracker, sv_tokens = 0, sv_attempts = 0, sv_run_attempts = 0, sv_feedback = [],
      sv_observation = [], sv_reviewed = False, sv_conversation = conversation\<rparr>"

text \<open>Everything before the catalogue: the budget starts, the goal is recorded, the session published.\<close>

definition session_opening ::
    "'w agent_env \<Rightarrow> agent_config \<Rightarrow> string \<Rightarrow> string list \<Rightarrow> audit_trace \<Rightarrow> 'w \<Rightarrow>
      budget_tracker \<times> string option \<times> chat_message list \<times> 'w agent_state" where
  "session_opening env cfg goal constraints trace w =
     (let (tracker, w1) = new_tracker (ae_machine env) (gc_budget cfg) w;
          st = note_step env GoalStep goal (goal_json env cfg constraints)
                 \<lparr>ag_trace = trace, ag_events = [], ag_world = w1\<rparr>;
          ((sid, conversation), st1) = start_session env cfg goal st
      in (tracker, sid, conversation, st1))"

definition agent_run_session ::
    "'w agent_env \<Rightarrow> agent_config \<Rightarrow> string \<Rightarrow> string list \<Rightarrow> bool \<Rightarrow> 'w \<Rightarrow>
      ((agent_failure, agent_outcome) result \<times> 'w agent_state) option" where
  "agent_run_session env cfg goal constraints run w =
     (case open_session_trace env cfg w of
        (Inl e, w1) \<Rightarrow> Some (Inl (Returned e), \<lparr>ag_trace = in_memory_trace, ag_events = [], ag_world = w1\<rparr>)
      | (Inr trace, w1) \<Rightarrow>
          (case session_opening env cfg goal constraints trace w1 of
             (tracker, sid, conversation, st1) \<Rightarrow>
               (case discover env cfg goal st1 of
                  (Inl e, st2) \<Rightarrow> Some (Inl (Returned e), finish_session env cfg sid SFailed st2)
                | (Inr (ds, selected), st2) \<Rightarrow>
                    map_option (\<lambda>(r, v). (r, sv_state v))
                      (session_loop env cfg
                         \<lparr>sf_goal = goal, sf_constraints = constraints, sf_run = run, sf_session_id = sid,
                          sf_descriptors = ds, sf_selected = selected\<rparr>
                         (initial_vars tracker conversation st2)))))"

definition agent_plan ::
    "'w agent_env \<Rightarrow> agent_config \<Rightarrow> string \<Rightarrow> string list \<Rightarrow> 'w \<Rightarrow>
      ((agent_failure, agent_outcome) result \<times> 'w agent_state) option" where
  "agent_plan env cfg goal constraints w = agent_run_session env cfg goal constraints False w"

definition agent_plan_and_run ::
    "'w agent_env \<Rightarrow> agent_config \<Rightarrow> string \<Rightarrow> string list \<Rightarrow> 'w \<Rightarrow>
      ((agent_failure, agent_outcome) result \<times> 'w agent_state) option" where
  "agent_plan_and_run env cfg goal constraints w = agent_run_session env cfg goal constraints True w"

definition agent_capabilities ::
    "'w agent_env \<Rightarrow> agent_config \<Rightarrow> 'w \<Rightarrow> (agent_error, node_descriptor list) result \<times> 'w" where
  "agent_capabilities env cfg w = rc_node_types (ae_codecs env) (ae_http env) (client_of cfg) w"

definition agent_pause_run :: "'w agent_env \<Rightarrow> agent_config \<Rightarrow> string \<Rightarrow> 'w \<Rightarrow> (agent_error, json) result \<times> 'w" where
  "agent_pause_run env cfg run_id w = rc_pause (ae_http env) (client_of cfg) run_id w"

definition agent_resume_run :: "'w agent_env \<Rightarrow> agent_config \<Rightarrow> string \<Rightarrow> 'w \<Rightarrow> (agent_error, json) result \<times> 'w" where
  "agent_resume_run env cfg run_id w = rc_resume (ae_http env) (client_of cfg) run_id w"

definition agent_cancel_run :: "'w agent_env \<Rightarrow> agent_config \<Rightarrow> string \<Rightarrow> 'w \<Rightarrow> (agent_error, json) result \<times> 'w" where
  "agent_cancel_run env cfg run_id w = rc_cancel (ae_http env) (client_of cfg) run_id w"

section \<open>Explanations\<close>

record explain_target =
  xt_workflow :: "workflow option"
  xt_run_id :: "string option"

definition explain_workflow :: "workflow \<Rightarrow> explain_target" where
  "explain_workflow doc = \<lparr>xt_workflow = Some doc, xt_run_id = None\<rparr>"

definition explain_run :: "string \<Rightarrow> explain_target" where
  "explain_run run_id = \<lparr>xt_workflow = None, xt_run_id = Some run_id\<rparr>"

definition explain_with_run :: "explain_target \<Rightarrow> string \<Rightarrow> explain_target" where
  "explain_with_run target run_id = target\<lparr>xt_run_id := Some run_id\<rparr>"

definition explain_request ::
    "'w agent_env \<Rightarrow> workflow option \<Rightarrow> report option \<Rightarrow> json option \<Rightarrow> json \<Rightarrow> chat_request" where
  "explain_request env doc report snapshot events =
     (new_chat_request
        [system_message ''You explain automation workflows and their runs to the operator.'',
         user_message (explain_prompt (ae_ext env)
           (map_option (\<lambda>d. ax_json_pretty (ae_ext env) (ax_workflow_json (ae_ext env) d)) doc)
           (map_option (ax_report_json (ae_ext env)) report) snapshot events)])
       \<lparr>cq_json_mode := False, cq_temperature := 2 / 10\<rparr>"

definition agent_explain ::
    "'w agent_env \<Rightarrow> agent_config \<Rightarrow> explain_target \<Rightarrow> 'w \<Rightarrow> (agent_error, string) result \<times> 'w" where
  "agent_explain env cfg target w =
     (let (report, w1) = (case xt_workflow target of
              Some doc \<Rightarrow>
                (let (r, w') = rc_validate (ae_codecs env) (ae_http env) (client_of cfg) doc w in (ok_option r, w'))
            | None \<Rightarrow> (None, w));
          (snapshot, events, w2) = (case xt_run_id target of
              Some run_id \<Rightarrow>
                (let (s, w') = rc_get_run (ae_http env) (client_of cfg) run_id w1;
                     (es, w'') = rc_event_log (ae_codecs env) (ae_http env) (client_of cfg) run_id w'
                 in (ok_option s,
                     (case es of Inr es \<Rightarrow> JArr (map (ax_event_json (ae_ext env)) es) | Inl _ \<Rightarrow> JNull), w''))
            | None \<Rightarrow> (None, JNull, w1))
      in case lp_complete (ae_provider env) (explain_request env (xt_workflow target) report snapshot events) w2 of
           (Inl e, w3) \<Rightarrow> (Inl e, w3)
         | (Inr response, w3) \<Rightarrow> (Inr (cr_content response), w3))"

end
