(* ===== verification/Nodara_Runtime_Client_Props.thy ===== *)
theory Nodara_Runtime_Client_Props
  imports Nodara_Runtime_Client
begin

text \<open>
  What the client guarantees: an identifier in a path is one opaque segment that can be read back, and
  waiting for a run ends as soon as the clock moves, with a finished run unless it was cancelled.
\<close>

section \<open>Segments\<close>

fun hex_value :: "char \<Rightarrow> nat" where
  "hex_value c = (let n = of_char c in if n < 58 then n - 48 else n - 55)"

fun percent_decode :: "string \<Rightarrow> nat list" where
  "percent_decode [] = []"
| "percent_decode (c # cs) =
     (if c = CHR ''%''
      then (case cs of a # b # rest \<Rightarrow> (16 * hex_value a + hex_value b) # percent_decode rest | _ \<Rightarrow> [])
      else of_char c # percent_decode cs)"

fun utf8_decode :: "nat list \<Rightarrow> string" where
  "utf8_decode [] = []"
| "utf8_decode (n # ns) =
     (if n < 128 then char_of n # utf8_decode ns
      else (case ns of m # rest \<Rightarrow> char_of ((n - 192) * 64 + (m - 128)) # utf8_decode rest | [] \<Rightarrow> []))"

definition unsegment :: "string \<Rightarrow> string" where
  "unsegment s = utf8_decode (percent_decode s)"

lemma of_char_less [simp]: "(of_char c :: nat) < 256"
  using of_char_of [where ?'a = nat] by (simp add: of_char_def horner_sum_bound)

lemma hex_value_upper_hex: "n < 16 \<Longrightarrow> hex_value (upper_hex n) = n"
  by (auto simp: upper_hex_def Let_def of_char_of)

lemma upper_hex_unreserved: "n < 16 \<Longrightarrow> unreserved (of_char (upper_hex n))"
  by (auto simp: upper_hex_def unreserved_def of_char_of)

lemma percent_reserved: "\<not> unreserved (of_char (CHR ''%''))"
  by (simp add: unreserved_def)

lemma segment_byte_decodes:
  assumes "b < 256"
  shows "percent_decode (segment_byte b @ s) = b # percent_decode s"
proof (cases "unreserved b")
  case True
  then have "char_of b \<noteq> CHR ''%''" using percent_reserved assms by (metis mod_less of_char_of)
  with True assms show ?thesis by (simp add: segment_byte_def of_char_of)
next
  case False
  have "16 * (b div 16) + b mod 16 = b" by simp
  with False assms show ?thesis by (simp add: segment_byte_def hex_value_upper_hex del: hex_value.simps)
qed

lemma segment_bytes_decode: "\<forall>b\<in>set bs. b < 256 \<Longrightarrow> percent_decode (concat (map segment_byte bs)) = bs"
  by (induction bs) (simp_all add: segment_byte_decodes)

lemma utf8_bytes_less: "b \<in> set (utf8_bytes c) \<Longrightarrow> b < 256"
proof -
  have "(of_char c :: nat) < 64 * 4" by simp
  then have "(of_char c :: nat) div 64 < 4" by (simp only: div_less_iff_less_mult)
  moreover assume "b \<in> set (utf8_bytes c)"
  moreover have "(of_char c :: nat) mod 64 < 64" by simp
  ultimately show ?thesis by (auto simp: utf8_bytes_def Let_def simp del: mod_less_divisor split: if_splits)
qed

lemma utf8_bytes_decode: "utf8_decode (utf8_bytes c @ bs) = c # utf8_decode bs"
proof (cases "(of_char c :: nat) < 128")
  case False
  have "(of_char c :: nat) div 64 * 64 + of_char c mod 64 = of_char c" by simp
  with False show ?thesis by (simp add: utf8_bytes_def Let_def)
qed (simp add: utf8_bytes_def Let_def)

lemma utf8_decodes: "utf8_decode (concat (map utf8_bytes s)) = s"
  by (induction s) (simp_all add: utf8_bytes_decode)

lemma unsegment_segment: "unsegment (segment s) = s"
  using utf8_bytes_less by (auto simp: unsegment_def segment_def segment_bytes_decode utf8_decodes)

lemma segment_byte_chars: "b < 256 \<Longrightarrow> c \<in> set (segment_byte b) \<Longrightarrow> unreserved (of_char c) \<or> c = CHR ''%''"
  by (auto simp: segment_byte_def of_char_of upper_hex_unreserved split: if_splits)

lemma segment_chars: "c \<in> set (segment s) \<Longrightarrow> unreserved (of_char c) \<or> c = CHR ''%''"
  using utf8_bytes_less segment_byte_chars by (auto simp: segment_def)

section \<open>Waiting\<close>

text \<open>A clock that requests and readings do not turn back and that a sleep of 100 milliseconds moves.\<close>

definition clock_moves :: "'w machine \<Rightarrow> 'w http \<Rightarrow> ('w \<Rightarrow> nat) \<Rightarrow> bool" where
  "clock_moves m http clock \<longleftrightarrow>
     (\<forall>q w. clock w \<le> clock (snd (http q w))) \<and>
     (\<forall>w. fst (mc_instant_ns m w) = clock w \<and> clock w \<le> clock (snd (mc_instant_ns m w))) \<and>
     (\<forall>w. clock w < clock (mc_sleep_ms m 100 w))"

lemma clock_get: "clock_moves m http clock \<Longrightarrow> clock w \<le> clock (snd (rc_get_run http c run_id w))"
  by (auto simp: clock_moves_def rc_get_run_def client_get_def split: prod.splits) (metis snd_conv)

lemma clock_instant: "clock_moves m http clock \<Longrightarrow> mc_instant_ns m w = (now, w') \<Longrightarrow> now = clock w \<and> clock w \<le> clock w'"
  by (metis clock_moves_def fst_conv snd_conv)

lemma grace_loop_ends:
  assumes "clock_moves m http clock"
  shows "grace_loop http m c run_id grace w \<noteq> None"
proof (induction "grace - clock w" arbitrary: w rule: less_induct)
  case less
  show ?case
  proof (cases "rc_get_run http c run_id w")
    case (Pair r w1)
    have w1: "clock w \<le> clock w1" using clock_get [OF assms, of w c run_id] Pair by simp
    obtain now w2 where now: "mc_instant_ns m w1 = (now, w2)" by (rule prod.exhaust)
    have w2: "now = clock w1" "clock w1 \<le> clock w2" using clock_instant [OF assms now] by auto
    have "clock w2 < clock (mc_sleep_ms m 100 w2)" using assms by (simp add: clock_moves_def)
    with w1 w2 have "\<not> grace \<le> now \<Longrightarrow> grace - clock (mc_sleep_ms m 100 w2) < grace - clock w" by linarith
    from less [OF this] show ?thesis
      by (subst grace_loop.simps) (auto simp: Pair now split: sum.splits)
  qed
qed

lemma cancel_and_wait_ends: "clock_moves m http clock \<Longrightarrow> cancel_and_wait http m c run_id w \<noteq> None"
  by (simp add: cancel_and_wait_def grace_loop_ends del: not_None_eq split: prod.splits)

lemma wait_loop_ends:
  assumes "clock_moves m http clock"
  shows "wait_loop http m c run_id deadline w \<noteq> None"
proof (induction "deadline - clock w" arbitrary: w rule: less_induct)
  case less
  show ?case
  proof (cases "rc_get_run http c run_id w")
    case (Pair r w1)
    have w1: "clock w \<le> clock w1" using clock_get [OF assms, of w c run_id] Pair by simp
    obtain now w2 where now: "mc_instant_ns m w1 = (now, w2)" by (rule prod.exhaust)
    have w2: "now = clock w1" "clock w1 \<le> clock w2" using clock_instant [OF assms now] by auto
    have "clock w2 < clock (mc_sleep_ms m 100 w2)" using assms by (simp add: clock_moves_def)
    with w1 w2 have "\<not> deadline \<le> now \<Longrightarrow> deadline - clock (mc_sleep_ms m 100 w2) < deadline - clock w" by linarith
    from less [OF this] show ?thesis
      using cancel_and_wait_ends [OF assms, of c run_id w2]
      by (subst wait_loop.simps) (auto simp: Pair now split: sum.splits)
  qed
qed

text \<open>A snapshot that waiting hands out is terminal, or the deadline passed and the run was cancelled.\<close>

definition awaited :: "'w http \<Rightarrow> 'w machine \<Rightarrow> runtime_client \<Rightarrow> string \<Rightarrow> (agent_error, json) result \<times> 'w \<Rightarrow> bool" where
  "awaited http m c run_id y \<longleftrightarrow>
     (\<forall>snapshot w'. y = (Inr snapshot, w') \<longrightarrow> status_terminal (snapshot_status snapshot) \<or>
        (\<exists>w1. cancel_and_wait http m c run_id w1 = Some (Inr snapshot, w')))"

lemma wait_loop_awaited: "wait_loop http m c run_id deadline w = Some y \<Longrightarrow> awaited http m c run_id y"
proof (rule wait_loop.raw_induct [of "\<lambda>http m c run_id deadline w y. awaited http m c run_id y"])
  fix loop and http :: "'a http" and m c run_id deadline w y
  assume IH: "\<And>http m c run_id deadline w y. loop http m c run_id deadline w = Some y \<Longrightarrow> awaited http m c run_id y"
    and run: "(case rc_get_run http c run_id w of
        (Inl e, w1) \<Rightarrow> Some (Inl e, w1)
      | (Inr snapshot, w1) \<Rightarrow>
          if status_terminal (snapshot_status snapshot) then Some (Inr snapshot, w1)
          else (case mc_instant_ns m w1 of
                  (now, w2) \<Rightarrow>
                    if deadline \<le> now then cancel_and_wait http m c run_id w2
                    else loop http m c run_id deadline (mc_sleep_ms m 100 w2))) = Some y"
  obtain r w1 where get: "rc_get_run http c run_id w = (r, w1)" by (rule prod.exhaust)
  obtain now w2 where now: "mc_instant_ns m w1 = (now, w2)" by (rule prod.exhaust)
  show "awaited http m c run_id y"
  proof (cases r)
    case (Inl e)
    with run get show ?thesis by (auto simp: awaited_def)
  next
    case (Inr snapshot)
    with run get now IH [of http m c run_id deadline "mc_sleep_ms m 100 w2" y] show ?thesis
      by (auto simp: awaited_def split: if_splits)
  qed
qed

lemma wait_for_run_ends: "clock_moves m http clock \<Longrightarrow> \<exists>r w'. wait_for_run http m c run_id timeout w = Some (r, w')"
  using wait_loop_ends [of m http clock c run_id] by (auto simp: wait_for_run_def split: prod.splits)

lemma wait_for_run_result:
  "wait_for_run http m c run_id timeout w = Some (Inr snapshot, w') \<Longrightarrow>
   status_terminal (snapshot_status snapshot) \<or> (\<exists>w1. cancel_and_wait http m c run_id w1 = Some (Inr snapshot, w'))"
  by (auto simp: wait_for_run_def awaited_def split: prod.splits dest!: wait_loop_awaited)

section \<open>Properties\<close>

text \<open>An identifier in a path is one opaque segment: it can be read back from its encoding, so two
  identifiers never address the same resource, and no character of the encoding ends the segment or starts
  a query, a fragment or a parameter.\<close>

theorem segments_are_opaque:
  "unsegment (segment s) = s \<and> {CHR ''/'', CHR ''?'', CHR ''#'', CHR ''&'', CHR '' ''} \<inter> set (segment s) = {}"
proof -
  have "CHR ''/'' \<notin> set (segment s)" "CHR ''?'' \<notin> set (segment s)" "CHR ''#'' \<notin> set (segment s)"
    "CHR ''&'' \<notin> set (segment s)" "CHR '' '' \<notin> set (segment s)"
    using segment_chars by (fastforce simp: unreserved_def)+
  with unsegment_segment show ?thesis by auto
qed

end
