(* ===== verification/Nodara_Planner_Props.thy ===== *)
theory Nodara_Planner_Props
  imports Nodara_Planner Nodara_Selector
begin

text \<open>
  What the planner promises: its outcome is the verdict of the validator on the last reply, every call
  to the model is paid for before it is made and their number is bounded twice (by the repair budget and
  by the session's steps), and a plan accepted over the selected tools is valid over the whole catalogue.
\<close>

section \<open>Calls\<close>

fun is_call :: "plan_event \<Rightarrow> bool" where
  "is_call (PlanPhase _ _) = True"
| "is_call _ = False"

definition model_calls :: "plan_event list \<Rightarrow> nat" where
  "model_calls es = length (filter is_call es)"

lemma model_calls_simps [simp]:
  "model_calls [] = 0" "model_calls (es @ es') = model_calls es + model_calls es'"
  "model_calls (PlanPhase p msg # es) = model_calls es + 1" "model_calls (ModelDelta text # es) = model_calls es"
  "model_calls (PlanValidation ok r # es) = model_calls es" "model_calls (RepairStarted n # es) = model_calls es"
  "model_calls (PlanReady w # es) = model_calls es" "model_calls (map ModelDelta texts) = 0"
  by (simp_all add: model_calls_def filter_empty_conv)

lemma begin_repair_simps [simp]:
  "pl_budget (begin_repair ax report st) = pl_budget st"
  "pl_events (begin_repair ax report st) = pl_events st @ [RepairStarted (pl_repairs st + 1)]"
  by (simp_all add: begin_repair_def Let_def)

text \<open>A request either was refused by the budget, and then nothing was announced, or it is one call.\<close>

lemma request_draft_calls:
  assumes "request_draft ax m pv phase message st = (r, st')"
  shows "(\<exists>e. r = Inl e \<and> pl_events st' = pl_events st) \<or> model_calls (pl_events st') = model_calls (pl_events st) + 1"
proof (cases "planner_charge ax m st")
  case (Pair c st1)
  have "pl_events st1 = pl_events st" using planner_charge_frame(2) [of ax m st] Pair by simp
  then show ?thesis
    using assms Pair by (auto simp: request_draft_def Let_def split: sum.splits prod.splits)
qed

lemma request_draft_paid:
  assumes "request_draft ax m pv phase message st = (r, st')" "pl_budget st = Some t" "bt_steps t \<noteq> - 1"
  shows "(\<exists>e. r = Inl e \<and> pl_events st' = pl_events st) \<or>
    (\<exists>t'. pl_budget st' = Some t' \<and> bt_budget t' = bt_budget t \<and> unat (bt_steps t') = unat (bt_steps t) + 1 \<and>
       bt_steps t' \<le> bg_max_steps (bt_budget t))"
proof -
  obtain c t' w where charge: "charge_step ax m t (pl_world st) = (c, t', w)" by (rule prod_cases3)
  show ?thesis
  proof (cases c)
    case (Inl e)
    then have "r = Inl e" "st' = st\<lparr>pl_budget := Some t', pl_world := w\<rparr>"
      using assms charge by (simp_all add: request_draft_def planner_charge_def)
    then show ?thesis by simp
  next
    case (Inr u)
    then have granted: "charge_step ax m t (pl_world st) = (Inr (), t', w)" using charge by simp
    note facts = charge_step_granted [OF granted assms(3)]
    have "pl_budget st' = Some t'"
      using assms(1,2) charge Inr by (auto simp: request_draft_def planner_charge_def Let_def split: prod.splits)
    with facts show ?thesis by simp
  qed
qed

section \<open>The outcome\<close>

definition plan_outcome_ok :: "agent_externs \<Rightarrow> node_descriptor list \<Rightarrow> u32 \<Rightarrow> plan_outcome \<Rightarrow> plan_event list \<Rightarrow> bool" where
  "plan_outcome_ok ax ds limit oc es \<longleftrightarrow>
     po_repairs oc \<le> limit \<and> evaluate_draft ax ds (po_raw oc) = Some (po_workflow oc, po_report oc) \<and>
     (if po_accepted oc
      then is_valid (po_report oc) \<and>
        (\<exists>w. po_workflow oc = Some w \<and> po_report oc = draft_report ds w \<and> last es = PlanReady w)
      else \<not> is_valid (po_report oc) \<and> po_repairs oc = limit)"

lemma evaluate_draft_valid:
  "evaluate_draft ax ds raw = Some (workflow, report) \<Longrightarrow> is_valid report \<Longrightarrow>
   \<exists>w. workflow = Some w \<and> report = draft_report ds w"
  by (auto simp: evaluate_draft_def report_push_def payload_error_def is_valid_clean split: option.splits sum.splits)

lemma repairs_suc: "(n :: u32) < limit \<Longrightarrow> unat (n + 1) = unat n + 1 \<and> n + 1 \<le> limit"
proof -
  assume less: "n < limit"
  have "unat limit < 2 ^ 32" using unsigned_less [of limit] by simp
  with less have "unat n + 1 < 2 ^ 32" by (simp add: word_less_nat_alt)
  then have "unat (n + 1) = unat n + 1" by (simp add: unat_word_ariths)
  with less show ?thesis by (simp add: word_less_nat_alt word_le_nat_alt)
qed

lemma plan_loop_outcome:
  assumes "plan_loop ax m pv ds limit st = (Inr oc, st')" "pl_repairs st \<le> limit"
  shows "plan_outcome_ok ax ds limit oc (pl_events st') \<and>
    model_calls (pl_events st') + unat (pl_repairs st) = model_calls (pl_events st) + unat (po_repairs oc)"
  using assms
proof (induction ax m pv ds limit st rule: plan_loop.induct)
  case (1 ax m pv ds limit st)
  note IH = "1.IH" and prems = "1.prems"
  obtain workflow report where ev: "evaluate_draft ax ds (pl_raw st) = Some (workflow, report)"
    using prems(1) by (cases "evaluate_draft ax ds (pl_raw st)") (auto simp: plan_loop.simps [of ax m pv ds limit st])
  define st1 where "st1 = plan_emit (PlanValidation (is_valid report) report) st"
  note loop = plan_loop.simps [of ax m pv ds limit st, unfolded ev option.case prod.case, folded st1_def]
  show ?case
  proof (cases "is_valid report \<or> limit \<le> pl_repairs st1")
    case True
    then show ?thesis
      using prems evaluate_draft_valid [OF ev] ev
      by (auto simp: loop Let_def plan_outcome_ok_def plan_result_def st1_def split: if_splits)
  next
    case False
    obtain r st3 where req: "request_draft ax m pv ''repair'' (repair_note (pl_repairs st1 + 1)) (begin_repair ax report st1) = (r, st3)"
      by (rule prod.exhaust)
    from False prems(1) obtain response where r: "r = Inr response"
      and next_loop: "plan_loop ax m pv ds limit (accept_draft st3 response) = (Inr oc, st')"
      by (cases r) (auto simp: loop req)
    have less: "pl_repairs st < limit" using False by (simp add: st1_def not_le)
    have rep: "pl_repairs st3 = pl_repairs st + 1" using request_draft_repairs [OF req] by (simp add: st1_def)
    have calls: "model_calls (pl_events st3) = model_calls (pl_events st) + 1"
      using request_draft_calls [OF req] by (auto simp: r st1_def)
    from IH [OF ev refl, folded st1_def, OF refl _ _ req [symmetric] r next_loop] False repairs_suc [OF less] rep calls
    show ?thesis by simp
  qed
qed

section \<open>The budget\<close>

lemma plan_loop_paid:
  assumes "plan_loop ax m pv ds limit st = (r, st')" "pl_budget st = Some t"
    "bt_steps t \<le> bg_max_steps (bt_budget t)" "bg_max_steps (bt_budget t) \<noteq> - 1" "pl_repairs st \<le> limit"
  shows "model_calls (pl_events st') + unat (bt_steps t) \<le> model_calls (pl_events st) + unat (bg_max_steps (bt_budget t)) \<and>
    model_calls (pl_events st') + unat (pl_repairs st) \<le> model_calls (pl_events st) + unat limit"
  using assms
proof (induction ax m pv ds limit st arbitrary: t rule: plan_loop.induct)
  case (1 ax m pv ds limit st)
  note IH = "1.IH" and prems = "1.prems"
  have bounds: "unat (bt_steps t) \<le> unat (bg_max_steps (bt_budget t))" "unat (pl_repairs st) \<le> unat limit"
    using prems(3,5) by (simp_all add: word_le_nat_alt)
  show ?case
  proof (cases "evaluate_draft ax ds (pl_raw st)")
    case None
    with prems(1) bounds show ?thesis by (auto simp: plan_loop.simps [of ax m pv ds limit st])
  next
    case (Some p)
    obtain workflow report where p: "p = (workflow, report)" by (rule prod.exhaust)
    define st1 where "st1 = plan_emit (PlanValidation (is_valid report) report) st"
    note loop = plan_loop.simps [of ax m pv ds limit st, unfolded Some p option.case prod.case, folded st1_def]
    show ?thesis
    proof (cases "is_valid report \<or> limit \<le> pl_repairs st1")
      case True
      then show ?thesis
        using prems(1) bounds by (auto simp: loop Let_def st1_def split: if_splits option.splits)
    next
      case False
      obtain c st3 where req: "request_draft ax m pv ''repair'' (repair_note (pl_repairs st1 + 1)) (begin_repair ax report st1) = (c, st3)"
        by (rule prod.exhaust)
      have less: "pl_repairs st < limit" using False by (simp add: st1_def not_le)
      have rep: "pl_repairs st3 = pl_repairs st + 1" using request_draft_repairs [OF req] by (simp add: st1_def)
      have calls: "(\<exists>e. c = Inl e \<and> model_calls (pl_events st3) = model_calls (pl_events st)) \<or>
          model_calls (pl_events st3) = model_calls (pl_events st) + 1"
        using request_draft_calls [OF req] by (auto simp: st1_def)
      have "bt_steps t \<noteq> - 1" using prems(3,4) by (metis word_order.extremum_unique)
      moreover have b1: "pl_budget (begin_repair ax report st1) = Some t" using prems(2) by (simp add: st1_def)
      ultimately have paid: "(\<exists>e. c = Inl e \<and> model_calls (pl_events st3) = model_calls (pl_events st)) \<or>
          (\<exists>t'. pl_budget st3 = Some t' \<and> bt_budget t' = bt_budget t \<and> unat (bt_steps t') = unat (bt_steps t) + 1 \<and>
             bt_steps t' \<le> bg_max_steps (bt_budget t))"
        using request_draft_paid [OF req b1] by (auto simp: st1_def)
      show ?thesis
      proof (cases c)
        case (Inl e)
        then have "st' = st3" using False prems(1) by (auto simp: loop req)
        with calls paid bounds less show ?thesis by (auto simp: word_less_nat_alt word_le_nat_alt)
      next
        case (Inr response)
        then have next_loop: "plan_loop ax m pv ds limit (accept_draft st3 response) = (r, st')"
          using False prems(1) by (auto simp: loop req)
        from paid Inr obtain t' where t': "pl_budget st3 = Some t'" "bt_budget t' = bt_budget t"
          "unat (bt_steps t') = unat (bt_steps t) + 1" "bt_steps t' \<le> bg_max_steps (bt_budget t)" by auto
        from IH [OF Some p [symmetric], folded st1_def, OF refl _ _ req [symmetric] Inr next_loop, of t'] False t' prems(4)
          repairs_suc [OF less] rep calls Inr
        show ?thesis by simp
      qed
    qed
  qed
qed

section \<open>Validity over a larger catalogue\<close>

text \<open>An index that knows every tool of a list with the same descriptor.\<close>

definition index_covers :: "node_type_index \<Rightarrow> node_descriptor list \<Rightarrow> bool" where
  "index_covers ix ds \<longleftrightarrow>
     list_all (\<lambda>d. d_node_type d \<in> set (ix_node_types ix) \<and> ix_descriptor ix (d_node_type d) = Some d) ds"

lemma descriptor_index_known:
  assumes "t \<in> set (ix_node_types (descriptor_index ds))" "index_covers ix ds"
  shows "t \<in> set (ix_node_types ix) \<and> ix_descriptor ix t = ix_descriptor (descriptor_index ds) t"
proof -
  from assms(1) have "find (\<lambda>d. d_node_type d = t) ds \<noteq> None"
    by (auto simp: descriptor_index_def find_None_iff)
  then obtain d where d: "find (\<lambda>d. d_node_type d = t) ds = Some d" by blast
  with find_SomeD [OF d] assms(2) show ?thesis by (auto simp: descriptor_index_def index_covers_def list_all_iff)
qed

lemma node_well_formed_cover:
  "index_covers ix ds \<Longrightarrow> node_well_formed w (descriptor_index ds) n \<Longrightarrow> node_well_formed w ix n"
  using descriptor_index_known [of "n_type n" ds ix] by (simp add: node_well_formed_def)

lemma well_formed_cover:
  assumes "index_covers ix ds" "well_formed w (descriptor_index ds)"
  shows "well_formed w ix"
proof -
  have types: "\<forall>n\<in>set (w_nodes w). ix_descriptor ix (n_type n) = ix_descriptor (descriptor_index ds) (n_type n)"
    using assms descriptor_index_known [OF _ assms(1)] by (auto simp: well_formed_def node_well_formed_def)
  have nodes: "n \<in> set (w_nodes w)" if "workflow_node w nid = Some n" for nid n
    using that by (auto simp: workflow_node_def dest: find_SomeD)
  have "edge_well_formed w ix e" if "e \<in> set (w_edges w)" for e
    using assms(2) that types nodes by (fastforce simp: well_formed_def edge_well_formed_def data_edge_well_formed_def)
  with assms show ?thesis by (auto simp: well_formed_def intro: node_well_formed_cover)
qed

lemma accepted_plan:
  assumes "plan_workflow ax m pv ds rq budget w = (Inr oc, st')"
  shows "plan_outcome_ok ax ds (rq_max_repairs rq) oc (pl_events st') \<and>
    model_calls (pl_events st') = unat (po_repairs oc) + 1"
proof -
  obtain r st where req: "request_draft ax m pv ''model_call'' ''requesting the first draft''
      (start_planning ax ds rq budget w) = (r, st)" by (rule prod.exhaust)
  with assms obtain response where r: "r = Inr response"
    and loop: "plan_loop ax m pv ds (rq_max_repairs rq) (accept_draft st response) = (Inr oc, st')"
    by (cases r) (auto simp: plan_workflow_def)
  have "pl_repairs st = 0" using request_draft_repairs [OF req] by (simp add: start_planning_def)
  moreover have "model_calls (pl_events st) = 1" using request_draft_calls [OF req] r by (simp add: start_planning_def)
  ultimately show ?thesis using plan_loop_outcome [OF loop] by simp
qed

lemma plan_paid:
  assumes "plan_workflow ax m pv ds rq (Some t) w = (r, st')"
    "bt_steps t \<le> bg_max_steps (bt_budget t)" "bg_max_steps (bt_budget t) \<noteq> - 1"
  shows "model_calls (pl_events st') + unat (bt_steps t) \<le> unat (bg_max_steps (bt_budget t)) \<and>
    model_calls (pl_events st') \<le> unat (rq_max_repairs rq) + 1"
proof -
  let ?st = "start_planning ax ds rq (Some t) w"
  obtain c st where req: "request_draft ax m pv ''model_call'' ''requesting the first draft'' ?st = (c, st)"
    by (rule prod.exhaust)
  have start: "pl_budget ?st = Some t" "pl_events ?st = []" by (simp_all add: start_planning_def)
  have ne: "bt_steps t \<noteq> - 1" using assms(2,3) by (metis word_order.extremum_unique)
  have rep: "pl_repairs st = 0" using request_draft_repairs [OF req] by (simp add: start_planning_def)
  have bound: "unat (bt_steps t) \<le> unat (bg_max_steps (bt_budget t))" using assms(2) by (simp add: word_le_nat_alt)
  have calls: "model_calls (pl_events st) \<le> 1" using request_draft_calls [OF req] start by auto
  note paid = request_draft_paid [OF req start(1) ne]
  show ?thesis
  proof (cases c)
    case (Inl e)
    then have "st' = st" using assms(1) by (simp add: plan_workflow_def req)
    with paid calls bound start show ?thesis by (auto simp: word_le_nat_alt)
  next
    case (Inr response)
    then have loop: "plan_loop ax m pv ds (rq_max_repairs rq) (accept_draft st response) = (r, st')"
      using assms(1) by (simp add: plan_workflow_def req)
    from paid Inr obtain t' where t': "pl_budget st = Some t'" "bt_budget t' = bt_budget t"
      "unat (bt_steps t') = unat (bt_steps t) + 1" "bt_steps t' \<le> bg_max_steps (bt_budget t)" by auto
    from plan_loop_paid [OF loop, of t'] t' assms(3) rep calls show ?thesis by simp
  qed
qed

section \<open>A concrete planner\<close>

text \<open>A provider that answers from the list of replies that is the world, over a clock that stands still;
  a parser that knows one text and the document it stands for.\<close>

definition scripted_provider :: "string list llm_provider" where
  "scripted_provider =
     (let answer = (\<lambda>q w. case w of
            [] \<Rightarrow> (Inl (ProviderError ''no reply''), [])
          | reply # rest \<Rightarrow> (Inr \<lparr>cr_content = reply, cr_model = ''m'', cr_usage = no_usage\<rparr>, rest))
      in \<lparr>lp_name = ''m'', lp_complete = answer, lp_streaming = default_streaming answer\<rparr>)"

definition still_machine :: "'w machine" where
  "still_machine =
     \<lparr>mc_ext = silent_externs, mc_now_ms = (\<lambda>w. (0, w)), mc_instant_ns = (\<lambda>w. (0, w)), mc_sleep_ms = (\<lambda>_ w. w),
      mc_uuid = (\<lambda>w. ([], w))\<rparr>"

definition demo_agent_externs :: agent_externs where
  "demo_agent_externs =
     \<lparr>ax_duration_text = (\<lambda>_. []), ax_strings_text = (\<lambda>_. []), ax_em_dash = [], ax_json_text = (\<lambda>_. []),
      ax_json_pretty = (\<lambda>_. []), ax_parse_json = (\<lambda>s. if s = ''{}'' then Inr JNull else Inl ''text''),
      ax_workflow_json = (\<lambda>_. JNull), ax_workflow_of_json = (\<lambda>_. Inr two_step), ax_report_json = (\<lambda>_. JNull),
      ax_event_json = (\<lambda>_. JNull), ax_base64 = (\<lambda>_. [])\<rparr>"

definition demo_tools :: "node_descriptor list" where
  "demo_tools = map (\<lambda>t. descriptor_with_config_schema (new_descriptor t t ''Core'') JNull) [''core.Start'', ''core.End'']"

definition demo_tracker :: budget_tracker where
  "demo_tracker = \<lparr>bt_budget = \<lparr>bg_max_steps = 2, bg_max_tokens = 10, bg_max_wall_ns = 0\<rparr>, bt_steps = 0, bt_tokens = 0,
     bt_started = 0\<rparr>"

lemma demo_covers: "index_covers bare_index [] \<and> index_covers (descriptor_index demo_tools) demo_tools"
  by (simp add: index_covers_def descriptor_index_def demo_tools_def new_descriptor_def descriptor_with_config_schema_def)

lemma demo_document: "is_valid (draft_report demo_tools two_step)"
proof -
  have "config_well_formed two_step d n" if "d \<in> set demo_tools" "n \<in> set (w_nodes two_step)" for d n
    using that by (auto simp: config_well_formed_def demo_tools_def two_step_def new_node_def new_descriptor_def
        descriptor_with_config_schema_def split: if_splits)
  then have "well_formed two_step (descriptor_index demo_tools)"
    using two_step_well_formed
    by (auto simp: well_formed_def node_well_formed_def edge_well_formed_def data_edge_well_formed_def bare_index_def
        descriptor_index_def demo_tools_def new_descriptor_def descriptor_with_config_schema_def two_step_def new_edge_def
        new_node_def)
  then show ?thesis by (simp add: draft_report_def demo_tools_def is_valid_iff)
qed

text \<open>The first reply is prose, the second is the document.\<close>

abbreviation "demo_plan \<equiv>
  plan_workflow demo_agent_externs still_machine scripted_provider demo_tools (new_plan_request ''goal'') (Some demo_tracker)
    [''no'', ''{}'']"

lemma demo_drafts:
  "evaluate_draft demo_agent_externs demo_tools ''no'' = Some (None, [payload_error ''reply was not JSON: text''])"
  "evaluate_draft demo_agent_externs demo_tools ''{}'' = Some (Some two_step, draft_report demo_tools two_step)"
proof -
  have c: "extract_candidate ''no'' = Some ''no''" "extract_candidate ''{}'' = Some ''{}''" by code_simp+
  show "evaluate_draft demo_agent_externs demo_tools ''no'' = Some (None, [payload_error ''reply was not JSON: text''])"
    "evaluate_draft demo_agent_externs demo_tools ''{}'' = Some (Some two_step, draft_report demo_tools two_step)"
    by (simp_all add: evaluate_draft_def extract_workflow_def c decode_workflow_def demo_agent_externs_def report_push_def)
qed

lemma demo_plan_runs: "\<exists>oc st. demo_plan = (Inr oc, st) \<and> po_accepted oc"
  by (simp add: plan_workflow_def request_draft_def planner_charge_def start_planning_def demo_tracker_def charge_step_def
      check_time_def still_machine_def scripted_provider_def default_streaming_def Let_def new_plan_request_def
      accept_draft_def plan_loop.simps [where limit = 3] demo_drafts begin_repair_def plan_result_def
      is_valid_clean demo_document [unfolded is_valid_clean] payload_error_def)

section \<open>Properties\<close>





text \<open>What the planner accepts over some tools, every validator accepts that knows these tools with
  the same descriptors (the runtime with its whole catalogue), and the document can be scheduled.\<close>

theorem accepted_plans_pass_the_runtime:
  assumes "plan_workflow ax m pv ds rq budget w = (Inr oc, st')" "po_accepted oc" "ds \<noteq> []" "index_covers ix ds"
  shows "\<exists>d order. po_workflow oc = Some d \<and> is_valid (validate_with d ix default_validation_options) \<and>
    topological_order (graph_of d) = Inr order \<and> is_topological_order d order"
proof -
  from accepted_plan [OF assms(1)] assms(2,3) obtain d where d: "po_workflow oc = Some d"
    "is_valid (validate_with d (descriptor_index ds) default_validation_options)"
    by (auto simp: plan_outcome_ok_def draft_report_def split: if_splits)
  then have "well_formed d ix" using well_formed_cover [OF assms(4)] by (simp add: is_valid_iff)
  with d(1) well_formed_schedulable [OF this] show ?thesis by (simp add: is_valid_iff)
qed

lemma accepted_plans_pass_the_runtime_witness:
  "\<exists>oc st d. demo_plan = (Inr oc, st) \<and> po_workflow oc = Some d \<and>
     is_valid (validate_with d (descriptor_index demo_tools) default_validation_options)"
proof -
  obtain oc st where run: "demo_plan = (Inr oc, st)" "po_accepted oc" using demo_plan_runs by blast
  have tools: "demo_tools \<noteq> []" "index_covers (descriptor_index demo_tools) demo_tools"
    using demo_covers by (simp_all add: demo_tools_def)
  from accepted_plans_pass_the_runtime [OF run tools] run(1) show ?thesis by blast
qed

end
