(* ===== verification/Nodara_Agent_Props.thy ===== *)
theory Nodara_Agent_Props
  imports Nodara_Agent Nodara_Runtime_Client_Props Nodara_Planner_Props
begin

text \<open>
  What a session promises: it ends, it starts at most two runs and only of documents the guardrails let
  through, and it leaves the published session in a status that says how it ended. The world is arbitrary;
  a counted invariant \<open>Q n\<close> of it (\<open>n\<close> runs were started) that no operation but a start changes, and that
  a start of a permitted document advances by one, is kept by the whole session.
\<close>

section \<open>Invariants of the world\<close>

definition start_url :: "agent_config \<Rightarrow> string" where
  "start_url cfg = rc_base (client_of cfg) @ ''/api/v1/runs''"

definition is_start :: "agent_config \<Rightarrow> http_request \<Rightarrow> bool" where
  "is_start cfg q \<longleftrightarrow> (\<exists>body. q = HttpPost (start_url cfg) body)"

definition start_request :: "'w agent_env \<Rightarrow> agent_config \<Rightarrow> workflow \<Rightarrow> string option \<Rightarrow> http_request" where
  "start_request env cfg doc sid =
     HttpPost (start_url cfg)
       (start_body (ae_codecs env) doc (gc_variables cfg) sid (gc_start_paused cfg) (gc_approval_mode cfg))"

text \<open>The operations of the world other than a start keep the invariant, and a start of a document that
  passes the guardrails over the catalogue \<open>ds\<close> advances it.\<close>

definition counts_starts ::
    "'w agent_env \<Rightarrow> agent_config \<Rightarrow> node_descriptor list \<Rightarrow> (nat \<Rightarrow> 'w \<Rightarrow> bool) \<Rightarrow> bool" where
  "counts_starts env cfg ds Q \<longleftrightarrow>
     (\<forall>n q w. \<not> is_start cfg q \<longrightarrow> Q n w \<longrightarrow> Q n (snd (ae_http env q w))) \<and>
     (\<forall>n doc sid w. tool_policy_check (ae_ext env) (gc_tools cfg) doc ds = Inr () \<longrightarrow> Q n w \<longrightarrow>
        Q (Suc n) (snd (ae_http env (start_request env cfg doc sid) w))) \<and>
     (\<forall>n w. Q n w \<longrightarrow> Q n (snd (mc_now_ms (ae_machine env) w)) \<and> Q n (snd (mc_instant_ns (ae_machine env) w)) \<and>
        Q n (mc_sleep_ms (ae_machine env) 100 w)) \<and>
     (\<forall>n q w. Q n w \<longrightarrow> Q n (snd (lp_streaming (ae_provider env) q w))) \<and>
     (\<forall>n path text w. Q n w \<longrightarrow> Q n (snd (tf_create_dir_all (ae_files env) path w)) \<and>
        Q n (snd (tf_open (ae_files env) path w)) \<and> Q n (tf_append (ae_files env) path text w))"

text \<open>The runtime serves one catalogue.\<close>

definition serves :: "'w agent_env \<Rightarrow> node_descriptor list \<Rightarrow> bool" where
  "serves env ds \<longleftrightarrow> (\<forall>v ds'. ac_descriptors (ae_codecs env) v = Inr ds' \<longrightarrow> ds' = ds)"

locale guarded_world =
  fixes env :: "'w agent_env" and cfg :: agent_config and ds :: "node_descriptor list" and Q :: "nat \<Rightarrow> 'w \<Rightarrow> bool"
  assumes counts: "counts_starts env cfg ds Q"
begin

abbreviation "H \<equiv> ae_http env"
abbreviation "C \<equiv> client_of cfg"
abbreviation "K \<equiv> ae_codecs env"

lemma http_keeps: "\<not> is_start cfg q \<Longrightarrow> Q n w \<Longrightarrow> Q n (snd (H q w))"
  using counts by (simp add: counts_starts_def)

lemma machine_keeps:
  "Q n w \<Longrightarrow> Q n (snd (mc_now_ms (ae_machine env) w))" "Q n w \<Longrightarrow> Q n (snd (mc_instant_ns (ae_machine env) w))"
  "Q n w \<Longrightarrow> Q n (mc_sleep_ms (ae_machine env) 100 w)"
  using counts by (simp_all add: counts_starts_def)

lemma files_keep:
  "Q n w \<Longrightarrow> Q n (snd (tf_create_dir_all (ae_files env) path w))" "Q n w \<Longrightarrow> Q n (snd (tf_open (ae_files env) path w))"
  "Q n w \<Longrightarrow> Q n (tf_append (ae_files env) path text w)"
  using counts by (simp_all add: counts_starts_def)

lemma provider_keeps: "Q n w \<Longrightarrow> Q n (snd (lp_streaming (ae_provider env) q w))"
  using counts by (simp add: counts_starts_def)

lemma get_keeps: "Q n w \<Longrightarrow> Q n (snd (client_get H C path w))"
  using http_keeps [of "HttpGet (rc_base C @ path)" n w] by (simp add: client_get_def is_start_def case_prod_beta Let_def)

lemma post_keeps: "path \<noteq> ''/api/v1/runs'' \<Longrightarrow> Q n w \<Longrightarrow> Q n (snd (client_post H C path body w))"
  using http_keeps [of "HttpPost (rc_base C @ path) body" n w]
  by (simp add: client_post_def is_start_def start_url_def case_prod_beta Let_def)

lemma start_keeps:
  "tool_policy_check (ae_ext env) (gc_tools cfg) doc ds = Inr () \<Longrightarrow> Q n w \<Longrightarrow>
   Q (Suc n) (snd (rc_start_run_with_options K H C doc (gc_variables cfg) sid (gc_start_paused cfg) (gc_approval_mode cfg) w))"
  using counts unfolding counts_starts_def
  by (simp add: rc_start_run_with_options_def client_post_def start_request_def start_url_def case_prod_beta Let_def)

lemma artifact_bytes_keeps: "Q n w \<Longrightarrow> Q n (snd (rc_artifact_bytes H C run_id aid w))"
  using http_keeps [of "HttpGet (rc_base C @ run_path run_id (''/artifacts/'' @ segment aid))" n w]
  by (simp add: rc_artifact_bytes_def is_start_def case_prod_beta Let_def)

lemma and_decode_world: "snd (and_decode f rw) = snd rw"
  by (simp add: and_decode_def)

lemma other_paths:
  "run_path run_id rest \<noteq> ''/api/v1/runs''" "session_path sid rest \<noteq> ''/api/v1/runs''"
  "''/api/v1/agent/sessions'' \<noteq> ''/api/v1/runs''"
  by (simp_all add: run_path_def session_path_def)

lemmas client_keeps = get_keeps post_keeps artifact_bytes_keeps other_paths

lemma operations_keep:
  assumes "Q n w"
  shows "Q n (snd (rc_node_types K H C w))" "Q n (snd (rc_get_run H C run_id w))"
    "Q n (snd (rc_run_workflow K H C run_id w))" "Q n (snd (rc_artifacts K H C run_id w))"
    "Q n (snd (rc_event_log K H C run_id w))" "Q n (snd (rc_cancel H C run_id w))"
    "Q n (snd (rc_create_session K H C goal provider w))" "Q n (snd (rc_get_session K H C sid w))"
    "Q n (snd (rc_append_message K H C sid role text w))" "Q n (snd (rc_publish_plan K H C sid preview w))"
    "Q n (snd (rc_set_session_status K H C sid status w))"
  using assms
  by (simp_all add: rc_node_types_def rc_get_run_def rc_run_workflow_def rc_artifacts_def rc_event_log_def rc_cancel_def
      rc_create_session_def rc_get_session_def rc_append_message_def rc_publish_plan_def rc_set_session_status_def
      session_reply_def and_decode_world client_keeps del: append.simps)

text \<open>States.\<close>

definition holds :: "nat \<Rightarrow> 'w agent_state \<Rightarrow> bool" where
  "holds n st \<longleftrightarrow> Q n (ag_world st)"

lemma on_world_keeps:
  "(\<And>w. Q n w \<Longrightarrow> Q n (snd (f w))) \<Longrightarrow> holds n st \<Longrightarrow> holds n (snd (on_world f st))"
  by (simp add: on_world_def holds_def case_prod_beta Let_def)

lemma ignoring_keeps: "(\<And>w. Q n w \<Longrightarrow> Q n (snd (f w))) \<Longrightarrow> holds n st \<Longrightarrow> holds n (ignoring f st)"
  by (simp add: ignoring_def holds_def)

lemma trace_record_keeps:
  "Q n w \<Longrightarrow> Q n (snd (trace_record (ae_machine env) (ae_files env) step summary payload t w))"
  using machine_keeps(1) [of n w] by (auto simp: trace_record_def Let_def case_prod_beta files_keep split: option.splits)

lemma note_step_keeps: "holds n st \<Longrightarrow> holds n (note_step env step summary payload st)"
  using trace_record_keeps [of n "ag_world st" step summary payload "ag_trace st"]
  by (simp add: note_step_def holds_def case_prod_beta Let_def)

lemma observe_keeps: "holds n (observe es st) = holds n st"
  by (simp add: observe_def holds_def)

lemma append_turn_keeps: "holds n st \<Longrightarrow> holds n (append_turn env cfg sid role text st)"
  by (simp add: append_turn_def ignoring_keeps operations_keep)

lemma finish_session_keeps: "holds n st \<Longrightarrow> holds n (finish_session env cfg sid status st)"
  by (simp add: finish_session_def ignoring_keeps operations_keep split: option.splits)

lemma publish_preview_keeps: "holds n st \<Longrightarrow> holds n (publish_preview env cfg sid doc report st)"
  by (simp add: publish_preview_def Let_def case_prod_beta ignoring_keeps operations_keep append_turn_keeps machine_keeps
      on_world_keeps del: append.simps split: option.splits)

lemmas state_keeps = note_step_keeps append_turn_keeps finish_session_keeps publish_preview_keeps observe_keeps

text \<open>Evidence and the start of a session.\<close>

lemma attach_image_keeps: "holds n st \<Longrightarrow> holds n (snd (attach_image env cfg run_id a ib st))"
  using on_world_keeps [of n "rc_artifact_bytes H C run_id (ra_id a)" st]
  by (auto simp: attach_image_def artifact_bytes_keeps note_step_keeps split: prod.splits sum.splits)

lemma attach_images_keeps: "holds n st \<Longrightarrow> holds n (snd (attach_images env cfg run_id as ib st))"
  by (induction as arbitrary: ib st) (simp_all add: Let_def case_prod_beta attach_image_keeps)

lemma context_from_parts_keeps:
  "holds n st \<Longrightarrow> holds n (snd (runtime_context_from_parts env cfg run_id snapshot doc events artifacts st))"
  by (simp add: runtime_context_from_parts_def Let_def case_prod_beta note_step_keeps attach_images_keeps
      del: append.simps)

lemma context_message_keeps: "holds n st \<Longrightarrow> holds n (snd (runtime_context_message env cfg session st))"
  using on_world_keeps [of n "rc_get_run H C r" st for r]
  by (simp add: runtime_context_message_def Let_def case_prod_beta on_world_keeps operations_keep
      context_from_parts_keeps del: append.simps split: option.splits sum.splits)

lemma begin_session_keeps: "holds n st \<Longrightarrow> holds n (snd (begin_session env cfg goal st))"
  by (simp add: begin_session_def Let_def case_prod_beta on_world_keeps operations_keep context_message_keeps
      ignoring_keeps state_keeps del: append.simps split: option.splits sum.splits)

lemma start_session_keeps: "holds n st \<Longrightarrow> holds n (snd (start_session env cfg goal st))"
  by (simp add: start_session_def begin_session_keeps note_step_keeps)

lemma discover_keeps: "holds n st \<Longrightarrow> holds n (snd (discover env cfg goal st))"
  by (simp add: discover_def Let_def case_prod_beta on_world_keeps operations_keep note_step_keeps del: append.simps
      split: sum.splits)

lemma open_trace_keeps: "Q n w \<Longrightarrow> Q n (snd (open_session_trace env cfg w))"
  by (auto simp: open_session_trace_def open_trace_def Let_def case_prod_beta files_keep split: option.splits sum.splits)

text \<open>Waiting and running.\<close>

lemma grace_loop_keeps:
  assumes "grace_loop H (ae_machine env) C run_id grace w = Some y" "Q n w"
  shows "Q n (snd y)"
proof -
  have "Q n w \<longrightarrow> Q n (snd y)"
  proof (rule grace_loop.raw_induct [of "\<lambda>h m c run_id grace w y. h = H \<and> m = ae_machine env \<and> c = C \<longrightarrow> Q n w \<longrightarrow> Q n (snd y)",
        THEN mp, OF _ assms(1)], intro impI, elim conjE, hypsubst)
    fix loop run_id grace w y
    assume IH: "\<And>h m c run_id grace w y. loop h m c run_id grace w = Some y \<Longrightarrow>
        h = H \<and> m = ae_machine env \<and> c = C \<longrightarrow> Q n w \<longrightarrow> Q n (snd y)"
      and run: "(case rc_get_run H C run_id w of
        (Inl e, w1) \<Rightarrow> Some (Inl e, w1)
      | (Inr snapshot, w1) \<Rightarrow>
          if status_terminal (snapshot_status snapshot) then Some (Inr snapshot, w1)
          else (case mc_instant_ns (ae_machine env) w1 of
                  (now, w2) \<Rightarrow>
                    if grace \<le> now then Some (Inr snapshot, w2)
                    else loop H (ae_machine env) C run_id grace (mc_sleep_ms (ae_machine env) 100 w2))) = Some y"
      and w: "Q n w"
    obtain r w1 where get: "rc_get_run H C run_id w = (r, w1)" by (rule prod.exhaust)
    obtain now w2 where now: "mc_instant_ns (ae_machine env) w1 = (now, w2)" by (rule prod.exhaust)
    have w1: "Q n w1" using operations_keep(2) [OF w, of run_id] get by simp
    have w2: "Q n w2" using machine_keeps(2) [OF w1] now by simp
    show "Q n (snd y)"
    proof (cases r)
      case (Inl e)
      with run get w1 show ?thesis by auto
    next
      case (Inr snapshot)
      then have "(if status_terminal (snapshot_status snapshot) then Some (Inr snapshot, w1)
          else if grace \<le> now then Some (Inr snapshot, w2)
          else loop H (ae_machine env) C run_id grace (mc_sleep_ms (ae_machine env) 100 w2)) = Some y"
        using run get now by (simp split: if_splits)
      with w1 w2 machine_keeps(3) [OF w2]
        IH [of H "ae_machine env" C run_id grace "mc_sleep_ms (ae_machine env) 100 w2" y]
      show ?thesis by (auto split: if_splits)
    qed
  qed simp
  with assms(2) show ?thesis by blast
qed

lemma cancel_and_wait_keeps:
  "cancel_and_wait H (ae_machine env) C run_id w = Some y \<Longrightarrow> Q n w \<Longrightarrow> Q n (snd y)"
  unfolding cancel_and_wait_def Let_def case_prod_beta
  by (erule grace_loop_keeps) (simp add: operations_keep machine_keeps)

lemma wait_loop_keeps:
  assumes "wait_loop H (ae_machine env) C run_id deadline w = Some y" "Q n w"
  shows "Q n (snd y)"
proof -
  have "Q n w \<longrightarrow> Q n (snd y)"
  proof (rule wait_loop.raw_induct [of "\<lambda>h m c run_id deadline w y. h = H \<and> m = ae_machine env \<and> c = C \<longrightarrow> Q n w \<longrightarrow> Q n (snd y)",
        THEN mp, OF _ assms(1)], intro impI, elim conjE, hypsubst)
    fix loop run_id deadline w y
    assume IH: "\<And>h m c run_id deadline w y. loop h m c run_id deadline w = Some y \<Longrightarrow>
        h = H \<and> m = ae_machine env \<and> c = C \<longrightarrow> Q n w \<longrightarrow> Q n (snd y)"
      and run: "(case rc_get_run H C run_id w of
        (Inl e, w1) \<Rightarrow> Some (Inl e, w1)
      | (Inr snapshot, w1) \<Rightarrow>
          if status_terminal (snapshot_status snapshot) then Some (Inr snapshot, w1)
          else (case mc_instant_ns (ae_machine env) w1 of
                  (now, w2) \<Rightarrow>
                    if deadline \<le> now then cancel_and_wait H (ae_machine env) C run_id w2
                    else loop H (ae_machine env) C run_id deadline (mc_sleep_ms (ae_machine env) 100 w2))) = Some y"
      and w: "Q n w"
    obtain r w1 where get: "rc_get_run H C run_id w = (r, w1)" by (rule prod.exhaust)
    obtain now w2 where now: "mc_instant_ns (ae_machine env) w1 = (now, w2)" by (rule prod.exhaust)
    have w1: "Q n w1" using operations_keep(2) [OF w, of run_id] get by simp
    have w2: "Q n w2" using machine_keeps(2) [OF w1] now by simp
    show "Q n (snd y)"
    proof (cases r)
      case (Inl e)
      with run get w1 show ?thesis by auto
    next
      case (Inr snapshot)
      then have "(if status_terminal (snapshot_status snapshot) then Some (Inr snapshot, w1)
          else if deadline \<le> now then cancel_and_wait H (ae_machine env) C run_id w2
          else loop H (ae_machine env) C run_id deadline (mc_sleep_ms (ae_machine env) 100 w2)) = Some y"
        using run get now by (simp split: if_splits)
      with w1 w2 machine_keeps(3) [OF w2] cancel_and_wait_keeps [of run_id w2 y n]
        IH [of H "ae_machine env" C run_id deadline "mc_sleep_ms (ae_machine env) 100 w2" y]
      show ?thesis by (auto split: if_splits)
    qed
  qed simp
  with assms(2) show ?thesis by blast
qed

lemma wait_for_run_keeps:
  "wait_for_run H (ae_machine env) C run_id timeout w = Some y \<Longrightarrow> Q n w \<Longrightarrow> Q n (snd y)"
  unfolding wait_for_run_def Let_def case_prod_beta by (erule wait_loop_keeps) (simp add: machine_keeps)

lemma finish_run_attempt_keeps: "holds n st \<Longrightarrow> holds n (snd (finish_run_attempt env cfg sid run_id snapshot st))"
  by (simp add: finish_run_attempt_def Let_def case_prod_beta on_world_keeps operations_keep state_keeps
      del: append.simps split: option.splits)

lemma watch_run_keeps:
  assumes "watch_run env cfg sid run_id st = Some (a, st')" "holds n st"
  shows "holds n st'"
proof -
  from assms(1) obtain r w where waited: "wait_for_run H (ae_machine env) C run_id (gc_run_timeout_ns cfg) (ag_world st) = Some (r, w)"
    by (auto simp: watch_run_def split: option.splits)
  have "holds n (st\<lparr>ag_world := w\<rparr>)"
    using wait_for_run_keeps [OF waited, of n] assms(2) by (simp add: holds_def)
  note st1 = this
  show ?thesis
  proof (cases r)
    case (Inl e)
    with assms(1) waited st1 show ?thesis
      by (auto simp: watch_run_def Let_def ignoring_keeps operations_keep note_step_keeps simp del: append.simps append_Cons)
  next
    case (Inr snapshot)
    then have "finish_run_attempt env cfg sid run_id snapshot (st\<lparr>ag_world := w\<rparr>) = (a, st')"
      using assms(1) waited by (simp add: watch_run_def)
    with finish_run_attempt_keeps [OF st1, of sid run_id snapshot] show ?thesis by simp
  qed
qed

lemma run_once_keeps:
  assumes "run_once env cfg sid doc st = Some (a, st')" "holds n st"
    "tool_policy_check (ae_ext env) (gc_tools cfg) doc ds = Inr ()"
  shows "holds (Suc n) st'"
proof -
  let ?start = "on_world (rc_start_run_with_options K H C doc (gc_variables cfg) sid (gc_start_paused cfg)
      (gc_approval_mode cfg)) st"
  obtain r st1 where start: "?start = (r, st1)" by (rule prod.exhaust)
  have st1: "holds (Suc n) st1"
    using start start_keeps [OF assms(3), of n "ag_world st" sid] assms(2)
    by (auto simp: on_world_def holds_def case_prod_beta)
  show ?thesis
  proof (cases r)
    case (Inl e)
    with assms(1) start st1 note_step_keeps show ?thesis by (auto simp: run_once_def)
  next
    case (Inr started)
    define st2 where "st2 = note_step env RunStartedStep (''run '' @ str_or [] (jget started ''id'') @ '' accepted'') started st1"
    define st3 where "st3 = (case sid of None \<Rightarrow> st2
        | Some s \<Rightarrow> append_turn env cfg s Agent (''Running `'' @ str_or [] (jget started ''id'') @ ''`.'') st2)"
    have st3: "holds (Suc n) st3"
      using st1 by (simp add: st3_def st2_def state_keeps del: append.simps append_Cons split: option.splits)
    note run = assms(1) [unfolded run_once_def start Inr prod.case sum.case Let_def, folded st2_def, folded st3_def]
    show ?thesis
    proof (cases "is_paused_start cfg started")
      case True
      with run st3 append_turn_keeps show ?thesis by (auto split: option.splits)
    next
      case False
      with run watch_run_keeps [OF _ st3] show ?thesis by auto
    qed
  qed
qed

text \<open>Planning.\<close>

lemma request_draft_keeps:
  assumes "request_draft (ae_ext env) (ae_machine env) (ae_provider env) phase message st = (r, st')" "Q n (pl_world st)"
  shows "Q n (pl_world st')"
proof -
  have charge: "Q n (snd (snd (charge_step (ae_ext env) (ae_machine env) t w)))" if "Q n w" for t w
    using that machine_keeps(2) [OF that] by (simp add: charge_step_def check_time_def Let_def case_prod_beta)
  have "Q n (pl_world (snd (planner_charge (ae_ext env) (ae_machine env) st)))"
    using assms(2) charge [of "pl_world st"] by (simp add: planner_charge_def Let_def case_prod_beta split: option.splits)
  with assms(1) provider_keeps show ?thesis
    by (auto simp: request_draft_def Let_def case_prod_beta split: sum.splits)
qed

lemma plan_loop_keeps:
  "Q n (pl_world st) \<Longrightarrow> Q n (pl_world (snd (plan_loop (ae_ext env) (ae_machine env) (ae_provider env) tools limit st)))"
proof (induction "ae_ext env" "ae_machine env" "ae_provider env" tools limit st rule: plan_loop.induct)
  case (1 tools limit st)
  note IH = "1.hyps" and st = "1.prems"
  show ?case
  proof (cases "evaluate_draft (ae_ext env) tools (pl_raw st)")
    case None
    with st show ?thesis by (simp add: plan_loop.simps)
  next
    case (Some p)
    obtain workflow report where p: "p = (workflow, report)" by (rule prod.exhaust)
    define st1 where "st1 = plan_emit (PlanValidation (is_valid report) report) st"
    note loop = plan_loop.simps [of "ae_ext env" "ae_machine env" "ae_provider env" tools limit st,
        unfolded Some p option.case prod.case, folded st1_def]
    have st1: "Q n (pl_world st1)" using st by (simp add: st1_def)
    show ?thesis
    proof (cases "is_valid report \<or> limit \<le> pl_repairs st1")
      case True
      with st1 show ?thesis by (auto simp: loop Let_def split: option.splits)
    next
      case False
      obtain c st3 where req: "request_draft (ae_ext env) (ae_machine env) (ae_provider env) ''repair''
          (repair_note (pl_repairs st1 + 1)) (begin_repair (ae_ext env) report st1) = (c, st3)" by (rule prod.exhaust)
      have "Q n (pl_world (begin_repair (ae_ext env) report st1))" using st1 by (simp add: begin_repair_def Let_def)
      from request_draft_keeps [OF req this] have st3: "Q n (pl_world st3)" .
      show ?thesis
      proof (cases c)
        case (Inl e)
        with False st3 show ?thesis by (simp add: loop req)
      next
        case (Inr response)
        have "Q n (pl_world (accept_draft st3 response))" using st3 by (simp add: accept_draft_def)
        from IH [OF Some p [symmetric], folded st1_def, OF refl _ _ req [symmetric] Inr this] False Inr
        show ?thesis by (simp add: loop req)
      qed
    qed
  qed
qed

lemma plan_workflow_keeps:
  assumes "Q n w"
  shows "Q n (pl_world (snd (plan_workflow (ae_ext env) (ae_machine env) (ae_provider env) tools rq budget w)))"
proof -
  obtain r st where req: "request_draft (ae_ext env) (ae_machine env) (ae_provider env) ''model_call''
      ''requesting the first draft'' (start_planning (ae_ext env) tools rq budget w) = (r, st)" by (rule prod.exhaust)
  have "Q n (pl_world st)" using request_draft_keeps [OF req] assms by (simp add: start_planning_def)
  then show ?thesis
    by (cases r) (simp_all add: plan_workflow_def req plan_loop_keeps accept_draft_def)
qed

text \<open>Turns.\<close>

lemma conclude_keeps:
  assumes "conclude env cfg fr report accepted doc run status v = (t, v')" "holds n (sv_state v)"
  shows "holds n (sv_state v') \<and> sv_run_attempts v' = sv_run_attempts v \<and> t \<noteq> Again"
  using assms by (auto simp: conclude_def with_state_def finish_session_keeps)

lemma fail_session_keeps:
  assumes "fail_session env cfg fr e v = (t, v')" "holds n (sv_state v)"
  shows "holds n (sv_state v') \<and> sv_run_attempts v' = sv_run_attempts v \<and> t \<noteq> Again"
  using assms by (auto simp: fail_session_def with_state_def finish_session_keeps)

lemma plan_turn_keeps:
  assumes "plan_turn env cfg fr v = (r, v')" "holds n (sv_state v)"
  shows "holds n (sv_state v') \<and> sv_run_attempts v' = sv_run_attempts v \<and> sv_reviewed v' = sv_reviewed v"
  using assms plan_workflow_keeps [of n "ag_world (sv_state v)"]
  by (auto simp: plan_turn_def Let_def case_prod_beta holds_def)

lemma charge_turn_keeps:
  assumes "charge_turn env oc v = (r, v')" "holds n (sv_state v)"
  shows "holds n (sv_state v') \<and> sv_run_attempts v' = sv_run_attempts v \<and> sv_reviewed v' = sv_reviewed v"
  using assms machine_keeps(2) [of n "ag_world (sv_state v)"]
  by (auto simp: charge_turn_def charge_tokens_def check_time_def Let_def case_prod_beta holds_def)

lemma record_plan_keeps:
  "holds n (sv_state v) \<Longrightarrow> holds n (sv_state (record_plan env oc v))"
  "sv_run_attempts (record_plan env oc v) = sv_run_attempts v" "sv_reviewed (record_plan env oc v) = sv_reviewed v"
  by (simp_all add: record_plan_def with_state_def note_step_keeps Let_def del: append.simps append_Cons)

lemma review_turn_keeps:
  assumes "review_turn env doc v = Some v'" "holds n (sv_state v)"
  shows "holds n (sv_state v') \<and> sv_run_attempts v' = sv_run_attempts v \<and> sv_reviewed v' \<and> \<not> sv_reviewed v"
  using assms
  by (auto simp: review_turn_def with_state_def note_step_keeps observe_keeps Let_def simp del: append.simps append_Cons
      split: if_splits option.splits)

lemma replan_context_keeps:
  assumes "holds n (sv_state v)"
  shows "holds n (sv_state (replan_context env cfg doc snapshot events v)) \<and>
    sv_run_attempts (replan_context env cfg doc snapshot events v) = sv_run_attempts v \<and>
    sv_reviewed (replan_context env cfg doc snapshot events v) = sv_reviewed v"
  using assms
  by (simp add: replan_context_def Let_def case_prod_beta on_world_keeps operations_keep context_from_parts_keeps
      split: option.splits)

lemma after_run_keeps:
  assumes "after_run env cfg fr oc doc attempt v = (t, v')" "holds n (sv_state v)"
  shows "holds n (sv_state v') \<and> sv_run_attempts v' = sv_run_attempts v \<and>
    (t = Again \<longrightarrow> sv_run_attempts v' < max_run_attempts \<and> sv_reviewed v' = sv_reviewed v)"
proof (cases attempt)
  case (AttemptReplannable reason snapshot events highlights)
  define v1 where "v1 = with_state (note_step env NoteStep (''re-planning after failure: '' @ reason)
      (case snapshot of Some s \<Rightarrow> s | None \<Rightarrow> JNull)) v"
  have v1: "holds n (sv_state v1)" "sv_run_attempts v1 = sv_run_attempts v" "sv_reviewed v1 = sv_reviewed v"
    using assms(2) by (simp_all add: v1_def with_state_def note_step_keeps del: append.simps append_Cons)
  define v2 where "v2 = (if sv_run_attempts v1 < max_run_attempts then replan_context env cfg doc snapshot events v1 else v1)"
  have v2: "holds n (sv_state v2)" "sv_run_attempts v2 = sv_run_attempts v" "sv_reviewed v2 = sv_reviewed v"
    using v1 replan_context_keeps [OF v1(1)] by (simp_all add: v2_def)
  note run = assms(1) [unfolded AttemptReplannable after_run.simps Let_def, folded v1_def, folded v2_def]
  show ?thesis
  proof (cases "max_run_attempts \<le> sv_run_attempts v2")
    case True
    with run conclude_keeps [OF _ v2(1)] v2 show ?thesis by fastforce
  next
    case False
    with run v2 show ?thesis by (auto simp: not_le split: if_splits)
  qed
qed (use assms conclude_keeps in \<open>fastforce simp: Let_def\<close>)+

lemma run_turn_keeps:
  assumes "run_turn env cfg fr oc doc v = Some (t, v')" "holds n (sv_state v)"
    "tool_policy_check (ae_ext env) (gc_tools cfg) doc ds = Inr ()"
  shows "holds (Suc n) (sv_state v') \<and> sv_run_attempts v' = sv_run_attempts v + 1 \<and>
    (t = Again \<longrightarrow> sv_run_attempts v' < max_run_attempts \<and> sv_reviewed v' = sv_reviewed v)"
proof -
  define v1 where "v1 = with_state (observe [PlanPhase ''run'' ''starting the accepted workflow''])
      (v\<lparr>sv_run_attempts := sv_run_attempts v + 1\<rparr>)"
  have v1: "holds n (sv_state v1)" "sv_run_attempts v1 = sv_run_attempts v + 1" "sv_reviewed v1 = sv_reviewed v"
    using assms(2) by (simp_all add: v1_def with_state_def observe_keeps)
  from assms(1) obtain attempt st where run: "run_once env cfg (sf_session_id fr) doc (sv_state v1) = Some (attempt, st)"
    and after: "after_run env cfg fr oc doc attempt (v1\<lparr>sv_state := st\<rparr>) = (t, v')"
    by (auto simp: run_turn_def v1_def [symmetric] split: option.splits)
  have "holds (Suc n) (sv_state (v1\<lparr>sv_state := st\<rparr>))" using run_once_keeps [OF run v1(1) assms(3)] by simp
  from after_run_keeps [OF after this] v1 show ?thesis by auto
qed

text \<open>A turn that goes on used up the review or one of the two runs.\<close>

definition turns_left :: "'w session_vars \<Rightarrow> nat" where
  "turns_left v = (if sv_reviewed v then 0 else 1) + (2 - unat (sv_run_attempts v))"

definition may_run :: "'w session_vars \<Rightarrow> bool" where
  "may_run v \<longleftrightarrow> sv_run_attempts v < max_run_attempts \<and> holds (unat (sv_run_attempts v)) (sv_state v)"

lemma attempts_suc: "n < max_run_attempts \<Longrightarrow> unat (n + 1) = unat n + 1 \<and> n + 1 \<le> max_run_attempts"
  unfolding max_run_attempts_def by (rule repairs_suc)

definition good_turn :: "'w session_vars \<Rightarrow> turn_end \<times> 'w session_vars \<Rightarrow> bool" where
  "good_turn v tv \<longleftrightarrow>
     (case tv of (t, v') \<Rightarrow>
        (\<exists>n\<le>2. holds n (sv_state v')) \<and> (t = Again \<longrightarrow> may_run v' \<and> turns_left v' < turns_left v))"

lemma may_run_count: "may_run v \<Longrightarrow> unat (sv_run_attempts v) \<le> 2 \<and> holds (unat (sv_run_attempts v)) (sv_state v)"
  by (auto simp: may_run_def max_run_attempts_def word_less_nat_alt)

lemma document_turn_good:
  assumes "document_turn env cfg fr oc doc v = Some (t, v')" "may_run v" "sf_descriptors fr = ds"
  shows "good_turn v (t, v')"
proof (cases "tool_policy_check (ae_ext env) (gc_tools cfg) doc ds")
  case (Inl e)
  have "holds (unat (sv_run_attempts v)) (sv_state (with_state (note_step env GuardrailStep
      (''refused: '' @ agent_error_text e) (policy_json cfg)) v))"
    using may_run_count [OF assms(2)] by (simp add: with_state_def note_step_keeps del: append.simps append_Cons)
  from fail_session_keeps [OF _ this] assms(1,3) Inl may_run_count [OF assms(2)] show ?thesis
    by (auto simp: document_turn_def good_turn_def)
next
  case (Inr u)
  then have ok: "tool_policy_check (ae_ext env) (gc_tools cfg) doc ds = Inr ()" by simp
  define v1 where "v1 = with_state (note_step env GuardrailStep ''guardrails passed'' (policy_json cfg)) v"
  have v1: "holds (unat (sv_run_attempts v)) (sv_state v1)" "sv_run_attempts v1 = sv_run_attempts v"
    "sv_reviewed v1 = sv_reviewed v"
    using may_run_count [OF assms(2)] by (simp_all add: v1_def with_state_def note_step_keeps)
  define v2 where "v2 = with_state (publish_preview env cfg (sf_session_id fr) doc (po_report oc)) v1"
  have v2: "holds (unat (sv_run_attempts v)) (sv_state v2)" "sv_run_attempts v2 = sv_run_attempts v"
    "sv_reviewed v2 = sv_reviewed v"
    using v1 by (simp_all add: v2_def with_state_def publish_preview_keeps)
  have less: "sv_run_attempts v < max_run_attempts" using assms(2) by (simp add: may_run_def)
  note turn = assms(1) [unfolded document_turn_def assms(3) ok sum.case Let_def, folded v1_def, folded v2_def]
  show ?thesis
  proof (cases "review_turn env doc v1")
    case (Some v3)
    with turn have "t = Again" "v' = v3" by auto
    with review_turn_keeps [OF Some v1(1)] v1 less may_run_count [OF assms(2)] show ?thesis
      by (auto simp: good_turn_def may_run_def turns_left_def)
  next
    case None
    show ?thesis
    proof (cases "sf_run fr \<or> gc_auto_run cfg")
      case False
      with turn None have "conclude env cfg fr (session_report fr JNull (po_accepted oc) [] [] v2) (po_accepted oc) (Some doc)
          None SReady v2 = (t, v')" by simp
      from conclude_keeps [OF this v2(1)] may_run_count [OF assms(2)] show ?thesis by (auto simp: good_turn_def)
    next
      case True
      with turn None have "run_turn env cfg fr oc doc v2 = Some (t, v')" by auto
      from run_turn_keeps [OF this v2(1) ok] v2 attempts_suc [OF less] show ?thesis
        by (auto simp: good_turn_def may_run_def turns_left_def word_less_nat_alt word_le_nat_alt max_run_attempts_def)
    qed
  qed
qed

lemma session_turn_good:
  assumes "session_turn env cfg fr v = Some (t, v')" "may_run v" "sf_descriptors fr = ds"
  shows "good_turn v (t, v')"
proof -
  note start = may_run_count [OF assms(2)]
  obtain r v1 where plan: "plan_turn env cfg fr v = (r, v1)" by (rule prod.exhaust)
  note v1 = plan_turn_keeps [OF plan conjunct2 [OF start]]
  show ?thesis
  proof (cases r)
    case (Inl f)
    with assms(1) plan v1 start fail_session_keeps [of fr _ v1 t v'] show ?thesis
      by (cases f) (fastforce simp: session_turn_def good_turn_def)+
  next
    case (Inr oc)
    obtain c v2 where charge: "charge_turn env oc v1 = (c, v2)" by (rule prod.exhaust)
    note v2 = charge_turn_keeps [OF charge conjunct1 [OF v1]]
    show ?thesis
    proof (cases c)
      case (Inl e)
      with assms(1) plan \<open>r = Inr oc\<close> charge have "fail_session env cfg fr e v2 = (t, v')" by (simp add: session_turn_def)
      from fail_session_keeps [OF this conjunct1 [OF v2]] start show ?thesis by (auto simp: good_turn_def)
    next
      case ok: (Inr u)
      note v3 = record_plan_keeps
      have held: "holds (unat (sv_run_attempts v)) (sv_state (record_plan env oc v2))" using v2 v3(1) by blast
      have w3: "may_run (record_plan env oc v2)"
        using assms(2) v1 v2 v3 held by (simp add: may_run_def)
      show ?thesis
      proof (cases "po_workflow oc")
        case None
        with assms(1) plan \<open>r = Inr oc\<close> charge ok
        have "finish_without_plan env cfg fr (po_accepted oc) (record_plan env oc v2) = (t, v')"
          by (simp add: session_turn_def Let_def)
        from conclude_keeps [OF this [unfolded finish_without_plan_def] held] start show ?thesis
          by (auto simp: good_turn_def)
      next
        case (Some doc)
        with assms(1) plan \<open>r = Inr oc\<close> charge ok
        have "document_turn env cfg fr oc doc (record_plan env oc v2) = Some (t, v')"
          by (simp add: session_turn_def Let_def)
        from document_turn_good [OF this w3 assms(3)] v1 v2 v3 show ?thesis
          by (auto simp: good_turn_def turns_left_def)
      qed
    qed
  qed
qed

lemma session_loop_counts:
  "session_loop env cfg fr v = Some (r, v') \<Longrightarrow> may_run v \<Longrightarrow> sf_descriptors fr = ds \<Longrightarrow> \<exists>n\<le>2. holds n (sv_state v')"
proof (induction "turns_left v" arbitrary: v rule: less_induct)
  case less
  note loop = less.prems(1) [unfolded session_loop.simps [of env cfg fr v]]
  then obtain t v1 where turn: "session_turn env cfg fr v = Some (t, v1)" by (auto split: option.splits)
  note good = session_turn_good [OF turn less.prems(2,3)]
  show ?case
  proof (cases t)
    case (Stop r')
    with loop turn good show ?thesis by (auto simp: good_turn_def)
  next
    case Again
    with loop turn have "session_loop env cfg fr v1 = Some (r, v')" by simp
    with less.hyps [of v1] good Again less.prems(3) show ?thesis by (auto simp: good_turn_def)
  qed
qed

lemma session_opening_keeps:
  assumes "session_opening env cfg goal constraints trace w = (tracker, sid, conversation, st)" "Q n w"
  shows "holds n st"
proof -
  have "holds n (note_step env GoalStep goal (goal_json env cfg constraints)
      \<lparr>ag_trace = trace, ag_events = [], ag_world = snd (new_tracker (ae_machine env) (gc_budget cfg) w)\<rparr>)"
    using assms(2) by (intro note_step_keeps) (simp add: holds_def new_tracker_def Let_def case_prod_beta machine_keeps)
  from start_session_keeps [OF this, of goal] assms(1) show ?thesis
    by (auto simp: session_opening_def Let_def case_prod_beta)
qed

lemma json_result_Inr: "json_result d = Inr x \<longleftrightarrow> d = Inr x"
  by (simp add: json_result_def split: sum.splits)

lemma session_counts:
  assumes "agent_run_session env cfg goal constraints run w = Some (r, st)" "Q 0 w" "serves env ds"
    "\<not> gc_offline cfg"
  shows "\<exists>n\<le>2. Q n (ag_world st)"
proof -
  obtain opened w1 where opened: "open_session_trace env cfg w = (opened, w1)" by (rule prod.exhaust)
  have w1: "Q 0 w1" using open_trace_keeps [OF assms(2)] opened by simp
  show ?thesis
  proof (cases opened)
    case (Inl e)
    with assms(1) opened w1 show ?thesis by (auto simp: agent_run_session_def)
  next
    case (Inr trace)
    obtain tracker sid conversation st1 where begun:
      "session_opening env cfg goal constraints trace w1 = (tracker, sid, conversation, st1)" by (rule prod_cases4)
    note st1 = session_opening_keeps [OF begun w1]
    obtain found st2 where found: "discover env cfg goal st1 = (found, st2)" by (rule prod.exhaust)
    have st2: "holds 0 st2" using discover_keeps [OF st1, of goal] found by simp
    note run = assms(1) [unfolded agent_run_session_def opened Inr prod.case sum.case begun found]
    show ?thesis
    proof (cases found)
      case (Inl e)
      with run finish_session_keeps [OF st2] show ?thesis by (auto simp: holds_def)
    next
      case (Inr p)
      obtain ds' selected where p: "p = (ds', selected)" by (rule prod.exhaust)
      have "ds' = ds"
        using found assms(3,4) unfolding Inr p
        by (auto simp: discover_def rc_node_types_def and_decode_def on_world_def json_result_Inr serves_def Let_def case_prod_beta split: sum.splits)
      moreover have "may_run (initial_vars tracker conversation st2)"
        using st2 by (simp add: may_run_def initial_vars_def max_run_attempts_def)
      ultimately show ?thesis
        using run Inr p session_loop_counts by (fastforce simp: holds_def)
    qed
  qed
qed

end

end
