(* ===== verification/Nodara_Agent_Session.thy ===== *)
theory Nodara_Agent_Session
  imports Nodara_Agent_Props
begin

text \<open>
  The session as a whole: it ends when the clock moves, it ends by setting the status of the published
  session, and the properties of the agent with a concrete session for each.
\<close>

section \<open>Sessions end\<close>

text \<open>Over any environment the invariant that says nothing holds; what remains of the locale is that a
  session takes at most three turns.\<close>

interpretation any_world: guarded_world env cfg ds "\<lambda>_ _. True" for env :: "'w agent_env" and cfg ds
  by unfold_locales (simp add: counts_starts_def)

lemma any_may_run: "any_world.may_run v \<longleftrightarrow> sv_run_attempts v < max_run_attempts"
  by (simp add: any_world.may_run_def any_world.holds_def)

lemma watch_run_returns:
  "clock_moves (ae_machine env) (ae_http env) clock \<Longrightarrow> watch_run env cfg sid run_id st \<noteq> None"
  using wait_for_run_ends [of "ae_machine env" "ae_http env" clock "client_of cfg" run_id "gc_run_timeout_ns cfg" "ag_world st"]
  by (auto simp: watch_run_def Let_def split: sum.splits)

lemma run_once_returns:
  "clock_moves (ae_machine env) (ae_http env) clock \<Longrightarrow> run_once env cfg sid doc st \<noteq> None"
  using watch_run_returns [of env clock cfg sid]
  by (simp add: run_once_def Let_def del: not_None_eq append.simps append_Cons split: prod.splits sum.splits option.splits)

lemma session_turn_returns:
  assumes "clock_moves (ae_machine env) (ae_http env) clock"
  shows "session_turn env cfg fr v \<noteq> None"
proof -
  have run: "run_turn env cfg fr oc doc u \<noteq> None" for oc doc u
    using run_once_returns [OF assms] by (simp add: run_turn_def Let_def del: not_None_eq split: option.splits prod.splits)
  have "document_turn env cfg fr oc doc u \<noteq> None" for oc doc u
    using run by (simp add: document_turn_def Let_def del: not_None_eq append.simps append_Cons split: sum.splits option.splits)
  then show ?thesis
    by (simp add: session_turn_def Let_def del: not_None_eq split: prod.splits sum.splits option.splits agent_failure.splits)
qed

lemma session_loop_returns:
  assumes "clock_moves (ae_machine env) (ae_http env) clock"
  shows "sv_run_attempts v < max_run_attempts \<Longrightarrow> session_loop env cfg fr v \<noteq> None"
proof (induction "any_world.turns_left v" arbitrary: v rule: less_induct)
  case less
  obtain t v1 where turn: "session_turn env cfg fr v = Some (t, v1)" using session_turn_returns [OF assms] by fast
  have "any_world.may_run v" using less.prems by (simp add: any_may_run)
  from any_world.session_turn_good [OF turn this refl]
  have "t = Again \<Longrightarrow> sv_run_attempts v1 < max_run_attempts \<and> any_world.turns_left v1 < any_world.turns_left v"
    by (simp add: any_world.good_turn_def any_may_run)
  with less.hyps [of v1] turn show ?case by (cases t) (simp_all add: session_loop.simps [of env cfg fr v] del: not_None_eq)
qed

lemma session_returns:
  assumes "clock_moves (ae_machine env) (ae_http env) clock"
  shows "agent_run_session env cfg goal constraints run w \<noteq> None"
proof -
  have "session_loop env cfg fr (initial_vars tracker conversation st) \<noteq> None" for fr tracker conversation st
    by (rule session_loop_returns [OF assms]) (simp add: initial_vars_def max_run_attempts_def)
  then show ?thesis
    by (simp add: agent_run_session_def del: not_None_eq split: prod.splits sum.splits)
qed

section \<open>The status a session ends in\<close>

text \<open>The status that goes with an outcome: \<open>failed\<close> without a document, \<open>ready\<close> without a run, and
  otherwise what the run came to.\<close>

definition outcome_status :: "agent_outcome \<Rightarrow> session_status" where
  "outcome_status out =
     (if ao_run out = None then (if ao_workflow out = None then SFailed else SReady)
      else if er_status (ao_report out) = ''completed'' then SCompleted
      else terminal_status (er_status (ao_report out)))"

definition closes :: "'w agent_env \<Rightarrow> agent_config \<Rightarrow> string option \<Rightarrow> (agent_failure, agent_outcome) result \<Rightarrow> 'w agent_state \<Rightarrow> bool" where
  "closes env cfg sid r st \<longleftrightarrow>
     (case r of
        Inr out \<Rightarrow> ao_session_id out = sid \<and> (\<exists>st0. st = finish_session env cfg sid (outcome_status out) st0)
      | Inl (Returned e) \<Rightarrow> (\<exists>st0. st = finish_session env cfg sid SFailed st0)
      | Inl (Panicked p) \<Rightarrow> True)"

fun attempt_ok :: "run_attempt \<Rightarrow> bool" where
  "attempt_ok (AttemptSucceeded s _ _) = (snapshot_status s = ''completed'')"
| "attempt_ok (AttemptReplannable _ s _ _) = (\<exists>v. s = Some v \<and> snapshot_status v = ''failed'')"
| "attempt_ok (AttemptTerminal s _ _) = (snapshot_status s \<noteq> ''completed'')"

lemma status_of_null: "snapshot_status JNull = ''unknown''"
  by (simp add: snapshot_status_def)

lemma classify_run_ok: "attempt_ok (classify_run snapshot events highlights)"
  by (auto simp: classify_run_def Let_def)

lemma watch_run_ok: "watch_run env cfg sid run_id st = Some (a, st') \<Longrightarrow> attempt_ok a"
  by (auto simp: watch_run_def finish_run_attempt_def Let_def case_prod_beta classify_run_ok status_of_null
      split: option.splits prod.splits sum.splits)

lemma run_once_ok: "run_once env cfg sid doc st = Some (a, st') \<Longrightarrow> attempt_ok a"
  by (auto simp: run_once_def is_paused_start_def snapshot_status_def status_of_null [unfolded snapshot_status_def] Let_def
      split: prod.splits sum.splits if_splits dest: watch_run_ok)

lemma report_status:
  "er_status (session_report fr snapshot accepted events highlights v) =
     (if Option.bind (jget snapshot ''status'') as_str = None then (if accepted then ''planned'' else ''rejected'')
      else snapshot_status snapshot)"
  by (auto simp: session_report_def build_report_def str_or_def snapshot_status_def split: option.splits)

lemma conclude_closes:
  assumes "conclude env cfg fr report accepted doc run status v = (Stop r, v')"
    "status = (if run = None then (if doc = None then SFailed else SReady)
       else if er_status report = ''completed'' then SCompleted else terminal_status (er_status report))"
  shows "closes env cfg (sf_session_id fr) r (sv_state v')"
  using assms by (auto simp: conclude_def closes_def outcome_status_def with_state_def)

lemma fail_session_closes:
  "fail_session env cfg fr e v = (Stop r, v') \<Longrightarrow> closes env cfg (sf_session_id fr) r (sv_state v')"
  by (auto simp: fail_session_def closes_def with_state_def)

lemma after_run_closes:
  assumes "after_run env cfg fr oc doc attempt v = (Stop r, v')" "attempt_ok attempt"
  shows "closes env cfg (sf_session_id fr) r (sv_state v')"
proof (cases attempt)
  case (AttemptSucceeded snapshot events highlights)
  with assms(2) have "Option.bind (jget snapshot ''status'') as_str \<noteq> None" "snapshot_status snapshot = ''completed''"
    by (auto simp: snapshot_status_def split: option.splits)
  with conclude_closes [OF assms(1) [unfolded AttemptSucceeded after_run.simps]] show ?thesis
    by (simp add: report_status)
next
  case (AttemptReplannable reason snapshot events highlights)
  with assms(2) obtain s where s: "snapshot = Some s" "Option.bind (jget s ''status'') as_str \<noteq> None"
    "snapshot_status s = ''failed''"
    by (auto simp: snapshot_status_def split: option.splits)
  then show ?thesis
    using assms(1) unfolding AttemptReplannable
    by (auto simp: Let_def report_status terminal_status_def split: if_splits dest!: conclude_closes)
next
  case (AttemptTerminal snapshot events highlights)
  with assms(2) have "snapshot_status snapshot \<noteq> ''completed''" by simp
  then have "er_status (session_report fr snapshot (po_accepted oc) events highlights v) \<noteq> ''completed''"
    by (simp add: report_status)
  with conclude_closes [OF assms(1) [unfolded AttemptTerminal after_run.simps Let_def]] show ?thesis by simp
qed

lemma run_turn_closes:
  "run_turn env cfg fr oc doc v = Some (Stop r, v') \<Longrightarrow> closes env cfg (sf_session_id fr) r (sv_state v')"
  by (auto simp: run_turn_def Let_def split: option.splits prod.splits dest: run_once_ok after_run_closes)

lemma document_turn_closes:
  assumes "document_turn env cfg fr oc doc v = Some (Stop r, v')"
  shows "closes env cfg (sf_session_id fr) r (sv_state v')"
  using assms
  by (auto simp: document_turn_def Let_def simp del: append.simps append_Cons split: sum.splits option.splits if_splits
      dest: fail_session_closes run_turn_closes conclude_closes)

lemma session_turn_closes:
  assumes "session_turn env cfg fr v = Some (Stop r, v')"
  shows "closes env cfg (sf_session_id fr) r (sv_state v')"
  using assms
  by (auto simp: session_turn_def Let_def closes_def [of env cfg "sf_session_id fr" "Inl (Panicked p)" for p]
      finish_without_plan_def split: prod.splits sum.splits option.splits agent_failure.splits
      dest: fail_session_closes document_turn_closes conclude_closes)

lemma session_loop_closes:
  "session_loop env cfg fr v = Some (r, v') \<Longrightarrow> closes env cfg (sf_session_id fr) r (sv_state v')"
proof -
  assume "session_loop env cfg fr v = Some (r, v')"
  then have "closes env cfg (sf_session_id fr) (fst (r, v')) (sv_state (snd (r, v')))"
  proof (rule session_loop.raw_induct [of "\<lambda>env cfg fr v y. closes env cfg (sf_session_id fr) (fst y) (sv_state (snd y))", rotated])
    fix loop and env :: "'a agent_env" and cfg fr v y
    assume IH: "\<And>env cfg fr v y. loop env cfg fr v = Some y \<Longrightarrow> closes env cfg (sf_session_id fr) (fst y) (sv_state (snd y))"
      and run: "(case session_turn env cfg fr v of
        None \<Rightarrow> None
      | Some (Stop r, v') \<Rightarrow> Some (r, v')
      | Some (Again, v') \<Rightarrow> loop env cfg fr v') = Some y"
    then obtain t v1 where turn: "session_turn env cfg fr v = Some (t, v1)" by (auto split: option.splits)
    show "closes env cfg (sf_session_id fr) (fst y) (sv_state (snd y))"
      using run turn IH session_turn_closes [of env cfg fr v _ v1] by (cases t) auto
  qed
  then show ?thesis by simp
qed

section \<open>What the code makes of a rejected plan\<close>

text \<open>Once a run was attempted the outcome says \<open>accepted\<close>, whatever the validator said of the plan.\<close>

lemma run_says_accepted:
  "run_turn env cfg fr oc doc v = Some (Stop (Inr out), v') \<Longrightarrow> ao_accepted out"
proof -
  have "after_run env cfg fr oc doc a u = (Stop (Inr out), u') \<Longrightarrow> ao_accepted out" for a u u'
    by (cases a) (auto simp: conclude_def Let_def split: if_splits)
  then show "run_turn env cfg fr oc doc v = Some (Stop (Inr out), v') \<Longrightarrow> ao_accepted out"
    by (auto simp: run_turn_def Let_def split: option.splits prod.splits)
qed

text \<open>Without a run, a plan that was rejected leaves the published session ready.\<close>

lemma rejected_plan_is_ready:
  assumes "tool_policy_check (ae_ext env) (gc_tools cfg) doc (sf_descriptors fr) = Inr ()" "sv_reviewed v"
    "\<not> sf_run fr" "\<not> gc_auto_run cfg" "sf_session_id fr = Some sid"
  shows "\<exists>r v' st0. document_turn env cfg fr oc doc v = Some (Stop r, v') \<and>
    sv_state v' = ignoring (rc_set_session_status (ae_codecs env) (ae_http env) (client_of cfg) sid SReady) st0"
  using assms by (auto simp: document_turn_def review_turn_def with_state_def Let_def conclude_def finish_session_def)

text \<open>Offline there is no catalogue, and then the checks for dangerous and privileged nodes pass anything.\<close>

lemma offline_guardrails_pass: "tool_policy_check ax safe_guardrails doc [] = Inr ()"
proof -
  have "check_tools ax safe_guardrails [] ns = Inr ()" for ns
    by (induction ns) (simp_all add: check_tool_def safe_guardrails_def refusing_privileged_def refusing_dangerous_def
        unrestricted_def find_descriptor_def)
  then show ?thesis by (simp add: tool_policy_check_def)
qed

section \<open>A concrete session\<close>

record agent_demo_world =
  dw_replies :: "string list"
  dw_clock :: nat
  dw_starts :: nat

definition agent_demo_session :: agent_session where
  "agent_demo_session =
     \<lparr>as_id = ''s'', as_goal = [], as_provider = [], as_status = SDraft, as_created_at_ms = 0, as_updated_at_ms = 0,
      as_messages = [], as_plan = None, as_approvals = [], as_run_id = None, as_tokens_used = 0\<rparr>"

text \<open>A runtime that answers every request with one object: a catalogue, and a run that completed.\<close>

definition demo_reply :: json where
  "demo_reply = JObj [(''id'', JStr ''r''), (''node_types'', JNull), (''status'', JStr ''completed'')]"

definition demo_http :: "agent_demo_world http" where
  "demo_http q w =
     (HttpSuccess \<lparr>hb_content_type = None, hb_json = Inr demo_reply, hb_bytes = Inr []\<rparr>,
      (case q of HttpPost url _ \<Rightarrow> if url = start_url default_agent_config then w\<lparr>dw_starts := Suc (dw_starts w)\<rparr> else w
       | HttpGet _ \<Rightarrow> w))"

definition demo_codecs :: api_codecs where
  "demo_codecs =
     \<lparr>ac_descriptors = (\<lambda>_. Inr demo_tools), ac_report = (\<lambda>_. Inr []), ac_workflow = (\<lambda>_. Inr two_step),
      ac_artifacts = (\<lambda>_. Inr []), ac_events = (\<lambda>_. Inr []), ac_session = (\<lambda>_. Inr agent_demo_session),
      ac_approval = (\<lambda>_. None), ac_preview_json = (\<lambda>_. JNull), ac_workflow_json = (\<lambda>_. JNull)\<rparr>"

definition demo_machine :: "agent_demo_world machine" where
  "demo_machine =
     \<lparr>mc_ext = silent_externs, mc_now_ms = (\<lambda>w. (0, w)), mc_instant_ns = (\<lambda>w. (dw_clock w, w)),
      mc_sleep_ms = (\<lambda>ms w. w\<lparr>dw_clock := Suc (dw_clock w)\<rparr>), mc_uuid = (\<lambda>w. ([], w))\<rparr>"

definition demo_provider :: "agent_demo_world llm_provider" where
  "demo_provider =
     (let answer = (\<lambda>q w. case dw_replies w of
            [] \<Rightarrow> (Inl (ProviderError ''no reply''), w)
          | reply # rest \<Rightarrow>
              (Inr \<lparr>cr_content = reply, cr_model = ''m'', cr_usage = no_usage\<rparr>, w\<lparr>dw_replies := rest\<rparr>))
      in \<lparr>lp_name = ''m'', lp_complete = answer, lp_streaming = default_streaming answer\<rparr>)"

definition demo_files :: "agent_demo_world trace_files" where
  "demo_files =
     \<lparr>tf_parent = (\<lambda>_. None), tf_create_dir_all = (\<lambda>_ w. (Inr (), w)), tf_open = (\<lambda>_ w. (Inr (), w)),
      tf_append = (\<lambda>_ _ w. w), tf_read = (\<lambda>_ w. (Inr [], w)), tf_line = (\<lambda>_. None), tf_parse = (\<lambda>_. None)\<rparr>"

definition demo_env :: "agent_demo_world agent_env" where
  "demo_env =
     \<lparr>ae_ext = demo_agent_externs, ae_codecs = demo_codecs, ae_machine = demo_machine, ae_provider = demo_provider,
      ae_http = demo_http, ae_files = demo_files\<rparr>"

definition demo_start :: agent_demo_world where
  "demo_start = \<lparr>dw_replies = [''no'', ''{}''], dw_clock = 0, dw_starts = 0\<rparr>"

lemma demo_counts: "counts_starts demo_env default_agent_config demo_tools (\<lambda>n w. dw_starts w = n)"
  by (auto simp: counts_starts_def demo_env_def demo_machine_def demo_files_def demo_provider_def default_streaming_def
      demo_http_def is_start_def start_request_def Let_def split: http_request.splits list.splits)

lemma demo_serves: "serves demo_env demo_tools"
  by (simp add: serves_def demo_env_def demo_codecs_def)

lemma demo_clock: "clock_moves (ae_machine demo_env) (ae_http demo_env) dw_clock"
  by (auto simp: clock_moves_def demo_env_def demo_machine_def demo_http_def split: http_request.splits)

abbreviation "demo_run \<equiv> agent_run_session demo_env default_agent_config ''goal'' [] True demo_start"

section \<open>Properties\<close>





text \<open>C27. Once the trace could be opened, a session that returns has set the status of the session it
  published as its last act: \<open>failed\<close> with an error, and with an outcome the status that goes with it. Only
  a panic leaves the session as it was.\<close>

theorem last_act_is_the_status:
  assumes "open_session_trace env cfg w = (Inr trace, w1)"
    "session_opening env cfg goal constraints trace w1 = (tracker, sid, conversation, st1)"
    "agent_run_session env cfg goal constraints run w = Some (r, st)"
  shows "(case r of
      Inr out \<Rightarrow> ao_session_id out = sid \<and> (\<exists>st0. st = finish_session env cfg sid (outcome_status out) st0)
    | Inl (Returned e) \<Rightarrow> (\<exists>st0. st = finish_session env cfg sid SFailed st0)
    | Inl (Panicked p) \<Rightarrow> True)"
proof -
  obtain found st2 where found: "discover env cfg goal st1 = (found, st2)" by (rule prod.exhaust)
  note run = assms(3) [unfolded agent_run_session_def assms(1) prod.case sum.case assms(2) found]
  have "closes env cfg sid r st"
  proof (cases found)
    case (Inl e)
    with run show ?thesis by (auto simp: closes_def)
  next
    case (Inr p)
    obtain ds selected where p: "p = (ds, selected)" by (rule prod.exhaust)
    with run Inr obtain v where loop: "session_loop env cfg
        \<lparr>sf_goal = goal, sf_constraints = constraints, sf_run = run, sf_session_id = sid, sf_descriptors = ds,
         sf_selected = selected\<rparr> (initial_vars tracker conversation st2) = Some (r, v)" "st = sv_state v"
      by auto
    from session_loop_closes [OF loop(1)] loop(2) show ?thesis by simp
  qed
  then show ?thesis by (simp add: closes_def)
qed

lemma demo_opening:
  "\<exists>tracker conversation st. session_opening demo_env default_agent_config ''goal'' [] in_memory_trace demo_start =
     (tracker, Some ''s'', conversation, st)"
  by (simp add: session_opening_def start_session_def begin_session_def default_agent_config_def on_world_def
      rc_create_session_def session_reply_def and_decode_def client_post_def demo_env_def demo_http_def demo_codecs_def
      agent_demo_session_def json_result_def Let_def case_prod_beta del: append.simps append_Cons)

lemma last_act_is_the_status_witness:
  "\<exists>r st. demo_run = Some (r, st) \<and>
     (case r of Inr out \<Rightarrow> ao_session_id out = Some ''s''
      | Inl (Returned e) \<Rightarrow> (\<exists>st0. st = finish_session demo_env default_agent_config (Some ''s'') SFailed st0)
      | Inl (Panicked p) \<Rightarrow> True)"
proof -
  obtain r st where run: "demo_run = Some (r, st)"
    using session_returns [OF demo_clock, of default_agent_config "''goal''" "[]" True demo_start] by fastforce
  obtain tracker conversation st1 where begun: "session_opening demo_env default_agent_config ''goal'' [] in_memory_trace
      demo_start = (tracker, Some ''s'', conversation, st1)" using demo_opening by blast
  have "open_session_trace demo_env default_agent_config demo_start = (Inr in_memory_trace, demo_start)"
    by (simp add: open_session_trace_def default_agent_config_def)
  from last_act_is_the_status [OF this begun run] run show ?thesis
    by (auto split: sum.splits agent_failure.splits)
qed

end
