(* ===== verification/Nodara_Service.thy ===== *)
theory Nodara_Service
  imports Nodara_Host Nodara_Runs_Props Nodara_Sessions_Props
begin

text \<open>
  The composition root of the runtime (\<open>config.rs\<close>, \<open>state.rs\<close>): the configuration, the builder that
  collects executors and extensions, and the state the request handlers share. Runs, plugins and the
  session store act on one world: \<open>'v session_world\<close> holds the store, and \<open>session_machine\<close> lifts the
  clock of the rest to it. Opening the audit file is a parameter that yields its text.
\<close>

section \<open>The world of the service\<close>

definition in_session_world :: "('v \<Rightarrow> 'a \<times> 'v) \<Rightarrow> 'v session_world \<Rightarrow> 'a \<times> 'v session_world" where
  "in_session_world f sw = (let (a, v) = f (sw_rest sw) in (a, sw\<lparr>sw_rest := v\<rparr>))"

definition session_machine :: "'v machine \<Rightarrow> 'v session_world machine" where
  "session_machine m =
     \<lparr>mc_ext = mc_ext m, mc_now_ms = in_session_world (mc_now_ms m), mc_instant_ns = in_session_world (mc_instant_ns m),
      mc_sleep_ms = (\<lambda>ms sw. sw\<lparr>sw_rest := mc_sleep_ms m ms (sw_rest sw)\<rparr>), mc_uuid = in_session_world (mc_uuid m)\<rparr>"

text \<open>An operation on the session store behind its mutex.\<close>

definition on_store ::
    "(session_store \<Rightarrow> 'v \<Rightarrow> 'a \<times> session_store \<times> 'v) \<Rightarrow> 'v session_world \<Rightarrow> 'a \<times> 'v session_world" where
  "on_store f sw = (let (a, s, v) = f (sw_store sw) (sw_rest sw) in (a, sw\<lparr>sw_store := s, sw_rest := v\<rparr>))"

section \<open>Configuration\<close>

datatype policy_mode = PolicyAllowAll | PolicyAllowlist "string list" | PolicyDefault

record runtime_config =
  cfg_host :: string
  cfg_port :: "16 word"
  cfg_plugin_dirs :: "string list"
  cfg_autoload_plugins :: bool
  cfg_policy :: policy_mode
  cfg_auto_approve :: bool
  cfg_approval_timeout_s :: nat
  cfg_audit_path :: "string option"
  cfg_permissive_cors :: bool

definition default_approval_timeout_s :: nat where
  "default_approval_timeout_s = 300"

definition default_runtime_config :: "file_system \<Rightarrow> runtime_config" where
  "default_runtime_config fs =
     \<lparr>cfg_host = ''127.0.0.1'', cfg_port = 8710,
      cfg_plugin_dirs =
        (case fs_binary_dir fs of Some directory \<Rightarrow> [fs_join fs directory ''plugins''] | None \<Rightarrow> []) @ [''plugins''],
      cfg_autoload_plugins = True, cfg_policy = PolicyDefault, cfg_auto_approve = True,
      cfg_approval_timeout_s = default_approval_timeout_s, cfg_audit_path = None, cfg_permissive_cors = True\<rparr>"

definition config_address :: "runtime_config \<Rightarrow> string" where
  "config_address c = cfg_host c @ '':'' @ show_nat (unat (cfg_port c))"

definition with_plugin_dir :: "string \<Rightarrow> runtime_config \<Rightarrow> runtime_config" where
  "with_plugin_dir dir c = c\<lparr>cfg_plugin_dirs := cfg_plugin_dirs c @ [dir]\<rparr>"

definition with_port :: "16 word \<Rightarrow> runtime_config \<Rightarrow> runtime_config" where
  "with_port n c = c\<lparr>cfg_port := n\<rparr>"

section \<open>The audit log of a runtime\<close>

datatype runtime_audit = MemoryAudit memory_log | FileAudit jsonl_log

definition runtime_audit_records :: "(string \<Rightarrow> audit_record option) \<Rightarrow> runtime_audit \<Rightarrow> audit_record list" where
  "runtime_audit_records parse a =
     (case a of MemoryAudit s \<Rightarrow> memory_records s | FileAudit s \<Rightarrow> jsonl_records parse s)"

text \<open>One record; \<open>written\<close> tells how a write to the file fails, if it does.\<close>

definition runtime_audit_record ::
    "(audit_record \<Rightarrow> string option) \<Rightarrow> nat option \<Rightarrow> audit_record \<Rightarrow> runtime_audit \<Rightarrow> runtime_audit" where
  "runtime_audit_record render written r a =
     (case a of
        MemoryAudit s \<Rightarrow> MemoryAudit (memory_record r s)
      | FileAudit s \<Rightarrow> FileAudit (jsonl_record render written r s))"

section \<open>State\<close>

record plugin_failure =
  fl_id :: string
  fl_message :: string

record 'v runtime_state =
  rt_config :: runtime_config
  rt_registry :: "'v session_world registry"
  rt_extensions :: extension_registry
  rt_host :: "'v session_world plugin_host"
  rt_runs :: run_map
  rt_audit :: runtime_audit
  rt_engine :: "'v session_world engine"
  rt_plugin_failures :: "plugin_failure list"

record 'v runtime_builder =
  rb_config :: runtime_config
  rb_registry :: "'v session_world registry"
  rb_extensions :: extension_registry
  rb_policy :: "capability_policy option"
  rb_approval :: "'v session_world approval_handler option"

definition new_builder :: "'v machine \<Rightarrow> runtime_config \<Rightarrow> 'v runtime_builder" where
  "new_builder m c =
     (let r = register_builtins (session_machine m) new_registry
      in \<lparr>rb_config = c, rb_registry = r,
          rb_extensions = extension_register (builtin_extension (registry_node_types r)) om_empty,
          rb_policy = None, rb_approval = None\<rparr>)"

definition add_in_process_node :: "string \<Rightarrow> 'v runtime_builder \<Rightarrow> 'v runtime_builder" where
  "add_in_process_node node_type b =
     (let d = (case extension_get (rb_extensions b) ''nodara.in-process'' of
                 Some d \<Rightarrow> d | None \<Rightarrow> in_process_extension []);
          d1 = (if node_type \<in> set (xd_node_types d) then d
                else d\<lparr>xd_node_types := sort (xd_node_types d @ [node_type])\<rparr>)
      in b\<lparr>rb_extensions := extension_register (d1\<lparr>xd_loaded := True\<rparr>) (rb_extensions b)\<rparr>)"

definition builder_register_executor :: "'v session_world node_executor \<Rightarrow> 'v runtime_builder \<Rightarrow> 'v runtime_builder" where
  "builder_register_executor ex b =
     add_in_process_node (d_node_type (ex_descriptor ex)) (b\<lparr>rb_registry := register_executor ex (rb_registry b)\<rparr>)"

definition builder_register_set ::
    "('v session_world registry \<Rightarrow> 'v session_world registry) \<Rightarrow> 'v runtime_builder \<Rightarrow> 'v runtime_builder" where
  "builder_register_set register b =
     (let before = registry_node_types (rb_registry b);
          b1 = b\<lparr>rb_registry := register (rb_registry b)\<rparr>
      in fold add_in_process_node (filter (\<lambda>t. t \<notin> set before) (registry_node_types (rb_registry b1))) b1)"

definition builder_register_extension :: "extension_descriptor \<Rightarrow> 'v runtime_builder \<Rightarrow> 'v runtime_builder" where
  "builder_register_extension d b = b\<lparr>rb_extensions := extension_register d (rb_extensions b)\<rparr>"

definition builder_with_policy :: "capability_policy \<Rightarrow> 'v runtime_builder \<Rightarrow> 'v runtime_builder" where
  "builder_with_policy p b = b\<lparr>rb_policy := Some p\<rparr>"

definition builder_with_approval :: "'v session_world approval_handler \<Rightarrow> 'v runtime_builder \<Rightarrow> 'v runtime_builder" where
  "builder_with_approval h b = b\<lparr>rb_approval := Some h\<rparr>"

section \<open>Building\<close>

fun policy_for_mode :: "policy_mode \<Rightarrow> capability_policy" where
  "policy_for_mode PolicyAllowAll = allow_all_policy"
| "policy_for_mode (PolicyAllowlist capabilities) = allowlist_policy (new_allowlist capabilities)"
| "policy_for_mode PolicyDefault = default_policy"

definition auto_approval :: "'w approval_handler" where
  "auto_approval request w = Some (Nodara_Policy.auto_approve request, w)"

definition approval_for_config :: "'v machine \<Rightarrow> runtime_config \<Rightarrow> 'v session_world approval_handler" where
  "approval_for_config m c = (if cfg_auto_approve c then auto_approval else session_approve m default_allow)"

text \<open>What building relies on: the file system, the plugin launcher, and opening the audit file, which
  yields its text (empty when it cannot be read) or the error.\<close>

record 'v runtime_externs =
  re_files :: file_system
  re_plugins :: plugin_externs
  re_connect :: "'v session_world connector"
  re_open_audit :: "string \<Rightarrow> 'v \<Rightarrow> (string, string) result \<times> 'v"
  re_parse_record :: "string \<Rightarrow> audit_record option"

definition open_audit ::
    "'v runtime_externs \<Rightarrow> runtime_config \<Rightarrow> 'v session_world \<Rightarrow> (string, runtime_audit) result \<times> 'v session_world" where
  "open_audit rx c sw =
     (case cfg_audit_path c of
        None \<Rightarrow> (Inr (MemoryAudit new_memory_log), sw)
      | Some path \<Rightarrow>
          (case in_session_world (re_open_audit rx path) sw of
             (Inl e, sw') \<Rightarrow> (Inl (''io error: '' @ e), sw')
           | (Inr content, sw') \<Rightarrow> (Inr (FileAudit (jsonl_open (re_parse_record rx) content)), sw')))"

definition discovery_failures :: "discovery_outcome \<Rightarrow> plugin_failure list" where
  "discovery_failures out = map (\<lambda>(dir, e). \<lparr>fl_id = dir, fl_message = e\<rparr>) (do_errors out)"

definition load_plugins ::
    "'v runtime_externs \<Rightarrow> runtime_config \<Rightarrow> discovery_outcome \<Rightarrow> 'v session_world
       \<Rightarrow> (plugin_failure list \<times> 'v session_world plugin_host \<times> 'v session_world) option" where
  "load_plugins rx c out sw =
     (let h = register_discovered out new_host in
      if cfg_autoload_plugins c
      then map_option (\<lambda>(failures, h', sw').
             (map (\<lambda>(pid, e). \<lparr>fl_id = pid, fl_message = plugin_error_text e\<rparr>) failures, h', sw'))
           (load_all (re_connect rx) out h sw)
      else Some ([], h, sw))"

definition runtime_engine ::
    "'v machine \<Rightarrow> 'v runtime_builder \<Rightarrow> 'v session_world registry \<Rightarrow> 'v session_world engine" where
  "runtime_engine m b r =
     engine_with_approval (case rb_approval b of Some h \<Rightarrow> h | None \<Rightarrow> approval_for_config m (rb_config b))
       (engine_with_policy (case rb_policy b of Some p \<Rightarrow> p | None \<Rightarrow> policy_for_mode (cfg_policy (rb_config b)))
         (new_engine r))"

definition build_runtime ::
    "'v runtime_externs \<Rightarrow> 'v machine \<Rightarrow> 'v runtime_builder \<Rightarrow> 'v session_world
       \<Rightarrow> ((string, 'v runtime_state) result \<times> 'v session_world) option" where
  "build_runtime rx m b sw =
     (let discovered = discover_plugins (re_files rx) (cfg_plugin_dirs (rb_config b)) in
      case load_plugins rx (rb_config b) discovered sw of
        None \<Rightarrow> None
      | Some (failures, host, sw1) \<Rightarrow>
          (let r = install_into (re_plugins rx) host (rb_registry b);
               xs = fold extension_register (extension_descriptors host) (rb_extensions b);
               sw2 = sw1\<lparr>sw_store := new_store\<rparr>;
               (audit, sw3) = open_audit rx (rb_config b) sw2
           in Some
             (case audit of
                Inl e \<Rightarrow> Inl e
              | Inr opened \<Rightarrow>
                  Inr \<lparr>rt_config = rb_config b, rt_registry = r, rt_extensions = xs, rt_host = host, rt_runs = om_empty,
                       rt_audit = opened, rt_engine = runtime_engine m b r,
                       rt_plugin_failures = discovery_failures discovered @ failures\<rparr>,
              sw3)))"

end
