(* ===== verification/Nodara_Schema.thy ===== *)
theory Nodara_Schema
  imports Nodara_Workflow
begin

text \<open>
  The published workflow schema (\<open>workflow_schema.rs\<close>): the schema derived from the Rust types, a
  parameter, with the installed node catalogue folded in; and the data of a tool call (\<open>tool.rs\<close>).
  \<open>None\<close> stands for the panic of \<open>definitions_mut\<close> on a schema whose definitions are no object.
\<close>

section \<open>The catalogue\<close>

fun dedup_types :: "node_descriptor list \<Rightarrow> node_descriptor list" where
  "dedup_types [] = []"
| "dedup_types [d] = [d]"
| "dedup_types (d # e # ds) =
     (if d_node_type d = d_node_type e then dedup_types (d # ds) else d # dedup_types (e # ds))"

definition catalog :: "node_descriptor list \<Rightarrow> node_descriptor list" where
  "catalog ds = dedup_types (sort_key d_node_type (filter (\<lambda>d. trim (d_node_type d) \<noteq> []) ds))"

section \<open>The pieces of the schema\<close>

abbreviation schema_obj :: "(string \<times> json) list \<Rightarrow> json" where
  "schema_obj kvs \<equiv> JObj (om_of_list kvs)"

definition config_definition_name :: "string \<Rightarrow> string" where
  "config_definition_name node_type = ''NodeConfig.'' @ node_type"

definition type_definition :: "node_descriptor list \<Rightarrow> json" where
  "type_definition entries =
     schema_obj
       [(''type'', JStr ''string''),
        (''description'', JStr (''Namespaced node type, e.g. `windows.Input.Keyboard`. One of the '' @
           ''node types the runtime has installed.'')),
        (''enum'', JArr (map (\<lambda>d. JStr (d_node_type d)) entries))]"

definition schema_branch :: "node_descriptor \<Rightarrow> json" where
  "schema_branch d =
     (let then_type = [(''const'', JStr (d_node_type d))] @
            (if d_description d = [] then [] else [(''description'', JStr (d_description d))])
      in schema_obj
           [(''if'', schema_obj
              [(''properties'', schema_obj [(''type'', schema_obj [(''const'', JStr (d_node_type d))])]),
               (''required'', JArr [JStr ''type''])]),
            (''then'', schema_obj
              [(''properties'', schema_obj
                 [(''type'', schema_obj then_type),
                  (''config'', schema_obj
                     [(''$ref'', JStr (''#/definitions/'' @ config_definition_name (d_node_type d)))])])])])"

text \<open>\<open>entry(key).or_insert_with(v)\<close>.\<close>

definition or_insert :: "string \<Rightarrow> json \<Rightarrow> jobject \<Rightarrow> jobject" where
  "or_insert key v kvs = (if om_has kvs key then kvs else om_insert key v kvs)"

definition config_definition :: "node_descriptor \<Rightarrow> json" where
  "config_definition d =
     (case d_config_schema d of
        JObj kvs \<Rightarrow>
          (let o1 = or_insert ''type'' (JStr ''object'') kvs;
               o2 = or_insert ''title'' (JStr (d_display_name d @ '' configuration'')) o1;
               o3 = (if d_description d = [] then o2 else or_insert ''description'' (JStr (d_description d)) o2);
               o4 = or_insert ''properties'' (schema_obj []) o3;
               o5 = or_insert ''additionalProperties'' (JBool (d_allows_additional_config d)) o4
           in JObj (om_insert ''x-nodara-node-type'' (JStr (d_node_type d)) o5))
      | _ \<Rightarrow>
          schema_obj
            [(''type'', JStr ''object''), (''title'', JStr (d_display_name d @ '' configuration'')),
             (''description'', JStr (d_description d)), (''properties'', schema_obj []),
             (''additionalProperties'', JBool (d_allows_additional_config d))])"

section \<open>Folding the catalogue in\<close>

definition typed_properties :: "jobject \<Rightarrow> jobject" where
  "typed_properties ps =
     (let p1 = om_insert ''type'' (schema_obj
            [(''$ref'', JStr ''#/definitions/NodeType''),
             (''description'', JStr (''Installed node type. The editor completes this from the '' @
                ''descriptors the runtime published.''))]) ps
      in case om_get p1 ''config'' of
           Some (JObj config) \<Rightarrow>
             om_insert ''config'' (JObj (om_insert ''description''
               (JStr (''Node-type specific configuration. The shape depends on `type`; the '' @
                  ''published schema carries one branch per installed node type.'')) config)) p1
         | _ \<Rightarrow> p1)"

definition apply_catalog :: "node_descriptor list \<Rightarrow> jobject \<Rightarrow> jobject" where
  "apply_catalog entries node =
     (let n1 = (case om_get node ''properties'' of
                  Some (JObj ps) \<Rightarrow> om_insert ''properties'' (JObj (typed_properties ps)) node
                | _ \<Rightarrow> node)
      in om_insert ''allOf'' (JArr (map schema_branch entries)) n1)"

definition definitions_with :: "node_descriptor list \<Rightarrow> jobject \<Rightarrow> jobject" where
  "definitions_with entries defs =
     (let d1 = om_insert ''NodeType'' (type_definition entries) defs;
          d2 = fold (\<lambda>d. om_insert (config_definition_name (d_node_type d)) (config_definition d)) entries d1
      in case om_get d2 ''Node'' of
           Some (JObj node) \<Rightarrow> om_insert ''Node'' (JObj (apply_catalog entries node)) d2
         | _ \<Rightarrow> d2)"

definition workflow_schema_for :: "json \<Rightarrow> node_descriptor list \<Rightarrow> json option" where
  "workflow_schema_for base ds =
     (let entries = catalog ds in
      if entries = [] then Some base
      else case base of
        JObj document \<Rightarrow>
          (case om_get (or_insert ''definitions'' (JObj []) document) ''definitions'' of
             Some (JObj defs) \<Rightarrow> Some (JObj (om_insert ''definitions'' (JObj (definitions_with entries defs)) document))
           | _ \<Rightarrow> None)
      | _ \<Rightarrow> Some base)"

section \<open>Tool calls\<close>

record tool_call =
  tl_call_id :: string
  tl_capability :: string
  tl_node_type :: string
  tl_run_id :: "string option"
  tl_reason :: "string option"
  tl_requested_permissions :: "string list"
  tl_input :: json

definition new_tool_call :: "string \<Rightarrow> string \<Rightarrow> json \<Rightarrow> tool_call" where
  "new_tool_call call_id node_type input =
     \<lparr>tl_call_id = call_id, tl_capability = node_type, tl_node_type = node_type, tl_run_id = None, tl_reason = None,
      tl_requested_permissions = [], tl_input = input\<rparr>"

datatype tool_call_outcome =
    ToolCompleted jobject
  | ToolDenied string
  | ToolAwaitingApproval string
  | ToolFailed string string

section \<open>What the schema says about the catalogue\<close>

lemma dedup_types_set: "d \<in> set (dedup_types ds) \<Longrightarrow> d \<in> set ds"
  by (induction ds rule: dedup_types.induct) (auto split: if_splits)

lemma dedup_types_types: "d_node_type ` set (dedup_types ds) = d_node_type ` set ds"
  by (induction ds rule: dedup_types.induct) auto

lemma dedup_types_sorted:
  "sorted (map d_node_type ds) \<Longrightarrow> sorted (map d_node_type (dedup_types ds)) \<and> distinct (map d_node_type (dedup_types ds))"
proof (induction ds rule: dedup_types.induct)
  case (3 d e ds)
  show ?case
  proof (cases "d_node_type d = d_node_type e")
    case True
    with 3 show ?thesis by simp
  next
    case False
    with 3 have rest: "sorted (map d_node_type (dedup_types (e # ds)))" "distinct (map d_node_type (dedup_types (e # ds)))"
      by simp_all
    have "d_node_type d < d_node_type x" if "x \<in> set (e # ds)" for x
      using 3(3) that False by (auto simp: order.strict_iff_order)
    then have "\<forall>x\<in>set (dedup_types (e # ds)). d_node_type d < d_node_type x" using dedup_types_set by blast
    with rest False show ?thesis by auto
  qed
qed simp_all

lemma catalog_types:
  "map d_node_type (catalog ds) = sorted_list_of_set {t \<in> d_node_type ` set ds. trim t \<noteq> []}"
proof -
  have "sorted (map d_node_type (catalog ds)) \<and> distinct (map d_node_type (catalog ds))"
    unfolding catalog_def by (rule dedup_types_sorted) simp
  moreover have "set (map d_node_type (catalog ds)) = {t \<in> d_node_type ` set ds. trim t \<noteq> []}"
    by (auto simp: catalog_def dedup_types_types)
  ultimately show ?thesis by (metis sorted_list_of_set.idem_if_sorted_distinct)
qed

text \<open>Node types are distinct in a registry, and then the order of the descriptors does not matter.\<close>

lemma dedup_types_distinct: "distinct (map d_node_type ds) \<Longrightarrow> dedup_types ds = ds"
  by (induction ds rule: dedup_types.induct) auto

lemma catalog_order:
  assumes "distinct (map d_node_type ds)" "distinct (map d_node_type ds')" "set ds = set ds'"
  shows "catalog ds = catalog ds'"
proof -
  let ?f = "\<lambda>ds. sort_key d_node_type (filter (\<lambda>d. trim (d_node_type d) \<noteq> []) ds)"
  have keys: "distinct (map d_node_type (?f xs))" if "distinct (map d_node_type xs)" for xs
    using that by (auto simp: distinct_map intro: inj_on_subset)
  have "?f ds = ?f ds'"
  proof (rule map_sorted_distinct_set_unique)
    show "inj_on d_node_type (set (?f ds) \<union> set (?f ds'))"
      using assms by (auto simp: distinct_map intro: inj_on_subset)
  qed (use assms keys in auto)
  then show ?thesis by (simp add: catalog_def)
qed

text \<open>With two descriptors of one type the order shows, whatever the documentation says of sets.\<close>

lemma catalog_duplicates:
  "catalog [new_descriptor ''t'' ''a'' [], new_descriptor ''t'' ''b'' []] \<noteq>
   catalog [new_descriptor ''t'' ''b'' [], new_descriptor ''t'' ''a'' []]"
  by code_simp

lemma om_get_or_insert: "om_get (or_insert k v kvs) k = Some (case om_get kvs k of Some u \<Rightarrow> u | None \<Rightarrow> v)"
  by (auto simp: or_insert_def om_has_def split: option.splits)

abbreviation with_configs :: "node_descriptor list \<Rightarrow> jobject \<Rightarrow> jobject" where
  "with_configs ds defs \<equiv> fold (\<lambda>d. om_insert (config_definition_name (d_node_type d)) (config_definition d)) ds defs"

lemma other_definitions:
  "\<forall>d\<in>set ds. k \<noteq> config_definition_name (d_node_type d) \<Longrightarrow> om_get (with_configs ds defs) k = om_get defs k"
  by (induction ds arbitrary: defs) simp_all

lemma config_definitions:
  "distinct (map d_node_type ds) \<Longrightarrow> d \<in> set ds \<Longrightarrow>
   om_get (with_configs ds defs) (config_definition_name (d_node_type d)) = Some (config_definition d)"
proof (induction ds arbitrary: defs)
  case (Cons e ds)
  show ?case
  proof (cases "d = e")
    case True
    have "\<forall>x\<in>set ds. config_definition_name (d_node_type d) \<noteq> config_definition_name (d_node_type x)"
      using Cons.prems True by (auto simp: config_definition_name_def)
    then show ?thesis by (simp add: other_definitions True)
  next
    case False
    with Cons show ?thesis by simp
  qed
qed simp

text \<open>The published schema knows exactly the installed node types: under \<open>NodeType\<close> it lists them, each
  once and in order; every type has the definition of its configuration under its own name; the node
  definition carries one branch per type; and every other definition is the one derived from the types
  of the program. The order in which a registry lists its descriptors does not matter.\<close>

theorem schema_publishes_the_catalogue:
  assumes "workflow_schema_for (JObj document) ds = Some s" "catalog ds \<noteq> []"
    and "om_get document ''definitions'' = Some (JObj defs)" "om_get defs ''Node'' = Some (JObj node)"
  shows "\<exists>out. Option.bind (jget s ''definitions'') as_object = Some out \<and>
    om_get out ''NodeType'' = Some (type_definition (catalog ds)) \<and>
    map d_node_type (catalog ds) = sorted_list_of_set {t \<in> d_node_type ` set ds. trim t \<noteq> []} \<and>
    (\<forall>d\<in>set (catalog ds). om_get out (config_definition_name (d_node_type d)) = Some (config_definition d)) \<and>
    om_get out ''Node'' = Some (JObj (apply_catalog (catalog ds) node)) \<and>
    (\<forall>k. k \<noteq> ''NodeType'' \<and> k \<noteq> ''Node'' \<and> (\<forall>d\<in>set (catalog ds). k \<noteq> config_definition_name (d_node_type d)) \<longrightarrow>
       om_get out k = om_get defs k) \<and>
    (\<forall>ds'. distinct (map d_node_type ds) \<and> distinct (map d_node_type ds') \<and> set ds' = set ds \<longrightarrow>
       workflow_schema_for (JObj document) ds' = Some s)"
proof -
  let ?c = "catalog ds"
  have types: "distinct (map d_node_type ?c)" by (simp add: catalog_types)
  have names: "config_definition_name t \<noteq> ''NodeType''" "config_definition_name t \<noteq> ''Node''" for t
    by (simp_all add: config_definition_name_def)
  let ?d1 = "om_insert ''NodeType'' (type_definition ?c) defs"
  let ?d2 = "with_configs ?c ?d1"
  have node: "om_get ?d2 ''Node'' = Some (JObj node)"
    using other_definitions [of ?c "''Node''" ?d1] names [symmetric] assms(4) by simp
  let ?out = "om_insert ''Node'' (JObj (apply_catalog ?c node)) ?d2"
  have out: "definitions_with ?c defs = ?out"
    unfolding definitions_with_def Let_def node by simp
  have s: "s = JObj (om_insert ''definitions'' (JObj ?out) document)"
    using assms(1-3) out by (simp add: workflow_schema_for_def om_get_or_insert Let_def)
  have others: "om_get ?out k = om_get defs k"
    if "k \<noteq> ''NodeType''" "k \<noteq> ''Node''" "\<forall>d\<in>set ?c. k \<noteq> config_definition_name (d_node_type d)" for k
    using other_definitions [of ?c k ?d1] that by simp
  have enum: "om_get ?out ''NodeType'' = Some (type_definition ?c)"
    using other_definitions [of ?c "''NodeType''" ?d1] names [symmetric] by simp
  have same: "workflow_schema_for (JObj document) ds' = Some s"
    if "distinct (map d_node_type ds)" "distinct (map d_node_type ds')" "set ds' = set ds" for ds'
    using assms(1) catalog_order [OF that(2,1,3)] by (simp add: workflow_schema_for_def)
  show ?thesis
    using others enum same catalog_types names config_definitions [OF types]
    by (intro exI [of _ ?out]) (auto simp: s)
qed

lemma schema_publishes_the_catalogue_witness:
  "\<exists>s out. workflow_schema_for (JObj [(''definitions'', JObj [(''Node'', JObj [])])]) [new_descriptor ''core.Log'' ''Log'' ''Core''] = Some s \<and>
     Option.bind (jget s ''definitions'') as_object = Some out \<and>
     om_get out ''NodeType'' = Some (type_definition [new_descriptor ''core.Log'' ''Log'' ''Core''])"
proof -
  let ?ds = "[new_descriptor ''core.Log'' ''Log'' ''Core'']"
  have cat: "catalog ?ds = ?ds" by code_simp
  obtain s where s: "workflow_schema_for (JObj [(''definitions'', JObj [(''Node'', JObj [])])]) ?ds = Some s"
    by (simp add: workflow_schema_for_def cat or_insert_def om_has_def om_get_def Let_def)
  have "catalog ?ds \<noteq> []" by (simp add: cat)
  from schema_publishes_the_catalogue [OF s this] s show ?thesis by (force simp: om_get_def cat)
qed

end
