(* ===== verification/Nodara_Api.thy ===== *)
theory Nodara_Api
  imports Nodara_Service Nodara_Schema
begin

text \<open>
  The HTTP and WebSocket interface of the runtime (\<open>api.rs\<close>). A handler takes the decoded request, the
  shared state and the world, and returns the value that becomes the response body. The server library
  decodes bodies, splits paths and encodes replies; the table of routes is here. Requests run one after
  the other, which is how the mutexes of the state order them; what the thread of a run does meanwhile is
  in \<open>Nodara_Api_Props\<close>.
\<close>

section \<open>Routes\<close>

datatype http_method = MethodGet | MethodPost

datatype endpoint =
    EpRoot | EpHealth | EpPlugins | EpExtensions | EpNodeTypes | EpSchema | EpValidate
  | EpListRuns | EpCreateRun | EpGetRun | EpPauseRun | EpResumeRun | EpStepRun | EpCancelRun
  | EpStreamEvents | EpEventLog | EpRunWorkflow | EpRunArtifacts | EpRunArtifact
  | EpListSessions | EpCreateSession | EpGetSession | EpAppendMessage | EpPublishPlan | EpSetStatus
  | EpDecideApproval | EpListApprovals | EpAudit

datatype path_part = Fixed string | Param

type_synonym route = "path_part list \<times> (http_method \<times> endpoint) list"

definition api_routes :: "route list" where
  "api_routes =
     [([], [(MethodGet, EpRoot)]),
      ([Fixed ''health''], [(MethodGet, EpHealth)]),
      ([Fixed ''plugins''], [(MethodGet, EpPlugins)]),
      ([Fixed ''extensions''], [(MethodGet, EpExtensions)]),
      ([Fixed ''node-types''], [(MethodGet, EpNodeTypes)]),
      ([Fixed ''schema'', Param], [(MethodGet, EpSchema)]),
      ([Fixed ''workflows'', Fixed ''validate''], [(MethodPost, EpValidate)]),
      ([Fixed ''runs''], [(MethodGet, EpListRuns), (MethodPost, EpCreateRun)]),
      ([Fixed ''runs'', Param], [(MethodGet, EpGetRun)]),
      ([Fixed ''runs'', Param, Fixed ''pause''], [(MethodPost, EpPauseRun)]),
      ([Fixed ''runs'', Param, Fixed ''resume''], [(MethodPost, EpResumeRun)]),
      ([Fixed ''runs'', Param, Fixed ''step''], [(MethodPost, EpStepRun)]),
      ([Fixed ''runs'', Param, Fixed ''cancel''], [(MethodPost, EpCancelRun)]),
      ([Fixed ''runs'', Param, Fixed ''events''], [(MethodGet, EpStreamEvents)]),
      ([Fixed ''runs'', Param, Fixed ''event-log''], [(MethodGet, EpEventLog)]),
      ([Fixed ''runs'', Param, Fixed ''workflow''], [(MethodGet, EpRunWorkflow)]),
      ([Fixed ''runs'', Param, Fixed ''artifacts''], [(MethodGet, EpRunArtifacts)]),
      ([Fixed ''runs'', Param, Fixed ''artifacts'', Param], [(MethodGet, EpRunArtifact)]),
      ([Fixed ''agent'', Fixed ''sessions''], [(MethodGet, EpListSessions), (MethodPost, EpCreateSession)]),
      ([Fixed ''agent'', Fixed ''sessions'', Param], [(MethodGet, EpGetSession)]),
      ([Fixed ''agent'', Fixed ''sessions'', Param, Fixed ''messages''], [(MethodPost, EpAppendMessage)]),
      ([Fixed ''agent'', Fixed ''sessions'', Param, Fixed ''plan''], [(MethodPost, EpPublishPlan)]),
      ([Fixed ''agent'', Fixed ''sessions'', Param, Fixed ''status''], [(MethodPost, EpSetStatus)]),
      ([Fixed ''agent'', Fixed ''sessions'', Param, Fixed ''approvals'', Param], [(MethodPost, EpDecideApproval)]),
      ([Fixed ''agent'', Fixed ''approvals''], [(MethodGet, EpListApprovals)]),
      ([Fixed ''audit''], [(MethodGet, EpAudit)])]"

text \<open>What the library does with the table: a parameter matches one non-empty segment.\<close>

fun match_parts :: "path_part list \<Rightarrow> string list \<Rightarrow> string list option" where
  "match_parts [] [] = Some []"
| "match_parts (Fixed t # ps) (s # ss) = (if s = t then match_parts ps ss else None)"
| "match_parts (Param # ps) (s # ss) = (if s = [] then None else map_option ((#) s) (match_parts ps ss))"
| "match_parts _ _ = None"

datatype routed = NoRoute | WrongMethod | Routed endpoint "string list"

fun find_route :: "route list \<Rightarrow> http_method \<Rightarrow> string list \<Rightarrow> routed" where
  "find_route [] md segments = NoRoute"
| "find_route ((parts, methods) # rows) md segments =
     (case match_parts parts segments of
        None \<Rightarrow> find_route rows md segments
      | Some params \<Rightarrow> (case map_of methods md of Some ep \<Rightarrow> Routed ep params | None \<Rightarrow> WrongMethod))"

fun split_slashes :: "string \<Rightarrow> string list" where
  "split_slashes [] = [[]]"
| "split_slashes (c # cs) =
     (if c = CHR ''/'' then [] # split_slashes cs
      else (case split_slashes cs of s # ss \<Rightarrow> (c # s) # ss | [] \<Rightarrow> [[c]]))"

definition route_path :: "http_method \<Rightarrow> string \<Rightarrow> routed" where
  "route_path md path =
     (case strip_prefix ''/api/v1'' path of
        None \<Rightarrow> NoRoute
      | Some [] \<Rightarrow> find_route api_routes md []
      | Some (c # rest) \<Rightarrow> if c = CHR ''/'' \<and> rest \<noteq> [] then find_route api_routes md (split_slashes rest) else NoRoute)"

section \<open>Requests and replies\<close>

record api_root =
  rd_name :: string
  rd_api_version :: string
  rd_schema_version :: string
  rd_protocol_version :: string
  rd_schemas :: "string list"

record health_response =
  hr_status :: string
  hr_node_types :: nat
  hr_extensions :: nat
  hr_plugins :: nat
  hr_runs :: nat

record options_dto =
  vd_reject_cycles :: "bool option"
  vd_require_start :: "bool option"
  vd_require_end :: "bool option"
  vd_warn_unreachable :: "bool option"
  vd_warn_dead_end :: "bool option"
  vd_check_variable_references :: "bool option"

definition default_options_dto :: options_dto where
  "default_options_dto =
     \<lparr>vd_reject_cycles = None, vd_require_start = None, vd_require_end = None, vd_warn_unreachable = None,
      vd_warn_dead_end = None, vd_check_variable_references = None\<rparr>"

definition or_base :: "bool option \<Rightarrow> bool \<Rightarrow> bool" where
  "or_base v b = (case v of Some x \<Rightarrow> x | None \<Rightarrow> b)"

definition apply_options :: "options_dto \<Rightarrow> validation_options \<Rightarrow> validation_options" where
  "apply_options o' base =
     base\<lparr>vo_reject_cycles := or_base (vd_reject_cycles o') (vo_reject_cycles base),
          vo_require_start := or_base (vd_require_start o') (vo_require_start base),
          vo_require_end := or_base (vd_require_end o') (vo_require_end base),
          vo_warn_unreachable := or_base (vd_warn_unreachable o') (vo_warn_unreachable base),
          vo_warn_dead_end := or_base (vd_warn_dead_end o') (vo_warn_dead_end base),
          vo_check_variable_references :=
            or_base (vd_check_variable_references o') (vo_check_variable_references base)\<rparr>"

datatype approval_mode = ApprovalAuto | ApprovalSession

record create_run_request =
  nr_workflow :: workflow
  nr_variables :: jobject
  nr_session_id :: "string option"
  nr_validate :: "bool option"
  nr_start_paused :: bool
  nr_approval :: "approval_mode option"

record audit_query =
  aq_run_id :: "string option"
  aq_limit :: "nat option"

record artifact_response =
  af_content_type :: string
  af_cache_control :: string
  af_bytes :: "8 word list"

section \<open>The catalogue handlers\<close>

definition map_result :: "('a \<Rightarrow> 'b) \<Rightarrow> ('e, 'a) result \<Rightarrow> ('e, 'b) result" where
  "map_result f r = bind_result r (\<lambda>x. Inr (f x))"

definition schema_documents :: "string list" where
  "schema_documents =
     [''workflow'', ''plugin-manifest'', ''node-descriptor'', ''extension'', ''execution-event'', ''agent-session'',
      ''agent-tool-call'']"

definition api_root_reply :: api_root where
  "api_root_reply =
     \<lparr>rd_name = ''Nodara Runtime'', rd_api_version = api_version, rd_schema_version = schema_version,
      rd_protocol_version = protocol_version, rd_schemas = schema_documents\<rparr>"

text \<open>What the handlers take from libraries: the schemas derived from types (\<open>''workflow''\<close> is the plain
  one), the encodings of a report, an event and an audit line, and which text is a header value.\<close>

record api_externs =
  ax_type_schema :: "string \<Rightarrow> json"
  ax_report_value :: "report \<Rightarrow> json"
  ax_event_text :: "event_envelope \<Rightarrow> string option"
  ax_parse_record :: "string \<Rightarrow> audit_record option"
  ax_header_ok :: "string \<Rightarrow> bool"

text \<open>\<open>trim_end_matches\<close> with a text removes it as often as it ends the rest.\<close>

lemma strip_suffix_shorter: "p \<noteq> [] \<Longrightarrow> strip_suffix p s = Some s' \<Longrightarrow> length s' < length s"
  by (cases p) (auto simp: strip_suffix_def split: if_splits)

function trim_end_matches :: "string \<Rightarrow> string \<Rightarrow> string" where
  "trim_end_matches p s =
     (if p = [] then s
      else case strip_suffix p s of None \<Rightarrow> s | Some s' \<Rightarrow> trim_end_matches p s')"
  by pat_completeness auto
termination
  by (relation "measure (\<lambda>(p, s). length s)") (auto simp: strip_suffix_shorter)

declare trim_end_matches.simps [simp del]

definition get_schema :: "api_externs \<Rightarrow> 'v runtime_state \<Rightarrow> string \<Rightarrow> (api_error, json) result option" where
  "get_schema ax st document =
     (let name = trim_end_matches ''.schema'' (trim_end_matches ''.json'' document) in
      if name = ''workflow''
      then map_option Inr (workflow_schema_for (ax_type_schema ax ''workflow'') (registry_descriptors (rt_registry st)))
      else if name \<in> set schema_documents then Some (Inr (ax_type_schema ax name))
      else Some (Inl (not_found ''E_SCHEMA_NOT_FOUND''
             (''no schema named `'' @ name @ ''`; available: '' @ join_with '', '' schema_documents))))"

definition get_health :: "'v runtime_state \<Rightarrow> health_response" where
  "get_health st =
     \<lparr>hr_status = ''ok'', hr_node_types = length (registry_node_types (rt_registry st)),
      hr_extensions = length (extension_list (rt_extensions st)), hr_plugins = length (summaries (rt_host st)),
      hr_runs = length (list_runs (rt_runs st))\<rparr>"

definition get_plugins :: "'v runtime_state \<Rightarrow> plugin_summary list \<times> plugin_failure list" where
  "get_plugins st = (summaries (rt_host st), rt_plugin_failures st)"

definition get_extensions :: "'v runtime_state \<Rightarrow> extension_descriptor list" where
  "get_extensions st = extension_list (rt_extensions st)"

definition get_node_types :: "'v runtime_state \<Rightarrow> node_descriptor list" where
  "get_node_types st = registry_descriptors (rt_registry st)"

definition engine_validation :: "'v runtime_state \<Rightarrow> validation_options" where
  "engine_validation st = eo_validation (en_options (rt_engine st))"

definition post_validate :: "'v runtime_state \<Rightarrow> workflow \<Rightarrow> options_dto option \<Rightarrow> report" where
  "post_validate st doc overrides =
     validate_with_options doc (Some (registry_index (rt_registry st)))
       (case overrides of Some o' \<Rightarrow> apply_options o' (engine_validation st) | None \<Rightarrow> engine_validation st)"

section \<open>Runs\<close>

definition get_run :: "'v runtime_state \<Rightarrow> string \<Rightarrow> (api_error, run_snapshot) result" where
  "get_run st i = map_result snapshot (run_lookup (rt_runs st) i)"

definition get_event_log :: "'v runtime_state \<Rightarrow> string \<Rightarrow> (api_error, event_envelope list) result" where
  "get_event_log st i = map_result rh_history (run_lookup (rt_runs st) i)"

definition get_run_workflow :: "'v runtime_state \<Rightarrow> string \<Rightarrow> (api_error, workflow) result" where
  "get_run_workflow st i = map_result rh_workflow (run_lookup (rt_runs st) i)"

definition get_run_artifacts :: "'v runtime_state \<Rightarrow> string \<Rightarrow> (api_error, artifact_meta list) result" where
  "get_run_artifacts st i = map_result (\<lambda>h. artifact_list (rh_artifacts h)) (run_lookup (rt_runs st) i)"

definition get_run_artifact ::
    "api_externs \<Rightarrow> 'v runtime_state \<Rightarrow> string \<Rightarrow> string \<Rightarrow> (api_error, artifact_response) result" where
  "get_run_artifact ax st i aid =
     bind_result (run_lookup (rt_runs st) i) (\<lambda>h.
       case artifact_get_with_meta (rh_artifacts h) aid of
         None \<Rightarrow> Inl (not_found ''E_ARTIFACT_NOT_FOUND'' (''run `'' @ i @ ''` has no artifact `'' @ aid @ ''`''))
       | Some (meta, bytes) \<Rightarrow>
           Inr \<lparr>af_content_type = (if ax_header_ok ax (am_content_type meta) then am_content_type meta
                  else ''application/octet-stream''),
                af_cache_control = ''private, max-age=300'', af_bytes = bytes\<rparr>)"

text \<open>The checks of \<open>create_run\<close>.\<close>

definition run_report :: "'v runtime_state \<Rightarrow> workflow \<Rightarrow> report" where
  "run_report st doc =
     validate_with_options doc (Some (registry_index (rt_registry st)))
       (apply_options default_options_dto (engine_validation st))"

definition invalid_workflow :: "api_externs \<Rightarrow> workflow \<Rightarrow> report \<Rightarrow> api_error" where
  "invalid_workflow ax doc r =
     with_detail (ax_report_value ax r)
       (unprocessable ''E_WORKFLOW_INVALID''
         (''workflow `'' @ w_id doc @ ''` failed validation with '' @ show_nat (error_count r) @ '' error(s)''))"

definition session_missing :: "string \<Rightarrow> api_error" where
  "session_missing sid = not_found ''E_SESSION_NOT_FOUND'' (''no session with id `'' @ sid @ ''`'')"

fun approval_for_request :: "'v machine \<Rightarrow> approval_mode option \<Rightarrow> 'v session_world approval_handler option" where
  "approval_for_request m (Some ApprovalAuto) = Some auto_approval"
| "approval_for_request m (Some ApprovalSession) = Some (session_approve m default_allow)"
| "approval_for_request m None = None"

text \<open>The run is bound to its session before it starts. The reply is the snapshot of the handle before
  its thread did anything; the second component is the request the thread runs.\<close>

definition attach_to_session ::
    "'v machine \<Rightarrow> string option \<Rightarrow> string \<Rightarrow> 'v session_world \<Rightarrow> (api_error, unit) result \<times> 'v session_world" where
  "attach_to_session m session run_id sw =
     (case session of
        None \<Rightarrow> (Inr (), sw)
      | Some sid \<Rightarrow>
          (case get_session sid (sw_store sw) of
             None \<Rightarrow> (Inl (session_missing sid), sw)
           | Some _ \<Rightarrow> (Inr (), snd (on_store (attach_run m sid run_id) sw))))"

definition create_run ::
    "api_externs \<Rightarrow> 'v machine \<Rightarrow> create_run_request \<Rightarrow> 'v runtime_state \<Rightarrow> 'v session_world
       \<Rightarrow> (api_error, run_snapshot \<times> 'v session_world run_request) result \<times> 'v runtime_state \<times> 'v session_world" where
  "create_run ax m rq st sw =
     (let report = run_report st (nr_workflow rq) in
      if or_base (nr_validate rq) True \<and> \<not> is_valid report
      then (Inl (invalid_workflow ax (nr_workflow rq) report), st, sw)
      else
        (let (run_id, sw1) = mc_uuid (session_machine m) sw;
             (attached, sw2) = attach_to_session m (nr_session_id rq) run_id sw1
         in case attached of
              Inl e \<Rightarrow> (Inl e, st, sw2)
            | Inr _ \<Rightarrow>
                (let (request, runs, sw3) = start_run (session_machine m) run_id (nr_workflow rq) (nr_variables rq)
                       (nr_start_paused rq) (approval_for_request m (nr_approval rq)) (rt_runs st) sw2
                 in (map_result (\<lambda>h. (snapshot h, request)) (run_lookup runs run_id), st\<lparr>rt_runs := runs\<rparr>, sw3))))"

definition post_pause ::
    "'v machine \<Rightarrow> string \<Rightarrow> 'v runtime_state \<Rightarrow> 'v session_world
       \<Rightarrow> (api_error, run_snapshot) result \<times> 'v runtime_state \<times> 'v session_world" where
  "post_pause m i st sw =
     (case pause_run (session_machine m) i (rt_runs st) sw of
        Inl e \<Rightarrow> (Inl e, st, sw)
      | Inr (runs, sw') \<Rightarrow> (map_result snapshot (run_lookup runs i), st\<lparr>rt_runs := runs\<rparr>, sw'))"

definition post_resume ::
    "'v machine \<Rightarrow> string \<Rightarrow> 'v runtime_state \<Rightarrow> 'v session_world
       \<Rightarrow> (api_error, run_snapshot) result \<times> 'v runtime_state \<times> 'v session_world" where
  "post_resume m i st sw =
     (case resume_run (session_machine m) i (rt_runs st) sw of
        Inl e \<Rightarrow> (Inl e, st, sw)
      | Inr (runs, sw') \<Rightarrow> (map_result snapshot (run_lookup runs i), st\<lparr>rt_runs := runs\<rparr>, sw'))"

definition post_step :: "string \<Rightarrow> 'v runtime_state \<Rightarrow> (api_error, run_snapshot) result \<times> 'v runtime_state" where
  "post_step i st =
     (case step_run i (rt_runs st) of
        Inl e \<Rightarrow> (Inl e, st)
      | Inr runs \<Rightarrow> (map_result snapshot (run_lookup runs i), st\<lparr>rt_runs := runs\<rparr>))"

text \<open>Cancelling also tells every loaded plugin; \<open>None\<close> when a plugin keeps the caller forever.\<close>

definition post_cancel ::
    "string \<Rightarrow> 'v runtime_state \<Rightarrow> 'v session_world
       \<Rightarrow> ((api_error, run_snapshot) result \<times> 'v runtime_state \<times> 'v session_world) option" where
  "post_cancel i st sw =
     (case cancel_run i (rt_runs st) of
        Inl e \<Rightarrow> Some (Inl e, st, sw)
      | Inr runs \<Rightarrow>
          map_option (\<lambda>sw'. (map_result snapshot (run_lookup runs i), st\<lparr>rt_runs := runs\<rparr>, sw'))
            (host_cancel_run i (rt_host st) sw))"

section \<open>Agent sessions\<close>

definition found_session :: "string \<Rightarrow> agent_session option \<Rightarrow> (api_error, agent_session) result" where
  "found_session sid x = (case x of Some s \<Rightarrow> Inr s | None \<Rightarrow> Inl (session_missing sid))"

definition get_sessions :: "'v session_world \<Rightarrow> agent_session list \<times> (string \<times> approval_request) list" where
  "get_sessions sw = (list_sessions (sw_store sw), pending_approvals (sw_store sw))"

definition get_pending_approvals :: "'v session_world \<Rightarrow> (string \<times> approval_request) list" where
  "get_pending_approvals sw = pending_approvals (sw_store sw)"

definition post_session ::
    "'v machine \<Rightarrow> string \<Rightarrow> string \<Rightarrow> 'v session_world \<Rightarrow> agent_session \<times> 'v session_world" where
  "post_session m goal provider sw = on_store (create_session m goal provider) sw"

definition get_agent_session :: "string \<Rightarrow> 'v session_world \<Rightarrow> (api_error, agent_session) result" where
  "get_agent_session sid sw = found_session sid (get_session sid (sw_store sw))"

definition post_message ::
    "'v machine \<Rightarrow> string \<Rightarrow> message_role \<Rightarrow> string \<Rightarrow> 'v session_world
       \<Rightarrow> (api_error, agent_session) result \<times> 'v session_world" where
  "post_message m sid role txt sw =
     (let (_, sw') = on_store (append_message m sid role txt) sw in (get_agent_session sid sw', sw'))"

definition post_plan ::
    "'v machine \<Rightarrow> string \<Rightarrow> plan_preview \<Rightarrow> 'v session_world \<Rightarrow> (api_error, agent_session) result \<times> 'v session_world" where
  "post_plan m sid preview sw =
     (let (x, sw') = on_store (set_plan m sid preview) sw in (found_session sid x, sw'))"

definition post_status ::
    "'v machine \<Rightarrow> string \<Rightarrow> session_status \<Rightarrow> 'v session_world \<Rightarrow> (api_error, agent_session) result \<times> 'v session_world" where
  "post_status m sid status sw =
     (let (x, sw') = on_store (set_status m sid status) sw in (found_session sid x, sw'))"

definition post_decision ::
    "'v machine \<Rightarrow> string \<Rightarrow> string \<Rightarrow> approval_decision \<Rightarrow> string \<Rightarrow> 'v session_world
       \<Rightarrow> (api_error, agent_session) result \<times> 'v session_world" where
  "post_decision m sid aid d who sw =
     (let (x, sw') = on_store (decide_approval m sid aid d who) sw
      in (case x of
            Some s \<Rightarrow> Inr s
          | None \<Rightarrow> Inl (not_found ''E_APPROVAL_NOT_FOUND''
              (''no approval `'' @ aid @ ''` in session `'' @ sid @ ''`'')), sw'))"

section \<open>The audit log\<close>

definition get_audit :: "api_externs \<Rightarrow> 'v runtime_state \<Rightarrow> audit_query \<Rightarrow> audit_record list" where
  "get_audit ax st q =
     (let rs = runtime_audit_records (ax_parse_record ax) (rt_audit st);
          rs1 = (case aq_run_id q of Some run_id \<Rightarrow> filter (\<lambda>r. ar_run_id r = run_id) rs | None \<Rightarrow> rs)
      in case aq_limit q of
           Some n \<Rightarrow> if n < length rs1 then drop (length rs1 - n) rs1 else rs1
         | None \<Rightarrow> rs1)"

section \<open>The event stream\<close>

text \<open>What \<open>pump\<close> waits for: the broadcast receiver or the socket.\<close>

datatype pump_input = LiveEvent event_envelope | ReceiverLagged | ChannelClosed | ClientClosed | ClientFailed | ClientSpoke

text \<open>\<open>socket\<close> sends one text and tells whether that worked.\<close>

definition send_event ::
    "api_externs \<Rightarrow> (string \<Rightarrow> 's \<Rightarrow> bool \<times> 's) \<Rightarrow> event_envelope \<Rightarrow> 's \<Rightarrow> bool \<times> 's" where
  "send_event ax socket e s = socket (case ax_event_text ax e of Some t \<Rightarrow> t | None \<Rightarrow> ''{}'') s"

fun pump_replay ::
    "api_externs \<Rightarrow> (string \<Rightarrow> 's \<Rightarrow> bool \<times> 's) \<Rightarrow> event_envelope list \<Rightarrow> 's \<Rightarrow> bool \<times> 's" where
  "pump_replay ax socket [] s = (True, s)"
| "pump_replay ax socket (e # es) s =
     (case send_event ax socket e s of (sent, s') \<Rightarrow> if sent then pump_replay ax socket es s' else (False, s'))"

definition already_sent :: "u64 option \<Rightarrow> event_envelope \<Rightarrow> bool" where
  "already_sent last_seq e = (case last_seq of Some n \<Rightarrow> ev_seq e \<le> n | None \<Rightarrow> False)"

text \<open>The result is false once the pump returned, and true while it waits for more.\<close>

fun pump_loop ::
    "api_externs \<Rightarrow> (string \<Rightarrow> 's \<Rightarrow> bool \<times> 's) \<Rightarrow> u64 option \<Rightarrow> pump_input list \<Rightarrow> 's \<Rightarrow> bool \<times> 's" where
  "pump_loop ax socket last_seq [] s = (True, s)"
| "pump_loop ax socket last_seq (LiveEvent e # is) s =
     (if already_sent last_seq e then pump_loop ax socket last_seq is s
      else (case send_event ax socket e s of
              (sent, s') \<Rightarrow> if sent then pump_loop ax socket last_seq is s' else (False, s')))"
| "pump_loop ax socket last_seq (ReceiverLagged # is) s = pump_loop ax socket last_seq is s"
| "pump_loop ax socket last_seq (ClientSpoke # is) s = pump_loop ax socket last_seq is s"
| "pump_loop ax socket last_seq (ChannelClosed # is) s = (False, s)"
| "pump_loop ax socket last_seq (ClientClosed # is) s = (False, s)"
| "pump_loop ax socket last_seq (ClientFailed # is) s = (False, s)"

definition pump ::
    "api_externs \<Rightarrow> (string \<Rightarrow> 's \<Rightarrow> bool \<times> 's) \<Rightarrow> event_envelope list \<times> u64 option \<times> nat \<Rightarrow> pump_input list \<Rightarrow> 's
       \<Rightarrow> bool \<times> 's" where
  "pump ax socket sub is s =
     (case sub of (replay, last_seq, _) \<Rightarrow>
        (case pump_replay ax socket replay s of
           (True, s') \<Rightarrow> pump_loop ax socket last_seq is s'
         | (False, s') \<Rightarrow> (False, s')))"

definition stream_run_events :: "'v runtime_state \<Rightarrow> string \<Rightarrow> (api_error, run_handle) result" where
  "stream_run_events st i = run_lookup (rt_runs st) i"

section \<open>One request\<close>

datatype api_call =
    CallRoot | CallHealth | CallPlugins | CallExtensions | CallNodeTypes | CallSchema string
  | CallValidate workflow "options_dto option"
  | CallListRuns | CallCreateRun create_run_request | CallGetRun string
  | CallPause string | CallResume string | CallStep string | CallCancel string
  | CallEventLog string | CallRunWorkflow string | CallArtifacts string | CallArtifact string string
  | CallListSessions | CallCreateSession string string | CallGetSession string
  | CallAppendMessage string message_role string | CallPublishPlan string plan_preview
  | CallSetStatus string session_status | CallDecide string string approval_decision string
  | CallListApprovals | CallAudit audit_query

text \<open>What a request does to the state and the world; \<open>None\<close> when it never returns.\<close>

fun call_effect ::
    "api_externs \<Rightarrow> 'v machine \<Rightarrow> api_call \<Rightarrow> 'v runtime_state \<times> 'v session_world
       \<Rightarrow> ('v runtime_state \<times> 'v session_world) option" where
  "call_effect ax m (CallCreateRun rq) (st, sw) = Some (snd (create_run ax m rq st sw))"
| "call_effect ax m (CallPause i) (st, sw) = Some (snd (post_pause m i st sw))"
| "call_effect ax m (CallResume i) (st, sw) = Some (snd (post_resume m i st sw))"
| "call_effect ax m (CallStep i) (st, sw) = Some (snd (post_step i st), sw)"
| "call_effect ax m (CallCancel i) (st, sw) = map_option snd (post_cancel i st sw)"
| "call_effect ax m (CallCreateSession goal provider) (st, sw) = Some (st, snd (post_session m goal provider sw))"
| "call_effect ax m (CallAppendMessage sid role txt) (st, sw) = Some (st, snd (post_message m sid role txt sw))"
| "call_effect ax m (CallPublishPlan sid preview) (st, sw) = Some (st, snd (post_plan m sid preview sw))"
| "call_effect ax m (CallSetStatus sid status) (st, sw) = Some (st, snd (post_status m sid status sw))"
| "call_effect ax m (CallDecide sid aid d who) (st, sw) = Some (st, snd (post_decision m sid aid d who sw))"
| "call_effect ax m _ (st, sw) = Some (st, sw)"

end
