(* ===== verification/Nodara_Api_Props.thy ===== *)
theory Nodara_Api_Props
  imports Nodara_Api Nodara_Planner_Props Nodara_Runtime_Client_Props
begin

text \<open>
  What the interface of the runtime promises to its clients: every request of the agent's client reaches
  the handler it means, with the identifiers it was given; a WebSocket client receives the whole history
  of a run; and a run is started exactly when its document passes and its session exists.
\<close>

section \<open>Paths\<close>

lemma split_slashes_none: "CHR ''/'' \<notin> set s \<Longrightarrow> split_slashes s = [s]"
  by (induction s) auto

lemma split_slashes_cons: "CHR ''/'' \<notin> set s \<Longrightarrow> split_slashes (s @ CHR ''/'' # r) = s # split_slashes r"
  by (induction s) auto

lemma segment_no_slash: "CHR ''/'' \<notin> set (segment i)"
  using segment_chars [of "CHR ''/''" i] by (auto simp: unreserved_def)

lemma segment_nonempty: "segment i = [] \<longleftrightarrow> i = []"
proof
  assume "segment i = []"
  then have "i = unsegment []" using unsegment_segment [of i] by simp
  then show "i = []" by (simp add: unsegment_def)
qed (simp add: segment_def)

text \<open>The path of a request below \<open>/api/v1/\<close>, as the pieces it is made of.\<close>

lemma route_pieces:
  assumes "p = ''/api/v1/'' @ r" "r \<noteq> []"
  shows "route_path md p = find_route api_routes md (split_slashes r)"
  using assms by (simp add: route_path_def strip_prefix_def starts_with_def)

lemmas split_pieces = split_slashes_none split_slashes_cons segment_no_slash segment_nonempty

lemma run_route:
  assumes "i \<noteq> []"
  shows "route_path md (run_path i []) = find_route api_routes md [''runs'', segment i]"
    and "route_path md (run_path i (CHR ''/'' # r)) = find_route api_routes md (''runs'' # segment i # split_slashes r)"
proof -
  have path: "run_path i rest = ''/api/v1/'' @ (''runs'' @ CHR ''/'' # segment i @ rest)" for rest
    by (simp add: run_path_def)
  show "route_path md (run_path i []) = find_route api_routes md [''runs'', segment i]"
    by (subst route_pieces [OF path]) (simp_all add: split_pieces del: append.simps append_Cons)
  show "route_path md (run_path i (CHR ''/'' # r)) = find_route api_routes md (''runs'' # segment i # split_slashes r)"
    by (subst route_pieces [OF path]) (simp_all add: split_pieces del: append.simps append_Cons)
qed

lemma session_route:
  assumes "i \<noteq> []"
  shows "route_path md (session_path i []) = find_route api_routes md [''agent'', ''sessions'', segment i]"
    and "route_path md (session_path i (CHR ''/'' # r)) =
      find_route api_routes md (''agent'' # ''sessions'' # segment i # split_slashes r)"
proof -
  have path: "session_path i rest = ''/api/v1/'' @ (''agent'' @ CHR ''/'' # ''sessions'' @ CHR ''/'' # segment i @ rest)" for rest
    by (simp add: session_path_def)
  show "route_path md (session_path i []) = find_route api_routes md [''agent'', ''sessions'', segment i]"
    by (subst route_pieces [OF path]) (simp_all add: split_pieces del: append.simps append_Cons)
  show "route_path md (session_path i (CHR ''/'' # r)) =
      find_route api_routes md (''agent'' # ''sessions'' # segment i # split_slashes r)"
    by (subst route_pieces [OF path]) (simp_all add: split_pieces del: append.simps append_Cons)
qed

text \<open>The route of a request of a client: the base address and a query are not part of the path.\<close>

definition request_route :: "runtime_client \<Rightarrow> http_request \<Rightarrow> routed" where
  "request_route c q =
     (case q of
        HttpGet url \<Rightarrow> route_path MethodGet (takeWhile (\<lambda>ch. ch \<noteq> CHR ''?'') (drop (length (rc_base c)) url))
      | HttpPost url body \<Rightarrow> route_path MethodPost (takeWhile (\<lambda>ch. ch \<noteq> CHR ''?'') (drop (length (rc_base c)) url)))"

text \<open>An HTTP library that writes down the requests.\<close>

definition logged :: "(http_request \<Rightarrow> http_reply) \<Rightarrow> http_request list http" where
  "logged reply q qs = (reply q, qs @ [q])"

abbreviation requests where
  "requests c f \<equiv> map (request_route c) (snd (f []))"

lemma logged_requests [simp]:
  "snd (client_get (logged reply) c p qs) = qs @ [HttpGet (rc_base c @ p)]"
  "snd (client_post (logged reply) c p body qs) = qs @ [HttpPost (rc_base c @ p) body]"
  "snd (and_decode g rw) = snd rw" "snd (session_reply ac rw) = snd rw"
  by (simp_all add: client_get_def client_post_def logged_def and_decode_def session_reply_def)

lemma segment_no_query: "CHR ''?'' \<notin> set (segment i)"
  using segment_chars [of "CHR ''?''" i] by (auto simp: unreserved_def)

lemma no_query: "CHR ''?'' \<notin> set p \<Longrightarrow> takeWhile (\<lambda>ch. ch \<noteq> CHR ''?'') p = p"
  by (induction p) auto

lemma run_path_no_query: "CHR ''?'' \<notin> set (run_path i r) \<longleftrightarrow> CHR ''?'' \<notin> set r"
  using segment_no_query [of i] by (simp add: run_path_def)

lemma session_path_no_query: "CHR ''?'' \<notin> set (session_path i r) \<longleftrightarrow> CHR ''?'' \<notin> set r"
  using segment_no_query [of i] by (simp add: session_path_def)

lemma request_route_get: "CHR ''?'' \<notin> set p \<Longrightarrow> request_route c (HttpGet (rc_base c @ p)) = route_path MethodGet p"
  by (simp add: request_route_def no_query)

lemma request_route_post:
  "CHR ''?'' \<notin> set p \<Longrightarrow> request_route c (HttpPost (rc_base c @ p) body) = route_path MethodPost p"
  by (simp add: request_route_def no_query)

lemma audit_request:
  "r = [] \<or> (\<exists>q. r = CHR ''?'' # q) \<Longrightarrow>
   request_route c (HttpGet (rc_base c @ ''/api/v1/audit'' @ r)) = route_path MethodGet ''/api/v1/audit''"
  by (auto simp: request_route_def)

lemmas path_rules =
  request_route_get request_route_post run_path_no_query session_path_no_query run_route session_route split_pieces

lemma fixed_routes:
  "route_path MethodGet ''/api/v1/health'' = Routed EpHealth []"
  "route_path MethodGet ''/api/v1/node-types'' = Routed EpNodeTypes []"
  "route_path MethodGet ''/api/v1/plugins'' = Routed EpPlugins []"
  "route_path MethodPost ''/api/v1/workflows/validate'' = Routed EpValidate []"
  "route_path MethodPost ''/api/v1/runs'' = Routed EpCreateRun []"
  "route_path MethodPost ''/api/v1/agent/sessions'' = Routed EpCreateSession []"
  "route_path MethodGet ''/api/v1/agent/sessions'' = Routed EpListSessions []"
  "route_path MethodGet ''/api/v1/agent/approvals'' = Routed EpListApprovals []"
  "route_path MethodGet ''/api/v1/audit'' = Routed EpAudit []"
  by code_simp+

text \<open>The rows of the table that take identifiers.\<close>

lemma param_routes:
  assumes "i \<noteq> []"
  shows "find_route api_routes MethodGet [''runs'', i] = Routed EpGetRun [i]"
    "find_route api_routes MethodGet [''runs'', i, ''workflow''] = Routed EpRunWorkflow [i]"
    "find_route api_routes MethodGet [''runs'', i, ''artifacts''] = Routed EpRunArtifacts [i]"
    "find_route api_routes MethodGet [''runs'', i, ''event-log''] = Routed EpEventLog [i]"
    "find_route api_routes MethodPost [''runs'', i, ''pause''] = Routed EpPauseRun [i]"
    "find_route api_routes MethodPost [''runs'', i, ''resume''] = Routed EpResumeRun [i]"
    "find_route api_routes MethodPost [''runs'', i, ''cancel''] = Routed EpCancelRun [i]"
    "a \<noteq> [] \<Longrightarrow> find_route api_routes MethodGet [''runs'', i, ''artifacts'', a] = Routed EpRunArtifact [i, a]"
    "find_route api_routes MethodGet [''agent'', ''sessions'', i] = Routed EpGetSession [i]"
    "find_route api_routes MethodPost [''agent'', ''sessions'', i, ''messages''] = Routed EpAppendMessage [i]"
    "find_route api_routes MethodPost [''agent'', ''sessions'', i, ''plan''] = Routed EpPublishPlan [i]"
    "find_route api_routes MethodPost [''agent'', ''sessions'', i, ''status''] = Routed EpSetStatus [i]"
    "a \<noteq> [] \<Longrightarrow> find_route api_routes MethodPost [''agent'', ''sessions'', i, ''approvals'', a] = Routed EpDecideApproval [i, a]"
  using assms by (simp_all add: api_routes_def)

lemma slash_split:
  "split_slashes ''workflow'' = [''workflow'']" "split_slashes ''artifacts'' = [''artifacts'']"
  "split_slashes ''event-log'' = [''event-log'']" "split_slashes ''pause'' = [''pause'']"
  "split_slashes ''resume'' = [''resume'']" "split_slashes ''cancel'' = [''cancel'']"
  "split_slashes ''messages'' = [''messages'']" "split_slashes ''plan'' = [''plan'']"
  "split_slashes ''status'' = [''status'']"
  "split_slashes (''artifacts/'' @ segment a) = [''artifacts'', segment a]"
  "split_slashes (''approvals/'' @ segment a) = [''approvals'', segment a]"
  by (simp_all add: split_pieces)

lemma nested_paths:
  "run_path i (''/artifacts/'' @ r) = run_path i (CHR ''/'' # (''artifacts/'' @ r))"
  "session_path i (''/approvals/'' @ r) = session_path i (CHR ''/'' # (''approvals/'' @ r))"
  by simp_all

lemma run_requests:
  assumes "i \<noteq> []"
  shows "requests c (rc_get_run (logged reply) c i) = [Routed EpGetRun [segment i]]"
    "requests c (rc_run_workflow ac (logged reply) c i) = [Routed EpRunWorkflow [segment i]]"
    "requests c (rc_artifacts ac (logged reply) c i) = [Routed EpRunArtifacts [segment i]]"
    "requests c (rc_event_log ac (logged reply) c i) = [Routed EpEventLog [segment i]]"
    "requests c (rc_pause (logged reply) c i) = [Routed EpPauseRun [segment i]]"
    "requests c (rc_resume (logged reply) c i) = [Routed EpResumeRun [segment i]]"
    "requests c (rc_cancel (logged reply) c i) = [Routed EpCancelRun [segment i]]"
    "a \<noteq> [] \<Longrightarrow> requests c (rc_artifact_bytes (logged reply) c i a) = [Routed EpRunArtifact [segment i, segment a]]"
  using assms segment_no_query [of a]
  by (simp_all add: rc_get_run_def rc_run_workflow_def rc_artifacts_def rc_event_log_def rc_pause_def rc_resume_def
      rc_cancel_def rc_artifact_bytes_def path_rules param_routes slash_split nested_paths Let_def logged_def
      case_prod_beta del: append.simps append_Cons split_slashes.simps)

lemma session_requests:
  assumes "i \<noteq> []"
  shows "requests c (rc_get_session ac (logged reply) c i) = [Routed EpGetSession [segment i]]"
    "requests c (rc_append_message ac (logged reply) c i role txt) = [Routed EpAppendMessage [segment i]]"
    "requests c (rc_publish_plan ac (logged reply) c i preview) = [Routed EpPublishPlan [segment i]]"
    "requests c (rc_set_session_status ac (logged reply) c i status) = [Routed EpSetStatus [segment i]]"
    "a \<noteq> [] \<Longrightarrow> requests c (rc_decide_approval ac (logged reply) c i a d who) =
       [Routed EpDecideApproval [segment i, segment a]]"
  using assms segment_no_query [of a]
  by (simp_all add: rc_get_session_def rc_append_message_def rc_publish_plan_def rc_set_session_status_def
      rc_decide_approval_def path_rules param_routes slash_split nested_paths del: append.simps append_Cons split_slashes.simps)

lemma fixed_requests:
  "requests c (rc_health (logged reply) c) = [Routed EpHealth []]"
  "requests c (rc_node_types ac (logged reply) c) = [Routed EpNodeTypes []]"
  "requests c (rc_plugins (logged reply) c) = [Routed EpPlugins []]"
  "requests c (rc_validate ac (logged reply) c doc) = [Routed EpValidate []]"
  "requests c (rc_start_run_with_options ac (logged reply) c doc vars sid paused mode) = [Routed EpCreateRun []]"
  "requests c (rc_create_session ac (logged reply) c goal provider) = [Routed EpCreateSession []]"
  "requests c (rc_sessions (logged reply) c) = [Routed EpListSessions []]"
  "requests c (rc_pending_approvals ac (logged reply) c) = [Routed EpListApprovals []]"
  by (simp_all add: rc_health_def rc_node_types_def rc_plugins_def rc_validate_def rc_start_run_with_options_def
      rc_create_session_def rc_sessions_def rc_pending_approvals_def request_route_get request_route_post fixed_routes
      del: append.simps append_Cons)

lemma audit_requests: "requests c (rc_audit (logged reply) c run_id limit) = [Routed EpAudit []]"
proof -
  have "requests c (\<lambda>qs. client_get (logged reply) c (''/api/v1/audit'' @ r) qs) = [Routed EpAudit []]"
    if "r = [] \<or> (\<exists>q. r = CHR ''?'' # q)" for r
    using audit_request [OF that] by (simp add: fixed_routes del: append.simps append_Cons)
  then show ?thesis by (simp add: rc_audit_def Let_def del: append.simps append_Cons) (simp add: append.simps)
qed

section \<open>Streaming\<close>

text \<open>A socket that takes everything, as the list of the texts it was given.\<close>

definition open_socket :: "string \<Rightarrow> string list \<Rightarrow> bool \<times> string list" where
  "open_socket t s = (True, s @ [t])"

definition frame_text :: "api_externs \<Rightarrow> event_envelope \<Rightarrow> string" where
  "frame_text ax e = (case ax_event_text ax e of Some t \<Rightarrow> t | None \<Rightarrow> ''{}'')"

fun live_event :: "pump_input \<Rightarrow> event_envelope option" where
  "live_event (LiveEvent e) = Some e"
| "live_event _ = None"

fun keeps_open :: "pump_input \<Rightarrow> bool" where
  "keeps_open ChannelClosed = False"
| "keeps_open ClientClosed = False"
| "keeps_open ClientFailed = False"
| "keeps_open _ = True"

lemma send_event_open: "send_event ax open_socket e s = (True, s @ [frame_text ax e])"
  by (simp add: send_event_def open_socket_def frame_text_def)

lemma pump_replay_open: "pump_replay ax open_socket es s = (True, s @ map (frame_text ax) es)"
  by (induction es arbitrary: s) (simp_all add: send_event_open)

lemma pump_loop_open:
  "list_all keeps_open is \<Longrightarrow>
   pump_loop ax open_socket last_seq is s =
     (True, s @ map (frame_text ax) (filter (\<lambda>e. \<not> already_sent last_seq e) (List.map_filter live_event is)))"
proof (induction "is" arbitrary: s)
  case (Cons i "is")
  then show ?case by (cases i) (simp_all add: send_event_open map_filter_simps)
qed (simp add: map_filter_simps)

text \<open>A pump whose client stays does what the contract of \<open>subscribe\<close> asks of a caller.\<close>

lemma pump_delivers:
  assumes "list_all keeps_open is"
    and "List.map_filter live_event is = drop (max receiver (length (rh_sent h) - event_channel_capacity)) (rh_sent h)"
  shows "pump ax open_socket (replay, last_seq, receiver) is [] =
    (True, map (frame_text ax) (delivered (replay, last_seq, receiver) h))"
proof -
  have "(\<lambda>e. \<not> already_sent last_seq e) = (\<lambda>e. case last_seq of None \<Rightarrow> True | Some n \<Rightarrow> n < ev_seq e)"
    by (auto simp: already_sent_def fun_eq_iff not_le split: option.splits)
  with assms show ?thesis by (simp add: pump_def pump_replay_open pump_loop_open delivered_def)
qed

lemma sent_length:
  assumes "new_handle m hid wkf flags artifacts w0 = (h0, w1)" "publish_all m es h0 w1 = (h', w')"
  shows "length (rh_sent h') = length es"
proof -
  have "rh_history h0 = []" using assms(1) by (auto simp: new_handle_def Let_def split: prod.splits)
  with numbered_publish_all [OF numbered_new [OF assms(1)] assms(2)] show ?thesis
    by (auto simp: numbered_def) (metis length_map)
qed

section \<open>Starting a run\<close>

lemma run_report_simp: "run_report st doc =
    validate_with_options doc (Some (registry_index (rt_registry st))) (engine_validation st)"
  by (simp add: run_report_def apply_options_def default_options_dto_def or_base_def)

lemma attached_owner:
  assumes "on_store (attach_run m sid run_id) sw = (x, sw')" "get_session sid (sw_store sw) = Some y"
  shows "session_for_run run_id (sw_store sw') \<noteq> None"
    "\<exists>z. get_session sid (sw_store sw') = Some z \<and> as_run_id z = Some run_id \<and> as_status z = SRunning"
proof -
  obtain now w' where now: "mc_now_ms m (sw_rest sw) = (now, w')" by fastforce
  let ?z = "y\<lparr>as_run_id := Some run_id, as_status := SRunning, as_updated_at_ms := now\<rparr>"
  from assms now have store: "sw_store sw' = put_session sid ?z (sw_store sw)"
    by (auto simp: on_store_def attach_run_def edit_session_def Let_def)
  then show "\<exists>z. get_session sid (sw_store sw') = Some z \<and> as_run_id z = Some run_id \<and> as_status z = SRunning"
    by (simp add: get_session_def)
  from store have get: "om_get (ss_sessions (sw_store sw')) sid = Some ?z" by simp
  then have mem: "(sid, ?z) \<in> set (ss_sessions (sw_store sw'))"
    using map_of_SomeD by (fastforce simp: om_get_def)
  have "\<exists>p\<in>set (ss_sessions (sw_store sw')). (\<lambda>(k, x). as_run_id x = Some run_id) p"
    by (rule bexI [OF _ mem]) simp
  then show "session_for_run run_id (sw_store sw') \<noteq> None"
    unfolding session_for_run_def owner_of_run_def by (auto simp: find_None_iff simp del: not_None_eq)
qed

lemma attach_cases:
  assumes "attach_to_session m session run_id sw = (r, sw')"
  obtains (unbound) "session = None" "r = Inr ()" "sw' = sw"
    | (missing) sid where "session = Some sid" "get_session sid (sw_store sw) = None" "r = Inl (session_missing sid)" "sw' = sw"
    | (attached) sid y x where "session = Some sid" "get_session sid (sw_store sw) = Some y" "r = Inr ()"
        "on_store (attach_run m sid run_id) sw = (x, sw')"
  using assms that unfolding attach_to_session_def
  by (auto split: option.splits prod.splits) (metis prod.collapse)

lemma start_run_effect:
  assumes "start_run m run_id doc vars paused approval runs w = (request, runs', w')"
  obtains h where "runs' = om_insert run_id h runs" "rs_status (rh_state h) = Pending" "rh_id h = run_id" "rh_workflow h = doc"
    "rh_history h = []" "rh_flags h = (if paused then pause_flags new_flags else new_flags)" "numbered h"
    "rr_run_id request = Some run_id" "rr_workflow request = doc" "rr_variables request = vars"
    "rr_approval request = approval" "rr_start_paused request = paused"
  using assms that
  by (auto simp: start_run_def new_handle_def numbered_def with_start_paused_def with_artifacts_def with_variables_def
      with_run_id_def new_run_request_def with_approval_def Let_def split: prod.splits option.splits)

text \<open>What \<open>create_run\<close> does, for its three outcomes.\<close>

lemma create_run_cases:
  assumes "create_run ax m rq st sw = (r, st', sw')"
  obtains (invalid) "nr_validate rq \<noteq> Some False" "\<not> is_valid (run_report st (nr_workflow rq))"
      "r = Inl (invalid_workflow ax (nr_workflow rq) (run_report st (nr_workflow rq)))" "st' = st" "sw' = sw"
    | (missing) sid where "nr_session_id rq = Some sid" "get_session sid (sw_store sw) = None"
      "r = Inl (session_missing sid)" "st' = st" "sw_store sw' = sw_store sw"
      "nr_validate rq = Some False \<or> is_valid (run_report st (nr_workflow rq))"
    | (created) h request sw1 sw2 where "nr_validate rq = Some False \<or> is_valid (run_report st (nr_workflow rq))"
      "r = Inr (snapshot h, request)" "st' = st\<lparr>rt_runs := om_insert (fst (mc_uuid m (sw_rest sw))) h (rt_runs st)\<rparr>"
      "rs_status (rh_state h) = Pending" "rh_id h = fst (mc_uuid m (sw_rest sw))" "rh_workflow h = nr_workflow rq"
      "rh_flags h = (if nr_start_paused rq then pause_flags new_flags else new_flags)" "numbered h"
      "rr_run_id request = Some (fst (mc_uuid m (sw_rest sw)))" "rr_workflow request = nr_workflow rq"
      "rr_variables request = nr_variables rq" "rr_approval request = approval_for_request m (nr_approval rq)"
      "attach_to_session m (nr_session_id rq) (fst (mc_uuid m (sw_rest sw))) sw1 = (Inr (), sw2)"
      "sw_store sw1 = sw_store sw" "sw_store sw' = sw_store sw2"
proof (cases "or_base (nr_validate rq) True \<and> \<not> is_valid (run_report st (nr_workflow rq))")
  case True
  then show thesis
    using assms by (intro invalid) (auto simp: create_run_def or_base_def Let_def split: option.splits)
next
  case False
  then have ok: "nr_validate rq = Some False \<or> is_valid (run_report st (nr_workflow rq))"
    by (auto simp: or_base_def split: option.splits)
  obtain run_id v where uuid: "mc_uuid m (sw_rest sw) = (run_id, v)" by fastforce
  let ?sw1 = "sw\<lparr>sw_rest := v\<rparr>"
  have lifted: "mc_uuid (session_machine m) sw = (run_id, ?sw1)"
    by (simp add: session_machine_def in_session_world_def uuid)
  obtain a sw2 where a: "attach_to_session m (nr_session_id rq) run_id ?sw1 = (a, sw2)" by fastforce
  note run = assms [unfolded create_run_def Let_def if_not_P [OF False] lifted prod.case a]
  from a show thesis
  proof (cases rule: attach_cases)
    case (missing sid)
    with run ok show thesis by (intro that(2) [of sid]) auto
  next
    case unbound
    obtain request runs sw3 where start: "start_run (session_machine m) run_id (nr_workflow rq) (nr_variables rq)
        (nr_start_paused rq) (approval_for_request m (nr_approval rq)) (rt_runs st) sw2 = (request, runs, sw3)" by (rule prod_cases3)
    have store: "sw_store sw3 = sw_store sw2"
      using start by (auto simp: start_run_def new_handle_def session_machine_def in_session_world_def Let_def split: prod.splits)
    from start show thesis
      by (rule start_run_effect)
        (use run unbound start ok a uuid store in \<open>auto intro!: created simp: run_lookup_def map_result_def\<close>)
  next
    case (attached sid y x)
    obtain request runs sw3 where start: "start_run (session_machine m) run_id (nr_workflow rq) (nr_variables rq)
        (nr_start_paused rq) (approval_for_request m (nr_approval rq)) (rt_runs st) sw2 = (request, runs, sw3)" by (rule prod_cases3)
    have store: "sw_store sw3 = sw_store sw2"
      using start by (auto simp: start_run_def new_handle_def session_machine_def in_session_world_def Let_def split: prod.splits)
    from start show thesis
      by (rule start_run_effect)
        (use run attached start ok a uuid store in \<open>auto intro!: created simp: run_lookup_def map_result_def\<close>)
  qed
qed

text \<open>A catalogue the runtime served covers its registry.\<close>

lemma served_catalogue_covers:
  assumes "registry_ok r" "set ds \<subseteq> set (registry_descriptors r)"
  shows "index_covers (registry_index r) ds"
proof -
  have "d_node_type d \<in> set (registry_node_types r) \<and> registry_descriptor r (d_node_type d) = Some d" if "d \<in> set ds" for d
  proof -
    from that assms(2) obtain k where k: "(k, d) \<in> set (rg_descriptors r)" by (auto simp: registry_descriptors_def)
    with assms(1) have "om_get (rg_descriptors r) k = Some d"
      by (simp add: registry_ok_def om_get_def om_ok_distinct)
    moreover from this assms(1) have "d_node_type d = k" by (simp add: registry_ok_def)
    ultimately show ?thesis using k by (force simp: registry_descriptor_def registry_node_types_def om_keys_def)
  qed
  then show ?thesis by (auto simp: index_covers_def list_all_iff registry_index_def)
qed

section \<open>A concrete service\<close>

definition demo_api_externs :: api_externs where
  "demo_api_externs =
     \<lparr>ax_type_schema = (\<lambda>name. JNull), ax_report_value = (\<lambda>r. JNull), ax_event_text = (\<lambda>e. Some ''event''),
      ax_parse_record = (\<lambda>line. None), ax_header_ok = (\<lambda>t. True)\<rparr>"

definition demo_runtime :: "nat runtime_state" where
  "demo_runtime =
     (let r = fold register_descriptor demo_tools new_registry in
      \<lparr>rt_config = \<lparr>cfg_host = ''127.0.0.1'', cfg_port = 8710, cfg_plugin_dirs = [], cfg_autoload_plugins = False,
         cfg_policy = PolicyDefault, cfg_auto_approve = False, cfg_approval_timeout_s = 300, cfg_audit_path = None,
         cfg_permissive_cors = True\<rparr>,
       rt_registry = r, rt_extensions = om_empty, rt_host = new_host, rt_runs = om_empty,
       rt_audit = MemoryAudit new_memory_log, rt_engine = new_engine r, rt_plugin_failures = []\<rparr>)"

definition demo_run_request :: create_run_request where
  "demo_run_request =
     \<lparr>nr_workflow = two_step, nr_variables = om_empty, nr_session_id = Some ''s'', nr_validate = None,
      nr_start_paused = False, nr_approval = Some ApprovalSession\<rparr>"

section \<open>Properties\<close>





text \<open>A run is created exactly when its document passes the validator of the engine (or the client waived
  that) and the session it names exists; the reasons for a refusal are told apart and change nothing. A
  created run is pending under a fresh identifier, with its control paused if asked, its thread is given
  the document, the variables and the approver of the request, no other run is touched, and the session
  already knows the run, so that a node that needs approval finds somebody to ask.\<close>

theorem created_runs_are_checked_and_bound:
  assumes "create_run ax m rq st sw = (r, st', sw')"
  shows "case r of
      Inl e \<Rightarrow> st' = st \<and> sw_store sw' = sw_store sw \<and>
        (ae_status e = 422 \<and> ae_code e = ''E_WORKFLOW_INVALID'' \<and> nr_validate rq \<noteq> Some False \<and>
           \<not> is_valid (run_report st (nr_workflow rq)) \<or>
         ae_status e = 404 \<and> ae_code e = ''E_SESSION_NOT_FOUND'' \<and>
           (\<exists>sid. nr_session_id rq = Some sid \<and> get_session sid (sw_store sw) = None))
    | Inr (snap, request) \<Rightarrow>
        (nr_validate rq = Some False \<or> is_valid (run_report st (nr_workflow rq))) \<and>
        sn_id snap = fst (mc_uuid m (sw_rest sw)) \<and> sn_status snap = Pending \<and>
        rr_run_id request = Some (sn_id snap) \<and> rr_workflow request = nr_workflow rq \<and>
        rr_variables request = nr_variables rq \<and> rr_approval request = approval_for_request m (nr_approval rq) \<and>
        (\<exists>h. run_lookup (rt_runs st') (sn_id snap) = Inr h \<and> snapshot h = snap \<and>
           rh_flags h = (if nr_start_paused rq then pause_flags new_flags else new_flags)) \<and>
        (\<forall>k. k \<noteq> sn_id snap \<longrightarrow> run_lookup (rt_runs st') k = run_lookup (rt_runs st) k) \<and>
        (\<forall>sid. nr_session_id rq = Some sid \<longrightarrow>
           session_for_run (sn_id snap) (sw_store sw') \<noteq> None \<and>
           (\<exists>x. get_session sid (sw_store sw') = Some x \<and> as_run_id x = Some (sn_id snap) \<and> as_status x = SRunning))"
  using assms
proof (cases rule: create_run_cases)
  case invalid
  then show ?thesis
    by (simp add: invalid_workflow_def with_detail_def unprocessable_def api_error_new_def)
next
  case (missing sid)
  then show ?thesis by (simp add: session_missing_def not_found_def api_error_new_def)
next
  case (created h request sw1 sw2)
  have bound: "session_for_run (fst (mc_uuid m (sw_rest sw))) (sw_store sw2) \<noteq> None \<and>
      (\<exists>x. get_session sid (sw_store sw2) = Some x \<and> as_run_id x = Some (fst (mc_uuid m (sw_rest sw))) \<and> as_status x = SRunning)"
    if "nr_session_id rq = Some sid" for sid
    using created(13) that
  proof (cases rule: attach_cases)
    case (attached sid' y x)
    with attached_owner [OF attached(4,2)] that show ?thesis by auto
  qed simp_all
  have snap: "sn_id (snapshot h) = fst (mc_uuid m (sw_rest sw))" "sn_status (snapshot h) = Pending"
    using created by (simp_all add: snapshot_def Let_def)
  show ?thesis using created bound snap by (simp add: run_lookup_def del: not_None_eq)
qed

lemma created_runs_are_checked_and_bound_witness:
  "\<exists>r st' sw'. create_run demo_api_externs quiet_machine demo_run_request demo_runtime demo_world = (r, st', sw') \<and>
     (case r of Inl e \<Rightarrow> ae_status e \<in> {404, 422} | Inr (snap, request) \<Rightarrow> session_for_run (sn_id snap) (sw_store sw') \<noteq> None)"
proof -
  obtain r st' sw' where run: "create_run demo_api_externs quiet_machine demo_run_request demo_runtime demo_world = (r, st', sw')"
    by (rule prod_cases3)
  from created_runs_are_checked_and_bound [OF run] run show ?thesis
    by (cases r) (auto simp: demo_run_request_def simp del: not_None_eq)
qed

text \<open>C22. What the agent's planner accepts, the runtime runs: a plan that was accepted over tools the
  runtime served from its registry is not refused by \<open>create_run\<close> (under the default validation
  options, as long as the session it names exists), and the order the engine computes from it exists.\<close>

theorem accepted_plans_are_started:
  assumes "plan_workflow px pm pv ds rq budget pw = (Inr oc, pst)" "po_accepted oc" "ds \<noteq> []"
    and "registry_ok (rt_registry st)" "set ds \<subseteq> set (get_node_types st)" "engine_validation st = default_validation_options"
    and "po_workflow oc = Some (nr_workflow cr)"
    and "\<forall>sid. nr_session_id cr = Some sid \<longrightarrow> get_session sid (sw_store sw) \<noteq> None"
  shows "\<exists>snap request st' sw' order. create_run ax m cr st sw = (Inr (snap, request), st', sw') \<and>
    rr_workflow request = nr_workflow cr \<and> sn_status snap = Pending \<and>
    topological_order (graph_of (rr_workflow request)) = Inr order \<and> is_topological_order (rr_workflow request) order"
proof -
  have "index_covers (registry_index (rt_registry st)) ds"
    using served_catalogue_covers assms(4,5) by (simp add: get_node_types_def)
  from accepted_plans_pass_the_runtime [OF assms(1-3) this] assms(7) obtain order where
    doc: "is_valid (validate_with (nr_workflow cr) (registry_index (rt_registry st)) default_validation_options)"
      "topological_order (graph_of (nr_workflow cr)) = Inr order" "is_topological_order (nr_workflow cr) order" by auto
  then have valid: "is_valid (run_report st (nr_workflow cr))"
    by (simp add: run_report_simp assms(6) validate_with_def)
  obtain r st' sw' where run: "create_run ax m cr st sw = (r, st', sw')" by (rule prod_cases3)
  then show ?thesis
  proof (cases rule: create_run_cases)
    case (created h request sw1 sw2)
    have "sn_status (snapshot h) = Pending" using created by (simp add: snapshot_def Let_def)
    with run created doc show ?thesis by auto
  qed (use valid assms(8) in simp_all)
qed

lemma demo_registry_ok: "registry_ok (rt_registry demo_runtime)"
proof -
  have "registry_ok r \<Longrightarrow> registry_ok (fold register_descriptor ds r)" for ds and r :: "nat session_world registry"
    by (induction ds arbitrary: r) simp_all
  then show ?thesis by (simp add: demo_runtime_def Let_def)
qed

lemma demo_catalogue: "set demo_tools \<subseteq> set (get_node_types demo_runtime)"
  by (simp add: get_node_types_def demo_runtime_def registry_descriptors_def demo_tools_def register_descriptor_def
      new_registry_def om_empty_def new_descriptor_def descriptor_with_config_schema_def Let_def)

lemma accepted_plans_are_started_witness:
  "\<exists>oc pst. demo_plan = (Inr oc, pst) \<and>
     (\<exists>snap request st' sw'. create_run demo_api_externs quiet_machine (demo_run_request\<lparr>nr_workflow := the (po_workflow oc)\<rparr>)
        demo_runtime demo_world = (Inr (snap, request), st', sw'))"
proof -
  obtain oc pst where plan: "demo_plan = (Inr oc, pst)" "po_accepted oc" using demo_plan_runs by blast
  have tools: "demo_tools \<noteq> []" by (simp add: demo_tools_def)
  from accepted_plans_pass_the_runtime [OF plan tools conjunct2 [OF demo_covers]] obtain d where d: "po_workflow oc = Some d" by blast
  have options: "engine_validation demo_runtime = default_validation_options"
    by (simp add: engine_validation_def demo_runtime_def new_engine_def default_engine_options_def Let_def)
  have session: "\<forall>sid. nr_session_id (demo_run_request\<lparr>nr_workflow := d\<rparr>) = Some sid \<longrightarrow> get_session sid (sw_store demo_world) \<noteq> None"
    by (simp add: demo_run_request_def get_session_def demo_world_def demo_store_def om_get_def)
  from accepted_plans_are_started [OF plan tools demo_registry_ok demo_catalogue options _ session, of demo_api_externs quiet_machine] d plan
  show ?thesis by auto
qed

text \<open>A client that asks for automatic approval gets it, even from a runtime that was configured to ask.\<close>

lemma client_overrides_approval:
  assumes "create_run ax m rq st sw = (Inr (snap, request), st', sw')" "nr_approval rq = Some ApprovalAuto"
  shows "rr_approval request = Some auto_approval"
proof -
  from assms(1) have "rr_approval request = approval_for_request m (nr_approval rq)"
    by (cases rule: create_run_cases) simp_all
  with assms(2) show ?thesis by simp
qed

end
