(* ===== verification/Nodara_Api_Safety.thy ===== *)
theory Nodara_Api_Safety
  imports Nodara_Api_Props
begin

text \<open>
  The service as a whole: the steps of its threads (requests, and what the threads of the runs do in
  between), and the invariant of everything they share. The step relation is wider than the program: a
  run thread may publish any event, complete with any outcome and raise any request at any time.
\<close>

section \<open>Steps\<close>

definition with_run :: "string \<Rightarrow> run_handle \<Rightarrow> 'v runtime_state \<Rightarrow> 'v runtime_state" where
  "with_run i h st = st\<lparr>rt_runs := om_insert i h (rt_runs st)\<rparr>"

fun run_thread_op :: "store_op \<Rightarrow> bool" where
  "run_thread_op (OpRaise c) = True"
| "run_thread_op (OpReceive a) = True"
| "run_thread_op (OpDropWaiter aid) = True"
| "run_thread_op _ = False"

inductive service_step ::
    "api_externs \<Rightarrow> 'v machine \<Rightarrow> (audit_record \<Rightarrow> string option) \<Rightarrow> 'v runtime_state \<times> 'v session_world
       \<Rightarrow> 'v runtime_state \<times> 'v session_world \<Rightarrow> bool" for ax m render where
  request: "call_effect ax m c (st, sw) = Some (st', sw') \<Longrightarrow> service_step ax m render (st, sw) (st', sw')"
| publishes: "om_get (rt_runs st) i = Some h \<Longrightarrow> publish (session_machine m) e h sw = (h', sw') \<Longrightarrow>
    service_step ax m render (st, sw) (with_run i h' st, sw')"
| completes: "om_get (rt_runs st) i = Some h \<Longrightarrow> complete_run (session_machine m) out h sw = (h', sw') \<Longrightarrow>
    service_step ax m render (st, sw) (with_run i h' st, sw')"
| stores: "om_get (rt_runs st) i = Some h \<Longrightarrow>
    service_step ax m render (st, sw) (with_run i (h\<lparr>rh_artifacts := artifacts, rh_flags := flags\<rparr>) st, sw)"
| audits: "service_step ax m render (st, sw) (st\<lparr>rt_audit := runtime_audit_record render written r (rt_audit st)\<rparr>, sw)"
| asks: "run_thread_op op \<Longrightarrow> apply_store_op m op (sw_store sw, sw_rest sw) = (s', v') \<Longrightarrow>
    service_step ax m render (st, sw) (st, sw\<lparr>sw_store := s', sw_rest := v'\<rparr>)"
| works: "service_step ax m render (st, sw) (st, sw\<lparr>sw_rest := v'\<rparr>)"

section \<open>The invariant\<close>

definition runs_ok :: "run_map \<Rightarrow> bool" where
  "runs_ok runs \<longleftrightarrow> om_ok runs \<and> (\<forall>i h. om_get runs i = Some h \<longrightarrow> rh_id h = i \<and> numbered h)"

definition session_runs :: "session_store \<Rightarrow> string set" where
  "session_runs s = {r. \<exists>k x. om_get (ss_sessions s) k = Some x \<and> as_run_id x = Some r}"

definition store_fine :: "run_map \<Rightarrow> session_store \<Rightarrow> bool" where
  "store_fine runs s \<longleftrightarrow> store_ok s \<and> messages_ok s \<and> (\<forall>r\<in>session_runs s. om_get runs r \<noteq> None)"

definition service_ok :: "'v runtime_state \<times> 'v session_world \<Rightarrow> bool" where
  "service_ok s \<longleftrightarrow> registry_ok (rt_registry (fst s)) \<and> extensions_ok (rt_extensions (fst s)) \<and> host_ok (rt_host (fst s)) \<and>
     runs_ok (rt_runs (fst s)) \<and> store_fine (rt_runs (fst s)) (sw_store (snd s))"

text \<open>Plugins are other processes: cancelling a run in them does not touch the session store.\<close>

definition host_keeps_store :: "'v session_world plugin_host \<Rightarrow> bool" where
  "host_keeps_store h \<longleftrightarrow>
     (\<forall>cl\<in>set (loaded_clients h). \<forall>p sw r sw'. client_cancel cl p sw = Some (r, sw') \<longrightarrow> sw_store sw' = sw_store sw)"

section \<open>Runs\<close>

lemma numbered_flags [simp]:
  "numbered (h\<lparr>rh_flags := f\<rparr>) = numbered h" "numbered (h\<lparr>rh_artifacts := a\<rparr>) = numbered h"
  "numbered (h\<lparr>rh_artifacts := a, rh_flags := f\<rparr>) = numbered h" "numbered (on_state g h) = numbered h"
  by (simp_all add: numbered_def on_state_def)

lemma runs_ok_insert: "runs_ok runs \<Longrightarrow> rh_id h = i \<Longrightarrow> numbered h \<Longrightarrow> runs_ok (om_insert i h runs)"
  by (simp add: runs_ok_def)

lemma runs_ok_get: "runs_ok runs \<Longrightarrow> om_get runs i = Some h \<Longrightarrow> rh_id h = i \<and> numbered h"
  by (simp add: runs_ok_def)

lemma publish_ok: "publish m e h w = (h', w') \<Longrightarrow> numbered h \<Longrightarrow> numbered h' \<and> rh_id h' = rh_id h"
  using numbered_publish_all [of h m "[e]" w h' w'] by simp

lemma publish_new_ok: "publish_new m e h w = (h', w') \<Longrightarrow> numbered h \<Longrightarrow> numbered h' \<and> rh_id h' = rh_id h"
  by (auto simp: publish_new_def dest: publish_ok split: prod.splits)

lemma complete_ok: "complete_run m out h w = (h', w') \<Longrightarrow> numbered h \<Longrightarrow> numbered h' \<and> rh_id h' = rh_id h"
  by (auto simp: complete_run_def Let_def split: if_splits prod.splits)

section \<open>The store under the operations on runs\<close>

lemma session_machine_store:
  "mc_now_ms (session_machine m) sw = (n, sw') \<Longrightarrow> sw_store sw' = sw_store sw"
  "mc_uuid (session_machine m) sw = (i, sw') \<Longrightarrow> sw_store sw' = sw_store sw"
  by (auto simp: session_machine_def in_session_world_def split: prod.splits)

lemma apply_event_store: "apply_event (session_machine m) e h sw = (h', sw') \<Longrightarrow> sw_store sw' = sw_store sw"
  by (cases e) (auto simp: finished_at_def with_failure_def Let_def dest: session_machine_store split: prod.splits)

lemma publish_store: "publish (session_machine m) e h sw = (h', sw') \<Longrightarrow> sw_store sw' = sw_store sw"
  by (auto simp: publish_def claim_seq_def Let_def dest!: session_machine_store apply_event_store split: prod.splits if_splits)

lemma publish_new_store: "publish_new (session_machine m) e h sw = (h', sw') \<Longrightarrow> sw_store sw' = sw_store sw"
  by (auto simp: publish_new_def new_envelope_def Let_def dest!: session_machine_store publish_store split: prod.splits)

lemma complete_store: "complete_run (session_machine m) out h sw = (h', sw') \<Longrightarrow> sw_store sw' = sw_store sw"
  by (auto simp: complete_run_def Let_def dest: session_machine_store split: prod.splits if_splits)

section \<open>Sessions and the runs they name\<close>

lemma session_runs_put: "session_runs (put_session k x s) \<subseteq> session_runs s \<union> set_option (as_run_id x)"
  by (auto simp: session_runs_def split: if_splits)

lemma session_runs_same: "ss_sessions s' = ss_sessions s \<Longrightarrow> session_runs s' = session_runs s"
  by (simp add: session_runs_def)

lemma session_runs_edit:
  assumes "edit_session m k f s w = (r, s', w')" "\<And>x. get_session k s = Some x \<Longrightarrow> set_option (as_run_id (f x)) \<subseteq> A"
  shows "session_runs s' \<subseteq> session_runs s \<union> A"
  using assms(1)
proof (cases rule: edit_session_cases)
  case (edited x now)
  have "set_option (as_run_id ((f x)\<lparr>as_updated_at_ms := now\<rparr>)) \<subseteq> A"
    using assms(2) edited(1) by (simp add: get_session_def)
  with session_runs_put [of k "(f x)\<lparr>as_updated_at_ms := now\<rparr>" s] show ?thesis unfolding edited(3) by blast
qed simp

lemma session_runs_known: "get_session k s = Some x \<Longrightarrow> set_option (as_run_id x) \<subseteq> session_runs s"
  by (auto simp: session_runs_def get_session_def)

lemma session_runs_edit_kept:
  assumes "edit_session m k f s w = (r, s', w')" "\<And>x. get_session k s = Some x \<Longrightarrow> as_run_id (f x) = as_run_id x"
  shows "session_runs s' \<subseteq> session_runs s"
proof -
  have "session_runs s' \<subseteq> session_runs s \<union> session_runs s"
    by (rule session_runs_edit [OF assms(1)]) (simp add: assms(2) session_runs_known)
  then show ?thesis by simp
qed

fun attaches :: "store_op \<Rightarrow> string set" where
  "attaches (OpAttach sid run_id) = {run_id}"
| "attaches _ = {}"

lemma session_runs_decide:
  assumes "decide_approval m sid aid d who s w = (r, s', w')"
  shows "session_runs s' \<subseteq> session_runs s"
proof (cases "get_session sid s")
  case None
  with assms show ?thesis by (simp add: decide_approval_def)
next
  case (Some x)
  obtain now w1 where n: "mc_now_ms m w = (now, w1)" by fastforce
  define y where "y = (case record_decision aid d now who x of Some x' \<Rightarrow> x' | None \<Rightarrow> x)"
  have y: "as_run_id y = as_run_id x" by (auto simp: y_def record_decision_def split: option.splits)
  obtain r1 s1 w2 where e: "edit_session m sid (\<lambda>x. if \<not> needs_attention y \<and> as_status y = SAwaitingApproval
      then y\<lparr>as_status := SRunning\<rparr> else y) s w1 = (r1, s1, w2)" by (rule prod_cases3)
  have "session_runs s1 \<subseteq> session_runs s"
    by (rule session_runs_edit_kept [OF e]) (use Some y in auto)
  moreover have "session_runs s' = session_runs s1 \<or> s' = s"
    using assms unfolding decide_approval_def Some option.case n prod.case Let_def y_def [symmetric] e
    by (auto intro!: session_runs_same split: if_splits option.splits)
  ultimately show ?thesis by auto
qed

lemma session_runs_step:
  assumes "apply_store_op m op (s, w) = (s', w')" "\<not> is_upsert op" "store_ok s"
  shows "session_runs s' \<subseteq> session_runs s \<union> attaches op"
proof (cases op)
  case (OpCreate goal provider)
  with assms show ?thesis
    using session_runs_put by (fastforce simp: create_session_def new_session_def Let_def split: prod.splits)
next
  case (OpAppend sid role body)
  with assms(1) show ?thesis
    by (auto simp: append_message_def Let_def split: prod.splits option.splits dest!: session_runs_edit_kept)
next
  case (OpSetPlan sid pp)
  with assms(1) obtain r where "edit_session m sid (\<lambda>x. x\<lparr>as_plan := Some pp, as_status := (if needs_attention x
      then SAwaitingApproval else if pp_valid pp then SReady else SFailed)\<rparr>) s w = (r, s', w')"
    by (metis apply_store_op.simps(4) prod.collapse set_plan_def snd_conv)
  then show ?thesis by (auto dest!: session_runs_edit_kept)
next
  case (OpSetStatus sid status)
  with assms(1) obtain r where "edit_session m sid (\<lambda>x. x\<lparr>as_status := status\<rparr>) s w = (r, s', w')"
    by (metis apply_store_op.simps(5) prod.collapse set_status_def snd_conv)
  then show ?thesis by (auto dest!: session_runs_edit_kept)
next
  case (OpAttach sid run_id)
  with assms(1) obtain r where e: "edit_session m sid (\<lambda>x. x\<lparr>as_run_id := Some run_id, as_status := SRunning\<rparr>) s w = (r, s', w')"
    by (metis apply_store_op.simps(6) attach_run_def prod.collapse snd_conv)
  have "session_runs s' \<subseteq> session_runs s \<union> {run_id}" by (rule session_runs_edit [OF e]) simp
  with OpAttach show ?thesis by simp
next
  case (OpTokens sid n)
  with assms(1) obtain r where "edit_session m sid (\<lambda>x. x\<lparr>as_tokens_used := sat_add (as_tokens_used x) n\<rparr>) s w = (r, s', w')"
    by (metis apply_store_op.simps(7) prod.collapse record_tokens_def snd_conv)
  then show ?thesis by (auto dest!: session_runs_edit_kept)
next
  case (OpRaise c)
  obtain r where raise: "raise_approval m c s w = (r, s', w')"
    using assms(1) OpRaise by (metis apply_store_op.simps(8) prod.collapse)
  show ?thesis
    using raise assms(3)
  proof (cases rule: raise_approval_cases)
    case (raised sid x s1 aid now w2 r1 w3)
    have "session_runs s1 \<subseteq> session_runs s" by (rule session_runs_edit_kept [OF raised(8)]) simp
    with session_runs_same [of s' s1] raised(7) show ?thesis by auto
  qed simp
next
  case (OpReceive a)
  with assms(1) have "ss_sessions s' = ss_sessions s" by (auto simp: receive_decision_def split: list.splits)
  then show ?thesis using session_runs_same [of s' s] by simp
next
  case (OpDropWaiter k)
  with assms(1) have "ss_sessions s' = ss_sessions s" by auto
  then show ?thesis using session_runs_same [of s' s] by simp
next
  case (OpDecide sid aid d who)
  with assms(1) session_runs_decide show ?thesis by (metis Un_upper1 apply_store_op.simps(11) order_trans prod.collapse)
qed (use assms(2) in simp_all)

lemma store_fine_step:
  assumes "store_fine runs s" "apply_store_op m op (s, w) = (s', w')" "\<not> is_upsert op" "\<forall>r\<in>attaches op. om_get runs r \<noteq> None"
  shows "store_fine runs s'"
  using assms store_ok_step [OF _ assms(2)] messages_ok_step [OF _ assms(2,3)] session_runs_step [OF assms(2,3)]
  unfolding store_fine_def by blast

lemma store_fine_grows: "store_fine runs s \<Longrightarrow> store_fine (om_insert i h runs) s"
  by (auto simp: store_fine_def)

section \<open>Every step keeps the invariant\<close>

lemma on_store_op:
  assumes "on_store f sw = (a, sw')" "apply_store_op m op (sw_store sw, sw_rest sw) = snd (f (sw_store sw) (sw_rest sw))"
  shows "\<exists>v'. apply_store_op m op (sw_store sw, sw_rest sw) = (sw_store sw', v')"
  using assms by (auto simp: on_store_def Let_def split: prod.splits)

lemma service_ok_store:
  assumes "service_ok (st, sw)" "on_store f sw = (a, sw')" "\<not> is_upsert op" "attaches op = {}"
    and "apply_store_op m op (sw_store sw, sw_rest sw) = snd (f (sw_store sw) (sw_rest sw))"
  shows "service_ok (st, sw')"
  using assms(1) on_store_op [OF assms(2,5)] store_fine_step [of "rt_runs st" "sw_store sw" m op] assms(3,4)
  by (auto simp: service_ok_def)

lemma service_ok_run:
  assumes "service_ok (st, sw)" "rh_id h = i" "numbered h" "sw_store sw' = sw_store sw"
  shows "service_ok (with_run i h st, sw')"
  using assms by (simp add: service_ok_def with_run_def runs_ok_insert store_fine_grows)

lemma service_ok_handle: "service_ok (st, sw) \<Longrightarrow> om_get (rt_runs st) i = Some h \<Longrightarrow> rh_id h = i \<and> numbered h"
  by (auto simp: service_ok_def dest: runs_ok_get)

lemma cancel_clients_store:
  assumes "\<forall>cl\<in>set cls. \<forall>p sw r sw'. client_cancel cl p sw = Some (r, sw') \<longrightarrow> sw_store sw' = sw_store sw"
    "cancel_clients i cls sw = Some sw'"
  shows "sw_store sw' = sw_store sw"
  using assms by (induction cls arbitrary: sw) (fastforce split: option.splits prod.splits)+

lemma create_keeps_ok:
  assumes "service_ok (st, sw)" "create_run ax m rq st sw = (r, st', sw')"
  shows "service_ok (st', sw')"
  using assms(2)
proof (cases rule: create_run_cases)
  case (created h request sw1 sw2)
  let ?i = "fst (mc_uuid m (sw_rest sw))"
  have run: "service_ok (with_run ?i h st, sw1)"
    by (rule service_ok_run [OF assms(1) created(5,8,14)])
  have "store_fine (om_insert ?i h (rt_runs st)) (sw_store sw2)"
    using created(13)
  proof (cases rule: attach_cases)
    case (attached sid y x)
    have "apply_store_op m (OpAttach sid ?i) (sw_store sw1, sw_rest sw1) = snd (attach_run m sid ?i (sw_store sw1) (sw_rest sw1))"
      by simp
    from on_store_op [OF attached(4) this] obtain v' where
      "apply_store_op m (OpAttach sid ?i) (sw_store sw1, sw_rest sw1) = (sw_store sw2, v')" by blast
    from store_fine_step [OF _ this] run show ?thesis by (simp add: service_ok_def with_run_def)
  qed (use run in \<open>simp_all add: service_ok_def with_run_def\<close>)
  with run created(3,15) show ?thesis by (simp add: service_ok_def with_run_def)
qed (use assms(1) in \<open>simp_all add: service_ok_def\<close>)

lemma pause_keeps_ok:
  assumes "service_ok (st, sw)" "post_pause m i st sw = (r, st', sw')"
  shows "service_ok (st', sw')"
proof (cases "pause_run (session_machine m) i (rt_runs st) sw")
  case (Inl e)
  with assms show ?thesis by (auto simp: post_pause_def)
next
  case (Inr p)
  then obtain h h' where h: "om_get (rt_runs st) i = Some h" "p = (om_insert i h' (rt_runs st), sw')"
      "mark_paused (session_machine m) (h\<lparr>rh_flags := pause_flags (rh_flags h)\<rparr>) sw = (h', sw')"
    using assms(2) by (auto simp: pause_run_def run_lookup_def post_pause_def split: option.splits if_splits prod.splits)
  have "numbered h' \<and> rh_id h' = i \<and> sw_store sw' = sw_store sw"
    using h(3) service_ok_handle [OF assms(1) h(1)]
    by (auto simp: mark_paused_def split: if_splits dest: publish_new_ok publish_new_store)
  with service_ok_run [OF assms(1), of h' i sw'] assms(2) Inr h(2) show ?thesis
    by (auto simp: post_pause_def with_run_def)
qed

lemma resume_keeps_ok:
  assumes "service_ok (st, sw)" "post_resume m i st sw = (r, st', sw')"
  shows "service_ok (st', sw')"
proof (cases "resume_run (session_machine m) i (rt_runs st) sw")
  case (Inl e)
  with assms show ?thesis by (auto simp: post_resume_def)
next
  case (Inr p)
  then obtain h h' where h: "om_get (rt_runs st) i = Some h" "p = (om_insert i h' (rt_runs st), sw')"
      "mark_running (session_machine m) (h\<lparr>rh_flags := resume_flags (rh_flags h)\<rparr>) sw = (h', sw')"
    using assms(2) by (auto simp: resume_run_def run_lookup_def post_resume_def split: option.splits prod.splits)
  have "numbered h' \<and> rh_id h' = i \<and> sw_store sw' = sw_store sw"
    using h(3) service_ok_handle [OF assms(1) h(1)]
    by (auto simp: mark_running_def split: if_splits dest: publish_new_ok publish_new_store)
  with service_ok_run [OF assms(1), of h' i sw'] assms(2) Inr h(2) show ?thesis
    by (auto simp: post_resume_def with_run_def)
qed

lemma step_keeps_ok:
  assumes "service_ok (st, sw)" "post_step i st = (r, st')"
  shows "service_ok (st', sw)"
proof (cases "om_get (rt_runs st) i")
  case None
  with assms show ?thesis by (simp add: post_step_def step_run_def run_lookup_def)
next
  case (Some h)
  with service_ok_run [OF assms(1), of "h\<lparr>rh_flags := step_flags (rh_flags h)\<rparr>" i sw] service_ok_handle [OF assms(1) Some]
    assms(2) show ?thesis
    by (auto simp: post_step_def step_run_def run_lookup_def with_run_def)
qed

lemma cancel_keeps_ok:
  assumes "service_ok (st, sw)" "host_keeps_store (rt_host st)" "post_cancel i st sw = Some (r, st', sw')"
  shows "service_ok (st', sw') \<and> rt_host st' = rt_host st"
proof (cases "om_get (rt_runs st) i")
  case None
  with assms show ?thesis by (simp add: post_cancel_def cancel_run_def run_lookup_def)
next
  case (Some h)
  with assms(3) have st': "st' = with_run i (h\<lparr>rh_flags := cancel_flags (rh_flags h)\<rparr>) st"
    and told: "cancel_clients i (loaded_clients (rt_host st)) sw = Some sw'"
    by (auto simp: post_cancel_def cancel_run_def run_lookup_def with_run_def host_cancel_run_def)
  have "sw_store sw' = sw_store sw"
    by (rule cancel_clients_store [OF _ told]) (use assms(2) in \<open>auto simp: host_keeps_store_def\<close>)
  with service_ok_run [OF assms(1), of "h\<lparr>rh_flags := cancel_flags (rh_flags h)\<rparr>" i sw'] service_ok_handle [OF assms(1) Some]
  show ?thesis by (simp add: st' with_run_def)
qed

lemma post_keeps_ok:
  assumes "service_ok (st, sw)"
  shows "post_session m goal provider sw = (x, sw') \<Longrightarrow> service_ok (st, sw')"
    "post_message m sid role txt sw = (y, sw') \<Longrightarrow> service_ok (st, sw')"
    "post_plan m sid preview sw = (y, sw') \<Longrightarrow> service_ok (st, sw')"
    "post_status m sid status sw = (y, sw') \<Longrightarrow> service_ok (st, sw')"
    "post_decision m sid aid d who sw = (y, sw') \<Longrightarrow> service_ok (st, sw')"
  using service_ok_store [OF assms, of "create_session m goal provider" x sw' "OpCreate goal provider" m]
    service_ok_store [OF assms, of "append_message m sid role txt" _ sw' "OpAppend sid role txt" m]
    service_ok_store [OF assms, of "set_plan m sid preview" _ sw' "OpSetPlan sid preview" m]
    service_ok_store [OF assms, of "set_status m sid status" _ sw' "OpSetStatus sid status" m]
    service_ok_store [OF assms, of "decide_approval m sid aid d who" _ sw' "OpDecide sid aid d who" m]
  by (auto simp: post_session_def post_message_def post_plan_def post_status_def post_decision_def split: prod.splits)

lemma call_keeps_ok:
  assumes "service_ok (st, sw)" "host_keeps_store (rt_host st)" "call_effect ax m c (st, sw) = Some (st', sw')"
  shows "service_ok (st', sw')"
proof (cases c)
  case (CallCreateRun rq)
  with assms show ?thesis by (cases "create_run ax m rq st sw") (auto dest: create_keeps_ok [OF assms(1)])
next
  case (CallPause i)
  with assms show ?thesis by (cases "post_pause m i st sw") (auto dest: pause_keeps_ok [OF assms(1)])
next
  case (CallResume i)
  with assms show ?thesis by (cases "post_resume m i st sw") (auto dest: resume_keeps_ok [OF assms(1)])
next
  case (CallStep i)
  with assms show ?thesis by (cases "post_step i st") (auto dest: step_keeps_ok [OF assms(1)])
next
  case (CallCancel i)
  with assms show ?thesis by (auto dest: cancel_keeps_ok [OF assms(1,2)])
next
  case (CallCreateSession goal provider)
  with assms show ?thesis by (cases "post_session m goal provider sw") (auto dest: post_keeps_ok(1) [OF assms(1)])
next
  case (CallAppendMessage sid role body)
  with assms show ?thesis by (cases "post_message m sid role body sw") (auto dest: post_keeps_ok(2) [OF assms(1)])
next
  case (CallPublishPlan sid preview)
  with assms show ?thesis by (cases "post_plan m sid preview sw") (auto dest: post_keeps_ok(3) [OF assms(1)])
next
  case (CallSetStatus sid status)
  with assms show ?thesis by (cases "post_status m sid status sw") (auto dest: post_keeps_ok(4) [OF assms(1)])
next
  case (CallDecide sid aid d who)
  with assms show ?thesis by (cases "post_decision m sid aid d who sw") (auto dest: post_keeps_ok(5) [OF assms(1)])
qed (use assms in simp_all)

lemma constant_host:
  assumes "call_effect ax m c (st, sw) = Some (st', sw')"
  shows "rt_host st' = rt_host st"
  using assms
  by (cases c) (auto simp: create_run_def post_pause_def post_resume_def post_step_def post_cancel_def Let_def
      split: if_splits prod.splits sum.splits option.splits)

lemma service_step_ok:
  assumes "service_step ax m render s s'" "service_ok s" "host_keeps_store (rt_host (fst s))"
  shows "service_ok s' \<and> rt_host (fst s') = rt_host (fst s)"
  using assms
proof (induction rule: service_step.induct)
  case (request c st sw st' sw')
  then show ?case using call_keeps_ok constant_host by fastforce
next
  case (publishes st i h e sw h' sw')
  from service_ok_handle [OF publishes(3,1)] publish_ok [OF publishes(2)] publish_store [OF publishes(2)]
  show ?case using service_ok_run [OF publishes(3), of h' i sw'] by (simp add: with_run_def)
next
  case (completes st i h out sw h' sw')
  from service_ok_handle [OF completes(3,1)] complete_ok [OF completes(2)] complete_store [OF completes(2)]
  show ?case using service_ok_run [OF completes(3), of h' i sw'] by (simp add: with_run_def)
next
  case (stores st i h sw flags artifacts)
  from service_ok_handle [OF stores(2,1)] service_ok_run [OF stores(2), of "h\<lparr>rh_artifacts := artifacts, rh_flags := flags\<rparr>" i sw]
  show ?case by (simp add: with_run_def)
next
  case (asks op sw s' v' st)
  have "\<not> is_upsert op" "attaches op = {}" using asks(1) by (cases op; simp)+
  with asks(2,3) store_fine_step [OF _ asks(2)] show ?case by (simp add: service_ok_def)
qed (simp_all add: service_ok_def)

lemma service_steps_ok:
  assumes "(service_step ax m render)\<^sup>*\<^sup>* s s'" "service_ok s" "host_keeps_store (rt_host (fst s))"
  shows "service_ok s'"
proof -
  have "service_ok s' \<and> rt_host (fst s') = rt_host (fst s)"
    using assms
  proof (induction rule: rtranclp_induct)
    case (step t u)
    then have "service_ok t \<and> rt_host (fst t) = rt_host (fst s)" by blast
    with service_step_ok [OF step(2)] step.prems show ?case by simp
  qed simp
  then show ?thesis ..
qed

section \<open>What the builder starts with\<close>

definition builder_ok :: "'v runtime_builder \<Rightarrow> bool" where
  "builder_ok b \<longleftrightarrow> registry_ok (rb_registry b) \<and> extensions_ok (rb_extensions b)"

lemma extensions_ok_empty: "extensions_ok om_empty"
  by (simp add: extensions_ok_def om_empty_def)

lemma register_builtins_ok: "registry_ok r \<Longrightarrow> registry_ok (register_builtins m r)"
proof -
  have "registry_ok r \<Longrightarrow> registry_ok (fold register_executor exs r)" for exs and r :: "'a registry"
    by (induction exs arbitrary: r) simp_all
  then show "registry_ok r \<Longrightarrow> registry_ok (register_builtins m r)" for r :: "'a registry" by (simp add: register_builtins_def)
qed

lemma builder_ok_new: "builder_ok (new_builder m c)"
  by (simp add: builder_ok_def new_builder_def register_builtins_ok extensions_register extensions_ok_empty Let_def)

lemma builder_ok_node: "builder_ok b \<Longrightarrow> builder_ok (add_in_process_node t b)"
  by (simp add: builder_ok_def add_in_process_node_def extensions_register Let_def)

lemma builder_ok_executor: "builder_ok b \<Longrightarrow> builder_ok (builder_register_executor ex b)"
  unfolding builder_register_executor_def by (intro builder_ok_node) (simp add: builder_ok_def)

lemma builder_ok_set:
  assumes "builder_ok b" "registry_ok (register (rb_registry b))"
  shows "builder_ok (builder_register_set register b)"
proof -
  have "builder_ok b \<Longrightarrow> builder_ok (fold add_in_process_node ts b)" for ts and b :: "'a runtime_builder"
    by (induction ts arbitrary: b) (simp_all add: builder_ok_node)
  moreover have "builder_ok (b\<lparr>rb_registry := register (rb_registry b)\<rparr>)" using assms by (simp add: builder_ok_def)
  ultimately show ?thesis by (simp add: builder_register_set_def Let_def)
qed

lemma load_plugin_ok:
  assumes "load_plugin connect pm dir h s = Some (r, h', s')" "host_ok h"
  shows "host_ok h'"
proof (cases "manifest_validate pm")
  case (Inl e)
  with assms show ?thesis by (simp add: load_plugin_def)
next
  case (Inr u)
  with assms(1) obtain z t where "connect pm dir s = Some (z, t)" by (auto simp: load_plugin_def)
  with Inr assms show ?thesis by (cases z) (auto simp: load_plugin_def host_ok_install)
qed

lemma load_list_ok: "load_list connect ps h s = Some (failures, h', s') \<Longrightarrow> host_ok h \<Longrightarrow> host_ok h'"
proof (induction connect ps h s arbitrary: failures h' s' rule: load_list.induct)
  case (2 connect pm dir ps h s)
  obtain p where p: "load_plugin connect pm dir h s = Some p" using 2(2) by (cases "load_plugin connect pm dir h s") simp_all
  obtain r h1 s1 where h1: "p = (r, h1, s1)" by (rule prod_cases3)
  with 2(2) p obtain fs where rest: "load_list connect ps h1 s1 = Some (fs, h', s')" by auto
  have "host_ok h1" by (rule load_plugin_ok [OF p [unfolded h1] 2(3)])
  then show ?case using 2(1) [OF p h1 [symmetric] refl rest] by simp
qed simp

lemma load_plugins_ok:
  assumes "load_plugins rx c out sw0 = Some (failures, host, sw1)"
  shows "host_ok host"
proof (cases "cfg_autoload_plugins c")
  case True
  with assms obtain fs where "load_list (re_connect rx) (do_plugins out) (register_discovered out new_host) sw0 = Some (fs, host, sw1)"
    by (auto simp: load_plugins_def load_all_def)
  from load_list_ok [OF this host_ok_discovered [OF host_ok_new]] show ?thesis .
next
  case False
  with assms show ?thesis by (auto simp: load_plugins_def host_ok_discovered host_ok_new)
qed

lemma built_ok:
  assumes "build_runtime rx m b sw0 = Some (Inr st, sw)" "builder_ok b"
  shows "service_ok (st, sw)"
proof -
  obtain failures host sw1 where loaded: "load_plugins rx (rb_config b)
      (discover_plugins (re_files rx) (cfg_plugin_dirs (rb_config b))) sw0 = Some (failures, host, sw1)"
    using assms(1) by (cases "load_plugins rx (rb_config b) (discover_plugins (re_files rx) (cfg_plugin_dirs (rb_config b))) sw0")
      (auto simp: build_runtime_def Let_def)
  have host: "host_ok host"
    by (rule load_plugins_ok [OF loaded])
  obtain opened sw2 where audit: "open_audit rx (rb_config b) (sw1\<lparr>sw_store := new_store\<rparr>) = (opened, sw2)" by fastforce
  have store: "sw_store sw2 = new_store"
    using audit by (auto simp: open_audit_def in_session_world_def split: option.splits prod.splits sum.splits)
  have ext: "extensions_ok r \<Longrightarrow> extensions_ok (fold extension_register ds r)" for ds r
    by (induction ds arbitrary: r) (simp_all add: extensions_register)
  have reg: "registry_ok (install_into px host (rb_registry b))" for px
    unfolding install_into_def using assms(2)
    by (intro fold_keeps [where P = registry_ok]) (auto simp: install_entry_facts builder_ok_def)
  have new: "store_fine om_empty new_store"
  proof -
    have "messages_ok new_store" "session_runs new_store = {}"
      by (simp_all add: messages_ok_def session_runs_def new_store_def om_empty_def)
    then show ?thesis by (simp add: store_fine_def)
  qed
  note run = assms(1) [unfolded build_runtime_def Let_def loaded option.case prod.case audit]
  have "sw = sw2" "rt_host st = host" "rt_runs st = om_empty"
    "rt_registry st = install_into (re_plugins rx) host (rb_registry b)"
    "rt_extensions st = fold extension_register (extension_descriptors host) (rb_extensions b)"
    using run by (cases opened; auto)+
  with host reg ext new store assms(2) show ?thesis
    by (simp add: service_ok_def runs_ok_def builder_ok_def om_empty_def)
qed

section \<open>Properties\<close>

text \<open>C21. The shared state of the runtime is well formed from the moment it is built, whatever requests the
  clients send in whatever order and whatever the threads of the runs do in between: the registry, the
  extensions and the plugins are filed under their own ids, every run is filed under its own id with a
  gapless numbered history of its own events, every session stands under its own id with its messages
  numbered in order and no channel shared, and every run that a session names exists.\<close>

theorem service_stays_well_formed:
  assumes "build_runtime rx m b sw0 = Some (Inr st0, sw1)" "builder_ok b" "host_keeps_store (rt_host st0)"
    and "(service_step ax m render)\<^sup>*\<^sup>* (st0, sw1) (st, sw)"
  shows "service_ok (st, sw)"
  using service_steps_ok [OF assms(4)] built_ok [OF assms(1,2)] assms(3) by simp

text \<open>A runtime without plugins that keeps its audit records in memory, a session and a message to it.\<close>

definition demo_runtime_externs :: "nat runtime_externs" where
  "demo_runtime_externs =
     \<lparr>re_files = \<lparr>fs_is_absolute = (\<lambda>p. False), fs_join = (\<lambda>a b. a @ CHR ''/'' # b), fs_exists = (\<lambda>p. False),
        fs_is_dir = (\<lambda>p. False), fs_is_file = (\<lambda>p. False), fs_read_dir = (\<lambda>p. None),
        fs_read_manifest = (\<lambda>p. Inl (InvalidManifest [])), fs_binary_dir = None\<rparr>,
      re_plugins = demo_plugin_externs, re_connect = (\<lambda>pm dir sw. None),
      re_open_audit = (\<lambda>path v. (Inl ''denied'', v)), re_parse_record = (\<lambda>line. None)\<rparr>"

abbreviation "demo_builder \<equiv> new_builder quiet_machine (default_runtime_config (re_files demo_runtime_externs))"

lemma demo_build:
  "\<exists>st sw. build_runtime demo_runtime_externs quiet_machine demo_builder demo_world = Some (Inr st, sw) \<and> rt_host st = new_host"
proof -
  have "discover_plugins (re_files demo_runtime_externs) dirs = \<lparr>do_plugins = [], do_errors = []\<rparr>" for dirs
  proof -
    have "fold (scan_root (re_files demo_runtime_externs)) dirs out = out" for out
      by (induction dirs arbitrary: out) (simp_all add: scan_root_def demo_runtime_externs_def)
    then show ?thesis by (simp add: discover_plugins_def)
  qed
  then show ?thesis
    by (simp add: build_runtime_def load_plugins_def register_discovered_def load_all_def open_audit_def new_builder_def
        default_runtime_config_def Let_def)
qed

lemma service_stays_well_formed_witness:
  "\<exists>st sw x sw'. build_runtime demo_runtime_externs quiet_machine demo_builder demo_world = Some (Inr st, sw) \<and>
     post_session quiet_machine ''goal'' ''mock'' sw = (x, sw') \<and> service_ok (st, sw')"
proof -
  obtain st sw where built: "build_runtime demo_runtime_externs quiet_machine demo_builder demo_world = Some (Inr st, sw)"
    "rt_host st = new_host" using demo_build by blast
  obtain x sw' where post: "post_session quiet_machine ''goal'' ''mock'' sw = (x, sw')" by fastforce
  have host: "host_keeps_store (rt_host st)"
    by (simp add: built(2) host_keeps_store_def loaded_clients_def new_host_def map_filter_simps)
  have "service_step demo_api_externs quiet_machine (\<lambda>r. None) (st, sw) (st, sw')"
    by (rule service_step.request [where c = "CallCreateSession ''goal'' ''mock''"]) (simp add: post)
  then have "(service_step demo_api_externs quiet_machine (\<lambda>r. None))\<^sup>*\<^sup>* (st, sw) (st, sw')"
    by (rule r_into_rtranclp)
  from service_stays_well_formed [OF built(1) builder_ok_new host this] built(1) post
  show ?thesis by blast
qed

end
