(* ===== verification/Nodara_Keys.thy ===== *)
theory Nodara_Keys
  imports Nodara_Json
begin

text \<open>
  Key names and chords (\<open>keys.rs\<close> of the desktop plug-in): from the name of a key, a literal
  character or a chord to virtual-key codes. The code is a table, and the table of a US
  keyboard (\<open>us_char\<close>) is its specification: a character that can be typed is typed as
  itself.
\<close>

section \<open>Virtual-key codes\<close>

type_synonym u8 = "8 word"

record key_stroke =
  virtual_key :: u8
  stroke_shift :: bool

definition vk_shift :: u8 where "vk_shift = 0x10"
definition vk_control :: u8 where "vk_control = 0x11"
definition vk_menu :: u8 where "vk_menu = 0x12"
definition vk_lwin :: u8 where "vk_lwin = 0x5B"
definition vk_capital :: u8 where "vk_capital = 0x14"
definition vk_back :: u8 where "vk_back = 0x08"
definition vk_tab :: u8 where "vk_tab = 0x09"
definition vk_return :: u8 where "vk_return = 0x0D"
definition vk_escape :: u8 where "vk_escape = 0x1B"
definition vk_space :: u8 where "vk_space = 0x20"
definition vk_prior :: u8 where "vk_prior = 0x21"
definition vk_next :: u8 where "vk_next = 0x22"
definition vk_end :: u8 where "vk_end = 0x23"
definition vk_home :: u8 where "vk_home = 0x24"
definition vk_left :: u8 where "vk_left = 0x25"
definition vk_up :: u8 where "vk_up = 0x26"
definition vk_right :: u8 where "vk_right = 0x27"
definition vk_down :: u8 where "vk_down = 0x28"
definition vk_insert :: u8 where "vk_insert = 0x2D"
definition vk_delete :: u8 where "vk_delete = 0x2E"
definition vk_oem_1 :: u8 where "vk_oem_1 = 0xBA"
definition vk_oem_plus :: u8 where "vk_oem_plus = 0xBB"
definition vk_oem_comma :: u8 where "vk_oem_comma = 0xBC"
definition vk_oem_minus :: u8 where "vk_oem_minus = 0xBD"
definition vk_oem_period :: u8 where "vk_oem_period = 0xBE"
definition vk_oem_2 :: u8 where "vk_oem_2 = 0xBF"
definition vk_oem_3 :: u8 where "vk_oem_3 = 0xC0"
definition vk_oem_4 :: u8 where "vk_oem_4 = 0xDB"
definition vk_oem_5 :: u8 where "vk_oem_5 = 0xDC"
definition vk_oem_6 :: u8 where "vk_oem_6 = 0xDD"
definition vk_oem_7 :: u8 where "vk_oem_7 = 0xDE"
definition vk_f1 :: u8 where "vk_f1 = 0x70"

lemmas vk_defs = vk_shift_def vk_control_def vk_menu_def vk_lwin_def vk_capital_def vk_back_def vk_tab_def
  vk_return_def vk_escape_def vk_space_def vk_prior_def vk_next_def vk_end_def vk_home_def vk_left_def
  vk_up_def vk_right_def vk_down_def vk_insert_def vk_delete_def vk_oem_1_def vk_oem_plus_def
  vk_oem_comma_def vk_oem_minus_def vk_oem_period_def vk_oem_2_def vk_oem_3_def vk_oem_4_def
  vk_oem_5_def vk_oem_6_def vk_oem_7_def vk_f1_def

section \<open>Names\<close>

definition normalise :: "string \<Rightarrow> string" where
  "normalise name = filter (\<lambda>c. c \<noteq> CHR '' '' \<and> c \<noteq> CHR ''_'') (to_ascii_lowercase (trim name))"

definition modifier_vk :: "string \<Rightarrow> u8 option" where
  "modifier_vk name =
     (let n = normalise name in
      if n \<in> set [''ctrl'', ''control''] then Some vk_control
      else if n \<in> set [''alt'', ''menu''] then Some vk_menu
      else if n = ''shift'' then Some vk_shift
      else if n \<in> set [''win'', ''windows'', ''meta'', ''super'', ''cmd'', ''command''] then Some vk_lwin
      else None)"

definition named_keys :: "(string \<times> u8) list" where
  "named_keys =
     [(''enter'', vk_return), (''return'', vk_return),
      (''tab'', vk_tab),
      (''esc'', vk_escape), (''escape'', vk_escape),
      (''space'', vk_space), (''spacebar'', vk_space),
      (''backspace'', vk_back), (''back'', vk_back),
      (''delete'', vk_delete), (''del'', vk_delete),
      (''insert'', vk_insert), (''ins'', vk_insert),
      (''home'', vk_home),
      (''end'', vk_end),
      (''pageup'', vk_prior), (''pgup'', vk_prior),
      (''pagedown'', vk_next), (''pgdn'', vk_next),
      (''left'', vk_left), (''arrowleft'', vk_left),
      (''up'', vk_up), (''arrowup'', vk_up),
      (''right'', vk_right), (''arrowright'', vk_right),
      (''down'', vk_down), (''arrowdown'', vk_down),
      (''capslock'', vk_capital), (''caps'', vk_capital),
      ('';'', vk_oem_1),
      (''='', vk_oem_plus),
      ('','', vk_oem_comma),
      (''-'', vk_oem_minus),
      (''.'', vk_oem_period),
      (''/'', vk_oem_2),
      (''`'', vk_oem_3),
      (''['', vk_oem_4),
      ([CHR 0x5C], vk_oem_5),
      ('']'', vk_oem_6),
      ([CHR 0x27], vk_oem_7)]"

definition named_key :: "string \<Rightarrow> u8 option" where
  "named_key name = map_of named_keys name"

definition is_ascii_lowercase :: "char \<Rightarrow> bool" where
  "is_ascii_lowercase c = (let n = (of_char c :: nat) in 97 \<le> n \<and> n \<le> 122)"

definition ascii_byte :: "char \<Rightarrow> u8" where
  "ascii_byte c = of_char c"

definition shift_pairs :: "(string \<times> u8) list" where
  "shift_pairs =
     [(''!'', ascii_byte (CHR ''1'')), (''@'', ascii_byte (CHR ''2'')), (''#'', ascii_byte (CHR ''3'')),
      (''$'', ascii_byte (CHR ''4'')), (''%'', ascii_byte (CHR ''5'')), (''^'', ascii_byte (CHR ''6'')),
      (''&'', ascii_byte (CHR ''7'')), (''*'', ascii_byte (CHR ''8'')), (''('', ascii_byte (CHR ''9'')),
      ('')'', ascii_byte (CHR ''0'')),
      (''_'', vk_oem_minus), (''+'', vk_oem_plus), (''{'', vk_oem_4), (''}'', vk_oem_6), (''|'', vk_oem_5),
      ('':'', vk_oem_1), ([CHR 0x22], vk_oem_7), (''<'', vk_oem_comma), (''>'', vk_oem_period),
      (''?'', vk_oem_2), (''~'', vk_oem_3)]"

text \<open>\<open>str::parse::<u8>\<close>: an optional plus sign, digits, and a value below 256.\<close>

definition parse_u8 :: "string \<Rightarrow> nat option" where
  "parse_u8 s =
     (case parse_digits (case s of [] \<Rightarrow> [] | c # cs \<Rightarrow> if c = CHR ''+'' then cs else s) of
        None \<Rightarrow> None | Some n \<Rightarrow> if n < 2 ^ 8 then Some n else None)"

definition function_key :: "string \<Rightarrow> key_stroke option" where
  "function_key name =
     (case strip_prefix ''f'' name of
        None \<Rightarrow> None
      | Some rest \<Rightarrow>
          (case parse_u8 rest of
             None \<Rightarrow> None
           | Some index \<Rightarrow>
               if 1 \<le> index \<and> index \<le> 24
               then Some \<lparr>virtual_key = vk_f1 + of_nat index - 1, stroke_shift = False\<rparr> else None))"

text \<open>The single-character case looks at names of one byte; the classes it tests are ASCII.\<close>

definition resolve_shifted :: "string \<Rightarrow> key_stroke option" where
  "resolve_shifted name =
     (let otherwise =
        (case map_of shift_pairs name of
           Some vk \<Rightarrow> Some \<lparr>virtual_key = vk, stroke_shift = True\<rparr>
         | None \<Rightarrow> function_key name)
      in case name of
           [c] \<Rightarrow>
             if is_digit c then Some \<lparr>virtual_key = ascii_byte c, stroke_shift = False\<rparr>
             else if is_ascii_lowercase c then Some \<lparr>virtual_key = ascii_byte c - 32, stroke_shift = False\<rparr>
             else otherwise
         | _ \<Rightarrow> otherwise)"

definition resolve_key :: "string \<Rightarrow> key_stroke option" where
  "resolve_key name =
     (let n = normalise name in
      case named_key n of
        Some vk \<Rightarrow> Some \<lparr>virtual_key = vk, stroke_shift = False\<rparr>
      | None \<Rightarrow> resolve_shifted n)"

definition resolve_char :: "char \<Rightarrow> key_stroke option" where
  "resolve_char c =
     (if is_upper_ascii c then Some \<lparr>virtual_key = ascii_byte c, stroke_shift = True\<rparr>
      else resolve_key [c])"

section \<open>Chords\<close>

definition chord_parts :: "string \<Rightarrow> string list" where
  "chord_parts chord =
     (let (body, plus_key) = (case strip_suffix ''++'' chord of Some head \<Rightarrow> (head, True) | None \<Rightarrow> (chord, False))
      in filter (\<lambda>p. p \<noteq> []) (map trim (split_by (\<lambda>c. c = CHR ''+'') body)) @ (if plus_key then [''+''] else []))"

fun modifier_keys :: "string list \<Rightarrow> u8 list option" where
  "modifier_keys [] = Some []"
| "modifier_keys (m # ms) =
     (case modifier_vk m of None \<Rightarrow> None | Some vk \<Rightarrow> map_option ((#) vk) (modifier_keys ms))"

definition parse_chord :: "string \<Rightarrow> (u8 list \<times> key_stroke) option" where
  "parse_chord chord =
     (let parts = chord_parts chord in
      if parts = [] then None
      else (case modifier_keys (butlast parts) of
              None \<Rightarrow> None
            | Some ms \<Rightarrow> map_option (\<lambda>stroke. (ms, stroke)) (resolve_key (last parts))))"

section \<open>The US keyboard\<close>

text \<open>What the keys of a US keyboard type: the code of each key with its plain and its shifted
  character.\<close>

definition us_keys :: "(u8 \<times> char \<times> char) list" where
  "us_keys =
     [(0x30, CHR ''0'', CHR '')''), (0x31, CHR ''1'', CHR ''!''), (0x32, CHR ''2'', CHR ''@''),
      (0x33, CHR ''3'', CHR ''#''), (0x34, CHR ''4'', CHR ''$''), (0x35, CHR ''5'', CHR ''%''),
      (0x36, CHR ''6'', CHR ''^''), (0x37, CHR ''7'', CHR ''&''), (0x38, CHR ''8'', CHR ''*''),
      (0x39, CHR ''9'', CHR ''('')] @
     zip (map of_nat [65..<91]) (zip ''abcdefghijklmnopqrstuvwxyz'' ''ABCDEFGHIJKLMNOPQRSTUVWXYZ'') @
     [(0x20, CHR '' '', CHR '' ''),
      (0xBA, CHR '';'', CHR '':''), (0xBB, CHR ''='', CHR ''+''), (0xBC, CHR '','', CHR ''<''),
      (0xBD, CHR ''-'', CHR ''_''), (0xBE, CHR ''.'', CHR ''>''), (0xBF, CHR ''/'', CHR ''?''),
      (0xC0, CHR ''`'', CHR ''~''), (0xDB, CHR ''['', CHR ''{''), (0xDC, CHR 0x5C, CHR ''|''),
      (0xDD, CHR '']'', CHR ''}''), (0xDE, CHR 0x27, CHR 0x22)]"

definition us_char :: "key_stroke \<Rightarrow> char option" where
  "us_char k =
     map_option (\<lambda>(plain, shifted). if stroke_shift k then shifted else plain) (map_of us_keys (virtual_key k))"

definition printable :: "char \<Rightarrow> bool" where
  "printable c = (let n = (of_char c :: nat) in 32 \<le> n \<and> n < 127)"

text \<open>Character classes as lists of characters.\<close>

lemma char_range:
  assumes "b \<le> 256"
  shows "(a \<le> (of_char c :: nat) \<and> (of_char c :: nat) < b) \<longleftrightarrow> c \<in> set (map char_of [a..<b])"
proof
  assume "a \<le> (of_char c :: nat) \<and> (of_char c :: nat) < b"
  then have "c = char_of (of_char c :: nat)" "(of_char c :: nat) \<in> set [a..<b]" by auto
  then show "c \<in> set (map char_of [a..<b])" by (metis image_eqI list.set_map)
next
  assume "c \<in> set (map char_of [a..<b])"
  then obtain n where "c = char_of n" "a \<le> n" "n < b" by auto
  then show "a \<le> (of_char c :: nat) \<and> (of_char c :: nat) < b" using assms by simp
qed

lemma upper_chars: "map char_of [65..<91::nat] = ''ABCDEFGHIJKLMNOPQRSTUVWXYZ''"
  by code_simp

lemma lower_chars: "map char_of [97..<123::nat] = ''abcdefghijklmnopqrstuvwxyz''"
  by code_simp

lemma digit_chars: "map char_of [48..<58::nat] = ''0123456789''"
  by code_simp

lemma printable_chars:
  "map char_of [33..<127::nat] =
     ''!'' @ [CHR 0x22] @ ''#$%&'' @ [CHR 0x27] @ ''()*+,-./0123456789:;<=>?@ABCDEFGHIJKLMNOPQRSTUVWXYZ['' @
     [CHR 0x5C] @ '']^_`abcdefghijklmnopqrstuvwxyz{|}~''"
  by code_simp

lemma is_digit_chars: "is_digit c \<longleftrightarrow> c \<in> set ''0123456789''"
  using char_range [of 58 48 c] unfolding digit_chars by (auto simp: is_digit_def Let_def)

lemma is_lower_chars: "is_ascii_lowercase c \<longleftrightarrow> c \<in> set ''abcdefghijklmnopqrstuvwxyz''"
  using char_range [of 123 97 c] unfolding lower_chars by (auto simp: is_ascii_lowercase_def Let_def)

lemma is_upper_chars: "is_upper_ascii c \<longleftrightarrow> c \<in> set ''ABCDEFGHIJKLMNOPQRSTUVWXYZ''"
  using char_range [of 91 65 c] unfolding upper_chars by (auto simp: is_upper_ascii_def Let_def)

lemma us_letters:
  "zip (map of_nat [65..<91]) (zip ''abcdefghijklmnopqrstuvwxyz'' ''ABCDEFGHIJKLMNOPQRSTUVWXYZ'') =
     [(65 :: u8, CHR ''a'', CHR ''A''), (66, CHR ''b'', CHR ''B''), (67, CHR ''c'', CHR ''C''),
      (68, CHR ''d'', CHR ''D''), (69, CHR ''e'', CHR ''E''), (70, CHR ''f'', CHR ''F''),
      (71, CHR ''g'', CHR ''G''), (72, CHR ''h'', CHR ''H''), (73, CHR ''i'', CHR ''I''),
      (74, CHR ''j'', CHR ''J''), (75, CHR ''k'', CHR ''K''), (76, CHR ''l'', CHR ''L''),
      (77, CHR ''m'', CHR ''M''), (78, CHR ''n'', CHR ''N''), (79, CHR ''o'', CHR ''O''),
      (80, CHR ''p'', CHR ''P''), (81, CHR ''q'', CHR ''Q''), (82, CHR ''r'', CHR ''R''),
      (83, CHR ''s'', CHR ''S''), (84, CHR ''t'', CHR ''T''), (85, CHR ''u'', CHR ''U''),
      (86, CHR ''v'', CHR ''V''), (87, CHR ''w'', CHR ''W''), (88, CHR ''x'', CHR ''X''),
      (89, CHR ''y'', CHR ''Y''), (90, CHR ''z'', CHR ''Z'')]"
  by code_simp

text \<open>A single character that is not a capital, looked up in the tables.\<close>

lemma not_space_printable: "c \<in> set (map char_of [33..<127::nat]) \<Longrightarrow> \<not> is_space c"
  using char_range [of 127 33 c] by (simp add: is_space_def Let_def)

lemma normalise_single:
  assumes "\<not> is_upper_ascii c"
  shows "normalise [c] = (if is_space c \<or> c = CHR ''_'' then [] else [c])"
proof -
  have "is_space (CHR '' '')" by (simp add: is_space_def)
  moreover have "trim [c] = (if is_space c then [] else [c])"
    by (simp add: trim_def trim_start_def trim_end_def)
  ultimately show ?thesis
    using assms by (auto simp: normalise_def to_ascii_lowercase_def to_ascii_lower_char_def)
qed

lemma function_key_single: "function_key [c] = None"
  by (simp add: function_key_def strip_prefix_def starts_with_def parse_u8_def parse_digits_def)

lemma empty_name: "named_key [] = None" "map_of shift_pairs [] = None" "function_key [] = None"
  by (simp_all add: named_key_def named_keys_def shift_pairs_def function_key_def strip_prefix_def starts_with_def)

lemma resolve_char_lower:
  assumes "\<not> is_upper_ascii c"
  shows "resolve_char c =
    (if is_space c \<or> c = CHR ''_'' then None
     else (case named_key [c] of
         Some vk \<Rightarrow> Some \<lparr>virtual_key = vk, stroke_shift = False\<rparr>
       | None \<Rightarrow>
           if is_digit c then Some \<lparr>virtual_key = ascii_byte c, stroke_shift = False\<rparr>
           else if is_ascii_lowercase c then Some \<lparr>virtual_key = ascii_byte c - 32, stroke_shift = False\<rparr>
           else map_option (\<lambda>vk. \<lparr>virtual_key = vk, stroke_shift = True\<rparr>) (map_of shift_pairs [c])))"
  using assms
  by (cases "is_space c \<or> c = CHR ''_''")
    (auto simp: resolve_char_def resolve_key_def normalise_single resolve_shifted_def empty_name Let_def
      function_key_single split: option.splits)

lemma unprintable_is_refused:
  assumes "c \<notin> set (map char_of [33..<127::nat])"
  shows "resolve_char c = None"
proof -
  have no: "\<not> is_upper_ascii c" "\<not> is_digit c" "\<not> is_ascii_lowercase c"
    using assms unfolding printable_chars is_upper_chars is_digit_chars is_lower_chars by auto
  have "named_key [c] = None"
    using assms unfolding printable_chars by (simp add: named_key_def named_keys_def)
  moreover have "map_of shift_pairs [c] = None"
    using assms unfolding printable_chars by (simp add: shift_pairs_def)
  ultimately show ?thesis by (simp add: resolve_char_lower no)
qed

lemma capitals_are_typed:
  assumes "is_upper_ascii c"
  shows "map_option us_char (resolve_char c) = Some (Some c)"
proof -
  have "\<forall>c \<in> set ''ABCDEFGHIJKLMNOPQRSTUVWXYZ''.
      us_char \<lparr>virtual_key = ascii_byte c, stroke_shift = True\<rparr> = Some c"
    by (simp add: us_char_def us_keys_def us_letters ascii_byte_def)
  then have "us_char \<lparr>virtual_key = ascii_byte c, stroke_shift = True\<rparr> = Some c"
    using assms unfolding is_upper_chars by blast
  then show ?thesis using assms by (simp add: resolve_char_def)
qed

text \<open>The single-character entries of the tables.\<close>

lemma named_single:
  "named_key [c] = map_of
     [(CHR '';'', 0xBA), (CHR ''='', 0xBB), (CHR '','', 0xBC), (CHR ''-'', 0xBD), (CHR ''.'', 0xBE),
      (CHR ''/'', 0xBF), (CHR ''`'', 0xC0), (CHR ''['', 0xDB), (CHR 0x5C, 0xDC), (CHR '']'', 0xDD),
      (CHR 0x27, 0xDE)] c"
  by (simp add: named_key_def named_keys_def vk_defs)

lemma shifted_single:
  "map_of shift_pairs [c] = map_of
     [(CHR ''!'', 0x31), (CHR ''@'', 0x32), (CHR ''#'', 0x33), (CHR ''$'', 0x34), (CHR ''%'', 0x35),
      (CHR ''^'', 0x36), (CHR ''&'', 0x37), (CHR ''*'', 0x38), (CHR ''('', 0x39), (CHR '')'', 0x30),
      (CHR ''_'', 0xBD), (CHR ''+'', 0xBB), (CHR ''{'', 0xDB), (CHR ''}'', 0xDD), (CHR ''|'', 0xDC),
      (CHR '':'', 0xBA), (CHR 0x22, 0xDE), (CHR ''<'', 0xBC), (CHR ''>'', 0xBE), (CHR ''?'', 0xBF),
      (CHR ''~'', 0xC0)] c"
  by (simp add: shift_pairs_def vk_defs ascii_byte_def)

lemma digits_typed:
  "list_all (\<lambda>c. us_char \<lparr>virtual_key = ascii_byte c, stroke_shift = False\<rparr> = Some c) ''0123456789''"
  by (simp add: us_char_def us_keys_def us_letters ascii_byte_def)

lemma letters_typed:
  "list_all (\<lambda>c. us_char \<lparr>virtual_key = ascii_byte c - 32, stroke_shift = False\<rparr> = Some c) ''abcdefghijklmnopqrstuvwxyz''"
  by (simp add: us_char_def us_keys_def us_letters ascii_byte_def)

lemma symbols_typed:
  "list_all (\<lambda>c. map_option (\<lambda>vk. us_char \<lparr>virtual_key = vk, stroke_shift = False\<rparr>) (named_key [c]) = Some (Some c))
     (''=,-./`;['' @ [CHR 0x5C, CHR 0x27] @ '']'')"
  "list_all (\<lambda>c. map_option (\<lambda>vk. us_char \<lparr>virtual_key = vk, stroke_shift = True\<rparr>) (map_of shift_pairs [c]) = Some (Some c))
     (''!@#$%^&*()_+{}|:<>?~'' @ [CHR 0x22])"
  by (simp_all add: named_single shifted_single us_char_def us_keys_def us_letters)

lemma single_tables:
  "list_all (\<lambda>c. named_key [c] = None) ''0123456789''"
  "list_all (\<lambda>c. named_key [c] = None \<and> \<not> is_digit c) ''abcdefghijklmnopqrstuvwxyz''"
  "list_all (\<lambda>c. named_key [c] = None \<and> \<not> is_digit c \<and> \<not> is_ascii_lowercase c) (''!@#$%^&*()_+{}|:<>?~'' @ [CHR 0x22])"
  by (simp_all add: named_single is_digit_chars is_lower_chars)

lemma printable_classes:
  "list_all (\<lambda>c. c \<in> set ''ABCDEFGHIJKLMNOPQRSTUVWXYZ'' \<or> c \<in> set ''0123456789'' \<or>
       c \<in> set ''abcdefghijklmnopqrstuvwxyz'' \<or> c \<in> set (''=,-./`;['' @ [CHR 0x5C, CHR 0x27] @ '']'') \<or>
       c \<in> set (''!@#$%^&*()_+{}|:<>?~'' @ [CHR 0x22]))
     (map char_of [33..<127::nat])"
  unfolding printable_chars by simp

lemma plain_characters_are_typed:
  assumes c: "c \<in> set (map char_of [33..<127::nat])" and upper: "\<not> is_upper_ascii c" and score: "c \<noteq> CHR ''_''"
  shows "map_option us_char (resolve_char c) = Some (Some c)"
proof -
  have space: "\<not> is_space c" by (rule not_space_printable [OF c])
  consider (digit) "c \<in> set ''0123456789''" | (lower) "c \<in> set ''abcdefghijklmnopqrstuvwxyz''"
    | (named) "c \<in> set (''=,-./`;['' @ [CHR 0x5C, CHR 0x27] @ '']'')"
    | (shifted) "c \<in> set (''!@#$%^&*()_+{}|:<>?~'' @ [CHR 0x22])"
    using c upper printable_classes unfolding list_all_iff is_upper_chars by blast
  then show ?thesis
  proof cases
    case digit
    then have "named_key [c] = None" "us_char \<lparr>virtual_key = ascii_byte c, stroke_shift = False\<rparr> = Some c"
      using single_tables(1) digits_typed unfolding list_all_iff by blast+
    then show ?thesis using space score upper is_digit_chars [THEN iffD2, OF digit] by (simp add: resolve_char_lower)
  next
    case lower
    then have "named_key [c] = None" "\<not> is_digit c"
        "us_char \<lparr>virtual_key = ascii_byte c - 32, stroke_shift = False\<rparr> = Some c"
      using single_tables(2) letters_typed unfolding list_all_iff by blast+
    then show ?thesis using space score upper is_lower_chars [THEN iffD2, OF lower] by (simp add: resolve_char_lower)
  next
    case named
    with symbols_typed(1) have "map_option (\<lambda>vk. us_char \<lparr>virtual_key = vk, stroke_shift = False\<rparr>) (named_key [c]) = Some (Some c)"
      unfolding list_all_iff by blast
    then show ?thesis using space score upper by (auto simp: resolve_char_lower)
  next
    case shifted
    with symbols_typed(2) have "map_option (\<lambda>vk. us_char \<lparr>virtual_key = vk, stroke_shift = True\<rparr>) (map_of shift_pairs [c]) = Some (Some c)"
      unfolding list_all_iff by blast
    moreover have "named_key [c] = None \<and> \<not> is_digit c \<and> \<not> is_ascii_lowercase c"
      using shifted single_tables(3) unfolding list_all_iff by blast
    ultimately show ?thesis using space score upper by (auto simp: resolve_char_lower)
  qed
qed

text \<open>C40. A character is typed as itself on a US keyboard or not at all, and the characters that
  can be typed are the printable ones except the space and the underscore, whose names
  \<open>normalise\<close> reduces to the empty text.\<close>

theorem characters_are_typed_as_themselves:
  "map_option us_char (resolve_char c) =
     (if printable c \<and> c \<noteq> CHR '' '' \<and> c \<noteq> CHR ''_'' then Some (Some c) else None)"
proof (cases "c \<in> set (map char_of [33..<127::nat])")
  case True
  have "33 \<le> (of_char c :: nat) \<and> (of_char c :: nat) < 127" by (rule char_range [THEN iffD2, OF _ True]) simp
  then have visible: "printable c" "c \<noteq> CHR '' ''" by (auto simp: printable_def Let_def)
  have "\<not> is_upper_ascii (CHR ''_'')" by (simp add: is_upper_chars)
  then have "resolve_char (CHR ''_'') = None" by (simp add: resolve_char_lower)
  then show ?thesis
    using visible plain_characters_are_typed [OF True] capitals_are_typed by (cases "is_upper_ascii c") auto
next
  case False
  have hidden: "\<not> (33 \<le> (of_char c :: nat) \<and> (of_char c :: nat) < 127)"
    using False char_range [THEN iffD1, of 127 33 c] by fastforce
  have "(of_char (CHR '' '') :: nat) = 32" by simp
  then have "of_char c = (32 :: nat) \<Longrightarrow> c = CHR '' ''" by (metis of_char_eq_iff)
  then show ?thesis
    using unprintable_is_refused [OF False] hidden by (auto simp: printable_def Let_def)
qed

section \<open>Reading chords\<close>

text \<open>A chord written with the names of its keys is read as those keys, in order.\<close>

definition key_name_ok :: "string \<Rightarrow> bool" where
  "key_name_ok name \<longleftrightarrow> name \<noteq> [] \<and> CHR ''+'' \<notin> set name \<and> trim name = name"

lemma split_plus_none: "CHR ''+'' \<notin> set s \<Longrightarrow> split_by (\<lambda>c. c = CHR ''+'') s = [s]"
  by (induction s) auto

lemma split_plus_cons:
  "CHR ''+'' \<notin> set s \<Longrightarrow> split_by (\<lambda>c. c = CHR ''+'') (s @ ''+'' @ t) = s # split_by (\<lambda>c. c = CHR ''+'') t"
  by (induction s) auto

lemma split_join_plus:
  "names \<noteq> [] \<Longrightarrow> list_all key_name_ok names \<Longrightarrow> split_by (\<lambda>c. c = CHR ''+'') (join_with ''+'' names) = names"
  by (induction "''+''" names rule: join_with.induct)
    (auto simp: key_name_ok_def split_plus_none split_plus_cons simp del: append.simps)

lemma join_last:
  "names \<noteq> [] \<Longrightarrow> list_all key_name_ok names \<Longrightarrow>
     join_with ''+'' names \<noteq> [] \<and> last (join_with ''+'' names) = last (last names)"
  by (induction "''+''" names rule: join_with.induct) (auto simp: key_name_ok_def)

lemma no_plus_suffix:
  assumes "s \<noteq> []" "last s \<noteq> CHR ''+''"
  shows "strip_suffix ''++'' s = None"
proof (rule ccontr)
  assume "strip_suffix ''++'' s \<noteq> None"
  then have "drop (length s - Suc (Suc 0)) s = ''++''"
    by (auto simp: strip_suffix_def split: if_splits)
  then have "s = take (length s - Suc (Suc 0)) s @ ''++''" by (metis append_take_drop_id)
  then have "last s = CHR ''+''" by (metis last_append last.simps list.distinct(1))
  with assms show False by simp
qed

lemma chord_parts_join:
  assumes "names \<noteq> []" "list_all key_name_ok names"
  shows "chord_parts (join_with ''+'' names) = names"
proof -
  have "last names \<in> set names" using assms(1) by simp
  then have "key_name_ok (last names)" using assms(2) by (auto simp: list_all_iff)
  then have "last (last names) \<noteq> CHR ''+''" unfolding key_name_ok_def by (metis last_in_set)
  then have "strip_suffix ''++'' (join_with ''+'' names) = None"
    using join_last [OF assms] by (auto intro: no_plus_suffix)
  moreover have "map trim names = names" "filter (\<lambda>p. p \<noteq> []) names = names"
    using assms(2) by (auto simp: list_all_iff key_name_ok_def map_idI filter_id_conv)
  ultimately show ?thesis by (simp add: chord_parts_def split_join_plus [OF assms])
qed

lemma chord_of_names:
  assumes "list_all key_name_ok (ms @ [name])" "modifier_keys ms = Some vks" "resolve_key name = Some stroke"
  shows "parse_chord (join_with ''+'' (ms @ [name])) = Some (vks, stroke)"
  using assms chord_parts_join [of "ms @ [name]"] by (simp add: parse_chord_def)

end
