(* ===== verification/Nodara_Native.thy ===== *)
theory Nodara_Native
  imports Nodara_Keys Nodara_Builtin
begin

text \<open>
  The layer between the desktop nodes and the operating system. \<open>native\<close> of the code is one of
  two modules with the same functions, chosen when the crate is compiled: \<open>win32.rs\<close> (modelled
  in \<open>Nodara_Win32\<close>) or \<open>win32_stub.rs\<close> (below). Here it is the record \<open>native\<close> of those
  functions over the outside world, and the nodes take it as an argument. A coordinate is an
  \<open>i32\<close> in two's complement; a window handle is opaque.

  The bodies of the nodes run in the execution context and stop at the first error:
  \<open>act_bind\<close> is the question mark operator of the code.
\<close>

section \<open>Errors (error.rs)\<close>

datatype platform_error =
    UnsupportedHost string
  | Win32Error string u32
  | WindowNotFound string
  | ClipboardError string
  | CaptureError string
  | ImageError string
  | UnknownKey string
  | PlatformIo string

fun platform_error_text :: "platform_error \<Rightarrow> string" where
  "platform_error_text (UnsupportedHost os) = ''platform is not supported: '' @ os"
| "platform_error_text (Win32Error operation code) =
     operation @ '' failed (win32 error '' @ show_nat (unat code) @ '')''"
| "platform_error_text (WindowNotFound query) = ''no window matched `'' @ query @ ''`''"
| "platform_error_text (ClipboardError e) = ''clipboard error: '' @ e"
| "platform_error_text (CaptureError e) = ''capture error: '' @ e"
| "platform_error_text (ImageError e) = ''image error: '' @ e"
| "platform_error_text (UnknownKey k) = ''unknown key `'' @ k @ ''`''"
| "platform_error_text (PlatformIo e) = ''io error: '' @ e"

section \<open>The native functions\<close>

type_synonym i32 = "32 word"
type_synonym point = "i32 \<times> i32"
type_synonym window_id = "64 word"

record rect =
  rc_x :: i32
  rc_y :: i32
  rc_width :: u32
  rc_height :: u32

record window_record =
  wr_id :: window_id
  wr_title :: string
  wr_class_name :: string
  wr_process_name :: string
  wr_rect :: rect
  wr_visible :: bool

datatype mouse_button = LeftButton | RightButton | MiddleButton

type_synonym ('w, 'a) native_call = "'w \<Rightarrow> (platform_error, 'a) result \<times> 'w"

record 'w native =
  nv_key :: "u8 \<Rightarrow> bool \<Rightarrow> 'w \<Rightarrow> 'w"
  nv_set_cursor :: "i32 \<Rightarrow> i32 \<Rightarrow> ('w, unit) native_call"
  nv_cursor_position :: "('w, point) native_call"
  nv_send_key :: "window_id \<Rightarrow> u8 \<Rightarrow> bool \<Rightarrow> ('w, unit) native_call"
  nv_send_text :: "window_id \<Rightarrow> 16 word \<Rightarrow> ('w, unit) native_call"
  nv_set_window_text :: "window_id \<Rightarrow> string \<Rightarrow> ('w, unit) native_call"
  nv_screen_to_client :: "window_id \<Rightarrow> i32 \<Rightarrow> i32 \<Rightarrow> ('w, point) native_call"
  nv_send_mouse_move :: "window_id \<Rightarrow> i32 \<Rightarrow> i32 \<Rightarrow> mouse_button option \<Rightarrow> ('w, unit) native_call"
  nv_send_mouse_button :: "window_id \<Rightarrow> i32 \<Rightarrow> i32 \<Rightarrow> mouse_button \<Rightarrow> bool \<Rightarrow> ('w, unit) native_call"
  nv_mouse_button :: "mouse_button \<Rightarrow> bool \<Rightarrow> ('w, unit) native_call"
  nv_screen_size :: "'w \<Rightarrow> point \<times> 'w"
  nv_foreground_window :: "'w \<Rightarrow> window_id \<times> 'w"
  nv_windows :: "'w \<Rightarrow> window_record list \<times> 'w"
  nv_focus :: "window_id \<Rightarrow> ('w, unit) native_call"
  nv_capture :: "i32 \<Rightarrow> i32 \<Rightarrow> u32 \<Rightarrow> u32 \<Rightarrow> ('w, u8 list) native_call"
  nv_clipboard_read :: "('w, string option) native_call"
  nv_clipboard_write :: "string \<Rightarrow> ('w, unit) native_call"

text \<open>Hosts other than Windows (\<open>win32_stub.rs\<close>); \<open>std::env::consts::OS\<close> is the argument.\<close>

definition stub_unsupported :: "string \<Rightarrow> ('w, 'a) native_call" where
  "stub_unsupported os w = (Inl (UnsupportedHost os), w)"

definition stub_native :: "string \<Rightarrow> 'w native" where
  "stub_native os =
     \<lparr>nv_key = (\<lambda>virtual_key up w. w),
      nv_set_cursor = (\<lambda>x y. stub_unsupported os),
      nv_cursor_position = stub_unsupported os,
      nv_send_key = (\<lambda>window virtual_key down. stub_unsupported os),
      nv_send_text = (\<lambda>window code_unit. stub_unsupported os),
      nv_set_window_text = (\<lambda>window text. stub_unsupported os),
      nv_screen_to_client = (\<lambda>window x y. stub_unsupported os),
      nv_send_mouse_move = (\<lambda>window x y held. stub_unsupported os),
      nv_send_mouse_button = (\<lambda>window x y button down. stub_unsupported os),
      nv_mouse_button = (\<lambda>button down. stub_unsupported os),
      nv_screen_size = (\<lambda>w. ((0, 0), w)),
      nv_foreground_window = (\<lambda>w. (0, w)),
      nv_windows = (\<lambda>w. ([], w)),
      nv_focus = (\<lambda>window. stub_unsupported os),
      nv_capture = (\<lambda>x y width height. stub_unsupported os),
      nv_clipboard_read = stub_unsupported os,
      nv_clipboard_write = (\<lambda>text. stub_unsupported os)\<rparr>"

section \<open>Actions in a context\<close>

type_synonym ('w, 'a) act = "'w exec_context \<Rightarrow> (node_error, 'a) result \<times> 'w exec_context"

definition act_return :: "'a \<Rightarrow> ('w, 'a) act" where
  "act_return a c = (Inr a, c)"

definition act_fail :: "node_error \<Rightarrow> ('w, 'a) act" where
  "act_fail e c = (Inl e, c)"

definition act_bind :: "('w, 'a) act \<Rightarrow> ('a \<Rightarrow> ('w, 'b) act) \<Rightarrow> ('w, 'b) act" where
  "act_bind f g c = (case f c of (Inl e, c1) \<Rightarrow> (Inl e, c1) | (Inr a, c1) \<Rightarrow> g a c1)"

text \<open>An action whose result is kept as a value, as in \<open>let result = f();\<close>.\<close>

definition act_try :: "('w, 'a) act \<Rightarrow> ('w, (node_error, 'a) result) act" where
  "act_try f c = (let (r, c1) = f c in (Inr r, c1))"

definition act_of :: "(node_error, 'a) result \<Rightarrow> ('w, 'a) act" where
  "act_of r c = (r, c)"

definition act_when :: "bool \<Rightarrow> ('w, unit) act \<Rightarrow> ('w, unit) act" where
  "act_when b f = (if b then f else act_return ())"

definition act_do :: "('w exec_context \<Rightarrow> 'w exec_context) \<Rightarrow> ('w, unit) act" where
  "act_do f c = (Inr (), f c)"

fun act_each :: "('a \<Rightarrow> ('w, unit) act) \<Rightarrow> 'a list \<Rightarrow> ('w, unit) act" where
  "act_each f [] = act_return ()"
| "act_each f (x # xs) = act_bind (f x) (\<lambda>u. act_each f xs)"

text \<open>A native function called from a node: \<open>map_err(|error| NodeError::Execution(error.to_string()))\<close>.\<close>

definition on_world :: "('w \<Rightarrow> 'w) \<Rightarrow> 'w exec_context \<Rightarrow> 'w exec_context" where
  "on_world f = on_shared (\<lambda>s. s\<lparr>sh_world := f (sh_world s)\<rparr>)"

abbreviation cx_world :: "'w exec_context \<Rightarrow> 'w" where
  "cx_world c \<equiv> sh_world (cx_shared c)"

definition raw_call :: "('w, 'a) native_call \<Rightarrow> 'w exec_context \<Rightarrow> (platform_error, 'a) result \<times> 'w exec_context" where
  "raw_call f c = (let (r, w) = f (cx_world c) in (r, on_world (\<lambda>u. w) c))"

definition native_act :: "('w, 'a) native_call \<Rightarrow> ('w, 'a) act" where
  "native_act f c =
     (case raw_call f c of
        (Inl e, c1) \<Rightarrow> (Inl (ExecutionFailed (platform_error_text e)), c1)
      | (Inr a, c1) \<Rightarrow> (Inr a, c1))"

definition native_value :: "('w \<Rightarrow> 'a \<times> 'w) \<Rightarrow> ('w, 'a) act" where
  "native_value f c = (let (a, w) = f (cx_world c) in (Inr a, on_world (\<lambda>u. w) c))"

text \<open>\<open>wait_interruptible\<close> of \<open>input.rs\<close> and of \<open>window.rs\<close> is the loop of \<open>system.Delay\<close>, line for line.\<close>

definition platform_wait :: "'w machine \<Rightarrow> u64 \<Rightarrow> ('w, unit) act" where
  "platform_wait m duration_ms c = delay_loop m duration_ms c"

section \<open>Rules for actions\<close>

lemma on_world_simps [simp]:
  "cx_world (on_world f c) = f (cx_world c)"
  "cx_control (on_world f c) = cx_control c"
  "cx_variables (on_world f c) = cx_variables c"
  by (simp_all add: on_world_def)

text \<open>What an action does to its context is a relation; most relations of interest are closed
  under composition, and an action built from parts that keep them keeps them.\<close>

definition act_keeps :: "('w exec_context \<Rightarrow> 'w exec_context \<Rightarrow> bool) \<Rightarrow> ('w, 'a) act \<Rightarrow> bool" where
  "act_keeps R f \<longleftrightarrow> (\<forall>c. R c (snd (f c)))"

locale context_relation =
  fixes R :: "'w exec_context \<Rightarrow> 'w exec_context \<Rightarrow> bool"
  assumes keep_refl: "R c c"
    and keep_trans: "R a b \<Longrightarrow> R b c \<Longrightarrow> R a c"
begin

lemma keeps_return: "act_keeps R (act_return a)" "act_keeps R (act_fail e)" "act_keeps R (act_of r)"
  by (simp_all add: act_keeps_def act_return_def act_fail_def act_of_def keep_refl)

lemma keeps_bind: "act_keeps R f \<Longrightarrow> (\<And>a. act_keeps R (g a)) \<Longrightarrow> act_keeps R (act_bind f g)"
  unfolding act_keeps_def act_bind_def
  by (auto split: prod.splits sum.splits) (metis keep_trans snd_conv)+

lemma keeps_try: "act_keeps R f \<Longrightarrow> act_keeps R (act_try f)"
  by (simp add: act_keeps_def act_try_def case_prod_beta Let_def)

lemma keeps_when: "act_keeps R f \<Longrightarrow> act_keeps R (act_when b f)"
  by (simp add: act_when_def keeps_return)

lemma keeps_do: "(\<And>c. R c (f c)) \<Longrightarrow> act_keeps R (act_do f)"
  by (simp add: act_keeps_def act_do_def)

lemma keeps_each: "(\<And>x. x \<in> set xs \<Longrightarrow> act_keeps R (f x)) \<Longrightarrow> act_keeps R (act_each f xs)"
  by (induction xs) (auto intro: keeps_bind keeps_return)

lemmas keeps_rules = keeps_return keeps_bind keeps_try keeps_when keeps_each

end

lemma native_act_world: "snd (native_act f c) = on_world (\<lambda>u. snd (f (cx_world c))) c"
  by (auto simp: native_act_def raw_call_def case_prod_beta Let_def split: sum.splits)

lemma native_value_world: "snd (native_value f c) = on_world (\<lambda>u. snd (f (cx_world c))) c"
  by (simp add: native_value_def case_prod_beta Let_def)

end
