(* ===== verification/Nodara_Window.thy ===== *)
theory Nodara_Window
  imports Nodara_Native Nodara_Protocol
begin

text \<open>
  Windows, screen capture and the clipboard (\<open>window.rs\<close>, \<open>capture.rs\<close>, \<open>clipboard.rs\<close>): how a
  selector picks a window, the four window nodes, the capture of the desktop and the
  clipboard node. Areas are \<open>u32\<close> products and wrap around, as in a release build. The loop of
  \<open>windows.Window.Wait\<close> is a \<open>partial_function\<close> over its body \<open>wait_window_step\<close>: it ends when the
  clock moves (\<open>Nodara_Platform_Props\<close>). Encoding a PNG is a library's (\<open>image_codec\<close>).
\<close>

section \<open>Schemas\<close>

definition merge_properties :: "json \<Rightarrow> json \<Rightarrow> json" where
  "merge_properties base extra =
     (case (base, extra) of (JObj a, JObj b) \<Rightarrow> JObj (om_extend a b) | _ \<Rightarrow> base)"

definition window_config_schema :: "json \<Rightarrow> string list \<Rightarrow> json" where
  "window_config_schema properties required =
     jobj [(''type'', JStr ''object''), (''properties'', properties),
           (''required'', JArr (map JStr required)), (''additionalProperties'', JBool False)]"

definition window_match_properties :: json where
  "window_match_properties =
     jobj
       [(''title'', jobj
          [(''type'', JStr ''string''),
           (''title'', JStr ''Window title''),
           (''description'', JStr ''Window title to match. Substring match unless `exact` is set.''),
           (''examples'', JArr [JStr ''Notepad'', JStr ''Settings''])]),
        (''class'', jobj
          [(''type'', JStr ''string''),
           (''title'', JStr ''Window class''),
           (''description'', JStr ''Win32 window class name to match, e.g. `Notepad`.''),
           (''examples'', JArr [JStr ''Notepad''])]),
        (''process'', jobj
          [(''type'', JStr ''string''),
           (''title'', JStr ''Process name''),
           (''description'', JStr (''Executable file name that owns the window, for example `notepad.exe`. Matching is case-insensitive; '' @
               ''substring unless `exact` is set.'')),
           (''examples'', JArr [JStr ''notepad.exe'', JStr ''chrome.exe''])]),
        (''exact'', jobj
          [(''type'', JStr ''boolean''),
           (''title'', JStr ''Exact match''),
           (''description'', JStr ''Require title, class and process name to match exactly instead of as substrings.''),
           (''default'', JBool False)]),
        (''visible_only'', jobj
          [(''type'', JStr ''boolean''),
           (''title'', JStr ''Visible windows only''),
           (''description'', JStr ''Ignore hidden and minimised-away windows while searching.''),
           (''default'', JBool True)])]"

definition selector_properties :: json where
  "selector_properties =
     merge_properties window_match_properties (jobj
       [(''foreground'', jobj
           [(''type'', JStr ''boolean''),
            (''title'', JStr ''Foreground window''),
            (''description'', JStr ''Use the foreground window instead of searching. Overrides title, class and process filters.''),
            (''default'', JBool False)])])"

definition selector_schema :: "json \<Rightarrow> string list \<Rightarrow> json" where
  "selector_schema extra required = window_config_schema (merge_properties selector_properties extra) required"

definition output_var_property :: "string \<Rightarrow> json" where
  "output_var_property description =
     jobj
       [(''type'', JStr ''string''),
        (''title'', JStr ''Output variable''),
        (''description'', JStr description)]"

section \<open>Selectors\<close>

record window_selector =
  ws_title :: "string option"
  ws_class :: "string option"
  ws_process :: "string option"
  ws_exact :: bool
  ws_visible_only :: bool
  ws_foreground :: bool

definition selector_keys :: "string list" where
  "selector_keys =
     [''title'', ''class'', ''process'', ''exact'', ''visible_only'', ''foreground'', ''output_var'',
      ''wait_timeout_ms'', ''poll_interval_ms'']"

text \<open>The derived decoder of a selector.\<close>

definition decode_selector :: "jobject \<Rightarrow> window_selector option" where
  "decode_selector config =
     (case (decode_default None decode_optional_string (om_get config ''title''),
            decode_default None decode_optional_string (om_get config ''class''),
            decode_default None decode_optional_string (om_get config ''process''),
            decode_default False as_bool (om_get config ''exact''),
            decode_default True as_bool (om_get config ''visible_only''),
            decode_default False as_bool (om_get config ''foreground'')) of
        (Some title, Some cls, Some process, Some exact, Some visible_only, Some foreground) \<Rightarrow>
          Some \<lparr>ws_title = title, ws_class = cls, ws_process = process, ws_exact = exact,
                ws_visible_only = visible_only, ws_foreground = foreground\<rparr>
      | _ \<Rightarrow> None)"

definition selector_from_config :: "externs \<Rightarrow> json \<Rightarrow> (node_error, window_selector) result" where
  "selector_from_config x config =
     (case as_object config of
        None \<Rightarrow> Inl (InvalidConfig ''window selector must be an object'')
      | Some entries \<Rightarrow>
          (case filter (\<lambda>key. key \<notin> set selector_keys) (om_keys entries) of
             key # _ \<Rightarrow> Inl (InvalidConfig (''unknown window selector field `'' @ key @ ''`''))
           | [] \<Rightarrow>
               (case decode_selector entries of
                  Some selector \<Rightarrow> Inr selector
                | None \<Rightarrow> Inl (InvalidConfig (''invalid window selector: '' @ ext_serde_error x config)))))"

definition selector_filters :: "window_selector \<Rightarrow> string list" where
  "selector_filters s =
     (case ws_title s of Some t \<Rightarrow> [''title `'' @ t @ ''`''] | None \<Rightarrow> []) @
     (case ws_class s of Some t \<Rightarrow> [''class `'' @ t @ ''`''] | None \<Rightarrow> []) @
     (case ws_process s of Some t \<Rightarrow> [''process `'' @ t @ ''`''] | None \<Rightarrow> []) @
     (if ws_visible_only s then [''visible''] else [])"

definition describe_selector :: "window_selector \<Rightarrow> string" where
  "describe_selector s =
     (if ws_foreground s then ''the foreground window''
      else if selector_filters s = [] then ''any window''
      else join_with '' and '' (selector_filters s))"

definition window_matches :: "window_record \<Rightarrow> window_selector \<Rightarrow> bool" where
  "window_matches r s \<longleftrightarrow>
     (case ws_title s of
        Some wanted \<Rightarrow> if ws_exact s then wr_title r = wanted else contains_str wanted (wr_title r)
      | None \<Rightarrow> True) \<and>
     (case ws_class s of
        Some wanted \<Rightarrow> if ws_exact s then wr_class_name r = wanted else contains_str wanted (wr_class_name r)
      | None \<Rightarrow> True) \<and>
     (case ws_process s of
        Some wanted \<Rightarrow>
          if ws_exact s then eq_ignore_ascii_case (wr_process_name r) wanted
          else contains_str (to_ascii_lowercase wanted) (to_ascii_lowercase (wr_process_name r))
      | None \<Rightarrow> True)"

definition window_area :: "window_record \<Rightarrow> u32" where
  "window_area r = rc_width (wr_rect r) * rc_height (wr_rect r)"

text \<open>\<open>Iterator::max_by_key\<close>: the last of the greatest elements.\<close>

definition max_by_key :: "('a \<Rightarrow> 'k::linorder) \<Rightarrow> 'a list \<Rightarrow> 'a option" where
  "max_by_key key xs =
     fold (\<lambda>x best. case best of None \<Rightarrow> Some x | Some y \<Rightarrow> if key y \<le> key x then Some x else Some y) xs None"

definition eligible :: "window_selector \<Rightarrow> window_record \<Rightarrow> bool" where
  "eligible s r \<longleftrightarrow> (\<not> ws_visible_only s \<or> wr_visible r) \<and> window_matches r s"

definition find_window :: "'w native \<Rightarrow> window_selector \<Rightarrow> ('w, window_record) native_call" where
  "find_window n s w =
     (if ws_foreground s then
        let (foreground, w1) = nv_foreground_window n w; (records, w2) = nv_windows n w1
        in (case find (\<lambda>r. wr_id r = foreground) records of
              Some r \<Rightarrow> Inr r | None \<Rightarrow> Inl (WindowNotFound ''the foreground window''), w2)
      else
        let (records, w1) = nv_windows n w
        in (case max_by_key window_area (filter (eligible s) records) of
              Some r \<Rightarrow> Inr r | None \<Rightarrow> Inl (WindowNotFound (describe_selector s)), w1))"

definition jsint :: "'a::len word \<Rightarrow> json" where
  "jsint i = jint (sint i)"

definition juint :: "'a::len word \<Rightarrow> json" where
  "juint i = JNum (num_of_u64 (unat i))"

definition window_value :: "window_record \<Rightarrow> json" where
  "window_value r =
     jobj
       [(''handle'', jsint (wr_id r)),
        (''title'', JStr (wr_title r)),
        (''class'', JStr (wr_class_name r)),
        (''process'', JStr (wr_process_name r)),
        (''visible'', JBool (wr_visible r)),
        (''rect'', jobj
          [(''x'', jsint (rc_x (wr_rect r))),
           (''y'', jsint (rc_y (wr_rect r))),
           (''width'', juint (rc_width (wr_rect r))),
           (''height'', juint (rc_height (wr_rect r)))])]"

section \<open>The window nodes\<close>

definition plain_port :: "string \<Rightarrow> string \<Rightarrow> port_kind \<Rightarrow> value_type \<Rightarrow> port_descriptor" where
  "plain_port name display kind ty = new_port name display kind ty"

definition find_window_descriptor :: node_descriptor where
  "find_window_descriptor =
     (descriptor_with_description (new_descriptor ''windows.Window.Find'' ''Find Window'' ''Window'')
        ''Locates a window by title, class or process'')
     \<lparr>d_inputs := [plain_port ''in'' ''In'' InputPort AnyType],
      d_outputs := [plain_port ''window'' ''Window'' OutputPort WindowType],
      d_config_schema := selector_schema
        (jobj [(''output_var'', output_var_property ''Variable receiving the window record (`handle`, `title`, `class`, `rect`).'')])
        [''output_var''],
      d_allows_additional_config := False\<rparr>"

text \<open>Publish a window: the variable, the log line and the output.\<close>

definition publish_window ::
    "'w machine \<Rightarrow> string \<Rightarrow> json \<Rightarrow> string \<Rightarrow> 'w exec_context \<Rightarrow> (node_error, node_output) result \<times> 'w exec_context" where
  "publish_window m output_var v message c =
     (Inr (with_output new_output ''window'' v), ctx_log m Info message (set_variable output_var v c))"

definition find_execute :: "'w native \<Rightarrow> 'w machine \<Rightarrow> 'w execute" where
  "find_execute n m input c = Some (
     act_bind (act_of (require_str input ''output_var'')) (\<lambda>output_var.
     act_bind (act_of (selector_from_config (mc_ext m) (ni_resolved_config input))) (\<lambda>selector.
     act_bind (native_act (find_window n selector)) (\<lambda>record.
       publish_window m output_var (window_value record) (''found window `'' @ wr_title record @ ''`'')))) c)"

definition wait_descriptor :: node_descriptor where
  "wait_descriptor =
     (descriptor_with_description (new_descriptor ''windows.Window.Wait'' ''Wait for Window'' ''Window'')
        ''Waits until a matching window appears or disappears'')
     \<lparr>d_inputs := [plain_port ''in'' ''In'' InputPort AnyType],
      d_outputs := [plain_port ''window'' ''Window'' OutputPort WindowType],
      d_config_schema := selector_schema
        (jobj
           [(''output_var'', output_var_property ''Variable receiving the last matching window record.''),
            (''mode'', jobj
              [(''type'', JStr ''string''),
               (''title'', JStr ''Wait mode''),
               (''description'', JStr ''Wait for a matching window to appear, or for matching windows to disappear.''),
               (''enum'', JArr [JStr ''appear'', JStr ''disappear'']),
               (''default'', JStr ''appear'')]),
            (''wait_timeout_ms'', jobj
              [(''type'', JStr ''integer''),
               (''title'', JStr ''Wait timeout (ms)''),
               (''description'', JStr ''Maximum time to wait for a matching window.''),
               (''minimum'', jint 0),
               (''default'', jint 10000)]),
            (''poll_interval_ms'', jobj
              [(''type'', JStr ''integer''),
               (''title'', JStr ''Poll interval (ms)''),
               (''description'', JStr ''Delay between window enumeration attempts.''),
               (''minimum'', jint 1),
               (''default'', jint 100)])])
        [''output_var''],
      d_allows_additional_config := False\<rparr>"

text \<open>One turn of the waiting loop: a result, or the last record seen and the context to go on with.\<close>

definition wait_a_little ::
    "'w machine \<Rightarrow> nat \<Rightarrow> u64 \<Rightarrow> u64 \<Rightarrow> window_record option \<Rightarrow> 'w exec_context
       \<Rightarrow> ((node_error, node_output) result \<times> 'w exec_context) + (window_record option \<times> 'w exec_context)" where
  "wait_a_little m started timeout_ms poll_interval_ms last_record c =
     (let (elapsed, w1) = elapsed_ms m started (cx_world c);
          remaining = sat_sub timeout_ms elapsed
      in case platform_wait m (min poll_interval_ms remaining) (on_world (\<lambda>u. w1) c) of
           (Inl e, c1) \<Rightarrow> Inl (Inl e, c1)
         | (Inr _, c1) \<Rightarrow> Inr (last_record, c1))"

definition past_deadline :: "'w machine \<Rightarrow> nat \<Rightarrow> u64 \<Rightarrow> 'w exec_context \<Rightarrow> bool \<times> 'w exec_context" where
  "past_deadline m started timeout_ms c =
     (let (now, w1) = mc_instant_ns m (cx_world c)
      in (unat timeout_ms * 1000000 \<le> now - started, on_world (\<lambda>u. w1) c))"

definition wait_window_step ::
    "'w native \<Rightarrow> 'w machine \<Rightarrow> window_selector \<Rightarrow> string \<Rightarrow> string \<Rightarrow> u64 \<Rightarrow> u64 \<Rightarrow> nat \<Rightarrow> window_record option
       \<Rightarrow> 'w exec_context \<Rightarrow> ((node_error, node_output) result \<times> 'w exec_context) + (window_record option \<times> 'w exec_context)" where
  "wait_window_step n m selector mode output_var timeout_ms poll_interval_ms started last_record c =
     (case check_cancelled c of
        (Inl e, c1) \<Rightarrow> Inl (Inl e, c1)
      | (Inr _, c1) \<Rightarrow>
     (case raw_call (find_window n selector) c1 of
        (Inr record, c2) \<Rightarrow>
          if mode = ''appear''
          then Inl (publish_window m output_var (window_value record) (''window appeared: `'' @ wr_title record @ ''`'') c2)
          else (case past_deadline m started timeout_ms c2 of
                  (True, c3) \<Rightarrow> Inl (Inl TimeoutError, c3)
                | (False, c3) \<Rightarrow> wait_a_little m started timeout_ms poll_interval_ms (Some record) c3)
      | (Inl (WindowNotFound query), c2) \<Rightarrow>
          if mode = ''disappear''
          then Inl (publish_window m output_var
                 (case last_record of Some record \<Rightarrow> window_value record | None \<Rightarrow> JNull)
                 ''matching windows disappeared'' c2)
          else (case past_deadline m started timeout_ms c2 of
                  (False, c3) \<Rightarrow> wait_a_little m started timeout_ms poll_interval_ms last_record c3
                | (True, c3) \<Rightarrow> Inl (Inl TimeoutError, c3))
      | (Inl e, c2) \<Rightarrow> Inl (Inl (ExecutionFailed (platform_error_text e)), c2)))"

partial_function (option) wait_window_loop ::
    "'w native \<Rightarrow> 'w machine \<Rightarrow> window_selector \<Rightarrow> string \<Rightarrow> string \<Rightarrow> u64 \<Rightarrow> u64 \<Rightarrow> nat \<Rightarrow> window_record option
       \<Rightarrow> 'w exec_context \<Rightarrow> ((node_error, node_output) result \<times> 'w exec_context) option" where
  "wait_window_loop n m selector mode output_var timeout_ms poll_interval_ms started last_record c =
     (case wait_window_step n m selector mode output_var timeout_ms poll_interval_ms started last_record c of
        Inl y \<Rightarrow> Some y
      | Inr (seen, c1) \<Rightarrow> wait_window_loop n m selector mode output_var timeout_ms poll_interval_ms started seen c1)"

definition wait_execute :: "'w native \<Rightarrow> 'w machine \<Rightarrow> 'w execute" where
  "wait_execute n m input c =
     (case require_str input ''output_var'' of
        Inl e \<Rightarrow> Some (Inl e, c)
      | Inr output_var \<Rightarrow>
     (let mode = (case config_str input ''mode'' of Some s \<Rightarrow> s | None \<Rightarrow> ''appear'') in
      if mode \<noteq> ''appear'' \<and> mode \<noteq> ''disappear''
      then Some (Inl (InvalidConfig (''unknown wait mode `'' @ mode @ ''`'')), c)
      else (case selector_from_config (mc_ext m) (ni_resolved_config input) of
              Inl e \<Rightarrow> Some (Inl e, c)
            | Inr selector \<Rightarrow>
                let timeout_ms = word_of_int (max (case config_i64 input ''wait_timeout_ms'' of Some t \<Rightarrow> t | None \<Rightarrow> 10000) 0);
                    poll_interval_ms = word_of_int (max (case config_i64 input ''poll_interval_ms'' of Some t \<Rightarrow> t | None \<Rightarrow> 100) 1);
                    (started, w1) = mc_instant_ns m (cx_world c)
                in wait_window_loop n m selector mode output_var timeout_ms poll_interval_ms started None (on_world (\<lambda>u. w1) c))))"

definition focus_descriptor :: node_descriptor where
  "focus_descriptor =
     (descriptor_with_description (new_descriptor ''windows.Window.Focus'' ''Focus Window'' ''Window'')
        ''Brings a window to the foreground'')
     \<lparr>d_inputs := [plain_port ''in'' ''In'' InputPort AnyType],
      d_outputs := [plain_port ''out'' ''Out'' OutputPort WindowType],
      d_config_schema := selector_schema (jobj []) [],
      d_dangerous := True,
      d_permissions := [''window.control''],
      d_allows_additional_config := False\<rparr>"

definition focus_execute :: "'w native \<Rightarrow> 'w machine \<Rightarrow> 'w execute" where
  "focus_execute n m input c = Some (
     act_bind (act_of (selector_from_config (mc_ext m) (ni_resolved_config input))) (\<lambda>selector.
     act_bind (native_act (find_window n selector)) (\<lambda>record.
     act_bind (native_act (nv_focus n (wr_id record))) (\<lambda>u.
       act_return (with_output new_output ''out''
         (jobj [(''handle'', jsint (wr_id record)), (''title'', JStr (wr_title record))]))))) c)"

section \<open>Capture (capture.rs)\<close>

record image_codec =
  ic_from_raw :: "u32 \<Rightarrow> u32 \<Rightarrow> u8 list \<Rightarrow> bool"
  ic_png :: "u32 \<Rightarrow> u32 \<Rightarrow> u8 list \<Rightarrow> (string, u8 list) result"
  ic_luma :: "u8 list \<Rightarrow> (string, u8 list \<times> u32 \<times> u32) result"

text \<open>\<open>chunks_exact(4)\<close>: the blue, green, red and unused byte of each pixel, reordered.\<close>

fun bgra_to_rgba :: "u8 list \<Rightarrow> u8 list" where
  "bgra_to_rgba (b # g # r # a # rest) = [r, g, b, 0xFF] @ bgra_to_rgba rest"
| "bgra_to_rgba _ = []"

definition encode_png :: "image_codec \<Rightarrow> u8 list \<Rightarrow> u32 \<Rightarrow> u32 \<Rightarrow> (node_error, u8 list) result" where
  "encode_png ic bgra width height =
     (let expected = unat width * unat height * 4 in
      if length bgra < expected
      then Inl (ExecutionFailed (''capture buffer is '' @ show_nat (length bgra) @ '' bytes but '' @
             show_nat expected @ '' were expected''))
      else let rgba = bgra_to_rgba (take expected bgra) in
        if \<not> ic_from_raw ic width height rgba
        then Inl (ExecutionFailed ''capture dimensions are inconsistent'')
        else (case ic_png ic width height rgba of
                Inl e \<Rightarrow> Inl (ExecutionFailed e)
              | Inr bytes \<Rightarrow> Inr bytes))"

definition put_artifact :: "'w machine \<Rightarrow> string \<Rightarrow> string \<Rightarrow> u8 list \<Rightarrow> ('w, artifact_meta) act" where
  "put_artifact m name content_type bytes c =
     (let s = cx_shared c; (meta, store, w) = artifact_put m name content_type bytes (sh_artifacts s) (sh_world s)
      in (Inr meta, on_shared (\<lambda>s. s\<lparr>sh_artifacts := store, sh_world := w\<rparr>) c))"

definition capture_region ::
    "'w native \<Rightarrow> 'w machine \<Rightarrow> image_codec \<Rightarrow> i32 \<Rightarrow> i32 \<Rightarrow> u32 \<Rightarrow> u32 \<Rightarrow> string \<Rightarrow> ('w, artifact_meta) act" where
  "capture_region n m ic x y width height name =
     act_bind (native_act (nv_capture n x y width height)) (\<lambda>bgra.
     act_bind (act_of (encode_png ic bgra width height)) (\<lambda>png.
       put_artifact m name ''image/png'' png))"

definition capture_descriptor :: node_descriptor where
  "capture_descriptor =
     (descriptor_with_description (new_descriptor ''windows.Window.Capture'' ''Capture Window'' ''Window'')
        ''Captures a window, including its frame'')
     \<lparr>d_inputs := [plain_port ''in'' ''In'' InputPort AnyType],
      d_outputs := [plain_port ''artifact'' ''Artifact'' OutputPort ImageType],
      d_config_schema := selector_schema
        (jobj [(''output_var'', output_var_property ''Variable receiving the captured artefact metadata.'')])
        [''output_var''],
      d_dangerous := False,
      d_permissions := [''screen.capture''],
      d_allows_additional_config := False\<rparr>"

definition publish_artifact :: "string \<Rightarrow> artifact_meta \<Rightarrow> ('w, node_output) act" where
  "publish_artifact output_var meta =
     act_bind (act_do (set_variable output_var (artifact_meta_json meta))) (\<lambda>u.
       act_return (with_output new_output ''artifact'' (artifact_meta_json meta)))"

definition capture_execute :: "'w native \<Rightarrow> 'w machine \<Rightarrow> image_codec \<Rightarrow> 'w execute" where
  "capture_execute n m ic input c = Some (
     act_bind (act_of (require_str input ''output_var'')) (\<lambda>output_var.
     act_bind (act_of (selector_from_config (mc_ext m) (ni_resolved_config input))) (\<lambda>selector.
     act_bind (native_act (find_window n selector)) (\<lambda>record.
     act_bind (capture_region n m ic (rc_x (wr_rect record)) (rc_y (wr_rect record))
                 (rc_width (wr_rect record)) (rc_height (wr_rect record)) (wr_title record)) (\<lambda>meta.
       publish_artifact output_var meta)))) c)"

definition desktop_capture_descriptor :: node_descriptor where
  "desktop_capture_descriptor =
     (descriptor_with_description (new_descriptor ''windows.Desktop.Capture'' ''Capture Desktop'' ''Desktop'')
        ''Captures the whole primary display or a region of it'')
     \<lparr>d_inputs := [plain_port ''in'' ''In'' InputPort AnyType],
      d_outputs := [plain_port ''artifact'' ''Artifact'' OutputPort ImageType],
      d_config_schema := jobj
          [(''type'', JStr ''object''),
           (''properties'', jobj
             [(''x'', jobj
                [(''type'', JStr ''integer''),
                 (''title'', JStr ''X''),
                 (''description'', JStr ''Left edge of the region, in screen pixels.''),
                 (''default'', jint 0)]),
              (''y'', jobj
                [(''type'', JStr ''integer''),
                 (''title'', JStr ''Y''),
                 (''description'', JStr ''Top edge of the region, in screen pixels.''),
                 (''default'', jint 0)]),
              (''width'', jobj
                [(''type'', JStr ''integer''),
                 (''title'', JStr ''Width''),
                 (''description'', JStr ''Width of the region in pixels. Defaults to the whole primary display.''),
                 (''minimum'', jint 1)]),
              (''height'', jobj
                [(''type'', JStr ''integer''),
                 (''title'', JStr ''Height''),
                 (''description'', JStr ''Height of the region in pixels. Defaults to the whole primary display.''),
                 (''minimum'', jint 1)]),
              (''output_var'', jobj
                [(''type'', JStr ''string''),
                 (''title'', JStr ''Output variable''),
                 (''description'', JStr ''Variable receiving the captured artefact metadata.'')])]),
           (''required'', JArr [JStr ''output_var'']),
           (''additionalProperties'', JBool False)],
      d_permissions := [''screen.capture''],
      d_allows_additional_config := False\<rparr>"

definition max_dimension :: int where "max_dimension = 100000"

definition dimension :: "int option \<Rightarrow> i32 \<Rightarrow> string \<Rightarrow> (node_error, u32) result" where
  "dimension configured screen name =
     (let raw = (case configured of Some v \<Rightarrow> v | None \<Rightarrow> max (sint screen) 0) in
      if raw < 1
      then Inl (InvalidConfig (''`'' @ name @ ''` must be a positive number of pixels, got '' @ show_int raw))
      else if max_dimension < raw
      then Inl (InvalidConfig (''`'' @ name @ ''` may be at most '' @ show_int max_dimension @ '' pixels, got '' @ show_int raw))
      else Inr (word_of_int raw))"

definition desktop_capture_execute :: "'w native \<Rightarrow> 'w machine \<Rightarrow> image_codec \<Rightarrow> 'w execute" where
  "desktop_capture_execute n m ic input c = Some (
     act_bind (act_of (require_str input ''output_var'')) (\<lambda>output_var.
     act_bind (native_value (nv_screen_size n)) (\<lambda>(screen_width, screen_height).
     let x = (word_of_int (case config_i64 input ''x'' of Some v \<Rightarrow> v | None \<Rightarrow> 0) :: i32);
         y = (word_of_int (case config_i64 input ''y'' of Some v \<Rightarrow> v | None \<Rightarrow> 0) :: i32) in
     act_bind (act_of (dimension (config_i64 input ''width'') screen_width ''width'')) (\<lambda>width.
     act_bind (act_of (dimension (config_i64 input ''height'') screen_height ''height'')) (\<lambda>height.
     act_bind (capture_region n m ic x y width height ''desktop'') (\<lambda>meta.
       publish_artifact output_var meta))))) c)"

section \<open>The clipboard (clipboard.rs)\<close>

definition clipboard_descriptor :: node_descriptor where
  "clipboard_descriptor =
     (descriptor_with_description (new_descriptor ''system.Clipboard'' ''Clipboard'' ''System'')
        ''Reads or replaces the clipboard text'')
     \<lparr>d_inputs := [plain_port ''in'' ''In'' InputPort AnyType],
      d_outputs := [plain_port ''out'' ''Out'' OutputPort StringType],
      d_config_schema := jobj
          [(''type'', JStr ''object''),
           (''properties'', jobj
             [(''action'', jobj
                [(''type'', JStr ''string''),
                 (''title'', JStr ''Action''),
                 (''description'', JStr ''Read the clipboard into the run, or replace its text.''),
                 (''enum'', JArr [JStr ''read'', JStr ''write'']),
                 (''default'', JStr ''read'')]),
              (''text'', jobj
                [(''type'', JStr ''string''),
                 (''title'', JStr ''Text''),
                 (''description'', JStr ''Text to place on the clipboard. Required when `action` is `write`; supports `{{variable}}` interpolation.'')]),
              (''output_var'', jobj
                [(''type'', JStr ''string''),
                 (''title'', JStr ''Output variable''),
                 (''description'', JStr ''Variable receiving the clipboard text when reading.'')])]),
           (''required'', JArr [JStr ''action'']),
           (''additionalProperties'', JBool False)],
      d_dangerous := True,
      d_permissions := [''clipboard''],
      d_allows_additional_config := False\<rparr>"

definition clipboard_execute :: "'w native \<Rightarrow> 'w execute" where
  "clipboard_execute n input c = Some (
     (let i = with_input_fallback (with_input_object_fallback input ''in'') ''in'' ''text'' in
      act_bind (act_of (require_str i ''action'')) (\<lambda>action.
        if action = ''read'' then
          act_bind (native_act (nv_clipboard_read n)) (\<lambda>held.
          let text_read = unwrap_or_default held in
          act_bind (case config_str i ''output_var'' of
                      Some output_var \<Rightarrow> act_do (set_variable output_var (JStr text_read))
                    | None \<Rightarrow> act_return ()) (\<lambda>u.
            act_return (with_output new_output ''out'' (JStr text_read))))
        else if action = ''write'' then
          act_bind (act_of (require_str i ''text'')) (\<lambda>written.
          act_bind (native_act (nv_clipboard_write n written)) (\<lambda>u.
            act_return (with_output new_output ''out'' (JStr written))))
        else act_fail (InvalidConfig (''unknown clipboard action `'' @ action @ ''`'')))) c)"

end
