(* ===== verification/Nodara_Input.thy ===== *)
theory Nodara_Input
  imports Nodara_Window
begin

text \<open>
  The keyboard, text and mouse nodes (\<open>input.rs\<close>). Loops of the code over a count are recursions
  over what is left of it. Coordinates are interpolated in doubles (\<open>Nodara_F64\<close>), the difference
  of two coordinates wraps around as in a release build, and \<open>as i32\<close> saturates.
\<close>

section \<open>Schemas\<close>

definition input_window_properties :: "bool \<Rightarrow> json" where
  "input_window_properties allow_background =
     (let properties = jobj
              [(''focus'', jobj
                 [(''type'', JStr ''boolean''),
                  (''title'', JStr ''Focus target window''),
                  (''description'', JStr ''Find and focus a target window before sending input. When false, input goes to the current foreground window.''),
                  (''default'', JBool False)])];
          base = (if allow_background then merge_properties properties (jobj
            [(''background'', jobj
                [(''type'', JStr ''boolean''),
                 (''title'', JStr ''Background input''),
                 (''description'', JStr (''Send input messages to a matching window without changing focus. Requires a title, class or process '' @
                     ''selector and cannot be combined with focus.'')),
                 (''default'', JBool False)])]) else properties)
      in merge_properties base window_match_properties)"

definition input_config_schema :: "json \<Rightarrow> string list \<Rightarrow> bool \<Rightarrow> json" where
  "input_config_schema properties required allow_background =
     jobj [(''type'', JStr ''object''),
           (''properties'', merge_properties properties (input_window_properties allow_background)),
           (''required'', JArr (map JStr required)), (''additionalProperties'', JBool False)]"

definition dangerous_descriptor :: "node_descriptor \<Rightarrow> string \<Rightarrow> node_descriptor" where
  "dangerous_descriptor d permission = d\<lparr>d_dangerous := True, d_permissions := [permission]\<rparr>"

section \<open>The target of the input\<close>

record input_target =
  it_window :: window_id
  it_background :: bool

definition input_target :: "'w native \<Rightarrow> node_input \<Rightarrow> ('w, input_target option) act" where
  "input_target n input =
     (let background = (case config_bool input ''background'' of Some b \<Rightarrow> b | None \<Rightarrow> False);
          focus = (case config_bool input ''focus'' of Some b \<Rightarrow> b | None \<Rightarrow> False)
      in if background \<and> focus
         then act_fail (InvalidConfig ''`background` and `focus` cannot both be enabled'')
         else if \<not> background \<and> \<not> focus then act_return None
         else
           let selector = \<lparr>ws_title = config_str input ''title'', ws_class = config_str input ''class'',
                 ws_process = config_str input ''process'',
                 ws_exact = (case config_bool input ''exact'' of Some b \<Rightarrow> b | None \<Rightarrow> False),
                 ws_visible_only = (case config_bool input ''visible_only'' of Some b \<Rightarrow> b | None \<Rightarrow> True),
                 ws_foreground = False\<rparr>
           in if ws_title selector = None \<and> ws_class selector = None \<and> ws_process selector = None
              then act_fail (InvalidConfig ''targeted input requires a window `title`, `class` or `process`'')
              else act_bind (native_act (find_window n selector)) (\<lambda>record.
                   act_bind (act_when focus (native_act (nv_focus n (wr_id record)))) (\<lambda>u.
                     act_return (Some \<lparr>it_window = wr_id record, it_background = background\<rparr>))))"

text \<open>\<open>target.filter(|target| target.background)\<close>.\<close>

definition background_target :: "input_target option \<Rightarrow> input_target option" where
  "background_target target = (case target of Some t \<Rightarrow> if it_background t then Some t else None | None \<Rightarrow> None)"

section \<open>Points and movement\<close>

definition send_mouse_move :: "'w native \<Rightarrow> window_id \<Rightarrow> mouse_button option \<Rightarrow> point \<Rightarrow> ('w, unit) act" where
  "send_mouse_move n window held p = native_act (nv_send_mouse_move n window (fst p) (snd p) held)"

definition send_mouse_button :: "'w native \<Rightarrow> window_id \<Rightarrow> point \<Rightarrow> mouse_button \<Rightarrow> bool \<Rightarrow> ('w, unit) act" where
  "send_mouse_button n window p button down = native_act (nv_send_mouse_button n window (fst p) (snd p) button down)"

definition cursor_position :: "'w native \<Rightarrow> ('w, point) act" where
  "cursor_position n = native_act (nv_cursor_position n)"

definition set_cursor :: "'w native \<Rightarrow> point \<Rightarrow> ('w, unit) act" where
  "set_cursor n p = native_act (nv_set_cursor n (fst p) (snd p))"

definition configured_point :: "node_input \<Rightarrow> string \<Rightarrow> string \<Rightarrow> (node_error, point option) result" where
  "configured_point input x_key y_key =
     (case (config_i64 input x_key, config_i64 input y_key) of
        (Some x, Some y) \<Rightarrow> Inr (Some (word_of_int x, word_of_int y))
      | (None, None) \<Rightarrow> Inr None
      | _ \<Rightarrow> Inl (InvalidConfig (''`'' @ x_key @ ''` and `'' @ y_key @ ''` must be supplied together'')))"

text \<open>\<open>i32::saturating_add\<close>.\<close>

definition sat_add_i32 :: "i32 \<Rightarrow> i32 \<Rightarrow> i32" where
  "sat_add_i32 a b = word_of_int (max (- (2 ^ 31)) (min (2 ^ 31 - 1) (sint a + sint b)))"

definition resolve_point :: "point \<Rightarrow> bool \<Rightarrow> point \<Rightarrow> point" where
  "resolve_point origin relative p =
     (if relative then (sat_add_i32 (fst origin) (fst p), sat_add_i32 (snd origin) (snd p)) else p)"

text \<open>\<open>x as i32\<close> for a double saturates and sends NaN to 0.\<close>

definition f64_as_i32 :: "f64 \<Rightarrow> i32" where
  "f64_as_i32 x = word_of_int (max (- (2 ^ 31)) (min (2 ^ 31 - 1) (f64_as_i64 x)))"

definition interpolate_axis :: "i32 \<Rightarrow> i32 \<Rightarrow> f64 \<Rightarrow> i32" where
  "interpolate_axis a b ratio =
     f64_as_i32 (fround (fadd (f64_of_int (sint a)) (fmul (f64_of_int (sint (b - a))) ratio)))"

definition point_at :: "point \<Rightarrow> point \<Rightarrow> nat \<Rightarrow> nat \<Rightarrow> point" where
  "point_at origin target step steps =
     (let ratio = fdiv (f64_of_int (int step)) (f64_of_int (int steps))
      in (interpolate_axis (fst origin) (fst target) ratio, interpolate_axis (snd origin) (snd target) ratio))"

definition act_sleep :: "'w machine \<Rightarrow> u64 \<Rightarrow> ('w, unit) act" where
  "act_sleep m ms = act_do (on_shared (sh_sleep m ms))"

text \<open>\<open>for step in 1..=steps\<close>, with what is left of the steps.\<close>

fun move_steps ::
    "'w machine \<Rightarrow> (point \<Rightarrow> ('w, unit) act) \<Rightarrow> point \<Rightarrow> point \<Rightarrow> nat \<Rightarrow> u64 \<Rightarrow> nat \<Rightarrow> ('w, unit) act" where
  "move_steps m send origin target steps step_delay 0 = act_return ()"
| "move_steps m send origin target steps step_delay (Suc left) =
     act_bind check_cancelled (\<lambda>u.
     act_bind (send (point_at origin target (steps - left) steps)) (\<lambda>u.
     act_bind (act_when (steps - left < steps \<and> 0 < step_delay) (act_sleep m step_delay)) (\<lambda>u.
       move_steps m send origin target steps step_delay left)))"

definition move_count :: "u64 \<Rightarrow> u64" where
  "move_count duration_ms = max (duration_ms div 10) 1"

definition move_smooth ::
    "'w machine \<Rightarrow> (point \<Rightarrow> ('w, unit) act) \<Rightarrow> point \<Rightarrow> point \<Rightarrow> u64 \<Rightarrow> ('w, unit) act" where
  "move_smooth m send origin target duration_ms =
     (let steps = move_count duration_ms; step_delay = duration_ms div steps
      in move_steps m send origin target (unat steps) step_delay (unat steps))"

definition move_cursor_smooth :: "'w native \<Rightarrow> 'w machine \<Rightarrow> point \<Rightarrow> point \<Rightarrow> u64 \<Rightarrow> ('w, unit) act" where
  "move_cursor_smooth n m origin target duration_ms =
     (if origin = target then act_return () else move_smooth m (set_cursor n) origin target duration_ms)"

definition move_mouse_smooth_background ::
    "'w native \<Rightarrow> 'w machine \<Rightarrow> window_id \<Rightarrow> point \<Rightarrow> point \<Rightarrow> u64 \<Rightarrow> mouse_button option \<Rightarrow> ('w, unit) act" where
  "move_mouse_smooth_background n m window origin target duration_ms held =
     (if origin = target then send_mouse_move n window held target
      else move_smooth m (send_mouse_move n window held) origin target duration_ms)"

section \<open>Keys\<close>

definition native_key :: "'w native \<Rightarrow> u8 \<Rightarrow> bool \<Rightarrow> ('w, unit) act" where
  "native_key n vk up = act_do (on_world (nv_key n vk up))"

definition key_down :: "'w native \<Rightarrow> key_stroke \<Rightarrow> ('w, unit) act" where
  "key_down n key =
     act_bind (act_when (stroke_shift key) (native_key n vk_shift False)) (\<lambda>u. native_key n (virtual_key key) False)"

definition key_up :: "'w native \<Rightarrow> key_stroke \<Rightarrow> ('w, unit) act" where
  "key_up n key =
     act_bind (native_key n (virtual_key key) True) (\<lambda>u. act_when (stroke_shift key) (native_key n vk_shift True))"

definition tap :: "'w native \<Rightarrow> 'w machine \<Rightarrow> key_stroke \<Rightarrow> u64 \<Rightarrow> ('w, unit) act" where
  "tap n m key hold_ms =
     act_bind (key_down n key) (\<lambda>u.
     act_bind (act_try (platform_wait m hold_ms)) (\<lambda>wait.
     act_bind (key_up n key) (\<lambda>u. act_of wait)))"

definition post_key :: "'w native \<Rightarrow> window_id \<Rightarrow> bool \<Rightarrow> u8 \<Rightarrow> ('w, unit) act" where
  "post_key n window down vk = native_act (nv_send_key n window vk down)"

definition act_ignore :: "('w, unit) act \<Rightarrow> ('w, unit) act" where
  "act_ignore f = act_bind (act_try f) (\<lambda>r. act_return ())"

text \<open>The posts that press a chord stop at the first failure; those that release it do not. As in
  the source, \<open>post_key\<close> is called with \<open>false\<close> to press and with \<open>true\<close> to release, although
  its parameter is named \<open>down\<close>.\<close>

definition press_posts :: "'w native \<Rightarrow> window_id \<Rightarrow> u8 list \<Rightarrow> key_stroke \<Rightarrow> ('w, unit) act" where
  "press_posts n window modifiers stroke =
     act_bind (act_each (post_key n window False) modifiers) (\<lambda>u.
     act_bind (act_when (stroke_shift stroke) (post_key n window False vk_shift)) (\<lambda>u.
       post_key n window False (virtual_key stroke)))"

definition release_posts :: "'w native \<Rightarrow> window_id \<Rightarrow> u8 list \<Rightarrow> key_stroke \<Rightarrow> ('w, unit) act" where
  "release_posts n window modifiers stroke =
     act_bind (act_ignore (post_key n window True (virtual_key stroke))) (\<lambda>u.
     act_bind (act_when (stroke_shift stroke) (act_ignore (post_key n window True vk_shift))) (\<lambda>u.
       act_each (\<lambda>vk. act_ignore (post_key n window True vk)) (rev modifiers)))"

definition background_keyboard_action ::
    "'w native \<Rightarrow> 'w machine \<Rightarrow> window_id \<Rightarrow> u8 list \<Rightarrow> key_stroke \<Rightarrow> string \<Rightarrow> u64 \<Rightarrow> ('w, unit) act" where
  "background_keyboard_action n m window modifiers stroke action hold_ms =
     (if action = ''type'' then
        act_bind (act_try (act_bind (press_posts n window modifiers stroke) (\<lambda>u. platform_wait m hold_ms))) (\<lambda>outcome.
        act_bind (release_posts n window modifiers stroke) (\<lambda>u. act_of outcome))
      else if action = ''press'' then
        act_bind (act_try (press_posts n window modifiers stroke)) (\<lambda>outcome.
        act_bind (act_when (\<not> is_ok outcome) (release_posts n window modifiers stroke)) (\<lambda>u. act_of outcome))
      else if action = ''release'' then release_posts n window modifiers stroke
      else act_fail (InvalidConfig (''unknown keyboard action `'' @ action @ ''`'')))"

definition foreground_keyboard_action ::
    "'w native \<Rightarrow> 'w machine \<Rightarrow> u8 list \<Rightarrow> key_stroke \<Rightarrow> string \<Rightarrow> u64 \<Rightarrow> ('w, unit) act" where
  "foreground_keyboard_action n m modifiers stroke action hold_ms =
     (if action = ''type'' then
        act_bind (act_each (\<lambda>vk. native_key n vk False) modifiers) (\<lambda>u.
        act_bind (act_try (tap n m stroke hold_ms)) (\<lambda>tap_result.
        act_bind (act_each (\<lambda>vk. native_key n vk True) (rev modifiers)) (\<lambda>u. act_of tap_result)))
      else if action = ''press'' then
        act_bind (act_each (\<lambda>vk. native_key n vk False) modifiers) (\<lambda>u. key_down n stroke)
      else if action = ''release'' then
        act_bind (key_up n stroke) (\<lambda>u. act_each (\<lambda>vk. native_key n vk True) (rev modifiers))
      else act_fail (InvalidConfig (''unknown keyboard action `'' @ action @ ''`'')))"

section \<open>windows.Input.Keyboard\<close>

definition keyboard_descriptor :: node_descriptor where
  "keyboard_descriptor =
     dangerous_descriptor
       ((descriptor_with_description (new_descriptor ''windows.Input.Keyboard'' ''Keyboard'' ''Input'')
          ''Sends a key or key chord to the focused window'')
        \<lparr>d_inputs := [plain_port ''in'' ''In'' InputPort AnyType],
         d_outputs := [plain_port ''out'' ''Out'' OutputPort StringType],
         d_config_schema := input_config_schema
           (jobj
              [(''keys'', jobj
                 [(''type'', JStr ''string''),
                  (''title'', JStr ''Key chord''),
                  (''description'', JStr ''Key or chord to send to the focused window. Modifiers and keys are joined with `+`.''),
                  (''examples'', JArr [JStr ''ctrl+shift+s'', JStr ''win+i'', JStr ''enter''])]),
               (''action'', jobj
                 [(''type'', JStr ''string''),
                  (''title'', JStr ''Action''),
                  (''description'', JStr ''Type taps and releases the chord. Press holds it down; Release releases a previously held chord.''),
                  (''enum'', JArr [JStr ''type'', JStr ''press'', JStr ''release'']),
                  (''default'', JStr ''type'')]),
               (''hold_ms'', jobj
                 [(''type'', JStr ''integer''),
                  (''title'', JStr ''Hold duration (ms)''),
                  (''description'', JStr ''For the Type action, time between key-down and key-up.''),
                  (''minimum'', jint 0),
                  (''default'', jint 0)]),
               (''repeat'', jobj
                 [(''type'', JStr ''integer''),
                  (''title'', JStr ''Repeat count''),
                  (''description'', JStr ''Number of times to send this key or chord. Only supported for the Type action.''),
                  (''minimum'', jint 1),
                  (''maximum'', jint 100000),
                  (''default'', jint 1)]),
               (''repeat_interval_ms'', jobj
                 [(''type'', JStr ''integer''),
                  (''title'', JStr ''Repeat interval (ms)''),
                  (''description'', JStr ''Delay between repeated Type actions. Cancellation remains responsive.''),
                  (''minimum'', jint 0),
                  (''default'', jint 0)])])
           [''keys''] True,
         d_allows_additional_config := False\<rparr>)
       ''input.control''"

definition millis_of :: "int option \<Rightarrow> int \<Rightarrow> u64" where
  "millis_of configured d = word_of_int (max (case configured of Some v \<Rightarrow> v | None \<Rightarrow> d) 0)"

definition keyboard_turn ::
    "'w native \<Rightarrow> 'w machine \<Rightarrow> input_target option \<Rightarrow> u8 list \<Rightarrow> key_stroke \<Rightarrow> string \<Rightarrow> u64 \<Rightarrow> ('w, unit) act" where
  "keyboard_turn n m target modifiers stroke action hold_ms =
     act_bind check_cancelled (\<lambda>u.
       case background_target target of
         Some t \<Rightarrow> background_keyboard_action n m (it_window t) modifiers stroke action hold_ms
       | None \<Rightarrow> foreground_keyboard_action n m modifiers stroke action hold_ms)"

text \<open>\<open>for iteration in 0..repeat\<close>, waiting between the iterations.\<close>

fun repeat_turns :: "('w, unit) act \<Rightarrow> ('w, unit) act \<Rightarrow> nat \<Rightarrow> ('w, unit) act" where
  "repeat_turns turn pause 0 = act_return ()"
| "repeat_turns turn pause (Suc left) =
     act_bind turn (\<lambda>u. act_bind (act_when (0 < left) pause) (\<lambda>u. repeat_turns turn pause left))"

definition keyboard_execute :: "'w native \<Rightarrow> 'w machine \<Rightarrow> 'w execute" where
  "keyboard_execute n m input0 c = Some (
     (let input = with_input_object_fallback input0 ''in'' in
      act_bind (act_of (require_str input ''keys'')) (\<lambda>chord.
      let action = (case config_str input ''action'' of Some a \<Rightarrow> a | None \<Rightarrow> ''type'');
          hold_ms = millis_of (config_i64 input ''hold_ms'') 0;
          repeat = nat (max (case config_i64 input ''repeat'' of Some r \<Rightarrow> r | None \<Rightarrow> 1) 1);
          repeat_interval_ms = millis_of (config_i64 input ''repeat_interval_ms'') 0
      in if action \<noteq> ''type'' \<and> repeat \<noteq> 1
         then act_fail (InvalidConfig ''`repeat` is only supported with the Type action'')
         else
           act_bind check_cancelled (\<lambda>u.
           act_bind (input_target n input) (\<lambda>target.
           act_bind (act_of (case parse_chord chord of
                        Some k \<Rightarrow> Inr k | None \<Rightarrow> Inl (InvalidConfig (''unknown key chord `'' @ chord @ ''`'')))) (\<lambda>(modifiers, stroke).
           act_bind (repeat_turns (keyboard_turn n m target modifiers stroke action hold_ms)
                       (platform_wait m repeat_interval_ms) repeat) (\<lambda>u.
           act_bind (act_do (ctx_log m Info (''keyboard '' @ action @ '' `'' @ chord @ ''`''))) (\<lambda>u.
             act_return (with_output new_output ''out'' (JStr chord)))))))) ) c)"

section \<open>windows.Input.Text\<close>

definition text_descriptor :: node_descriptor where
  "text_descriptor =
     dangerous_descriptor
       ((descriptor_with_description (new_descriptor ''windows.Input.Text'' ''Text'' ''Input'')
          ''Types literal text into the focused window'')
        \<lparr>d_inputs := [plain_port ''in'' ''In'' InputPort AnyType],
         d_outputs := [plain_port ''out'' ''Out'' OutputPort StringType],
         d_config_schema := input_config_schema
           (jobj
              [(''text'', jobj
                 [(''type'', JStr ''string''),
                  (''title'', JStr ''Text''),
                  (''description'', JStr ''Literal text to type into the focused window.'')]),
               (''interval_ms'', jobj
                 [(''type'', JStr ''integer''),
                  (''title'', JStr ''Key interval (ms)''),
                  (''minimum'', jint 0),
                  (''default'', jint 10),
                  (''description'', JStr ''Delay between keystrokes. `0` types as fast as the window accepts input.'')]),
               (''background_method'', jobj
                 [(''type'', JStr ''string''),
                  (''title'', JStr ''Background method''),
                  (''description'', JStr (''How background text is delivered. `wm_char` sends one character message at a time; `set_text` '' @
                      ''replaces the window text directly; `clipboard` pastes through the clipboard and restores its '' @
                      ''previous value.'')),
                  (''enum'', JArr [JStr ''wm_char'', JStr ''set_text'', JStr ''clipboard'']),
                  (''default'', JStr ''wm_char'')]),
               (''paste_delay_ms'', jobj
                 [(''type'', JStr ''integer''),
                  (''title'', JStr ''Clipboard paste delay (ms)''),
                  (''description'', JStr ''Time allowed for the target to process Ctrl+V before the previous clipboard value is restored.''),
                  (''minimum'', jint 0),
                  (''default'', jint 100)])])
           [''text''] True,
         d_allows_additional_config := False\<rparr>)
       ''input.control''"

text \<open>\<open>char::encode_utf16\<close>: one unit below 65536.\<close>

definition utf16_units :: "char \<Rightarrow> 16 word list" where
  "utf16_units ch = [of_char ch]"

definition type_background :: "'w native \<Rightarrow> 'w machine \<Rightarrow> window_id \<Rightarrow> u64 \<Rightarrow> string \<Rightarrow> ('w, unit) act" where
  "type_background n m window interval =
     act_each (\<lambda>ch.
       act_bind check_cancelled (\<lambda>u.
       act_bind (act_each (\<lambda>unit. native_act (nv_send_text n window unit)) (utf16_units ch)) (\<lambda>u.
         platform_wait m interval)))"

definition paste_background :: "'w native \<Rightarrow> 'w machine \<Rightarrow> window_id \<Rightarrow> u64 \<Rightarrow> string \<Rightarrow> ('w, unit) act" where
  "paste_background n m window delay pasted =
     act_bind (native_act (nv_clipboard_read n)) (\<lambda>previous.
     act_bind (native_act (nv_clipboard_write n pasted)) (\<lambda>u.
     act_bind (act_of (case parse_chord ''ctrl+v'' of
                 Some k \<Rightarrow> Inr k | None \<Rightarrow> Inl (ExecutionFailed ''internal ctrl+v chord''))) (\<lambda>(modifiers, stroke).
     act_bind (act_try (background_keyboard_action n m window modifiers stroke ''type'' 0)) (\<lambda>send.
     act_bind (act_try (platform_wait m delay)) (\<lambda>wait.
     act_bind (act_try (native_act (nv_clipboard_write n (case previous of Some v \<Rightarrow> v | None \<Rightarrow> [])))) (\<lambda>restore.
     act_bind (act_of send) (\<lambda>u.
     act_bind (act_of wait) (\<lambda>u.
       act_of restore))))))))"

definition type_foreground :: "'w native \<Rightarrow> 'w machine \<Rightarrow> u64 \<Rightarrow> string \<Rightarrow> ('w, unit) act" where
  "type_foreground n m interval =
     act_each (\<lambda>ch.
       act_bind check_cancelled (\<lambda>u.
       act_bind (act_of (case resolve_char ch of
                   Some stroke \<Rightarrow> Inr stroke
                 | None \<Rightarrow> Inl (UnsupportedOperation (''character `'' @ [ch] @ ''` cannot be typed'')))) (\<lambda>stroke.
       act_bind (tap n m stroke 0) (\<lambda>u.
         platform_wait m interval))))"

definition text_execute :: "'w native \<Rightarrow> 'w machine \<Rightarrow> 'w execute" where
  "text_execute n m input0 c = Some (
     (let input = with_input_fallback (with_input_object_fallback input0 ''in'') ''in'' ''text'' in
      act_bind (act_of (require_str input ''text'')) (\<lambda>typed.
      let interval = millis_of (config_i64 input ''interval_ms'') 10 in
      act_bind (input_target n input) (\<lambda>target.
      act_bind (case background_target target of
                  Some t \<Rightarrow>
                    (let background_method = (case config_str input ''background_method'' of Some s \<Rightarrow> s | None \<Rightarrow> ''wm_char'') in
                     if background_method = ''wm_char'' then type_background n m (it_window t) interval typed
                     else if background_method = ''set_text'' then native_act (nv_set_window_text n (it_window t) typed)
                     else if background_method = ''clipboard'' then
                       paste_background n m (it_window t) (millis_of (config_i64 input ''paste_delay_ms'') 100) typed
                     else act_fail (InvalidConfig (''unknown background text method `'' @ background_method @ ''`'')))
                | None \<Rightarrow> type_foreground n m interval typed) (\<lambda>u.
        act_return (with_output new_output ''out'' (JStr typed)))))) c)"

section \<open>windows.Input.Mouse\<close>

definition mouse_descriptor :: node_descriptor where
  "mouse_descriptor =
     dangerous_descriptor
       ((descriptor_with_description (new_descriptor ''windows.Input.Mouse'' ''Mouse'' ''Input'')
          ''Moves the cursor and synthesises mouse buttons'')
        \<lparr>d_inputs := [plain_port ''in'' ''In'' InputPort AnyType],
         d_outputs := [plain_port ''out'' ''Out'' OutputPort ObjectType],
         d_config_schema := input_config_schema
           (jobj
              [(''action'', jobj
                 [(''type'', JStr ''string''),
                  (''title'', JStr ''Action''),
                  (''description'', JStr ''Mouse action to perform.''),
                  (''enum'', JArr [JStr ''move'', JStr ''click'', JStr ''double_click'', JStr ''right_click'', JStr ''middle_click'', JStr ''down'', JStr ''up'', JStr ''drag'']),
                  (''default'', JStr ''click'')]),
               (''button'', jobj
                 [(''type'', JStr ''string''),
                  (''title'', JStr ''Mouse button''),
                  (''description'', JStr ''Button used for click, double-click, down, up and drag actions.''),
                  (''enum'', JArr [JStr ''left'', JStr ''right'', JStr ''middle'']),
                  (''default'', JStr ''left'')]),
               (''x'', jobj
                 [(''type'', JStr ''integer''),
                  (''title'', JStr ''X''),
                  (''description'', JStr (''Target X in pixels. Relative to the current cursor when `relative` is enabled. For drag this is the '' @
                      ''destination X.''))]),
               (''y'', jobj
                 [(''type'', JStr ''integer''),
                  (''title'', JStr ''Y''),
                  (''description'', JStr (''Target Y in pixels. Relative to the current cursor when `relative` is enabled. For drag this is the '' @
                      ''destination Y.''))]),
               (''relative'', jobj
                 [(''type'', JStr ''boolean''),
                  (''title'', JStr ''Relative movement''),
                  (''description'', JStr ''Treat X/Y as offsets from the current cursor instead of absolute screen coordinates.''),
                  (''default'', JBool False)]),
               (''duration_ms'', jobj
                 [(''type'', JStr ''integer''),
                  (''title'', JStr ''Mouse duration (ms)''),
                  (''description'', JStr ''Hold time for clicks or movement time for drag. Drag defaults to 300 ms when omitted.''),
                  (''minimum'', jint 0),
                  (''default'', jint 0)]),
               (''click_count'', jobj
                 [(''type'', JStr ''integer''),
                  (''title'', JStr ''Click count''),
                  (''description'', JStr ''Number of times click, right_click or middle_click repeats. Double-click always sends two clicks.''),
                  (''minimum'', jint 1),
                  (''maximum'', jint 100000),
                  (''default'', jint 1)]),
               (''click_interval_ms'', jobj
                 [(''type'', JStr ''integer''),
                  (''title'', JStr ''Click interval (ms)''),
                  (''description'', JStr ''Delay between repeated clicks. Falls back to double_click_interval_ms when omitted.''),
                  (''minimum'', jint 0),
                  (''default'', jint 100)]),
               (''double_click_interval_ms'', jobj
                 [(''type'', JStr ''integer''),
                  (''title'', JStr ''Double-click interval (ms)''),
                  (''description'', JStr ''Legacy fallback delay between clicks when click_interval_ms is omitted.''),
                  (''minimum'', jint 0),
                  (''default'', jint 100)]),
               (''start_x'', jobj
                 [(''type'', JStr ''integer''),
                  (''title'', JStr ''Start X''),
                  (''description'', JStr ''Optional drag start X. Omit to start at the current cursor position.'')]),
               (''start_y'', jobj
                 [(''type'', JStr ''integer''),
                  (''title'', JStr ''Start Y''),
                  (''description'', JStr ''Optional drag start Y. Omit to start at the current cursor position.'')])])
           [''action''] True,
         d_allows_additional_config := False\<rparr>)
       ''input.control''"

definition parse_mouse_button :: "string \<Rightarrow> (node_error, mouse_button) result" where
  "parse_mouse_button v =
     (let lower = to_ascii_lowercase v in
      if lower = ''left'' then Inr LeftButton
      else if lower = ''right'' then Inr RightButton
      else if lower = ''middle'' then Inr MiddleButton
      else Inl (InvalidConfig (''unknown mouse button `'' @ lower @ ''`'')))"

fun mouse_button_name :: "mouse_button \<Rightarrow> string" where
  "mouse_button_name LeftButton = ''left''"
| "mouse_button_name RightButton = ''right''"
| "mouse_button_name MiddleButton = ''middle''"

definition button_json :: "mouse_button option \<Rightarrow> json" where
  "button_json button = (case button of Some b \<Rightarrow> JStr (mouse_button_name b) | None \<Rightarrow> JNull)"

text \<open>What an action presses and how often.\<close>

definition mouse_plan :: "string \<Rightarrow> mouse_button option \<Rightarrow> nat \<Rightarrow> (node_error, mouse_button option \<times> nat) result" where
  "mouse_plan action requested click_count =
     (let button = (\<lambda>d. Some (case requested of Some b \<Rightarrow> b | None \<Rightarrow> d)) in
      if action = ''move'' then Inr (None, 0)
      else if action = ''click'' then Inr (button LeftButton, click_count)
      else if action = ''double_click'' then Inr (button LeftButton, 2)
      else if action = ''right_click'' then Inr (button RightButton, click_count)
      else if action = ''middle_click'' then Inr (button MiddleButton, click_count)
      else if action = ''down'' \<or> action = ''up'' then Inr (button LeftButton, 0)
      else if action = ''drag'' then Inr (button LeftButton, 0)
      else Inl (InvalidConfig (''unknown mouse action `'' @ action @ ''`'')))"

text \<open>Hold a button for a while; the button is released before the wait's own result counts.\<close>

definition press_and_release ::
    "(bool \<Rightarrow> ('w, unit) act) \<Rightarrow> ('w, unit) act \<Rightarrow> ('w, unit) act" where
  "press_and_release press body =
     act_bind (press True) (\<lambda>u.
     act_bind (act_try body) (\<lambda>held.
     act_bind (act_try (press False)) (\<lambda>release.
     act_bind (act_of held) (\<lambda>u. act_of release))))"

definition drag_duration :: "u64 \<Rightarrow> u64" where
  "drag_duration duration_ms = (if duration_ms = 0 then 300 else duration_ms)"

definition background_point :: "point \<Rightarrow> point option \<Rightarrow> point" where
  "background_point origin target = (case target of Some p \<Rightarrow> p | None \<Rightarrow> origin)"

definition drag_destination :: "node_input \<Rightarrow> point \<Rightarrow> bool \<Rightarrow> (node_error, point) result" where
  "drag_destination input start relative =
     bind_result (configured_point input ''x'' ''y'') (\<lambda>delta.
       case delta of
         Some d \<Rightarrow> Inr (resolve_point start relative d)
       | None \<Rightarrow> Inl (InvalidConfig ''`drag` requires destination `x` and `y`''))"

definition background_mouse_act ::
    "'w native \<Rightarrow> 'w machine \<Rightarrow> node_input \<Rightarrow> window_id \<Rightarrow> string \<Rightarrow> mouse_button \<Rightarrow> nat \<Rightarrow> u64 \<Rightarrow> bool \<Rightarrow> u64
       \<Rightarrow> point \<Rightarrow> point option \<Rightarrow> ('w, bool) act" where
  "background_mouse_act n m input window action button count duration_ms relative click_interval_ms origin target_point =
     (let press = send_mouse_button n window; p = background_point origin target_point in
      if action = ''move'' then
        (case target_point of
           Some q \<Rightarrow> act_bind (move_mouse_smooth_background n m window origin q duration_ms None) (\<lambda>u. act_return True)
         | None \<Rightarrow> act_return False)
      else if action = ''drag'' then
        act_bind (act_of (configured_point input ''start_x'' ''start_y'')) (\<lambda>configured.
        let start = background_point origin configured in
        act_bind (act_of (drag_destination input start relative)) (\<lambda>destination.
        act_bind (send_mouse_move n window None start) (\<lambda>u.
        act_bind (press_and_release (\<lambda>down. press (if down then start else destination) button down)
                    (move_mouse_smooth_background n m window start destination (drag_duration duration_ms) (Some button))) (\<lambda>u.
          act_return True))))
      else if action = ''down'' then
        act_bind (send_mouse_move n window None p) (\<lambda>u.
        act_bind (press p button True) (\<lambda>u. act_return (p \<noteq> origin)))
      else if action = ''up'' then
        act_bind (send_mouse_move n window None p) (\<lambda>u.
        act_bind (press p button False) (\<lambda>u. act_return (p \<noteq> origin)))
      else
        act_bind (send_mouse_move n window None p) (\<lambda>u.
        act_bind (repeat_turns (press_and_release (press p button) (platform_wait m duration_ms))
                    (act_when (0 < click_interval_ms) (platform_wait m click_interval_ms)) count) (\<lambda>u.
          act_return (p \<noteq> origin))))"

definition execute_background_mouse ::
    "'w native \<Rightarrow> 'w machine \<Rightarrow> node_input \<Rightarrow> window_id \<Rightarrow> string \<Rightarrow> mouse_button option \<Rightarrow> nat \<Rightarrow> u64 \<Rightarrow> bool \<Rightarrow> u64
       \<Rightarrow> ('w, node_output) act" where
  "execute_background_mouse n m input window action button count duration_ms relative click_interval_ms =
     act_bind (cursor_position n) (\<lambda>screen_cursor.
     act_bind (native_act (nv_screen_to_client n window (fst screen_cursor) (snd screen_cursor))) (\<lambda>origin.
     act_bind (act_of (configured_point input ''x'' ''y'')) (\<lambda>configured.
     let target_point = map_option (resolve_point origin relative) configured;
         p = background_point origin target_point in
     act_bind (case button of
                 Some b \<Rightarrow> background_mouse_act n m input window action b count duration_ms relative click_interval_ms origin target_point
               | None \<Rightarrow> act_return False) (\<lambda>moved.
       act_return (with_output new_output ''out''
         (jobj
              [(''action'', JStr action),
               (''button'', button_json button),
               (''origin_x'', jsint (fst origin)),
               (''origin_y'', jsint (snd origin)),
               (''x'', jsint (fst p)),
               (''y'', jsint (snd p)),
               (''duration_ms'', juint duration_ms),
               (''click_count'', JNum (num_of_u64 count)),
               (''click_interval_ms'', juint click_interval_ms),
               (''moved'', JBool moved),
               (''background'', JBool True),
               (''coordinate_space'', JStr ''client'')]))))))"

definition foreground_mouse_act ::
    "'w native \<Rightarrow> 'w machine \<Rightarrow> node_input \<Rightarrow> string \<Rightarrow> mouse_button \<Rightarrow> nat \<Rightarrow> u64 \<Rightarrow> bool \<Rightarrow> u64 \<Rightarrow> point \<Rightarrow> point option
       \<Rightarrow> ('w, bool) act" where
  "foreground_mouse_act n m input action button count duration_ms relative click_interval_ms origin target =
     (let press = (\<lambda>down. native_act (nv_mouse_button n button down));
          go = (case target of
                  Some p \<Rightarrow> act_bind (set_cursor n p) (\<lambda>u. act_return True) | None \<Rightarrow> act_return False) in
      if action = ''move'' then
        (case target of
           Some p \<Rightarrow> act_bind (move_cursor_smooth n m origin p duration_ms) (\<lambda>u. act_return True)
         | None \<Rightarrow> act_return False)
      else if action = ''drag'' then
        act_bind (act_of (configured_point input ''start_x'' ''start_y'')) (\<lambda>configured.
        let start = background_point origin configured in
        act_bind (act_when (start \<noteq> origin) (set_cursor n start)) (\<lambda>u.
        act_bind (act_of (drag_destination input start relative)) (\<lambda>destination.
        act_bind (press_and_release press (move_cursor_smooth n m start destination (drag_duration duration_ms))) (\<lambda>u.
          act_return True))))
      else if action = ''down'' then act_bind go (\<lambda>moved. act_bind (press True) (\<lambda>u. act_return moved))
      else if action = ''up'' then act_bind go (\<lambda>moved. act_bind (press False) (\<lambda>u. act_return moved))
      else
        act_bind go (\<lambda>moved.
        act_bind (repeat_turns (press_and_release press (platform_wait m duration_ms))
                    (act_when (0 < click_interval_ms) (platform_wait m click_interval_ms)) count) (\<lambda>u.
          act_return moved)))"

definition execute_foreground_mouse ::
    "'w native \<Rightarrow> 'w machine \<Rightarrow> node_input \<Rightarrow> string \<Rightarrow> mouse_button option \<Rightarrow> nat \<Rightarrow> u64 \<Rightarrow> bool \<Rightarrow> u64
       \<Rightarrow> ('w, node_output) act" where
  "execute_foreground_mouse n m input action button count duration_ms relative click_interval_ms =
     act_bind (cursor_position n) (\<lambda>origin.
     act_bind (act_of (configured_point input ''x'' ''y'')) (\<lambda>configured.
     let target = map_option (resolve_point origin relative) configured in
     act_bind (case button of
                 Some b \<Rightarrow> foreground_mouse_act n m input action b count duration_ms relative click_interval_ms origin target
               | None \<Rightarrow> act_return False) (\<lambda>moved.
     act_bind (act_try (cursor_position n)) (\<lambda>last_position.
     let final_cursor = (case last_position of Inr p \<Rightarrow> p | Inl e \<Rightarrow> origin) in
     act_bind (native_value (nv_foreground_window n)) (\<lambda>cursor.
       act_return (with_output new_output ''out''
         (jobj
              [(''action'', JStr action),
               (''button'', button_json button),
               (''origin_x'', jsint (fst origin)),
               (''origin_y'', jsint (snd origin)),
               (''x'', jsint (fst final_cursor)),
               (''y'', jsint (snd final_cursor)),
               (''duration_ms'', juint duration_ms),
               (''click_count'', JNum (num_of_u64 count)),
               (''click_interval_ms'', juint click_interval_ms),
               (''moved'', JBool moved),
               (''foreground'', jsint cursor)])))))))"

text \<open>The whole node: with a background target the real cursor is put back whatever happened.\<close>

definition mouse_background ::
    "'w native \<Rightarrow> ('w, node_output) act \<Rightarrow> ('w, node_output) act" where
  "mouse_background n body =
     act_bind (cursor_position n) (\<lambda>screen_cursor.
     act_bind (act_try body) (\<lambda>outcome.
     act_bind (act_try (set_cursor n screen_cursor)) (\<lambda>restore.
       case outcome of
         Inr out \<Rightarrow> act_bind (act_of restore) (\<lambda>u. act_return out)
       | Inl e \<Rightarrow> act_fail e)))"

definition mouse_execute :: "'w native \<Rightarrow> 'w machine \<Rightarrow> 'w execute" where
  "mouse_execute n m input0 c = Some (
     (let input = with_input_object_fallback input0 ''in'' in
      act_bind (act_of (require_str input ''action'')) (\<lambda>action.
      let duration_ms = millis_of (config_i64 input ''duration_ms'') 0;
          relative = (case config_bool input ''relative'' of Some b \<Rightarrow> b | None \<Rightarrow> False);
          click_interval_ms = millis_of
            (case config_i64 input ''click_interval_ms'' of Some v \<Rightarrow> Some v | None \<Rightarrow> config_i64 input ''double_click_interval_ms'') 100;
          click_count = nat (max (case config_i64 input ''click_count'' of Some v \<Rightarrow> v | None \<Rightarrow> 1) 1)
      in act_bind check_cancelled (\<lambda>u.
         act_bind (input_target n input) (\<lambda>target.
         act_bind (act_of (case config_str input ''button'' of
                             None \<Rightarrow> Inr None
                           | Some v \<Rightarrow> bind_result (parse_mouse_button v) (\<lambda>b. Inr (Some b)))) (\<lambda>requested_button.
         act_bind (act_of (mouse_plan action requested_button click_count)) (\<lambda>(button, count).
           case background_target target of
             Some t \<Rightarrow> mouse_background n
               (execute_background_mouse n m input (it_window t) action button count duration_ms relative click_interval_ms)
           | None \<Rightarrow> execute_foreground_mouse n m input action button count duration_ms relative click_interval_ms)))))) c)"

end
