(* ===== verification/Nodara_Command.thy ===== *)
theory Nodara_Command
  imports Nodara_Window
begin

text \<open>
  The command node (\<open>command.rs\<close>): its configuration, the command line it builds, and the life of
  the child process. The processes of the host are the record \<open>processes\<close>, a parameter: starting
  one, writing to its input, asking whether it has ended, ending it, and the reader threads that
  collect its output (\<open>None\<close> is a reader that never comes back). The code has two variants of
  the shell, chosen when it is compiled; \<open>on_windows\<close> selects one.
\<close>

section \<open>Configuration\<close>

record command_config =
  cc_program :: string
  cc_args :: "string list"
  cc_cwd :: "string option"
  cc_env :: "string omap"
  cc_shell :: bool
  cc_stdin :: "string option"
  cc_check_exit_code :: bool
  cc_wait :: bool

definition decode_strings :: "json \<Rightarrow> string list option" where
  "decode_strings v = Option.bind (as_array v) (\<lambda>vs. all_some (map as_str vs))"

definition decode_string_map :: "json \<Rightarrow> string omap option" where
  "decode_string_map v =
     Option.bind (as_object v) (\<lambda>entries.
       map_option (zip (map fst entries)) (all_some (map (as_str \<circ> snd) entries)))"

text \<open>The derived decoder: an object with the named fields, other fields ignored, or an array of
  the fields in order, the missing ones at their defaults.\<close>

definition decode_command_fields :: "(nat \<Rightarrow> json option) \<Rightarrow> command_config option" where
  "decode_command_fields field =
     (case (Option.bind (field 0) as_str,
            decode_default [] decode_strings (field 1),
            decode_default None decode_optional_string (field 2),
            decode_default om_empty decode_string_map (field 3),
            decode_default True as_bool (field 4),
            decode_default None decode_optional_string (field 5),
            decode_default True as_bool (field 6),
            decode_default True as_bool (field 7)) of
        (Some program, Some args, Some cwd, Some env, Some shell, Some stdin, Some check, Some wait) \<Rightarrow>
          Some \<lparr>cc_program = program, cc_args = args, cc_cwd = cwd, cc_env = env, cc_shell = shell,
                cc_stdin = stdin, cc_check_exit_code = check, cc_wait = wait\<rparr>
      | _ \<Rightarrow> None)"

definition command_fields :: "string list" where
  "command_fields = [''program'', ''args'', ''cwd'', ''env'', ''shell'', ''stdin'', ''check_exit_code'', ''wait'']"

fun decode_command :: "json \<Rightarrow> command_config option" where
  "decode_command (JObj m) = decode_command_fields (\<lambda>k. om_get m (command_fields ! k))"
| "decode_command (JArr vs) =
     (if length vs \<le> 8 then decode_command_fields (\<lambda>k. if k < length vs then Some (vs ! k) else None) else None)"
| "decode_command _ = None"

definition command_from_input :: "externs \<Rightarrow> node_input \<Rightarrow> (node_error, command_config) result" where
  "command_from_input x input =
     (case decode_command (ni_resolved_config input) of
        None \<Rightarrow> Inl (InvalidConfig (''invalid command config: '' @ ext_serde_error x (ni_resolved_config input)))
      | Some config \<Rightarrow>
          if trim (cc_program config) = [] then Inl (InvalidConfig ''`program` must not be empty'')
          else Inr (config\<lparr>cc_cwd := (case cc_cwd config of
                      Some d \<Rightarrow> if trim d \<noteq> [] then Some d else None | None \<Rightarrow> None)\<rparr>))"

definition command_descriptor :: node_descriptor where
  "command_descriptor =
     (descriptor_with_description (new_descriptor ''system.Command'' ''Command'' ''System'')
        ''Launches an external program or shell command'')
     \<lparr>d_inputs := [plain_port ''in'' ''In'' InputPort AnyType],
      d_outputs :=
        [plain_port ''out'' ''Stdout'' OutputPort StringType,
         plain_port ''stderr'' ''Stderr'' OutputPort StringType,
         plain_port ''exit_code'' ''Exit code'' OutputPort NumberType,
         plain_port ''success'' ''Success'' OutputPort BooleanType,
         plain_port ''pid'' ''Process id'' OutputPort NumberType],
      d_config_schema := jobj
          [(''type'', JStr ''object''),
           (''properties'', jobj
             [(''program'', jobj
                [(''type'', JStr ''string''),
                 (''title'', JStr ''Program or command''),
                 (''description'', JStr ''Executable to launch. With `shell` enabled this can also be a shell command or Windows built-in such as `dir`.''),
                 (''examples'', JArr [JStr ''python'', JStr ''powershell'', JStr ''echo done''])]),
              (''args'', jobj
                [(''type'', JStr ''array''),
                 (''title'', JStr ''Arguments''),
                 (''description'', JStr ''Arguments passed to the program. Each item is quoted by the operating system.''),
                 (''items'', jobj [(''type'', JStr ''string'')]),
                 (''default'', JArr [])]),
              (''cwd'', jobj
                [(''type'', JStr ''string''),
                 (''title'', JStr ''Working directory''),
                 (''description'', JStr ''Directory in which to launch the process. Blank uses the plugin process directory.'')]),
              (''env'', jobj
                [(''type'', JStr ''object''),
                 (''title'', JStr ''Environment variables''),
                 (''description'', JStr ''Additional environment variables merged into the inherited environment.''),
                 (''additionalProperties'', jobj [(''type'', JStr ''string'')]),
                 (''default'', jobj [])]),
              (''shell'', jobj
                [(''type'', JStr ''boolean''),
                 (''title'', JStr ''Run through shell''),
                 (''description'', JStr ''Use cmd.exe on Windows or sh on other systems. Disable to launch the program directly.''),
                 (''default'', JBool True)]),
              (''stdin'', jobj
                [(''type'', JStr ''string''),
                 (''title'', JStr ''Standard input''),
                 (''description'', JStr ''Optional text written to the process standard input. Supports `{{variable}}` interpolation.'')]),
              (''check_exit_code'', jobj
                [(''type'', JStr ''boolean''),
                 (''title'', JStr ''Fail on non-zero exit''),
                 (''description'', JStr (''Fail the node when the process exits non-zero. Disable to inspect exit_code, stdout and stderr in '' @
                     ''downstream nodes.'')),
                 (''default'', JBool True)]),
              (''wait'', jobj
                [(''type'', JStr ''boolean''),
                 (''title'', JStr ''Wait for completion''),
                 (''description'', JStr ''Wait for the process and capture output. Disable to launch it in the background and return its pid.''),
                 (''default'', JBool True)])]),
           (''required'', JArr [JStr ''program'']),
           (''additionalProperties'', JBool False)],
      d_dangerous := True,
      d_permissions := [''process.execute''],
      d_allows_additional_config := False\<rparr>"

section \<open>The command line\<close>

record command_line =
  cl_program :: string
  cl_args :: "string list"
  cl_cwd :: "string option"
  cl_env :: "string omap"
  cl_piped_input :: bool
  cl_piped_output :: bool

text \<open>\<open>value.replace('\'', "'\\''")\<close>, in quotes.\<close>

definition quote_char :: char where "quote_char = CHR 0x27"
definition backslash :: char where "backslash = CHR 0x5C"

definition shell_quote :: "string \<Rightarrow> string" where
  "shell_quote v =
     [quote_char] @
     concat (map (\<lambda>c. if c = quote_char then [quote_char, backslash, quote_char, quote_char] else [c]) v) @
     [quote_char]"

definition build_command :: "bool \<Rightarrow> command_config \<Rightarrow> command_line" where
  "build_command on_windows config =
     (let (program, args) =
        (if cc_shell config
         then if on_windows
              then (''cmd'', [''/C'', cc_program config] @ cc_args config)
              else (''sh'', [''-c'', join_with '' '' (map shell_quote (cc_program config # cc_args config))])
         else (cc_program config, cc_args config))
      in \<lparr>cl_program = program, cl_args = args, cl_cwd = cc_cwd config, cl_env = cc_env config,
          cl_piped_input = (cc_stdin config \<noteq> None), cl_piped_output = cc_wait config\<rparr>)"

section \<open>The child process\<close>

type_synonym pid = u32

datatype reading = ReaderPanicked | ReadFailed string | ReadBytes "u8 list"

record 'w processes =
  pr_spawn :: "command_line \<Rightarrow> 'w \<Rightarrow> (string, pid) result \<times> 'w"
  pr_write :: "pid \<Rightarrow> string \<Rightarrow> 'w \<Rightarrow> ((string, unit) result \<times> 'w) option"
  pr_try_wait :: "pid \<Rightarrow> 'w \<Rightarrow> (string, int option option) result \<times> 'w"
  pr_kill_tree :: "pid \<Rightarrow> 'w \<Rightarrow> 'w"
  pr_kill :: "pid \<Rightarrow> 'w \<Rightarrow> 'w"
  pr_wait :: "pid \<Rightarrow> 'w \<Rightarrow> 'w"
  pr_stdout :: "pid \<Rightarrow> 'w \<Rightarrow> (reading \<times> 'w) option"
  pr_stderr :: "pid \<Rightarrow> 'w \<Rightarrow> (reading \<times> 'w) option"
  pr_lossy :: "u8 list \<Rightarrow> string"

record process_result =
  ps_pid :: pid
  ps_exit_code :: "int option"
  ps_stdout :: string
  ps_stderr :: string

definition terminate_child :: "bool \<Rightarrow> 'w processes \<Rightarrow> pid \<Rightarrow> 'w \<Rightarrow> 'w" where
  "terminate_child on_windows pr child w =
     pr_wait pr child (pr_kill pr child (if on_windows then pr_kill_tree pr child w else w))"

definition reader_result :: "string \<Rightarrow> reading \<Rightarrow> (node_error, u8 list) result" where
  "reader_result name r =
     (case r of
        ReaderPanicked \<Rightarrow> Inl (ExecutionFailed (name @ '' reader panicked''))
      | ReadFailed e \<Rightarrow> Inl (IoError e)
      | ReadBytes bytes \<Rightarrow> Inr bytes)"

text \<open>Both readers exist when the node waits; the error output is collected first.\<close>

definition join_readers :: "'w processes \<Rightarrow> pid \<Rightarrow> 'w \<Rightarrow> ((node_error, string \<times> string) result \<times> 'w) option" where
  "join_readers pr child w =
     (case pr_stderr pr child w of
        None \<Rightarrow> None
      | Some (err_read, w1) \<Rightarrow>
          (case reader_result ''stderr'' err_read of
             Inl e \<Rightarrow> Some (Inl e, w1)
           | Inr err \<Rightarrow>
               (case pr_stdout pr child w1 of
                  None \<Rightarrow> None
                | Some (out_read, w2) \<Rightarrow>
                    Some (bind_result (reader_result ''stdout'' out_read)
                            (\<lambda>out. Inr (pr_lossy pr out, pr_lossy pr err)), w2))))"

text \<open>End the child, collect what it printed, and fail: an error of a reader comes first.\<close>

definition stop_child ::
    "bool \<Rightarrow> 'w processes \<Rightarrow> pid \<Rightarrow> node_error \<Rightarrow> 'w \<Rightarrow> ((node_error, 'a) result \<times> 'w) option" where
  "stop_child on_windows pr child failure w =
     (case join_readers pr child (terminate_child on_windows pr child w) of
        None \<Rightarrow> None
      | Some (Inl e, w1) \<Rightarrow> Some (Inl e, w1)
      | Some (Inr _, w1) \<Rightarrow> Some (Inl failure, w1))"

definition poll_interval_ms :: u64 where "poll_interval_ms = 20"

definition timed_out :: "'w machine \<Rightarrow> nat \<Rightarrow> u64 option \<Rightarrow> 'w \<Rightarrow> bool \<times> 'w" where
  "timed_out m started timeout w =
     (case timeout of
        None \<Rightarrow> (False, w)
      | Some ms \<Rightarrow> (let (now, w1) = mc_instant_ns m w in (unat ms * 1000000 \<le> now - started, w1)))"

text \<open>The polling loop, over the shared state: the run can be cancelled while it waits.\<close>

definition on_sh_world :: "'w \<Rightarrow> 'w shared \<Rightarrow> 'w shared" where
  "on_sh_world w s = s\<lparr>sh_world := w\<rparr>"

definition poll_step ::
    "bool \<Rightarrow> 'w processes \<Rightarrow> 'w machine \<Rightarrow> pid \<Rightarrow> nat \<Rightarrow> u64 option \<Rightarrow> 'w shared
       \<Rightarrow> ((node_error, int option) result \<times> 'w shared) option + 'w shared" where
  "poll_step on_windows pr m child started timeout s =
     (let stop = (\<lambda>failure s. Inl (map_option (\<lambda>(r, w). (r, on_sh_world w s)) (stop_child on_windows pr child failure (sh_world s))));
          (cancelled, s1) = sh_is_cancelled s
      in if cancelled then stop CancelledError s1
         else
           let (late, w2) = timed_out m started timeout (sh_world s1); s2 = on_sh_world w2 s1
           in if late then stop TimeoutError s2
              else (case pr_try_wait pr child (sh_world s2) of
                      (Inr (Some code), w3) \<Rightarrow> Inl (Some (Inr code, on_sh_world w3 s2))
                    | (Inr None, w3) \<Rightarrow> Inr (sh_sleep m poll_interval_ms (on_sh_world w3 s2))
                    | (Inl e, w3) \<Rightarrow> stop (IoError e) (on_sh_world w3 s2)))"

partial_function (option) poll_child ::
    "bool \<Rightarrow> 'w processes \<Rightarrow> 'w machine \<Rightarrow> pid \<Rightarrow> nat \<Rightarrow> u64 option \<Rightarrow> 'w shared
       \<Rightarrow> ((node_error, int option) result \<times> 'w shared) option" where
  "poll_child on_windows pr m child started timeout s =
     (case poll_step on_windows pr m child started timeout s of
        Inl y \<Rightarrow> y
      | Inr s1 \<Rightarrow> poll_child on_windows pr m child started timeout s1)"

text \<open>Writing the standard input; a failure ends the child, and a child that does not read keeps the
  node waiting (\<open>None\<close>).\<close>

definition feed_child :: "'w processes \<Rightarrow> pid \<Rightarrow> string option \<Rightarrow> 'w \<Rightarrow> ((node_error, unit) result \<times> 'w) option" where
  "feed_child pr child stdin w =
     (case stdin of
        None \<Rightarrow> Some (Inr (), w)
      | Some s \<Rightarrow>
          (case pr_write pr child s w of
             None \<Rightarrow> None
           | Some (Inr _, w1) \<Rightarrow> Some (Inr (), w1)
           | Some (Inl e, w1) \<Rightarrow> Some (Inl (IoError e), pr_wait pr child (pr_kill pr child w1))))"

definition collect_child ::
    "'w processes \<Rightarrow> pid \<Rightarrow> int option \<Rightarrow> 'w shared \<Rightarrow> ((node_error, process_result) result \<times> 'w shared) option" where
  "collect_child pr child code s =
     (case join_readers pr child (sh_world s) of
        None \<Rightarrow> None
      | Some (r, w) \<Rightarrow>
          Some (bind_result r (\<lambda>(out, err).
                  Inr \<lparr>ps_pid = child, ps_exit_code = code, ps_stdout = out, ps_stderr = err\<rparr>), on_sh_world w s))"

definition run_process ::
    "bool \<Rightarrow> 'w processes \<Rightarrow> 'w machine \<Rightarrow> command_config \<Rightarrow> u64 option \<Rightarrow> 'w shared
       \<Rightarrow> ((node_error, process_result) result \<times> 'w shared) option" where
  "run_process on_windows pr m config timeout s =
     (case pr_spawn pr (build_command on_windows config) (sh_world s) of
        (Inl e, w1) \<Rightarrow> Some (Inl (ExecutionFailed (''could not start process: '' @ e)), on_sh_world w1 s)
      | (Inr child, w1) \<Rightarrow>
     (case feed_child pr child (cc_stdin config) w1 of
        None \<Rightarrow> None
      | Some (Inl e, w2) \<Rightarrow> Some (Inl e, on_sh_world w2 s)
      | Some (Inr _, w2) \<Rightarrow>
          if \<not> cc_wait config
          then Some (Inr \<lparr>ps_pid = child, ps_exit_code = None, ps_stdout = [], ps_stderr = []\<rparr>, on_sh_world w2 s)
          else
            let (started, w3) = mc_instant_ns m w2
            in (case poll_child on_windows pr m child started timeout (on_sh_world w3 s) of
                  None \<Rightarrow> None
                | Some (Inl e, s1) \<Rightarrow> Some (Inl e, s1)
                | Some (Inr code, s1) \<Rightarrow> collect_child pr child code s1)))"

section \<open>The node\<close>

definition exit_json :: "int option \<Rightarrow> json" where
  "exit_json code = (case code of Some i \<Rightarrow> jint i | None \<Rightarrow> JNull)"

definition command_output :: "command_config \<Rightarrow> process_result \<Rightarrow> (node_error, node_output) result" where
  "command_output config r =
     (let success = (case ps_exit_code r of None \<Rightarrow> True | Some code \<Rightarrow> code = 0) in
      if cc_check_exit_code config \<and> (case ps_exit_code r of None \<Rightarrow> False | Some code \<Rightarrow> code \<noteq> 0)
      then
        let err = trim (ps_stderr r); out = trim (ps_stdout r);
            detail = (if err \<noteq> [] then err else if out \<noteq> [] then out else ''no diagnostic output'')
        in Inl (ExecutionFailed (''command exited with code '' @
             show_int (case ps_exit_code r of Some code \<Rightarrow> code | None \<Rightarrow> 0) @ '': '' @ detail))
      else Inr (with_output (with_output (with_output (with_output (with_output new_output
             ''out'' (JStr (ps_stdout r)))
             ''stderr'' (JStr (ps_stderr r)))
             ''exit_code'' (exit_json (ps_exit_code r)))
             ''success'' (JBool success))
             ''pid'' (juint (ps_pid r))))"

definition command_execute :: "bool \<Rightarrow> 'w processes \<Rightarrow> 'w machine \<Rightarrow> 'w execute" where
  "command_execute on_windows pr m input c =
     (case check_cancelled c of
        (Inl e, c1) \<Rightarrow> Some (Inl e, c1)
      | (Inr _, c1) \<Rightarrow>
     (case command_from_input (mc_ext m) input of
        Inl e \<Rightarrow> Some (Inl e, c1)
      | Inr config \<Rightarrow>
     (case run_process on_windows pr m config (ni_timeout_ms input) (cx_shared c1) of
        None \<Rightarrow> None
      | Some (r, s) \<Rightarrow> Some (bind_result r (command_output config), c1\<lparr>cx_shared := s\<rparr>))))"

end
