(* ===== verification/Nodara_Platform.thy ===== *)
theory Nodara_Platform
  imports Nodara_Input Nodara_Command
begin

text \<open>
  The desktop plug-in as a whole (\<open>lib.rs\<close>): its node types, their registration, and what every
  one of its nodes keeps. The nodes act on their context through the native layer, the log,
  the variables and the artefacts only, so a run with desktop nodes has the properties of the
  engine that rest on \<open>respects_context\<close>.
\<close>

definition platform_node_types :: "string list" where
  "platform_node_types =
     [''windows.Input.Keyboard'', ''windows.Input.Mouse'', ''windows.Input.Text'', ''windows.Window.Find'',
      ''windows.Window.Wait'', ''windows.Window.Focus'', ''windows.Window.Capture'', ''windows.Desktop.Capture'',
      ''system.Clipboard'', ''system.Command'']"

definition platform_capabilities :: "string list" where
  "platform_capabilities =
     [''Input.Keyboard'', ''Input.Mouse'', ''Window.Find'', ''Window.Focus'', ''Window.Capture'', ''Desktop.Capture'',
      ''Clipboard.Read'', ''Clipboard.Write'', ''Process.Execute'']"

definition platform_permissions :: "string list" where
  "platform_permissions =
     [''input.control'', ''window.control'', ''screen.capture'', ''clipboard'', ''process.execute'']"

definition desktop_executors ::
    "bool \<Rightarrow> 'w processes \<Rightarrow> 'w native \<Rightarrow> 'w machine \<Rightarrow> image_codec \<Rightarrow> 'w node_executor list" where
  "desktop_executors on_windows pr n m ic =
     [\<lparr>ex_descriptor = keyboard_descriptor, ex_execute = keyboard_execute n m\<rparr>,
      \<lparr>ex_descriptor = mouse_descriptor, ex_execute = mouse_execute n m\<rparr>,
      \<lparr>ex_descriptor = text_descriptor, ex_execute = text_execute n m\<rparr>,
      \<lparr>ex_descriptor = find_window_descriptor, ex_execute = find_execute n m\<rparr>,
      \<lparr>ex_descriptor = wait_descriptor, ex_execute = wait_execute n m\<rparr>,
      \<lparr>ex_descriptor = focus_descriptor, ex_execute = focus_execute n m\<rparr>,
      \<lparr>ex_descriptor = capture_descriptor, ex_execute = capture_execute n m ic\<rparr>,
      \<lparr>ex_descriptor = desktop_capture_descriptor, ex_execute = desktop_capture_execute n m ic\<rparr>,
      \<lparr>ex_descriptor = clipboard_descriptor, ex_execute = clipboard_execute n\<rparr>,
      \<lparr>ex_descriptor = command_descriptor, ex_execute = command_execute on_windows pr m\<rparr>]"

definition register_platform ::
    "bool \<Rightarrow> 'w processes \<Rightarrow> 'w native \<Rightarrow> 'w machine \<Rightarrow> image_codec \<Rightarrow> 'w registry \<Rightarrow> 'w registry" where
  "register_platform on_windows pr n m ic r = fold register_executor (desktop_executors on_windows pr n m ic) r"

lemma desktop_descriptor_types:
  "d_node_type keyboard_descriptor = ''windows.Input.Keyboard''"
  "d_node_type mouse_descriptor = ''windows.Input.Mouse''"
  "d_node_type text_descriptor = ''windows.Input.Text''"
  "d_node_type find_window_descriptor = ''windows.Window.Find''"
  "d_node_type wait_descriptor = ''windows.Window.Wait''"
  "d_node_type focus_descriptor = ''windows.Window.Focus''"
  "d_node_type capture_descriptor = ''windows.Window.Capture''"
  "d_node_type desktop_capture_descriptor = ''windows.Desktop.Capture''"
  "d_node_type clipboard_descriptor = ''system.Clipboard''"
  "d_node_type command_descriptor = ''system.Command''"
  by (simp_all add: keyboard_descriptor_def mouse_descriptor_def text_descriptor_def find_window_descriptor_def
      wait_descriptor_def focus_descriptor_def capture_descriptor_def desktop_capture_descriptor_def
      clipboard_descriptor_def command_descriptor_def dangerous_descriptor_def descriptor_with_description_def
      new_descriptor_def)

section \<open>Desktop nodes keep the contract of an executor\<close>

interpretation reach: context_relation "ctx_reaches m" for m :: "'w machine"
  by unfold_locales (auto intro: ctx_reaches_trans)

named_theorems act_reaches \<open>actions that act on their context by its own steps\<close>

lemma on_world_reaches: "ctx_reaches m c (on_world f c)"
proof -
  have "on_world f c = on_shared (\<lambda>s. s\<lparr>sh_world := f (cx_world c)\<rparr>) c"
    by (simp add: on_world_def on_shared_def)
  then show ?thesis by (simp only: ctx_reaches_step [OF step_world])
qed

lemma native_reaches [act_reaches]:
  "act_keeps (ctx_reaches m) (native_act f)" "act_keeps (ctx_reaches m) (native_value g)"
  "act_keeps (ctx_reaches m) (native_key n vk up)"
  by (simp_all add: act_keeps_def native_act_world native_value_world native_key_def act_do_def on_world_reaches)

lemma wait_reaches [act_reaches]:
  "act_keeps (ctx_reaches m) (platform_wait m ms)" "act_keeps (ctx_reaches m) check_cancelled"
  "act_keeps (ctx_reaches m) (act_sleep m ms)"
  by (simp_all add: act_keeps_def platform_wait_def act_sleep_def act_do_def sleep_reaches
      delay_loop_reaches [OF surjective_pairing] check_cancelled_reaches [OF surjective_pairing])

lemma context_acts_reach [act_reaches]:
  "act_keeps (ctx_reaches m) (act_do (ctx_log m level message))"
  "act_keeps (ctx_reaches m) (act_do (set_variable name v))"
  by (auto simp: act_keeps_def act_do_def intro: ctx_reaches_step step_log)

lemma put_artifact_reaches [act_reaches]: "act_keeps (ctx_reaches m) (put_artifact m name content_type bytes)"
proof -
  have "ctx_reaches m c (on_shared (\<lambda>s. s\<lparr>sh_artifacts := store, sh_world := w\<rparr>) c)" for c store w
  proof -
    define c1 where "c1 = on_shared (\<lambda>s. s\<lparr>sh_artifacts := (\<lambda>u. store) (sh_artifacts s)\<rparr>) c"
    have "ctx_reaches m c c1" unfolding c1_def by (rule ctx_reaches_step [OF step_artifacts])
    moreover have "ctx_reaches m c1 (on_shared (\<lambda>s. s\<lparr>sh_world := w\<rparr>) c1)"
      by (rule ctx_reaches_step [OF step_world])
    ultimately have "ctx_reaches m c (on_shared (\<lambda>s. s\<lparr>sh_world := w\<rparr>) c1)" by (rule ctx_reaches_trans)
    then show ?thesis by (simp add: c1_def on_shared_def)
  qed
  then show ?thesis by (simp add: act_keeps_def put_artifact_def case_prod_beta Let_def)
qed

declare reach.keeps_rules [act_reaches]

lemma input_target_reaches [act_reaches]: "act_keeps (ctx_reaches m) (input_target n i)"
  by (auto simp: input_target_def Let_def intro!: act_reaches)

lemma moves_reach [act_reaches]:
  "act_keeps (ctx_reaches m) (send_mouse_move n window held p)"
  "act_keeps (ctx_reaches m) (send_mouse_button n window p button down)"
  "act_keeps (ctx_reaches m) (cursor_position n)"
  "act_keeps (ctx_reaches m) (set_cursor n p)"
  by (auto simp: send_mouse_move_def send_mouse_button_def cursor_position_def set_cursor_def intro!: act_reaches)

lemma move_steps_reach:
  "(\<And>p. act_keeps (ctx_reaches m) (send p)) \<Longrightarrow>
     act_keeps (ctx_reaches m) (move_steps m send origin target steps delay left)"
  by (induction left) (simp_all add: act_reaches)

lemma smooth_reaches [act_reaches]:
  "act_keeps (ctx_reaches m) (move_cursor_smooth n m origin target ms)"
  "act_keeps (ctx_reaches m) (move_mouse_smooth_background n m window origin target ms held)"
  by (auto simp: move_cursor_smooth_def move_mouse_smooth_background_def move_smooth_def Let_def
      intro!: move_steps_reach act_reaches)

lemma keys_reach [act_reaches]:
  "act_keeps (ctx_reaches m) (key_down n k)" "act_keeps (ctx_reaches m) (key_up n k)"
  "act_keeps (ctx_reaches m) (tap n m k ms)" "act_keeps (ctx_reaches m) (post_key n window down vk)"
  by (auto simp: key_down_def key_up_def tap_def post_key_def intro!: act_reaches)

lemma ignore_reaches [act_reaches]: "act_keeps (ctx_reaches m) f \<Longrightarrow> act_keeps (ctx_reaches m) (act_ignore f)"
  by (auto simp: act_ignore_def intro!: act_reaches)

lemma posts_reach [act_reaches]:
  "act_keeps (ctx_reaches m) (press_posts n window ms k)" "act_keeps (ctx_reaches m) (release_posts n window ms k)"
  by (auto simp: press_posts_def release_posts_def intro!: act_reaches)

lemma keyboard_actions_reach [act_reaches]:
  "act_keeps (ctx_reaches m) (background_keyboard_action n m window ms k action hold)"
  "act_keeps (ctx_reaches m) (foreground_keyboard_action n m ms k action hold)"
  by (auto simp: background_keyboard_action_def foreground_keyboard_action_def intro!: act_reaches)

lemma turns_reach [act_reaches]:
  "act_keeps (ctx_reaches m) f \<Longrightarrow> act_keeps (ctx_reaches m) g \<Longrightarrow> act_keeps (ctx_reaches m) (repeat_turns f g left)"
  by (induction left) (auto intro!: act_reaches)

lemma press_and_release_reaches [act_reaches]:
  "(\<And>b. act_keeps (ctx_reaches m) (press b)) \<Longrightarrow> act_keeps (ctx_reaches m) f \<Longrightarrow>
     act_keeps (ctx_reaches m) (press_and_release press f)"
  by (auto simp: press_and_release_def intro!: act_reaches)

lemma mouse_acts_reach [act_reaches]:
  "act_keeps (ctx_reaches m) (background_mouse_act n m i window action b count ms rel iv origin tp)"
  "act_keeps (ctx_reaches m) (foreground_mouse_act n m i action b count ms rel iv origin tp)"
  by (auto simp: background_mouse_act_def foreground_mouse_act_def Let_def split: option.splits intro!: act_reaches)

lemma mouse_bodies_reach [act_reaches]:
  "act_keeps (ctx_reaches m) (execute_background_mouse n m i window action b count ms rel iv)"
  "act_keeps (ctx_reaches m) (execute_foreground_mouse n m i action b count ms rel iv)"
  by (auto simp: execute_background_mouse_def execute_foreground_mouse_def Let_def split: option.splits intro!: act_reaches)

lemma mouse_background_reaches [act_reaches]:
  "act_keeps (ctx_reaches m) body \<Longrightarrow> act_keeps (ctx_reaches m) (mouse_background n body)"
  by (auto simp: mouse_background_def split: sum.splits intro!: act_reaches)

lemma capture_reaches [act_reaches]:
  "act_keeps (ctx_reaches m) (capture_region n m ic x y width height name)"
  "act_keeps (ctx_reaches m) (publish_artifact output_var meta)"
  "act_keeps (ctx_reaches m) (publish_window m output_var v message)"
proof -
  show "act_keeps (ctx_reaches m) (publish_window m output_var v message)"
    using ctx_reaches_trans [OF ctx_reaches_variable ctx_reaches_step [OF step_log]]
    by (auto simp: act_keeps_def publish_window_def)
qed (auto simp: capture_region_def publish_artifact_def intro!: act_reaches)

text \<open>An executor that is a total action.\<close>

lemma act_execute_respects:
  assumes "\<And>i. \<exists>f. (\<forall>c. execute i c = Some (f c)) \<and> act_keeps (ctx_reaches m) f"
  shows "respects_context m execute"
proof -
  have "ctx_reaches m c c'" if "execute i c = Some (r, c')" for i c r c'
    using assms [of i] that by (metis act_keeps_def option.inject snd_conv)
  then show ?thesis by (auto simp: respects_context_def)
qed

lemma keyboard_turn_reaches [act_reaches]: "act_keeps (ctx_reaches m) (keyboard_turn n m target ms k action hold)"
  by (auto simp: keyboard_turn_def split: option.splits intro!: act_reaches)

lemma text_acts_reach [act_reaches]:
  "act_keeps (ctx_reaches m) (type_background n m window iv s)"
  "act_keeps (ctx_reaches m) (paste_background n m window delay s)"
  "act_keeps (ctx_reaches m) (type_foreground n m iv s)"
  by (auto simp: type_background_def paste_background_def type_foreground_def split: prod.splits intro!: act_reaches)

lemma raw_call_reaches: "raw_call f c = (r, c') \<Longrightarrow> ctx_reaches m c c'"
  by (auto simp: raw_call_def Let_def on_world_reaches split: prod.splits)

lemma past_deadline_reaches: "past_deadline m started timeout_ms c = (b, c') \<Longrightarrow> ctx_reaches m c c'"
  by (auto simp: past_deadline_def on_world_reaches split: prod.splits)

definition step_context :: "('r \<times> 'w exec_context) + ('s \<times> 'w exec_context) \<Rightarrow> 'w exec_context" where
  "step_context y = (case y of Inl (r, c) \<Rightarrow> c | Inr (s, c) \<Rightarrow> c)"

lemma step_context_simps [simp]: "step_context (Inl (r, c)) = c" "step_context (Inr (s, c)) = c"
  by (simp_all add: step_context_def)

lemma wait_a_little_reaches:
  "ctx_reaches m c (step_context (wait_a_little m started timeout_ms poll_ms seen c))"
proof -
  define w1 where "w1 = snd (elapsed_ms m started (cx_world c))"
  define remaining where "remaining = sat_sub timeout_ms (fst (elapsed_ms m started (cx_world c)))"
  have "ctx_reaches m (on_world (\<lambda>u. w1) c) (snd (platform_wait m (min poll_ms remaining) (on_world (\<lambda>u. w1) c)))"
    unfolding platform_wait_def by (rule delay_loop_reaches [OF surjective_pairing])
  with on_world_reaches have "ctx_reaches m c (snd (platform_wait m (min poll_ms remaining) (on_world (\<lambda>u. w1) c)))"
    by (rule ctx_reaches_trans)
  then show ?thesis
    by (simp add: wait_a_little_def case_prod_beta Let_def w1_def remaining_def split: sum.splits)
qed

lemma publish_window_reaches: "publish_window m output_var v message c = (r, c') \<Longrightarrow> ctx_reaches m c c'"
  using capture_reaches(3) by (metis act_keeps_def snd_conv)

lemma wait_step_reaches:
  "ctx_reaches m c (step_context
     (wait_window_step n m selector mode output_var timeout_ms poll_ms started seen c))"
proof -
  obtain r c1 where check: "check_cancelled c = (r, c1)" by (rule prod.exhaust)
  have c1: "ctx_reaches m c c1" by (rule check_cancelled_reaches [OF check])
  obtain found c2 where call: "raw_call (find_window n selector) c1 = (found, c2)" by (rule prod.exhaust)
  have c2: "ctx_reaches m c c2" by (rule ctx_reaches_trans [OF c1 raw_call_reaches [OF call]])
  obtain late c3 where deadline: "past_deadline m started timeout_ms c2 = (late, c3)" by (rule prod.exhaust)
  have c3: "ctx_reaches m c c3" by (rule ctx_reaches_trans [OF c2 past_deadline_reaches [OF deadline]])
  have little: "ctx_reaches m c (step_context (wait_a_little m started timeout_ms poll_ms s c3))" for s
    by (rule ctx_reaches_trans [OF c3 wait_a_little_reaches])
  have publish: "ctx_reaches m c (step_context (Inl (publish_window m output_var v message c2)))" for v message
    using ctx_reaches_trans [OF c2 publish_window_reaches [OF surjective_pairing]]
    by (metis prod.collapse step_context_simps(1))
  show ?thesis
    using c1 c2 c3 little publish
    by (cases r; cases found; cases late)
      (auto simp: wait_window_step_def check call deadline split: platform_error.splits)
qed

lemma wait_loop_reaches:
  "wait_window_loop n m selector mode output_var timeout_ms poll_ms started seen c = Some y \<Longrightarrow>
     ctx_reaches m c (snd y)"
proof (rule wait_window_loop.raw_induct
    [of "\<lambda>n m selector mode output_var timeout_ms poll_ms started seen c y. ctx_reaches m c (snd y)"])
  fix loop and n :: "'a native" and m selector mode output_var timeout_ms poll_ms started seen c y
  assume IH: "\<And>n m selector mode output_var timeout_ms poll_ms started seen c y.
      loop n m selector mode output_var timeout_ms poll_ms started seen c = Some y \<Longrightarrow> ctx_reaches m c (snd y)"
    and run: "(case wait_window_step n m selector mode output_var timeout_ms poll_ms started seen c of
        Inl y \<Rightarrow> Some y
      | Inr (seen, c1) \<Rightarrow> loop n m selector mode output_var timeout_ms poll_ms started seen c1) = Some y"
  show "ctx_reaches m c (snd y)"
    using run wait_step_reaches [of m c n selector mode output_var timeout_ms poll_ms started seen]
    by (auto split: sum.splits prod.splits dest: IH intro: ctx_reaches_trans)
qed

lemma wait_execute_respects: "respects_context m (wait_execute n m)"
proof -
  have "ctx_reaches m c c'" if "wait_execute n m i c = Some (r, c')" for i c r c'
    using that
    by (auto simp: wait_execute_def Let_def split: sum.splits prod.splits if_splits
        dest!: wait_loop_reaches intro: ctx_reaches_trans [OF on_world_reaches])
  then show ?thesis by (auto simp: respects_context_def)
qed

lemma desktop_execute_respects:
  "respects_context m (keyboard_execute n m)"
  "respects_context m (mouse_execute n m)"
  "respects_context m (text_execute n m)"
  "respects_context m (find_execute n m)"
  "respects_context m (focus_execute n m)"
  "respects_context m (capture_execute n m ic)"
  "respects_context m (desktop_capture_execute n m ic)"
  "respects_context m (clipboard_execute n)"
  by (rule act_execute_respects; intro exI conjI allI;
      (rule keyboard_execute_def mouse_execute_def text_execute_def find_execute_def focus_execute_def
         capture_execute_def desktop_capture_execute_def clipboard_execute_def)?;
      auto simp: Let_def split: option.splits prod.splits intro!: act_reaches)+

section \<open>The command node\<close>

text \<open>Running a process touches the world and the control handle, nothing that was recorded.\<close>

definition same_records :: "'w shared \<Rightarrow> 'w shared \<Rightarrow> bool" where
  "same_records s s' \<longleftrightarrow> sh_bus s' = sh_bus s \<and> sh_audit s' = sh_audit s \<and> sh_artifacts s' = sh_artifacts s"

lemma same_records_reaches:
  assumes "same_records (cx_shared c) s"
  shows "ctx_reaches m c (c\<lparr>cx_shared := s\<rparr>)"
proof -
  define c1 where "c1 = on_shared (\<lambda>u. u\<lparr>sh_control := (\<lambda>v. sh_control s) (sh_control u)\<rparr>) c"
  have "ctx_reaches m c c1" unfolding c1_def by (rule ctx_reaches_step [OF step_control])
  moreover have "ctx_reaches m c1 (on_shared (\<lambda>u. u\<lparr>sh_world := sh_world s\<rparr>) c1)"
    by (rule ctx_reaches_step [OF step_world])
  ultimately have "ctx_reaches m c (on_shared (\<lambda>u. u\<lparr>sh_world := sh_world s\<rparr>) c1)" by (rule ctx_reaches_trans)
  moreover have "on_shared (\<lambda>u. u\<lparr>sh_world := sh_world s\<rparr>) c1 = c\<lparr>cx_shared := s\<rparr>"
    using assms by (simp add: c1_def on_shared_def same_records_def)
  ultimately show ?thesis by simp
qed

lemma same_records_simps [simp]:
  "same_records s s" "same_records s (on_sh_world w s') \<longleftrightarrow> same_records s s'"
  "same_records (on_sh_world w s) s' \<longleftrightarrow> same_records s s'"
  "same_records s (sh_sleep m ms s') \<longleftrightarrow> same_records s s'"
  by (auto simp: same_records_def on_sh_world_def sh_sleep_def)

lemma same_records_cancelled: "sh_is_cancelled s = (b, s') \<Longrightarrow> same_records s s'"
  by (auto simp: sh_is_cancelled_def same_records_def split: prod.splits)

lemma same_records_trans: "same_records a b \<Longrightarrow> same_records b c \<Longrightarrow> same_records a c"
  by (simp add: same_records_def)

lemma poll_step_records:
  "(case poll_step on_windows pr m child started timeout s of
      Inl y \<Rightarrow> (\<forall>r s'. y = Some (r, s') \<longrightarrow> same_records s s') | Inr s' \<Rightarrow> same_records s s')"
  by (auto simp: poll_step_def Let_def split: prod.splits sum.splits option.splits dest: same_records_cancelled)

lemma poll_child_records:
  "poll_child on_windows pr m child started timeout s = Some y \<Longrightarrow> same_records s (snd y)"
proof (rule poll_child.raw_induct [where P = "\<lambda>on_windows pr m child started timeout s y. same_records s (snd y)"])
  fix loop on_windows and pr :: "'a processes" and m child started timeout s y
  assume IH: "\<And>on_windows pr m child started timeout s y.
      loop on_windows pr m child started timeout s = Some y \<Longrightarrow> same_records s (snd y)"
    and run: "(case poll_step on_windows pr m child started timeout s of
        Inl y \<Rightarrow> y | Inr s1 \<Rightarrow> loop on_windows pr m child started timeout s1) = Some y"
  show "same_records s (snd y)"
    using run poll_step_records [where on_windows = on_windows and pr = pr and m = m and child = child and
        started = started and timeout = timeout and s = s]
    by (cases y) (auto split: sum.splits dest!: IH intro: same_records_trans)
qed

lemma run_process_records:
  assumes "run_process on_windows pr m config timeout s = Some (r, s')"
  shows "same_records s s'"
  using assms
  by (auto simp: run_process_def collect_child_def Let_def split: prod.splits sum.splits if_splits option.splits
      dest!: poll_child_records)

lemma command_execute_respects: "respects_context m (command_execute on_windows pr m)"
proof -
  have "ctx_reaches m c c'" if run: "command_execute on_windows pr m i c = Some (r, c')" for i c r c'
  proof -
    obtain q c1 where check: "check_cancelled c = (q, c1)" by (rule prod.exhaust)
    have c1: "ctx_reaches m c c1" by (rule check_cancelled_reaches [OF check])
    show ?thesis
      using run c1
      by (auto simp: command_execute_def check split: sum.splits option.splits
          dest!: run_process_records intro: ctx_reaches_trans [OF c1 same_records_reaches])
  qed
  then show ?thesis by (auto simp: respects_context_def)
qed


end
