(* ===== verification/Nodara_Mouse_Props.thy ===== *)
theory Nodara_Mouse_Props
  imports Nodara_Platform_Props
begin

text \<open>
  The pointer: the interpolation of a movement is exact at its end in doubles, a movement visits
  the points of its steps and ends on its target, and every press of a button is released.
\<close>

section \<open>Doubles at the end of a movement\<close>

lemma round_half_even_bounds: "of_int (round_half_even q) \<le> q + 1" "\<lfloor>q\<rfloor> \<le> round_half_even q"
  using of_int_floor_le [of q] by (simp_all add: round_half_even_def Let_def) linarith

lemma round64_finite:
  assumes "1 \<le> q" "q < 2 ^ 1000"
  shows "\<exists>p. round64 q = Fin p \<and> p \<noteq> 0"
proof -
  define e where "e = max (ilog2 q) (- 1022)"
  define u where "u = pow2 (e - 52)"
  define k where "k = round_half_even (q / u)"
  have u: "0 < u" by (simp add: u_def)
  have "0 \<le> ilog2 q" using ilog2_ge [of q 0] assms(1) by (simp add: pow2_def)
  then have "pow2 e \<le> q" using ilog2_bounds [of q] assms(1) by (simp add: e_def max_def)
  moreover have "u \<le> pow2 e" unfolding u_def by (rule pow2_mono) simp
  ultimately have uq: "u \<le> q" by simp
  then have "1 \<le> q / u" using u by simp
  then have k1: "1 \<le> k" using round_half_even_bounds(2) [of "q / u"] assms(1) by (simp add: k_def le_floor_iff) linarith
  have "of_int k * u \<le> (q / u + 1) * u"
    using round_half_even_bounds(1) [of "q / u"] u assms(1) by (intro mult_right_mono) (auto simp: k_def)
  also have "\<dots> \<le> 2 * q" using u uq by (simp add: field_simps)
  also have "\<dots> < 2 ^ 1024" using assms(2) by simp
  finally have "of_int k * u < 2 ^ 1024" .
  then have "round64 q = Fin (of_int k * u)"
    using k1 assms(1)
    by (simp add: round64_def Let_def flip: e_def) (simp flip: u_def, simp flip: k_def)
  moreover have "of_int k * u \<noteq> 0" using k1 u by simp
  ultimately show ?thesis by blast
qed

lemma ratio_at_end: "0 < steps \<Longrightarrow> steps < 2 ^ 64 \<Longrightarrow> fdiv (f64_of_int (int steps)) (f64_of_int (int steps)) = Fin 1"
proof -
  assume "0 < steps" "steps < 2 ^ 64"
  then have "1 \<le> (of_nat steps :: rat)" "(of_nat steps :: rat) < 2 ^ 1000"
  proof -
    have "(of_nat steps :: rat) < of_nat (2 ^ 64)" using \<open>steps < 2 ^ 64\<close> by (simp only: of_nat_less_iff)
    also have "\<dots> < 2 ^ 1000" by simp
    finally show "(of_nat steps :: rat) < 2 ^ 1000" .
  qed simp
  from round64_finite [OF this] obtain p where "round64 (of_nat steps) = Fin p" "p \<noteq> 0" by blast
  moreover have "round64 1 = Fin 1" using round64_of_int [of 1] by simp
  ultimately show ?thesis using \<open>0 < steps\<close> by (simp add: f64_of_int_def round_or_zero_def)
qed

lemma fmul_one: "small_int i \<Longrightarrow> fmul (f64_of_int i) (Fin 1) = f64_of_int i"
  using round64_of_int [of i] by (simp add: f64_of_int_small) (simp add: small_int_def)

lemma fround_of_int: "small_int i \<Longrightarrow> fround (f64_of_int i) = f64_of_int i"
proof -
  have "\<lfloor>(of_int i :: rat) + 1 / 2\<rfloor> = i" for i by linarith
  moreover have "\<lfloor>- (of_int i :: rat) + 1 / 2\<rfloor> = - i" for i by linarith
  moreover assume "small_int i"
  ultimately show ?thesis by (auto simp: f64_of_int_small Let_def)
qed

lemma sint_i32: "- (2 ^ 31) \<le> sint (a :: i32) \<and> sint a < 2 ^ 31"
  using sint_ge [of a] sint_lt [of a] by simp

definition no_overflow :: "i32 \<Rightarrow> i32 \<Rightarrow> bool" where
  "no_overflow a b \<longleftrightarrow> - (2 ^ 31) \<le> sint b - sint a \<and> sint b - sint a < 2 ^ 31"

lemma sint_diff: "no_overflow a b \<Longrightarrow> sint (b - a) = sint b - sint a"
proof -
  assume "no_overflow a b"
  then have range: "- (2 ^ 31) \<le> sint b - sint a" "sint b - sint a < 2 ^ 31" by (auto simp: no_overflow_def)
  have "b - a = word_of_int (sint b - sint a)" by simp
  then have "sint (b - a) = signed_take_bit 31 (sint b - sint a)" by (simp add: sint_sbintrunc' del: of_int_diff)
  also have "\<dots> = sint b - sint a" by (rule signed_take_bit_int_eq_self) (use range in auto)
  finally show ?thesis .
qed

lemma interpolate_at_end:
  assumes "no_overflow a b"
  shows "interpolate_axis a b (Fin 1) = b"
proof -
  have small: "small_int (sint a)" "small_int (sint b)" "small_int (sint b - sint a)"
    using sint_i32 [of a] sint_i32 [of b] by (auto simp: small_int_def)
  have "fadd (f64_of_int (sint a)) (fmul (f64_of_int (sint (b - a))) (Fin 1)) = f64_of_int (sint b)"
    using fadd_of_int [OF small(1,3)] small by (simp add: sint_diff [OF assms] fmul_one)
  moreover have "max (- (2 ^ 31)) (min (2 ^ 31 - 1) (sint b)) = sint b" using sint_i32 [of b] by (simp add: min_def max_def)
  ultimately show ?thesis
    using small(2) by (simp add: interpolate_axis_def fround_of_int f64_as_i32_def f64_as_i64_of_int)
qed

lemma point_at_end:
  assumes "no_overflow (fst p) (fst q)" "no_overflow (snd p) (snd q)" "0 < steps" "steps < 2 ^ 64"
  shows "point_at p q steps steps = q"
  by (simp add: point_at_def ratio_at_end [OF assms(3,4)] interpolate_at_end assms)

section \<open>Movements\<close>

lemma act_bind_of [simp]: "act_bind (act_of (Inr a)) g = g a" "act_bind (act_return a) g = g a"
  by (auto simp: act_bind_def act_of_def act_return_def)

lemma set_cursor_visits:
  assumes "input_log n m ev" "set_cursor n p c = (Inr u, c')"
  shows "ev (cx_world c') = ev (cx_world c) @ [CursorEvent p]"
proof -
  obtain r w where call: "nv_set_cursor n (fst p) (snd p) (cx_world c) = (r, w)" by (rule prod.exhaust)
  have "is_ok r" "cx_world c' = w"
    using assms(2) by (auto simp: set_cursor_def native_act_def raw_call_def call split: sum.splits)
  moreover have "ev w = ev (cx_world c) @ (if is_ok r then [CursorEvent (fst p, snd p)] else [])"
    using assms(1) call unfolding input_log_def by (metis fst_conv snd_conv)
  ultimately show ?thesis by simp
qed

lemma move_steps_visits:
  assumes quiet: "quiet_machine_ops m ev"
    and visit: "\<And>p c u c'. send p c = (Inr u, c') \<Longrightarrow> ev (cx_world c') = ev (cx_world c) @ [e p]"
    and "left \<le> steps" "move_steps m send a b steps delay left c = (Inr u, c')"
  shows "ev (cx_world c') = ev (cx_world c) @ map (\<lambda>s. e (point_at a b s steps)) [steps - left + 1..<steps + 1]"
  using assms(3,4)
proof (induction left arbitrary: c)
  case 0
  then show ?case by (simp add: act_return_def)
next
  case (Suc left)
  obtain v c1 where check: "check_cancelled c = (Inr v, c1)"
    and rest: "act_bind (send (point_at a b (steps - left) steps)) (\<lambda>u.
       act_bind (act_when (steps - left < steps \<and> 0 < delay) (act_sleep m delay)) (\<lambda>u.
       move_steps m send a b steps delay left)) c1 = (Inr u, c')"
    using Suc.prems(2) by (auto elim: bind_run)
  then obtain v2 c2 where sent: "send (point_at a b (steps - left) steps) c1 = (Inr v2, c2)"
    and rest2: "act_bind (act_when (steps - left < steps \<and> 0 < delay) (act_sleep m delay)) (\<lambda>u.
       move_steps m send a b steps delay left) c2 = (Inr u, c')"
    by (auto elim: bind_run)
  then obtain v3 c3 where slept: "act_when (steps - left < steps \<and> 0 < delay) (act_sleep m delay) c2 = (Inr v3, c3)"
    and rest3: "move_steps m send a b steps delay left c3 = (Inr u, c')"
    by (auto elim: bind_run)
  have "ev (cx_world c3) = ev (cx_world c) @ [e (point_at a b (steps - left) steps)]"
    using leavesD [OF quiet_check [of ev] check] visit [OF sent]
      leavesD [OF quiet_when [OF quiet_sleep [OF quiet]] slept] by simp
  moreover have "[steps - Suc left + 1..<steps + 1] = (steps - left) # [steps - left + 1..<steps + 1]"
    using Suc.prems(1) by (simp add: upt_conv_Cons Suc_diff_Suc del: upt_Suc)
  ultimately show ?case using Suc.IH [OF _ rest3] Suc.prems(1) by simp
qed

lemma move_count_pos: "0 < unat (move_count ms)"
  by (auto simp: move_count_def max_def unat_gt_0 word_le_def)

text \<open>A movement of the cursor that succeeds has visited the points of its steps, one for every
  ten milliseconds and at least one, and its last point is the target itself: the doubles of
  the interpolation are exact there, as long as the distance fits an \<open>i32\<close>.\<close>

theorem movement_ends_on_its_target:
  assumes log: "input_log n m ev"
    and run: "move_cursor_smooth n m origin target duration_ms c = (Inr u, c')" and moved: "origin \<noteq> target"
    and fits: "no_overflow (fst origin) (fst target)" "no_overflow (snd origin) (snd target)"
  shows "ev (cx_world c') = ev (cx_world c) @
      map (\<lambda>s. CursorEvent (point_at origin target s (unat (move_count duration_ms)))) [1..<unat (move_count duration_ms)] @
      [CursorEvent target]"
proof -
  define steps where "steps = unat (move_count duration_ms)"
  have pos: "0 < steps" "steps < 2 ^ 64" using move_count_pos unsigned_less [of "move_count duration_ms"] by (simp_all add: steps_def)
  have "move_steps m (set_cursor n) origin target steps (duration_ms div move_count duration_ms) steps c = (Inr u, c')"
    using run moved by (simp add: move_cursor_smooth_def move_smooth_def Let_def steps_def)
  from move_steps_visits [OF input_logD(1) [OF log] set_cursor_visits [OF log] order_refl this]
  have "ev (cx_world c') = ev (cx_world c) @ map (\<lambda>s. CursorEvent (point_at origin target s steps)) [1..<steps + 1]" by simp
  moreover have "[1..<steps + 1] = [1..<steps] @ [steps]" using pos(1) by simp
  ultimately show ?thesis using point_at_end [OF fits pos] by (simp add: steps_def)
qed

section \<open>Buttons\<close>

fun is_button :: "input_event \<Rightarrow> bool" where
  "is_button (ButtonEvent _ _) = True"
| "is_button _ = False"

definition buttons :: "('w \<Rightarrow> input_event list) \<Rightarrow> 'w \<Rightarrow> input_event list" where
  "buttons ev w = filter is_button (ev w)"

lemma leaves_buttons: "leaves ev f es \<Longrightarrow> leaves (buttons ev) f (filter is_button es)"
  by (simp add: leaves_def buttons_def)

lemma quiet_buttons: "leaves ev f [] \<Longrightarrow> leaves (buttons ev) f []"
  using leaves_buttons by fastforce

definition releases :: "('w \<Rightarrow> input_event list) \<Rightarrow> nat \<Rightarrow> ('w, 'a) act \<Rightarrow> bool" where
  "releases ev count f \<longleftrightarrow>
     (\<forall>c r c'. f c = (r, c') \<longrightarrow>
        (\<exists>b. \<exists>j\<le>count. buttons ev (cx_world c') = buttons ev (cx_world c) @
           concat (replicate j [ButtonEvent b True, ButtonEvent b False]) \<and> (is_ok r \<longrightarrow> j = count)))"

lemma releases_after: 
  assumes "leaves (buttons ev) f []" "\<And>a. releases ev count (g a)"
  shows "releases ev count (act_bind f g)"
  unfolding releases_def
proof (intro allI impI)
  fix c r c'
  assume "act_bind f g c = (r, c')"
  then show "\<exists>b. \<exists>j\<le>count. buttons ev (cx_world c') = buttons ev (cx_world c) @
      concat (replicate j [ButtonEvent b True, ButtonEvent b False]) \<and> (is_ok r \<longrightarrow> j = count)"
  proof (cases rule: bind_run)
    case (failed e)
    then show ?thesis using leavesD [OF assms(1) failed(1)] by (intro exI [of _ LeftButton] exI [of _ 0]) simp
  next
    case (went_on a c1)
    then show ?thesis using leavesD [OF assms(1) went_on(1)] assms(2) [of a, unfolded releases_def, rule_format, OF went_on(2)] by simp
  qed
qed

lemma releases_before:
  assumes "releases ev count f" "\<And>a. leaves (buttons ev) (g a) []"
  shows "releases ev count (act_bind f g)"
  unfolding releases_def
proof (intro allI impI)
  fix c r c'
  assume "act_bind f g c = (r, c')"
  then show "\<exists>b. \<exists>j\<le>count. buttons ev (cx_world c') = buttons ev (cx_world c) @
      concat (replicate j [ButtonEvent b True, ButtonEvent b False]) \<and> (is_ok r \<longrightarrow> j = count)"
  proof (cases rule: bind_run)
    case (failed e)
    then show ?thesis using assms(1) [unfolded releases_def, rule_format, OF failed(1)] by auto
  next
    case (went_on a c1)
    have "buttons ev (cx_world c') = buttons ev (cx_world c1)" using leavesD [OF assms(2) went_on(2)] by simp
    then show ?thesis using assms(1) [unfolded releases_def, rule_format, OF went_on(1)] by auto
  qed
qed

lemma releases_fail: "releases ev count (act_fail e)"
  unfolding releases_def act_fail_def by (auto intro!: exI [of _ 0])

lemma leaves_press_and_release:
  assumes "\<And>down. leaves ev (press down) [e down]" "\<And>down. act_total (press down)" "leaves ev body []"
  shows "leaves ev (press_and_release press body) [e True, e False]"
proof -
  have "leaves ev (act_bind (act_of held) (\<lambda>u. act_of release)) []" for held and release :: "(node_error, unit) result"
    by (intro quiet_rules)
  then have "leaves ev (press_and_release press body) ([e True] @ [] @ [e False] @ [])"
    unfolding press_and_release_def by (intro leaves_bind leaves_try assms total_rules)
  then show ?thesis by simp
qed

text \<open>What moves or waits touches no button.\<close>

lemma quiet_buttons_machine: "input_log n m ev \<Longrightarrow> quiet_machine_ops m (buttons ev)"
  using input_logD(1) [of n m ev] by (simp add: quiet_machine_ops_def buttons_def)

lemma set_cursor_buttons: "input_log n m ev \<Longrightarrow> leaves (buttons ev) (set_cursor n p) []"
  by (auto simp: leaves_def set_cursor_def native_act_world buttons_def input_log_def)

lemma move_steps_buttons:
  assumes "quiet_machine_ops m v" "\<And>p. leaves v (send p) []"
  shows "leaves v (move_steps m send a b steps delay left) []"
  by (induction left) (auto intro!: quiet_rules quiet_check quiet_sleep assms)

lemma move_cursor_buttons: "input_log n m ev \<Longrightarrow> leaves (buttons ev) (move_cursor_smooth n m a b ms) []"
  by (auto simp: move_cursor_smooth_def move_smooth_def Let_def
      intro!: quiet_rules move_steps_buttons quiet_buttons_machine set_cursor_buttons)

lemma press_button: "input_log n m ev \<Longrightarrow> leaves (buttons ev) (native_act (nv_mouse_button n b down)) [ButtonEvent b down]"
  using leaves_buttons [OF input_logD(3)] by fastforce

lemma leaves_releases:
  assumes "leaves (buttons ev) f [ButtonEvent b True, ButtonEvent b False]"
  shows "releases ev 1 f"
  unfolding releases_def
  using leavesD [OF assms] by (intro allI impI exI [of _ b] exI [of _ 1]) auto

lemma repeat_releases:
  assumes "leaves (buttons ev) turn [ButtonEvent b True, ButtonEvent b False]" "leaves (buttons ev) pause []"
  shows "releases ev count (repeat_turns turn pause count)"
proof -
  have "whole_turn (buttons ev) turn [ButtonEvent b True, ButtonEvent b False]"
    using leavesD [OF assms(1)] by (auto simp: whole_turn_def)
  from repeat_whole_turns [OF this assms(2)] show ?thesis unfolding releases_def by blast
qed

definition pressing_actions :: "string list" where
  "pressing_actions = [''click'', ''double_click'', ''right_click'', ''middle_click'', ''drag'']"

definition press_count :: "string \<Rightarrow> nat \<Rightarrow> nat" where
  "press_count action click_count =
     (if action = ''drag'' then 1 else if action = ''double_click'' then 2 else click_count)"

lemma foreground_act_releases:
  assumes log: "input_log n m ev" and action: "action \<in> set pressing_actions"
    and count: "action \<noteq> ''drag'' \<Longrightarrow> count = presses" "action = ''drag'' \<Longrightarrow> presses = 1"
  shows "releases ev presses (foreground_mouse_act n m i action b count ms rel iv origin target)"
proof -
  note quiet = quiet_rules set_cursor_buttons [OF log] move_cursor_buttons [OF log] quiet_platform_wait [OF quiet_buttons_machine [OF log]]
  have press: "leaves (buttons ev) (press_and_release (\<lambda>down. native_act (nv_mouse_button n b down)) body)
      [ButtonEvent b True, ButtonEvent b False]" if "leaves (buttons ev) body []" for body
    by (intro leaves_press_and_release press_button [OF log] input_logD(4) [OF log] that)
  show ?thesis
  proof (cases "action = ''drag''")
    case True
    have drag: "releases ev 1 (act_bind (press_and_release (\<lambda>down. native_act (nv_mouse_button n b down))
        (move_cursor_smooth n m start destination d)) (\<lambda>u. act_return True))" for start destination d
      by (rule releases_before [OF leaves_releases [OF press [OF move_cursor_buttons [OF log]]] leaves_simple(1)])
    have "foreground_mouse_act n m i action b count ms rel iv origin target =
        act_bind (act_of (configured_point i ''start_x'' ''start_y'')) (\<lambda>configured.
        act_bind (act_when (background_point origin configured \<noteq> origin) (set_cursor n (background_point origin configured))) (\<lambda>u.
        act_bind (act_of (drag_destination i (background_point origin configured) rel)) (\<lambda>destination.
        act_bind (press_and_release (\<lambda>down. native_act (nv_mouse_button n b down))
          (move_cursor_smooth n m (background_point origin configured) destination (drag_duration ms))) (\<lambda>u. act_return True))))"
      by (simp add: foreground_mouse_act_def Let_def True)
    then show ?thesis
      unfolding count(2) [OF True]
      by (simp only:) (rule releases_after [OF leaves_simple(3)], rule releases_after [OF quiet_when [OF set_cursor_buttons [OF log]]],
        rule releases_after [OF leaves_simple(3)], rule drag)
  next
    case False
    then have "action \<noteq> ''move''" "action \<noteq> ''down''" "action \<noteq> ''up''"
      using action by (auto simp: pressing_actions_def)
    then have "foreground_mouse_act n m i action b count ms rel iv origin target =
        act_bind (case target of Some p \<Rightarrow> act_bind (set_cursor n p) (\<lambda>u. act_return True) | None \<Rightarrow> act_return False) (\<lambda>moved.
        act_bind (repeat_turns (press_and_release (\<lambda>down. native_act (nv_mouse_button n b down)) (platform_wait m ms))
          (act_when (0 < iv) (platform_wait m iv)) presses) (\<lambda>u. act_return moved))"
      using False count(1) by (simp add: foreground_mouse_act_def Let_def)
    moreover have "leaves (buttons ev) (case target of
        Some p \<Rightarrow> act_bind (set_cursor n p) (\<lambda>u. act_return True) | None \<Rightarrow> act_return False) []"
      by (auto intro!: quiet split: option.splits)
    moreover have "leaves (buttons ev) (platform_wait m ms) []" for ms by (intro quiet)
    ultimately show ?thesis
      by (simp only:) (rule releases_after, assumption, rule releases_before [OF repeat_releases [OF press quiet_when]],
        assumption+, rule leaves_simple(1))
  qed
qed

lemma foreground_mouse_releases:
  assumes log: "input_log n m ev" and action: "action \<in> set pressing_actions"
    and count: "action \<noteq> ''drag'' \<Longrightarrow> count = presses" "action = ''drag'' \<Longrightarrow> presses = 1"
  shows "releases ev presses (execute_foreground_mouse n m i action (Some b) count ms rel iv)"
proof -
  have quiet: "leaves (buttons ev) (cursor_position n) []" "leaves (buttons ev) (native_value (nv_foreground_window n)) []"
    using quiet_buttons [OF input_logD(6) [OF log]] quiet_buttons [OF input_logD(7) [OF log]] by auto
  show ?thesis
    unfolding execute_foreground_mouse_def Let_def option.case
    by (intro releases_after releases_before foreground_act_releases [OF log action count] quiet quiet_rules)
qed

lemma releases_target:
  assumes "input_log n m ev" "config_bool i ''background'' \<noteq> Some True"
    and "\<And>t. background_target t = None \<Longrightarrow> releases ev count (g t)"
  shows "releases ev count (act_bind (input_target n i) g)"
proof -
  have "releases ev count (act_bind (input_target n i) (\<lambda>t. if background_target t = None then g t else act_fail CancelledError))"
    using assms(3) by (intro releases_after quiet_buttons quiet_target [OF assms(1)]) (auto intro: releases_fail)
  moreover have "act_bind (input_target n i) (\<lambda>t. if background_target t = None then g t else act_fail CancelledError) =
      act_bind (input_target n i) g"
    by (rule ext) (auto simp: act_bind_def dest: target_in_foreground [OF _ assms(2)] split: prod.splits sum.splits)
  ultimately show ?thesis by simp
qed

definition mouse_clicks :: "node_input \<Rightarrow> nat" where
  "mouse_clicks input =
     nat (max (case config_i64 (with_input_object_fallback input ''in'') ''click_count'' of Some v \<Rightarrow> v | None \<Rightarrow> 1) 1)"

text \<open>The node, read as the sequence of its stages.\<close>

definition mouse_turn ::
    "'w native \<Rightarrow> 'w machine \<Rightarrow> node_input \<Rightarrow> input_target option \<Rightarrow> string \<Rightarrow> mouse_button option \<Rightarrow> nat \<Rightarrow> u64 \<Rightarrow> bool \<Rightarrow> u64
       \<Rightarrow> ('w, node_output) act" where
  "mouse_turn n m i target action button count ms rel iv =
     (case background_target target of
        Some t \<Rightarrow> mouse_background n (execute_background_mouse n m i (it_window t) action button count ms rel iv)
      | None \<Rightarrow> execute_foreground_mouse n m i action button count ms rel iv)"

definition mouse_stages ::
    "'w native \<Rightarrow> 'w machine \<Rightarrow> node_input \<Rightarrow> string \<Rightarrow> u64 \<Rightarrow> bool \<Rightarrow> u64 \<Rightarrow> nat \<Rightarrow> ('w, node_output) act" where
  "mouse_stages n m i action ms rel iv click_count =
     act_bind check_cancelled (\<lambda>u. act_bind (input_target n i) (\<lambda>target.
     act_bind (act_of (case config_str i ''button'' of
                         None \<Rightarrow> Inr None
                       | Some v \<Rightarrow> bind_result (parse_mouse_button v) (\<lambda>b. Inr (Some b)))) (\<lambda>q.
     act_bind (act_of (mouse_plan action q click_count)) (\<lambda>(button, count).
       mouse_turn n m i target action button count ms rel iv))))"

lemma mouse_execute_stages:
  "mouse_execute n m input c = Some (
     (let i = with_input_object_fallback input ''in'' in
      act_bind (act_of (require_str i ''action'')) (\<lambda>action.
        mouse_stages n m i action (millis_of (config_i64 i ''duration_ms'') 0)
          (case config_bool i ''relative'' of Some b \<Rightarrow> b | None \<Rightarrow> False)
          (millis_of (case config_i64 i ''click_interval_ms'' of Some v \<Rightarrow> Some v
             | None \<Rightarrow> config_i64 i ''double_click_interval_ms'') 100)
          (nat (max (case config_i64 i ''click_count'' of Some v \<Rightarrow> v | None \<Rightarrow> 1) 1)))) c)"
  unfolding mouse_execute_def mouse_stages_def mouse_turn_def Let_def by (rule refl)


lemma movement_ends_on_its_target_witness:
  "\<exists>c'. move_cursor_smooth log_native log_machine (0, 0) (3, 4) 0 log_context = (Inr (), c') \<and>
     cx_world c' = cx_world log_context @ [CursorEvent (3, 4)]"
proof -
  have once: "move_count 0 = 1" by (simp add: move_count_def)
  obtain c' where run: "move_cursor_smooth log_native log_machine (0, 0) (3, 4) 0 log_context = (Inr (), c')"
    by (simp add: move_cursor_smooth_def move_smooth_def Let_def once act_bind_def act_when_def check_cancelled_def
        set_cursor_def native_act_def raw_call_def log_native_def log_context_def new_context_def act_return_def
        sh_is_cancelled_def new_control_def is_cancelled_def lock_control_def new_flags_def)
  have "no_overflow 0 3" "no_overflow 0 4" by (simp_all add: no_overflow_def)
  with movement_ends_on_its_target [OF log_desktop run] run show ?thesis by (simp add: once)
qed


end
