(* ===== verification/Nodara_Win32.thy ===== *)
theory Nodara_Win32
  imports Nodara_Native "HOL-Library.State_Monad"
begin

unbundle bit_operations_syntax

text \<open>
  The wrappers over the Windows API (\<open>win32.rs\<close>), one definition per function, in the state
  monad over the outside world. The API is the record \<open>winapi\<close>: one function that answers a
  call, with the return value and whatever the call writes through its pointers in the reply;
  the error code of the last call; the units of locked memory; and the conversions of the
  standard library whose result does not fit the characters of the model. Constants of the
  Windows headers are constructors. \<open>win32_native\<close> is the module as the nodes see it.

  A log of the calls with their replies carries the resource discipline: \<open>unwind\<close> follows the
  stack of what is held, and refuses a release out of order and a use after the release.
\<close>

section \<open>The Windows API\<close>

type_synonym handle = "64 word"
type_synonym u16 = "16 word"

datatype key_message = WM_KEYDOWN | WM_KEYUP

datatype mouse_message =
    WM_MOUSEMOVE
  | WM_LBUTTONDOWN | WM_LBUTTONUP
  | WM_RBUTTONDOWN | WM_RBUTTONUP
  | WM_MBUTTONDOWN | WM_MBUTTONUP

datatype window_message = KeyMessage key_message | MouseMessage mouse_message | WM_CHAR

datatype mouse_flags =
    MOUSEEVENTF_LEFTDOWN | MOUSEEVENTF_LEFTUP
  | MOUSEEVENTF_RIGHTDOWN | MOUSEEVENTF_RIGHTUP
  | MOUSEEVENTF_MIDDLEDOWN | MOUSEEVENTF_MIDDLEUP

datatype (plugins only: size code) api_call =
    KeybdEvent u8 bool
  | SetCursorPos i32 i32
  | GetCursorPos
  | MapVirtualKey u8
  | SendMessageTimeout window_id window_message handle handle u32
  | SetWindowText window_id "u16 list"
  | ScreenToClient window_id point
  | MouseEvent mouse_flags
  | GetScreenWidth
  | GetScreenHeight
  | GetForegroundWindow
  | GetWindowTextLength window_id
  | GetWindowText window_id nat
  | GetClassName window_id nat
  | GetWindowRect window_id
  | GetWindowThreadProcessId window_id
  | OpenProcess u32
  | QueryFullProcessImageName handle nat
  | CloseHandle handle
  | IsWindowVisible window_id
  | EnumWindows
  | SetForegroundWindow window_id
  | GetDC window_id
  | CreateCompatibleDC handle
  | CreateCompatibleBitmap handle i32 i32
  | SelectObject handle handle
  | BitBlt handle i32 i32 handle i32 i32
  | GetDIBits handle handle u32 i32 i32
  | DeleteObject handle
  | DeleteDC handle
  | ReleaseDC window_id handle
  | IsTextAvailable
  | OpenClipboard
  | EmptyClipboard
  | GetClipboardText
  | SetClipboardText handle
  | CloseClipboard
  | GlobalAlloc nat
  | GlobalLock handle
  | GlobalUnlock handle
  | GlobalFree handle
  | CopyUnits handle "u16 list"

record api_reply =
  rp_value :: handle
  rp_point :: point
  rp_rect :: "i32 \<times> i32 \<times> i32 \<times> i32"
  rp_units :: "u16 list"
  rp_length :: u32
  rp_bytes :: "u8 list"
  rp_windows :: "window_id list"

record 'w winapi =
  wi_call :: "api_call \<Rightarrow> 'w \<Rightarrow> api_reply \<times> 'w"
  wi_last_error :: "'w \<Rightarrow> u32"
  wi_unit :: "handle \<Rightarrow> 'w \<Rightarrow> nat \<Rightarrow> u16"
  wi_utf16_lossy :: "u16 list \<Rightarrow> string"
  wi_file_name :: "string \<Rightarrow> string option"

type_synonym ('w, 'a) win = "('w, 'a) state"

definition api :: "'w winapi \<Rightarrow> api_call \<Rightarrow> ('w, api_reply) win" where
  "api a c = State (wi_call a c)"

definition ok_value :: "'a \<Rightarrow> ('w, (platform_error, 'a) result) win" where
  "ok_value v = State_Monad.return (Inr v)"

definition win_error :: "platform_error \<Rightarrow> ('w, (platform_error, 'a) result) win" where
  "win_error e = State_Monad.return (Inl e)"

text \<open>\<open>Err(last_error(operation))\<close>.\<close>

definition last_error :: "'w winapi \<Rightarrow> string \<Rightarrow> ('w, (platform_error, 'a) result) win" where
  "last_error a operation = State (\<lambda>w. (Inl (Win32Error operation (wi_last_error a w)), w))"

text \<open>A call whose zero is a failure.\<close>

definition checked ::
    "'w winapi \<Rightarrow> string \<Rightarrow> api_call \<Rightarrow> (api_reply \<Rightarrow> 'a) \<Rightarrow> ('w, (platform_error, 'a) result) win" where
  "checked a operation c f =
     do { r \<leftarrow> api a c;
          if rp_value r = 0 then last_error a operation else ok_value (f r) }"

text \<open>A buffer of the given length, filled with zeros and written by the call.\<close>

definition filled :: "nat \<Rightarrow> 'a::zero list \<Rightarrow> 'a list" where
  "filled n xs = take n xs @ replicate (n - length xs) 0"

section \<open>Input\<close>

definition win_key :: "'w winapi \<Rightarrow> u8 \<Rightarrow> bool \<Rightarrow> ('w, unit) win" where
  "win_key a vk up = do { r \<leftarrow> api a (KeybdEvent vk up); State_Monad.return () }"

definition win_set_cursor :: "'w winapi \<Rightarrow> i32 \<Rightarrow> i32 \<Rightarrow> ('w, (platform_error, unit) result) win" where
  "win_set_cursor a x y = checked a ''SetCursorPos'' (SetCursorPos x y) (\<lambda>r. ())"

definition win_cursor_position :: "'w winapi \<Rightarrow> ('w, (platform_error, point) result) win" where
  "win_cursor_position a = checked a ''GetCursorPos'' GetCursorPos rp_point"

text \<open>A key that goes up carries the previous-state and transition bits.\<close>

definition key_lparam :: "handle \<Rightarrow> bool \<Rightarrow> handle" where
  "key_lparam scan down =
     (let lparam = 1 OR push_bit 16 scan
      in if down then lparam else (lparam OR push_bit 30 1) OR push_bit 31 1)"

definition win_send_key :: "'w winapi \<Rightarrow> window_id \<Rightarrow> u8 \<Rightarrow> bool \<Rightarrow> ('w, (platform_error, unit) result) win" where
  "win_send_key a window vk down =
     do { scan \<leftarrow> api a (MapVirtualKey vk);
          checked a ''SendMessageTimeoutW(WM_KEY)''
            (SendMessageTimeout window (KeyMessage (if down then WM_KEYDOWN else WM_KEYUP)) (ucast vk)
               (key_lparam (rp_value scan) down) 1000) (\<lambda>r. ()) }"

definition win_send_text :: "'w winapi \<Rightarrow> window_id \<Rightarrow> u16 \<Rightarrow> ('w, (platform_error, unit) result) win" where
  "win_send_text a window code_unit =
     checked a ''SendMessageTimeoutW(WM_CHAR)'' (SendMessageTimeout window WM_CHAR (ucast code_unit) 0 1000) (\<lambda>r. ())"

text \<open>\<open>text.encode_utf16()\<close> with a final zero.\<close>

definition wide_units :: "string \<Rightarrow> u16 list" where
  "wide_units s = map of_char s @ [0]"

definition win_set_window_text :: "'w winapi \<Rightarrow> window_id \<Rightarrow> string \<Rightarrow> ('w, (platform_error, unit) result) win" where
  "win_set_window_text a window s = checked a ''SetWindowTextW'' (SetWindowText window (wide_units s)) (\<lambda>r. ())"

definition win_screen_to_client :: "'w winapi \<Rightarrow> window_id \<Rightarrow> i32 \<Rightarrow> i32 \<Rightarrow> ('w, (platform_error, point) result) win" where
  "win_screen_to_client a window x y = checked a ''ScreenToClient'' (ScreenToClient window (x, y)) rp_point"

fun mouse_button_mask :: "mouse_button \<Rightarrow> handle" where
  "mouse_button_mask LeftButton = 0x0001"
| "mouse_button_mask RightButton = 0x0002"
| "mouse_button_mask MiddleButton = 0x0010"

definition mouse_lparam :: "i32 \<Rightarrow> i32 \<Rightarrow> handle" where
  "mouse_lparam x y = push_bit 16 (ucast (ucast y :: u16)) OR ucast (ucast x :: u16)"

definition send_mouse_message ::
    "'w winapi \<Rightarrow> window_id \<Rightarrow> mouse_message \<Rightarrow> handle \<Rightarrow> i32 \<Rightarrow> i32 \<Rightarrow> ('w, (platform_error, unit) result) win" where
  "send_mouse_message a window message wparam x y =
     checked a ''SendMessageTimeoutW(WM_MOUSE)''
       (SendMessageTimeout window (MouseMessage message) wparam (mouse_lparam x y) 1000) (\<lambda>r. ())"

definition win_send_mouse_move ::
    "'w winapi \<Rightarrow> window_id \<Rightarrow> i32 \<Rightarrow> i32 \<Rightarrow> mouse_button option \<Rightarrow> ('w, (platform_error, unit) result) win" where
  "win_send_mouse_move a window x y held =
     send_mouse_message a window WM_MOUSEMOVE (case held of Some b \<Rightarrow> mouse_button_mask b | None \<Rightarrow> 0) x y"

fun button_message :: "mouse_button \<Rightarrow> bool \<Rightarrow> mouse_message" where
  "button_message LeftButton down = (if down then WM_LBUTTONDOWN else WM_LBUTTONUP)"
| "button_message RightButton down = (if down then WM_RBUTTONDOWN else WM_RBUTTONUP)"
| "button_message MiddleButton down = (if down then WM_MBUTTONDOWN else WM_MBUTTONUP)"

definition win_send_mouse_button ::
    "'w winapi \<Rightarrow> window_id \<Rightarrow> i32 \<Rightarrow> i32 \<Rightarrow> mouse_button \<Rightarrow> bool \<Rightarrow> ('w, (platform_error, unit) result) win" where
  "win_send_mouse_button a window x y button down =
     send_mouse_message a window (button_message button down) (if down then mouse_button_mask button else 0) x y"

fun button_flags :: "mouse_button \<Rightarrow> bool \<Rightarrow> mouse_flags" where
  "button_flags LeftButton down = (if down then MOUSEEVENTF_LEFTDOWN else MOUSEEVENTF_LEFTUP)"
| "button_flags RightButton down = (if down then MOUSEEVENTF_RIGHTDOWN else MOUSEEVENTF_RIGHTUP)"
| "button_flags MiddleButton down = (if down then MOUSEEVENTF_MIDDLEDOWN else MOUSEEVENTF_MIDDLEUP)"

definition win_mouse_button :: "'w winapi \<Rightarrow> mouse_button \<Rightarrow> bool \<Rightarrow> ('w, (platform_error, unit) result) win" where
  "win_mouse_button a button down = do { r \<leftarrow> api a (MouseEvent (button_flags button down)); ok_value () }"

definition win_screen_size :: "'w winapi \<Rightarrow> ('w, point) win" where
  "win_screen_size a =
     do { width \<leftarrow> api a GetScreenWidth;
          height \<leftarrow> api a GetScreenHeight;
          State_Monad.return (ucast (rp_value width), ucast (rp_value height)) }"

definition win_foreground_window :: "'w winapi \<Rightarrow> ('w, window_id) win" where
  "win_foreground_window a = do { r \<leftarrow> api a GetForegroundWindow; State_Monad.return (rp_value r) }"

section \<open>Windows\<close>

definition read_wide :: "'w winapi \<Rightarrow> u16 list \<Rightarrow> string" where
  "read_wide a buffer = wi_utf16_lossy a (takeWhile (\<lambda>unit. unit \<noteq> 0) buffer)"

definition window_title :: "'w winapi \<Rightarrow> window_id \<Rightarrow> ('w, string) win" where
  "window_title a hwnd =
     do { text_length \<leftarrow> api a (GetWindowTextLength hwnd);
          if sint (rp_value text_length) \<le> 0 then State_Monad.return []
          else do {
            written \<leftarrow> api a (GetWindowText hwnd (unat (rp_value text_length) + 1));
            if sint (rp_value written) \<le> 0 then State_Monad.return []
            else State_Monad.return (read_wide a (filled (unat (rp_value text_length) + 1) (rp_units written))) } }"

definition window_class :: "'w winapi \<Rightarrow> window_id \<Rightarrow> ('w, string) win" where
  "window_class a hwnd =
     do { written \<leftarrow> api a (GetClassName hwnd 256);
          if sint (rp_value written) \<le> 0 then State_Monad.return []
          else State_Monad.return (read_wide a (filled 256 (rp_units written))) }"

text \<open>\<open>(right - left).max(0) as u32\<close>, with the subtraction of \<open>i32\<close>.\<close>

definition extent :: "i32 \<Rightarrow> i32 \<Rightarrow> u32" where
  "extent low high = word_of_int (max (sint (high - low)) 0)"

definition window_rect :: "'w winapi \<Rightarrow> window_id \<Rightarrow> ('w, rect) win" where
  "window_rect a hwnd =
     do { r \<leftarrow> api a (GetWindowRect hwnd);
          if rp_value r = 0
          then State_Monad.return \<lparr>rc_x = 0, rc_y = 0, rc_width = 0, rc_height = 0\<rparr>
          else State_Monad.return (case rp_rect r of (left, upper, right, lower) \<Rightarrow>
                 \<lparr>rc_x = left, rc_y = upper, rc_width = extent left right, rc_height = extent upper lower\<rparr>) }"

definition window_process_name :: "'w winapi \<Rightarrow> window_id \<Rightarrow> ('w, string) win" where
  "window_process_name a hwnd =
     do { process_id \<leftarrow> api a (GetWindowThreadProcessId hwnd);
          if rp_length process_id = 0 then State_Monad.return []
          else do {
            process \<leftarrow> api a (OpenProcess (rp_length process_id));
            if rp_value process = 0 then State_Monad.return []
            else do {
              queried \<leftarrow> api a (QueryFullProcessImageName (rp_value process) 1024);
              closed \<leftarrow> api a (CloseHandle (rp_value process));
              if rp_value queried = 0 \<or> rp_length queried = 0 then State_Monad.return []
              else State_Monad.return
                (let path = read_wide a (take (unat (rp_length queried)) (filled 1024 (rp_units queried)))
                 in case wi_file_name a path of Some name \<Rightarrow> name | None \<Rightarrow> path) } } }"

text \<open>The callback of the enumeration.\<close>

definition window_of :: "'w winapi \<Rightarrow> window_id \<Rightarrow> ('w, window_record) win" where
  "window_of a hwnd =
     do { title \<leftarrow> window_title a hwnd;
          class_name \<leftarrow> window_class a hwnd;
          process_name \<leftarrow> window_process_name a hwnd;
          area \<leftarrow> window_rect a hwnd;
          visible \<leftarrow> api a (IsWindowVisible hwnd);
          State_Monad.return \<lparr>wr_id = hwnd, wr_title = title, wr_class_name = class_name,
            wr_process_name = process_name, wr_rect = area, wr_visible = (rp_value visible \<noteq> 0)\<rparr> }"

definition win_windows :: "'w winapi \<Rightarrow> ('w, window_record list) win" where
  "win_windows a = do { r \<leftarrow> api a EnumWindows; State_Monad.traverse_list (window_of a) (rp_windows r) }"

definition win_focus :: "'w winapi \<Rightarrow> window_id \<Rightarrow> ('w, (platform_error, unit) result) win" where
  "win_focus a window = checked a ''SetForegroundWindow'' (SetForegroundWindow window) (\<lambda>r. ())"

section \<open>Capture\<close>

text \<open>The pixels, and the release of every handle on every path; a height of the header is
  negative for rows from the top.\<close>

definition copy_screen ::
    "'w winapi \<Rightarrow> handle \<Rightarrow> handle \<Rightarrow> handle \<Rightarrow> i32 \<Rightarrow> i32 \<Rightarrow> u32 \<Rightarrow> u32 \<Rightarrow> ('w, (platform_error, u8 list) result) win" where
  "copy_screen a screen_dc memory_dc bitmap x y width height =
     do { previous \<leftarrow> api a (SelectObject memory_dc bitmap);
          copied \<leftarrow> api a (BitBlt memory_dc width height screen_dc x y);
          scanned \<leftarrow> api a (GetDIBits memory_dc bitmap height width (- height));
          deselected \<leftarrow> api a (SelectObject memory_dc (rp_value previous));
          deleted \<leftarrow> api a (DeleteObject bitmap);
          deleted \<leftarrow> api a (DeleteDC memory_dc);
          released \<leftarrow> api a (ReleaseDC 0 screen_dc);
          if rp_value copied = 0 then last_error a ''BitBlt''
          else if rp_value scanned = 0 then last_error a ''GetDIBits''
          else ok_value (filled (unat width * unat height * 4) (rp_bytes scanned)) }"

definition win_capture ::
    "'w winapi \<Rightarrow> i32 \<Rightarrow> i32 \<Rightarrow> u32 \<Rightarrow> u32 \<Rightarrow> ('w, (platform_error, u8 list) result) win" where
  "win_capture a x y width height =
     (if width = 0 \<or> height = 0 then win_error (CaptureError ''capture rectangle must not be empty'')
      else do {
        screen_dc \<leftarrow> api a (GetDC 0);
        if rp_value screen_dc = 0 then last_error a ''GetDC''
        else do {
          memory_dc \<leftarrow> api a (CreateCompatibleDC (rp_value screen_dc));
          if rp_value memory_dc = 0
          then do {
            released \<leftarrow> api a (ReleaseDC 0 (rp_value screen_dc));
            last_error a ''CreateCompatibleDC'' }
          else do {
            bitmap \<leftarrow> api a (CreateCompatibleBitmap (rp_value screen_dc) width height);
            if rp_value bitmap = 0
            then do {
              deleted \<leftarrow> api a (DeleteDC (rp_value memory_dc));
              released \<leftarrow> api a (ReleaseDC 0 (rp_value screen_dc));
              last_error a ''CreateCompatibleBitmap'' }
            else copy_screen a (rp_value screen_dc) (rp_value memory_dc) (rp_value bitmap) x y width height } } })"

section \<open>The clipboard\<close>

text \<open>\<open>while *units.add(length) != 0 && length < 1 << 20\<close>, with what is left of the bound.\<close>

fun unit_count :: "(nat \<Rightarrow> u16) \<Rightarrow> nat \<Rightarrow> nat \<Rightarrow> nat" where
  "unit_count units count 0 = count"
| "unit_count units count (Suc left) = (if units count \<noteq> 0 then unit_count units (Suc count) left else count)"

definition max_units :: nat where "max_units = 2 ^ 20"

definition locked_text :: "'w winapi \<Rightarrow> handle \<Rightarrow> ('w, string) win" where
  "locked_text a pointer =
     State (\<lambda>w. let units = wi_unit a pointer w
                in (wi_utf16_lossy a (map units [0..<unit_count units 0 max_units]), w))"

definition win_clipboard_read :: "'w winapi \<Rightarrow> ('w, (platform_error, string option) result) win" where
  "win_clipboard_read a =
     do { available \<leftarrow> api a IsTextAvailable;
          if rp_value available = 0 then ok_value None
          else do {
            opened \<leftarrow> api a OpenClipboard;
            if rp_value opened = 0 then win_error (ClipboardError ''OpenClipboard failed'')
            else do {
              handle \<leftarrow> api a GetClipboardText;
              held \<leftarrow> (if rp_value handle = 0 then State_Monad.return None
                else do {
                  pointer \<leftarrow> api a (GlobalLock (rp_value handle));
                  if rp_value pointer = 0 then State_Monad.return None
                  else do {
                    content \<leftarrow> locked_text a (rp_value pointer);
                    unlocked \<leftarrow> api a (GlobalUnlock (rp_value handle));
                    State_Monad.return (Some content) } });
              closed \<leftarrow> api a CloseClipboard;
              ok_value held } } }"

text \<open>Close the clipboard and fail.\<close>

definition abandon :: "'w winapi \<Rightarrow> string \<Rightarrow> ('w, (platform_error, 'a) result) win" where
  "abandon a message = do { closed \<leftarrow> api a CloseClipboard; win_error (ClipboardError message) }"

definition hand_over :: "'w winapi \<Rightarrow> u16 list \<Rightarrow> handle \<Rightarrow> ('w, (platform_error, unit) result) win" where
  "hand_over a wide block =
     do { destination \<leftarrow> api a (GlobalLock block);
          if rp_value destination = 0
          then do { freed \<leftarrow> api a (GlobalFree block); abandon a ''GlobalLock failed'' }
          else do {
            copied \<leftarrow> api a (CopyUnits (rp_value destination) wide);
            unlocked \<leftarrow> api a (GlobalUnlock block);
            given \<leftarrow> api a (SetClipboardText block);
            if rp_value given = 0
            then do { freed \<leftarrow> api a (GlobalFree block); abandon a ''SetClipboardData failed'' }
            else do { closed \<leftarrow> api a CloseClipboard; ok_value () } } }"

definition win_clipboard_write :: "'w winapi \<Rightarrow> string \<Rightarrow> ('w, (platform_error, unit) result) win" where
  "win_clipboard_write a s =
     (let wide = wide_units s; bytes = length wide * 2 in
      do { opened \<leftarrow> api a OpenClipboard;
           if rp_value opened = 0 then win_error (ClipboardError ''OpenClipboard failed'')
           else do {
             emptied \<leftarrow> api a EmptyClipboard;
             if rp_value emptied = 0 then abandon a ''EmptyClipboard failed''
             else do {
               block \<leftarrow> api a (GlobalAlloc bytes);
               if rp_value block = 0 then abandon a ''GlobalAlloc failed''
               else hand_over a wide (rp_value block) } } })"

section \<open>The module\<close>

definition win32_native :: "'w winapi \<Rightarrow> 'w native" where
  "win32_native a =
     \<lparr>nv_key = (\<lambda>vk up w. snd (run_state (win_key a vk up) w)),
      nv_set_cursor = (\<lambda>x y. run_state (win_set_cursor a x y)),
      nv_cursor_position = run_state (win_cursor_position a),
      nv_send_key = (\<lambda>window vk down. run_state (win_send_key a window vk down)),
      nv_send_text = (\<lambda>window code_unit. run_state (win_send_text a window code_unit)),
      nv_set_window_text = (\<lambda>window s. run_state (win_set_window_text a window s)),
      nv_screen_to_client = (\<lambda>window x y. run_state (win_screen_to_client a window x y)),
      nv_send_mouse_move = (\<lambda>window x y held. run_state (win_send_mouse_move a window x y held)),
      nv_send_mouse_button = (\<lambda>window x y button down. run_state (win_send_mouse_button a window x y button down)),
      nv_mouse_button = (\<lambda>button down. run_state (win_mouse_button a button down)),
      nv_screen_size = run_state (win_screen_size a),
      nv_foreground_window = run_state (win_foreground_window a),
      nv_windows = run_state (win_windows a),
      nv_focus = (\<lambda>window. run_state (win_focus a window)),
      nv_capture = (\<lambda>x y width height. run_state (win_capture a x y width height)),
      nv_clipboard_read = run_state (win_clipboard_read a),
      nv_clipboard_write = (\<lambda>s. run_state (win_clipboard_write a s))\<rparr>"

end
