(* ===== verification/Nodara_Win32_Props.thy ===== *)
theory Nodara_Win32_Props
  imports Nodara_Win32 Nodara_Platform_Props Nodara_Window
begin

unbundle bit_operations_syntax

text \<open>
  Properties of the wrappers over the Windows API, for any API: its calls are recorded with
  their replies, and a small logic follows a state through the record. With the stack of the
  resources held as the state, no path leaks a handle or uses one after its release; with the
  input events as the state, the module is the desktop that the input nodes rely on.
\<close>

section \<open>Recorded calls\<close>

type_synonym api_log = "(api_call \<times> api_reply) list"

definition logged :: "'w winapi \<Rightarrow> (api_log \<times> 'w) winapi" where
  "logged a =
     \<lparr>wi_call = (\<lambda>c s. let (r, w) = wi_call a c (snd s) in (r, (fst s @ [(c, r)], w))),
      wi_last_error = (\<lambda>s. wi_last_error a (snd s)),
      wi_unit = (\<lambda>pointer s. wi_unit a pointer (snd s)),
      wi_utf16_lossy = wi_utf16_lossy a,
      wi_file_name = wi_file_name a\<rparr>"

type_synonym 's step = "api_call \<Rightarrow> api_reply \<Rightarrow> 's \<Rightarrow> 's option"

fun follow :: "'s step \<Rightarrow> api_log \<Rightarrow> 's \<Rightarrow> 's option" where
  "follow step [] s = Some s"
| "follow step ((c, r) # rest) s = Option.bind (step c r s) (follow step rest)"

lemma follow_append [simp]: "follow step (xs @ ys) s = Option.bind (follow step xs s) (follow step ys)"
  by (induction step xs s rule: follow.induct) (auto split: Option.bind_split)

definition tracked :: "'s step \<Rightarrow> ('w \<Rightarrow> api_log) \<Rightarrow> 's \<Rightarrow> ('w, 'a) win \<Rightarrow> ('a \<Rightarrow> 's \<Rightarrow> bool) \<Rightarrow> bool" where
  "tracked step ev s f post \<longleftrightarrow>
     (\<forall>w. \<exists>seg s'. ev (snd (run_state f w)) = ev w @ seg \<and> follow step seg s = Some s' \<and> post (fst (run_state f w)) s')"

lemma tracked_return: "post v s \<Longrightarrow> tracked step ev s (State_Monad.return v) post"
  by (auto simp: tracked_def)

lemma tracked_bind:
  assumes "tracked step ev s f (\<lambda>x t. tracked step ev t (g x) post)"
  shows "tracked step ev s (State_Monad.bind f g) post"
  unfolding tracked_def
proof
  fix w
  obtain x w1 where f: "run_state f w = (x, w1)" by (rule prod.exhaust)
  with assms obtain seg t where first: "ev w1 = ev w @ seg" "follow step seg s = Some t" "tracked step ev t (g x) post"
    unfolding tracked_def by (metis fst_conv snd_conv)
  from first(3) obtain seg' u where "ev (snd (run_state (g x) w1)) = ev w1 @ seg'" "follow step seg' t = Some u"
    "post (fst (run_state (g x) w1)) u"
    unfolding tracked_def by blast
  then show "\<exists>seg s'. ev (snd (run_state (State_Monad.bind f g) w)) = ev w @ seg \<and> follow step seg s = Some s' \<and>
      post (fst (run_state (State_Monad.bind f g) w)) s'"
    using first by (intro exI [of _ "seg @ seg'"] exI [of _ u]) (simp add: f)
qed

lemma tracked_cases:
  "(b \<Longrightarrow> tracked step ev s f post) \<Longrightarrow> (\<not> b \<Longrightarrow> tracked step ev s g post) \<Longrightarrow> tracked step ev s (if b then f else g) post"
  by simp

lemma tracked_values:
  "post (Inr v) s \<Longrightarrow> tracked step ev s (ok_value v) post"
  "post (Inl e) s \<Longrightarrow> tracked step ev s (win_error e) post"
  "(\<And>e. post (Inl e) s) \<Longrightarrow> tracked step ev s (last_error a operation) post"
  by (auto simp: tracked_def ok_value_def win_error_def last_error_def)

lemma tracked_locked_text: "(\<And>t. post t s) \<Longrightarrow> tracked step ev s (locked_text a pointer) post"
  by (auto simp: tracked_def locked_text_def Let_def)

lemma tracked_weaken: "tracked step ev s f post \<Longrightarrow> (\<And>x t. post x t \<Longrightarrow> post' x t) \<Longrightarrow> tracked step ev s f post'"
  unfolding tracked_def by meson

lemma tracked_traverse:
  assumes "\<And>x. tracked step ev s (f x) (\<lambda>_ t. t = s)"
  shows "tracked step ev s (State_Monad.traverse_list f xs) (\<lambda>_ t. t = s)"
proof (induction xs)
  case (Cons x xs)
  have "tracked step ev t (State_Monad.traverse_list f xs) (\<lambda>ys u. tracked step ev u (State_Monad.return (y # ys)) (\<lambda>_ t. t = s))"
    if "t = s" for t y
    using Cons.IH that by (auto elim!: tracked_weaken intro: tracked_return)
  then show ?case
    by (simp, intro tracked_bind tracked_weaken [OF assms]) (auto intro!: tracked_bind)
qed (simp add: tracked_return)

locale recorded_calls =
  fixes a :: "'w winapi" and ev :: "'w \<Rightarrow> api_log"
  assumes recorded: "ev (snd (wi_call a c w)) = ev w @ [(c, fst (wi_call a c w))]"
begin

lemma tracked_api:
  assumes "\<And>r. \<exists>t. step c r s = Some t \<and> post r t"
  shows "tracked step ev s (api a c) post"
  unfolding tracked_def
proof
  fix w
  obtain t where "step c (fst (wi_call a c w)) s = Some t" "post (fst (wi_call a c w)) t" using assms by blast
  then show "\<exists>seg s'. ev (snd (run_state (api a c) w)) = ev w @ seg \<and> follow step seg s = Some s' \<and>
      post (fst (run_state (api a c) w)) s'"
    by (intro exI [of _ "[(c, fst (wi_call a c w))]"] exI [of _ t]) (simp add: api_def recorded)
qed

lemma tracked_then:
  assumes "\<And>r. \<exists>t. step c r s = Some t \<and> tracked step ev t (g r) post"
  shows "tracked step ev s (State_Monad.bind (api a c) g) post"
  by (intro tracked_bind tracked_api assms)

lemma tracked_checked:
  assumes "\<And>r. \<exists>t. step c r s = Some t \<and> (rp_value r = 0 \<longrightarrow> (\<forall>e. post (Inl e) t)) \<and> (rp_value r \<noteq> 0 \<longrightarrow> post (Inr (f r)) t)"
  shows "tracked step ev s (checked a operation c f) post"
  unfolding checked_def
proof (rule tracked_then)
  fix r
  obtain t where "step c r s = Some t" "rp_value r = 0 \<longrightarrow> (\<forall>e. post (Inl e) t)" "rp_value r \<noteq> 0 \<longrightarrow> post (Inr (f r)) t"
    using assms by blast
  then show "\<exists>t. step c r s = Some t \<and>
      tracked step ev t (if rp_value r = 0 then last_error a operation else ok_value (f r)) post"
    by (auto intro: tracked_values)
qed

end

interpretation recording: recorded_calls "logged a" fst for a
  by unfold_locales (simp add: logged_def case_prod_beta)

section \<open>Resources\<close>

datatype resource =
    ScreenContext handle
  | MemoryContext handle
  | BitmapHeld handle
  | Selected handle handle
  | ProcessOpen handle
  | ClipboardOpen
  | BlockHeld handle
  | BlockLocked handle handle

definition acquire :: "resource \<Rightarrow> api_reply \<Rightarrow> resource list \<Rightarrow> resource list option" where
  "acquire x r st = Some (if rp_value r = 0 then st else x # st)"

definition release :: "resource \<Rightarrow> resource list \<Rightarrow> resource list option" where
  "release x st = (case st of y # rest \<Rightarrow> if x = y then Some rest else None | [] \<Rightarrow> None)"

definition needing :: "resource list \<Rightarrow> resource list \<Rightarrow> resource list option \<Rightarrow> resource list option" where
  "needing xs st after = (if set xs \<subseteq> set st then after else None)"

text \<open>What a call does to the stack of the resources held: \<open>None\<close> when it uses something that
  is not held, or releases what was not acquired last. A bitmap is selected on top of its
  context until the previous object is selected again; a block that the clipboard accepted
  belongs to the clipboard.\<close>

definition unwind :: "resource list step" where
  "unwind c r st =
     (case c of
        GetDC w \<Rightarrow> acquire (ScreenContext (rp_value r)) r st
      | CreateCompatibleDC s \<Rightarrow> needing [ScreenContext s] st (acquire (MemoryContext (rp_value r)) r st)
      | CreateCompatibleBitmap s w h \<Rightarrow> needing [ScreenContext s] st (acquire (BitmapHeld (rp_value r)) r st)
      | SelectObject m b \<Rightarrow>
          (if st \<noteq> [] \<and> hd st = Selected m b then Some (tl st)
           else needing [MemoryContext m, BitmapHeld b] st (Some (Selected m (rp_value r) # st)))
      | BitBlt m w h s x y \<Rightarrow> needing [MemoryContext m, ScreenContext s] st (Some st)
      | GetDIBits m b n w h \<Rightarrow> needing [MemoryContext m, BitmapHeld b] st (Some st)
      | DeleteObject b \<Rightarrow> release (BitmapHeld b) st
      | DeleteDC m \<Rightarrow> release (MemoryContext m) st
      | ReleaseDC w s \<Rightarrow> release (ScreenContext s) st
      | OpenProcess p \<Rightarrow> acquire (ProcessOpen (rp_value r)) r st
      | QueryFullProcessImageName p n \<Rightarrow> needing [ProcessOpen p] st (Some st)
      | CloseHandle p \<Rightarrow> release (ProcessOpen p) st
      | OpenClipboard \<Rightarrow> acquire ClipboardOpen r st
      | EmptyClipboard \<Rightarrow> needing [ClipboardOpen] st (Some st)
      | GetClipboardText \<Rightarrow> needing [ClipboardOpen] st (Some st)
      | SetClipboardText b \<Rightarrow>
          needing [ClipboardOpen, BlockHeld b] st (if rp_value r = 0 then Some st else release (BlockHeld b) st)
      | CloseClipboard \<Rightarrow> release ClipboardOpen st
      | GlobalAlloc n \<Rightarrow> acquire (BlockHeld (rp_value r)) r st
      | GlobalLock b \<Rightarrow> acquire (BlockLocked b (rp_value r)) r st
      | CopyUnits p units \<Rightarrow> (case st of BlockLocked b q # rest \<Rightarrow> if p = q then Some st else None | _ \<Rightarrow> None)
      | GlobalUnlock b \<Rightarrow> (case st of BlockLocked b' q # rest \<Rightarrow> if b = b' then Some rest else None | _ \<Rightarrow> None)
      | GlobalFree b \<Rightarrow> release (BlockHeld b) st
      | _ \<Rightarrow> Some st)"

lemmas unwinding = unwind_def acquire_def release_def needing_def

lemmas tracked_rules =
  recording.tracked_then recording.tracked_checked tracked_cases tracked_return tracked_values

lemma process_name_unwinds: "tracked unwind fst [] (window_process_name (logged a) hwnd) (\<lambda>_ st. st = [])"
  unfolding window_process_name_def
  by (auto simp: unwinding intro!: tracked_rules)

lemma window_unwinds: "tracked unwind fst [] (window_of (logged a) hwnd) (\<lambda>_ st. st = [])"
  unfolding window_of_def
proof (rule tracked_bind, rule tracked_weaken)
  show "tracked unwind fst [] (window_title (logged a) hwnd) (\<lambda>_ st. st = [])"
    unfolding window_title_def by (auto simp: unwinding intro!: tracked_rules)
next
  fix title :: string and st :: "resource list"
  have "tracked unwind fst [] (window_class (logged a) hwnd) (\<lambda>_ st. st = [])"
    unfolding window_class_def by (auto simp: unwinding intro!: tracked_rules)
  moreover have "tracked unwind fst [] (window_rect (logged a) hwnd) (\<lambda>_ st. st = [])"
    unfolding window_rect_def by (auto simp: unwinding intro!: tracked_rules)
  moreover assume "st = []"
  ultimately show "tracked unwind fst st
      (do { class_name \<leftarrow> window_class (logged a) hwnd;
            process_name \<leftarrow> window_process_name (logged a) hwnd;
            area \<leftarrow> window_rect (logged a) hwnd;
            visible \<leftarrow> api (logged a) (IsWindowVisible hwnd);
            State_Monad.return \<lparr>wr_id = hwnd, wr_title = title, wr_class_name = class_name,
              wr_process_name = process_name, wr_rect = area, wr_visible = (rp_value visible \<noteq> 0)\<rparr> }) (\<lambda>_ st. st = [])"
    using process_name_unwinds [of a hwnd]
    by (auto simp: unwinding intro!: tracked_rules tracked_bind recording.tracked_api elim!: tracked_weaken)
qed

lemma capture_unwinds: "tracked unwind fst [] (win_capture (logged a) x y width height) (\<lambda>_ st. st = [])"
  unfolding win_capture_def copy_screen_def
  by (auto simp: unwinding intro!: tracked_rules)

lemma clipboard_read_unwinds: "tracked unwind fst [] (win_clipboard_read (logged a)) (\<lambda>_ st. st = [])"
  unfolding win_clipboard_read_def
  by (auto simp: unwinding intro!: tracked_rules tracked_locked_text tracked_bind recording.tracked_api)

lemma clipboard_write_unwinds: "tracked unwind fst [] (win_clipboard_write (logged a) s) (\<lambda>_ st. st = [])"
  unfolding win_clipboard_write_def hand_over_def abandon_def Let_def
  by (auto simp: unwinding intro!: tracked_rules)

definition unwound :: "(api_log \<times> 'w \<Rightarrow> 'r \<times> (api_log \<times> 'w)) \<Rightarrow> bool" where
  "unwound f \<longleftrightarrow> (\<forall>before w. \<exists>calls. fst (snd (f (before, w))) = before @ calls \<and> follow unwind calls [] = Some [])"

lemma unwoundI: "tracked unwind fst [] f (\<lambda>_ st. st = []) \<Longrightarrow> unwound (run_state f)"
  by (fastforce simp: tracked_def unwound_def)

text \<open>C35. Whatever the Windows API answers, and on every path of success and of failure, the
  wrappers release what they acquire, in the reverse order and exactly once, and use it only
  in between: device contexts, the bitmap and its selection, process handles, the clipboard,
  its memory block and the lock on it.\<close>

theorem resources_are_unwound:
  "unwound (nv_windows (win32_native (logged a))) \<and>
   unwound (nv_capture (win32_native (logged a)) x y width height) \<and>
   unwound (nv_clipboard_read (win32_native (logged a))) \<and>
   unwound (nv_clipboard_write (win32_native (logged a)) s)"
proof -
  have "tracked unwind fst [] (win_windows (logged a)) (\<lambda>_ st. st = [])"
    unfolding win_windows_def
    by (rule recording.tracked_then) (simp add: unwinding tracked_traverse [OF window_unwinds])
  then show ?thesis
    by (simp add: win32_native_def unwoundI capture_unwinds clipboard_read_unwinds clipboard_write_unwinds)
qed

section \<open>The desktop of the input nodes\<close>

fun flags_event :: "mouse_flags \<Rightarrow> input_event" where
  "flags_event MOUSEEVENTF_LEFTDOWN = ButtonEvent LeftButton True"
| "flags_event MOUSEEVENTF_LEFTUP = ButtonEvent LeftButton False"
| "flags_event MOUSEEVENTF_RIGHTDOWN = ButtonEvent RightButton True"
| "flags_event MOUSEEVENTF_RIGHTUP = ButtonEvent RightButton False"
| "flags_event MOUSEEVENTF_MIDDLEDOWN = ButtonEvent MiddleButton True"
| "flags_event MOUSEEVENTF_MIDDLEUP = ButtonEvent MiddleButton False"

definition call_events :: "api_call \<times> api_reply \<Rightarrow> input_event list" where
  "call_events cr =
     (case fst cr of
        KeybdEvent k up \<Rightarrow> [KeyEvent k up]
      | MouseEvent flags \<Rightarrow> [flags_event flags]
      | SetCursorPos x y \<Rightarrow> if rp_value (snd cr) = 0 then [] else [CursorEvent (x, y)]
      | SendMessageTimeout window message wparam lparam ms \<Rightarrow>
          (case message of KeyMessage k \<Rightarrow> [PostedKey window (ucast wparam) (k = WM_KEYDOWN)] | _ \<Rightarrow> [])
      | _ \<Rightarrow> [])"

definition log_events :: "api_log \<Rightarrow> input_event list" where
  "log_events calls = concat (map call_events calls)"

definition events_step :: "input_event list step" where
  "events_step c r es = Some (es @ call_events (c, r))"

lemma follow_events: "follow events_step calls es = Some (es @ log_events calls)"
  by (induction calls arbitrary: es) (auto simp: events_step_def log_events_def)

definition leaves_events :: "(api_log \<times> 'w, 'a) win \<Rightarrow> ('a \<Rightarrow> input_event list \<Rightarrow> bool) \<Rightarrow> bool" where
  "leaves_events f post \<longleftrightarrow> (\<forall>s. \<exists>es. log_events (fst (snd (run_state f s))) = log_events (fst s) @ es \<and> post (fst (run_state f s)) es)"

lemma leaves_eventsI: "tracked events_step fst [] f post \<Longrightarrow> leaves_events f post"
  unfolding leaves_events_def
proof
  fix s
  assume "tracked events_step fst [] f post"
  then obtain seg es where "fst (snd (run_state f s)) = fst s @ seg" "follow events_step seg [] = Some es"
    "post (fst (run_state f s)) es"
    unfolding tracked_def by blast
  then show "\<exists>es. log_events (fst (snd (run_state f s))) = log_events (fst s) @ es \<and> post (fst (run_state f s)) es"
    by (intro exI [of _ es]) (auto simp: follow_events log_events_def)
qed

text \<open>The machine of the run, over the same world.\<close>

definition logged_machine :: "'w machine \<Rightarrow> (api_log \<times> 'w) machine" where
  "logged_machine m =
     \<lparr>mc_ext = mc_ext m,
      mc_now_ms = (\<lambda>s. let (t, w) = mc_now_ms m (snd s) in (t, (fst s, w))),
      mc_instant_ns = (\<lambda>s. let (t, w) = mc_instant_ns m (snd s) in (t, (fst s, w))),
      mc_sleep_ms = (\<lambda>ms s. (fst s, mc_sleep_ms m ms (snd s))),
      mc_uuid = (\<lambda>s. let (u, w) = mc_uuid m (snd s) in (u, (fst s, w)))\<rparr>"

lemmas event_rules = events_step_def call_events_def

lemma button_event: "flags_event (button_flags b down) = ButtonEvent b down"
  by (cases b) auto

lemma byte_through_handle: "ucast (ucast (k :: u8) :: handle) = k"
  by (rule bit_word_eqI) (auto simp: bit_unsigned_iff)

lemma input_calls_leave:
  "leaves_events (win_key (logged a) k up) (\<lambda>_ es. es = [KeyEvent k up])"
  "leaves_events (win_mouse_button (logged a) b down) (\<lambda>r es. r = Inr () \<and> es = [ButtonEvent b down])"
  "leaves_events (win_set_cursor (logged a) x y) (\<lambda>r es. es = (if is_ok r then [CursorEvent (x, y)] else []))"
  "leaves_events (win_send_key (logged a) window k down) (\<lambda>_ es. es = [PostedKey window k down])"
  "leaves_events (win_cursor_position (logged a)) (\<lambda>_ es. es = [])"
  "leaves_events (win_foreground_window (logged a)) (\<lambda>_ es. es = [])"
  "leaves_events (win_focus (logged a) window) (\<lambda>_ es. es = [])"
  unfolding win_key_def win_mouse_button_def win_set_cursor_def win_send_key_def win_cursor_position_def
    win_foreground_window_def win_focus_def
  by (auto simp: event_rules button_event byte_through_handle intro!: leaves_eventsI tracked_rules)

lemma window_queries_leave:
  "tracked events_step fst [] (window_title (logged a) hwnd) (\<lambda>_ es. es = [])"
  "tracked events_step fst [] (window_class (logged a) hwnd) (\<lambda>_ es. es = [])"
  "tracked events_step fst [] (window_rect (logged a) hwnd) (\<lambda>_ es. es = [])"
  "tracked events_step fst [] (window_process_name (logged a) hwnd) (\<lambda>_ es. es = [])"
  unfolding window_title_def window_class_def window_rect_def window_process_name_def
  by (auto simp: event_rules intro!: tracked_rules)

lemma windows_leave: "leaves_events (win_windows (logged a)) (\<lambda>_ es. es = [])"
proof -
  have "tracked events_step fst [] (window_of (logged a) hwnd) (\<lambda>_ es. es = [])" for hwnd
    unfolding window_of_def
    by (rule tracked_bind tracked_weaken [OF window_queries_leave(1)] tracked_weaken [OF window_queries_leave(2)]
          tracked_weaken [OF window_queries_leave(3)] tracked_weaken [OF window_queries_leave(4)]
        | simp add: event_rules tracked_return recording.tracked_api)+
  then show ?thesis
    unfolding win_windows_def
    by (intro leaves_eventsI recording.tracked_then) (simp add: event_rules tracked_traverse)
qed

text \<open>C36. The wrappers are the desktop that the input nodes rely on: read as input events, the calls
  to the Windows API satisfy every law of \<open>input_log\<close>. A key and a button leave exactly their
  transition, a cursor movement exactly when it succeeds, a posted key its message with the
  direction asked for, and the queries nothing.\<close>

theorem windows_is_the_desktop_of_the_nodes:
  "input_log (win32_native (logged a)) (logged_machine m) (\<lambda>s. log_events (fst s))"
  using input_calls_leave [of a] windows_leave [of a]
  unfolding input_log_def leaves_events_def
  by (simp add: win32_native_def logged_machine_def case_prod_beta)

section \<open>Pixels, text and coordinates\<close>

text \<open>A captured buffer has four bytes for each pixel, which is what the encoder asks for.\<close>

lemma filled_length [simp]: "length (filled n xs) = n"
  by (simp add: filled_def)

lemma captures_have_all_pixels:
  assumes "nv_capture (win32_native a) x y width height w = (Inr pixels, w')"
  shows "length pixels = unat width * unat height * 4"
  using assms
  by (auto simp: win32_native_def win_capture_def copy_screen_def last_error_def ok_value_def win_error_def
      split: if_splits prod.splits)

lemma bgra_pixels: "length bytes = 4 * k \<Longrightarrow> bgra_to_rgba bytes = concat (map (\<lambda>i. [bytes ! (4 * i + 2), bytes ! (4 * i + 1), bytes ! (4 * i), 0xFF]) [0..<k])"
proof (induction k arbitrary: bytes)
  case (Suc k)
  then obtain b g r u rest where bytes: "bytes = b # g # r # u # rest" "length rest = 4 * k"
    by (auto simp: length_Suc_conv numeral_eq_Suc)
  have "[0..<Suc k] = 0 # map Suc [0..<k]" by (simp add: upt_conv_Cons map_Suc_upt del: upt_Suc)
  then show ?case using Suc.IH [OF bytes(2)] by (simp add: bytes(1) comp_def numeral_eq_Suc)
qed (simp add: numeral_eq_Suc)

lemma captures_are_encoded:
  assumes "nv_capture (win32_native a) x y width height w = (Inr pixels, w')"
  shows "encode_png ic pixels width height =
    (let rgba = concat (map (\<lambda>i. [pixels ! (4 * i + 2), pixels ! (4 * i + 1), pixels ! (4 * i), 0xFF]) [0..<unat width * unat height])
     in if \<not> ic_from_raw ic width height rgba
        then Inl (ExecutionFailed ''capture dimensions are inconsistent'')
        else (case ic_png ic width height rgba of Inl e \<Rightarrow> Inl (ExecutionFailed e) | Inr bytes \<Rightarrow> Inr bytes))"
proof -
  note n = captures_have_all_pixels [OF assms]
  then have "length pixels = 4 * (unat width * unat height)" by simp
  from bgra_pixels [OF this] show ?thesis by (simp add: encode_png_def Let_def n)
qed

lemma unit_count_bounds: "count \<le> unit_count units count left \<and> unit_count units count left \<le> count + left"
proof (induction units count left rule: unit_count.induct)
  case (2 units count left)
  then show ?case by (auto simp: le_Suc_eq dest: le_trans)
qed simp

lemma unit_count_nonzero: "count \<le> i \<Longrightarrow> i < unit_count units count left \<Longrightarrow> units i \<noteq> 0"
  by (induction units count left rule: unit_count.induct) (auto simp: le_Suc_eq Suc_le_eq split: if_splits, force)

definition lparam_x :: "handle \<Rightarrow> int" where
  "lparam_x l = sint (ucast l :: u16)"

definition lparam_y :: "handle \<Rightarrow> int" where
  "lparam_y l = sint (ucast (drop_bit 16 l) :: u16)"

lemma lparam_low: "ucast (mouse_lparam x y) = (ucast x :: u16)"
  by (rule bit_word_eqI) (auto simp: mouse_lparam_def bit_unsigned_iff bit_or_iff bit_push_bit_iff)

lemma lparam_high: "ucast (drop_bit 16 (mouse_lparam x y)) = (ucast y :: u16)"
  by (rule bit_word_eqI) (auto simp: mouse_lparam_def bit_unsigned_iff bit_or_iff bit_push_bit_iff bit_drop_bit_eq)

lemma sint_low: "- (2 ^ 15) \<le> sint (x :: i32) \<Longrightarrow> sint x < 2 ^ 15 \<Longrightarrow> sint (ucast x :: u16) = sint x"
proof -
  assume "- (2 ^ 15) \<le> sint x" "sint x < 2 ^ 15"
  moreover have "(ucast x :: u16) = word_of_int (sint x)"
    by (rule bit_word_eqI) (auto simp: bit_unsigned_iff bit_signed_iff min_def)
  ultimately show ?thesis by (simp only: sint_sbintrunc') (auto intro: signed_take_bit_int_eq_self)
qed

text \<open>Client coordinates survive the packing into the message as long as they fit 16 bits.\<close>

lemma message_coordinates:
  assumes "- (2 ^ 15) \<le> sint x" "sint x < 2 ^ 15" "- (2 ^ 15) \<le> sint y" "sint y < 2 ^ 15"
  shows "lparam_x (mouse_lparam x y) = sint x" "lparam_y (mouse_lparam x y) = sint y"
  using sint_low [OF assms(1,2)] sint_low [OF assms(3,4)]
  by (simp_all add: lparam_x_def lparam_y_def lparam_low lparam_high)

end
