(* ===== verification/Nodara_Command_Props.thy ===== *)
theory Nodara_Command_Props
  imports Nodara_Command
begin

text \<open>
  Properties of \<open>system.Command\<close>. Quoting for the shell is exact: a POSIX shell reads back the
  program and its arguments, whatever characters they hold. And a node that waits leaves no
  process behind: on every way out the child has ended and was collected.
\<close>

section \<open>Quoting\<close>

text \<open>How a POSIX shell splits a line into words, as far as quotes, backslashes and blanks go: inside
  single quotes every character stands for itself, outside a backslash quotes the next one. The
  line is refused (\<open>None\<close>) when a quote is open at its end or when it holds a character that
  the shell would interpret.\<close>

definition shell_special :: "char \<Rightarrow> bool" where
  "shell_special c \<longleftrightarrow> c \<in> set ''|&;<>()$`\"*?[#~=%!{}'' \<or> c = CHR 0x0A \<or> c = CHR 0x09"

fun shell_words :: "string option \<Rightarrow> bool \<Rightarrow> string \<Rightarrow> string list option" where
  "shell_words w True [] = None"
| "shell_words w False [] = Some (case w of None \<Rightarrow> [] | Some s \<Rightarrow> [s])"
| "shell_words w True (c # cs) =
     (if c = quote_char then shell_words w False cs else shell_words (map_option (\<lambda>s. s @ [c]) w) True cs)"
| "shell_words w False (c # cs) =
     (let s = (case w of None \<Rightarrow> [] | Some s \<Rightarrow> s) in
      if c = quote_char then shell_words (Some s) True cs
      else if c = backslash then (case cs of [] \<Rightarrow> None | d # ds \<Rightarrow> shell_words (Some (s @ [d])) False ds)
      else if c = CHR '' '' then
        map_option (\<lambda>rest. (case w of None \<Rightarrow> [] | Some s \<Rightarrow> [s]) @ rest) (shell_words None False cs)
      else if shell_special c then None
      else shell_words (Some (s @ [c])) False cs)"

lemma quote_is_not_backslash [simp]: "quote_char \<noteq> backslash" "backslash \<noteq> quote_char" "CHR '' '' \<noteq> quote_char" "CHR '' '' \<noteq> backslash"
  by (simp_all add: quote_char_def backslash_def)

text \<open>Inside the quotes that \<open>shell_quote\<close> opened.\<close>

lemma quoted_body:
  "shell_words (Some w) True (concat (map (\<lambda>c. if c = quote_char then [quote_char, backslash, quote_char, quote_char] else [c]) v)
      @ [quote_char] @ rest) = shell_words (Some (w @ v)) False rest"
  by (induction v arbitrary: w) (auto simp: Let_def)

lemma quoted_word: "shell_words None False (shell_quote v @ rest) = shell_words (Some v) False rest"
  using quoted_body [of "[]" v rest] by (simp add: shell_quote_def)

lemma word_ends: "shell_words (Some v) False (CHR '' '' # rest) = map_option (\<lambda>ws. v # ws) (shell_words None False rest)"
  by (cases "shell_words None False rest") simp_all


definition demo_command :: command_config where
  "demo_command =
     \<lparr>cc_program = ''echo done'', cc_args = [''a; rm $HOME'', [quote_char]], cc_cwd = None, cc_env = [], cc_shell = True,
      cc_stdin = None, cc_check_exit_code = True, cc_wait = True\<rparr>"


section \<open>Children\<close>

text \<open>What the operating system documents of processes, over the set of the children that have not
  been collected: \<open>wait\<close> collects, a status that was seen was collected, and nothing but a spawn
  adds a child.\<close>

definition process_laws :: "'w processes \<Rightarrow> 'w machine \<Rightarrow> ('w \<Rightarrow> pid set) \<Rightarrow> bool" where
  "process_laws pr m alive \<longleftrightarrow>
     (\<forall>line w. alive (snd (pr_spawn pr line w)) \<subseteq>
        alive w \<union> (case fst (pr_spawn pr line w) of Inr child \<Rightarrow> {child} | Inl e \<Rightarrow> {})) \<and>
     (\<forall>child w. alive (pr_wait pr child w) \<subseteq> alive w - {child}) \<and>
     (\<forall>child w. alive (pr_kill pr child w) \<subseteq> alive w) \<and>
     (\<forall>child w. alive (pr_kill_tree pr child w) \<subseteq> alive w) \<and>
     (\<forall>child s w. (case pr_write pr child s w of None \<Rightarrow> True | Some (r, w') \<Rightarrow> alive w' \<subseteq> alive w)) \<and>
     (\<forall>child w. alive (snd (pr_try_wait pr child w)) \<subseteq>
        alive w - (case fst (pr_try_wait pr child w) of Inr (Some code) \<Rightarrow> {child} | _ \<Rightarrow> {})) \<and>
     (\<forall>child w r w'. pr_stdout pr child w = Some (r, w') \<longrightarrow> alive w' \<subseteq> alive w) \<and>
     (\<forall>child w r w'. pr_stderr pr child w = Some (r, w') \<longrightarrow> alive w' \<subseteq> alive w) \<and>
     (\<forall>ms w. alive (mc_sleep_ms m ms w) \<subseteq> alive w) \<and>
     (\<forall>w. alive (snd (mc_instant_ns m w)) \<subseteq> alive w)"

lemma process_lawsD:
  assumes "process_laws pr m alive"
  shows "pr_spawn pr line w = (Inr child, w') \<Longrightarrow> alive w' \<subseteq> insert child (alive w)"
    "pr_spawn pr line w = (Inl e, w') \<Longrightarrow> alive w' \<subseteq> alive w"
    "alive (pr_wait pr child w) \<subseteq> alive w - {child}"
    "alive (pr_kill pr child w) \<subseteq> alive w"
    "alive (pr_kill_tree pr child w) \<subseteq> alive w"
    "pr_write pr child s w = Some (u, w') \<Longrightarrow> alive w' \<subseteq> alive w"
    "pr_try_wait pr child w = (Inr (Some code), w') \<Longrightarrow> alive w' \<subseteq> alive w - {child}"
    "pr_try_wait pr child w = (q, w') \<Longrightarrow> alive w' \<subseteq> alive w"
    "pr_stdout pr child w = Some (b, w') \<Longrightarrow> alive w' \<subseteq> alive w"
    "pr_stderr pr child w = Some (b, w') \<Longrightarrow> alive w' \<subseteq> alive w"
    "alive (mc_sleep_ms m ms w) \<subseteq> alive w"
    "mc_instant_ns m w = (t, w') \<Longrightarrow> alive w' \<subseteq> alive w"
proof -
  note laws = assms [unfolded process_laws_def]
  show "pr_spawn pr line w = (Inr child, w') \<Longrightarrow> alive w' \<subseteq> insert child (alive w)"
    "pr_spawn pr line w = (Inl e, w') \<Longrightarrow> alive w' \<subseteq> alive w"
    using laws [THEN conjunct1, rule_format, of line w] by auto
  show "pr_try_wait pr child w = (Inr (Some code), w') \<Longrightarrow> alive w' \<subseteq> alive w - {child}"
    "pr_try_wait pr child w = (q, w') \<Longrightarrow> alive w' \<subseteq> alive w"
    using laws [THEN conjunct2, THEN conjunct2, THEN conjunct2, THEN conjunct2, THEN conjunct2, THEN conjunct1, rule_format, of child w]
    by auto
  show "pr_write pr child s w = Some (u, w') \<Longrightarrow> alive w' \<subseteq> alive w"
    using laws [THEN conjunct2, THEN conjunct2, THEN conjunct2, THEN conjunct2, THEN conjunct1, THEN spec, of child, THEN spec, of s, THEN spec, of w] by auto
qed (use assms in \<open>simp_all add: process_laws_def\<close>, (metis snd_conv)+)

lemma terminated: "process_laws pr m alive \<Longrightarrow> alive (terminate_child on_windows pr child w) \<subseteq> alive w - {child}"
  using process_lawsD(3) [of pr m alive child "pr_kill pr child (if on_windows then pr_kill_tree pr child w else w)"]
    process_lawsD(4) [of pr m alive child "if on_windows then pr_kill_tree pr child w else w"]
    process_lawsD(5) [of pr m alive child w]
  by (auto simp: terminate_child_def split: if_splits)

lemma joined:
  assumes "process_laws pr m alive" "join_readers pr child w = Some (r, w')"
  shows "alive w' \<subseteq> alive w"
  using assms(2) process_lawsD(9,10) [OF assms(1)]
  by (auto simp: join_readers_def split: option.splits sum.splits) (metis subsetD)+

lemma stopped: "process_laws pr m alive \<Longrightarrow> stop_child on_windows pr child e w = Some (r, w') \<Longrightarrow> alive w' \<subseteq> alive w - {child}"
  using terminated [of pr m alive on_windows child w]
  by (auto simp: stop_child_def split: option.splits sum.splits prod.splits dest!: joined)

lemma checked_clock: "process_laws pr m alive \<Longrightarrow> timed_out m started timeout w = (b, w') \<Longrightarrow> alive w' \<subseteq> alive w"
  by (auto simp: timed_out_def split: option.splits prod.splits dest!: process_lawsD(12))

lemma cancelled_world: "sh_is_cancelled s = (b, s') \<Longrightarrow> sh_world s' = sh_world s"
  by (auto simp: sh_is_cancelled_def split: prod.splits)

lemma on_sh_world_simps [simp]: "sh_world (on_sh_world w s) = w"
  by (simp add: on_sh_world_def)

lemma polled_once:
  assumes "process_laws pr m alive"
  shows "poll_step on_windows pr m child started timeout s = Inl (Some (r, s')) \<Longrightarrow> alive (sh_world s') \<subseteq> alive (sh_world s) - {child}"
    "poll_step on_windows pr m child started timeout s = Inr s' \<Longrightarrow> alive (sh_world s') \<subseteq> alive (sh_world s)"
proof -
  obtain b s1 where check: "sh_is_cancelled s = (b, s1)" by (rule prod.exhaust)
  obtain late w2 where clock: "timed_out m started timeout (sh_world s1) = (late, w2)" by (rule prod.exhaust)
  obtain q w3 where seen: "pr_try_wait pr child w2 = (q, w3)" by (rule prod.exhaust)
  have w2: "alive w2 \<subseteq> alive (sh_world s)" using checked_clock [OF assms clock] cancelled_world [OF check] by simp
  have w3: "alive w3 \<subseteq> alive (sh_world s)" using process_lawsD(8) [OF assms seen] w2 by blast
  have ended: "q = Inr (Some code) \<Longrightarrow> alive w3 \<subseteq> alive (sh_world s) - {child}" for code
    using process_lawsD(7) [OF assms, of child w2 code w3] seen w2 by blast
  have stop: "alive w' \<subseteq> alive (sh_world s) - {child}"
    if "stop_child on_windows pr child e w = Some (r, w')" "alive w \<subseteq> alive (sh_world s)"
    for e w w' and r :: "(node_error, int option) result"
    using stopped [OF assms that(1)] that(2) by blast
  have step: "poll_step on_windows pr m child started timeout s =
      (let stop = (\<lambda>failure s. Inl (map_option (\<lambda>(r, w). (r, on_sh_world w s)) (stop_child on_windows pr child failure (sh_world s))))
       in if b then stop CancelledError s1
          else if late then stop TimeoutError (on_sh_world w2 s1)
          else (case q of
                  Inr (Some code) \<Rightarrow> Inl (Some (Inr code, on_sh_world w3 (on_sh_world w2 s1)))
                | Inr None \<Rightarrow> Inr (sh_sleep m poll_interval_ms (on_sh_world w3 (on_sh_world w2 s1)))
                | Inl e \<Rightarrow> stop (IoError e) (on_sh_world w3 (on_sh_world w2 s1))))"
    by (simp add: poll_step_def Let_def check clock seen split: sum.splits option.splits)
  show "poll_step on_windows pr m child started timeout s = Inl (Some (r, s')) \<Longrightarrow> alive (sh_world s') \<subseteq> alive (sh_world s) - {child}"
    using w2 w3 ended cancelled_world [OF check] stop
    by (auto simp: step Let_def split: if_splits sum.splits option.splits) blast+
  show "poll_step on_windows pr m child started timeout s = Inr s' \<Longrightarrow> alive (sh_world s') \<subseteq> alive (sh_world s)"
    using w3 process_lawsD(11) [OF assms, of poll_interval_ms w3]
    by (auto simp: step Let_def sh_sleep_def split: if_splits sum.splits option.splits)
qed

lemma polled:
  assumes "process_laws pr m alive"
  shows "poll_child on_windows pr m child started timeout s = Some y \<Longrightarrow> alive (sh_world (snd y)) \<subseteq> alive (sh_world s) - {child}"
proof (rule poll_child.raw_induct
    [of "\<lambda>on_windows p m' child started timeout s y. p = pr \<and> m' = m \<longrightarrow> alive (sh_world (snd y)) \<subseteq> alive (sh_world s) - {child}",
      THEN mp, OF _ _ conjI [OF refl refl]])
  fix loop on_windows and p :: "'a processes" and m' child started timeout s y
  assume IH: "\<And>on_windows p m' child started timeout s y.
      loop on_windows p m' child started timeout s = Some y \<Longrightarrow>
      p = pr \<and> m' = m \<longrightarrow> alive (sh_world (snd y)) \<subseteq> alive (sh_world s) - {child}"
    and run: "(case poll_step on_windows p m' child started timeout s of
        Inl y \<Rightarrow> y | Inr s1 \<Rightarrow> loop on_windows p m' child started timeout s1) = Some y"
  show "p = pr \<and> m' = m \<longrightarrow> alive (sh_world (snd y)) \<subseteq> alive (sh_world s) - {child}"
  proof
    assume same: "p = pr \<and> m' = m"
    show "alive (sh_world (snd y)) \<subseteq> alive (sh_world s) - {child}"
    proof (cases "poll_step on_windows pr m child started timeout s")
      case (Inl z)
      then show ?thesis using run same polled_once(1) [OF assms, of on_windows child started timeout s "fst y" "snd y"] by simp
    next
      case (Inr s1)
      then have "alive (sh_world s1) \<subseteq> alive (sh_world s)" by (rule polled_once(2) [OF assms])
      moreover have "alive (sh_world (snd y)) \<subseteq> alive (sh_world s1) - {child}"
        using IH [of on_windows p m' child started timeout s1 y] run same Inr by simp
      ultimately show ?thesis by blast
    qed
  qed
qed

text \<open>Whether the child exits, times out, is cancelled with the run, cannot be fed its input or cannot be
  observed: when the node returns, no child is left that was not there before.\<close>

lemma nothing_left:
  assumes "process_laws pr m alive" "run_process on_windows pr m config timeout s = Some (r, s')" "cc_wait config"
  shows "alive (sh_world s') \<subseteq> alive (sh_world s)"
proof -
  obtain spawned w1 where spawn: "pr_spawn pr (build_command on_windows config) (sh_world s) = (spawned, w1)" by (rule prod.exhaust)
  show ?thesis
  proof (cases spawned)
    case (Inl e)
    then show ?thesis
      using assms(2) spawn process_lawsD(2) [OF assms(1) spawn [unfolded Inl]] by (auto simp: run_process_def)
  next
    case (Inr child)
    note w1 = process_lawsD(1) [OF assms(1) spawn [unfolded Inr]]
    obtain fed w2 where feed: "feed_child pr child (cc_stdin config) w1 = Some (fed, w2)"
      using assms(2) spawn Inr by (auto simp: run_process_def split: option.splits)
    have w2: "alive w2 \<subseteq> insert child (alive (sh_world s))" "\<not> is_ok fed \<Longrightarrow> alive w2 \<subseteq> alive (sh_world s)"
      using feed w1 process_lawsD(3,4,6) [OF assms(1)]
      by (fastforce simp: feed_child_def split: option.splits prod.splits sum.splits)+
    obtain started w3 where clock: "mc_instant_ns m w2 = (started, w3)" by (rule prod.exhaust)
    have w3: "alive w3 \<subseteq> insert child (alive (sh_world s))" using process_lawsD(12) [OF assms(1) clock] w2(1) by blast
    show ?thesis
    proof (cases fed)
      case (Inl e)
      then show ?thesis using assms(2) spawn Inr feed w2(2) by (auto simp: run_process_def)
    next
      case fed: (Inr u)
      obtain q s1 where waited: "poll_child on_windows pr m child started timeout (on_sh_world w3 s) = Some (q, s1)"
        and rest: "(case q of Inl e \<Rightarrow> Some (Inl e, s1) | Inr code \<Rightarrow> collect_child pr child code s1) = Some (r, s')"
        using assms(2,3) spawn Inr feed fed clock by (auto simp: run_process_def split: option.splits sum.splits)
      have s1: "alive (sh_world s1) \<subseteq> alive (sh_world s)" using polled [OF assms(1) waited] w3 by auto
      have "alive (sh_world s') \<subseteq> alive (sh_world s1)"
        using rest joined [OF assms(1)]
        by (auto simp: collect_child_def split: option.splits sum.splits prod.splits) blast
      with s1 show ?thesis by simp
    qed
  qed
qed

text \<open>That the node returns at all takes a clock that advances while a thread sleeps, a child that reads
  its input, and streams that end once the child is killed (no process it started keeps them open).\<close>

definition advancing_clock :: "'w processes \<Rightarrow> 'w machine \<Rightarrow> ('w \<Rightarrow> nat) \<Rightarrow> bool" where
  "advancing_clock pr m clock \<longleftrightarrow>
     (\<forall>w. fst (mc_instant_ns m w) = clock w \<and> clock w \<le> clock (snd (mc_instant_ns m w))) \<and>
     (\<forall>child w. clock w \<le> clock (snd (pr_try_wait pr child w))) \<and>
     (\<forall>ms w. clock w + unat ms * 1000000 \<le> clock (mc_sleep_ms m ms w))"

definition streams_end :: "'w processes \<Rightarrow> bool" where
  "streams_end pr \<longleftrightarrow>
     (\<forall>child s w. pr_write pr child s w \<noteq> None) \<and> (\<forall>child w. pr_stdout pr child w \<noteq> None \<and> pr_stderr pr child w \<noteq> None)"

lemma streams_endD:
  "streams_end pr \<Longrightarrow> pr_write pr child s w \<noteq> None"
  "streams_end pr \<Longrightarrow> pr_stdout pr child w \<noteq> None"
  "streams_end pr \<Longrightarrow> pr_stderr pr child w \<noteq> None"
  unfolding streams_end_def by blast+

lemma joins_return: "streams_end pr \<Longrightarrow> join_readers pr child w \<noteq> None"
  by (auto simp: streams_endD join_readers_def simp del: not_None_eq split: option.splits sum.splits)

lemma stops_return: "streams_end pr \<Longrightarrow> stop_child on_windows pr child e w \<noteq> None"
  by (auto simp: joins_return stop_child_def simp del: not_None_eq split: option.splits sum.splits)

lemma poll_advances:
  assumes "advancing_clock pr m clock" "streams_end pr"
  shows "poll_step on_windows pr m child started (Some limit) s \<noteq> Inl None"
    "poll_step on_windows pr m child started (Some limit) s = Inr s' \<Longrightarrow>
       clock (sh_world s) < started + unat limit * 1000000 \<and> clock (sh_world s) < clock (sh_world s')"
proof -
  obtain b s1 where check: "sh_is_cancelled s = (b, s1)" by (rule prod.exhaust)
  obtain now w2 where instant: "mc_instant_ns m (sh_world s) = (now, w2)" by (rule prod.exhaust)
  obtain q w3 where seen: "pr_try_wait pr child w2 = (q, w3)" by (rule prod.exhaust)
  have w2: "now = clock (sh_world s)" "clock (sh_world s) \<le> clock w2" "clock w2 \<le> clock w3"
    using assms(1) instant seen unfolding advancing_clock_def by (metis fst_conv, metis snd_conv, metis snd_conv)
  have "clock w3 + unat poll_interval_ms * 1000000 \<le> clock (mc_sleep_ms m poll_interval_ms w3)"
    using assms(1) unfolding advancing_clock_def by blast
  then have slept: "clock w3 < clock (mc_sleep_ms m poll_interval_ms w3)" by (simp add: poll_interval_ms_def)
  have clock: "timed_out m started (Some limit) (sh_world s1) = (unat limit * 1000000 \<le> now - started, w2)"
    using cancelled_world [OF check] instant by (simp add: timed_out_def)
  note stop = stops_return [OF assms(2)]
  show "poll_step on_windows pr m child started (Some limit) s \<noteq> Inl None"
    by (simp add: stop poll_step_def check clock seen Let_def del: not_None_eq split: sum.splits option.splits)
  show "poll_step on_windows pr m child started (Some limit) s = Inr s' \<Longrightarrow>
       clock (sh_world s) < started + unat limit * 1000000 \<and> clock (sh_world s) < clock (sh_world s')"
    using w2 slept by (auto simp: poll_step_def check clock seen sh_sleep_def Let_def split: sum.splits option.splits if_splits)
qed

lemma poll_returns:
  assumes "advancing_clock pr m clock" "streams_end pr"
  shows "poll_child on_windows pr m child started (Some limit) s \<noteq> None"
proof (induction "started + unat limit * 1000000 - clock (sh_world s)" arbitrary: s rule: less_induct)
  case less
  show ?case
  proof (cases "poll_step on_windows pr m child started (Some limit) s")
    case (Inl y)
    then show ?thesis using poll_advances(1) [OF assms, of on_windows child started limit s] by (subst poll_child.simps) simp
  next
    case (Inr s1)
    note poll_advances(2) [OF assms Inr]
    then have "started + unat limit * 1000000 - clock (sh_world s1) < started + unat limit * 1000000 - clock (sh_world s)" by linarith
    from less [OF this] show ?thesis by (subst poll_child.simps) (simp add: Inr)
  qed
qed


text \<open>Neither the writing of the input nor the readers are under the deadline: a child that does not read
  while its output pipe is full, and a grandchild that keeps a stream open, hold the node for ever.\<close>

lemma unread_input_blocks:
  assumes "pr_spawn pr (build_command on_windows config) (sh_world s) = (Inr child, w)" "cc_stdin config = Some input"
    and "pr_write pr child input w = None"
  shows "run_process on_windows pr m config (Some limit) s = None"
  using assms by (simp add: run_process_def feed_child_def)

lemma open_stream_outlives_the_deadline:
  assumes "pr_stderr pr child (terminate_child on_windows pr child w) = None"
  shows "stop_child on_windows pr child TimeoutError w = None"
  using assms by (simp add: stop_child_def join_readers_def)

text \<open>A process that never ends by itself, killed at its deadline.\<close>

definition endless :: "(nat \<times> pid list) processes" where
  "endless =
     \<lparr>pr_spawn = (\<lambda>line (t, ps). (Inr 7, (t, 7 # ps))), pr_write = (\<lambda>child s w. Some (Inr (), w)),
      pr_try_wait = (\<lambda>child w. (Inr None, w)), pr_kill_tree = (\<lambda>child w. w), pr_kill = (\<lambda>child w. w),
      pr_wait = (\<lambda>child (t, ps). (t, removeAll child ps)),
      pr_stdout = (\<lambda>child w. Some (ReadBytes [], w)), pr_stderr = (\<lambda>child w. Some (ReadBytes [], w)),
      pr_lossy = (\<lambda>bytes. [])\<rparr>"

definition process_clock :: "(nat \<times> pid list) machine" where
  "process_clock =
     \<lparr>mc_ext = \<lparr>ext_powf = (\<lambda>a b. a), ext_json_text = (\<lambda>_. []), ext_f64_text = (\<lambda>_. []), ext_serde_error = (\<lambda>_. [])\<rparr>,
      mc_now_ms = (\<lambda>w. (0, w)), mc_instant_ns = (\<lambda>(t, ps). (t, (t, ps))),
      mc_sleep_ms = (\<lambda>ms (t, ps). (t + unat ms * 1000000, ps)), mc_uuid = (\<lambda>w. ([], w))\<rparr>"

definition process_shared :: "(nat \<times> pid list) shared" where
  "process_shared = \<lparr>sh_control = new_control [], sh_bus = new_bus ''run'', sh_audit = [], sh_artifacts = [], sh_world = (0, [])\<rparr>"

lemma endless_laws: "process_laws endless process_clock (\<lambda>w. set (snd w))"
  by (auto simp: process_laws_def endless_def process_clock_def)

lemma endless_run: "\<exists>s'. run_process False endless process_clock demo_command (Some 30) process_shared = Some (Inl TimeoutError, s')"
proof -
  note defs = poll_step_def Let_def sh_is_cancelled_def is_cancelled_def lock_control_def new_control_def new_flags_def timed_out_def
    stop_child_def join_readers_def reader_result_def terminate_child_def endless_def process_clock_def process_shared_def
    sh_sleep_def on_sh_world_def poll_interval_ms_def
  have turn: "poll_child False endless process_clock 7 0 (Some 30) (process_shared\<lparr>sh_world := (40000000, [7])\<rparr>) =
      Some (Inl TimeoutError, process_shared\<lparr>sh_world := (40000000, [])\<rparr>)"
    by (subst poll_child.simps) (simp add: defs)
  have second: "poll_child False endless process_clock 7 0 (Some 30) (process_shared\<lparr>sh_world := (20000000, [7])\<rparr>) =
      poll_child False endless process_clock 7 0 (Some 30) (process_shared\<lparr>sh_world := (40000000, [7])\<rparr>)"
    by (subst poll_child.simps) (simp add: defs)
  have first: "poll_child False endless process_clock 7 0 (Some 30) (process_shared\<lparr>sh_world := (0, [7])\<rparr>) =
      poll_child False endless process_clock 7 0 (Some 30) (process_shared\<lparr>sh_world := (20000000, [7])\<rparr>)"
    by (subst poll_child.simps) (simp add: defs)
  have "pr_spawn endless line (0, []) = (Inr 7, (0, [7]))" "mc_instant_ns process_clock (0, [7]) = (0, (0, [7]))" for line
    by (simp_all add: endless_def process_clock_def)
  with first second turn show ?thesis
    by (simp add: run_process_def demo_command_def feed_child_def on_sh_world_def process_shared_def)
qed

lemma endless_clock: "advancing_clock endless process_clock fst" "streams_end endless"
  by (auto simp: advancing_clock_def streams_end_def endless_def process_clock_def)


end
