(* ===== verification/Nodara_F32.thy ===== *)
theory Nodara_F32
  imports Nodara_F64
begin

text \<open>
  The IEEE 754 single precision numbers, \<open>f32\<close>: the values of \<open>f64\<close> with 24 significant bits and
  exponents from -126 to 127. Every operation is the exact one, rounded once to the nearest
  number with ties to even; the square root is decided by comparing squares.
\<close>

type_synonym f32 = f64

definition round32 :: "rat \<Rightarrow> f32" where
  "round32 q =
     (let a = \<bar>q\<bar>;
          e = max (ilog2 a) (- 126);
          u = pow2 (e - 23);
          m = round_half_even (a / u);
          v = of_int m * u
      in if m = 0 then Zero (q < 0)
         else if 2 ^ 128 \<le> v then Inf (q < 0)
         else Fin (if q < 0 then - v else v))"

fun to_f32 :: "f64 \<Rightarrow> f32" where
  "to_f32 (Fin q) = round32 q"
| "to_f32 x = x"

definition f32_of_nat :: "nat \<Rightarrow> f32" where
  "f32_of_nat n = (if n = 0 then Zero False else round32 (of_nat n))"

text \<open>\<open>f32::MIN\<close>.\<close>

definition f32_min :: f32 where
  "f32_min = Fin (- ((2 - pow2 (- 23)) * 2 ^ 127))"

section \<open>Exact operations\<close>

fun exact_add :: "f64 \<Rightarrow> f64 \<Rightarrow> f64" where
  "exact_add NaN y = NaN"
| "exact_add x NaN = NaN"
| "exact_add (Inf s) (Inf t) = (if s = t then Inf s else NaN)"
| "exact_add (Inf s) y = Inf s"
| "exact_add x (Inf t) = Inf t"
| "exact_add (Zero s) (Zero t) = Zero (s \<and> t)"
| "exact_add (Zero s) (Fin q) = Fin q"
| "exact_add (Fin p) (Zero t) = Fin p"
| "exact_add (Fin p) (Fin q) = (if p + q = 0 then Zero False else Fin (p + q))"

fun exact_mul :: "f64 \<Rightarrow> f64 \<Rightarrow> f64" where
  "exact_mul NaN y = NaN"
| "exact_mul x NaN = NaN"
| "exact_mul (Inf s) (Zero t) = NaN"
| "exact_mul (Zero s) (Inf t) = NaN"
| "exact_mul (Inf s) y = Inf (s \<noteq> sign_of y)"
| "exact_mul x (Inf t) = Inf (sign_of x \<noteq> t)"
| "exact_mul (Zero s) y = Zero (s \<noteq> sign_of y)"
| "exact_mul x (Zero t) = Zero (sign_of x \<noteq> t)"
| "exact_mul (Fin p) (Fin q) = Fin (p * q)"

fun exact_div :: "f64 \<Rightarrow> f64 \<Rightarrow> f64" where
  "exact_div NaN y = NaN"
| "exact_div x NaN = NaN"
| "exact_div (Inf s) (Inf t) = NaN"
| "exact_div (Inf s) y = Inf (s \<noteq> sign_of y)"
| "exact_div x (Inf t) = Zero (sign_of x \<noteq> t)"
| "exact_div (Zero s) (Zero t) = NaN"
| "exact_div (Zero s) y = Zero (s \<noteq> sign_of y)"
| "exact_div x (Zero t) = Inf (sign_of x \<noteq> t)"
| "exact_div (Fin p) (Fin q) = Fin (p / q)"

definition add32 :: "f32 \<Rightarrow> f32 \<Rightarrow> f32" where "add32 x y = to_f32 (exact_add x y)"
definition sub32 :: "f32 \<Rightarrow> f32 \<Rightarrow> f32" where "sub32 x y = to_f32 (exact_add x (fneg y))"
definition mul32 :: "f32 \<Rightarrow> f32 \<Rightarrow> f32" where "mul32 x y = to_f32 (exact_mul x y)"
definition div32 :: "f32 \<Rightarrow> f32 \<Rightarrow> f32" where "div32 x y = to_f32 (exact_div x y)"

section \<open>Square root\<close>

fun isqrt :: "nat \<Rightarrow> nat" where
  "isqrt n = (if n = 0 then 0 else let r = 2 * isqrt (n div 4) in if (r + 1) * (r + 1) \<le> n then r + 1 else r)"

declare isqrt.simps [simp del]

lemma isqrt_bounds: "isqrt n * isqrt n \<le> n \<and> n < (isqrt n + 1) * (isqrt n + 1)"
proof (induction n rule: isqrt.induct)
  case (1 n)
  show ?case
  proof (cases "n = 0")
    case False
    define r where "r = isqrt (n div 4)"
    have lo: "r * r \<le> n div 4" and hi: "n div 4 < (r + 1) * (r + 1)" using 1 [OF False] by (auto simp: r_def)
    have "4 * (r * r) \<le> n" using lo by linarith
    moreover have "n < 4 * ((r + 1) * (r + 1))" using hi by linarith
    ultimately show ?thesis
      using False by (simp add: isqrt.simps [of n] Let_def algebra_simps flip: r_def)
  qed (simp add: isqrt.simps)
qed

text \<open>The square root of a positive rational in units of \<open>u\<close>, to the nearest, ties to even: the
  root lies above \<open>f + 1/2\<close> exactly when the radicand lies above its square.\<close>

definition sqrt_units :: "rat \<Rightarrow> int" where
  "sqrt_units r =
     (let f = int (isqrt (nat \<lfloor>r\<rfloor>)); middle = (of_int f + 1 / 2) * (of_int f + 1 / 2)
      in if r < middle then f else if middle < r then f + 1 else if even f then f else f + 1)"

fun sqrt32 :: "f32 \<Rightarrow> f32" where
  "sqrt32 NaN = NaN"
| "sqrt32 (Inf s) = (if s then NaN else Inf False)"
| "sqrt32 (Zero s) = Zero s"
| "sqrt32 (Fin q) =
     (if q < 0 then NaN
      else let u = pow2 (ilog2 q div 2 - 23) in Fin (of_int (sqrt_units (q / (u * u))) * u))"

lemma sqrt_units_nearest:
  assumes "0 \<le> r"
  shows "(of_int (sqrt_units r) - 1 / 2) * (of_int (sqrt_units r) - 1 / 2) \<le> r \<or> sqrt_units r = 0"
    "r \<le> (of_int (sqrt_units r) + 1 / 2) * (of_int (sqrt_units r) + 1 / 2)"
proof -
  define f where "f = int (isqrt (nat \<lfloor>r\<rfloor>))"
  have f0: "0 \<le> f" by (simp add: f_def)
  have "0 \<le> \<lfloor>r\<rfloor>" using assms by simp
  then have "int (isqrt (nat \<lfloor>r\<rfloor>) * isqrt (nat \<lfloor>r\<rfloor>)) \<le> \<lfloor>r\<rfloor>"
    "\<lfloor>r\<rfloor> < int ((isqrt (nat \<lfloor>r\<rfloor>) + 1) * (isqrt (nat \<lfloor>r\<rfloor>) + 1))"
    using isqrt_bounds [of "nat \<lfloor>r\<rfloor>"] by linarith+
  then have "f * f \<le> \<lfloor>r\<rfloor>" "\<lfloor>r\<rfloor> < (f + 1) * (f + 1)" by (simp_all add: f_def algebra_simps)
  then have lo: "of_int (f * f) \<le> r" and hi: "r < of_int ((f + 1) * (f + 1))" by (simp_all add: le_floor_iff floor_less_iff)
  have q: "(of_int f :: rat) \<ge> 0" using f0 by simp
  have cases: "sqrt_units r = f \<and> r \<le> (of_int f + 1 / 2) * (of_int f + 1 / 2) \<or>
      sqrt_units r = f + 1 \<and> (of_int f + 1 / 2) * (of_int f + 1 / 2) \<le> r"
    by (auto simp: sqrt_units_def Let_def simp flip: f_def)
  show "(of_int (sqrt_units r) - 1 / 2) * (of_int (sqrt_units r) - 1 / 2) \<le> r \<or> sqrt_units r = 0"
  proof (cases "sqrt_units r = f + 1")
    case False
    then have "sqrt_units r = f" using cases by auto
    then show ?thesis using lo q by (cases "f = 0") (auto simp: algebra_simps)
  qed (use cases in \<open>auto simp: algebra_simps\<close>)
  show "r \<le> (of_int (sqrt_units r) + 1 / 2) * (of_int (sqrt_units r) + 1 / 2)"
    using cases hi q by (auto simp: algebra_simps)
qed

end
