(* ===== verification/Nodara_Vision.thy ===== *)
theory Nodara_Vision
  imports Nodara_F32 Nodara_Window
begin

text \<open>
  The vision plug-in (\<open>template.rs\<close>, \<open>ocr.rs\<close>, \<open>backend.rs\<close>): template matching by normalised
  cross-correlation in \<open>f32\<close>, with its coarse and its fine search, and text recognition by an
  installed backend. An image is its grey pixels in rows; \<open>None\<close> is a panic, here a pixel out of
  range. Decoding an image, the file system, the temporary directory and the external program
  are parameters, and so is the \<open>{:.3}\<close> format of a number.
\<close>

section \<open>Errors (error.rs)\<close>

datatype vision_error =
    VisionIo string
  | VisionImage string
  | SourceNotFound string
  | InvalidRegion string
  | TemplateTooLarge u32 u32 u32 u32
  | NoOcrBackend
  | OcrFailed string

definition show_size :: "u32 \<Rightarrow> u32 \<Rightarrow> string" where
  "show_size w h = show_nat (unat w) @ ''x'' @ show_nat (unat h)"

fun vision_error_text :: "vision_error \<Rightarrow> string" where
  "vision_error_text (VisionIo e) = ''io error: '' @ e"
| "vision_error_text (VisionImage e) = ''image error: '' @ e"
| "vision_error_text (SourceNotFound s) = ''image source not found: '' @ s"
| "vision_error_text (InvalidRegion s) = ''invalid search region: '' @ s"
| "vision_error_text (TemplateTooLarge tw th fw fh) =
     ''template ('' @ show_size tw th @ '') is larger than the frame ('' @ show_size fw fh @ '')''"
| "vision_error_text NoOcrBackend =
     ''no OCR backend is configured; install one with `set_ocr_backend` or NODARA_OCR_COMMAND''"
| "vision_error_text (OcrFailed e) = ''ocr backend failed: '' @ e"

section \<open>Statistics and correlation\<close>

record match_result =
  mt_found :: bool
  mt_score :: f32
  mt_x :: i32
  mt_y :: i32
  mt_width :: u32
  mt_height :: u32
  mt_center_x :: i32
  mt_center_y :: i32

definition byte_f32 :: "u8 \<Rightarrow> f32" where
  "byte_f32 p = f32_of_nat (unat p)"

abbreviation f32_zero :: f32 where "f32_zero \<equiv> Zero False"

definition statistics :: "u8 list \<Rightarrow> f32 \<times> f32" where
  "statistics pixels =
     (if pixels = [] then (f32_zero, f32_zero)
      else let n = f32_of_nat (length pixels);
               mean = div32 (fold (\<lambda>p total. add32 total (byte_f32 p)) pixels f32_zero) n;
               variance = div32 (fold (\<lambda>p total. let delta = sub32 (byte_f32 p) mean in add32 total (mul32 delta delta))
                            pixels f32_zero) n
           in (mean, sqrt32 variance))"

record frame =
  fr_pixels :: "u8 list"
  fr_width :: u32

record needle =
  nd_pixels :: "u8 list"
  nd_width :: u32
  nd_height :: u32
  nd_mean :: f32
  nd_std :: f32

text \<open>The pairs \<open>(tx, ty)\<close> in the order of the loops, and the index of a pixel: the row in \<open>u32\<close>,
  the column added as \<open>usize\<close>.\<close>

definition cells :: "nat \<Rightarrow> nat \<Rightarrow> (nat \<times> nat) list" where
  "cells width height = concat (map (\<lambda>ty. map (\<lambda>tx. (tx, ty)) [0..<width]) [0..<height])"

definition cell_index :: "u32 \<Rightarrow> nat \<Rightarrow> nat \<Rightarrow> nat \<times> nat \<Rightarrow> nat" where
  "cell_index width ox oy cell =
     unat ((of_nat oy + of_nat (snd cell)) * width + of_nat ox :: u32) + fst cell"

definition pixel_at :: "u8 list \<Rightarrow> nat \<Rightarrow> u8 option" where
  "pixel_at pixels i = (if i < length pixels then Some (pixels ! i) else None)"

definition read_cells :: "u8 list \<Rightarrow> u32 \<Rightarrow> nat \<Rightarrow> nat \<Rightarrow> (nat \<times> nat) list \<Rightarrow> u8 list option" where
  "read_cells pixels width ox oy cs = those (map (\<lambda>c. pixel_at pixels (cell_index width ox oy c)) cs)"

definition window_sums :: "u8 list \<Rightarrow> f32 \<times> f32" where
  "window_sums hs =
     fold (\<lambda>p (total, squares). let v = byte_f32 p in (add32 total v, add32 squares (mul32 v v))) hs (f32_zero, f32_zero)"

definition covariance :: "f32 \<Rightarrow> f32 \<Rightarrow> u8 list \<Rightarrow> u8 list \<Rightarrow> f32" where
  "covariance mean needle_mean hs ns =
     fold (\<lambda>(h, n) total. add32 total (mul32 (sub32 (byte_f32 h) mean) (sub32 (byte_f32 n) needle_mean)))
       (zip hs ns) f32_zero"

definition correlation :: "frame \<Rightarrow> needle \<Rightarrow> nat \<Rightarrow> nat \<Rightarrow> f32 option" where
  "correlation fr nd ox oy =
     (if feq (nd_std nd) f32_zero then Some f32_zero
      else
        let cs = cells (unat (nd_width nd)) (unat (nd_height nd));
            count = f32_of_nat (unat (nd_width nd * nd_height nd))
        in case read_cells (fr_pixels fr) (fr_width fr) ox oy cs of
             None \<Rightarrow> None
           | Some hs \<Rightarrow>
               let (total, squares) = window_sums hs;
                   mean = div32 total count;
                   variance = sub32 (div32 squares count) (mul32 mean mean);
                   std = sqrt32 (fmax variance f32_zero)
               in if feq std f32_zero then Some f32_zero
                  else (case read_cells (nd_pixels nd) (nd_width nd) 0 0 cs of
                          None \<Rightarrow> None
                        | Some ns \<Rightarrow>
                            Some (div32 (covariance mean (nd_mean nd) hs ns) (mul32 (mul32 count std) (nd_std nd)))))"

section \<open>The search\<close>

text \<open>The counters of the loops are natural numbers: they are below \<open>2 ^ 32\<close> as long as a frame has fewer
  than \<open>2 ^ 32 - stride\<close> columns and rows.\<close>

type_synonym best = "f32 \<times> nat \<times> nat"

text \<open>\<open>evaluate\<close> over the positions of a scan.\<close>

fun scan :: "(nat \<Rightarrow> nat \<Rightarrow> f32 option) \<Rightarrow> (nat \<times> nat) list \<Rightarrow> best \<Rightarrow> best option" where
  "scan score [] best = Some best"
| "scan score ((ox, oy) # rest) best =
     (case score ox oy of
        None \<Rightarrow> None
      | Some s \<Rightarrow> scan score rest (if flt (fst best) s then (s, ox, oy) else best))"

definition steps_of :: "nat \<Rightarrow> nat \<Rightarrow> nat list" where
  "steps_of stride limit = map (\<lambda>k. k * stride) [0..<limit div stride + 1]"

definition coarse_positions :: "nat \<Rightarrow> nat \<Rightarrow> nat \<Rightarrow> (nat \<times> nat) list" where
  "coarse_positions stride max_x max_y =
     concat (map (\<lambda>oy. map (\<lambda>ox. (ox, oy)) (steps_of stride max_x)) (steps_of stride max_y))"

definition fine_positions :: "nat \<Rightarrow> nat \<Rightarrow> nat \<Rightarrow> best \<Rightarrow> (nat \<times> nat) list" where
  "fine_positions stride max_x max_y best =
     (let (_, best_x, best_y) = best
      in concat (map (\<lambda>oy. map (\<lambda>ox. (ox, oy)) [best_x - stride..<min (best_x + stride) max_x + 1])
           [best_y - stride..<min (best_y + stride) max_y + 1]))"

definition coarse_stride :: "u32 \<Rightarrow> u32 \<Rightarrow> nat" where
  "coarse_stride width height = unat (max (min width height div 4) 1)"

definition match_of :: "u32 \<Rightarrow> u32 \<Rightarrow> f32 \<Rightarrow> best \<Rightarrow> match_result" where
  "match_of width height threshold best =
     (let (score, x, y) = best
      in \<lparr>mt_found = fle threshold score, mt_score = score, mt_x = of_nat x, mt_y = of_nat y,
          mt_width = width, mt_height = height,
          mt_center_x = of_nat x + ucast (width div 2), mt_center_y = of_nat y + ucast (height div 2)\<rparr>)"

definition needle_of :: "u8 list \<Rightarrow> u32 \<Rightarrow> u32 \<Rightarrow> needle" where
  "needle_of pixels width height =
     (let (mean, std) = statistics pixels
      in \<lparr>nd_pixels = pixels, nd_width = width, nd_height = height, nd_mean = mean, nd_std = std\<rparr>)"

definition match_template ::
    "u8 list \<Rightarrow> u32 \<Rightarrow> u32 \<Rightarrow> u8 list \<Rightarrow> u32 \<Rightarrow> u32 \<Rightarrow> f32 \<Rightarrow> (vision_error, match_result) result option" where
  "match_template haystack hw hh pixels nw nh threshold =
     (if hw < nw \<or> hh < nh then Some (Inl (TemplateTooLarge nw nh hw hh))
      else
        let max_x = unat (hw - nw); max_y = unat (hh - nh); stride = coarse_stride nw nh;
            score = correlation \<lparr>fr_pixels = haystack, fr_width = hw\<rparr> (needle_of pixels nw nh)
        in Option.bind (scan score (coarse_positions stride max_x max_y) (f32_min, 0, 0)) (\<lambda>coarse.
           Option.bind (scan score (fine_positions stride max_x max_y coarse) coarse) (\<lambda>best.
             Some (Inr (match_of nw nh threshold best)))))"

section \<open>Regions\<close>

definition slice :: "u8 list \<Rightarrow> nat \<Rightarrow> nat \<Rightarrow> u8 list option" where
  "slice pixels start count = (if start + count \<le> length pixels then Some (take count (drop start pixels)) else None)"

definition fits_u32 :: "int \<Rightarrow> bool" where
  "fits_u32 i \<longleftrightarrow> 0 \<le> i \<and> i < 2 ^ 32"

definition crop_gray ::
    "u8 list \<Rightarrow> u32 \<Rightarrow> u32 \<Rightarrow> int \<Rightarrow> int \<Rightarrow> int \<Rightarrow> int \<Rightarrow> (vision_error, u8 list \<times> u32 \<times> u32) result option" where
  "crop_gray pixels width height x y crop_width crop_height =
     (if x < 0 \<or> y < 0 \<or> crop_width \<le> 0 \<or> crop_height \<le> 0
      then Some (Inl (InvalidRegion ''x/y must be non-negative and width/height must be positive''))
      else if \<not> fits_u32 x then Some (Inl (InvalidRegion ''x is too large''))
      else if \<not> fits_u32 y then Some (Inl (InvalidRegion ''y is too large''))
      else if \<not> fits_u32 crop_width then Some (Inl (InvalidRegion ''width is too large''))
      else if \<not> fits_u32 crop_height then Some (Inl (InvalidRegion ''height is too large''))
      else
        let cx = word_of_int x; cy = word_of_int y; cw = word_of_int crop_width; ch = word_of_int crop_height in
        if width < sat_add cx cw \<or> height < sat_add cy ch
        then Some (Inl (InvalidRegion (show_size cw ch @ '' at ('' @ show_nat (unat cx) @ '', '' @ show_nat (unat cy) @
               '') exceeds the '' @ show_size width height @ '' frame'')))
        else map_option (\<lambda>rows. Inr (concat rows, cw, ch))
               (those (map (\<lambda>row. slice pixels (unat ((cy + of_nat row) * width + cx)) (unat cw)) [0..<unat ch])))"

definition region_config :: "node_input \<Rightarrow> (node_error, (int \<times> int \<times> int \<times> int) option) result" where
  "region_config input =
     (case (config_i64 input ''region_x'', config_i64 input ''region_y'',
            config_i64 input ''region_width'', config_i64 input ''region_height'') of
        (None, None, None, None) \<Rightarrow> Inr None
      | (Some x, Some y, Some width, Some height) \<Rightarrow> Inr (Some (x, y, width, height))
      | _ \<Rightarrow> Inl (InvalidConfig
             ''`region_x`, `region_y`, `region_width` and `region_height` must be supplied together''))"

section \<open>The outside\<close>

record 'w vision_host =
  vh_read :: "string \<Rightarrow> 'w \<Rightarrow> (string, u8 list) result \<times> 'w"
  vh_fixed3 :: "f32 \<Rightarrow> string"
  vh_temp_dir :: "string"
  vh_nanos :: "'w \<Rightarrow> nat \<times> 'w"
  vh_path_join :: "string \<Rightarrow> string \<Rightarrow> string"
  vh_create_dirs :: "string \<Rightarrow> 'w \<Rightarrow> (string, unit) result \<times> 'w"
  vh_write :: "string \<Rightarrow> u8 list \<Rightarrow> 'w \<Rightarrow> (string, unit) result \<times> 'w"
  vh_remove_dirs :: "string \<Rightarrow> 'w \<Rightarrow> 'w"
  vh_output :: "string \<Rightarrow> string list \<Rightarrow> 'w \<Rightarrow> (string, int option \<times> u8 list) result \<times> 'w"
  vh_lossy :: "u8 list \<Rightarrow> string"
  vh_env :: "string \<Rightarrow> string option"

definition load_source :: "'w vision_host \<Rightarrow> string \<Rightarrow> ('w, u8 list) act" where
  "load_source vh source c =
     (case artifact_get (sh_artifacts (cx_shared c)) source of
        Some bytes \<Rightarrow> (Inr bytes, c)
      | None \<Rightarrow>
          (let (r, w) = vh_read vh source (cx_world c)
           in (case r of
                 Inl e \<Rightarrow> Inl (ExecutionFailed (vision_error_text (SourceNotFound (source @ '': '' @ e))))
               | Inr bytes \<Rightarrow> Inr bytes, on_world (\<lambda>u. w) c)))"

definition load_gray :: "'w vision_host \<Rightarrow> image_codec \<Rightarrow> string \<Rightarrow> ('w, u8 list \<times> u32 \<times> u32) act" where
  "load_gray vh ic source =
     act_bind (load_source vh source) (\<lambda>bytes.
       act_of (case ic_luma ic bytes of
                 Inl e \<Rightarrow> Inl (ExecutionFailed (vision_error_text (VisionImage e)))
               | Inr img \<Rightarrow> Inr img))"

section \<open>vision.TemplateMatch\<close>

definition template_descriptor :: node_descriptor where
  "template_descriptor =
     (descriptor_with_description (new_descriptor ''vision.TemplateMatch'' ''Template Match'' ''Vision'')
        ''Locates a template image inside a captured frame'')
     \<lparr>d_inputs := [plain_port ''in'' ''In'' InputPort AnyType],
      d_outputs := [plain_port ''match'' ''Match'' OutputPort ObjectType],
      d_config_schema := jobj
          [(''type'', JStr ''object''),
           (''properties'', jobj
             [(''frame'', jobj
                [(''type'', JStr ''string''),
                 (''title'', JStr ''Frame''),
                 (''description'', JStr ''Artefact id produced by a capture node, or a path to an image file to search.'')]),
              (''template'', jobj
                [(''type'', JStr ''string''),
                 (''title'', JStr ''Template''),
                 (''description'', JStr ''Artefact id or image path of the template to find.'')]),
              (''threshold'', jobj
                [(''type'', JStr ''number''),
                 (''title'', JStr ''Threshold''),
                 (''description'', JStr ''Minimum normalized cross-correlation score (ZNCC) for a match.''),
                 (''minimum'', jint (- 1)),
                 (''maximum'', jint 1),
                 (''default'', JNum (Float (round64 (4 / 5))))]),
              (''region_x'', jobj
                [(''type'', JStr ''integer''),
                 (''title'', JStr ''Search region X''),
                 (''description'', JStr ''Optional left edge of a region inside the frame. Supply all four region fields together.''),
                 (''minimum'', jint 0)]),
              (''region_y'', jobj
                [(''type'', JStr ''integer''),
                 (''title'', JStr ''Search region Y''),
                 (''description'', JStr ''Optional top edge of a region inside the frame. Supply all four region fields together.''),
                 (''minimum'', jint 0)]),
              (''region_width'', jobj
                [(''type'', JStr ''integer''),
                 (''title'', JStr ''Search region width''),
                 (''description'', JStr ''Optional width of the search region. Supply all four region fields together.''),
                 (''minimum'', jint 1)]),
              (''region_height'', jobj
                [(''type'', JStr ''integer''),
                 (''title'', JStr ''Search region height''),
                 (''description'', JStr ''Optional height of the search region. Supply all four region fields together.''),
                 (''minimum'', jint 1)]),
              (''fail_if_missing'', jobj
                [(''type'', JStr ''boolean''),
                 (''title'', JStr ''Fail when not found''),
                 (''description'', JStr (''Fail the node when the best score is below the threshold. When false, the result is still published '' @
                     ''with `found=false`.'')),
                 (''default'', JBool False)]),
              (''output_var'', jobj
                [(''type'', JStr ''string''),
                 (''title'', JStr ''Output variable''),
                 (''description'', JStr ''Variable receiving the match (`found`, `score`, `x`, `y`, `width`, `height`, `center_x`, `center_y`).'')])]),
           (''required'', JArr [JStr ''output_var'']),
           (''additionalProperties'', JBool False)],
      d_permissions := [''vision.analyze''],
      d_allows_additional_config := False\<rparr>"

definition f32_json :: "f32 \<Rightarrow> json" where
  "f32_json x = (if is_finite x then JNum (Float x) else JNull)"

definition match_json :: "match_result \<Rightarrow> json" where
  "match_json r =
     jobj [(''found'', JBool (mt_found r)), (''score'', f32_json (mt_score r)),
       (''x'', jsint (mt_x r)), (''y'', jsint (mt_y r)),
       (''width'', juint (mt_width r)), (''height'', juint (mt_height r)),
       (''center_x'', jsint (mt_center_x r)), (''center_y'', jsint (mt_center_y r))]"

text \<open>The part of the frame to search, and where it lies.\<close>

definition search_area ::
    "u8 list \<times> u32 \<times> u32 \<Rightarrow> (int \<times> int \<times> int \<times> int) option \<Rightarrow> (node_error, (u8 list \<times> u32 \<times> u32) \<times> i32 \<times> i32) result option" where
  "search_area img region =
     (case region of
        None \<Rightarrow> Some (Inr (img, 0, 0))
      | Some (x, y, width, height) \<Rightarrow>
          (case img of (pixels, fw, fh) \<Rightarrow>
             map_option (\<lambda>r. case r of
                 Inl e \<Rightarrow> Inl (InvalidConfig (vision_error_text e))
               | Inr cropped \<Rightarrow> Inr (cropped, word_of_int x, word_of_int y))
               (crop_gray pixels fw fh x y width height)))"

definition shift_match :: "i32 \<Rightarrow> i32 \<Rightarrow> match_result \<Rightarrow> match_result" where
  "shift_match dx dy r =
     r\<lparr>mt_x := mt_x r + dx, mt_y := mt_y r + dy, mt_center_x := mt_center_x r + dx, mt_center_y := mt_center_y r + dy\<rparr>"

definition find_in_area ::
    "(u8 list \<times> u32 \<times> u32) \<times> i32 \<times> i32 \<Rightarrow> u8 list \<times> u32 \<times> u32 \<Rightarrow> f32 \<Rightarrow> (node_error, match_result) result option" where
  "find_in_area area template threshold =
     (case area of ((pixels, fw, fh), dx, dy) \<Rightarrow>
        (case template of (needle, nw, nh) \<Rightarrow>
           map_option (\<lambda>r. case r of
               Inl e \<Rightarrow> Inl (ExecutionFailed (vision_error_text e))
             | Inr found \<Rightarrow> Inr (shift_match dx dy found))
             (match_template pixels fw fh needle nw nh threshold)))"

definition publish_match ::
    "'w vision_host \<Rightarrow> 'w machine \<Rightarrow> string \<Rightarrow> bool \<Rightarrow> f32 \<Rightarrow> match_result \<Rightarrow> ('w, node_output) act" where
  "publish_match vh m output_var fail_if_missing threshold r =
     act_bind (act_do (ctx_log m Info (''template match score '' @ vh_fixed3 vh (mt_score r) @ '' at ('' @
         show_int (sint (mt_x r)) @ '', '' @ show_int (sint (mt_y r)) @ '')''))) (\<lambda>u.
     if fail_if_missing \<and> \<not> mt_found r
     then act_fail (ExecutionFailed (''template was not found: score '' @ vh_fixed3 vh (mt_score r) @
            '' is below threshold '' @ vh_fixed3 vh threshold))
     else act_bind (act_do (set_variable output_var (match_json r))) (\<lambda>u.
            act_return (with_output new_output ''match'' (match_json r))))"

text \<open>A step that may panic.\<close>

definition or_panic :: "(node_error, 'a) result option \<Rightarrow> 'w exec_context \<Rightarrow>
    ('a \<Rightarrow> 'w exec_context \<Rightarrow> ((node_error, 'b) result \<times> 'w exec_context) option) \<Rightarrow>
    ((node_error, 'b) result \<times> 'w exec_context) option" where
  "or_panic r c g = (case r of None \<Rightarrow> None | Some (Inl e) \<Rightarrow> Some (Inl e, c) | Some (Inr a) \<Rightarrow> g a c)"

definition template_input :: "node_input \<Rightarrow> node_input" where
  "template_input input =
     with_input_fallback (with_input_fallback (with_input_object_fallback input ''in'') ''in'' ''frame'') ''in'' ''template''"

definition match_threshold :: "node_input \<Rightarrow> f32" where
  "match_threshold i = to_f32 (case config_f64 i ''threshold'' of Some t \<Rightarrow> t | None \<Rightarrow> round64 (4 / 5))"

definition template_execute :: "'w vision_host \<Rightarrow> image_codec \<Rightarrow> 'w machine \<Rightarrow> 'w execute" where
  "template_execute vh ic m input c =
     (let i = template_input input;
          fail_if_missing = (case config_bool i ''fail_if_missing'' of Some b \<Rightarrow> b | None \<Rightarrow> False)
      in or_panic (Some (require_str i ''output_var'')) c (\<lambda>output_var c.
         or_panic (Some (require_str i ''frame'')) c (\<lambda>frame_source c.
         or_panic (Some (require_str i ''template'')) c (\<lambda>template_source c.
         or_panic (Some (region_config i)) c (\<lambda>region c.
         (case load_gray vh ic frame_source c of (img, c) \<Rightarrow>
         or_panic (Some img) c (\<lambda>img c.
         or_panic (search_area img region) c (\<lambda>area c.
         (case load_gray vh ic template_source c of (template, c) \<Rightarrow>
         or_panic (Some template) c (\<lambda>template c.
         or_panic (find_in_area area template (match_threshold i)) c (\<lambda>found c.
           Some (publish_match vh m output_var fail_if_missing (match_threshold i) found c))))))))))))"

section \<open>OCR backends (backend.rs)\<close>

record ocr_word =
  ow_text :: string
  ow_confidence :: "f32 option"
  ow_x :: i32
  ow_y :: i32
  ow_width :: u32
  ow_height :: u32

record ocr_result =
  or_text :: string
  or_confidence :: "f32 option"
  or_words :: "ocr_word list"

definition ocr_text :: "string \<Rightarrow> ocr_result" where
  "ocr_text s = \<lparr>or_text = s, or_confidence = None, or_words = []\<rparr>"

record 'w ocr_backend =
  ob_name :: string
  ob_recognize :: "u8 list \<Rightarrow> string option \<Rightarrow> 'w \<Rightarrow> (vision_error, ocr_result) result \<times> 'w"

definition null_backend :: "'w ocr_backend" where
  "null_backend = \<lparr>ob_name = ''none'', ob_recognize = (\<lambda>image language w. (Inl NoOcrBackend, w))\<rparr>"

text \<open>What the program answered.\<close>

definition cli_answer :: "'w vision_host \<Rightarrow> string \<Rightarrow> (string, int option \<times> u8 list) result \<Rightarrow> (vision_error, ocr_result) result" where
  "cli_answer vh program answer =
     (case answer of
        Inl e \<Rightarrow> Inl (OcrFailed (''could not run `'' @ program @ ''`: '' @ e))
      | Inr (code, out) \<Rightarrow>
          if code \<noteq> Some 0
          then Inl (OcrFailed (''`'' @ program @ ''` exited with '' @ show_int (case code of Some i \<Rightarrow> i | None \<Rightarrow> - 1)))
          else Inr (ocr_text (trim (vh_lossy vh out))))"

definition cli_recognize ::
    "'w vision_host \<Rightarrow> string \<Rightarrow> string list \<Rightarrow> u8 list \<Rightarrow> 'w \<Rightarrow> (vision_error, ocr_result) result \<times> 'w" where
  "cli_recognize vh program extra_args img w =
     (let (nanos, w1) = vh_nanos vh w;
          directory = vh_path_join vh (vh_temp_dir vh) (''nodara-vision-'' @ show_nat nanos);
          path = vh_path_join vh directory ''input.png''
      in case vh_create_dirs vh directory w1 of
           (Inl e, w2) \<Rightarrow> (Inl (VisionIo e), w2)
         | (Inr _, w2) \<Rightarrow>
         (case vh_write vh path img w2 of
           (Inl e, w3) \<Rightarrow> (Inl (VisionIo e), w3)
         | (Inr _, w3) \<Rightarrow>
             (case vh_output vh program (extra_args @ [path]) w3 of
                (answer, w4) \<Rightarrow> (cli_answer vh program answer, vh_remove_dirs vh directory w4))))"

definition cli_backend :: "'w vision_host \<Rightarrow> string \<Rightarrow> string list \<Rightarrow> 'w ocr_backend" where
  "cli_backend vh program extra_args =
     \<lparr>ob_name = program, ob_recognize = (\<lambda>img language w. cli_recognize vh program extra_args img w)\<rparr>"

text \<open>The process-wide backend is the value of a static; installing replaces it.\<close>

definition set_ocr_backend :: "'w ocr_backend \<Rightarrow> 'w ocr_backend option \<Rightarrow> 'w ocr_backend option" where
  "set_ocr_backend backend current = Some backend"

definition install_backend_from_env :: "'w vision_host \<Rightarrow> 'w ocr_backend option \<Rightarrow> 'w ocr_backend option" where
  "install_backend_from_env vh current =
     (case vh_env vh ''NODARA_OCR_COMMAND'' of
        None \<Rightarrow> current
      | Some program \<Rightarrow> if trim program = [] then current else set_ocr_backend (cli_backend vh program []) current)"

definition backend_name :: "'w ocr_backend option \<Rightarrow> string" where
  "backend_name current = (case current of None \<Rightarrow> ''none'' | Some b \<Rightarrow> ob_name b)"

section \<open>vision.Ocr\<close>

definition ocr_descriptor :: node_descriptor where
  "ocr_descriptor =
     (descriptor_with_description (new_descriptor ''vision.Ocr'' ''OCR'' ''Vision'')
        ''Extracts text from an image using the configured backend'')
     \<lparr>d_inputs := [plain_port ''in'' ''In'' InputPort AnyType],
      d_outputs := [plain_port ''text'' ''Text'' OutputPort StringType],
      d_config_schema := jobj
          [(''type'', JStr ''object''),
           (''properties'', jobj
             [(''image'', jobj
                [(''type'', JStr ''string''),
                 (''title'', JStr ''Image''),
                 (''description'', JStr ''Artefact id produced by a capture node, or a path to an image file to read.'')]),
              (''language'', jobj
                [(''type'', JStr ''string''),
                 (''title'', JStr ''Language''),
                 (''description'', JStr ''BCP-47 language tag passed to the OCR backend, when it supports one.''),
                 (''examples'', JArr [JStr ''en-US'', JStr ''zh-CN''])]),
              (''output_var'', jobj
                [(''type'', JStr ''string''),
                 (''title'', JStr ''Output variable''),
                 (''description'', JStr ''Variable receiving the recognized text.'')])]),
           (''required'', JArr [JStr ''output_var'']),
           (''additionalProperties'', JBool False)],
      d_permissions := [''vision.analyze''],
      d_allows_additional_config := False\<rparr>"

definition recognize_act :: "'w ocr_backend \<Rightarrow> u8 list \<Rightarrow> string option \<Rightarrow> ('w, ocr_result) act" where
  "recognize_act backend bytes language c =
     (let (r, w) = ob_recognize backend bytes language (cx_world c)
      in (case r of Inl e \<Rightarrow> Inl (ExecutionFailed (vision_error_text e)) | Inr found \<Rightarrow> Inr found, on_world (\<lambda>u. w) c))"

definition ocr_execute :: "'w vision_host \<Rightarrow> 'w ocr_backend option \<Rightarrow> 'w machine \<Rightarrow> 'w execute" where
  "ocr_execute vh current m input c = Some (
     (let i = with_input_fallback (with_input_object_fallback input ''in'') ''in'' ''image'' in
      act_bind (act_of (require_str i ''output_var'')) (\<lambda>output_var.
      act_bind (act_of (require_str i ''image'')) (\<lambda>source.
      (case current of
         None \<Rightarrow> act_fail (UnsupportedOperation (vision_error_text NoOcrBackend))
       | Some backend \<Rightarrow>
           act_bind (load_source vh source) (\<lambda>bytes.
           act_bind (recognize_act backend bytes (config_str i ''language'')) (\<lambda>found.
           act_bind (act_do (set_variable output_var (JStr (or_text found)))) (\<lambda>u.
           act_bind (act_do (ctx_log m Info (''ocr backend `'' @ ob_name backend @ ''` recognised '' @
                show_nat (length (or_text found)) @ '' characters''))) (\<lambda>u.
             act_return (with_output new_output ''text'' (JStr (or_text found))))))))))) c)"

section \<open>The plug-in (lib.rs)\<close>

definition vision_node_types :: "string list" where
  "vision_node_types = [''vision.TemplateMatch'', ''vision.Ocr'']"

definition vision_capabilities :: "string list" where
  "vision_capabilities = [''Vision.TemplateMatch'', ''Vision.Ocr'']"

definition vision_permissions :: "string list" where
  "vision_permissions = [''vision.analyze'']"

definition register_vision ::
    "'w vision_host \<Rightarrow> image_codec \<Rightarrow> 'w machine \<Rightarrow> 'w registry \<Rightarrow> 'w ocr_backend option \<Rightarrow> 'w registry \<times> 'w ocr_backend option" where
  "register_vision vh ic m r current =
     (let installed = install_backend_from_env vh current
      in (register_executor \<lparr>ex_descriptor = ocr_descriptor, ex_execute = ocr_execute vh installed m\<rparr>
            (register_executor \<lparr>ex_descriptor = template_descriptor, ex_execute = template_execute vh ic m\<rparr> r), installed))"

end
