(* ===== verification/Nodara_Vision_Props.thy ===== *)
theory Nodara_Vision_Props
  imports Nodara_Vision Nodara_Platform
begin

text \<open>
  Template matching never reads outside its images, looks at every position it should, and
  reports the best; a search region is the part of the frame it names; the vision nodes keep
  the contract of an executor.
\<close>

section \<open>Scans\<close>

definition not_above :: "f32 \<Rightarrow> f32 option \<Rightarrow> bool" where
  "not_above limit score \<longleftrightarrow> (\<exists>s. score = Some s \<and> \<not> flt limit s)"

definition improved :: "best \<Rightarrow> best \<Rightarrow> bool" where
  "improved a b \<longleftrightarrow> fst b = fst a \<or> flt (fst a) (fst b)"

lemma improved_trans: "improved a b \<Longrightarrow> improved b c \<Longrightarrow> improved a c"
  by (auto simp: improved_def dest: flt_trans)

lemma improved_above: "improved a b \<Longrightarrow> not_above (fst a) s \<Longrightarrow> not_above (fst b) s"
  by (auto simp: improved_def not_above_def dest: flt_trans)

lemma scan_spec:
  assumes "scan score ps best = Some b"
  shows "improved best b" "\<forall>(x, y) \<in> set ps. not_above (fst b) (score x y)"
    "b = best \<or> (snd b \<in> set ps \<and> score (fst (snd b)) (snd (snd b)) = Some (fst b))"
proof -
  have "improved best b \<and> (\<forall>(x, y) \<in> set ps. not_above (fst b) (score x y)) \<and>
      (b = best \<or> (snd b \<in> set ps \<and> score (fst (snd b)) (snd (snd b)) = Some (fst b)))"
    using assms
  proof (induction score ps best rule: scan.induct)
    case (1 score best)
    then show ?case by (simp add: improved_def)
  next
    case (2 score ox oy rest best)
    then obtain s where s: "score ox oy = Some s" by (cases "score ox oy") auto
    define next_best where "next_best = (if flt (fst best) s then (s, ox, oy) else best)"
    have "scan score rest next_best = Some b" using "2.prems" s by (simp add: next_best_def)
    note IH = "2.IH" [OF s, folded next_best_def, OF this]
    have first: "improved best next_best" "not_above (fst next_best) (score ox oy)"
      using s by (auto simp: next_best_def improved_def not_above_def)
    then have "improved best b" "not_above (fst b) (score ox oy)"
      using IH improved_trans improved_above by blast+
    with IH s show ?case by (auto simp: next_best_def split: if_splits)
  qed
  then show "improved best b" "\<forall>(x, y) \<in> set ps. not_above (fst b) (score x y)"
    "b = best \<or> (snd b \<in> set ps \<and> score (fst (snd b)) (snd (snd b)) = Some (fst b))"
    by blast+
qed

lemma scan_total: "(\<And>x y. (x, y) \<in> set ps \<Longrightarrow> score x y \<noteq> None) \<Longrightarrow> \<exists>b. scan score ps best = Some b"
  by (induction score ps best rule: scan.induct) fastforce+

lemma steps_of_set: "0 < stride \<Longrightarrow> set (steps_of stride limit) = {x. x \<le> limit \<and> stride dvd x}"
proof (intro set_eqI iffI)
  fix x
  assume "0 < stride" "x \<in> {x. x \<le> limit \<and> stride dvd x}"
  then obtain k where "x = k * stride" "k \<le> limit div stride"
    by (auto simp: dvd_def less_eq_div_iff_mult_less_eq mult.commute)
  then show "x \<in> set (steps_of stride limit)" by (auto simp: steps_of_def)
next
  fix x
  assume "0 < stride" "x \<in> set (steps_of stride limit)"
  then obtain k where "x = k * stride" "k \<le> limit div stride"
    unfolding steps_of_def by (force simp: less_Suc_eq_le)
  then show "x \<in> {x. x \<le> limit \<and> stride dvd x}"
    using \<open>0 < stride\<close> by (simp add: less_eq_div_iff_mult_less_eq)
qed

lemma grid_set: "(x, y) \<in> set (concat (map (\<lambda>y. map (\<lambda>x. (x, y)) xs) ys)) \<longleftrightarrow> x \<in> set xs \<and> y \<in> set ys"
  by auto

lemma coarse_set:
  "0 < stride \<Longrightarrow> (x, y) \<in> set (coarse_positions stride max_x max_y) \<longleftrightarrow>
     x \<le> max_x \<and> y \<le> max_y \<and> stride dvd x \<and> stride dvd y"
  unfolding coarse_positions_def grid_set by (auto simp: steps_of_set)

definition near :: "nat \<Rightarrow> nat \<times> nat \<Rightarrow> nat \<Rightarrow> nat \<Rightarrow> bool" where
  "near stride c x y \<longleftrightarrow> fst c \<le> x + stride \<and> x \<le> fst c + stride \<and> snd c \<le> y + stride \<and> y \<le> snd c + stride"

lemma fine_set:
  "(x, y) \<in> set (fine_positions stride max_x max_y best) \<longleftrightarrow> x \<le> max_x \<and> y \<le> max_y \<and> near stride (snd best) x y"
  unfolding fine_positions_def case_prod_beta Let_def grid_set by (auto simp: near_def)

section \<open>Pixels in range\<close>

lemma unat_row:
  assumes "y < b" "x < unat (w :: u32)" "unat w * b < 2 ^ 32"
  shows "unat (of_nat y * w + of_nat x) = y * unat w + x" "y * unat w + x < unat w * b"
proof -
  have "y * unat w + x < (y + 1) * unat w" using assms(2) by simp
  also have "\<dots> \<le> b * unat w" using assms(1) by (intro mult_right_mono) auto
  finally show bound: "y * unat w + x < unat w * b" by (simp add: mult.commute)
  have "of_nat y * w + of_nat x = (of_nat (y * unat w + x) :: u32)" by simp
  then show "unat (of_nat y * w + of_nat x) = y * unat w + x"
    using bound assms(3) by (simp only: unat_of_nat) simp
qed

lemma cell_index_eq:
  assumes "oy + snd c < b" "ox + fst c < unat w" "unat w * b < 2 ^ 32"
  shows "cell_index w ox oy c = (oy + snd c) * unat w + ox + fst c"
proof -
  have "unat (of_nat (oy + snd c) * w + of_nat ox :: u32) = (oy + snd c) * unat w + ox"
    by (rule unat_row(1) [OF assms(1) _ assms(3)]) (use assms(2) in simp)
  then show ?thesis by (simp add: cell_index_def)
qed

lemma cells_set: "(x, y) \<in> set (cells w h) \<longleftrightarrow> x < w \<and> y < h"
  unfolding cells_def grid_set by simp

lemma those_Some: "(\<And>x. x \<in> set xs \<Longrightarrow> f x \<noteq> None) \<Longrightarrow> those (map f xs) = Some (map (\<lambda>x. the (f x)) xs)"
  by (induction xs) force+

lemma read_cells_total:
  assumes "length pixels = unat w * b" "unat w * b < 2 ^ 32" "ox + nw \<le> unat w" "oy + nh \<le> b"
  shows "read_cells pixels w ox oy (cells nw nh) \<noteq> None"
proof -
  have "pixel_at pixels (cell_index w ox oy c) \<noteq> None" if "c \<in> set (cells nw nh)" for c
  proof -
    have c: "fst c < nw" "snd c < nh" using that cells_set [of "fst c" "snd c"] by auto
    then have "cell_index w ox oy c = (oy + snd c) * unat w + (ox + fst c)"
      using cell_index_eq [of oy c b ox w] assms(2-4) by simp
    also have "\<dots> < unat w * b" by (rule unat_row(2)) (use c assms(2-4) in auto)
    finally show ?thesis by (simp add: pixel_at_def assms(1))
  qed
  then show ?thesis by (simp add: read_cells_def those_Some)
qed

text \<open>An image has as many pixels as its dimensions say, and fewer than \<open>2 ^ 32\<close>.\<close>

definition image_ok :: "u8 list \<Rightarrow> u32 \<Rightarrow> u32 \<Rightarrow> bool" where
  "image_ok pixels w h \<longleftrightarrow> length pixels = unat w * unat h \<and> unat w * unat h < 2 ^ 32"

lemma correlation_total:
  assumes "image_ok haystack hw hh" "image_ok pixels nw nh" "ox + unat nw \<le> unat hw" "oy + unat nh \<le> unat hh"
  shows "correlation \<lparr>fr_pixels = haystack, fr_width = hw\<rparr> (needle_of pixels nw nh) ox oy \<noteq> None"
  using read_cells_total [of haystack hw "unat hh" ox "unat nw" oy "unat nh"]
    read_cells_total [of pixels nw "unat nh" 0 "unat nw" 0 "unat nh"] assms
  by (auto simp: correlation_def needle_of_def image_ok_def Let_def case_prod_beta split: option.splits)

section \<open>The best match\<close>

definition fits_at :: "u32 \<Rightarrow> u32 \<Rightarrow> u32 \<Rightarrow> u32 \<Rightarrow> nat \<Rightarrow> nat \<Rightarrow> bool" where
  "fits_at hw hh nw nh x y \<longleftrightarrow> x + unat nw \<le> unat hw \<and> y + unat nh \<le> unat hh"

lemma coarse_stride_pos: "0 < coarse_stride w h"
  by (auto simp: coarse_stride_def max_def unat_gt_0 word_le_def)

lemma template_total:
  assumes "image_ok haystack hw hh" "image_ok pixels nw nh"
  shows "match_template haystack hw hh pixels nw nh threshold \<noteq> None"
proof (cases "hw < nw \<or> hh < nh")
  case False
  define score where "score = correlation \<lparr>fr_pixels = haystack, fr_width = hw\<rparr> (needle_of pixels nw nh)"
  define stride where "stride = coarse_stride nw nh"
  define max_x where "max_x = unat (hw - nw)"
  define max_y where "max_y = unat (hh - nh)"
  have limits: "unat nw + max_x = unat hw" "unat nh + max_y = unat hh"
    using False by (simp_all add: max_x_def max_y_def unat_sub word_le_nat_alt word_less_nat_alt)
  have total: "score x y \<noteq> None" if "x \<le> max_x" "y \<le> max_y" for x y
    unfolding score_def by (rule correlation_total [OF assms]) (use that limits in auto)
  have stride: "0 < stride" by (simp add: stride_def coarse_stride_pos)
  obtain coarse where coarse: "scan score (coarse_positions stride max_x max_y) (f32_min, 0, 0) = Some coarse"
    using scan_total [of "coarse_positions stride max_x max_y" score "(f32_min, 0, 0)"] total by (auto simp: coarse_set [OF stride])
  obtain best where "scan score (fine_positions stride max_x max_y coarse) coarse = Some best"
    using scan_total [of "fine_positions stride max_x max_y coarse" score coarse] total by (auto simp: fine_set)
  with False coarse show ?thesis
    by (simp add: match_template_def Let_def flip: score_def stride_def max_x_def max_y_def)
qed (simp add: match_template_def)



section \<open>Regions\<close>

lemma nth_concat_rows:
  "(\<And>r. r \<in> set rows \<Longrightarrow> length r = k) \<Longrightarrow> j < length rows \<Longrightarrow> i < k \<Longrightarrow> concat rows ! (j * k + i) = rows ! j ! i"
proof (induction rows arbitrary: j)
  case (Cons r rows)
  then show ?case by (cases j) (auto simp: nth_append)
qed simp

lemma length_concat_rows: "(\<And>r. r \<in> set rows \<Longrightarrow> length r = k) \<Longrightarrow> length (concat rows) = length rows * k"
  by (induction rows) auto

lemma unat_of_fitting: "fits_u32 i \<Longrightarrow> unat (word_of_int i :: u32) = nat i"
  by (simp add: fits_u32_def unat_eq_nat_uint uint_word_of_int)

text \<open>The region is the part of the frame it names, and cutting it out of a consistent image never
  reads out of range.\<close>

definition region_ok :: "int \<Rightarrow> int \<Rightarrow> int \<Rightarrow> int \<Rightarrow> u32 \<Rightarrow> u32 \<Rightarrow> bool" where
  "region_ok x y cw ch width height \<longleftrightarrow>
     0 \<le> x \<and> 0 \<le> y \<and> 0 < cw \<and> 0 < ch \<and> nat x + nat cw \<le> unat width \<and> nat y + nat ch \<le> unat height"

definition region_pixels :: "u8 list \<Rightarrow> u32 \<Rightarrow> int \<Rightarrow> int \<Rightarrow> int \<Rightarrow> int \<Rightarrow> u8 list list" where
  "region_pixels pixels width x y cw ch =
     map (\<lambda>row. take (nat cw) (drop ((nat y + row) * unat width + nat x) pixels)) [0..<nat ch]"

lemma crop_gray_spec:
  assumes "image_ok pixels width height" "unat width < 2 ^ 32 - 1" "unat height < 2 ^ 32 - 1"
  shows "if region_ok x y cw ch width height
     then crop_gray pixels width height x y cw ch =
            Some (Inr (concat (region_pixels pixels width x y cw ch), word_of_int cw, word_of_int ch))
     else \<exists>e. crop_gray pixels width height x y cw ch = Some (Inl e)"
proof (cases "0 \<le> x \<and> 0 \<le> y \<and> 0 < cw \<and> 0 < ch \<and> fits_u32 x \<and> fits_u32 y \<and> fits_u32 cw \<and> fits_u32 ch")
  case True
  define cx cy where "cx = (word_of_int x :: u32)" and "cy = (word_of_int y :: u32)"
  define w1 h1 where "w1 = (word_of_int cw :: u32)" and "h1 = (word_of_int ch :: u32)"
  have unats: "unat cx = nat x" "unat cy = nat y" "unat w1 = nat cw" "unat h1 = nat ch"
    using True by (simp_all add: cx_def cy_def w1_def h1_def unat_of_fitting)
  have inside: "\<not> (width < sat_add cx w1 \<or> height < sat_add cy h1) \<longleftrightarrow> region_ok x y cw ch width height"
    using True assms(2,3) by (auto simp: region_ok_def word_less_nat_alt unat_sat_add unats)
  have crop: "crop_gray pixels width height x y cw ch =
      (if width < sat_add cx w1 \<or> height < sat_add cy h1
       then Some (Inl (InvalidRegion (show_size w1 h1 @ '' at ('' @ show_nat (unat cx) @ '', '' @ show_nat (unat cy) @
              '') exceeds the '' @ show_size width height @ '' frame'')))
       else map_option (\<lambda>rows. Inr (concat rows, w1, h1))
              (those (map (\<lambda>row. slice pixels (unat ((cy + of_nat row) * width + cx)) (unat w1)) [0..<unat h1])))"
    using True by (simp add: crop_gray_def Let_def cx_def cy_def w1_def h1_def)
  show ?thesis
  proof (cases "region_ok x y cw ch width height")
    case ok: True
    have row: "slice pixels (unat ((cy + of_nat row) * width + cx)) (unat w1) =
        Some (take (nat cw) (drop ((nat y + row) * unat width + nat x) pixels))" if "row < unat h1" for row
    proof -
      have y: "nat y + row < unat height" and x: "nat x < unat width" and w: "nat x + nat cw \<le> unat width"
        using that ok by (auto simp: region_ok_def unats)
      have image: "length pixels = unat width * unat height" "unat width * unat height < 2 ^ 32"
        using assms(1) by (simp_all add: image_ok_def)
      have "(cy + of_nat row) * width + cx = of_nat (nat y + row) * width + of_nat (nat x)"
        by (simp flip: unats)
      then have "unat ((cy + of_nat row) * width + cx) = (nat y + row) * unat width + nat x"
        using unat_row(1) [OF y x image(2)] by simp
      moreover have "(nat y + row) * unat width + nat x + nat cw \<le> (nat y + row + 1) * unat width" using w by simp
      moreover have "(nat y + row + 1) * unat width \<le> unat height * unat width"
        using y by (intro mult_right_mono) auto
      ultimately show ?thesis by (simp add: slice_def image(1) unats mult.commute)
    qed
    have "those (map (\<lambda>row. slice pixels (unat ((cy + of_nat row) * width + cx)) (unat w1)) [0..<unat h1]) =
        Some (region_pixels pixels width x y cw ch)"
      by (subst those_Some) (auto simp: row [unfolded unats] region_pixels_def unats)
    then show ?thesis using ok inside crop by (simp add: w1_def h1_def)
  qed (use inside crop in auto)
next
  case False
  moreover have "\<not> region_ok x y cw ch width height"
    using False assms(2,3) by (auto simp: region_ok_def fits_u32_def)
  ultimately show ?thesis by (auto simp: crop_gray_def Let_def)
qed

lemma region_pixel:
  assumes "image_ok pixels width height" "region_ok x y cw ch width height" "i < nat cw" "j < nat ch"
  shows "length (concat (region_pixels pixels width x y cw ch)) = nat cw * nat ch"
    and "concat (region_pixels pixels width x y cw ch) ! (j * nat cw + i) = pixels ! ((nat y + j) * unat width + (nat x + i))"
proof -
  have image: "length pixels = unat width * unat height" using assms(1) by (simp add: image_ok_def)
  have room: "(nat y + row) * unat width + nat x + nat cw \<le> length pixels" if "row < nat ch" for row
  proof -
    have "(nat y + row) * unat width + nat x + nat cw \<le> (nat y + row + 1) * unat width"
      using assms(2) by (auto simp: region_ok_def)
    also have "\<dots> \<le> unat height * unat width"
      using assms(2) that by (intro mult_right_mono) (auto simp: region_ok_def)
    finally show ?thesis by (simp add: image mult.commute)
  qed
  then have rows: "length r = nat cw" if "r \<in> set (region_pixels pixels width x y cw ch)" for r
    using that by (force simp: region_pixels_def)
  show "length (concat (region_pixels pixels width x y cw ch)) = nat cw * nat ch"
    using length_concat_rows [of "region_pixels pixels width x y cw ch", OF rows]
    by (simp add: mult.commute) (simp add: region_pixels_def)
  show "concat (region_pixels pixels width x y cw ch) ! (j * nat cw + i) = pixels ! ((nat y + j) * unat width + (nat x + i))"
    using nth_concat_rows [of "region_pixels pixels width x y cw ch", OF rows] assms(3,4) room [OF assms(4)]
    by (simp add: region_pixels_def add.assoc)
qed

section \<open>The nodes\<close>

lemma source_reaches [act_reaches]: "act_keeps (ctx_reaches m) (load_source vh source)"
  by (auto simp: act_keeps_def load_source_def case_prod_beta Let_def on_world_reaches split: option.splits)

lemma vision_acts_reach [act_reaches]:
  "act_keeps (ctx_reaches m) (load_gray vh ic source)"
  "act_keeps (ctx_reaches m) (recognize_act backend bytes language)"
  "act_keeps (ctx_reaches m) (publish_match vh m output_var fail_if_missing threshold r)"
  by (auto simp: load_gray_def publish_match_def intro!: act_reaches)
    (auto simp: act_keeps_def recognize_act_def case_prod_beta Let_def on_world_reaches)

lemma template_execute_respects: "respects_context m (template_execute vh ic m)"
  unfolding respects_context_def
proof (intro allI impI)
  fix i c r c'
  assume run: "template_execute vh ic m i c = Some (r, c')"
  have gray: "ctx_reaches m c (snd (load_gray vh ic source c))" for source c
    using vision_acts_reach(1) [of m vh ic source] unfolding act_keeps_def by blast
  have publish: "publish_match vh m ov f t found c = (r, c') \<Longrightarrow> ctx_reaches m c c'" for ov f t found c
    using vision_acts_reach(3) by (metis act_keeps_def snd_conv)
  define c1 where "c1 source = snd (load_gray vh ic source c)" for source
  define c2 where "c2 source template = snd (load_gray vh ic template (c1 source))" for source template
  have "c' = c \<or> (\<exists>source. c' = c1 source) \<or> (\<exists>source template. c' = c2 source template) \<or>
      (\<exists>source template ov f t found. publish_match vh m ov f t found (c2 source template) = (r, c'))"
    using run by (auto simp: template_execute_def or_panic_def Let_def case_prod_beta c1_def c2_def split: option.splits sum.splits)
  moreover have "ctx_reaches m c (c1 source)" for source unfolding c1_def by (rule gray)
  moreover have "ctx_reaches m c (c2 source template)" for source template
    unfolding c2_def by (rule ctx_reaches_trans [OF calculation(2) gray])
  ultimately show "ctx_reaches m c c'"
    using ctx_reaches_refl publish ctx_reaches_trans by metis
qed

lemma ocr_execute_respects: "respects_context m (ocr_execute vh current m)"
  by (rule act_execute_respects; intro exI conjI allI; (rule ocr_execute_def)?)
    (auto simp: Let_def split: option.splits intro!: act_reaches)

text \<open>With a decoder that gives consistent images smaller than \<open>2 ^ 32\<close> pixels, the template node always
  returns: it never panics.\<close>

definition decodes_images :: "image_codec \<Rightarrow> bool" where
  "decodes_images ic \<longleftrightarrow>
     (\<forall>bytes pixels w h. ic_luma ic bytes = Inr (pixels, w, h) \<longrightarrow>
        image_ok pixels w h \<and> unat w < 2 ^ 32 - 1 \<and> unat h < 2 ^ 32 - 1)"

lemma loaded_image:
  "decodes_images ic \<Longrightarrow> load_gray vh ic source c = (Inr (pixels, w, h), c') \<Longrightarrow>
     image_ok pixels w h \<and> unat w < 2 ^ 32 - 1 \<and> unat h < 2 ^ 32 - 1"
  by (auto simp: decodes_images_def load_gray_def act_bind_def act_of_def split: prod.splits sum.splits)

lemma area_total:
  assumes "image_ok pixels w h" "unat w < 2 ^ 32 - 1" "unat h < 2 ^ 32 - 1"
  shows "\<exists>r. search_area (pixels, w, h) region = Some r \<and>
     (\<forall>cropped w' h' dx dy. r = Inr ((cropped, w', h'), dx, dy) \<longrightarrow> image_ok cropped w' h')"
proof (cases region)
  case (Some q)
  obtain x y cw ch where q: "q = (x, y, cw, ch)" by (cases q) auto
  show ?thesis
  proof (cases "region_ok x y cw ch w h")
    case True
    have "unat (word_of_int cw :: u32) = nat cw" "unat (word_of_int ch :: u32) = nat ch"
      using True assms(2,3) by (auto simp: region_ok_def fits_u32_def intro!: unat_of_fitting)
    moreover have "nat cw * nat ch \<le> unat w * unat h"
      using True by (intro mult_mono) (auto simp: region_ok_def)
    ultimately have "image_ok (concat (region_pixels pixels w x y cw ch)) (word_of_int cw) (word_of_int ch)"
      using region_pixel(1) [OF assms(1) True, of 0 0] True assms(1) by (auto simp: image_ok_def region_ok_def)
    then show ?thesis
      using crop_gray_spec [OF assms, of x y cw ch] True by (simp add: search_area_def Some q)
  qed (use crop_gray_spec [OF assms, of x y cw ch] in \<open>auto simp: search_area_def Some q\<close>)
qed (use assms(1) in \<open>simp add: search_area_def\<close>)

lemma found_total:
  assumes "image_ok pixels w h" "image_ok needle nw nh"
  shows "find_in_area ((pixels, w, h), dx, dy) (needle, nw, nh) threshold \<noteq> None"
proof (cases "w < nw \<or> h < nh")
  case False
  then show ?thesis
    using template_total [OF assms, of threshold] by (auto simp: find_in_area_def)
qed (auto simp: find_in_area_def match_template_def)

lemma or_panic_returns: "r \<noteq> None \<Longrightarrow> (\<And>a. r = Some (Inr a) \<Longrightarrow> g a c \<noteq> None) \<Longrightarrow> or_panic r c g \<noteq> None"
  by (auto simp: or_panic_def split: sum.splits)

lemma template_node_returns:
  assumes "decodes_images ic"
  shows "template_execute vh ic m input c \<noteq> None"
proof -
  have image: "image_ok (fst i) (fst (snd i)) (snd (snd i)) \<and> unat (fst (snd i)) < 2 ^ 32 - 1 \<and> unat (snd (snd i)) < 2 ^ 32 - 1"
    if "fst (load_gray vh ic source c) = Inr i" for source c i
    using loaded_image [OF assms, of vh source c "fst i" "fst (snd i)" "snd (snd i)"] that by (metis prod.collapse)
  have area: "search_area i region \<noteq> None"
    and cropped: "search_area i region = Some (Inr a) \<Longrightarrow> image_ok (fst (fst a)) (fst (snd (fst a))) (snd (snd (fst a)))"
    if loaded: "fst (load_gray vh ic source c) = Inr i" for source c i region a
  proof -
    obtain r where r: "search_area i region = Some r" and
      all: "\<And>p w h dx dy. r = Inr ((p, w, h), dx, dy) \<Longrightarrow> image_ok p w h"
      using area_total [of "fst i" "fst (snd i)" "snd (snd i)" region] image [OF loaded] by auto
    then show "search_area i region \<noteq> None" by simp
    show "image_ok (fst (fst a)) (fst (snd (fst a))) (snd (snd (fst a)))" if "search_area i region = Some (Inr a)"
      by (rule all [of _ _ _ "fst (snd a)" "snd (snd a)"]) (use r that in simp)
  qed
  have found: "find_in_area a t threshold \<noteq> None"
    if "fst (load_gray vh ic source c) = Inr i" "search_area i region = Some (Inr a)"
      "fst (load_gray vh ic source' c') = Inr t" for a t threshold source c source' c' i region
    using found_total [of "fst (fst a)" "fst (snd (fst a))" "snd (snd (fst a))" "fst t" "fst (snd t)" "snd (snd t)" "fst (snd a)" "snd (snd a)"]
      cropped [OF that(1,2)] image [OF that(3)] by simp
  show ?thesis
    unfolding template_execute_def Let_def case_prod_beta
    by (intro or_panic_returns) (simp_all only: option.inject option.distinct not_False_eq_True area found)
qed

end
