(* ===== verification/Nodara_Platform_Limits.thy ===== *)
theory Nodara_Platform_Limits
  imports Nodara_Mouse_Props Nodara_Win32_Props Nodara_Command_Props Nodara_Vision_Props
begin

text \<open>
  Where the desktop and vision nodes fall short of what they announce, each as a lemma about the
  model: a mouse node that moves nothing, posted keys that go up before they come down, blanks
  that cannot be typed, a wait mode that is refused, a killed child that succeeded.
\<close>

text \<open>The \<open>move\<close> action plans no button, and everything that moves is under the button: no input event
  at all is produced, and the node succeeds without having moved.\<close>

lemma move_plans_no_button: "mouse_plan ''move'' q clicks = Inr (None, 0)"
  by (simp add: mouse_plan_def)

lemma buttonless_mouse_is_quiet:
  assumes "input_log n m ev"
  shows "leaves ev (execute_foreground_mouse n m i action None count ms rel iv) []"
  using input_logD(6) [OF assms] input_logD(7) [OF assms]
  unfolding execute_foreground_mouse_def Let_def option.case
  by (auto intro!: quiet_rules)

lemma quiet_in_front:
  assumes "input_log n m ev" "config_bool i ''background'' \<noteq> Some True"
    and "\<And>t. background_target t = None \<Longrightarrow> leaves ev (g t) []"
  shows "leaves ev (act_bind (input_target n i) g) []"
proof -
  have "leaves ev (act_bind (input_target n i) (\<lambda>t. if background_target t = None then g t else act_fail CancelledError)) []"
    using assms(3) by (intro quiet_bind quiet_target [OF assms(1)]) (auto intro: leaves_simple)
  moreover have "act_bind (input_target n i) (\<lambda>t. if background_target t = None then g t else act_fail CancelledError) =
      act_bind (input_target n i) g"
    by (rule ext) (auto simp: act_bind_def dest: target_in_foreground [OF _ assms(2)] split: prod.splits sum.splits)
  ultimately show ?thesis by simp
qed

lemma mouse_move_moves_nothing:
  assumes "input_log n m ev" "mouse_execute n m input c = Some (r, c')" "\<not> in_background input"
    and "config_str (with_input_object_fallback input ''in'') ''action'' = Some ''move''"
  shows "ev (cx_world c') = ev (cx_world c)"
proof -
  define i where "i = with_input_object_fallback input ''in''"
  have front: "config_bool i ''background'' \<noteq> Some True" using assms(3) by (simp add: in_background_def i_def)
  have turn: "leaves ev (mouse_turn n m i t ''move'' None 0 ms rel iv) []" if "background_target t = None" for t ms rel iv
    using buttonless_mouse_is_quiet [OF assms(1)] by (simp add: mouse_turn_def that)
  have "leaves ev (mouse_stages n m i ''move'' ms rel iv k) []" for ms rel iv k
    unfolding mouse_stages_def move_plans_no_button
    by (rule quiet_bind [OF quiet_check], rule quiet_in_front [OF assms(1) front],
        rule quiet_bind [OF leaves_simple(3)]) (simp add: turn)
  moreover from assms(2,4) obtain ms rel iv k where "mouse_stages n m i ''move'' ms rel iv k c = (r, c')"
    by (auto simp: mouse_execute_stages Let_def i_def require_str_def)
  ultimately show ?thesis using leavesD by fastforce
qed

text \<open>In the background the press of a key is posted as its release.\<close>

lemma background_press_is_a_release:
  assumes "input_log n m ev" "\<not> stroke_shift k"
  shows "leaves ev (press_posts n window [] k) [PostedKey window (virtual_key k) False]"
  using input_logD(5) [OF assms(1), where window = window and k = "virtual_key k" and down = False] assms(2)
  by (simp add: press_posts_def act_when_def leaves_def act_bind_def act_return_def)

text \<open>A message with the flag \<open>False\<close> is \<open>WM_KEYUP\<close>.\<close>

lemma posted_release_message:
  "log_events [(SendMessageTimeout window (KeyMessage WM_KEYUP) (ucast k) lparam 1000, reply)] = [PostedKey window k False]"
  by (simp add: log_events_def call_events_def byte_through_handle)

text \<open>The characters that \<open>normalise\<close> removes have no key.\<close>

lemma blanks_have_no_key: "resolve_char (CHR '' '') = None" "resolve_char (CHR ''_'') = None" "resolve_char (CHR 0x0A) = None"
  by code_simp+

text \<open>The wait node publishes a \<open>mode\<close> setting that its own selector refuses.\<close>

lemma wait_mode_is_refused:
  assumes "config_str input ''output_var'' = Some v" "config_str input ''mode'' = Some mode" "as_object (ni_resolved_config input) = Some entries"
  shows "\<exists>e. wait_execute n m input c = Some (Inl (InvalidConfig e), c)"
proof -
  have "ni_resolved_config input = JObj entries" using assms(3) by (cases "ni_resolved_config input") simp_all
  then obtain v where "om_get entries ''mode'' = Some v" using assms(2) by (auto simp: config_str_def bind_eq_Some_conv)
  then have "''mode'' \<in> set (om_keys entries)" by (force simp: om_get_def om_keys_def dest: map_of_SomeD)
  moreover have "''mode'' \<notin> set selector_keys" by (simp add: selector_keys_def)
  ultimately have "''mode'' \<in> set (filter (\<lambda>key. key \<notin> set selector_keys) (om_keys entries))" by simp
  then obtain key rest where "filter (\<lambda>key. key \<notin> set selector_keys) (om_keys entries) = key # rest"
    by (cases "filter (\<lambda>key. key \<notin> set selector_keys) (om_keys entries)") simp_all
  then show ?thesis using assms unfolding wait_execute_def require_str_def selector_from_config_def Let_def by simp
qed

text \<open>A child without an exit code, killed by a signal, passes the check of the exit code.\<close>

lemma killed_child_succeeds:
  assumes "ps_exit_code r = None"
  shows "\<exists>out. command_output config r = Inr out"
  using assms by (simp add: command_output_def Let_def)

text \<open>When the image cannot be written, the directory made for it stays.\<close>

lemma failed_write_keeps_directory:
  assumes "vh_create_dirs vh (vh_path_join vh (vh_temp_dir vh) (''nodara-vision-'' @ show_nat (fst (vh_nanos vh w)))) (snd (vh_nanos vh w)) = (Inr (), w1)"
    and "vh_write vh (vh_path_join vh (vh_path_join vh (vh_temp_dir vh) (''nodara-vision-'' @ show_nat (fst (vh_nanos vh w)))) ''input.png'') img w1 = (Inl e, w2)"
  shows "cli_recognize vh program extra img w = (Inl (VisionIo e), w2)"
  using assms by (simp add: cli_recognize_def case_prod_beta Let_def)

end
