(* ===== verification/Nodara_Provider.thy ===== *)
theory Nodara_Provider
  imports Nodara_Planner Nodara_Runtime_Client Nodara_F32
begin

text \<open>
  The provider of a hosted model (\<open>OpenAiProvider\<close> of \<open>provider.rs\<close>): the request it sends, the event
  stream it reads, and the call it falls back to. The HTTP library and the JSON parser are
  parameters; a body is read as text, as JSON or line by line, and the error of a line ends it.
\<close>

section \<open>The HTTP library\<close>

record llm_call =
  lc_url :: string
  lc_headers :: "(string \<times> string) list"
  lc_timeout_s :: nat
  lc_body :: json

record llm_body =
  lb_text :: "(string, string) result"
  lb_json :: "(string, json) result"
  lb_lines :: "(string, string) result list"

datatype llm_reply = LlmSuccess llm_body | LlmStatus nat llm_body | LlmFailure string

type_synonym 'w llm_http = "llm_call \<Rightarrow> 'w \<Rightarrow> llm_reply \<times> 'w"

section \<open>Configuration\<close>

record hosted_provider =
  hp_endpoint :: string
  hp_api_key :: "string option"
  hp_model :: string

definition new_hosted :: "string \<Rightarrow> string \<Rightarrow> string option \<Rightarrow> hosted_provider" where
  "new_hosted endpoint model api_key = \<lparr>hp_endpoint = endpoint, hp_api_key = api_key, hp_model = model\<rparr>"

definition hosted_from_env :: "(string \<Rightarrow> string option) \<Rightarrow> (agent_error, hosted_provider) result" where
  "hosted_from_env env =
     (let endpoint = (case env ''NODARA_LLM_ENDPOINT'' of Some e \<Rightarrow> e
             | None \<Rightarrow> ''https://api.openai.com/v1/chat/completions'');
          model = (case env ''NODARA_LLM_MODEL'' of Some v \<Rightarrow> v | None \<Rightarrow> ''gpt-4o-mini'');
          api_key = (case env ''NODARA_LLM_API_KEY'' of Some key \<Rightarrow> Some key | None \<Rightarrow> env ''OPENAI_API_KEY'')
      in if api_key = None
         then Inl (ProviderError ''no API key: set NODARA_LLM_API_KEY or OPENAI_API_KEY'')
         else Inr (new_hosted endpoint model api_key))"

section \<open>The request\<close>

fun chat_role_text :: "chat_role \<Rightarrow> string" where
  "chat_role_text SystemRole = ''system''"
| "chat_role_text UserRole = ''user''"
| "chat_role_text AssistantRole = ''assistant''"

definition image_part :: "chat_image \<Rightarrow> json" where
  "image_part img =
     json_obj [(''type'', JStr ''image_url''),
       (''image_url'', json_obj
         [(''url'', JStr (''data:'' @ ci_media_type img @ '';base64,'' @ ci_data_base64 img))])]"

definition wire_message :: "chat_message \<Rightarrow> json" where
  "wire_message message =
     (let role = JStr (chat_role_text (cm_role message)) in
      if cm_images message = []
      then json_obj [(''role'', role), (''content'', JStr (cm_content message))]
      else json_obj [(''role'', role),
             (''content'', JArr (json_obj [(''type'', JStr ''text''), (''text'', JStr (cm_content message))] #
                map image_part (cm_images message)))])"

definition wire_messages :: "chat_message list \<Rightarrow> json" where
  "wire_messages messages = JArr (map wire_message messages)"

definition temperature_json :: "rat \<Rightarrow> json" where
  "temperature_json t =
     (let x = (if t = 0 then Zero False else round32 t) in if is_finite x then JNum (Float x) else JNull)"

definition request_fields :: "hosted_provider \<Rightarrow> chat_request \<Rightarrow> (string \<times> json) list" where
  "request_fields p q =
     [(''model'', JStr (hp_model p)),
      (''temperature'', temperature_json (cq_temperature q)),
      (''max_tokens'', JNum (num_of_u64 (unat (cq_max_tokens q)))),
      (''messages'', wire_messages (cq_messages q)),
      (''response_format'', if cq_json_mode q then json_obj [(''type'', JStr ''json_object'')] else JNull)]"

definition hosted_call :: "hosted_provider \<Rightarrow> json \<Rightarrow> llm_call" where
  "hosted_call p body =
     \<lparr>lc_url = hp_endpoint p,
      lc_headers = (case hp_api_key p of Some key \<Rightarrow> [(''authorization'', ''Bearer '' @ key)] | None \<Rightarrow> []) @
        [(''content-type'', ''application/json'')],
      lc_timeout_s = 120, lc_body = body\<rparr>"

definition status_error :: "nat \<Rightarrow> llm_body \<Rightarrow> agent_error" where
  "status_error status b =
     (let detail = trim (case lb_text b of Inr s \<Rightarrow> s | Inl e \<Rightarrow> []) in
      ProviderError (if detail = [] then ''provider returned HTTP '' @ show_nat status
        else ''provider returned HTTP '' @ show_nat status @ '': '' @ detail))"

section \<open>A whole completion\<close>

definition json_index :: "json \<Rightarrow> nat \<Rightarrow> json option" where
  "json_index v i = (case v of JArr vs \<Rightarrow> if i < length vs then Some (vs ! i) else None | _ \<Rightarrow> None)"

definition first_choice :: "string \<Rightarrow> json \<Rightarrow> string option" where
  "first_choice part payload =
     Option.bind (jget payload ''choices'') (\<lambda>choices.
     Option.bind (json_index choices 0) (\<lambda>choice.
     Option.bind (jget choice part) (\<lambda>v.
     Option.bind (jget v ''content'') as_str)))"

definition tokens_of :: "json \<Rightarrow> string \<Rightarrow> u32 \<Rightarrow> u32" where
  "tokens_of usage key previous =
     of_nat (case Option.bind (jget usage key) as_u64 of Some n \<Rightarrow> n | None \<Rightarrow> unat previous)"

definition usage_of :: "json option \<Rightarrow> token_usage \<Rightarrow> token_usage" where
  "usage_of usage previous =
     (case usage of
        None \<Rightarrow> previous
      | Some v \<Rightarrow> \<lparr>tu_prompt_tokens = tokens_of v ''prompt_tokens'' (tu_prompt_tokens previous),
                   tu_completion_tokens = tokens_of v ''completion_tokens'' (tu_completion_tokens previous)\<rparr>)"

definition model_of :: "json \<Rightarrow> string \<Rightarrow> string" where
  "model_of payload previous = (case Option.bind (jget payload ''model'') as_str of Some s \<Rightarrow> s | None \<Rightarrow> previous)"

definition read_completion :: "hosted_provider \<Rightarrow> json \<Rightarrow> (agent_error, chat_response) result" where
  "read_completion p payload =
     (case first_choice ''message'' payload of
        None \<Rightarrow> Inl (ProviderError ''provider response had no message content'')
      | Some content \<Rightarrow>
          Inr \<lparr>cr_content = content, cr_model = model_of payload (hp_model p),
            cr_usage = usage_of (jget payload ''usage'') no_usage\<rparr>)"

definition hosted_complete ::
    "'w llm_http \<Rightarrow> hosted_provider \<Rightarrow> chat_request \<Rightarrow> 'w \<Rightarrow> (agent_error, chat_response) result \<times> 'w" where
  "hosted_complete http p q w =
     (let (reply, w1) = http (hosted_call p (json_obj (request_fields p q))) w in
      (case reply of
         LlmStatus status b \<Rightarrow> Inl (status_error status b)
       | LlmFailure e \<Rightarrow> Inl (ProviderError e)
       | LlmSuccess b \<Rightarrow>
           (case lb_json b of
              Inl e \<Rightarrow> Inl (ProviderError e)
            | Inr payload \<Rightarrow> read_completion p payload), w1))"

section \<open>A streamed completion\<close>

text \<open>What was read so far: the text, the model, the usage, and the deltas that were reported.\<close>

record streamed =
  st_content :: string
  st_model :: string
  st_usage :: token_usage
  st_deltas :: "string list"

definition stream_payload :: "json \<Rightarrow> streamed \<Rightarrow> streamed" where
  "stream_payload payload s =
     (let s1 = s\<lparr>st_model := model_of payload (st_model s)\<rparr>;
          s2 = (case first_choice ''delta'' payload of
                  None \<Rightarrow> s1
                | Some delta \<Rightarrow> s1\<lparr>st_content := st_content s1 @ delta, st_deltas := st_deltas s1 @ [delta]\<rparr>)
      in s2\<lparr>st_usage := usage_of (jget payload ''usage'') (st_usage s2)\<rparr>)"

definition stream_line :: "(string \<Rightarrow> (string, json) result) \<Rightarrow> string \<Rightarrow> streamed \<Rightarrow> streamed" where
  "stream_line parse line s =
     (case strip_prefix ''data:'' line of
        None \<Rightarrow> s
      | Some rest \<Rightarrow>
          (let data = trim rest in
           if data = [] \<or> data = ''[DONE]'' then s
           else (case parse data of Inl e \<Rightarrow> s | Inr payload \<Rightarrow> stream_payload payload s)))"

fun read_stream ::
    "(string \<Rightarrow> (string, json) result) \<Rightarrow> (string, string) result list \<Rightarrow> streamed \<Rightarrow> (agent_error, unit) result \<times> streamed" where
  "read_stream parse [] s = (Inr (), s)"
| "read_stream parse (Inl e # rest) s = (Inl (ProviderError e), s)"
| "read_stream parse (Inr line # rest) s = read_stream parse rest (stream_line parse line s)"

definition new_stream :: "hosted_provider \<Rightarrow> streamed" where
  "new_stream p = \<lparr>st_content = [], st_model = hp_model p, st_usage = no_usage, st_deltas = []\<rparr>"

definition refuses_streaming :: "nat \<Rightarrow> bool" where
  "refuses_streaming status \<longleftrightarrow> status \<in> {400, 404, 405, 415, 422}"

definition streaming_body :: "hosted_provider \<Rightarrow> chat_request \<Rightarrow> json" where
  "streaming_body p q =
     json_obj (request_fields p q @
       [(''stream'', JBool True), (''stream_options'', json_obj [(''include_usage'', JBool True)])])"

text \<open>The completion that the streaming call falls back to reports no delta of its own.\<close>

definition hosted_streaming ::
    "agent_externs \<Rightarrow> 'w llm_http \<Rightarrow> hosted_provider \<Rightarrow> chat_request \<Rightarrow> 'w \<Rightarrow>
      ((agent_error, chat_response) result \<times> string list) \<times> 'w" where
  "hosted_streaming ax http p q w =
     (let (reply, w1) = http (hosted_call p (streaming_body p q)) w;
          fall_back = (\<lambda>deltas. let (r, w2) = hosted_complete http p q w1 in ((r, deltas), w2))
      in case reply of
           LlmStatus status b \<Rightarrow>
             if refuses_streaming status then fall_back [] else ((Inl (status_error status b), []), w1)
         | LlmFailure e \<Rightarrow> ((Inl (ProviderError e), []), w1)
         | LlmSuccess b \<Rightarrow>
             (case read_stream (ax_parse_json ax) (lb_lines b) (new_stream p) of
                (Inl e, s) \<Rightarrow> ((Inl e, st_deltas s), w1)
              | (Inr _, s) \<Rightarrow>
                  if st_content s = [] then fall_back (st_deltas s)
                  else ((Inr \<lparr>cr_content = st_content s, cr_model = st_model s, cr_usage = st_usage s\<rparr>,
                         st_deltas s), w1)))"

definition hosted_llm :: "agent_externs \<Rightarrow> 'w llm_http \<Rightarrow> hosted_provider \<Rightarrow> 'w llm_provider" where
  "hosted_llm ax http p =
     \<lparr>lp_name = hp_model p, lp_complete = hosted_complete http p, lp_streaming = hosted_streaming ax http p\<rparr>"

section \<open>The mock provider, streaming\<close>

text \<open>\<open>as_bytes().chunks(12)\<close>, kept where a chunk is text by itself.\<close>

fun chunks_of :: "nat \<Rightarrow> 'a list \<Rightarrow> 'a list list" where
  "chunks_of n xs = (if xs = [] \<or> n = 0 then [] else take n xs # chunks_of n (drop n xs))"

declare chunks_of.simps [simp del]

text \<open>Characters beyond ASCII have two bytes here; a chunk that begins or ends inside one is no text.\<close>

fun text_of_bytes :: "nat list \<Rightarrow> string option" where
  "text_of_bytes [] = Some []"
| "text_of_bytes (b # bs) =
     (if b < 128 then map_option (Cons (char_of b)) (text_of_bytes bs)
      else if 194 \<le> b \<and> b < 196 then
        (case bs of
           [] \<Rightarrow> None
         | d # ds \<Rightarrow> if 128 \<le> d \<and> d < 192
             then map_option (Cons (char_of ((b - 192) * 64 + (d - 128)))) (text_of_bytes ds) else None)
      else None)"

definition mock_deltas :: "string \<Rightarrow> string list" where
  "mock_deltas content = List.map_filter text_of_bytes (chunks_of 12 (concat (map utf8_bytes content)))"

definition mock_streaming :: "chat_request \<Rightarrow> mock_provider \<Rightarrow> ((agent_error, chat_response) result \<times> string list) \<times> mock_provider" where
  "mock_streaming q p =
     (case mock_complete q p of
        (Inl e, p') \<Rightarrow> ((Inl e, []), p')
      | (Inr response, p') \<Rightarrow> ((Inr response, mock_deltas (cr_content response)), p'))"

definition mock_llm :: "mock_provider llm_provider" where
  "mock_llm = \<lparr>lp_name = ''mock'', lp_complete = mock_complete, lp_streaming = mock_streaming\<rparr>"

end
