(* ===== verification/Nodara_Provider_Props.thy ===== *)
theory Nodara_Provider_Props
  imports Nodara_Provider Nodara_Planner_Props
begin

text \<open>
  The hosted provider: the text of a stream is put together again from its events, what was reported
  is what was answered, a completion takes at most two requests, and the key stays in its header.
\<close>

section \<open>Reading a stream\<close>

text \<open>The lines of a server: events with a payload, keep-alive comments, blank lines, the end mark.\<close>

datatype server_event = ChunkEvent json | CommentEvent string | BlankEvent | DoneEvent

fun render_event :: "agent_externs \<Rightarrow> server_event \<Rightarrow> string" where
  "render_event ax (ChunkEvent j) = ''data: '' @ ax_json_text ax j"
| "render_event ax (CommentEvent s) = '':'' @ s"
| "render_event ax BlankEvent = []"
| "render_event ax DoneEvent = ''data: [DONE]''"

fun event_delta :: "server_event \<Rightarrow> string option" where
  "event_delta (ChunkEvent j) = first_choice ''delta'' j"
| "event_delta _ = None"

definition event_deltas :: "server_event list \<Rightarrow> string list" where
  "event_deltas es = List.map_filter event_delta es"

text \<open>What the parser has to do with the text of a payload: read it back. The text is a JSON text:
  without blanks at its ends, neither empty nor the end mark.\<close>

definition readable :: "agent_externs \<Rightarrow> json \<Rightarrow> bool" where
  "readable ax j \<longleftrightarrow>
     (let s = ax_json_text ax j in ax_parse_json ax s = Inr j \<and> trim s = s \<and> s \<noteq> [] \<and> s \<noteq> ''[DONE]'')"

lemma trim_blank: "trim (CHR '' '' # s) = trim s"
proof -
  have "is_space (CHR '' '')" by code_simp
  then show ?thesis by (simp add: trim_def trim_start_def)
qed

lemma stream_line_of_event:
  "stream_line (ax_parse_json ax) (render_event ax (CommentEvent s)) st = st"
  "stream_line (ax_parse_json ax) (render_event ax BlankEvent) st = st"
  "stream_line (ax_parse_json ax) (render_event ax DoneEvent) st = st"
  "readable ax j \<Longrightarrow> stream_line (ax_parse_json ax) (render_event ax (ChunkEvent j)) st = stream_payload j st"
proof -
  have done_mark: "trim ''[DONE]'' = ''[DONE]''" by code_simp
  show "stream_line (ax_parse_json ax) (render_event ax (CommentEvent s)) st = st"
    "stream_line (ax_parse_json ax) (render_event ax BlankEvent) st = st"
    by (simp_all add: stream_line_def strip_prefix_def starts_with_def)
  show "stream_line (ax_parse_json ax) (render_event ax DoneEvent) st = st"
    by (simp add: stream_line_def strip_prefix_def starts_with_def trim_blank done_mark)
  show "readable ax j \<Longrightarrow> stream_line (ax_parse_json ax) (render_event ax (ChunkEvent j)) st = stream_payload j st"
    by (simp add: stream_line_def strip_prefix_def starts_with_def trim_blank readable_def Let_def)
qed

lemma stream_payload_text:
  "st_deltas (stream_payload j st) = st_deltas st @ List.map_filter event_delta [ChunkEvent j]"
  "st_content (stream_payload j st) = st_content st @ concat (List.map_filter event_delta [ChunkEvent j])"
  by (simp_all add: stream_payload_def Let_def List.map_filter_def split: option.splits)

lemma read_events:
  assumes "\<And>j. ChunkEvent j \<in> set es \<Longrightarrow> readable ax j"
  shows "\<exists>s. read_stream (ax_parse_json ax) (map (\<lambda>e. Inr (render_event ax e)) es) st = (Inr (), s) \<and>
     st_deltas s = st_deltas st @ event_deltas es \<and> st_content s = st_content st @ concat (event_deltas es)"
  using assms
proof (induction es arbitrary: st)
  case Nil
  then show ?case by (simp add: event_deltas_def List.map_filter_def)
next
  case (Cons e es)
  define st1 where "st1 = stream_line (ax_parse_json ax) (render_event ax e) st"
  have st1: "st_deltas st1 = st_deltas st @ event_deltas [e] \<and> st_content st1 = st_content st @ concat (event_deltas [e])"
  proof (cases e)
    case (ChunkEvent j)
    then have "readable ax j" using Cons.prems by simp
    then show ?thesis unfolding st1_def ChunkEvent stream_line_of_event(4) [OF \<open>readable ax j\<close>] stream_payload_text event_deltas_def
      by simp
  qed (simp_all add: st1_def stream_line_of_event [simplified] event_deltas_def List.map_filter_def)
  have split: "event_deltas (e # es) = event_deltas [e] @ event_deltas es"
    by (simp add: event_deltas_def List.map_filter_def)
  obtain s where "read_stream (ax_parse_json ax) (map (\<lambda>e. Inr (render_event ax e)) es) st1 = (Inr (), s)"
    "st_deltas s = st_deltas st1 @ event_deltas es" "st_content s = st_content st1 @ concat (event_deltas es)"
    using Cons.IH [of st1] Cons.prems by auto
  with st1 show ?case unfolding split by (simp add: st1_def [symmetric])
qed

text \<open>C31. A streamed answer is put together as it was sent: whatever keep-alive comments, blank lines and
  end marks the server mixes in, the text of the response is the concatenation of the deltas of
  the events, each delta is reported once and in order, and no second request is made.\<close>

theorem streamed_text_is_assembled:
  assumes "\<And>j. ChunkEvent j \<in> set es \<Longrightarrow> readable ax j" "concat (event_deltas es) \<noteq> []"
    and "http (hosted_call p (streaming_body p q)) w = (LlmSuccess b, w1)"
    and "lb_lines b = map (\<lambda>e. Inr (render_event ax e)) es"
  shows "\<exists>response. hosted_streaming ax http p q w = ((Inr response, event_deltas es), w1) \<and>
     cr_content response = concat (event_deltas es)"
proof -
  obtain s where "read_stream (ax_parse_json ax) (lb_lines b) (new_stream p) = (Inr (), s)"
    "st_deltas s = event_deltas es" "st_content s = concat (event_deltas es)"
    using read_events [of es ax "new_stream p"] assms(1,4) by (auto simp: new_stream_def)
  then show ?thesis using assms(2,3) by (simp add: hosted_streaming_def del: concat_eq_Nil_conv)
qed

section \<open>What the operator is shown\<close>

text \<open>Whatever the lines are, the content is the concatenation of what was reported.\<close>

lemma stream_reports: "concat (st_deltas st) = st_content st \<Longrightarrow>
    concat (st_deltas (snd (read_stream parse ls st))) = st_content (snd (read_stream parse ls st))"
proof (induction parse ls st rule: read_stream.induct)
  case (3 parse line rest st)
  have "concat (st_deltas (stream_line parse line st)) = st_content (stream_line parse line st)"
    using "3.prems" by (auto simp: stream_line_def stream_payload_def Let_def split: option.splits sum.splits)
  with "3.IH" show ?case by simp
qed simp_all

text \<open>A provider that reports what it answers, or nothing.\<close>

locale reporting_provider =
  fixes pv :: "'w llm_provider"
  assumes reports: "lp_streaming pv q w = ((Inr response, deltas), w') \<Longrightarrow>
    concat deltas = cr_content response \<or> concat deltas = []"
begin

lemma draft_events:
  assumes "request_draft ax m pv phase message st = (Inr response, st')"
  shows "\<exists>deltas. pl_events st' = pl_events st @ PlanPhase phase message # map ModelDelta deltas \<and>
     (concat deltas = cr_content response \<or> concat deltas = [])"
proof -
  obtain st1 where charged: "planner_charge ax m st = (Inr (), st1)"
    using assms by (auto simp: request_draft_def split: prod.splits sum.splits)
  obtain q deltas w where streamed: "lp_streaming pv (new_chat_request (pl_messages st1)) (pl_world st1) = ((q, deltas), w)"
    by (metis surj_pair)
  have "q = Inr response" "pl_events st' = pl_events st @ PlanPhase phase message # map ModelDelta deltas"
    using assms planner_charge_frame(2) [of ax m st] by (auto simp: request_draft_def Let_def charged streamed)
  with reports [of "new_chat_request (pl_messages st1)"] streamed show ?thesis by blast
qed

end

lemma hosted_reports:
  assumes "hosted_streaming ax http p q w = ((Inr response, deltas), w')"
  shows "concat deltas = cr_content response \<or> concat deltas = []"
proof -
  have "concat (st_deltas s) = st_content s"
    if "read_stream (ax_parse_json ax) ls (new_stream p) = (r, s)" for ls r s
    using stream_reports [of "new_stream p" "ax_parse_json ax" ls] that by (simp add: new_stream_def)
  then show ?thesis
    using assms by (fastforce simp: hosted_streaming_def Let_def split: prod.splits llm_reply.splits sum.splits if_splits)
qed

interpretation hosted: reporting_provider "hosted_llm ax http p" for ax http p
  by unfold_locales (auto simp: hosted_llm_def dest: hosted_reports)

interpretation unstreamed: reporting_provider "\<lparr>lp_name = name, lp_complete = answer, lp_streaming = default_streaming answer\<rparr>"
  for name answer
  by unfold_locales (auto simp: default_streaming_def split: prod.splits sum.splits)

text \<open>The drafts of a hosted model are shown to the operator as they stream: after the announcement of
  the call come its deltas, which make up the draft, or are blank when it was not streamed.\<close>

lemma hosted_drafts_are_shown:
  "request_draft ax m (hosted_llm ax http p) phase message st = (Inr response, st') \<Longrightarrow>
     \<exists>deltas. pl_events st' = pl_events st @ PlanPhase phase message # map ModelDelta deltas \<and>
       (concat deltas = cr_content response \<or> concat deltas = [])"
  by (rule hosted.draft_events)

text \<open>A server that refuses to stream is asked again, and then nothing is reported: the caller of the
  streaming call sees no delta, although a provider that cannot stream reports its answer as one.\<close>

lemma refused_stream_is_silent:
  assumes "http (hosted_call p (streaming_body p q)) w = (LlmStatus status b, w1)" "refuses_streaming status"
  shows "hosted_streaming ax http p q w = ((fst (hosted_complete http p q w1), []), snd (hosted_complete http p q w1))"
  using assms by (simp add: hosted_streaming_def Let_def case_prod_beta)

text \<open>The chunks of the mock provider are cut at bytes, and a chunk that cuts a character is dropped.\<close>

lemma mock_loses_text: "mock_deltas (replicate 11 CHR ''a'' @ [CHR 0xE9]) = []"
  by code_simp

section \<open>Requests\<close>

text \<open>Over a log of the requests, a streamed completion makes one or two; every one goes to the
  endpoint, and the key is nowhere but in its header.\<close>

definition logs_calls :: "'w llm_http \<Rightarrow> ('w \<Rightarrow> llm_call list) \<Rightarrow> bool" where
  "logs_calls http calls \<longleftrightarrow> (\<forall>call w. calls (snd (http call w)) = calls w @ [call])"

lemma logged_call: "logs_calls http calls \<Longrightarrow> http call w = (r, w') \<Longrightarrow> calls w' = calls w @ [call]"
  by (metis logs_calls_def snd_conv)

lemma hosted_requests:
  assumes "logs_calls http calls" "hosted_streaming ax http p q w = (r, w')"
  shows "calls w' = calls w @ [hosted_call p (streaming_body p q)] \<or>
     calls w' = calls w @ [hosted_call p (streaming_body p q), hosted_call p (json_obj (request_fields p q))]"
  using assms(2)
  by (auto simp: hosted_streaming_def hosted_complete_def Let_def split: prod.splits llm_reply.splits sum.splits if_splits
      dest!: logged_call [OF assms(1)])

lemma key_stays_in_its_header:
  "streaming_body (p\<lparr>hp_api_key := key\<rparr>) q = streaming_body p q"
  "request_fields (p\<lparr>hp_api_key := key\<rparr>) q = request_fields p q"
  "filter (\<lambda>(name, v). name \<noteq> ''authorization'') (lc_headers (hosted_call (p\<lparr>hp_api_key := key\<rparr>) body)) =
     [(''content-type'', ''application/json'')]"
  by (auto simp: streaming_body_def request_fields_def hosted_call_def split: option.splits)

section \<open>A stream, read\<close>

definition demo_chunk :: "string \<Rightarrow> json" where
  "demo_chunk s = json_obj [(''choices'', JArr [json_obj [(''delta'', json_obj [(''content'', JStr s)])]])]"

definition demo_parser :: agent_externs where
  "demo_parser = demo_agent_externs
     \<lparr>ax_json_text := (\<lambda>j. if j = demo_chunk ''Hel'' then ''{1}'' else ''{2}''),
      ax_parse_json := (\<lambda>s. if s = ''{1}'' then Inr (demo_chunk ''Hel'') else if s = ''{2}'' then Inr (demo_chunk ''lo'') else Inl ''?'')\<rparr>"

definition demo_stream :: "server_event list" where
  "demo_stream = [CommentEvent '' ping'', ChunkEvent (demo_chunk ''Hel''), BlankEvent, ChunkEvent (demo_chunk ''lo''), DoneEvent]"

definition stream_http :: "llm_call list llm_http" where
  "stream_http call w = (LlmSuccess \<lparr>lb_text = Inl [], lb_json = Inl [], lb_lines = map (\<lambda>e. Inr (render_event demo_parser e)) demo_stream\<rparr>,
     w @ [call])"

lemma streamed_text_is_assembled_witness:
  "\<exists>response w1. hosted_streaming demo_parser stream_http (new_hosted ''http://host'' ''m'' None) (new_chat_request []) [] =
     ((Inr response, [''Hel'', ''lo'']), w1) \<and> cr_content response = ''Hello'' \<and> length w1 = 1"
proof -
  have different: "demo_chunk ''lo'' \<noteq> demo_chunk ''Hel''" by code_simp
  have deltas: "event_deltas demo_stream = [''Hel'', ''lo'']" by code_simp
  have trims: "trim ''{1}'' = ''{1}''" "trim ''{2}'' = ''{2}''" by code_simp+
  have readable: "readable demo_parser j" if "ChunkEvent j \<in> set demo_stream" for j
    using that different by (auto simp: demo_stream_def readable_def demo_parser_def trims)
  show ?thesis
    using streamed_text_is_assembled [OF readable, of demo_stream stream_http "new_hosted ''http://host'' ''m'' None" "new_chat_request []" "[]"]
    by (simp add: deltas stream_http_def) force
qed

end
