(* ===== verification/Spec2Isabelle.thy ===== *)
theory Spec2Isabelle
  imports Nodara_Topology Nodara_Expr_Spec Nodara_Control Nodara_Policy Nodara_Audit Nodara_Builtin
    Nodara_Validation_Spec Nodara_Migration Nodara_Runs_Props Nodara_Sessions_Props
    Nodara_Host Nodara_Agent_Session Nodara_Api_Safety Nodara_Platform_Limits
    Nodara_Provider_Props
begin

text \<open>
  Nodara: a workflow engine, its runtime service and the agent that plans workflows for it, modelled
  from the Rust crates \<open>nodara-schema\<close>, \<open>nodara-core\<close>, \<open>nodara-plugin\<close>, \<open>nodara-runtime\<close>,
  \<open>nodara-platform\<close> and \<open>nodara-vision\<close> under \<open>src/Nodara-Core/crates\<close> and \<open>nodara-agent\<close> under \<open>src/Nodara-Agent/crates\<close>.

  The program. A workflow document (nodes, edges, variables) is validated, turned into a graph and
  executed by an engine: nodes run in topological order, a node runs only if an edge taken by an
  earlier node activated it, its configuration is a template over the variables, a capability
  policy and possibly an operator allow it, and its executor may be retried, fail over to an error
  branch or end the run. Operators pause, resume, step and cancel a run through a control handle.
  A run emits numbered events and audit records. The runtime keeps a handle per run that records
  and broadcasts the events, and a store of agent sessions through which an operator answers the
  approval requests of a blocked run; clients reach both over HTTP. The agent is such a client: it asks
  the runtime which node types exist, has a language model draft a workflow over the ones that fit the
  goal, validates and repairs the draft, checks it against its guardrails, publishes it, starts it,
  watches the run, and plans again when the run failed in a way a new plan could repair.
  The nodes that touch a computer are two plug-ins: the desktop (windows, keyboard, mouse, clipboard,
  captures and commands) and vision (finding a template in a capture, reading its text).

  Theories and sources.
  \<^item> \<open>Nodara_Prelude\<close>: ordered string maps (\<open>BTreeMap\<close>, and \<open>HashMap\<close> where the order does not
    matter), results, text and saturating machine arithmetic; \<open>Nodara_F64\<close>: \<open>f64\<close> as exact IEEE
    doubles; \<open>Nodara_Json\<close>: \<open>serde_json::Value\<close> and the accessors in use.
  \<^item> \<open>Nodara_Workflow\<close>: \<open>workflow.rs\<close>, \<open>descriptor.rs\<close>, \<open>version.rs\<close>. \<open>Nodara_Graph\<close>: \<open>graph.rs\<close>;
    \<open>Nodara_Topology\<close> proves its algorithms. \<open>Nodara_Validation\<close>: \<open>validation.rs\<close>;
    \<open>Nodara_Validation_Spec\<close> states exactly which documents are valid. \<open>Nodara_Migration\<close>:
    \<open>migration.rs\<close> and \<open>error.rs\<close> of the schema.
  \<^item> \<open>Nodara_Expr\<close>, \<open>Nodara_Expr_Spec\<close>: \<open>expr.rs\<close>. \<open>Nodara_Control\<close>: \<open>control.rs\<close>.
    \<open>Nodara_Policy\<close>: \<open>policy.rs\<close>. \<open>Nodara_Events\<close>: \<open>event.rs\<close>, \<open>events.rs\<close>. \<open>Nodara_Audit\<close>:
    \<open>audit.rs\<close>. \<open>Nodara_Node\<close>: \<open>error.rs\<close>, \<open>executor.rs\<close>. \<open>Nodara_Template\<close>, \<open>Nodara_Context\<close>:
    \<open>context.rs\<close>. \<open>Nodara_Registry\<close>: \<open>registry.rs\<close>. \<open>Nodara_Builtin\<close>: \<open>builtin.rs\<close>.
  \<^item> \<open>Nodara_Engine\<close>: \<open>engine.rs\<close>, cut into stages at the comments of the source;
    \<open>Nodara_Engine_Trace\<close> (what a stage adds to the stream), \<open>Nodara_Engine_Spec\<close> (the shape of a
    result), \<open>Nodara_Engine_Total\<close> (a run ends) and \<open>Nodara_Engine_Props\<close> (the properties).
  \<^item> \<open>Nodara_Runs\<close>: \<open>runs.rs\<close> and \<open>error.rs\<close> of the runtime; \<open>Nodara_Runs_Spec\<close>, \<open>Nodara_Runs_Props\<close>.
  \<^item> \<open>Nodara_Sessions\<close>: \<open>session.rs\<close>, \<open>sessions.rs\<close>, \<open>approval.rs\<close>; \<open>Nodara_Sessions_Spec\<close>,
    \<open>Nodara_Sessions_Props\<close>.
  \<^item> \<open>Nodara_Extension\<close>: \<open>manifest.rs\<close>, \<open>extension.rs\<close> (schema and core), \<open>discovery.rs\<close>. The plugin
    crate: \<open>Nodara_Jsonrpc\<close> (\<open>jsonrpc.rs\<close>, \<open>error.rs\<close>), \<open>Nodara_Protocol\<close> (\<open>protocol.rs\<close>, with the codecs
    that \<open>serde\<close> derives), \<open>Nodara_Plugin\<close> (\<open>server.rs\<close>), \<open>Nodara_Remote\<close> (\<open>transport.rs\<close>, \<open>client.rs\<close>,
    \<open>executor.rs\<close>), \<open>Nodara_Remote_Props\<close>, and \<open>Nodara_Host\<close> (\<open>host.rs\<close>).
  \<^item> The service: \<open>Nodara_Schema\<close> (\<open>workflow_schema.rs\<close>, \<open>tool.rs\<close>), \<open>Nodara_Service\<close> (\<open>config.rs\<close>,
    \<open>state.rs\<close>), \<open>Nodara_Api\<close> (\<open>api.rs\<close>: routes, handlers, the WebSocket pump), \<open>Nodara_Api_Props\<close>
    and \<open>Nodara_Api_Safety\<close> (the threads of the service as a step relation, and its invariant).
  \<^item> The agent: \<open>Nodara_Guardrails\<close> (\<open>policy.rs\<close>, \<open>error.rs\<close>), \<open>Nodara_Selector\<close> (\<open>selector.rs\<close>),
    \<open>Nodara_Prompt\<close> (\<open>model.rs\<close>, \<open>prompt.rs\<close>), \<open>Nodara_Observation\<close> (\<open>observation.rs\<close>), \<open>Nodara_Planner\<close>
    (\<open>planner.rs\<close>, the trait of \<open>provider.rs\<close>) with \<open>Nodara_Planner_Props\<close>, \<open>Nodara_Provider\<close> (the
    providers of \<open>provider.rs\<close>) with its \<open>_Props\<close>, \<open>Nodara_Report\<close> (\<open>audit.rs\<close>,
    \<open>report.rs\<close>), \<open>Nodara_Runtime_Client\<close> (\<open>runtime_client.rs\<close>) with its \<open>_Props\<close>, \<open>Nodara_Agent\<close>
    (\<open>agent.rs\<close>) with \<open>Nodara_Agent_Props\<close> (sessions in a guarded world) and \<open>Nodara_Agent_Session\<close>.
  \<^item> The desktop: \<open>Nodara_Keys\<close> (\<open>keys.rs\<close>), \<open>Nodara_Native\<close> (\<open>error.rs\<close>, \<open>win32_stub.rs\<close> and the
    operations a host offers), \<open>Nodara_Window\<close> (\<open>window.rs\<close>, \<open>capture.rs\<close>, \<open>clipboard.rs\<close>), \<open>Nodara_Input\<close>
    (\<open>input.rs\<close>), \<open>Nodara_Command\<close> (\<open>command.rs\<close>) with its \<open>_Props\<close>, \<open>Nodara_Platform\<close> (\<open>lib.rs\<close>),
    \<open>Nodara_Platform_Props\<close> (the keyboard), \<open>Nodara_Mouse_Props\<close> (the mouse), \<open>Nodara_Win32\<close> (\<open>win32.rs\<close>,
    as programs of calls to the Windows API) with its \<open>_Props\<close>. Vision: \<open>Nodara_F32\<close> (\<open>f32\<close>),
    \<open>Nodara_Vision\<close> (\<open>template.rs\<close>, \<open>ocr.rs\<close>, \<open>backend.rs\<close>) with its \<open>_Props\<close>. \<open>Nodara_Platform_Limits\<close>
    shows where the nodes of both fall short of what they announce.

  State, effects and other threads. A struct behind a mutex is a record that operations return
  updated; a thread that blocks takes what the other threads do in the meantime from a list: the
  batches of operator requests in a control handle, the operations on the session store while a
  run waits for an answer. Where two threads can interleave inside one operation the operation is
  also given as steps of a relation (\<open>publish_step\<close>). Clocks, sleeping and identifiers are the
  operations of a \<open>machine\<close> on an abstract world, about which nothing is assumed unless a theorem
  says so. Errors are values: \<open>result\<close> is a sum with the error on the left; \<open>None\<close> as the result of
  a step of the engine means that the run thread never returns from it.

  What the lemmas show. Graphs: Kahn's order exists exactly when there is no control cycle, the
  cycle search finds one exactly then, reachability is exact. Expressions: evaluation of a rendered
  expression gives its value, and evaluation always ends. Control: the flags refine a gate that is
  open, lets a number of nodes pass or is shut. Policies: a chain is as strict as its strictest
  member. Audit: reopening a log continues its numbering. Templates and context: a secret never
  reaches a resolved text, authorisation follows policy and approver. Built-ins: each acts on the
  context through its operations only, with exact results for sums and delays. Validation: the
  verdict is an explicit predicate, and a valid document can be scheduled. Migration: what an upgraded
  document keeps of the old one, and that the settings of a node are not among it. Engine: for every
  document, policy, approver, set of executors and behaviour of the operators, the stream of a run
  is well formed, nodes run at most once, in dependency order and only when activated, nothing of a
  started run shows a secret, a denied node type never starts, retries are bounded, and a run ends
  under stated conditions. Runs: the handle agrees with the outcome, a finished run does not change,
  a subscriber misses nothing when one thread publishes (and can miss the end of the run when two
  do). Sessions: a gated capability is allowed only by a decision on that very request.
  Plugins: messages survive the wire, a remote node acts like its executor run in isolation, a reply
  reaches the request that asked for it, and installing plugins replaces no executor. Service: whatever
  requests and run threads interleave, the shared state stays well formed; a run is created exactly
  when its document passes and its session exists; a WebSocket client misses no event; every request
  of the agent's client reaches its handler; the published schema knows exactly the installed types.
  Agent: a session ends, starts at most two runs and only of documents its guardrails allow, and
  leaves its published session in the status of its outcome; the outcome of planning is the verdict of
  the validator, model calls are paid before they are made, a streamed answer is put together as it was sent, and a plan accepted over the catalogue of
  a runtime is accepted by that runtime. Desktop: every node acts on the context by its interface
  only; over a log of the input events, what goes down comes up again, in the right order and as often
  as asked, also when the node fails or is cancelled half way; a key typed for a character types that
  character; the words of a command reach the program as they are, and a command with a deadline ends
  and leaves no process; over the recorded calls to Windows, every handle is closed, lock released and
  bitmap unselected exactly once on every path, and the wrappers are the desktop that the nodes are
  proved against. Vision: the search reads no pixel out of range, looks at every coarse position and at
  every position around the winner, and reports the best it saw.

  Interfaces. \<open>keyed_map\<close> (maps), \<open>gating_policy\<close>, \<open>run_gate\<close>, \<open>event_sink\<close>, \<open>recording_sink\<close>,
  \<open>retaining_log\<close>, \<open>context_executor\<close> with its extension \<open>locking_executor\<close>, \<open>answering_handler\<close>,
  \<open>guarded_world\<close>, \<open>reporting_provider\<close>, \<open>context_relation\<close> and \<open>recorded_calls\<close> are locales, each interpreted on the definitions of the code that provide it.

  Bounds and fuel. Loops of the source that count down are structural or have a measure. Fuel
  appears in the cycle search (one more than the number of nodes is enough) and in the binary
  levels of the expression parser (one more than the number of tokens); both are proved enough. The
  retry loop is a partial function, because at the largest retry count it never ends. Counters keep
  their width: sequence numbers are 64 bits, the step budget and retry counts 32 bits, with
  wrap-around or saturation as in the source.

  Parameters. Code outside the repository is an argument: \<open>powf\<close>, the text \<open>serde_json\<close> prints for
  a value and for an error, the encodings \<open>serde\<close> derives for the types of the interface, \<open>base64\<close>, the
  file system, starting a plugin process, the HTTP library of the agent, and the language model. For the
  desktop and vision: the host (\<open>native\<close>; for Windows the answers of the API, \<open>winapi\<close>), the processes
  (\<open>processes\<close>), the decoding and encoding of images (\<open>image_codec\<close>) and the outside of an OCR backend
  (\<open>vision_host\<close>). What a theorem needs of them is a named law: \<open>input_log\<close> (which operations are input
  events), \<open>process_laws\<close>, \<open>advancing_clock\<close> and \<open>streams_end\<close> (processes and time), each shown to hold
  of a concrete host.
  Characters are single code points of the type \<open>char\<close>; text beyond it is not modelled, and the
  iteration order of a \<open>HashMap\<close> is taken to be that of its keys.

  Not modelled, and why. JSON encoding and decoding by derived \<open>serde\<close> code outside the plugin protocol, the
  HTTP server, sockets and threads themselves. The command lines (\<open>nodara-cli\<close>, \<open>nodara-agent\<close>, the
  \<open>main\<close> of each plug-in), the test kit, the Tauri shell and the TypeScript editor parse arguments, start
  processes and call what is modelled here.
\<close>

end
